(* ===== verification/Prelude.thy ===== *)
theory Prelude
  imports Main "HOL-Library.Word" "HOL-Library.Signed_Division"
begin

text \<open>
  Shared vocabulary of the development: machine integers with their Rust overflow behaviour,
  addresses and the Soroban invocation environment, the contract monad in which every entrypoint
  is written, and the generic facts about lists and sums that the component theories use.

  The contracts are compiled with \<^verbatim>\<open>overflow-checks = true\<close> and \<^verbatim>\<open>panic = "abort"\<close>
  (release profile of the workspace \<^verbatim>\<open>Cargo.toml\<close>), so plain \<open>+\<close>, \<open>-\<close> and \<open>*\<close> on a
  machine integer trap when the result does not fit. Integers are kept as \<open>nat\<close> or \<open>int\<close> and
  every operation that can leave the width is one of the checked operations below.
\<close>

section \<open>Automation collections\<close>

named_theorems ok_iff "inversion of a successful run of a contract computation"
named_theorems run_simps "forward evaluation of contract computations"

section \<open>Machine integers\<close>

type_synonym u32 = nat
type_synonym u64 = nat
type_synonym i128 = int
type_synonym bytes = "8 word list"

definition u32_max :: nat where "u32_max = 2 ^ 32 - 1"
definition u64_max :: nat where "u64_max = 2 ^ 64 - 1"
definition i128_max :: int where "i128_max = 2 ^ 127 - 1"
definition i128_min :: int where "i128_min = - (2 ^ 127)"

definition in_i128 :: "int \<Rightarrow> bool" where
  "in_i128 x \<longleftrightarrow> i128_min \<le> x \<and> x \<le> i128_max"

text \<open>Rust's \<open>checked_*\<close> and \<open>saturating_*\<close> on \<open>i128\<close>; division truncates towards zero.\<close>

definition checked_add :: "i128 \<Rightarrow> i128 \<Rightarrow> i128 option" where
  "checked_add a b = (if in_i128 (a + b) then Some (a + b) else None)"

definition checked_sub :: "i128 \<Rightarrow> i128 \<Rightarrow> i128 option" where
  "checked_sub a b = (if in_i128 (a - b) then Some (a - b) else None)"

definition checked_mul :: "i128 \<Rightarrow> i128 \<Rightarrow> i128 option" where
  "checked_mul a b = (if in_i128 (a * b) then Some (a * b) else None)"

definition checked_div :: "i128 \<Rightarrow> i128 \<Rightarrow> i128 option" where
  "checked_div a b = (if b = 0 \<or> \<not> in_i128 (a sdiv b) then None else Some (a sdiv b))"

definition clamp_i128 :: "int \<Rightarrow> i128" where
  "clamp_i128 x = (if x > i128_max then i128_max else if x < i128_min then i128_min else x)"

definition saturating_add :: "i128 \<Rightarrow> i128 \<Rightarrow> i128" where
  "saturating_add a b = clamp_i128 (a + b)"

definition saturating_sub :: "i128 \<Rightarrow> i128 \<Rightarrow> i128" where
  "saturating_sub a b = clamp_i128 (a - b)"

definition saturating_mul :: "i128 \<Rightarrow> i128 \<Rightarrow> i128" where
  "saturating_mul a b = clamp_i128 (a * b)"

definition saturating_add_u64 :: "u64 \<Rightarrow> u64 \<Rightarrow> u64" where
  "saturating_add_u64 a b = min u64_max (a + b)"

lemma i128_numerals:
  "i128_max = 170141183460469231731687303715884105727"
  "i128_min = - 170141183460469231731687303715884105728"
  "u32_max = 4294967295"
  "u64_max = 18446744073709551615"
  by (simp_all add: i128_max_def i128_min_def u32_max_def u64_max_def)

lemma sdiv_nonneg: "0 \<le> a \<Longrightarrow> 0 < b \<Longrightarrow> a sdiv b = a div (b :: int)"
  by (simp add: signed_divide_int_def sgn_if)

lemma clamp_in_range [simp]: "in_i128 x \<Longrightarrow> clamp_i128 x = x"
  by (auto simp: clamp_i128_def in_i128_def)

lemma in_i128_clamp [simp]: "in_i128 (clamp_i128 x)"
  by (auto simp: clamp_i128_def in_i128_def i128_numerals)

section \<open>Addresses and the invocation environment\<close>

text \<open>
  A Soroban \<open>Address\<close> names a user account (a \<open>G...\<close> key) or a deployed contract (a \<open>C...\<close>
  key).
\<close>

datatype address = Account nat | Contract nat

text \<open>
  The host supplies the ledger timestamp, the address of the running contract, the network id,
  the set of addresses that authorized this invocation (\<open>require_auth\<close> traps for any other) and
  \<open>Address::executable().is_some()\<close>.
\<close>

record env =
  ledger_timestamp :: u64
  current_contract_address :: address
  network_id :: bytes
  authorized :: "address \<Rightarrow> bool"
  has_executable :: "address \<Rightarrow> bool"

section \<open>The contract monad\<close>

text \<open>
  A contract computation reads and writes a state \<open>'s\<close> and either returns a value, returns a
  typed error (Rust's \<open>Err\<close>) or traps. An error keeps the state it was raised in, because a
  caller inside the same frame may catch it and go on.
\<close>

datatype ('e, 'a) result = Ok 'a | Err 'e | Panic

type_synonym ('e, 's, 'a) contract = "'s \<Rightarrow> ('e, 'a) result \<times> 's"

definition return :: "'a \<Rightarrow> ('e, 's, 'a) contract" where
  "return v = (\<lambda>s. (Ok v, s))"

definition throw :: "'e \<Rightarrow> ('e, 's, 'a) contract" where
  "throw e = (\<lambda>s. (Err e, s))"

definition panic :: "('e, 's, 'a) contract" where
  "panic = (\<lambda>s. (Panic, s))"

definition bind :: "('e, 's, 'a) contract \<Rightarrow> ('a \<Rightarrow> ('e, 's, 'b) contract)
    \<Rightarrow> ('e, 's, 'b) contract" where
  "bind m f = (\<lambda>s. case m s of
      (Ok v, s') \<Rightarrow> f v s'
    | (Err e, s') \<Rightarrow> (Err e, s')
    | (Panic, s') \<Rightarrow> (Panic, s'))"

text \<open>\<open>andthen m k\<close> is the statement sequence \<open>m?; k\<close>.\<close>

definition andthen :: "('e, 's, unit) contract \<Rightarrow> ('e, 's, 'b) contract
    \<Rightarrow> ('e, 's, 'b) contract" where
  "andthen m k = bind m (\<lambda>_. k)"

definition gets :: "('s \<Rightarrow> 'a) \<Rightarrow> ('e, 's, 'a) contract" where
  "gets f = (\<lambda>s. (Ok (f s), s))"

definition modify :: "('s \<Rightarrow> 's) \<Rightarrow> ('e, 's, unit) contract" where
  "modify f = (\<lambda>s. (Ok (), f s))"

text \<open>\<open>if !b { return Err(e); }\<close>\<close>

definition ensure :: "bool \<Rightarrow> 'e \<Rightarrow> ('e, 's, unit) contract" where
  "ensure b e = (if b then return () else throw e)"

text \<open>\<open>opt.ok_or(e)?\<close>\<close>

definition ok_or :: "'a option \<Rightarrow> 'e \<Rightarrow> ('e, 's, 'a) contract" where
  "ok_or x e = (case x of None \<Rightarrow> throw e | Some v \<Rightarrow> return v)"

text \<open>\<open>opt.expect(..)\<close>, and every checked machine operation that traps on overflow.\<close>

definition expect :: "'a option \<Rightarrow> ('e, 's, 'a) contract" where
  "expect x = (case x of None \<Rightarrow> panic | Some v \<Rightarrow> return v)"

text \<open>\<open>r?\<close> for a pure \<open>Result\<close>.\<close>

definition try_result :: "'e + 'a \<Rightarrow> ('e, 's, 'a) contract" where
  "try_result r = (case r of Inl e \<Rightarrow> throw e | Inr v \<Rightarrow> return v)"

definition when_do :: "bool \<Rightarrow> ('e, 's, unit) contract \<Rightarrow> ('e, 's, unit) contract" where
  "when_do b m = (if b then m else return ())"

primrec for_each :: "'a list \<Rightarrow> ('a \<Rightarrow> ('e, 's, unit) contract) \<Rightarrow> ('e, 's, unit) contract" where
  "for_each [] f = return ()"
| "for_each (x # xs) f = andthen (f x) (for_each xs f)"

definition require_auth :: "env \<Rightarrow> address \<Rightarrow> ('e, 's, unit) contract" where
  "require_auth E a = (if authorized E a then return () else panic)"

definition add_u32 :: "u32 \<Rightarrow> u32 \<Rightarrow> ('e, 's, u32) contract" where
  "add_u32 a b = (if a + b \<le> u32_max then return (a + b) else panic)"

definition add_u64 :: "u64 \<Rightarrow> u64 \<Rightarrow> ('e, 's, u64) contract" where
  "add_u64 a b = (if a + b \<le> u64_max then return (a + b) else panic)"

definition add_i128 :: "i128 \<Rightarrow> i128 \<Rightarrow> ('e, 's, i128) contract" where
  "add_i128 a b = expect (checked_add a b)"

definition sub_i128 :: "i128 \<Rightarrow> i128 \<Rightarrow> ('e, 's, i128) contract" where
  "sub_i128 a b = expect (checked_sub a b)"

definition mul_i128 :: "i128 \<Rightarrow> i128 \<Rightarrow> ('e, 's, i128) contract" where
  "mul_i128 a b = expect (checked_mul a b)"

text \<open>
  The host applies a top-level invocation atomically: when it returns an error or traps, every
  storage write and every event of the frame is discarded.
\<close>

definition invoke :: "('e, 's, 'a) contract \<Rightarrow> ('e, 's, 'a) contract" where
  "invoke m = (\<lambda>s. case m s of
      (Ok v, s') \<Rightarrow> (Ok v, s')
    | (Err e, _) \<Rightarrow> (Err e, s)
    | (Panic, _) \<Rightarrow> (Panic, s))"

subsection \<open>Inversion and evaluation\<close>

lemma return_ok [ok_iff]: "return a s = (Ok v, s') \<longleftrightarrow> v = a \<and> s' = s"
  by (auto simp: return_def)

lemma throw_ok [ok_iff]: "throw e s = (Ok v, s') \<longleftrightarrow> False"
  by (simp add: throw_def)

lemma panic_ok [ok_iff]: "panic s = (Ok v, s') \<longleftrightarrow> False"
  by (simp add: panic_def)

lemma bind_ok [ok_iff]:
  "bind m f s = (Ok v, s') \<longleftrightarrow> (\<exists>a s1. m s = (Ok a, s1) \<and> f a s1 = (Ok v, s'))"
  by (auto simp: bind_def split: prod.splits result.splits)

lemma andthen_ok [ok_iff]:
  "andthen m k s = (Ok v, s') \<longleftrightarrow> (\<exists>s1. m s = (Ok (), s1) \<and> k s1 = (Ok v, s'))"
  by (auto simp: andthen_def bind_ok)

lemma gets_ok [ok_iff]: "gets f s = (Ok v, s') \<longleftrightarrow> v = f s \<and> s' = s"
  by (auto simp: gets_def)

lemma modify_ok [ok_iff]: "modify f s = (Ok u, s') \<longleftrightarrow> s' = f s"
  by (auto simp: modify_def)

lemma ensure_ok [ok_iff]: "ensure b e s = (Ok u, s') \<longleftrightarrow> b \<and> s' = s"
  by (auto simp: ensure_def return_def throw_def)

lemma ok_or_ok [ok_iff]: "ok_or x e s = (Ok v, s') \<longleftrightarrow> x = Some v \<and> s' = s"
  by (auto simp: ok_or_def return_def throw_def split: option.splits)

lemma expect_ok [ok_iff]: "expect x s = (Ok v, s') \<longleftrightarrow> x = Some v \<and> s' = s"
  by (auto simp: expect_def return_def panic_def split: option.splits)

lemma try_result_ok [ok_iff]: "try_result r s = (Ok v, s') \<longleftrightarrow> r = Inr v \<and> s' = s"
  by (auto simp: try_result_def return_def throw_def split: sum.splits)

lemma when_do_ok [ok_iff]:
  "when_do b m s = (Ok u, s') \<longleftrightarrow> (if b then m s = (Ok u, s') else s' = s)"
  by (auto simp: when_do_def return_def)

lemma require_auth_ok [ok_iff]: "require_auth E a s = (Ok u, s') \<longleftrightarrow> authorized E a \<and> s' = s"
  by (auto simp: require_auth_def return_def panic_def)

lemma add_u32_ok [ok_iff]:
  "add_u32 a b s = (Ok v, s') \<longleftrightarrow> a + b \<le> u32_max \<and> v = a + b \<and> s' = s"
  by (auto simp: add_u32_def return_def panic_def)

lemma add_u64_ok [ok_iff]:
  "add_u64 a b s = (Ok v, s') \<longleftrightarrow> a + b \<le> u64_max \<and> v = a + b \<and> s' = s"
  by (auto simp: add_u64_def return_def panic_def)

lemma checked_arith_Some:
  "checked_add a b = Some v \<longleftrightarrow> in_i128 (a + b) \<and> v = a + b"
  "checked_sub a b = Some v \<longleftrightarrow> in_i128 (a - b) \<and> v = a - b"
  "checked_mul a b = Some v \<longleftrightarrow> in_i128 (a * b) \<and> v = a * b"
  "checked_div a b = Some v \<longleftrightarrow> b \<noteq> 0 \<and> in_i128 (a sdiv b) \<and> v = a sdiv b"
  by (auto simp: checked_add_def checked_sub_def checked_mul_def checked_div_def)

lemma arith_i128_ok [ok_iff]:
  "add_i128 a b s = (Ok v, s') \<longleftrightarrow> in_i128 (a + b) \<and> v = a + b \<and> s' = s"
  "sub_i128 a b s = (Ok v, s') \<longleftrightarrow> in_i128 (a - b) \<and> v = a - b \<and> s' = s"
  "mul_i128 a b s = (Ok v, s') \<longleftrightarrow> in_i128 (a * b) \<and> v = a * b \<and> s' = s"
  by (auto simp: add_i128_def sub_i128_def mul_i128_def expect_ok checked_arith_Some)

lemma invoke_ok [ok_iff]: "invoke m s = (Ok v, s') \<longleftrightarrow> m s = (Ok v, s')"
  by (auto simp: invoke_def split: prod.splits result.splits)

lemma invoke_failed:
  "invoke m s = (r, s') \<Longrightarrow> (\<forall>v. r \<noteq> Ok v) \<Longrightarrow> s' = s"
  by (auto simp: invoke_def split: prod.splits result.splits)

lemmas contract_run [run_simps] =
  return_def throw_def panic_def bind_def andthen_def gets_def modify_def ensure_def
  ok_or_def expect_def try_result_def when_do_def require_auth_def add_u32_def add_u64_def
  add_i128_def sub_i128_def mul_i128_def invoke_def checked_add_def checked_sub_def
  checked_mul_def

text \<open>An entrypoint of which only the state change matters.\<close>

definition discard :: "('e, 's, 'a) contract \<Rightarrow> ('e, 's, unit) contract" where
  "discard m = bind m (\<lambda>_. return ())"

lemma discard_ok [ok_iff]: "discard m s = (Ok u, s') \<longleftrightarrow> (\<exists>v. m s = (Ok v, s'))"
  by (auto simp: discard_def ok_iff)

section \<open>Pure fallible functions\<close>

text \<open>\<open>if !b { return Err(e); }\<close> and the sequence \<open>r?; k\<close> in a function that touches no state.\<close>

definition check :: "bool \<Rightarrow> 'e \<Rightarrow> 'e + unit" where
  "check b e = (if b then Inr () else Inl e)"

definition try_then :: "'e + 'a \<Rightarrow> ('a \<Rightarrow> 'e + 'b) \<Rightarrow> 'e + 'b" where
  "try_then r k = (case r of Inl e \<Rightarrow> Inl e | Inr v \<Rightarrow> k v)"

definition opt_ok_or :: "'a option \<Rightarrow> 'e \<Rightarrow> 'e + 'a" where
  "opt_ok_or x e = (case x of None \<Rightarrow> Inl e | Some v \<Rightarrow> Inr v)"

lemma check_ok [ok_iff]: "check b e = Inr u \<longleftrightarrow> b"
  by (simp add: check_def)

lemma try_then_ok [ok_iff]: "try_then r k = Inr v \<longleftrightarrow> (\<exists>a. r = Inr a \<and> k a = Inr v)"
  by (cases r) (simp_all add: try_then_def)

lemma opt_ok_or_ok [ok_iff]: "opt_ok_or x e = Inr v \<longleftrightarrow> x = Some v"
  by (cases x) (simp_all add: opt_ok_or_def)

lemma pure_err_iff:
  "check b e = Inl e' \<longleftrightarrow> \<not> b \<and> e' = e"
  "try_then r k = Inl e' \<longleftrightarrow> r = Inl e' \<or> (\<exists>a. r = Inr a \<and> k a = Inl e')"
  "opt_ok_or x e = Inl e' \<longleftrightarrow> x = None \<and> e' = e"
  by (auto simp: check_def try_then_def opt_ok_or_def split: sum.splits option.splits)

section \<open>Host state shared by every contract: foreign contracts and events\<close>

text \<open>
  \<open>ext\<close> is the state of all other contracts (tokens, the market, the treasury), opaque to the
  running one; \<open>events\<close> is the list of published events. Each contract's storage record
  extends this one. Soroban forbids reentry, so a foreign call changes \<open>ext\<close> only.
\<close>

record ('x, 'ev) host =
  ext :: 'x
  events :: "'ev list"

definition emit :: "'ev \<Rightarrow> ('e, ('x, 'ev, 'more) host_scheme, unit) contract" where
  "emit ev = modify (\<lambda>s. s\<lparr>events := events s @ [ev]\<rparr>)"

text \<open>\<open>env.invoke_contract\<close>: a failing callee traps the caller.\<close>

definition invoke_contract :: "('x \<Rightarrow> ('v \<times> 'x) option)
    \<Rightarrow> ('e, ('x, 'ev, 'more) host_scheme, 'v) contract" where
  "invoke_contract f = (\<lambda>s. case f (ext s) of
      None \<Rightarrow> (Panic, s)
    | Some (v, x) \<Rightarrow> (Ok v, s\<lparr>ext := x\<rparr>))"

lemma emit_ok [ok_iff]: "emit ev s = (Ok u, s') \<longleftrightarrow> s' = s\<lparr>events := events s @ [ev]\<rparr>"
  by (simp add: emit_def modify_ok)

lemma invoke_contract_ok [ok_iff]:
  "invoke_contract f s = (Ok v, s') \<longleftrightarrow> (\<exists>x. f (ext s) = Some (v, x) \<and> s' = s\<lparr>ext := x\<rparr>)"
  by (auto simp: invoke_contract_def split: option.splits)

lemmas host_run [run_simps] = emit_def invoke_contract_def

section \<open>Loops\<close>

text \<open>The rule every loop proof of the development uses: an invariant indexed by the rest.\<close>

lemma for_each_invariant:
  assumes "for_each xs f s = (Ok u, s')"
    and "P xs s"
    and "\<And>y ys t u t'. P (y # ys) t \<Longrightarrow> f y t = (Ok u, t') \<Longrightarrow> P ys t'"
  shows "P [] s'"
  using assms(1,2)
proof (induction xs arbitrary: s)
  case Nil
  then show ?case by (simp add: return_ok)
next
  case (Cons x xs)
  then obtain t where "f x s = (Ok (), t)" and rest: "for_each xs f t = (Ok u, s')"
    by (auto simp: andthen_ok)
  with Cons.prems(2) assms(3) have "P xs t" by blast
  with rest show ?case by (rule Cons.IH)
qed

section \<open>Sums\<close>

lemma sum_change_one:
  fixes f g :: "'a \<Rightarrow> int"
  assumes "finite A" and "k \<in> A" and "\<And>i. i \<in> A \<Longrightarrow> i \<noteq> k \<Longrightarrow> g i = f i"
  shows "sum g A = sum f A - f k + g k"
proof -
  have "sum g (A - {k}) = sum f (A - {k})"
    using assms(3) by (intro sum.cong) auto
  with sum.remove[OF assms(1,2), of g] sum.remove[OF assms(1,2), of f] show ?thesis
    by simp
qed

section \<open>Computations without typed errors\<close>

definition no_err :: "('e, 's, 'a) contract \<Rightarrow> bool" where
  "no_err m \<longleftrightarrow> (\<forall>s e. fst (m s) \<noteq> Err e)"

lemma no_err_neutral:
  "no_err (return v)" "no_err panic" "no_err (gets f)" "no_err (modify g)" "no_err (expect x)"
  "no_err (require_auth E a)" "no_err (add_u32 m n)" "no_err (add_u64 m n)"
  "no_err (add_i128 i j)" "no_err (sub_i128 i j)" "no_err (mul_i128 i j)"
  "no_err (emit ev)" "no_err (invoke_contract h)"
  by (auto simp: no_err_def run_simps split: option.splits)

lemma no_err_bind: "no_err m \<Longrightarrow> (\<And>a. no_err (f a)) \<Longrightarrow> no_err (bind m f)"
  by (auto simp: no_err_def bind_def split: prod.splits result.splits) (metis fst_conv)

lemma no_err_andthen: "no_err m \<Longrightarrow> no_err k \<Longrightarrow> no_err (andthen m k)"
  unfolding andthen_def by (rule no_err_bind)

lemma no_err_when_do: "no_err m \<Longrightarrow> no_err (when_do b m)"
  by (simp add: when_do_def no_err_neutral)

lemma no_err_control:
  "no_err m \<Longrightarrow> no_err k \<Longrightarrow> no_err (if b then m else k)"
  "no_err m \<Longrightarrow> (\<And>y. no_err (f y)) \<Longrightarrow> no_err (case x of None \<Rightarrow> m | Some y \<Rightarrow> f y)"
  "(\<And>a b. no_err (g a b)) \<Longrightarrow> no_err (case p of (a, b) \<Rightarrow> g a b)"
  "no_err (h z) \<Longrightarrow> no_err (let y = z in h y)"
  by (auto split: option.splits prod.splits)

lemma no_err_for_each: "(\<And>x. no_err (f x)) \<Longrightarrow> no_err (for_each xs f)"
  by (induction xs) (auto intro: no_err_neutral no_err_andthen)

lemmas no_err_rules = no_err_neutral no_err_bind no_err_andthen no_err_when_do
  no_err_control no_err_for_each

section \<open>Computations that do not look at a part of the state\<close>

text \<open>\<open>blind_to f m\<close>: changing the state by \<open>f\<close> before or after running \<open>m\<close> is the same.\<close>

definition blind_to :: "('s \<Rightarrow> 's) \<Rightarrow> ('e, 's, 'a) contract \<Rightarrow> bool" where
  "blind_to f m \<longleftrightarrow> (\<forall>s. m (f s) = (fst (m s), f (snd (m s))))"

lemma blind_neutral:
  "blind_to f (return v)" "blind_to f (throw e)" "blind_to f panic" "blind_to f (ensure b e)"
  "blind_to f (ok_or x e)" "blind_to f (expect x)" "blind_to f (try_result r)"
  "blind_to f (require_auth E a)" "blind_to f (add_u32 m n)" "blind_to f (add_u64 m n)"
  "blind_to f (add_i128 i j)"
  by (auto simp: blind_to_def run_simps split: option.splits sum.splits)

lemma blind_gets: "(\<And>s. g (f s) = g s) \<Longrightarrow> blind_to f (gets g)"
  by (simp add: blind_to_def gets_def)

lemma blind_modify: "(\<And>s. g (f s) = f (g s)) \<Longrightarrow> blind_to f (modify g)"
  by (simp add: blind_to_def modify_def)

lemma blind_bind: "blind_to f m \<Longrightarrow> (\<And>a. blind_to f (k a)) \<Longrightarrow> blind_to f (bind m k)"
  by (auto simp: blind_to_def bind_def split: prod.splits result.splits)

lemma blind_andthen: "blind_to f m \<Longrightarrow> blind_to f k \<Longrightarrow> blind_to f (andthen m k)"
  unfolding andthen_def by (rule blind_bind)

lemma blind_let: "blind_to f (h v) \<Longrightarrow> blind_to f (let x = v in h x)"
  by simp

lemmas blind_rules = blind_neutral blind_bind blind_andthen blind_let

section \<open>Relations every successful run respects\<close>

text \<open>
  \<open>keeps R m\<close>: whenever \<open>m\<close> succeeds, its final state is \<open>R\<close>-related to its initial one. For
  a reflexive and transitive \<open>R\<close> (a frame such as "these keys are unchanged", or a monotone
  counter) the property is compositional; the locale collects the syntax-directed rules.
\<close>

definition keeps :: "('s \<Rightarrow> 's \<Rightarrow> bool) \<Rightarrow> ('e, 's, 'a) contract \<Rightarrow> bool" where
  "keeps R m \<longleftrightarrow> (\<forall>s v s'. m s = (Ok v, s') \<longrightarrow> R s s')"

lemma keepsD: "keeps R m \<Longrightarrow> m s = (Ok v, s') \<Longrightarrow> R s s'"
  by (auto simp: keeps_def)

locale run_relation =
  fixes R :: "'s \<Rightarrow> 's \<Rightarrow> bool"
  assumes R_refl: "R s s"
    and R_trans: "R s t \<Longrightarrow> R t u \<Longrightarrow> R s u"
begin

lemma keeps_neutral:
  "keeps R (return v)" "keeps R (throw e)" "keeps R panic" "keeps R (gets f)"
  "keeps R (ensure b e)" "keeps R (ok_or x e)" "keeps R (expect x)" "keeps R (try_result r)"
  "keeps R (require_auth E a)" "keeps R (add_u32 m n)" "keeps R (add_u64 m n)"
  "keeps R (add_i128 i j)" "keeps R (sub_i128 i j)" "keeps R (mul_i128 i j)"
  by (auto simp: keeps_def ok_iff intro: R_refl)

lemma keeps_bind:
  "keeps R m \<Longrightarrow> (\<And>a. keeps R (f a)) \<Longrightarrow> keeps R (bind m f)"
  unfolding keeps_def bind_ok by (blast intro: R_trans)

lemma keeps_andthen: "keeps R m \<Longrightarrow> keeps R k \<Longrightarrow> keeps R (andthen m k)"
  unfolding andthen_def by (rule keeps_bind)

lemma keeps_modify: "(\<And>s. R s (f s)) \<Longrightarrow> keeps R (modify f)"
  by (auto simp: keeps_def modify_ok)

lemma keeps_when_do: "(b \<Longrightarrow> keeps R m) \<Longrightarrow> keeps R (when_do b m)"
  by (auto simp: when_do_def keeps_neutral)

lemma keeps_if: "(b \<Longrightarrow> keeps R m) \<Longrightarrow> (\<not> b \<Longrightarrow> keeps R n) \<Longrightarrow> keeps R (if b then m else n)"
  by simp

lemma keeps_option:
  "(x = None \<Longrightarrow> keeps R m) \<Longrightarrow> (\<And>y. x = Some y \<Longrightarrow> keeps R (f y)) \<Longrightarrow>
     keeps R (case x of None \<Rightarrow> m | Some y \<Rightarrow> f y)"
  by (cases x) auto

lemma keeps_prod: "(\<And>a b. p = (a, b) \<Longrightarrow> keeps R (f a b)) \<Longrightarrow> keeps R (case p of (a, b) \<Rightarrow> f a b)"
  by (cases p) auto

lemma keeps_let: "keeps R (f v) \<Longrightarrow> keeps R (let x = v in f x)"
  by simp

lemma keeps_for_each: "(\<And>x. keeps R (f x)) \<Longrightarrow> keeps R (for_each xs f)"
  by (induction xs) (auto intro: keeps_neutral keeps_andthen)

lemmas keeps_rules = keeps_neutral keeps_bind keeps_andthen keeps_when_do keeps_if keeps_option
  keeps_prod keeps_let keeps_for_each

end

end
