(* ===== verification/Interfaces.thy ===== *)
theory Interfaces
  imports Prelude
begin

text \<open>
  The interfaces between the contracts and what lies behind them: SEP-41 token contracts (the
  market's collateral), and the propose/execute timelock that every privileged address change
  of the protocol is meant to go through. Both are locales; the token locale is interpreted here
  on a reference ledger, the timelock locale in the theories of the contracts that provide it.
\<close>

section \<open>SEP-41 tokens\<close>

text \<open>
  \<open>soroban_sdk::token::Client\<close> is not part of the repository. A client is its two operations
  the contracts call; each traps (\<open>None\<close>) or changes the foreign state.
\<close>

record 'x token_client =
  tok_transfer :: "address \<Rightarrow> address \<Rightarrow> address \<Rightarrow> i128 \<Rightarrow> 'x \<Rightarrow> (unit \<times> 'x) option"
  tok_burn :: "address \<Rightarrow> address \<Rightarrow> i128 \<Rightarrow> 'x \<Rightarrow> (unit \<times> 'x) option"

definition token_transfer :: "'x token_client \<Rightarrow> address \<Rightarrow> address \<Rightarrow> address \<Rightarrow> i128
    \<Rightarrow> ('e, ('x, 'ev, 'more) host_scheme, unit) contract" where
  "token_transfer T token from to amount = invoke_contract (tok_transfer T token from to amount)"

definition token_burn :: "'x token_client \<Rightarrow> address \<Rightarrow> address \<Rightarrow> i128
    \<Rightarrow> ('e, ('x, 'ev, 'more) host_scheme, unit) contract" where
  "token_burn T token from amount = invoke_contract (tok_burn T token from amount)"

lemma token_transfer_ok [ok_iff]:
  "token_transfer T token from to n s = (Ok u, s') \<longleftrightarrow>
     (\<exists>x. tok_transfer T token from to n (ext s) = Some ((), x) \<and> s' = s\<lparr>ext := x\<rparr>)"
  by (auto simp: token_transfer_def invoke_contract_ok)

lemma token_burn_ok [ok_iff]:
  "token_burn T token from n s = (Ok u, s') \<longleftrightarrow>
     (\<exists>x. tok_burn T token from n (ext s) = Some ((), x) \<and> s' = s\<lparr>ext := x\<rparr>)"
  by (auto simp: token_burn_def invoke_contract_ok)

text \<open>
  What SEP-41 documents: a successful transfer moves \<open>n\<close> units of one token from one holder to
  another, a successful burn destroys \<open>n\<close> units, and no other balance changes.
\<close>

locale sep41 =
  fixes T :: "'x token_client"
    and balance :: "'x \<Rightarrow> address \<Rightarrow> address \<Rightarrow> int"
  assumes transfer_moves:
    "tok_transfer T tok from to n x = Some (u, x') \<Longrightarrow>
       balance x' t a = balance x t a - (if t = tok \<and> a = from then n else 0)
                                      + (if t = tok \<and> a = to then n else 0)"
    and burn_destroys:
    "tok_burn T tok from n x = Some (u, x') \<Longrightarrow>
       balance x' t a = balance x t a - (if t = tok \<and> a = from then n else 0)"
begin

lemma transfer_out_at_most:
  "tok_transfer T tok from to n x = Some (u, x') \<Longrightarrow> 0 \<le> n \<Longrightarrow>
     balance x t a - (if t = tok then n else 0) \<le> balance x' t a"
  by (simp add: transfer_moves)

lemma transfer_in:
  "tok_transfer T tok from to n x = Some (u, x') \<Longrightarrow> from \<noteq> to \<Longrightarrow>
     balance x' tok to = balance x tok to + n"
  by (simp add: transfer_moves)

lemma burn_at_most:
  "tok_burn T tok from n x = Some (u, x') \<Longrightarrow> 0 \<le> n \<Longrightarrow>
     balance x t a - (if t = tok then n else 0) \<le> balance x' t a"
  by (simp add: burn_destroys)

end

text \<open>
  A reference ledger with SEP-41 behaviour: negative amounts and overdrafts trap. It shows the
  laws can hold and runs the concrete examples of the development.
\<close>

type_synonym ledger = "address \<Rightarrow> address \<Rightarrow> int"

definition ledger_transfer :: "address \<Rightarrow> address \<Rightarrow> address \<Rightarrow> i128 \<Rightarrow> ledger
    \<Rightarrow> (unit \<times> ledger) option" where
  "ledger_transfer tok from to n l =
     (if n < 0 \<or> l tok from < n then None
      else let l' = l(tok := (l tok)(from := l tok from - n))
           in Some ((), l'(tok := (l' tok)(to := l' tok to + n))))"

definition ledger_burn :: "address \<Rightarrow> address \<Rightarrow> i128 \<Rightarrow> ledger \<Rightarrow> (unit \<times> ledger) option" where
  "ledger_burn tok from n l =
     (if n < 0 \<or> l tok from < n then None
      else Some ((), l(tok := (l tok)(from := l tok from - n))))"

definition ledger_client :: "ledger token_client" where
  "ledger_client = \<lparr>tok_transfer = ledger_transfer, tok_burn = ledger_burn\<rparr>"

interpretation ledger: sep41 ledger_client "\<lambda>l. l"
  by unfold_locales
    (auto simp: ledger_client_def ledger_transfer_def ledger_burn_def Let_def split: if_splits)

section \<open>Types the contracts share\<close>

text \<open>
  The market status and the emergency mode the Resolution and Treasury contracts mirror from the
  market, and an address change waiting for its timelock (the crates declare the same types).
\<close>

datatype market_status = MarketActive | MarketResolved | MarketCanceled

datatype emergency_mode = Normal | TradingHalted | SettleOnly | GlobalFreeze

record pending_address_change =
  new_address :: address
  effective_at :: u64

definition pending_pair :: "pending_address_change option \<Rightarrow> (address \<times> u64) option" where
  "pending_pair p = map_option (\<lambda>p. (new_address p, effective_at p)) p"

section \<open>Timelocked changes\<close>

text \<open>
  A run of a contract over time: each entry is the ledger time of a step and the state after it;
  ledger time never goes back.
\<close>

fun timed_run :: "(u64 \<Rightarrow> 's \<Rightarrow> 's \<Rightarrow> bool) \<Rightarrow> u64 \<Rightarrow> 's \<Rightarrow> (u64 \<times> 's) list \<Rightarrow> bool" where
  "timed_run step t s [] = True"
| "timed_run step t s ((now, s') # r) =
     (t \<le> now \<and> step now s s' \<and> timed_run step now s' r)"

definition last_state :: "'s \<Rightarrow> (u64 \<times> 's) list \<Rightarrow> 's" where
  "last_state s r = (if r = [] then s else snd (last r))"

lemma last_state_simps [simp]:
  "last_state s [] = s"
  "last_state s (r @ [(now, s')]) = s'"
  "last_state s [(now, s')] = s'"
  by (simp_all add: last_state_def)

definition last_time :: "u64 \<Rightarrow> (u64 \<times> 's) list \<Rightarrow> u64" where
  "last_time t r = (if r = [] then t else fst (last r))"

lemma timed_run_snoc:
  "timed_run step t s (r @ [(now, s')]) \<longleftrightarrow>
     timed_run step t s r \<and> last_time t r \<le> now \<and> step now (last_state s r) s'"
proof (induction r arbitrary: t s)
  case Nil
  then show ?case by (simp add: last_time_def)
next
  case (Cons p r)
  obtain u v where "p = (u, v)" by (cases p)
  with Cons.IH[of u v] show ?case by (auto simp: last_time_def last_state_def)
qed

lemma timed_run_invariant:
  assumes "timed_run step t s r" and "P s"
    and "\<And>now u v. t \<le> now \<Longrightarrow> P u \<Longrightarrow> step now u v \<Longrightarrow> P v"
  shows "P (last_state s r)"
  using assms(1,2,3)
proof (induction r arbitrary: t s)
  case Nil
  then show ?case by simp
next
  case (Cons p r)
  obtain now s' where p: "p = (now, s')" by (cases p)
  from Cons.prems(1) have "t \<le> now" "step now s s'" and run: "timed_run step now s' r"
    by (auto simp: p)
  with Cons.prems(2,3) have "P s'" by blast
  from run this have "P (last_state s' r)"
  proof (rule Cons.IH)
    fix n u v
    assume "now \<le> n" "P u" "step n u v"
    with \<open>t \<le> now\<close> Cons.prems(3)[of n u v] show "P v" by linarith
  qed
  then show ?case by (simp add: p last_state_def split: if_splits)
qed

text \<open>
  The timelock contract: \<open>pending\<close> is the proposed value with the time it may take effect,
  \<open>active\<close> the value in force (\<open>None\<close> before initialization). A step may propose with the full
  delay, drop the proposal, or put a proposal in force once its time has come; nothing else
  changes the value in force.
\<close>

locale timelock =
  fixes pending :: "'s \<Rightarrow> ('v \<times> u64) option"
    and active :: "'s \<Rightarrow> 'v option"
    and step :: "u64 \<Rightarrow> 's \<Rightarrow> 's \<Rightarrow> bool"
    and delay :: u64
  assumes proposal_delayed:
    "step now s s' \<Longrightarrow> pending s' = Some p \<Longrightarrow> pending s = Some p \<or> snd p = now + delay"
    and activation_pending:
    "step now s s' \<Longrightarrow> active s \<noteq> None \<Longrightarrow> active s' \<noteq> active s \<Longrightarrow>
       \<exists>v eff. pending s = Some (v, eff) \<and> eff \<le> now \<and> active s' = Some v"
begin

lemma pending_was_proposed:
  assumes "timed_run step t s r" and "pending s = None" and "pending (last_state s r) = Some p"
  shows "\<exists>t1 s1. (t1, s1) \<in> set r \<and> snd p = t1 + delay \<and> pending s1 = Some p"
  using assms
proof (induction r rule: rev_induct)
  case Nil
  then show ?case by simp
next
  case (snoc q r)
  obtain now s' where q: "q = (now, s')" by (cases q)
  from snoc.prems(1) have run: "timed_run step t s r" and st: "step now (last_state s r) s'"
    by (auto simp: q timed_run_snoc)
  from snoc.prems(3) have p: "pending s' = Some p" by (simp add: q)
  show ?case
  proof (cases "pending (last_state s r) = Some p")
    case True
    with snoc.IH run snoc.prems(2) show ?thesis by auto
  next
    case False
    with proposal_delayed[OF st p] p show ?thesis by (auto simp: q)
  qed
qed

text \<open>Every value that comes into force was proposed at least \<open>delay\<close> seconds earlier.\<close>

lemma change_was_announced:
  assumes run: "timed_run step t s (r @ [(now, s')])" and none: "pending s = None"
    and act: "active (last_state s r) \<noteq> None"
    and changed: "active s' \<noteq> active (last_state s r)"
  shows "\<exists>t1 s1 v. (t1, s1) \<in> set r \<and> t1 + delay \<le> now \<and>
           pending s1 = Some (v, t1 + delay) \<and> active s' = Some v"
proof -
  from run have r: "timed_run step t s r" and st: "step now (last_state s r) s'"
    by (auto simp: timed_run_snoc)
  from activation_pending[OF st act changed] obtain v eff
    where p: "pending (last_state s r) = Some (v, eff)" and eff: "eff \<le> now"
      and v: "active s' = Some v" by blast
  from pending_was_proposed[OF r none p] eff v show ?thesis by auto
qed

end

end
