(* ===== verification/Resolution_State.thy ===== *)
theory Resolution_State
  imports Interfaces
begin

text \<open>
  Data of the Resolution contract: \<^verbatim>\<open>contracts/resolution/src/{types,error,events,storage}.rs\<close>.
  One record field per \<open>StorageKey\<close> (\<open>None\<close> when the key is absent), one definition per storage
  accessor and per \<open>emit_*\<close> helper.
\<close>

section \<open>types.rs\<close>

datatype candidate_status = Proposed | Challenged | Finalized | Voided

record challenge_record =
  challenger :: address
  bond :: i128

record resolution_candidate =
  cand_id :: u32
  cand_market_id :: u32
  outcome :: bool
  signature :: bytes
  signature_expiry :: u64
  proposer :: address
  evidence_uri :: string
  proposed_at :: u64
  challenge_deadline :: u64
  status :: candidate_status
  challenged_by :: "address option"
  challenge_uri :: "string option"
  finalized_at :: "u64 option"
  appeal_round :: u32
  bond_amount :: i128
  epoch :: u32
  passphrase_hash :: "bytes option"

record resolution_config =
  admin :: address
  factory :: address
  market_contract :: address
  challenge_window_secs :: u64

section \<open>error.rs\<close>

datatype resolution_error =
    CandidateNotFound
  | CandidateAlreadyExists
  | CandidateAlreadyChallenged
  | CandidateAlreadyFinalized
  | ChallengeWindowOpen
  | ChallengeWindowClosed
  | InvalidChallengeWindow
  | InvalidEvidenceUri
  | SignatureExpired
  | InvalidSignatureExpiry
  | MarketAlreadyResolved
  | CandidateNotChallenged
  | AppealLimitExceeded
  | InsufficientBond
  | InsufficientCollateral
  | InvalidCollateral
  | InsufficientChallengeBond
  | NotArbitrable
  | ArbitrationTimelockNotElapsed
  | Unauthorized
  | NotAdmin
  | AlreadyInitialized
  | InvalidAdmin
  | EmergencyModeActive
  | ContractPaused
  | UpgradeRequired

section \<open>events.rs\<close>

datatype resolution_event =
    ResolutionRegistered address address u64
  | CandidateProposed u32 u32 bool address string u64 u64 i128
  | CandidateChallenged u32 u32 address string i128 u64
  | BondSlashed u32 u32 address address i128 i128 i128 i128 u64
  | BondRefunded u32 u32 address i128 u64
  | CandidateArbitrated u32 u32 bool u64
  | MarketVoided u32 u32 u64
  | FactoryProposed address u64
  | FactorySet address u64
  | MarketContractProposed address u64
  | MarketContractSet address u64
  | TreasuryProposed address u64
  | TreasurySet address u64
  | CandidateFinalized u32 u32 bool u64
  | CandidateAppealed u32 u32 bool address u32 string u64 u64
  | ResolutionPaused address u64
  | ResolutionUnpaused address u64
  | EmergencyModeChanged emergency_mode address u64
  | CollateralSlashed address address i128 u64

section \<open>storage.rs: the persistent keys\<close>

record 'x resolution = "('x, resolution_event) host" +
  key_storage_version :: "u32 option"
  key_config :: "resolution_config option"
  key_candidate_counter :: "u32 option"
  key_candidate :: "u32 \<Rightarrow> resolution_candidate option"
  key_candidate_by_market :: "u32 \<Rightarrow> u32 option"
  key_proposer_collateral :: "address \<Rightarrow> i128 option"
  key_challengers :: "u32 \<Rightarrow> challenge_record list option"
  key_treasury :: "address option"
  key_pending_treasury :: "pending_address_change option"
  key_pending_factory :: "pending_address_change option"
  key_pending_market_contract :: "pending_address_change option"
  key_emergency_mode :: "emergency_mode option"
  key_paused :: "bool option"

text \<open>A freshly deployed contract: no key has been written.\<close>

definition fresh_resolution :: "'x \<Rightarrow> 'x resolution" where
  "fresh_resolution x = \<lparr>ext = x, events = [], key_storage_version = None, key_config = None,
     key_candidate_counter = None, key_candidate = (\<lambda>_. None),
     key_candidate_by_market = (\<lambda>_. None), key_proposer_collateral = (\<lambda>_. None),
     key_challengers = (\<lambda>_. None), key_treasury = None, key_pending_treasury = None,
     key_pending_factory = None, key_pending_market_contract = None, key_emergency_mode = None,
     key_paused = None\<rparr>"

type_synonym ('x, 'a) rcontract = "(resolution_error, 'x resolution, 'a) contract"

definition resolution_storage_version :: u32 where
  "resolution_storage_version = 1"

definition res_set_version :: "('x, unit) rcontract" where
  "res_set_version = modify (\<lambda>s. s\<lparr>key_storage_version := Some resolution_storage_version\<rparr>)"

definition res_get_version :: "'x resolution \<Rightarrow> u32 option" where
  "res_get_version s = key_storage_version s"

definition res_assert_version :: "('x, unit) rcontract" where
  "res_assert_version = bind (gets res_get_version) (\<lambda>v.
     ensure (v = Some resolution_storage_version) UpgradeRequired)"

definition res_has_config :: "'x resolution \<Rightarrow> bool" where
  "res_has_config s \<longleftrightarrow> key_config s \<noteq> None"

definition res_get_config :: "('x, resolution_config) rcontract" where
  "res_get_config = bind (gets key_config) expect"

definition res_set_config :: "resolution_config \<Rightarrow> ('x, unit) rcontract" where
  "res_set_config c = modify (\<lambda>s. s\<lparr>key_config := Some c\<rparr>)"

definition res_get_pending_treasury :: "'x resolution \<Rightarrow> pending_address_change option" where
  "res_get_pending_treasury s = key_pending_treasury s"

definition res_set_pending_treasury :: "pending_address_change \<Rightarrow> ('x, unit) rcontract" where
  "res_set_pending_treasury p = modify (\<lambda>s. s\<lparr>key_pending_treasury := Some p\<rparr>)"

definition res_clear_pending_treasury :: "('x, unit) rcontract" where
  "res_clear_pending_treasury = modify (\<lambda>s. s\<lparr>key_pending_treasury := None\<rparr>)"

definition res_get_pending_factory :: "'x resolution \<Rightarrow> pending_address_change option" where
  "res_get_pending_factory s = key_pending_factory s"

definition res_set_pending_factory :: "pending_address_change \<Rightarrow> ('x, unit) rcontract" where
  "res_set_pending_factory p = modify (\<lambda>s. s\<lparr>key_pending_factory := Some p\<rparr>)"

definition res_clear_pending_factory :: "('x, unit) rcontract" where
  "res_clear_pending_factory = modify (\<lambda>s. s\<lparr>key_pending_factory := None\<rparr>)"

definition res_get_pending_market_contract :: "'x resolution \<Rightarrow> pending_address_change option" where
  "res_get_pending_market_contract s = key_pending_market_contract s"

definition res_set_pending_market_contract :: "pending_address_change \<Rightarrow> ('x, unit) rcontract" where
  "res_set_pending_market_contract p = modify (\<lambda>s. s\<lparr>key_pending_market_contract := Some p\<rparr>)"

definition res_clear_pending_market_contract :: "('x, unit) rcontract" where
  "res_clear_pending_market_contract = modify (\<lambda>s. s\<lparr>key_pending_market_contract := None\<rparr>)"

definition res_increment_candidate_id :: "('x, u32) rcontract" where
  "res_increment_candidate_id =
     bind (gets key_candidate_counter) (\<lambda>c.
     bind (add_u32 (case c of None \<Rightarrow> 0 | Some n \<Rightarrow> n) 1) (\<lambda>next.
     andthen (modify (\<lambda>s. s\<lparr>key_candidate_counter := Some next\<rparr>))
     (return next)))"

definition res_get_candidate :: "u32 \<Rightarrow> 'x resolution \<Rightarrow> resolution_candidate option" where
  "res_get_candidate cid s = key_candidate s cid"

definition res_set_candidate :: "resolution_candidate \<Rightarrow> ('x, unit) rcontract" where
  "res_set_candidate c = modify (\<lambda>s. s\<lparr>
     key_candidate := (key_candidate s)(cand_id c \<mapsto> c),
     key_candidate_by_market := (key_candidate_by_market s)(cand_market_id c \<mapsto> cand_id c)\<rparr>)"

definition res_get_candidate_id_for_market :: "u32 \<Rightarrow> 'x resolution \<Rightarrow> u32 option" where
  "res_get_candidate_id_for_market m s = key_candidate_by_market s m"

definition res_get_proposer_collateral :: "address \<Rightarrow> 'x resolution \<Rightarrow> i128" where
  "res_get_proposer_collateral a s =
     (case key_proposer_collateral s a of None \<Rightarrow> 0 | Some n \<Rightarrow> n)"

definition res_set_proposer_collateral :: "address \<Rightarrow> i128 \<Rightarrow> ('x, unit) rcontract" where
  "res_set_proposer_collateral a n = modify (\<lambda>s. s\<lparr>
     key_proposer_collateral := (key_proposer_collateral s)(a \<mapsto> n)\<rparr>)"

definition res_get_challengers :: "u32 \<Rightarrow> 'x resolution \<Rightarrow> challenge_record list" where
  "res_get_challengers cid s = (case key_challengers s cid of None \<Rightarrow> [] | Some xs \<Rightarrow> xs)"

definition res_append_challenger :: "u32 \<Rightarrow> address \<Rightarrow> i128 \<Rightarrow> ('x, unit) rcontract" where
  "res_append_challenger cid a n = modify (\<lambda>s. s\<lparr>
     key_challengers := (key_challengers s)
       (cid \<mapsto> res_get_challengers cid s @ [\<lparr>challenger = a, bond = n\<rparr>])\<rparr>)"

definition res_clear_challengers :: "u32 \<Rightarrow> ('x, unit) rcontract" where
  "res_clear_challengers cid = modify (\<lambda>s. s\<lparr>key_challengers := (key_challengers s)(cid := None)\<rparr>)"

definition res_get_treasury :: "'x resolution \<Rightarrow> address option" where
  "res_get_treasury s = key_treasury s"

definition res_set_treasury :: "address \<Rightarrow> ('x, unit) rcontract" where
  "res_set_treasury a = modify (\<lambda>s. s\<lparr>key_treasury := Some a\<rparr>)"

definition res_get_emergency_mode :: "'x resolution \<Rightarrow> emergency_mode" where
  "res_get_emergency_mode s = (case key_emergency_mode s of None \<Rightarrow> Normal | Some m \<Rightarrow> m)"

definition res_set_emergency_mode :: "emergency_mode \<Rightarrow> ('x, unit) rcontract" where
  "res_set_emergency_mode m = modify (\<lambda>s. s\<lparr>key_emergency_mode := Some m\<rparr>)"

definition res_is_paused :: "'x resolution \<Rightarrow> bool" where
  "res_is_paused s = (case key_paused s of None \<Rightarrow> False | Some b \<Rightarrow> b)"

definition res_set_paused :: "bool \<Rightarrow> ('x, unit) rcontract" where
  "res_set_paused b = modify (\<lambda>s. s\<lparr>key_paused := Some b\<rparr>)"

section \<open>events.rs: the emit helpers\<close>

definition emit_resolution_registered :: "env \<Rightarrow> address \<Rightarrow> address \<Rightarrow> ('x, unit) rcontract" where
  "emit_resolution_registered E f m = emit (ResolutionRegistered f m (ledger_timestamp E))"

definition emit_candidate_proposed :: "env \<Rightarrow> resolution_candidate \<Rightarrow> ('x, unit) rcontract" where
  "emit_candidate_proposed E c = emit (CandidateProposed (cand_id c) (cand_market_id c) (outcome c) (proposer c)
     (evidence_uri c) (challenge_deadline c) (signature_expiry c) (bond_amount c))"

definition emit_candidate_challenged :: "env \<Rightarrow> u32 \<Rightarrow> u32 \<Rightarrow> address \<Rightarrow> string \<Rightarrow> i128 \<Rightarrow> ('x, unit) rcontract" where
  "emit_candidate_challenged E cid mid a uri n = emit (CandidateChallenged cid mid a uri n (ledger_timestamp E))"

definition emit_bond_slashed :: "env \<Rightarrow> u32 \<Rightarrow> u32 \<Rightarrow> address \<Rightarrow> address \<Rightarrow> i128 \<Rightarrow> i128
    \<Rightarrow> i128 \<Rightarrow> i128 \<Rightarrow> ('x, unit) rcontract" where
  "emit_bond_slashed E cid mid loser winner amount reward burned treasury_cut =
     emit (BondSlashed cid mid loser winner amount reward burned treasury_cut (ledger_timestamp E))"

definition emit_bond_refunded :: "env \<Rightarrow> u32 \<Rightarrow> u32 \<Rightarrow> address \<Rightarrow> i128 \<Rightarrow> ('x, unit) rcontract" where
  "emit_bond_refunded E cid mid a n = emit (BondRefunded cid mid a n (ledger_timestamp E))"

definition emit_candidate_arbitrated :: "env \<Rightarrow> u32 \<Rightarrow> u32 \<Rightarrow> bool \<Rightarrow> ('x, unit) rcontract" where
  "emit_candidate_arbitrated E cid mid b = emit (CandidateArbitrated cid mid b (ledger_timestamp E))"

definition emit_market_voided :: "env \<Rightarrow> u32 \<Rightarrow> u32 \<Rightarrow> ('x, unit) rcontract" where
  "emit_market_voided E cid mid = emit (MarketVoided cid mid (ledger_timestamp E))"

definition emit_factory_proposed :: "env \<Rightarrow> address \<Rightarrow> u64 \<Rightarrow> ('x, unit) rcontract" where
  "emit_factory_proposed E a t = emit (FactoryProposed a t)"

definition emit_factory_set :: "env \<Rightarrow> address \<Rightarrow> ('x, unit) rcontract" where
  "emit_factory_set E a = emit (FactorySet a (ledger_timestamp E))"

definition emit_market_contract_proposed :: "env \<Rightarrow> address \<Rightarrow> u64 \<Rightarrow> ('x, unit) rcontract" where
  "emit_market_contract_proposed E a t = emit (MarketContractProposed a t)"

definition emit_market_contract_set :: "env \<Rightarrow> address \<Rightarrow> ('x, unit) rcontract" where
  "emit_market_contract_set E a = emit (MarketContractSet a (ledger_timestamp E))"

definition emit_treasury_proposed :: "env \<Rightarrow> address \<Rightarrow> u64 \<Rightarrow> ('x, unit) rcontract" where
  "emit_treasury_proposed E a t = emit (TreasuryProposed a t)"

definition emit_treasury_set :: "env \<Rightarrow> address \<Rightarrow> ('x, unit) rcontract" where
  "emit_treasury_set E a = emit (TreasurySet a (ledger_timestamp E))"

definition emit_candidate_finalized :: "env \<Rightarrow> resolution_candidate \<Rightarrow> ('x, unit) rcontract" where
  "emit_candidate_finalized E c = emit (CandidateFinalized (cand_id c) (cand_market_id c) (outcome c)
     (case finalized_at c of None \<Rightarrow> ledger_timestamp E | Some t \<Rightarrow> t))"

definition emit_candidate_appealed :: "env \<Rightarrow> resolution_candidate \<Rightarrow> ('x, unit) rcontract" where
  "emit_candidate_appealed E c = emit (CandidateAppealed (cand_id c) (cand_market_id c) (outcome c) (proposer c)
     (appeal_round c) (evidence_uri c) (challenge_deadline c) (ledger_timestamp E))"

definition emit_resolution_paused :: "env \<Rightarrow> address \<Rightarrow> ('x, unit) rcontract" where
  "emit_resolution_paused E a = emit (ResolutionPaused a (ledger_timestamp E))"

definition emit_resolution_unpaused :: "env \<Rightarrow> address \<Rightarrow> ('x, unit) rcontract" where
  "emit_resolution_unpaused E a = emit (ResolutionUnpaused a (ledger_timestamp E))"

definition emit_emergency_mode_changed :: "env \<Rightarrow> emergency_mode \<Rightarrow> address \<Rightarrow> ('x, unit) rcontract" where
  "emit_emergency_mode_changed E m a = emit (EmergencyModeChanged m a (ledger_timestamp E))"

definition emit_collateral_slashed :: "env \<Rightarrow> address \<Rightarrow> address \<Rightarrow> i128 \<Rightarrow> ('x, unit) rcontract" where
  "emit_collateral_slashed E p r n = emit (CollateralSlashed p r n (ledger_timestamp E))"

lemmas resolution_emits [ok_iff] =
  emit_resolution_registered_def emit_candidate_proposed_def emit_candidate_challenged_def
  emit_bond_slashed_def
  emit_bond_refunded_def emit_candidate_arbitrated_def emit_market_voided_def
  emit_factory_proposed_def emit_factory_set_def emit_market_contract_proposed_def emit_market_contract_set_def
  emit_treasury_proposed_def
  emit_treasury_set_def emit_candidate_finalized_def emit_candidate_appealed_def emit_resolution_paused_def
  emit_resolution_unpaused_def emit_emergency_mode_changed_def emit_collateral_slashed_def

subsection \<open>How the accessors run\<close>

lemmas resolution_reads =
  res_get_version_def res_has_config_def res_get_candidate_def res_get_candidate_id_for_market_def
  res_get_treasury_def res_get_pending_treasury_def res_get_pending_factory_def
  res_get_pending_market_contract_def

lemma res_assert_version_ok [ok_iff]:
  "res_assert_version s = (Ok u, s') \<longleftrightarrow>
     key_storage_version s = Some resolution_storage_version \<and> s' = s"
  by (auto simp: res_assert_version_def res_get_version_def ok_iff)

lemma res_get_config_ok [ok_iff]: "res_get_config s = (Ok c, s') \<longleftrightarrow> key_config s = Some c \<and> s' = s"
  by (auto simp: res_get_config_def ok_iff)

lemma res_increment_candidate_id_ok [ok_iff]:
  "res_increment_candidate_id s = (Ok n, s') \<longleftrightarrow>
     (let c = (case key_candidate_counter s of None \<Rightarrow> 0 | Some c \<Rightarrow> c)
      in c + 1 \<le> u32_max \<and> n = c + 1 \<and> s' = s\<lparr>key_candidate_counter := Some n\<rparr>)"
  by (auto simp: res_increment_candidate_id_def Let_def ok_iff)

lemmas resolution_writes [ok_iff] =
  res_set_version_def res_set_config_def res_set_pending_treasury_def res_clear_pending_treasury_def
  res_set_pending_factory_def res_clear_pending_factory_def res_set_pending_market_contract_def
  res_clear_pending_market_contract_def res_set_candidate_def res_set_proposer_collateral_def
  res_append_challenger_def res_clear_challengers_def res_set_treasury_def res_set_emergency_mode_def
  res_set_paused_def


end
