(* ===== verification/Resolution.thy ===== *)
theory Resolution
  imports Resolution_State
begin

text \<open>
  The entrypoints of the Resolution contract, \<^verbatim>\<open>contracts/resolution/src/lib.rs\<close>, statement by
  statement. The market contract and the tokens it calls are the parameters \<open>M\<close> and \<open>T\<close>.
\<close>

section \<open>The market contract as seen from here\<close>

record 'x market_client =
  mc_get_market_status :: "address \<Rightarrow> u32 \<Rightarrow> 'x \<Rightarrow> (market_status \<times> 'x) option"
  mc_get_collateral_token :: "address \<Rightarrow> u32 \<Rightarrow> 'x \<Rightarrow> (address \<times> 'x) option"
  mc_verify_signature :: "address \<Rightarrow> u32 \<Rightarrow> bool \<Rightarrow> bytes \<Rightarrow> 'x
    \<Rightarrow> ((resolution_error + unit) \<times> 'x) option"
  mc_verify_signature_v2 :: "address \<Rightarrow> bytes \<Rightarrow> u32 \<Rightarrow> bool \<Rightarrow> u64 \<Rightarrow> u32 \<Rightarrow> bytes \<Rightarrow> 'x
    \<Rightarrow> ((resolution_error + unit) \<times> 'x) option"
  mc_resolve_market :: "address \<Rightarrow> address \<Rightarrow> string \<Rightarrow> bool \<Rightarrow> bytes \<Rightarrow> u64 \<Rightarrow> 'x
    \<Rightarrow> (unit \<times> 'x) option"
  mc_resolve_market_v2 :: "address \<Rightarrow> address \<Rightarrow> string \<Rightarrow> bool \<Rightarrow> u64 \<Rightarrow> u32 \<Rightarrow> bytes \<Rightarrow> bytes \<Rightarrow> 'x
    \<Rightarrow> (unit \<times> 'x) option"
  mc_void_market :: "address \<Rightarrow> address \<Rightarrow> u32 \<Rightarrow> 'x \<Rightarrow> (unit \<times> 'x) option"

section \<open>Constants\<close>

definition min_challenge_window_seconds :: u64 where "min_challenge_window_seconds = 60"
definition max_challenge_window_seconds :: u64 where
  "max_challenge_window_seconds = 14 * 24 * 60 * 60"
definition max_uri_bytes :: u32 where "max_uri_bytes = 512"
definition max_appeal_rounds :: u32 where "max_appeal_rounds = 3"
definition min_bond_amount :: i128 where "min_bond_amount = 10000000"
definition min_challenge_bond_amount :: i128 where "min_challenge_bond_amount = 10000000"
definition arbitration_timelock_seconds :: u64 where "arbitration_timelock_seconds = 172800"
definition address_timelock_seconds :: u64 where "address_timelock_seconds = 172800"
definition reward_bps :: i128 where "reward_bps = 5000"
definition burn_bps :: i128 where "burn_bps = 2500"
definition bps_denominator :: i128 where "bps_denominator = 10000"

lemmas resolution_constants =
  min_challenge_window_seconds_def max_challenge_window_seconds_def max_uri_bytes_def
  max_appeal_rounds_def min_bond_amount_def min_challenge_bond_amount_def
  arbitration_timelock_seconds_def address_timelock_seconds_def reward_bps_def burn_bps_def
  bps_denominator_def

section \<open>Guards and helpers (the free functions at the end of the file)\<close>

definition require_admin :: "address \<Rightarrow> resolution_config \<Rightarrow> ('x, unit) rcontract" where
  "require_admin a config = ensure (a = admin config) NotAdmin"

definition require_not_paused :: "('x, unit) rcontract" where
  "require_not_paused = bind (gets res_is_paused) (\<lambda>p. ensure (\<not> p) ContractPaused)"

definition require_emergency_mode_allows :: "emergency_mode list \<Rightarrow> ('x, unit) rcontract" where
  "require_emergency_mode_allows allowed_modes =
     bind (gets res_get_emergency_mode) (\<lambda>current.
     ensure (current \<in> set allowed_modes) EmergencyModeActive)"

definition validate_challenge_window :: "u64 \<Rightarrow> ('x, unit) rcontract" where
  "validate_challenge_window seconds =
     ensure (min_challenge_window_seconds \<le> seconds \<and> seconds \<le> max_challenge_window_seconds)
       InvalidChallengeWindow"

definition validate_uri :: "string \<Rightarrow> ('x, unit) rcontract" where
  "validate_uri uri = ensure (\<not> (length uri = 0 \<or> length uri > max_uri_bytes)) InvalidEvidenceUri"

text \<open>
  \<open>market_id_to_string\<close> fills a ten-byte buffer from its end. \<open>digits_into i n acc\<close> is the loop
  with \<open>i\<close> free cells left of the digits \<open>acc\<close>; running out of cells is an index underflow trap.
\<close>

fun digits_into :: "nat \<Rightarrow> u32 \<Rightarrow> string \<Rightarrow> string option" where
  "digits_into 0 n acc = (if n = 0 then Some acc else None)"
| "digits_into (Suc i) n acc =
     (if n = 0 then Some acc else digits_into i (n div 10) (char_of (48 + n mod 10) # acc))"

definition market_id_to_string :: "u32 \<Rightarrow> string option" where
  "market_id_to_string n = (if n = 0 then Some ''0'' else digits_into 10 n [])"

definition get_collateral_token :: "'x market_client \<Rightarrow> resolution_config \<Rightarrow> u32
    \<Rightarrow> ('x, address) rcontract" where
  "get_collateral_token M config mid =
     invoke_contract (mc_get_collateral_token M (market_contract config) mid)"

definition require_market_active :: "'x market_client \<Rightarrow> resolution_config \<Rightarrow> u32
    \<Rightarrow> ('x, unit) rcontract" where
  "require_market_active M config mid =
     bind (invoke_contract (mc_get_market_status M (market_contract config) mid)) (\<lambda>st.
     ensure (st = MarketActive) MarketAlreadyResolved)"

definition verify_signature :: "'x market_client \<Rightarrow> resolution_config \<Rightarrow> u32 \<Rightarrow> bool \<Rightarrow> bytes
    \<Rightarrow> ('x, unit) rcontract" where
  "verify_signature M config mid o' sig =
     bind (invoke_contract (mc_verify_signature M (market_contract config) mid o' sig)) try_result"

definition verify_signature_v2 :: "'x market_client \<Rightarrow> resolution_config \<Rightarrow> bytes \<Rightarrow> u32 \<Rightarrow> bool
    \<Rightarrow> u64 \<Rightarrow> u32 \<Rightarrow> bytes \<Rightarrow> ('x, unit) rcontract" where
  "verify_signature_v2 M config ph mid o' valid_until ep sig =
     bind (invoke_contract (mc_verify_signature_v2 M (market_contract config) ph mid o' valid_until
       ep sig)) try_result"

text \<open>The two cross-contract callbacks that resolve a market.\<close>

definition call_resolve_market :: "env \<Rightarrow> 'x market_client \<Rightarrow> resolution_config
    \<Rightarrow> resolution_candidate \<Rightarrow> ('x, unit) rcontract" where
  "call_resolve_market E M config c =
     bind (expect (market_id_to_string (cand_market_id c))) (\<lambda>mid.
     invoke_contract (mc_resolve_market M (market_contract config) (current_contract_address E) mid
       (outcome c) (signature c) (signature_expiry c)))"

definition call_resolve_market_v2 :: "env \<Rightarrow> 'x market_client \<Rightarrow> resolution_config
    \<Rightarrow> resolution_candidate \<Rightarrow> bytes \<Rightarrow> ('x, unit) rcontract" where
  "call_resolve_market_v2 E M config c ph =
     bind (expect (market_id_to_string (cand_market_id c))) (\<lambda>mid.
     invoke_contract (mc_resolve_market_v2 M (market_contract config) (current_contract_address E)
       mid (outcome c) (signature_expiry c) (epoch c) (signature c) ph))"

text \<open>\<open>invoke_resolve_market\<close>, which the crate defines and no entrypoint calls.\<close>

definition invoke_resolve_market :: "env \<Rightarrow> 'x market_client \<Rightarrow> resolution_config
    \<Rightarrow> resolution_candidate \<Rightarrow> ('x, unit) rcontract" where
  "invoke_resolve_market E M config c =
     (case passphrase_hash c of
        Some ph \<Rightarrow> call_resolve_market_v2 E M config c ph
      | None \<Rightarrow> call_resolve_market E M config c)"

definition require_arbitrable :: "env \<Rightarrow> resolution_candidate \<Rightarrow> ('x, unit) rcontract" where
  "require_arbitrable E c =
     andthen (ensure (status c = Challenged) NotArbitrable)
     (bind (add_u64 (challenge_deadline c) arbitration_timelock_seconds) (\<lambda>eta.
      ensure (\<not> ledger_timestamp E < eta) ArbitrationTimelockNotElapsed))"

text \<open>The three parts of a forfeited bond, with the multiplications that can overflow.\<close>

definition split_parts :: "i128 \<Rightarrow> ('x, i128 \<times> i128 \<times> i128) rcontract" where
  "split_parts amount =
     bind (mul_i128 amount reward_bps) (\<lambda>r.
     bind (mul_i128 amount burn_bps) (\<lambda>b.
     let reward = r sdiv bps_denominator; burned = b sdiv bps_denominator in
     bind (sub_i128 amount reward) (\<lambda>rest.
     bind (sub_i128 rest burned) (\<lambda>treasury_cut.
     return (reward, burned, treasury_cut)))))"

definition split_bond :: "env \<Rightarrow> 'x token_client \<Rightarrow> u32 \<Rightarrow> u32 \<Rightarrow> address \<Rightarrow> address \<Rightarrow> address
    \<Rightarrow> i128 \<Rightarrow> ('x, unit) rcontract" where
  "split_bond E T cid mid token loser winner amount =
     (if amount \<le> 0 then return ()
      else
        let this = current_contract_address E in
        bind (split_parts amount) (\<lambda>(reward, burned, treasury_cut).
        andthen (when_do (reward > 0) (token_transfer T token this winner reward))
        (andthen (when_do (burned > 0) (token_burn T token this burned))
        (andthen (when_do (treasury_cut > 0)
          (bind (gets res_get_treasury) (\<lambda>t.
           case t of None \<Rightarrow> return ()
           | Some treasury \<Rightarrow> token_transfer T token this treasury treasury_cut)))
        (emit_bond_slashed E cid mid loser winner amount reward burned treasury_cut)))))"

definition settle_challengers_as_losers :: "env \<Rightarrow> 'x token_client \<Rightarrow> u32 \<Rightarrow> resolution_candidate
    \<Rightarrow> address \<Rightarrow> ('x, unit) rcontract" where
  "settle_challengers_as_losers E T cid c token =
     bind (gets (res_get_challengers cid)) (\<lambda>challengers.
     if challengers = [] then return ()
     else
       andthen (for_each challengers (\<lambda>r.
         split_bond E T cid (cand_market_id c) token (challenger r) (proposer c) (bond r)))
       (res_clear_challengers cid))"

section \<open>Lifecycle and configuration\<close>

definition resolution_initialize :: "env \<Rightarrow> address \<Rightarrow> address \<Rightarrow> address \<Rightarrow> u64
    \<Rightarrow> ('x, unit) rcontract" where
  "resolution_initialize E admin' factory' market_contract' window =
     andthen (ensure (\<not> has_executable E admin') InvalidAdmin)
     (andthen (require_auth E admin')
     (bind (gets res_has_config) (\<lambda>configured.
     andthen (ensure (\<not> configured) AlreadyInitialized)
     (andthen (validate_challenge_window window)
     (andthen (res_set_config \<lparr>admin = admin', factory = factory',
         market_contract = market_contract', challenge_window_secs = window\<rparr>)
     (andthen res_set_version
     (emit_resolution_registered E factory' market_contract')))))))"

definition resolution_set_default_challenge_window :: "env \<Rightarrow> address \<Rightarrow> u64
    \<Rightarrow> ('x, unit) rcontract" where
  "resolution_set_default_challenge_window E admin' seconds =
     andthen (require_auth E admin')
     (andthen res_assert_version
     (bind res_get_config (\<lambda>config.
     andthen (require_admin admin' config)
     (andthen (validate_challenge_window seconds)
     (res_set_config (config\<lparr>challenge_window_secs := seconds\<rparr>))))))"

definition resolution_propose_factory :: "env \<Rightarrow> address \<Rightarrow> address \<Rightarrow> ('x, unit) rcontract" where
  "resolution_propose_factory E admin' factory' =
     andthen (require_auth E admin')
     (andthen res_assert_version
     (bind res_get_config (\<lambda>config.
     andthen (require_admin admin' config)
     (bind (add_u64 (ledger_timestamp E) address_timelock_seconds) (\<lambda>eff.
     andthen (res_set_pending_factory \<lparr>new_address = factory', effective_at = eff\<rparr>)
     (emit_factory_proposed E factory' eff))))))"

definition resolution_execute_factory :: "env \<Rightarrow> ('x, address) rcontract" where
  "resolution_execute_factory E =
     andthen res_assert_version
     (bind (gets res_get_pending_factory) (\<lambda>p.
     bind (ok_or p Unauthorized) (\<lambda>pending.
     andthen (ensure (\<not> ledger_timestamp E < effective_at pending) Unauthorized)
     (bind res_get_config (\<lambda>config.
     andthen (res_set_config (config\<lparr>factory := new_address pending\<rparr>))
     (andthen res_clear_pending_factory
     (andthen (emit_factory_set E (new_address pending))
     (return (new_address pending)))))))))"

definition resolution_cancel_factory :: "env \<Rightarrow> address \<Rightarrow> ('x, unit) rcontract" where
  "resolution_cancel_factory E admin' =
     andthen (require_auth E admin')
     (andthen res_assert_version
     (bind res_get_config (\<lambda>config.
     andthen (require_admin admin' config)
     res_clear_pending_factory)))"

definition resolution_propose_market_contract :: "env \<Rightarrow> address \<Rightarrow> address
    \<Rightarrow> ('x, unit) rcontract" where
  "resolution_propose_market_contract E admin' market_contract' =
     andthen (require_auth E admin')
     (andthen res_assert_version
     (bind res_get_config (\<lambda>config.
     andthen (require_admin admin' config)
     (bind (add_u64 (ledger_timestamp E) address_timelock_seconds) (\<lambda>eff.
     andthen (res_set_pending_market_contract
       \<lparr>new_address = market_contract', effective_at = eff\<rparr>)
     (emit_market_contract_proposed E market_contract' eff))))))"

definition resolution_execute_market_contract :: "env \<Rightarrow> ('x, address) rcontract" where
  "resolution_execute_market_contract E =
     andthen res_assert_version
     (bind (gets res_get_pending_market_contract) (\<lambda>p.
     bind (ok_or p Unauthorized) (\<lambda>pending.
     andthen (ensure (\<not> ledger_timestamp E < effective_at pending) Unauthorized)
     (bind res_get_config (\<lambda>config.
     andthen (res_set_config (config\<lparr>market_contract := new_address pending\<rparr>))
     (andthen res_clear_pending_market_contract
     (andthen (emit_market_contract_set E (new_address pending))
     (return (new_address pending)))))))))"

definition resolution_cancel_market_contract :: "env \<Rightarrow> address \<Rightarrow> ('x, unit) rcontract" where
  "resolution_cancel_market_contract E admin' =
     andthen (require_auth E admin')
     (andthen res_assert_version
     (bind res_get_config (\<lambda>config.
     andthen (require_admin admin' config)
     res_clear_pending_market_contract)))"

definition resolution_set_market_contract :: "env \<Rightarrow> address \<Rightarrow> address
    \<Rightarrow> ('x, unit) rcontract" where
  "resolution_set_market_contract E admin' market_contract' =
     andthen (require_auth E admin')
     (andthen res_assert_version
     (bind res_get_config (\<lambda>config.
     andthen (require_admin admin' config)
     (andthen (res_set_config (config\<lparr>market_contract := market_contract'\<rparr>))
     (emit_market_contract_set E market_contract')))))"

definition resolution_propose_treasury :: "env \<Rightarrow> address \<Rightarrow> address \<Rightarrow> ('x, unit) rcontract" where
  "resolution_propose_treasury E admin' treasury =
     andthen (require_auth E admin')
     (andthen res_assert_version
     (bind res_get_config (\<lambda>config.
     andthen (require_admin admin' config)
     (bind (add_u64 (ledger_timestamp E) address_timelock_seconds) (\<lambda>eff.
     andthen (res_set_pending_treasury \<lparr>new_address = treasury, effective_at = eff\<rparr>)
     (emit_treasury_proposed E treasury eff))))))"

definition resolution_execute_treasury :: "env \<Rightarrow> ('x, address) rcontract" where
  "resolution_execute_treasury E =
     andthen res_assert_version
     (bind (gets res_get_pending_treasury) (\<lambda>p.
     bind (ok_or p Unauthorized) (\<lambda>pending.
     andthen (ensure (\<not> ledger_timestamp E < effective_at pending) Unauthorized)
     (andthen (res_set_treasury (new_address pending))
     (andthen res_clear_pending_treasury
     (andthen (emit_treasury_set E (new_address pending))
     (return (new_address pending))))))))"

definition resolution_cancel_treasury :: "env \<Rightarrow> address \<Rightarrow> ('x, unit) rcontract" where
  "resolution_cancel_treasury E admin' =
     andthen res_assert_version
     (andthen (require_auth E admin')
     (bind res_get_config (\<lambda>config.
     andthen (require_admin admin' config)
     res_clear_pending_treasury)))"

definition resolution_set_emergency_mode :: "env \<Rightarrow> address \<Rightarrow> emergency_mode
    \<Rightarrow> ('x, unit) rcontract" where
  "resolution_set_emergency_mode E admin' new_mode =
     andthen (require_auth E admin')
     (andthen res_assert_version
     (bind res_get_config (\<lambda>config.
     andthen (require_admin admin' config)
     (andthen (res_set_emergency_mode new_mode)
     (emit_emergency_mode_changed E new_mode admin')))))"

definition resolution_pause :: "env \<Rightarrow> address \<Rightarrow> ('x, unit) rcontract" where
  "resolution_pause E admin' =
     andthen (require_auth E admin')
     (andthen res_assert_version
     (bind res_get_config (\<lambda>config.
     andthen (require_admin admin' config)
     (andthen (res_set_paused True)
     (emit_resolution_paused E admin')))))"

definition resolution_unpause :: "env \<Rightarrow> address \<Rightarrow> ('x, unit) rcontract" where
  "resolution_unpause E admin' =
     andthen (require_auth E admin')
     (andthen res_assert_version
     (bind res_get_config (\<lambda>config.
     andthen (require_admin admin' config)
     (andthen (res_set_paused False)
     (emit_resolution_unpaused E admin')))))"

section \<open>The id buffer is large enough\<close>

lemma digits_into_total: "n < 10 ^ i \<Longrightarrow> digits_into i n acc \<noteq> None"
proof (induction i arbitrary: n acc)
  case (Suc i)
  from Suc.prems have "n div 10 < 10 ^ i" by (simp add: less_mult_imp_div_less mult.commute)
  with Suc.IH show ?case by simp
qed simp

lemma market_id_to_string_total: "n \<le> u32_max \<Longrightarrow> market_id_to_string n \<noteq> None"
  using digits_into_total[of n 10 "[]"] by (auto simp: market_id_to_string_def u32_max_def)

section \<open>How the guards run\<close>

lemma require_admin_ok [ok_iff]:
  "require_admin a c s = (Ok u, s') \<longleftrightarrow> a = admin c \<and> s' = s"
  by (auto simp: require_admin_def ok_iff)

lemma require_not_paused_ok [ok_iff]:
  "require_not_paused s = (Ok u, s') \<longleftrightarrow> \<not> res_is_paused s \<and> s' = s"
  by (auto simp: require_not_paused_def ok_iff)

lemma require_emergency_mode_allows_ok [ok_iff]:
  "require_emergency_mode_allows ms s = (Ok u, s') \<longleftrightarrow> res_get_emergency_mode s \<in> set ms \<and> s' = s"
  by (auto simp: require_emergency_mode_allows_def ok_iff)

lemma validate_challenge_window_ok [ok_iff]:
  "validate_challenge_window w s = (Ok u, s') \<longleftrightarrow>
     min_challenge_window_seconds \<le> w \<and> w \<le> max_challenge_window_seconds \<and> s' = s"
  by (auto simp: validate_challenge_window_def ok_iff)

lemma validate_uri_ok [ok_iff]:
  "validate_uri uri s = (Ok u, s') \<longleftrightarrow> uri \<noteq> [] \<and> length uri \<le> max_uri_bytes \<and> s' = s"
  by (auto simp: validate_uri_def ok_iff)

lemma require_arbitrable_ok [ok_iff]:
  "require_arbitrable E c s = (Ok u, s') \<longleftrightarrow>
     status c = Challenged \<and> challenge_deadline c + arbitration_timelock_seconds \<le> u64_max \<and>
     challenge_deadline c + arbitration_timelock_seconds \<le> ledger_timestamp E \<and> s' = s"
  by (auto simp: require_arbitrable_def ok_iff)

text \<open>The statements of an entrypoint, without its writes to the disputes.\<close>

lemmas guard_ok = return_ok bind_ok andthen_ok gets_ok ensure_ok ok_or_ok expect_ok when_do_ok
  require_auth_ok add_u32_ok add_u64_ok emit_ok res_assert_version_ok res_get_config_ok
  require_admin_ok require_not_paused_ok require_emergency_mode_allows_ok
  validate_challenge_window_ok validate_uri_ok require_arbitrable_ok resolution_emits
  invoke_contract_ok token_transfer_ok

end
