(* ===== verification/Resolution_Disputes.thy ===== *)
theory Resolution_Disputes
  imports Resolution
begin

text \<open>
  The candidate lifecycle of \<^verbatim>\<open>contracts/resolution/src/lib.rs\<close> (propose, challenge, appeal,
  finalize, arbitration, voiding), the proposer collateral, and the contract's step relation.
\<close>

section \<open>Proposing\<close>

definition resolution_propose :: "env \<Rightarrow> 'x token_client \<Rightarrow> 'x market_client \<Rightarrow> address \<Rightarrow> u32
    \<Rightarrow> bool \<Rightarrow> bytes \<Rightarrow> u64 \<Rightarrow> string \<Rightarrow> u64 \<Rightarrow> i128 \<Rightarrow> ('x, u32) rcontract" where
  "resolution_propose E T M proposer' mid o' sig sig_expiry uri window bond' =
     andthen (require_auth E proposer')
     (andthen require_not_paused
     (andthen res_assert_version
     (bind res_get_config (\<lambda>config.
     andthen (require_emergency_mode_allows [Normal])
     (andthen (validate_uri uri)
     (andthen (validate_challenge_window window)
     (andthen (ensure (\<not> bond' < min_bond_amount) InsufficientBond)
     (bind (gets (res_get_candidate_id_for_market mid)) (\<lambda>existing.
     andthen (ensure (existing = None) CandidateAlreadyExists)
     (andthen (require_market_active M config mid)
     (andthen (verify_signature M config mid o' sig)
     (bind (get_collateral_token M config mid) (\<lambda>collateral_token.
     let now = ledger_timestamp E in
     andthen (ensure (\<not> sig_expiry < now) InvalidSignatureExpiry)
     (bind res_increment_candidate_id (\<lambda>cid.
     bind (add_u64 now window) (\<lambda>deadline.
     let c = \<lparr>cand_id = cid, cand_market_id = mid, outcome = o', signature = sig,
         signature_expiry = sig_expiry, proposer = proposer', evidence_uri = uri,
         proposed_at = now, challenge_deadline = deadline, status = Proposed,
         challenged_by = None, challenge_uri = None, finalized_at = None, appeal_round = 0,
         bond_amount = bond', epoch = 0, passphrase_hash = None\<rparr> in
     andthen (res_set_candidate c)
     (andthen (emit_candidate_proposed E c)
     (andthen (token_transfer T collateral_token proposer' (current_contract_address E) bond')
     (return cid)))))))))))))))))))"

definition resolution_propose_v2 :: "env \<Rightarrow> 'x token_client \<Rightarrow> 'x market_client \<Rightarrow> address \<Rightarrow> u32
    \<Rightarrow> bool \<Rightarrow> bytes \<Rightarrow> u64 \<Rightarrow> u32 \<Rightarrow> bytes \<Rightarrow> string \<Rightarrow> u64 \<Rightarrow> i128 \<Rightarrow> ('x, u32) rcontract" where
  "resolution_propose_v2 E T M proposer' mid o' sig valid_until ep ph uri window bond' =
     andthen (require_auth E proposer')
     (andthen res_assert_version
     (bind res_get_config (\<lambda>config.
     andthen (require_emergency_mode_allows [Normal])
     (andthen (validate_uri uri)
     (andthen (validate_challenge_window window)
     (andthen (ensure (\<not> bond' < min_bond_amount) InsufficientBond)
     (bind (gets (res_get_candidate_id_for_market mid)) (\<lambda>existing.
     andthen (ensure (existing = None) CandidateAlreadyExists)
     (andthen (require_market_active M config mid)
     (andthen (verify_signature_v2 M config ph mid o' valid_until ep sig)
     (bind (get_collateral_token M config mid) (\<lambda>collateral_token.
     let now = ledger_timestamp E in
     andthen (ensure (\<not> valid_until < now) InvalidSignatureExpiry)
     (bind res_increment_candidate_id (\<lambda>cid.
     bind (add_u64 now window) (\<lambda>deadline.
     let c = \<lparr>cand_id = cid, cand_market_id = mid, outcome = o', signature = sig,
         signature_expiry = valid_until, proposer = proposer', evidence_uri = uri,
         proposed_at = now, challenge_deadline = deadline, status = Proposed,
         challenged_by = None, challenge_uri = None, finalized_at = None, appeal_round = 0,
         bond_amount = bond', epoch = ep, passphrase_hash = Some ph\<rparr> in
     andthen (res_set_candidate c)
     (andthen (emit_candidate_proposed E c)
     (andthen (token_transfer T collateral_token proposer' (current_contract_address E) bond')
     (return cid))))))))))))))))))"

section \<open>Challenging and appealing\<close>

definition resolution_challenge :: "env \<Rightarrow> 'x token_client \<Rightarrow> 'x market_client \<Rightarrow> address \<Rightarrow> u32
    \<Rightarrow> string \<Rightarrow> i128 \<Rightarrow> ('x, unit) rcontract" where
  "resolution_challenge E T M challenger' cid uri bond' =
     andthen (require_auth E challenger')
     (andthen require_not_paused
     (andthen res_assert_version
     (andthen (require_emergency_mode_allows [Normal, TradingHalted])
     (andthen (validate_uri uri)
     (andthen (ensure (\<not> bond' < min_challenge_bond_amount) InsufficientChallengeBond)
     (bind (gets (res_get_candidate cid)) (\<lambda>found.
     bind (ok_or found CandidateNotFound) (\<lambda>c.
     andthen (ensure (status c \<noteq> Finalized) CandidateAlreadyFinalized)
     (andthen (ensure (status c \<noteq> Voided) CandidateAlreadyFinalized)
     (andthen (ensure (status c \<noteq> Challenged) CandidateAlreadyChallenged)
     (andthen (ensure (\<not> ledger_timestamp E \<ge> challenge_deadline c) ChallengeWindowClosed)
     (bind res_get_config (\<lambda>config.
     bind (get_collateral_token M config (cand_market_id c)) (\<lambda>collateral_token.
     andthen (res_set_candidate (c\<lparr>status := Challenged, challenged_by := Some challenger',
         challenge_uri := Some uri\<rparr>))
     (andthen (res_append_challenger cid challenger' bond')
     (andthen (token_transfer T collateral_token challenger' (current_contract_address E) bond')
     (emit_candidate_challenged E cid (cand_market_id c) challenger' uri bond')))))))))))))))))"

definition resolution_appeal :: "env \<Rightarrow> 'x market_client \<Rightarrow> address \<Rightarrow> u32 \<Rightarrow> bool \<Rightarrow> bytes
    \<Rightarrow> string \<Rightarrow> u64 \<Rightarrow> ('x, unit) rcontract" where
  "resolution_appeal E M proposer' cid o' sig uri window =
     andthen (require_auth E proposer')
     (andthen require_not_paused
     (andthen res_assert_version
     (bind res_get_config (\<lambda>config.
     andthen (require_emergency_mode_allows [Normal])
     (andthen (validate_uri uri)
     (andthen (validate_challenge_window window)
     (bind (gets (res_get_candidate cid)) (\<lambda>found.
     bind (ok_or found CandidateNotFound) (\<lambda>c.
     andthen (ensure (status c = Challenged) CandidateNotChallenged)
     (andthen (ensure (\<not> appeal_round c \<ge> max_appeal_rounds) AppealLimitExceeded)
     (andthen (ensure (passphrase_hash c = None) Unauthorized)
     (andthen (require_market_active M config (cand_market_id c))
     (andthen (verify_signature M config (cand_market_id c) o' sig)
     (let now = ledger_timestamp E in
     bind (add_u64 now window) (\<lambda>deadline.
     bind (add_u32 (appeal_round c) 1) (\<lambda>round.
     let c' = c\<lparr>outcome := o', signature := sig, evidence_uri := uri, proposed_at := now,
         challenge_deadline := deadline, status := Proposed, challenged_by := None,
         challenge_uri := None, appeal_round := round\<rparr> in
     andthen (res_set_candidate c')
     (emit_candidate_appealed E c')))))))))))))))))"

section \<open>Terminal paths\<close>

definition refund_proposer :: "env \<Rightarrow> 'x token_client \<Rightarrow> address \<Rightarrow> resolution_candidate
    \<Rightarrow> ('x, unit) rcontract" where
  "refund_proposer E T token c =
     when_do (bond_amount c > 0)
       (token_transfer T token (current_contract_address E) (proposer c) (bond_amount c))"

definition resolution_finalize :: "env \<Rightarrow> 'x token_client \<Rightarrow> 'x market_client \<Rightarrow> address \<Rightarrow> u32
    \<Rightarrow> ('x, resolution_candidate) rcontract" where
  "resolution_finalize E T M finalizer cid =
     andthen (require_auth E finalizer)
     (andthen require_not_paused
     (andthen res_assert_version
     (bind res_get_config (\<lambda>config.
     andthen (require_emergency_mode_allows [Normal, TradingHalted, SettleOnly])
     (bind (gets (res_get_candidate cid)) (\<lambda>found.
     bind (ok_or found CandidateNotFound) (\<lambda>c0.
     andthen (ensure (\<not> (status c0 = Finalized \<or> status c0 = Voided)) CandidateAlreadyFinalized)
     (andthen (ensure (status c0 \<noteq> Challenged) CandidateAlreadyChallenged)
     (andthen (ensure (\<not> ledger_timestamp E < challenge_deadline c0) ChallengeWindowOpen)
     (andthen (ensure (\<not> ledger_timestamp E > signature_expiry c0) SignatureExpired)
     (let c = c0\<lparr>status := Finalized, finalized_at := Some (ledger_timestamp E)\<rparr> in
     andthen (res_set_candidate c)
     (bind (gets (res_get_candidate cid)) (\<lambda>found'.
     bind (ok_or found' CandidateNotFound) (\<lambda>stored.
     andthen (ensure (status stored = Finalized) CandidateNotFound)
     (bind (get_collateral_token M config (cand_market_id c)) (\<lambda>collateral_token.
     andthen (refund_proposer E T collateral_token c)
     (andthen (settle_challengers_as_losers E T cid c collateral_token)
     (andthen (emit_candidate_finalized E c)
     (andthen
       (case passphrase_hash c of
          Some ph \<Rightarrow> call_resolve_market_v2 E M config c ph
        | None \<Rightarrow> call_resolve_market E M config c)
     (return c))))))))))))))))))))"

definition resolution_arbitrate_uphold_proposer :: "env \<Rightarrow> 'x token_client \<Rightarrow> 'x market_client
    \<Rightarrow> address \<Rightarrow> u32 \<Rightarrow> ('x, resolution_candidate) rcontract" where
  "resolution_arbitrate_uphold_proposer E T M admin' cid =
     andthen (require_auth E admin')
     (andthen require_not_paused
     (andthen res_assert_version
     (bind res_get_config (\<lambda>config.
     andthen (require_admin admin' config)
     (bind (gets (res_get_candidate cid)) (\<lambda>found.
     bind (ok_or found CandidateNotFound) (\<lambda>c0.
     andthen (require_arbitrable E c0)
     (let c = c0\<lparr>status := Finalized, finalized_at := Some (ledger_timestamp E)\<rparr> in
     andthen (res_set_candidate c)
     (bind (get_collateral_token M config (cand_market_id c)) (\<lambda>collateral_token.
     andthen (refund_proposer E T collateral_token c)
     (andthen (settle_challengers_as_losers E T cid c collateral_token)
     (andthen (emit_candidate_arbitrated E cid (cand_market_id c) (outcome c))
     (andthen (call_resolve_market E M config c)
     (return c))))))))))))))"

definition refund_challenger :: "env \<Rightarrow> 'x token_client \<Rightarrow> address \<Rightarrow> u32 \<Rightarrow> u32
    \<Rightarrow> challenge_record \<Rightarrow> ('x, unit) rcontract" where
  "refund_challenger E T token cid mid r =
     when_do (bond r > 0)
       (andthen (token_transfer T token (current_contract_address E) (challenger r) (bond r))
        (emit_bond_refunded E cid mid (challenger r) (bond r)))"

definition resolution_void_market :: "env \<Rightarrow> 'x token_client \<Rightarrow> 'x market_client \<Rightarrow> address
    \<Rightarrow> u32 \<Rightarrow> ('x, resolution_candidate) rcontract" where
  "resolution_void_market E T M admin' cid =
     andthen (require_auth E admin')
     (andthen require_not_paused
     (andthen res_assert_version
     (bind res_get_config (\<lambda>config.
     andthen (require_admin admin' config)
     (bind (gets (res_get_candidate cid)) (\<lambda>found.
     bind (ok_or found CandidateNotFound) (\<lambda>c0.
     andthen (require_arbitrable E c0)
     (let c = c0\<lparr>status := Voided, finalized_at := Some (ledger_timestamp E)\<rparr> in
     andthen (res_set_candidate c)
     (bind (get_collateral_token M config (cand_market_id c)) (\<lambda>collateral_token.
     bind (gets (res_get_challengers cid)) (\<lambda>challengers.
     andthen (when_do (bond_amount c > 0)
       (split_bond E T cid (cand_market_id c) collateral_token (proposer c)
         (if challengers = [] then proposer c else challenger (last challengers)) (bond_amount c)))
     (andthen (for_each challengers (refund_challenger E T collateral_token cid (cand_market_id c)))
     (andthen (res_clear_challengers cid)
     (andthen (emit_market_voided E cid (cand_market_id c))
     (andthen (invoke_contract (mc_void_market M (market_contract config)
        (current_contract_address E) (cand_market_id c)))
     (return c))))))))))))))))"

section \<open>Proposer collateral\<close>

definition resolution_deposit_collateral :: "env \<Rightarrow> 'x token_client \<Rightarrow> address \<Rightarrow> address \<Rightarrow> i128
    \<Rightarrow> ('x, unit) rcontract" where
  "resolution_deposit_collateral E T proposer' collateral_token amount =
     andthen (require_auth E proposer')
     (andthen res_assert_version
     (andthen (require_emergency_mode_allows [Normal])
     (andthen (ensure (\<not> amount \<le> 0) InvalidCollateral)
     (bind (gets (res_get_proposer_collateral proposer')) (\<lambda>prev.
     bind (add_i128 prev amount) (\<lambda>total.
     andthen (res_set_proposer_collateral proposer' total)
     (token_transfer T collateral_token proposer' (current_contract_address E) amount)))))))"

definition resolution_slash_collateral :: "env \<Rightarrow> 'x token_client \<Rightarrow> address \<Rightarrow> address \<Rightarrow> address
    \<Rightarrow> address \<Rightarrow> ('x, i128) rcontract" where
  "resolution_slash_collateral E T admin' proposer' collateral_token recipient =
     andthen (require_auth E admin')
     (andthen res_assert_version
     (bind res_get_config (\<lambda>config.
     andthen (require_admin admin' config)
     (bind (gets (res_get_proposer_collateral proposer')) (\<lambda>amount.
     andthen (ensure (\<not> amount \<le> 0) InsufficientCollateral)
     (andthen (res_set_proposer_collateral proposer' 0)
     (andthen (emit_collateral_slashed E proposer' recipient amount)
     (andthen (token_transfer T collateral_token (current_contract_address E) recipient amount)
     (return amount)))))))))"

section \<open>Getters\<close>

definition resolution_get_config :: "('x, resolution_config) rcontract" where
  "resolution_get_config = res_get_config"

definition resolution_get_default_challenge_window :: "('x, u64) rcontract" where
  "resolution_get_default_challenge_window =
     bind res_get_config (\<lambda>c. return (challenge_window_secs c))"

definition resolution_get_factory :: "('x, address) rcontract" where
  "resolution_get_factory = bind res_get_config (\<lambda>c. return (factory c))"

definition resolution_get_market_contract :: "('x, address) rcontract" where
  "resolution_get_market_contract = bind res_get_config (\<lambda>c. return (market_contract c))"

definition resolution_get_admin :: "('x, address) rcontract" where
  "resolution_get_admin = bind res_get_config (\<lambda>c. return (admin c))"

section \<open>The contract as a step relation\<close>

text \<open>One constructor per state-changing entrypoint of the contract's interface.\<close>

datatype rcall =
    Initialize address address address u64
  | SetDefaultChallengeWindow address u64
  | ProposeFactory address address
  | ExecuteFactory
  | CancelFactory address
  | ProposeMarketContract address address
  | ExecuteMarketContract
  | CancelMarketContract address
  | SetMarketContract address address
  | Propose address u32 bool bytes u64 string u64 i128
  | ProposeV2 address u32 bool bytes u64 u32 bytes string u64 i128
  | Challenge address u32 string i128
  | Appeal address u32 bool bytes string u64
  | Finalize address u32
  | DepositCollateral address address i128
  | SlashCollateral address address address address
  | ProposeTreasury address address
  | ExecuteTreasury
  | CancelTreasury address
  | SetEmergencyMode address emergency_mode
  | Pause address
  | Unpause address
  | ArbitrateUpholdProposer address u32
  | VoidMarket address u32

fun resolution_call :: "env \<Rightarrow> 'x token_client \<Rightarrow> 'x market_client \<Rightarrow> rcall
    \<Rightarrow> ('x, unit) rcontract" where
  "resolution_call E T M (Initialize a f m w) = resolution_initialize E a f m w"
| "resolution_call E T M (SetDefaultChallengeWindow a w) =
     resolution_set_default_challenge_window E a w"
| "resolution_call E T M (ProposeFactory a f) = resolution_propose_factory E a f"
| "resolution_call E T M ExecuteFactory = discard (resolution_execute_factory E)"
| "resolution_call E T M (CancelFactory a) = resolution_cancel_factory E a"
| "resolution_call E T M (ProposeMarketContract a m) = resolution_propose_market_contract E a m"
| "resolution_call E T M ExecuteMarketContract = discard (resolution_execute_market_contract E)"
| "resolution_call E T M (CancelMarketContract a) = resolution_cancel_market_contract E a"
| "resolution_call E T M (SetMarketContract a m) = resolution_set_market_contract E a m"
| "resolution_call E T M (Propose p mid b sig ex uri w n) =
     discard (resolution_propose E T M p mid b sig ex uri w n)"
| "resolution_call E T M (ProposeV2 p mid b sig vu ep ph uri w n) =
     discard (resolution_propose_v2 E T M p mid b sig vu ep ph uri w n)"
| "resolution_call E T M (Challenge a cid uri n) = resolution_challenge E T M a cid uri n"
| "resolution_call E T M (Appeal p cid b sig uri w) = resolution_appeal E M p cid b sig uri w"
| "resolution_call E T M (Finalize a cid) = discard (resolution_finalize E T M a cid)"
| "resolution_call E T M (DepositCollateral p t n) = resolution_deposit_collateral E T p t n"
| "resolution_call E T M (SlashCollateral a p t r) =
     discard (resolution_slash_collateral E T a p t r)"
| "resolution_call E T M (ProposeTreasury a t) = resolution_propose_treasury E a t"
| "resolution_call E T M ExecuteTreasury = discard (resolution_execute_treasury E)"
| "resolution_call E T M (CancelTreasury a) = resolution_cancel_treasury E a"
| "resolution_call E T M (SetEmergencyMode a m) = resolution_set_emergency_mode E a m"
| "resolution_call E T M (Pause a) = resolution_pause E a"
| "resolution_call E T M (Unpause a) = resolution_unpause E a"
| "resolution_call E T M (ArbitrateUpholdProposer a cid) =
     discard (resolution_arbitrate_uphold_proposer E T M a cid)"
| "resolution_call E T M (VoidMarket a cid) = discard (resolution_void_market E T M a cid)"

end
