(* ===== verification/Resolution_Lifecycle.thy ===== *)
theory Resolution_Lifecycle
  imports Resolution_Disputes
begin

text \<open>
  What every entrypoint of the Resolution contract does to the disputes it keeps: an abstract
  machine over candidates, the refinement of the contract to it, and the invariants that follow
  in every reachable state.
\<close>

section \<open>Frames\<close>

text \<open>A computation that touches foreign contracts and events only.\<close>

definition same_storage :: "'x resolution \<Rightarrow> 'x resolution \<Rightarrow> bool" where
  "same_storage s s' \<longleftrightarrow>
     key_storage_version s' = key_storage_version s \<and> key_config s' = key_config s
   \<and> key_candidate_counter s' = key_candidate_counter s \<and> key_candidate s' = key_candidate s
   \<and> key_candidate_by_market s' = key_candidate_by_market s
   \<and> key_proposer_collateral s' = key_proposer_collateral s
   \<and> key_challengers s' = key_challengers s \<and> key_treasury s' = key_treasury s
   \<and> key_pending_treasury s' = key_pending_treasury s
   \<and> key_pending_factory s' = key_pending_factory s
   \<and> key_pending_market_contract s' = key_pending_market_contract s
   \<and> key_emergency_mode s' = key_emergency_mode s \<and> key_paused s' = key_paused s"

interpretation same_storage: run_relation same_storage
  by unfold_locales (simp_all add: same_storage_def)

lemma same_storage_host [simp]:
  "same_storage s (s\<lparr>ext := x\<rparr>)" "same_storage s (s\<lparr>events := l\<rparr>)"
  by (simp_all add: same_storage_def)

lemma same_storage_host_ops:
  "keeps same_storage (emit ev)" "keeps same_storage (invoke_contract f)"
  by (auto simp: keeps_def ok_iff)

lemmas same_storage_rules = same_storage.keeps_rules same_storage_host_ops

lemma same_storage_helpers:
  "keeps same_storage (split_bond E T cid mid tok l w n)"
  "keeps same_storage (refund_challenger E T tok cid mid r)"
  "keeps same_storage (refund_proposer E T tok c)"
  "keeps same_storage (call_resolve_market E M cfg c)"
  "keeps same_storage (call_resolve_market_v2 E M cfg c ph)"
  "keeps same_storage (get_collateral_token M cfg mid)"
  "keeps same_storage (require_market_active M cfg mid)"
  "keeps same_storage (verify_signature M cfg mid b sig)"
  "keeps same_storage (verify_signature_v2 M cfg ph mid b vu ep sig)"
  "keeps same_storage (token_transfer T tok from to n)"
  "keeps same_storage (token_burn T tok from n)"
  by (unfold split_bond_def split_parts_def refund_challenger_def refund_proposer_def
      call_resolve_market_def call_resolve_market_v2_def get_collateral_token_def
      require_market_active_def verify_signature_def verify_signature_v2_def
      token_transfer_def token_burn_def resolution_emits)
    (intro same_storage_rules)+

lemmas same_storageD = same_storage_helpers[THEN keepsD]

section \<open>The abstract dispute machine\<close>

text \<open>
  The part of the state that decides who owes what: the id counter, the candidates, the index by
  market and the bonded challengers of each candidate.
\<close>

record disputes =
  d_counter :: u32
  d_candidate :: "u32 \<Rightarrow> resolution_candidate option"
  d_by_market :: "u32 \<Rightarrow> u32 option"
  d_challengers :: "u32 \<Rightarrow> challenge_record list"

definition disputes_of :: "'x resolution \<Rightarrow> disputes" where
  "disputes_of s = \<lparr>
     d_counter = (case key_candidate_counter s of None \<Rightarrow> 0 | Some n \<Rightarrow> n),
     d_candidate = key_candidate s,
     d_by_market = key_candidate_by_market s,
     d_challengers = (\<lambda>cid. res_get_challengers cid s)\<rparr>"

definition put_candidate :: "resolution_candidate \<Rightarrow> disputes \<Rightarrow> disputes" where
  "put_candidate c d = d\<lparr>
     d_candidate := (d_candidate d)(cand_id c \<mapsto> c),
     d_by_market := (d_by_market d)(cand_market_id c \<mapsto> cand_id c)\<rparr>"

definition put_challengers :: "u32 \<Rightarrow> challenge_record list \<Rightarrow> disputes \<Rightarrow> disputes" where
  "put_challengers cid rs d = d\<lparr>d_challengers := (d_challengers d)(cid := rs)\<rparr>"

text \<open>The window a fresh or re-opened proposal must stay open for challenges.\<close>

definition open_window :: "u64 \<Rightarrow> resolution_candidate \<Rightarrow> bool" where
  "open_window now c \<longleftrightarrow> proposed_at c = now
     \<and> now + min_challenge_window_seconds \<le> challenge_deadline c
     \<and> challenge_deadline c \<le> now + max_challenge_window_seconds"

inductive dispute_step :: "u64 \<Rightarrow> disputes \<Rightarrow> disputes \<Rightarrow> bool" where
  idle: "dispute_step now d d"
| propose: "d_by_market d (cand_market_id c) = None \<Longrightarrow> cand_id c = Suc (d_counter d) \<Longrightarrow>
     status c = Proposed \<Longrightarrow> appeal_round c = 0 \<Longrightarrow> min_bond_amount \<le> bond_amount c \<Longrightarrow>
     open_window now c \<Longrightarrow> now \<le> signature_expiry c \<Longrightarrow> challenged_by c = None \<Longrightarrow>
     finalized_at c = None \<Longrightarrow>
     dispute_step now d (put_candidate c (d\<lparr>d_counter := Suc (d_counter d)\<rparr>))"
| challenge: "d_candidate d cid = Some c \<Longrightarrow> status c = Proposed \<Longrightarrow>
     now < challenge_deadline c \<Longrightarrow> min_challenge_bond_amount \<le> n \<Longrightarrow>
     dispute_step now d (put_challengers cid
       (d_challengers d cid @ [\<lparr>challenger = a, bond = n\<rparr>])
       (put_candidate (c\<lparr>status := Challenged, challenged_by := Some a,
          challenge_uri := Some uri\<rparr>) d))"
| appeal: "d_candidate d cid = Some c \<Longrightarrow> status c = Challenged \<Longrightarrow>
     appeal_round c < max_appeal_rounds \<Longrightarrow> passphrase_hash c = None \<Longrightarrow>
     c' = c\<lparr>outcome := b, signature := sig, evidence_uri := uri, proposed_at := now,
       challenge_deadline := deadline, status := Proposed, challenged_by := None,
       challenge_uri := None, appeal_round := Suc (appeal_round c)\<rparr> \<Longrightarrow> open_window now c' \<Longrightarrow>
     dispute_step now d (put_candidate c' d)"
| finalize: "d_candidate d cid = Some c \<Longrightarrow> status c = Proposed \<Longrightarrow>
     challenge_deadline c \<le> now \<Longrightarrow> now \<le> signature_expiry c \<Longrightarrow>
     dispute_step now d (put_challengers cid []
       (put_candidate (c\<lparr>status := Finalized, finalized_at := Some now\<rparr>) d))"
| arbitrate: "d_candidate d cid = Some c \<Longrightarrow> status c = Challenged \<Longrightarrow>
     challenge_deadline c + arbitration_timelock_seconds \<le> now \<Longrightarrow>
     dispute_step now d (put_challengers cid []
       (put_candidate (c\<lparr>status := Finalized, finalized_at := Some now\<rparr>) d))"
| void_market: "d_candidate d cid = Some c \<Longrightarrow> status c = Challenged \<Longrightarrow>
     challenge_deadline c + arbitration_timelock_seconds \<le> now \<Longrightarrow>
     dispute_step now d (put_challengers cid []
       (put_candidate (c\<lparr>status := Voided, finalized_at := Some now\<rparr>) d))"

section \<open>The contract refines the dispute machine\<close>

lemma put_simps [simp]:
  "d_candidate (put_candidate c d) = (d_candidate d)(cand_id c \<mapsto> c)"
  "d_by_market (put_candidate c d) = (d_by_market d)(cand_market_id c \<mapsto> cand_id c)"
  "d_challengers (put_candidate c d) = d_challengers d"
  "d_counter (put_candidate c d) = d_counter d"
  "d_candidate (put_challengers cid rs d) = d_candidate d"
  "d_by_market (put_challengers cid rs d) = d_by_market d"
  "d_challengers (put_challengers cid rs d) = (d_challengers d)(cid := rs)"
  "d_counter (put_challengers cid rs d) = d_counter d"
  by (simp_all add: put_candidate_def put_challengers_def)

lemma disputes_of_reads [simp]:
  "d_candidate (disputes_of s) cid = res_get_candidate cid s"
  "d_by_market (disputes_of s) mid = res_get_candidate_id_for_market mid s"
  "d_challengers (disputes_of s) cid = res_get_challengers cid s"
  by (simp_all add: disputes_of_def resolution_reads)

lemma status_open:
  "status c \<noteq> Finalized \<Longrightarrow> status c \<noteq> Voided \<Longrightarrow> status c \<noteq> Challenged \<Longrightarrow> status c = Proposed"
  by (cases "status c") auto

lemma disputes_of_host [simp]:
  "disputes_of (s\<lparr>ext := x\<rparr>) = disputes_of s" "disputes_of (s\<lparr>events := l\<rparr>) = disputes_of s"
  by (simp_all add: disputes_of_def res_get_challengers_def)

lemma disputes_of_same: "same_storage s s' \<Longrightarrow> disputes_of s' = disputes_of s"
  by (simp add: disputes_of_def same_storage_def res_get_challengers_def)

lemma disputes_of_set_candidate:
  "res_set_candidate c s = (Ok u, s') \<Longrightarrow> disputes_of s' = put_candidate c (disputes_of s)"
  by (simp add: ok_iff disputes_of_def put_candidate_def res_get_challengers_def)

lemma disputes_of_challengers:
  "res_append_challenger cid a n s = (Ok u, s') \<Longrightarrow>
     disputes_of s' = put_challengers cid
       (d_challengers (disputes_of s) cid @ [\<lparr>challenger = a, bond = n\<rparr>]) (disputes_of s)"
  "res_clear_challengers cid s = (Ok u, s') \<Longrightarrow>
     disputes_of s' = put_challengers cid [] (disputes_of s)"
  by (auto simp: ok_iff disputes_of_def put_challengers_def res_get_challengers_def)

lemma disputes_of_increment:
  "res_increment_candidate_id s = (Ok n, s') \<Longrightarrow>
     n = Suc (d_counter (disputes_of s)) \<and>
     disputes_of s' = (disputes_of s)\<lparr>d_counter := Suc (d_counter (disputes_of s))\<rparr>"
  by (auto simp: ok_iff Let_def disputes_of_def res_get_challengers_def split: option.splits)

lemma disputes_of_settle:
  assumes "settle_challengers_as_losers E T cid c tok s = (Ok u, s')"
  shows "disputes_of s' = put_challengers cid [] (disputes_of s)"
proof (cases "res_get_challengers cid s = []")
  case True
  with assms have "s' = s" by (simp add: settle_challengers_as_losers_def ok_iff)
  moreover have "put_challengers cid [] (disputes_of s) = disputes_of s"
    using True by (auto simp: put_challengers_def disputes_of_def fun_eq_iff)
  ultimately show ?thesis by simp
next
  case False
  with assms obtain t where loop: "for_each (res_get_challengers cid s) (\<lambda>r. split_bond E T cid
      (cand_market_id c) tok (challenger r) (proposer c) (bond r)) s = (Ok (), t)"
    and clear: "res_clear_challengers cid t = (Ok u, s')"
    by (auto simp: settle_challengers_as_losers_def bind_ok gets_ok andthen_ok)
  have "keeps same_storage (for_each (res_get_challengers cid s) (\<lambda>r. split_bond E T cid
      (cand_market_id c) tok (challenger r) (proposer c) (bond r)))"
    by (intro same_storage.keeps_for_each same_storage_helpers)
  from keepsD[OF this loop] disputes_of_challengers(2)[OF clear] show ?thesis
    by (simp add: disputes_of_same)
qed

lemmas dispute_effects =
  same_storageD[THEN disputes_of_same] disputes_of_set_candidate disputes_of_challengers
  disputes_of_increment disputes_of_settle

lemma propose_step:
  assumes "resolution_propose E T M p mid b sig ex uri w n s = (Ok cid, s')"
  shows "dispute_step (ledger_timestamp E) (disputes_of s) (disputes_of s')"
  using assms
  by (clarsimp simp: resolution_propose_def Let_def guard_ok)
    (clarsimp dest!: dispute_effects, rule dispute_step.propose, simp_all add: open_window_def)

lemma propose_v2_step:
  assumes "resolution_propose_v2 E T M p mid b sig vu ep ph uri w n s = (Ok cid, s')"
  shows "dispute_step (ledger_timestamp E) (disputes_of s) (disputes_of s')"
  using assms
  by (clarsimp simp: resolution_propose_v2_def Let_def guard_ok)
    (clarsimp dest!: dispute_effects, rule dispute_step.propose, simp_all add: open_window_def)

lemma challenge_step:
  assumes "resolution_challenge E T M a cid uri n s = (Ok u, s')"
  shows "dispute_step (ledger_timestamp E) (disputes_of s) (disputes_of s')"
  using assms
  by (clarsimp simp: resolution_challenge_def Let_def guard_ok)
    (clarsimp dest!: dispute_effects,
     auto intro!: dispute_step.challenge[where d = "disputes_of s", unfolded disputes_of_reads]
       status_open)

lemma appeal_step:
  assumes "resolution_appeal E M p cid b sig uri w s = (Ok u, s')"
  shows "dispute_step (ledger_timestamp E) (disputes_of s) (disputes_of s')"
  using assms
  by (clarsimp simp: resolution_appeal_def Let_def guard_ok)
    (clarsimp dest!: dispute_effects, rule dispute_step.appeal, auto simp: open_window_def)

lemma finalize_step:
  assumes "resolution_finalize E T M a cid s = (Ok c, s')"
  shows "dispute_step (ledger_timestamp E) (disputes_of s) (disputes_of s')"
  using assms
  by (clarsimp simp: resolution_finalize_def Let_def guard_ok)
    (auto dest!: dispute_effects intro!: dispute_step.finalize status_open
      split: option.splits)

lemma arbitrate_step:
  assumes "resolution_arbitrate_uphold_proposer E T M a cid s = (Ok c, s')"
  shows "dispute_step (ledger_timestamp E) (disputes_of s) (disputes_of s')"
  using assms
  by (clarsimp simp: resolution_arbitrate_uphold_proposer_def Let_def guard_ok)
    (clarsimp dest!: dispute_effects, auto intro!: dispute_step.arbitrate)

lemma refund_loop_frame:
  "keeps same_storage (for_each rs (refund_challenger E T tok cid mid))"
  by (intro same_storage.keeps_for_each same_storage_helpers)

lemma void_market_step:
  assumes "resolution_void_market E T M a cid s = (Ok c, s')"
  shows "dispute_step (ledger_timestamp E) (disputes_of s) (disputes_of s')"
  using assms
  by (clarsimp simp: resolution_void_market_def Let_def guard_ok)
    (auto dest!: dispute_effects refund_loop_frame[THEN keepsD, THEN disputes_of_same]
      intro!: dispute_step.void_market simp: return_ok split: if_splits)

text \<open>Every other entrypoint leaves the disputes alone.\<close>

definition same_disputes :: "'x resolution \<Rightarrow> 'x resolution \<Rightarrow> bool" where
  "same_disputes s s' \<longleftrightarrow> disputes_of s' = disputes_of s"

interpretation same_disputes: run_relation same_disputes
  by unfold_locales (simp_all add: same_disputes_def)

lemma same_disputes_writes:
  "keeps same_disputes (emit ev)" "keeps same_disputes (invoke_contract f)"
  "keeps same_disputes (res_set_config c)" "keeps same_disputes res_set_version"
  "keeps same_disputes (res_set_pending_factory p)" "keeps same_disputes res_clear_pending_factory"
  "keeps same_disputes (res_set_pending_market_contract p)"
  "keeps same_disputes res_clear_pending_market_contract"
  "keeps same_disputes (res_set_pending_treasury p)" "keeps same_disputes res_clear_pending_treasury"
  "keeps same_disputes (res_set_treasury t)" "keeps same_disputes (res_set_emergency_mode m)"
  "keeps same_disputes (res_set_paused b)" "keeps same_disputes (res_set_proposer_collateral a i)"
  by (auto simp: keeps_def ok_iff same_disputes_def disputes_of_def res_get_challengers_def)

lemmas same_disputes_rules = same_disputes.keeps_rules same_disputes_writes

lemmas config_entrypoints =
  resolution_initialize_def resolution_set_default_challenge_window_def
  resolution_propose_factory_def resolution_execute_factory_def resolution_cancel_factory_def
  resolution_propose_market_contract_def resolution_execute_market_contract_def
  resolution_cancel_market_contract_def resolution_set_market_contract_def
  resolution_propose_treasury_def resolution_execute_treasury_def
  resolution_cancel_treasury_def resolution_set_emergency_mode_def resolution_pause_def
  resolution_unpause_def resolution_deposit_collateral_def resolution_slash_collateral_def

lemmas guard_defs = require_admin_def require_not_paused_def require_emergency_mode_allows_def
  validate_challenge_window_def validate_uri_def require_arbitrable_def res_assert_version_def
  res_get_config_def discard_def token_transfer_def token_burn_def resolution_emits

definition touches_dispute :: "rcall \<Rightarrow> bool" where
  "touches_dispute c = (case c of
     Propose _ _ _ _ _ _ _ _ \<Rightarrow> True | ProposeV2 _ _ _ _ _ _ _ _ _ _ \<Rightarrow> True
   | Challenge _ _ _ _ \<Rightarrow> True | Appeal _ _ _ _ _ _ \<Rightarrow> True | Finalize _ _ \<Rightarrow> True
   | ArbitrateUpholdProposer _ _ \<Rightarrow> True | VoidMarket _ _ \<Rightarrow> True | _ \<Rightarrow> False)"

lemma config_call_frame:
  "\<not> touches_dispute c \<Longrightarrow> keeps same_disputes (resolution_call E T M c)"
  by (cases c)
    (simp_all add: touches_dispute_def config_entrypoints guard_defs;
     (intro same_disputes_rules)+)+

theorem resolution_refines_disputes:
  assumes "resolution_call E T M c s = (Ok u, s')"
  shows "dispute_step (ledger_timestamp E) (disputes_of s) (disputes_of s')"
proof (cases "touches_dispute c")
  case True
  with assms show ?thesis
    by (cases c) (auto simp: touches_dispute_def discard_ok intro: propose_step propose_v2_step
        challenge_step appeal_step finalize_step arbitrate_step void_market_step)
next
  case False
  from keepsD[OF config_call_frame[OF False] assms] show ?thesis
    by (simp add: same_disputes_def dispute_step.idle)
qed

end
