(* ===== verification/Resolution_Invariants.thy ===== *)
theory Resolution_Invariants
  imports Resolution_Lifecycle
begin

text \<open>
  The dispute invariant of the Resolution contract, the reachable states, and what they say about
  a candidate's life: identity, single candidate per market, bounded appeals, final states.
\<close>

section \<open>The invariant\<close>

definition candidate_ok :: "resolution_candidate \<Rightarrow> challenge_record list \<Rightarrow> bool" where
  "candidate_ok c rs \<longleftrightarrow>
     appeal_round c \<le> max_appeal_rounds \<and> min_bond_amount \<le> bond_amount c
   \<and> (\<forall>r \<in> set rs. min_challenge_bond_amount \<le> bond r)
   \<and> proposed_at c + min_challenge_window_seconds \<le> challenge_deadline c
   \<and> challenge_deadline c \<le> proposed_at c + max_challenge_window_seconds
   \<and> (case status c of
        Proposed \<Rightarrow> length rs = appeal_round c \<and> challenged_by c = None \<and> finalized_at c = None
      | Challenged \<Rightarrow> length rs = Suc (appeal_round c) \<and> finalized_at c = None
          \<and> challenged_by c = Some (challenger (last rs))
      | _ \<Rightarrow> rs = [] \<and> finalized_at c \<noteq> None)"

definition dispute_inv :: "disputes \<Rightarrow> bool" where
  "dispute_inv d \<longleftrightarrow>
     (\<forall>cid c. d_candidate d cid = Some c \<longrightarrow>
        cand_id c = cid \<and> 1 \<le> cid \<and> cid \<le> d_counter d
      \<and> d_by_market d (cand_market_id c) = Some cid \<and> candidate_ok c (d_challengers d cid))
   \<and> (\<forall>m cid. d_by_market d m = Some cid \<longrightarrow>
        (\<exists>c. d_candidate d cid = Some c \<and> cand_market_id c = m))
   \<and> (\<forall>cid. d_candidate d cid = None \<longrightarrow> d_challengers d cid = [])"

lemma dispute_invD:
  assumes "dispute_inv d" and "d_candidate d cid = Some c"
  shows "cand_id c = cid" "1 \<le> cid" "cid \<le> d_counter d"
    "d_by_market d (cand_market_id c) = Some cid" "candidate_ok c (d_challengers d cid)"
  using assms by (auto simp: dispute_inv_def)

lemma dispute_inv_market:
  assumes "dispute_inv d" and "d_by_market d m = Some cid"
  obtains c where "d_candidate d cid = Some c" "cand_market_id c = m"
  using assms unfolding dispute_inv_def by blast

lemma dispute_inv_absent: "dispute_inv d \<Longrightarrow> d_candidate d cid = None \<Longrightarrow> d_challengers d cid = []"
  by (auto simp: dispute_inv_def)

lemma dispute_inv_fresh: "dispute_inv (disputes_of (fresh_resolution x))"
  by (simp add: dispute_inv_def disputes_of_def fresh_resolution_def res_get_challengers_def)

text \<open>Replacing a candidate by one of the same id and market, with a new list of challengers.\<close>

lemma dispute_inv_update:
  assumes inv: "dispute_inv d" and c: "d_candidate d cid = Some c"
    and "cand_id c' = cand_id c" and "cand_market_id c' = cand_market_id c"
    and "candidate_ok c' rs"
  shows "dispute_inv (put_challengers cid rs (put_candidate c' d))"
proof -
  note cid = dispute_invD[OF inv c]
  show ?thesis
    unfolding dispute_inv_def
  proof (intro conjI allI impI)
    fix k x
    assume x: "d_candidate (put_challengers cid rs (put_candidate c' d)) k = Some x"
    have "k = cid \<and> x = c' \<or> k \<noteq> cid \<and> d_candidate d k = Some x"
      using x assms(3) cid(1) by (auto split: if_splits)
    then have "cand_id x = k \<and> 1 \<le> k \<and> k \<le> d_counter d
      \<and> d_by_market (put_candidate c' d) (cand_market_id x) = Some k
      \<and> candidate_ok x (((d_challengers d)(cid := rs)) k)"
    proof (elim disjE conjE)
      assume "k = cid" "x = c'"
      then show ?thesis using assms(3,5) cid by simp
    next
      assume k: "k \<noteq> cid" "d_candidate d k = Some x"
      from dispute_invD[OF inv k(2)] k(1) cid(4) assms(4) show ?thesis by auto
    qed
    then show "cand_id x = k" "1 \<le> k"
      "k \<le> d_counter (put_challengers cid rs (put_candidate c' d))"
      "d_by_market (put_challengers cid rs (put_candidate c' d)) (cand_market_id x) = Some k"
      "candidate_ok x (d_challengers (put_challengers cid rs (put_candidate c' d)) k)"
      by simp_all
  next
    fix m k
    assume m: "d_by_market (put_challengers cid rs (put_candidate c' d)) m = Some k"
    show "\<exists>x. d_candidate (put_challengers cid rs (put_candidate c' d)) k = Some x
      \<and> cand_market_id x = m"
    proof (cases "m = cand_market_id c'")
      case True
      with m assms cid show ?thesis by auto
    next
      case False
      with m have "d_by_market d m = Some k" by simp
      with inv obtain x where "d_candidate d k = Some x" "cand_market_id x = m"
        by (rule dispute_inv_market)
      with False assms c cid show ?thesis by auto
    qed
  next
    fix k
    assume "d_candidate (put_challengers cid rs (put_candidate c' d)) k = None"
    with assms cid dispute_inv_absent[OF inv] 
    show "d_challengers (put_challengers cid rs (put_candidate c' d)) k = []"
      by (auto split: if_splits)
  qed
qed

lemma put_challengers_same:
  "put_challengers cid (d_challengers d cid) (put_candidate c d) = put_candidate c d"
  by (simp add: put_challengers_def put_candidate_def)

lemma dispute_inv_propose:
  assumes inv: "dispute_inv d" and new: "d_by_market d (cand_market_id c) = None"
    and cid: "cand_id c = Suc (d_counter d)" and ok: "candidate_ok c []"
  shows "dispute_inv (put_candidate c (d\<lparr>d_counter := Suc (d_counter d)\<rparr>))"
proof -
  have fresh: "d_candidate d (Suc (d_counter d)) = None"
    using dispute_invD(3)[OF inv] by (cases "d_candidate d (Suc (d_counter d))") force+
  show ?thesis
    unfolding dispute_inv_def
  proof (intro conjI allI impI)
    fix k x
    assume "d_candidate (put_candidate c (d\<lparr>d_counter := Suc (d_counter d)\<rparr>)) k = Some x"
    with assms dispute_invD[OF inv, of k x] dispute_inv_absent[OF inv fresh]
    show "cand_id x = k" "1 \<le> k"
      "k \<le> d_counter (put_candidate c (d\<lparr>d_counter := Suc (d_counter d)\<rparr>))"
      "d_by_market (put_candidate c (d\<lparr>d_counter := Suc (d_counter d)\<rparr>)) (cand_market_id x) = Some k"
      "candidate_ok x (d_challengers (put_candidate c (d\<lparr>d_counter := Suc (d_counter d)\<rparr>)) k)"
      by (auto split: if_splits)
  next
    fix m k
    assume m: "d_by_market (put_candidate c (d\<lparr>d_counter := Suc (d_counter d)\<rparr>)) m = Some k"
    show "\<exists>x. d_candidate (put_candidate c (d\<lparr>d_counter := Suc (d_counter d)\<rparr>)) k = Some x
      \<and> cand_market_id x = m"
    proof (cases "m = cand_market_id c")
      case True
      with m cid show ?thesis by auto
    next
      case False
      with m have "d_by_market d m = Some k" by simp
      with inv obtain x where "d_candidate d k = Some x" "cand_market_id x = m"
        by (rule dispute_inv_market)
      with fresh cid show ?thesis by auto
    qed
  next
    fix k
    assume "d_candidate (put_candidate c (d\<lparr>d_counter := Suc (d_counter d)\<rparr>)) k = None"
    with cid dispute_inv_absent[OF inv] 
    show "d_challengers (put_candidate c (d\<lparr>d_counter := Suc (d_counter d)\<rparr>)) k = []"
      by (auto split: if_splits)
  qed
qed

lemma dispute_step_inv: "dispute_step now d d' \<Longrightarrow> dispute_inv d \<Longrightarrow> dispute_inv d'"
proof (induction rule: dispute_step.induct)
  case (idle now d)
  then show ?case by simp
next
  case (propose d c now)
  then show ?case
    by (intro dispute_inv_propose) (auto simp: candidate_ok_def open_window_def)
next
  case (challenge d cid c now n a uri)
  from dispute_invD(5)[OF challenge.prems challenge.hyps(1)] challenge show ?case
    by (intro dispute_inv_update) (auto simp: candidate_ok_def)
next
  case (appeal d cid c c' b sig uri now deadline)
  have "dispute_inv (put_challengers cid (d_challengers d cid) (put_candidate c' d))"
    using dispute_invD(5)[OF appeal.prems appeal.hyps(1)] appeal
    by (intro dispute_inv_update) (auto simp: candidate_ok_def open_window_def)
  then show ?case by (simp add: put_challengers_same)
next
  case (finalize d cid c now)
  from dispute_invD(5)[OF finalize.prems finalize.hyps(1)] finalize show ?case
    by (intro dispute_inv_update) (auto simp: candidate_ok_def)
next
  case (arbitrate d cid c now)
  from dispute_invD(5)[OF arbitrate.prems arbitrate.hyps(1)] arbitrate show ?case
    by (intro dispute_inv_update) (auto simp: candidate_ok_def)
next
  case (void_market d cid c now)
  from dispute_invD(5)[OF void_market.prems void_market.hyps(1)] void_market show ?case
    by (intro dispute_inv_update) (auto simp: candidate_ok_def)
qed

section \<open>Reachable states\<close>

text \<open>
  One step of the deployment at ledger time \<open>now\<close>: a successful call of an entrypoint (a failed
  one is rolled back by the host), or anything happening in other contracts.
\<close>

inductive resolution_step :: "'x token_client \<Rightarrow> 'x market_client \<Rightarrow> address \<Rightarrow> u64
    \<Rightarrow> 'x resolution \<Rightarrow> 'x resolution \<Rightarrow> bool"
  for T :: "'x token_client" and M :: "'x market_client" and self :: address where
  call: "current_contract_address E = self \<Longrightarrow> ledger_timestamp E = now \<Longrightarrow>
     resolution_call E T M c s = (Ok (), s') \<Longrightarrow> resolution_step T M self now s s'"
| foreign: "resolution_step T M self now s (s\<lparr>ext := x\<rparr>)"

inductive resolution_reachable :: "'x token_client \<Rightarrow> 'x market_client \<Rightarrow> address
    \<Rightarrow> 'x resolution \<Rightarrow> bool"
  for T :: "'x token_client" and M :: "'x market_client" and self :: address where
  deployed: "resolution_reachable T M self (fresh_resolution x)"
| step: "resolution_reachable T M self s \<Longrightarrow> resolution_step T M self now s s' \<Longrightarrow>
     resolution_reachable T M self s'"

inductive_cases resolution_stepE: "resolution_step T M self now s s'"

lemma resolution_step_disputes:
  "resolution_step T M self now s s' \<Longrightarrow> dispute_step now (disputes_of s) (disputes_of s')"
  by (auto elim!: resolution_stepE intro: resolution_refines_disputes dispute_step.idle)

theorem reachable_dispute_inv:
  "resolution_reachable T M self s \<Longrightarrow> dispute_inv (disputes_of s)"
  by (induction rule: resolution_reachable.induct)
    (auto simp: dispute_inv_fresh intro: dispute_step_inv resolution_step_disputes)

section \<open>A candidate's life\<close>

definition terminal :: "resolution_candidate \<Rightarrow> bool" where
  "terminal c \<longleftrightarrow> status c = Finalized \<or> status c = Voided"

text \<open>What no step ever changes of a candidate.\<close>

definition same_terms :: "resolution_candidate \<Rightarrow> resolution_candidate \<Rightarrow> bool" where
  "same_terms c c' \<longleftrightarrow> cand_id c' = cand_id c \<and> cand_market_id c' = cand_market_id c
     \<and> proposer c' = proposer c \<and> bond_amount c' = bond_amount c
     \<and> signature_expiry c' = signature_expiry c \<and> epoch c' = epoch c
     \<and> passphrase_hash c' = passphrase_hash c"

lemma dispute_step_candidate:
  assumes "dispute_step now d d'" and "dispute_inv d" and "d_candidate d cid = Some c"
  shows "\<exists>c'. d_candidate d' cid = Some c' \<and> same_terms c c' \<and>
     appeal_round c \<le> appeal_round c' \<and> (terminal c \<longrightarrow> c' = c)"
  using assms
proof (induction rule: dispute_step.induct)
  case (propose d c0 now)
  then have "cid \<noteq> cand_id c0"
    using dispute_invD(3) by force
  with propose show ?case by (simp add: same_terms_def)
qed (auto simp: same_terms_def terminal_def dest: dispute_invD(1))

text \<open>
  A proposal that nobody challenged in time and whose signature has expired: no call can finalize,
  challenge or appeal it any more.
\<close>

definition dead :: "u64 \<Rightarrow> resolution_candidate \<Rightarrow> bool" where
  "dead now c \<longleftrightarrow> status c = Proposed \<and> challenge_deadline c \<le> now \<and> signature_expiry c < now"

lemma dispute_step_dead:
  assumes "dispute_step now d d'" and "dispute_inv d" and "d_candidate d cid = Some c"
    and "dead now c"
  shows "d_candidate d' cid = Some c"
  using assms
proof (induction rule: dispute_step.induct)
  case (idle now d)
  then show ?case by simp
next
  case (propose d c0 now)
  then have "cid \<noteq> cand_id c0"
    using dispute_invD(3) by force
  with propose show ?case by simp
next
  case (challenge d k x now n a uri)
  from dispute_invD(1)[OF challenge.prems(1) challenge.hyps(1)] challenge.hyps challenge.prems(2,3) show ?case
    by (cases "k = cid") (simp_all add: dead_def)
next
  case (appeal d k x x' b sig uri now deadline)
  from dispute_invD(1)[OF appeal.prems(1) appeal.hyps(1)] appeal.hyps appeal.prems(2,3) show ?case
    by (cases "k = cid") (simp_all add: dead_def)
next
  case (finalize d k x now)
  from dispute_invD(1)[OF finalize.prems(1) finalize.hyps(1)] finalize.hyps finalize.prems(2,3) show ?case
    by (cases "k = cid") (simp_all add: dead_def)
next
  case (arbitrate d k x now)
  from dispute_invD(1)[OF arbitrate.prems(1) arbitrate.hyps(1)] arbitrate.hyps arbitrate.prems(2,3) show ?case
    by (cases "k = cid") (simp_all add: dead_def)
next
  case (void_market d k x now)
  from dispute_invD(1)[OF void_market.prems(1) void_market.hyps(1)] void_market.hyps void_market.prems(2,3) show ?case
    by (cases "k = cid") (simp_all add: dead_def)
qed

lemma dispute_run_candidate:
  assumes "timed_run dispute_step t d r" and "dispute_inv d" and "d_candidate d cid = Some c"
    and "terminal c \<or> dead t c"
  shows "d_candidate (last_state d r) cid = Some c"
proof -
  have "dispute_inv (last_state d r) \<and> d_candidate (last_state d r) cid = Some c"
    using assms(1)
  proof (rule timed_run_invariant)
    fix now u v
    assume t: "t \<le> now" and u: "dispute_inv u \<and> d_candidate u cid = Some c"
      and st: "dispute_step now u v"
    from assms(4) t have "terminal c \<or> dead now c" by (auto simp: dead_def)
    with u dispute_step_candidate[OF st, of cid c] dispute_step_dead[OF st, of cid c]
    show "dispute_inv v \<and> d_candidate v cid = Some c"
      using dispute_step_inv[OF st] by auto
  qed (use assms in simp)
  then show ?thesis ..
qed

lemma dispute_run_terms:
  assumes "timed_run dispute_step t d r" and "dispute_inv d" and "d_candidate d cid = Some c"
  shows "\<exists>c'. d_candidate (last_state d r) cid = Some c' \<and> same_terms c c'
     \<and> appeal_round c \<le> appeal_round c'"
proof -
  have "dispute_inv (last_state d r) \<and> (\<exists>c'. d_candidate (last_state d r) cid = Some c'
      \<and> same_terms c c' \<and> appeal_round c \<le> appeal_round c')"
    using assms(1)
  proof (rule timed_run_invariant)
    fix now u v
    assume u: "dispute_inv u \<and> (\<exists>c'. d_candidate u cid = Some c' \<and> same_terms c c'
        \<and> appeal_round c \<le> appeal_round c')"
      and st: "dispute_step now u v"
    from u obtain c' where "d_candidate u cid = Some c'" "same_terms c c'"
      "appeal_round c \<le> appeal_round c'" by blast
    with u dispute_step_candidate[OF st, of cid c'] dispute_step_inv[OF st]
    show "dispute_inv v \<and> (\<exists>c'. d_candidate v cid = Some c' \<and> same_terms c c'
        \<and> appeal_round c \<le> appeal_round c')"
      by (fastforce simp: same_terms_def)
  qed (use assms in \<open>simp add: same_terms_def\<close>)
  then show ?thesis by blast
qed

text \<open>The counter only grows, and a candidate under a new id took the id from the counter.\<close>

lemma dispute_step_ids:
  assumes "dispute_step now d d'" and "dispute_inv d"
  shows "d_counter d \<le> d_counter d' \<and>
    (\<forall>k. d_candidate d' k \<noteq> None \<longrightarrow> d_candidate d k \<noteq> None \<or> d_counter d < k)"
  using assms by (induction rule: dispute_step.induct) (auto dest: dispute_invD(1))

lemma dispute_run_ids:
  assumes "timed_run dispute_step t d r" and "dispute_inv d"
  shows "d_counter d \<le> d_counter (last_state d r) \<and>
    (\<forall>k. d_candidate (last_state d r) k \<noteq> None \<longrightarrow> d_candidate d k \<noteq> None \<or> d_counter d < k)"
proof -
  have "dispute_inv (last_state d r) \<and> d_counter d \<le> d_counter (last_state d r) \<and>
    (\<forall>k. d_candidate (last_state d r) k \<noteq> None \<longrightarrow> d_candidate d k \<noteq> None \<or> d_counter d < k)"
    using assms(1)
  proof (rule timed_run_invariant)
    fix now u v
    assume u: "dispute_inv u \<and> d_counter d \<le> d_counter u \<and>
        (\<forall>k. d_candidate u k \<noteq> None \<longrightarrow> d_candidate d k \<noteq> None \<or> d_counter d < k)"
      and st: "dispute_step now u v"
    with dispute_step_ids[OF st] dispute_step_inv[OF st]
    show "dispute_inv v \<and> d_counter d \<le> d_counter v \<and>
        (\<forall>k. d_candidate v k \<noteq> None \<longrightarrow> d_candidate d k \<noteq> None \<or> d_counter d < k)"
      by (meson le_less_trans order_trans)
  qed (use assms(2) in simp)
  then show ?thesis by blast
qed

lemma timed_run_disputes:
  "timed_run (resolution_step T M self) t s r \<Longrightarrow>
     timed_run dispute_step t (disputes_of s) (map (\<lambda>(n, s'). (n, disputes_of s')) r)"
  by (induction r arbitrary: t s) (auto intro: resolution_step_disputes)

lemma last_state_map:
  "last_state (disputes_of s) (map (\<lambda>(n, s'). (n, disputes_of s')) r) = disputes_of (last_state s r)"
  by (auto simp: last_state_def last_map split: prod.splits)

end
