(* ===== verification/Resolution_Solvency.thy ===== *)
theory Resolution_Solvency
  imports Resolution_Invariants
begin

text \<open>
  Solvency of the Resolution contract: in every token, its balance covers the bonds it still
  holds for open disputes. The proof is done once over a locale that names what is asked of the
  token and market contracts, and interpreted on the reference ledger.
\<close>

section \<open>What the contract owes\<close>

definition bond_sum :: "challenge_record list \<Rightarrow> int" where
  "bond_sum rs = sum_list (map bond rs)"

lemma bond_sum_simps [simp]:
  "bond_sum [] = 0" "bond_sum (r # rs) = bond r + bond_sum rs"
  "bond_sum (rs @ rs') = bond_sum rs + bond_sum rs'"
  by (simp_all add: bond_sum_def)

lemma bond_sum_max:
  "\<forall>r\<in>set rs. 0 \<le> bond r \<Longrightarrow> (\<Sum>r\<leftarrow>rs. max 0 (bond r)) = bond_sum rs"
  by (induction rs) simp_all

text \<open>
  The bonds of candidate \<open>cid\<close> held in \<open>token\<close>: the proposer's and every challenger's, as long as
  the dispute is open. \<open>collateral\<close> gives each market's collateral token.
\<close>

definition held :: "(u32 \<Rightarrow> address) \<Rightarrow> address \<Rightarrow> disputes \<Rightarrow> u32 \<Rightarrow> int" where
  "held collateral token d cid = (case d_candidate d cid of
      None \<Rightarrow> 0
    | Some c \<Rightarrow>
        if collateral (cand_market_id c) = token \<and> \<not> terminal c
        then bond_amount c + bond_sum (d_challengers d cid) else 0)"

definition owed :: "(u32 \<Rightarrow> address) \<Rightarrow> address \<Rightarrow> disputes \<Rightarrow> int" where
  "owed collateral token d = (\<Sum>cid\<in>{1..d_counter d}. held collateral token d cid)"

lemma held_put_challengers [simp]:
  "held col t (put_challengers cid rs d) k =
     (if k = cid then (case d_candidate d cid of None \<Rightarrow> 0
        | Some c \<Rightarrow> if col (cand_market_id c) = t \<and> \<not> terminal c
            then bond_amount c + bond_sum rs else 0)
      else held col t d k)"
  by (auto simp: held_def split: option.splits)

lemma held_put_candidate [simp]:
  "held col t (put_candidate c d) k =
     (if k = cand_id c
      then (if col (cand_market_id c) = t \<and> \<not> terminal c
            then bond_amount c + bond_sum (d_challengers d k) else 0)
      else held col t d k)"
  by (auto simp: held_def split: option.splits)

lemma owed_update:
  assumes inv: "dispute_inv d" and c: "d_candidate d cid = Some c"
    and id: "cand_id c' = cand_id c"
  shows "owed col t (put_challengers cid rs (put_candidate c' d)) =
     owed col t d - held col t d cid
       + (if col (cand_market_id c') = t \<and> \<not> terminal c' then bond_amount c' + bond_sum rs else 0)"
proof -
  note cid = dispute_invD[OF inv c]
  have "owed col t (put_challengers cid rs (put_candidate c' d)) =
     owed col t d - held col t d cid
       + held col t (put_challengers cid rs (put_candidate c' d)) cid"
    unfolding owed_def put_simps
    using cid id by (intro sum_change_one) auto
  then show ?thesis using cid id by simp
qed

lemma owed_update_open:
  assumes "dispute_inv d" and "d_candidate d cid = Some c" and "\<not> terminal c"
    and "cand_id c' = cand_id c" and "cand_market_id c' = cand_market_id c"
  shows "owed col t (put_challengers cid rs (put_candidate c' d)) = owed col t d
     + (if col (cand_market_id c) = t
        then (if terminal c' then 0 else bond_amount c' + bond_sum rs)
             - bond_amount c - bond_sum (d_challengers d cid) else 0)"
  using assms owed_update[OF assms(1,2,4), of col t rs] by (simp add: held_def)

lemma owed_propose:
  assumes inv: "dispute_inv d" and cid: "cand_id c = Suc (d_counter d)"
    and "status c = Proposed"
  shows "owed col t (put_candidate c (d\<lparr>d_counter := Suc (d_counter d)\<rparr>)) =
     owed col t d + (if col (cand_market_id c) = t then bond_amount c else 0)"
proof -
  have none: "d_candidate d (Suc (d_counter d)) = None"
    using dispute_invD(3)[OF inv] by (cases "d_candidate d (Suc (d_counter d))") force+
  have "(\<Sum>i\<in>{1..d_counter d}. held col t (put_candidate c (d\<lparr>d_counter := Suc (d_counter d)\<rparr>)) i)
      = owed col t d"
    unfolding owed_def using cid by (intro sum.cong) (auto simp: held_def split: option.splits)
  then show ?thesis
    using assms(3) cid dispute_inv_absent[OF inv none]
    by (simp add: owed_def atLeastAtMostSuc_conv terminal_def)
qed

definition solvent :: "('x \<Rightarrow> address \<Rightarrow> address \<Rightarrow> int) \<Rightarrow> (u32 \<Rightarrow> address) \<Rightarrow> address
    \<Rightarrow> 'x resolution \<Rightarrow> bool" where
  "solvent balance collateral self s \<longleftrightarrow>
     (\<forall>t. owed collateral t (disputes_of s) \<le> balance (ext s) t self)"

text \<open>
  \<open>spends balance self tok n m\<close>: a successful run of \<open>m\<close> costs \<open>self\<close> at most \<open>n\<close> of \<open>tok\<close>,
  and nothing of any other token.
\<close>

definition spends :: "('x \<Rightarrow> address \<Rightarrow> address \<Rightarrow> int) \<Rightarrow> address \<Rightarrow> address \<Rightarrow> int
    \<Rightarrow> ('x, 'a) rcontract \<Rightarrow> bool" where
  "spends balance self tok n m \<longleftrightarrow> (\<forall>s v s'. m s = (Ok v, s') \<longrightarrow>
     (\<forall>t. balance (ext s) t self - (if t = tok then n else 0) \<le> balance (ext s') t self))"

section \<open>Dividing a forfeited bond\<close>

lemma split_parts_value:
  assumes "0 \<le> n" and "n * reward_bps \<le> i128_max"
  shows "split_parts n s = (Ok (n div 2, n div 4, n - n div 2 - n div 4), s)"
proof -
  have "n * 5000 sdiv 10000 = n div 2" "n * 2500 sdiv 10000 = n div 4"
    using assms(1) by (simp_all add: sdiv_nonneg)
  moreover have "0 \<le> n div 2" "0 \<le> n div 4" "n div 2 + n div 4 \<le> n" "n \<le> i128_max"
    using assms by (simp_all add: resolution_constants)
  ultimately show ?thesis using assms
    by (auto simp: split_parts_def ok_iff Let_def resolution_constants in_i128_def i128_numerals)
qed

lemma split_parts_sum:
  assumes "split_parts n s = (Ok (r, b, c), s')" and "0 \<le> n"
  shows "r + b + c = n \<and> 0 \<le> r \<and> 0 \<le> b \<and> 0 \<le> c \<and> s' = s"
proof -
  from assms(1) have "n * reward_bps \<le> i128_max"
    by (auto simp: split_parts_def ok_iff in_i128_def Let_def)
  with assms split_parts_value[of n s] show ?thesis by auto
qed

section \<open>Calls that stay inside the contract\<close>

definition same_ext :: "'x resolution \<Rightarrow> 'x resolution \<Rightarrow> bool" where
  "same_ext s s' \<longleftrightarrow> ext s' = ext s"

interpretation same_ext: run_relation same_ext
  by unfold_locales (simp_all add: same_ext_def)

lemma same_ext_writes:
  "keeps same_ext (emit ev)"
  "keeps same_ext (res_set_config c)" "keeps same_ext res_set_version"
  "keeps same_ext (res_set_pending_factory p)" "keeps same_ext res_clear_pending_factory"
  "keeps same_ext (res_set_pending_market_contract p)"
  "keeps same_ext res_clear_pending_market_contract"
  "keeps same_ext (res_set_pending_treasury p)" "keeps same_ext res_clear_pending_treasury"
  "keeps same_ext (res_set_treasury a)" "keeps same_ext (res_set_emergency_mode m)"
  "keeps same_ext (res_set_paused b)"
  by (auto simp: keeps_def same_ext_def ok_iff)

definition local_call :: "rcall \<Rightarrow> bool" where
  "local_call c \<longleftrightarrow> \<not> touches_dispute c \<and>
     (case c of DepositCollateral _ _ _ \<Rightarrow> False | SlashCollateral _ _ _ _ \<Rightarrow> False | _ \<Rightarrow> True)"

lemma local_call_ext: "local_call c \<Longrightarrow> keeps same_ext (resolution_call E T M c)"
  by (cases c)
    (simp_all add: local_call_def touches_dispute_def config_entrypoints guard_defs;
     (intro same_ext.keeps_rules same_ext_writes)+)+

text \<open>
  The states a deployment reaches when the admin never slashes collateral: a contract address
  authorizes nothing but its own calls, so no invocation of it carries its own authorization, and
  what happens elsewhere takes no tokens from it.
\<close>

inductive escrow_reachable :: "'x token_client \<Rightarrow> 'x market_client
    \<Rightarrow> ('x \<Rightarrow> address \<Rightarrow> address \<Rightarrow> int) \<Rightarrow> address \<Rightarrow> 'x resolution \<Rightarrow> bool"
  for T :: "'x token_client" and M :: "'x market_client"
    and balance :: "'x \<Rightarrow> address \<Rightarrow> address \<Rightarrow> int" and self :: address where
  deployed: "\<forall>t. 0 \<le> balance x t self \<Longrightarrow> escrow_reachable T M balance self (fresh_resolution x)"
| call: "escrow_reachable T M balance self s \<Longrightarrow> current_contract_address E = self \<Longrightarrow>
     \<not> authorized E self \<Longrightarrow> \<forall>a p t r. c \<noteq> SlashCollateral a p t r \<Longrightarrow>
     resolution_call E T M c s = (Ok (), s') \<Longrightarrow> escrow_reachable T M balance self s'"
| foreign: "escrow_reachable T M balance self s \<Longrightarrow>
     \<forall>t. balance (ext s) t self \<le> balance x t self \<Longrightarrow>
     escrow_reachable T M balance self (s\<lparr>ext := x\<rparr>)"

lemma escrow_reachable_reachable:
  "escrow_reachable T M balance self s \<Longrightarrow> resolution_reachable T M self s"
  by (induction rule: escrow_reachable.induct)
    (auto intro: resolution_reachable.intros resolution_step.intros)

section \<open>The escrow interface\<close>

text \<open>
  The market contract is asked for a market's collateral token, which never changes, and is told
  to resolve or void; none of its entrypoints takes tokens from the Resolution contract.
\<close>

locale escrow = sep41 T balance
  for T :: "'x token_client" and balance :: "'x \<Rightarrow> address \<Rightarrow> address \<Rightarrow> int" +
  fixes M :: "'x market_client"
    and self :: address
    and collateral :: "u32 \<Rightarrow> address"
  assumes collateral_token:
    "mc_get_collateral_token M mc mid x = Some (tok, x') \<Longrightarrow>
       tok = collateral mid \<and> balance x' = balance x"
    and queries:
      "mc_get_market_status M mc mid x = Some (st, x') \<Longrightarrow> balance x' = balance x"
      "mc_verify_signature M mc mid b sig x = Some (r, x') \<Longrightarrow> balance x' = balance x"
      "mc_verify_signature_v2 M mc ph mid b vu ep sig x = Some (r, x') \<Longrightarrow> balance x' = balance x"
    and callbacks:
      "mc_resolve_market M mc this m b sig ex x = Some (u, x') \<Longrightarrow>
         balance x t self \<le> balance x' t self"
      "mc_resolve_market_v2 M mc this m b ex ep sig ph x = Some (u, x') \<Longrightarrow>
         balance x t self \<le> balance x' t self"
      "mc_void_market M mc this mid x = Some (u, x') \<Longrightarrow> balance x t self \<le> balance x' t self"
begin

abbreviation costs :: "address \<Rightarrow> int \<Rightarrow> ('x, 'a) rcontract \<Rightarrow> bool" where
  "costs \<equiv> spends balance self"

lemma costsD:
  "costs tok n m \<Longrightarrow> m s = (Ok v, s') \<Longrightarrow>
     balance (ext s) t self - (if t = tok then n else 0) \<le> balance (ext s') t self"
  by (simp add: spends_def)

lemma costs_bind:
  assumes "costs tok n m" and "\<And>a. costs tok k (f a)"
  shows "costs tok (n + k) (bind m f)"
  unfolding spends_def
proof (intro allI impI)
  fix s v s' t
  assume "bind m f s = (Ok v, s')"
  then obtain a s1 where "m s = (Ok a, s1)" "f a s1 = (Ok v, s')"
    by (auto simp: bind_ok)
  from costsD[OF assms(1) this(1), of t] costsD[OF assms(2) this(2), of t]
  show "balance (ext s) t self - (if t = tok then n + k else 0) \<le> balance (ext s') t self"
    by (simp split: if_splits)
qed

lemma costs_andthen:
  "costs tok n m \<Longrightarrow> costs tok k m' \<Longrightarrow> costs tok (n + k) (andthen m m')"
  unfolding andthen_def by (rule costs_bind)

lemma costs_le: "costs tok n m \<Longrightarrow> n \<le> k \<Longrightarrow> costs tok k m"
  unfolding spends_def by (smt (verit))

lemma costs_nothing:
  "costs tok 0 (return v)" "costs tok 0 (emit ev)" "costs tok 0 (gets f)"
  by (auto simp: spends_def ok_iff)

lemma costs_transfer: "0 \<le> n \<Longrightarrow> costs tok n (token_transfer T tok self to n)"
  by (auto simp: spends_def token_transfer_ok transfer_moves)

lemma costs_burn: "0 \<le> n \<Longrightarrow> costs tok n (token_burn T tok self n)"
  by (auto simp: spends_def token_burn_ok burn_destroys)

lemma costs_when: "(b \<Longrightarrow> costs tok n m) \<Longrightarrow> 0 \<le> n \<Longrightarrow> costs tok n (when_do b m)"
  by (auto simp: spends_def when_do_ok)

lemma costs_for_each:
  "(\<And>x. x \<in> set xs \<Longrightarrow> costs tok (g x) (f x)) \<Longrightarrow>
     costs tok (sum_list (map g xs)) (for_each xs f)"
  by (induction xs) (simp_all add: costs_nothing costs_andthen)

lemma costs_split_bond:
  assumes "current_contract_address E = self"
  shows "costs tok (max 0 n) (split_bond E T cid mid tok loser winner n)"
  unfolding spends_def
proof (intro allI impI)
  fix s v s' t
  assume run: "split_bond E T cid mid tok loser winner n s = (Ok v, s')"
  show "balance (ext s) t self - (if t = tok then max 0 n else 0) \<le> balance (ext s') t self"
  proof (cases "n \<le> 0")
    case True
    with run show ?thesis by (simp add: split_bond_def return_ok)
  next
    case False
    with run assms obtain r b c s1 where parts: "split_parts n s = (Ok (r, b, c), s1)"
      and rest: "andthen (when_do (r > 0) (token_transfer T tok self winner r))
        (andthen (when_do (b > 0) (token_burn T tok self b))
        (andthen (when_do (c > 0) (bind (gets res_get_treasury) (\<lambda>t.
           case t of None \<Rightarrow> return ()
           | Some treasury \<Rightarrow> token_transfer T tok self treasury c)))
        (emit_bond_slashed E cid mid loser winner n r b c))) s1 = (Ok v, s')"
      by (auto simp: split_bond_def Let_def bind_ok)
    from split_parts_sum[OF parts] False
    have sum: "r + b + c = n" "0 \<le> r" "0 \<le> b" "0 \<le> c" "s1 = s" by auto
    have pay: "costs tok c (case t of None \<Rightarrow> return ()
         | Some treasury \<Rightarrow> token_transfer T tok self treasury c)" for t :: "address option"
      using sum by (auto intro: costs_transfer costs_le[OF costs_nothing(1)] split: option.split)
    have "costs tok (r + (b + (c + 0)))
       (andthen (when_do (r > 0) (token_transfer T tok self winner r))
        (andthen (when_do (b > 0) (token_burn T tok self b))
        (andthen (when_do (c > 0) (bind (gets res_get_treasury) (\<lambda>t.
           case t of None \<Rightarrow> return ()
           | Some treasury \<Rightarrow> token_transfer T tok self treasury c)))
        (emit_bond_slashed E cid mid loser winner n r b c))))"
      unfolding emit_bond_slashed_def
      using sum costs_bind[OF costs_nothing(3) pay]
      by (intro costs_andthen costs_when costs_transfer costs_burn costs_nothing) simp_all
    from costsD[OF this rest, of t] sum False show ?thesis by (simp split: if_splits)
  qed
qed

lemma costs_refund_proposer:
  assumes "current_contract_address E = self"
  shows "costs tok (max 0 (bond_amount c)) (refund_proposer E T tok c)"
  unfolding refund_proposer_def assms when_do_def
  using costs_transfer[of "bond_amount c" tok "proposer c"] costs_nothing(1)[of tok "()"]
  by (cases "bond_amount c > 0") simp_all

lemma costs_refund_challenger:
  assumes "current_contract_address E = self"
  shows "costs tok (max 0 (bond r)) (refund_challenger E T tok cid mid r)"
  unfolding refund_challenger_def emit_bond_refunded_def assms when_do_def
  using costs_andthen[OF costs_transfer costs_nothing(2), of "bond r" tok "challenger r"]
    costs_nothing(1)[of tok "()"]
  by (cases "bond r > 0") simp_all

lemma settle_costs:
  assumes run: "settle_challengers_as_losers E T cid c tok s = (Ok u, s')"
    and self: "current_contract_address E = self"
  shows "disputes_of s' = put_challengers cid [] (disputes_of s) \<and>
     balance (ext s) t self - (if t = tok
       then (\<Sum>r\<leftarrow>d_challengers (disputes_of s) cid. max 0 (bond r)) else 0)
     \<le> balance (ext s') t self"
proof (intro conjI)
  show "disputes_of s' = put_challengers cid [] (disputes_of s)"
    by (rule disputes_of_settle[OF run])
  let ?rs = "res_get_challengers cid s"
  show "balance (ext s) t self - (if t = tok
      then (\<Sum>r\<leftarrow>d_challengers (disputes_of s) cid. max 0 (bond r)) else 0)
    \<le> balance (ext s') t self"
  proof (cases "?rs = []")
    case True
    with run show ?thesis by (simp add: settle_challengers_as_losers_def ok_iff)
  next
    case False
    with run obtain s1 where loop: "for_each ?rs (\<lambda>r. split_bond E T cid (cand_market_id c) tok
        (challenger r) (proposer c) (bond r)) s = (Ok (), s1)" and "ext s' = ext s1"
      by (auto simp: settle_challengers_as_losers_def bind_ok gets_ok andthen_ok
          res_clear_challengers_def modify_ok)
    with costsD[OF costs_for_each[OF costs_split_bond[OF self]] loop, of t] show ?thesis
      by (simp split: if_splits)
  qed
qed

lemma refund_costs:
  assumes run: "for_each rs (refund_challenger E T tok cid mid) s = (Ok u, s')"
    and self: "current_contract_address E = self"
  shows "disputes_of s' = disputes_of s \<and>
     balance (ext s) t self - (if t = tok then (\<Sum>r\<leftarrow>rs. max 0 (bond r)) else 0)
       \<le> balance (ext s') t self"
  using disputes_of_same[OF refund_loop_frame[THEN keepsD, OF run]]
    costsD[OF costs_for_each[OF costs_refund_challenger[OF self]] run, of t] by simp

text \<open>What each statement does to the disputes and to the contract's own balances.\<close>

lemma query_effects:
  "get_collateral_token M cfg mid s = (Ok tok, s') \<Longrightarrow>
     tok = collateral mid \<and> disputes_of s' = disputes_of s \<and> balance (ext s') = balance (ext s)"
  "require_market_active M cfg mid s = (Ok u, s') \<Longrightarrow>
     disputes_of s' = disputes_of s \<and> balance (ext s') = balance (ext s)"
  "verify_signature M cfg mid b sig s = (Ok u, s') \<Longrightarrow>
     disputes_of s' = disputes_of s \<and> balance (ext s') = balance (ext s)"
  "verify_signature_v2 M cfg ph mid b vu ep sig s = (Ok u, s') \<Longrightarrow>
     disputes_of s' = disputes_of s \<and> balance (ext s') = balance (ext s)"
  by (auto simp: get_collateral_token_def require_market_active_def verify_signature_def
      verify_signature_v2_def ok_iff dest: collateral_token queries)

lemma write_effects:
  "res_set_candidate c s = (Ok u, s') \<Longrightarrow>
     disputes_of s' = put_candidate c (disputes_of s) \<and> ext s' = ext s"
  "res_append_challenger cid a n s = (Ok u, s') \<Longrightarrow>
     disputes_of s' = put_challengers cid
       (d_challengers (disputes_of s) cid @ [\<lparr>challenger = a, bond = n\<rparr>]) (disputes_of s)
     \<and> ext s' = ext s"
  "res_clear_challengers cid s = (Ok u, s') \<Longrightarrow>
     disputes_of s' = put_challengers cid [] (disputes_of s) \<and> ext s' = ext s"
  "res_increment_candidate_id s = (Ok m, s') \<Longrightarrow>
     m = Suc (d_counter (disputes_of s)) \<and> ext s' = ext s \<and>
     disputes_of s' = (disputes_of s)\<lparr>d_counter := Suc (d_counter (disputes_of s))\<rparr>"
  by (simp add: disputes_of_set_candidate, simp add: ok_iff)
    (simp add: disputes_of_challengers, simp add: ok_iff,
     simp add: disputes_of_challengers, simp add: ok_iff,
     simp add: disputes_of_increment, simp add: ok_iff Let_def)

lemma transfer_effects:
  assumes "token_transfer T tok from to n s = (Ok u, s')"
  shows "disputes_of s' = disputes_of s \<and> balance (ext s') = (\<lambda>t a. balance (ext s) t a
     - (if t = tok \<and> a = from then n else 0) + (if t = tok \<and> a = to then n else 0))"
  using assms by (auto simp: token_transfer_ok fun_eq_iff transfer_moves)

lemma owed_le_balance:
  "solvent balance collateral self s \<Longrightarrow> owed collateral t (disputes_of s) \<le> balance (ext s) t self"
  by (simp add: solvent_def)

lemmas effects = query_effects write_effects transfer_effects

lemma solvent_propose:
  assumes run: "resolution_propose E T M p mid b sig ex uri w n s = (Ok cid, s')"
    and inv: "dispute_inv (disputes_of s)" and solv: "solvent balance collateral self s"
    and self: "current_contract_address E = self" and auth: "\<not> authorized E self"
  shows "solvent balance collateral self s'"
proof -
  have "p \<noteq> self" if "authorized E p" using that auth by auto
  with run show ?thesis
    by (clarsimp simp: resolution_propose_def Let_def guard_ok self solvent_def
        simp del: token_transfer_ok)
      (clarsimp dest!: effects, simp add: owed_propose[OF inv] owed_le_balance[OF solv])
qed

lemma solvent_propose_v2:
  assumes run: "resolution_propose_v2 E T M p mid b sig vu ep ph uri w n s = (Ok cid, s')"
    and inv: "dispute_inv (disputes_of s)" and solv: "solvent balance collateral self s"
    and self: "current_contract_address E = self" and auth: "\<not> authorized E self"
  shows "solvent balance collateral self s'"
proof -
  have "p \<noteq> self" if "authorized E p" using that auth by auto
  with run show ?thesis
    by (clarsimp simp: resolution_propose_v2_def Let_def guard_ok self solvent_def
        simp del: token_transfer_ok)
      (clarsimp dest!: effects, simp add: owed_propose[OF inv] owed_le_balance[OF solv])
qed

lemma solvent_challenge:
  assumes run: "resolution_challenge E T M a cid uri n s = (Ok u, s')"
    and inv: "dispute_inv (disputes_of s)" and solv: "solvent balance collateral self s"
    and self: "current_contract_address E = self" and auth: "\<not> authorized E self"
  shows "solvent balance collateral self s'"
proof -
  have "a \<noteq> self" if "authorized E a" using that auth by auto
  with run show ?thesis
    by (clarsimp simp: resolution_challenge_def Let_def guard_ok self solvent_def
        simp del: token_transfer_ok)
      (clarsimp dest!: effects, simp add: owed_update_open[OF inv] owed_le_balance[OF solv]
        terminal_def resolution_reads)
qed

lemma solvent_appeal:
  assumes run: "resolution_appeal E M p cid b sig uri w s = (Ok u, s')"
    and inv: "dispute_inv (disputes_of s)" and solv: "solvent balance collateral self s"
  shows "solvent balance collateral self s'"
  using run
    by (clarsimp simp: resolution_appeal_def Let_def guard_ok solvent_def)
      (clarsimp dest!: effects,
        subst put_challengers_same[where cid = cid and d = "disputes_of s", symmetric],
        simp add: owed_update_open[OF inv] owed_le_balance[OF solv] terminal_def resolution_reads)

lemma callback_effects:
  "call_resolve_market E M cfg c s = (Ok u, s') \<Longrightarrow>
     disputes_of s' = disputes_of s \<and> balance (ext s) t self \<le> balance (ext s') t self"
  "call_resolve_market_v2 E M cfg c ph s = (Ok u, s') \<Longrightarrow>
     disputes_of s' = disputes_of s \<and> balance (ext s) t self \<le> balance (ext s') t self"
  by (auto simp: call_resolve_market_def call_resolve_market_v2_def ok_iff dest: callbacks)

lemma pay_effects:
  assumes "current_contract_address E = self"
  shows
  "refund_proposer E T tok c s = (Ok u, s') \<Longrightarrow> disputes_of s' = disputes_of s \<and>
     balance (ext s) t self - (if t = tok then max 0 (bond_amount c) else 0)
       \<le> balance (ext s') t self"
  "split_bond E T cid mid tok l w n s = (Ok u, s') \<Longrightarrow> disputes_of s' = disputes_of s \<and>
     balance (ext s) t self - (if t = tok then max 0 n else 0) \<le> balance (ext s') t self"
  by (rule conjI; (erule same_storageD[THEN disputes_of_same]
        | erule costsD[OF costs_refund_proposer[OF assms]]
        | erule costsD[OF costs_split_bond[OF assms]]))+

lemma bonds_nonneg:
  assumes "dispute_inv (disputes_of s)" and "key_candidate s cid = Some c"
  shows "max 0 (bond_amount c) = bond_amount c"
    "(\<Sum>r\<leftarrow>d_challengers (disputes_of s) cid. max 0 (bond r))
       = bond_sum (d_challengers (disputes_of s) cid)"
  using dispute_invD(5)[OF assms(1), of cid c] assms(2)
  by (auto simp: candidate_ok_def resolution_constants resolution_reads intro!: bond_sum_max)

lemma bond_amount_nonneg:
  "dispute_inv (disputes_of s) \<Longrightarrow> \<forall>c. key_candidate s cid = Some c \<longrightarrow> 0 \<le> bond_amount c"
  using bonds_nonneg(1) by force

lemma solvent_finalize:
  assumes run: "resolution_finalize E T M a cid s = (Ok v, s')"
    and inv: "dispute_inv (disputes_of s)" and solv: "solvent balance collateral self s"
    and self: "current_contract_address E = self"
  shows "solvent balance collateral self s'"
  unfolding solvent_def
proof
  fix t
  from run show "owed collateral t (disputes_of s') \<le> balance (ext s') t self"
    using owed_le_balance[OF solv, of t]
    by (clarsimp simp: resolution_finalize_def Let_def guard_ok simp del: disputes_of_reads)
      (auto dest!: effects pay_effects[OF self, where t = t] callback_effects[where t = t]
        settle_costs[OF _ self, where t = t]
        simp: owed_update_open[OF inv] bonds_nonneg[OF inv] terminal_def resolution_reads
          disputes_of_reads(1)
        simp del: disputes_of_reads(3)
        split: option.splits if_splits)
qed

lemma solvent_arbitrate:
  assumes run: "resolution_arbitrate_uphold_proposer E T M a cid s = (Ok v, s')"
    and inv: "dispute_inv (disputes_of s)" and solv: "solvent balance collateral self s"
    and self: "current_contract_address E = self"
  shows "solvent balance collateral self s'"
  unfolding solvent_def
proof
  fix t
  from run show "owed collateral t (disputes_of s') \<le> balance (ext s') t self"
    using owed_le_balance[OF solv, of t]
    by (clarsimp simp: resolution_arbitrate_uphold_proposer_def Let_def guard_ok
        simp del: disputes_of_reads)
      (auto dest!: effects pay_effects[OF self, where t = t] callback_effects[where t = t]
        settle_costs[OF _ self, where t = t]
        simp: owed_update_open[OF inv] bonds_nonneg[OF inv] terminal_def resolution_reads
          disputes_of_reads(1)
        simp del: disputes_of_reads(3)
        split: option.splits if_splits)
qed

lemma solvent_void_market:
  assumes run: "resolution_void_market E T M a cid s = (Ok v, s')"
    and inv: "dispute_inv (disputes_of s)" and solv: "solvent balance collateral self s"
    and self: "current_contract_address E = self"
  shows "solvent balance collateral self s'"
  unfolding solvent_def
proof
  fix t
  from run show "owed collateral t (disputes_of s') \<le> balance (ext s') t self"
    using owed_le_balance[OF solv, of t] bond_amount_nonneg[OF inv, of cid]
    by (clarsimp simp: resolution_void_market_def Let_def guard_ok disputes_of_reads(3)[symmetric]
        simp del: disputes_of_reads)
      (auto dest!: effects pay_effects[OF self, where t = t] callbacks(3)[where t = t]
        refund_costs[OF _ self, where t = t]
        simp: owed_update_open[OF inv] bonds_nonneg[OF inv] terminal_def resolution_reads
          disputes_of_reads(1) return_ok
        simp del: disputes_of_reads(3)
        split: option.splits if_splits)
qed

lemma solvent_deposit_collateral:
  assumes run: "resolution_deposit_collateral E T p tok n s = (Ok u, s')"
    and solv: "solvent balance collateral self s"
    and self: "current_contract_address E = self" and auth: "\<not> authorized E self"
  shows "solvent balance collateral self s'"
proof -
  have p: "p \<noteq> self" if "authorized E p" using that auth by auto
  have "disputes_of s' = disputes_of s"
    using keepsD[OF config_call_frame[of "DepositCollateral p tok n"]] run
    by (auto simp: touches_dispute_def same_disputes_def)
  moreover have "balance (ext s) t self \<le> balance (ext s') t self" for t
    using run p
    by (clarsimp simp: resolution_deposit_collateral_def guard_ok arith_i128_ok self transfer_moves
        res_set_proposer_collateral_def modify_ok)
  ultimately show ?thesis
    using owed_le_balance[OF solv] order_trans by (fastforce simp: solvent_def)
qed

lemma solvent_config:
  assumes run: "resolution_call E T M c s = (Ok u, s')" and "local_call c"
    and solv: "solvent balance collateral self s"
  shows "solvent balance collateral self s'"
proof -
  from assms(2) have "\<not> touches_dispute c"
    by (cases c) (simp_all add: local_call_def touches_dispute_def)
  from keepsD[OF config_call_frame[OF this] run] keepsD[OF local_call_ext[OF assms(2)] run] solv
  show ?thesis by (simp add: solvent_def same_disputes_def same_ext_def)
qed

lemma solvent_call:
  assumes "resolution_call E T M c s = (Ok u, s')" and "dispute_inv (disputes_of s)"
    and "solvent balance collateral self s"
    and "current_contract_address E = self" and "\<not> authorized E self"
    and "\<forall>a p t r. c \<noteq> SlashCollateral a p t r"
  shows "solvent balance collateral self s'"
proof (cases "local_call c")
  case True
  from assms(1) True assms(3) show ?thesis by (rule solvent_config)
next
  case False
  show ?thesis
  proof (cases c)
    case (Propose p mid b sig ex uri w n)
    with assms(1) obtain v where "resolution_propose E T M p mid b sig ex uri w n s = (Ok v, s')" by (auto simp: discard_ok)
    from this assms(2-5) show ?thesis by (rule solvent_propose)
  next
    case (ProposeV2 p mid b sig vu ep ph uri w n)
    with assms(1) obtain v where "resolution_propose_v2 E T M p mid b sig vu ep ph uri w n s = (Ok v, s')" by (auto simp: discard_ok)
    from this assms(2-5) show ?thesis by (rule solvent_propose_v2)
  next
    case (Challenge a cid uri n)
    with assms(1) have "resolution_challenge E T M a cid uri n s = (Ok u, s')" by simp
    from this assms(2-5) show ?thesis by (rule solvent_challenge)
  next
    case (Appeal p cid b sig uri w)
    with assms(1) have "resolution_appeal E M p cid b sig uri w s = (Ok u, s')" by simp
    from this assms(2,3) show ?thesis by (rule solvent_appeal)
  next
    case (Finalize a cid)
    with assms(1) obtain v where "resolution_finalize E T M a cid s = (Ok v, s')" by (auto simp: discard_ok)
    from this assms(2-4) show ?thesis by (rule solvent_finalize)
  next
    case (ArbitrateUpholdProposer a cid)
    with assms(1) obtain v where "resolution_arbitrate_uphold_proposer E T M a cid s = (Ok v, s')" by (auto simp: discard_ok)
    from this assms(2-4) show ?thesis by (rule solvent_arbitrate)
  next
    case (VoidMarket a cid)
    with assms(1) obtain v where "resolution_void_market E T M a cid s = (Ok v, s')" by (auto simp: discard_ok)
    from this assms(2-4) show ?thesis by (rule solvent_void_market)
  next
    case (DepositCollateral p tok n)
    with assms(1) have "resolution_deposit_collateral E T p tok n s = (Ok u, s')" by simp
    from this assms(3-5) show ?thesis by (rule solvent_deposit_collateral)
  qed (use False assms(6) in \<open>simp_all add: local_call_def touches_dispute_def\<close>)
qed

lemma reachable_solvent:
  assumes "escrow_reachable T M balance self s"
  shows "solvent balance collateral self s"
  using assms
proof (induction rule: escrow_reachable.induct)
  case (deployed x)
  then show ?case
    by (simp add: solvent_def owed_def disputes_of_def fresh_resolution_def)
next
  case (call s E c s')
  from reachable_dispute_inv[OF escrow_reachable_reachable[OF call.hyps(1)]]
  show ?case by (rule solvent_call[OF call.hyps(5) _ call.IH call.hyps(2-4)])
next
  case (foreign s x)
  then show ?case by (fastforce simp: solvent_def intro: order_trans)
qed

end

text \<open>
  The reference market contract of the concrete examples: every market is active with its
  collateral token given by a function, accepts every signature, and resolves or voids without
  touching the tokens of others.
\<close>

definition reference_market :: "(u32 \<Rightarrow> address) \<Rightarrow> ledger market_client" where
  "reference_market collateral = \<lparr>
     mc_get_market_status = (\<lambda>mc mid l. Some (MarketActive, l)),
     mc_get_collateral_token = (\<lambda>mc mid l. Some (collateral mid, l)),
     mc_verify_signature = (\<lambda>mc mid b sig l. Some (Inr (), l)),
     mc_verify_signature_v2 = (\<lambda>mc ph mid b vu ep sig l. Some (Inr (), l)),
     mc_resolve_market = (\<lambda>mc this m b sig ex l. Some ((), l)),
     mc_resolve_market_v2 = (\<lambda>mc this m b ex ep sig ph l. Some ((), l)),
     mc_void_market = (\<lambda>mc this mid l. Some ((), l))\<rparr>"

interpretation ledger_escrow:
  escrow ledger_client "\<lambda>l. l" "reference_market collateral" self collateral
  for self collateral
  by unfold_locales (auto simp: reference_market_def)

end
