(* ===== verification/Resolution_Timelock.thy ===== *)
theory Resolution_Timelock
  imports Resolution_Invariants
begin

text \<open>
  The 48-hour timelock on the privileged addresses of the Resolution contract: the factory and
  the slash treasury go through propose and execute; the market contract has the same pair of
  entrypoints and an immediate setter beside them.
\<close>

section \<open>What dispute calls leave alone\<close>

definition same_settings :: "'x resolution \<Rightarrow> 'x resolution \<Rightarrow> bool" where
  "same_settings s s' \<longleftrightarrow> key_config s' = key_config s \<and> key_treasury s' = key_treasury s
     \<and> key_pending_factory s' = key_pending_factory s
     \<and> key_pending_treasury s' = key_pending_treasury s
     \<and> key_pending_market_contract s' = key_pending_market_contract s"

interpretation same_settings: run_relation same_settings
  by unfold_locales (simp_all add: same_settings_def)

lemma same_settings_weaken: "keeps same_storage m \<Longrightarrow> keeps same_settings m"
  by (auto simp: keeps_def same_storage_def same_settings_def)

lemma same_settings_writes:
  "keeps same_settings (res_set_candidate c)" "keeps same_settings res_increment_candidate_id"
  "keeps same_settings (res_append_challenger cid a n)"
  "keeps same_settings (res_clear_challengers cid)"
  "keeps same_settings (res_set_proposer_collateral a n)"
  "keeps same_settings (res_set_emergency_mode m)" "keeps same_settings (res_set_paused b)"
  by (auto simp: keeps_def same_settings_def ok_iff Let_def)

lemmas same_settings_rules = same_settings.keeps_rules same_settings_writes
  same_storage_helpers[THEN same_settings_weaken] same_storage_host_ops[THEN same_settings_weaken]

definition sets_address :: "rcall \<Rightarrow> bool" where
  "sets_address c = (case c of
     Initialize _ _ _ _ \<Rightarrow> True | SetDefaultChallengeWindow _ _ \<Rightarrow> True
   | ProposeFactory _ _ \<Rightarrow> True | ExecuteFactory \<Rightarrow> True | CancelFactory _ \<Rightarrow> True
   | ProposeMarketContract _ _ \<Rightarrow> True | ExecuteMarketContract \<Rightarrow> True
   | CancelMarketContract _ \<Rightarrow> True | SetMarketContract _ _ \<Rightarrow> True
   | ProposeTreasury _ _ \<Rightarrow> True | ExecuteTreasury \<Rightarrow> True | CancelTreasury _ \<Rightarrow> True
   | _ \<Rightarrow> False)"

lemmas dispute_entrypoints =
  resolution_propose_def resolution_propose_v2_def resolution_challenge_def
  resolution_appeal_def resolution_finalize_def resolution_arbitrate_uphold_proposer_def
  resolution_void_market_def settle_challengers_as_losers_def

lemmas basic_guard_defs = require_admin_def require_not_paused_def
  require_emergency_mode_allows_def validate_challenge_window_def validate_uri_def
  require_arbitrable_def res_assert_version_def res_get_config_def discard_def resolution_emits

lemma dispute_call_settings:
  "\<not> sets_address c \<Longrightarrow> keeps same_settings (resolution_call E T M c)"
  by (cases c)
    (simp_all add: sets_address_def dispute_entrypoints resolution_set_emergency_mode_def
      resolution_pause_def resolution_unpause_def resolution_deposit_collateral_def
      resolution_slash_collateral_def basic_guard_defs Let_def;
     (intro same_settings_rules allI impI)+)+

section \<open>The factory and the slash treasury\<close>

definition pending_factory :: "'x resolution \<Rightarrow> (address \<times> u64) option" where
  "pending_factory s = pending_pair (key_pending_factory s)"

definition active_factory :: "'x resolution \<Rightarrow> address option" where
  "active_factory s = map_option factory (key_config s)"

definition pending_treasury :: "'x resolution \<Rightarrow> (address \<times> u64) option" where
  "pending_treasury s = pending_pair (key_pending_treasury s)"

definition active_treasury :: "'x resolution \<Rightarrow> address option" where
  "active_treasury s = key_treasury s"

lemmas timelock_reads = pending_pair_def pending_factory_def active_factory_def
  pending_treasury_def active_treasury_def

lemmas address_entrypoints =
  resolution_initialize_def resolution_set_default_challenge_window_def
  resolution_propose_factory_def resolution_execute_factory_def resolution_cancel_factory_def
  resolution_propose_market_contract_def resolution_execute_market_contract_def
  resolution_cancel_market_contract_def resolution_set_market_contract_def
  resolution_propose_treasury_def resolution_execute_treasury_def
  resolution_cancel_treasury_def

text \<open>How one call moves the two timelocks.\<close>

lemma factory_call:
  assumes "resolution_call E T M c s = (Ok u, s')"
  shows "pending_factory s' = pending_factory s \<and> active_factory s' = active_factory s
   \<or> (\<exists>v. pending_factory s' = Some (v, ledger_timestamp E + address_timelock_seconds))
       \<and> active_factory s' = active_factory s
   \<or> pending_factory s' = None \<and> active_factory s' = active_factory s
   \<or> (\<exists>v eff. pending_factory s = Some (v, eff) \<and> eff \<le> ledger_timestamp E
       \<and> pending_factory s' = None \<and> active_factory s' = Some v)
   \<or> active_factory s = None \<and> pending_factory s' = pending_factory s"
proof (cases "sets_address c")
  case True
  with assms show ?thesis
    by (cases c) (auto simp: sets_address_def address_entrypoints timelock_reads ok_iff
        resolution_reads)
next
  case False
  from keepsD[OF dispute_call_settings[OF False] assms] show ?thesis
    by (simp add: same_settings_def timelock_reads)
qed

lemma treasury_call:
  assumes "resolution_call E T M c s = (Ok u, s')"
  shows "pending_treasury s' = pending_treasury s \<and> active_treasury s' = active_treasury s
   \<or> (\<exists>v. pending_treasury s' = Some (v, ledger_timestamp E + address_timelock_seconds))
       \<and> active_treasury s' = active_treasury s
   \<or> pending_treasury s' = None \<and> active_treasury s' = active_treasury s
   \<or> (\<exists>v eff. pending_treasury s = Some (v, eff) \<and> eff \<le> ledger_timestamp E
       \<and> pending_treasury s' = None \<and> active_treasury s' = Some v)"
proof (cases "sets_address c")
  case True
  with assms show ?thesis
    by (cases c) (auto simp: sets_address_def address_entrypoints timelock_reads ok_iff
        resolution_reads)
next
  case False
  from keepsD[OF dispute_call_settings[OF False] assms] show ?thesis
    by (simp add: same_settings_def timelock_reads)
qed

lemma timelock_foreign [simp]:
  "pending_factory (s\<lparr>ext := x\<rparr>) = pending_factory s"
  "active_factory (s\<lparr>ext := x\<rparr>) = active_factory s"
  "pending_treasury (s\<lparr>ext := x\<rparr>) = pending_treasury s"
  "active_treasury (s\<lparr>ext := x\<rparr>) = active_treasury s"
  by (simp_all add: timelock_reads)

interpretation factory_lock: timelock pending_factory active_factory "resolution_step T M self"
    address_timelock_seconds for T M self
  by unfold_locales (erule resolution_stepE; force dest!: factory_call)+

interpretation treasury_lock: timelock pending_treasury active_treasury "resolution_step T M self"
    address_timelock_seconds for T M self
  by unfold_locales (erule resolution_stepE; force dest!: treasury_call)+

text \<open>No call replaces the admin.\<close>

lemma admin_call:
  assumes "resolution_call E T M c s = (Ok u, s')" and "key_config s = Some config"
  shows "\<exists>config'. key_config s' = Some config' \<and> admin config' = admin config"
proof (cases "sets_address c")
  case True
  with assms show ?thesis
    by (cases c) (auto simp: sets_address_def address_entrypoints ok_iff resolution_reads)
next
  case False
  from keepsD[OF dispute_call_settings[OF False] assms(1)] assms(2) show ?thesis
    by (simp add: same_settings_def)
qed

end
