(* ===== verification/Resolution_Examples.thy ===== *)
theory Resolution_Examples
  imports Resolution_Solvency Resolution_Timelock
begin

text \<open>
  A concrete deployment of the Resolution contract on the reference ledger, run call by call:
  initialization, a proposal, a challenge, and the ways such a dispute ends. The states named here
  are the inputs of the witnesses.
\<close>

section \<open>Parties and environment\<close>

definition demo_self :: address where "demo_self = Contract 10"
definition demo_token :: address where "demo_token = Contract 11"
definition demo_market :: address where "demo_market = Contract 12"
definition demo_admin :: address where "demo_admin = Account 20"
definition demo_alice :: address where "demo_alice = Account 21"
definition demo_bob :: address where "demo_bob = Account 22"

lemmas demo_addresses = demo_self_def demo_token_def demo_market_def demo_admin_def
  demo_alice_def demo_bob_def

definition demo_env :: "u64 \<Rightarrow> address \<Rightarrow> env" where
  "demo_env now who = \<lparr>ledger_timestamp = now, current_contract_address = demo_self,
     network_id = [], authorized = (\<lambda>a. a = who),
     has_executable = (\<lambda>a. case a of Contract _ \<Rightarrow> True | Account _ \<Rightarrow> False)\<rparr>"

definition demo_ledger :: ledger where
  "demo_ledger = (\<lambda>t a. if t = demo_token \<and> (a = demo_alice \<or> a = demo_bob) then 100000000 else 0)"

lemma demo_balances:
  "demo_ledger (Contract 11) (Account 21) = 100000000"
  "demo_ledger (Contract 11) (Account 22) = 100000000"
  "demo_ledger (Contract 11) (Account 20) = 0" "demo_ledger (Contract 11) (Contract n) = 0"
  by (simp_all add: demo_ledger_def demo_addresses)

definition demo_client :: "ledger market_client" where
  "demo_client = reference_market (\<lambda>_. demo_token)"

abbreviation demo_call :: "u64 \<Rightarrow> address \<Rightarrow> rcall \<Rightarrow> (ledger, unit) rcontract" where
  "demo_call now who c \<equiv> resolution_call (demo_env now who) ledger_client demo_client c"

definition demo_after :: "u64 \<Rightarrow> address \<Rightarrow> rcall \<Rightarrow> ledger resolution \<Rightarrow> ledger resolution" where
  "demo_after now who c s = snd (demo_call now who c s)"

section \<open>The run\<close>

definition demo_deployed :: "ledger resolution" where
  "demo_deployed = fresh_resolution demo_ledger"

definition demo_ready :: "ledger resolution" where
  "demo_ready = demo_after 1000 demo_admin
     (Initialize demo_admin (Contract 13) demo_market 3600) demo_deployed"

definition demo_proposed :: "ledger resolution" where
  "demo_proposed = demo_after 2000 demo_alice
     (Propose demo_alice 7 True [] 900000 ''ipfs'' 3600 20000000) demo_ready"

definition demo_challenged :: "ledger resolution" where
  "demo_challenged = demo_after 3000 demo_bob (Challenge demo_bob 1 ''no'' 10000000) demo_proposed"

definition demo_finalized :: "ledger resolution" where
  "demo_finalized = demo_after 6000 demo_bob (Finalize demo_bob 1) demo_proposed"

definition demo_upheld :: "ledger resolution" where
  "demo_upheld = demo_after 200000 demo_admin (ArbitrateUpholdProposer demo_admin 1) demo_challenged"

definition demo_voided :: "ledger resolution" where
  "demo_voided = demo_after 200000 demo_admin (VoidMarket demo_admin 1) demo_challenged"

lemma digits_into_numeral:
  "digits_into (numeral k) n acc =
     (if n = 0 then Some acc else digits_into (pred_numeral k) (n div 10) (char_of (48 + n mod 10) # acc))"
  by (simp add: numeral_eq_Suc)

lemma demo_market_id: "market_id_to_string 7 = Some ''7''"
  by (simp add: market_id_to_string_def digits_into_numeral char_of_def bit_Suc_0_iff)

lemmas demo_defs = demo_addresses demo_env_def demo_client_def
  demo_balances reference_market_def ledger_client_def ledger_transfer_def ledger_burn_def

lemmas demo_run = demo_defs run_simps Let_def resolution_constants i128_numerals in_i128_def
  resolution_reads resolution_writes resolution_emits resolution_storage_version_def
  res_assert_version_def res_get_config_def res_is_paused_def res_get_emergency_mode_def
  res_increment_candidate_id_def res_get_challengers_def guard_defs address_entrypoints
  dispute_entrypoints get_collateral_token_def require_market_active_def verify_signature_def
  verify_signature_v2_def call_resolve_market_def call_resolve_market_v2_def split_bond_def
  split_parts_def refund_proposer_def refund_challenger_def demo_market_id
  resolution_slash_collateral_def resolution_deposit_collateral_def

definition demo_candidate :: resolution_candidate where
  "demo_candidate = \<lparr>cand_id = 1, cand_market_id = 7, outcome = True, signature = [],
     signature_expiry = 900000, proposer = demo_alice, evidence_uri = ''ipfs'',
     proposed_at = 2000, challenge_deadline = 5600, status = Proposed, challenged_by = None,
     challenge_uri = None, finalized_at = None, appeal_round = 0, bond_amount = 20000000,
     epoch = 0, passphrase_hash = None\<rparr>"

lemma demo_ready_value:
  "demo_ready = (fresh_resolution demo_ledger)\<lparr>
     events := [ResolutionRegistered (Contract 13) (Contract 12) 1000],
     key_storage_version := Some 1,
     key_config := Some \<lparr>admin = Account 20, factory = Contract 13, market_contract = Contract 12,
       challenge_window_secs = 3600\<rparr>\<rparr>"
  by (simp add: demo_ready_def demo_after_def demo_deployed_def fresh_resolution_def demo_run)

lemma demo_ready_run:
  "demo_call 1000 demo_admin (Initialize demo_admin (Contract 13) demo_market 3600) demo_deployed
     = (Ok (), demo_ready)"
  by (simp add: demo_ready_value demo_deployed_def fresh_resolution_def demo_run)

definition demo_escrow_ledger :: "int \<Rightarrow> int \<Rightarrow> ledger" where
  "demo_escrow_ledger alice self = demo_ledger(demo_token := (demo_ledger demo_token)
     (demo_alice := alice, demo_self := self))"

lemma demo_proposed_value:
  "demo_proposed = demo_ready\<lparr>
     ext := demo_escrow_ledger 80000000 20000000,
     events := [ResolutionRegistered (Contract 13) (Contract 12) 1000,
       CandidateProposed 1 7 True demo_alice ''ipfs'' 5600 900000 20000000],
     key_candidate_counter := Some 1,
     key_candidate := [1 \<mapsto> demo_candidate],
     key_candidate_by_market := [7 \<mapsto> 1]\<rparr>"
  by (simp add: demo_proposed_def demo_after_def demo_ready_value demo_candidate_def
      demo_escrow_ledger_def fun_upd_twist fresh_resolution_def demo_run)

lemma demo_proposed_run:
  "demo_call 2000 demo_alice (Propose demo_alice 7 True [] 900000 ''ipfs'' 3600 20000000) demo_ready
     = (Ok (), demo_proposed)"
  by (simp add: demo_proposed_value demo_ready_value demo_candidate_def
      demo_escrow_ledger_def fun_upd_twist fresh_resolution_def demo_run)

lemma demo_challenged_value:
  "demo_challenged = demo_proposed\<lparr>
     ext := demo_ledger(demo_token := (demo_ledger demo_token)
       (demo_alice := 80000000, demo_self := 30000000, demo_bob := 90000000)),
     events := events demo_proposed @ [CandidateChallenged 1 7 demo_bob ''no'' 10000000 3000],
     key_candidate := [1 \<mapsto> demo_candidate\<lparr>status := Challenged, challenged_by := Some demo_bob,
       challenge_uri := Some ''no''\<rparr>],
     key_challengers := [1 \<mapsto> [\<lparr>challenger = demo_bob, bond = 10000000\<rparr>]]\<rparr>"
  by (simp add: demo_challenged_def demo_after_def demo_proposed_value demo_ready_value
      demo_candidate_def demo_escrow_ledger_def fun_upd_twist fresh_resolution_def demo_run)

lemma demo_challenged_run:
  "demo_call 3000 demo_bob (Challenge demo_bob 1 ''no'' 10000000) demo_proposed
     = (Ok (), demo_challenged)"
  by (simp add: demo_challenged_value demo_proposed_value demo_ready_value demo_candidate_def
      demo_escrow_ledger_def fun_upd_twist fresh_resolution_def demo_run)

lemmas demo_values = demo_challenged_value demo_proposed_value demo_ready_value
  demo_candidate_def demo_escrow_ledger_def fresh_resolution_def

lemma demo_finalized_run:
  "demo_call 6000 demo_bob (Finalize demo_bob 1) demo_proposed = (Ok (), demo_finalized)"
  by (simp add: demo_finalized_def demo_after_def prod_eq_iff demo_values fun_upd_twist demo_run)

lemma demo_finalized_candidate:
  "key_candidate demo_finalized = [1 \<mapsto> demo_candidate\<lparr>status := Finalized, finalized_at := Some 6000\<rparr>]"
  by (simp add: demo_finalized_def demo_after_def demo_values fun_upd_twist demo_run)

lemma demo_upheld_run:
  "demo_call 200000 demo_admin (ArbitrateUpholdProposer demo_admin 1) demo_challenged
     = (Ok (), demo_upheld)"
  by (simp add: demo_upheld_def demo_after_def prod_eq_iff demo_values fun_upd_twist demo_run
      sdiv_nonneg)

lemma demo_voided_run:
  "demo_call 200000 demo_admin (VoidMarket demo_admin 1) demo_challenged = (Ok (), demo_voided)"
  by (simp add: demo_voided_def demo_after_def prod_eq_iff demo_values fun_upd_twist demo_run
      sdiv_nonneg)

definition demo_short :: "ledger resolution" where
  "demo_short = demo_after 2000 demo_alice
     (Propose demo_alice 7 True [] 2001 ''ipfs'' 3600 20000000) demo_ready"

lemma demo_short_run:
  "demo_call 2000 demo_alice (Propose demo_alice 7 True [] 2001 ''ipfs'' 3600 20000000) demo_ready
     = (Ok (), demo_short)"
  by (simp add: demo_short_def demo_after_def prod_eq_iff demo_values fun_upd_twist demo_run)

lemma demo_short_candidate:
  "key_candidate demo_short = [1 \<mapsto> demo_candidate\<lparr>signature_expiry := 2001\<rparr>]"
  by (simp add: demo_short_def demo_after_def demo_values fun_upd_twist demo_run)

lemma demo_step:
  "demo_call now who c s = (Ok (), s') \<Longrightarrow>
     resolution_step ledger_client demo_client demo_self now s s'"
  by (rule resolution_step.call) (simp_all add: demo_env_def)

lemmas demo_challenged_step = demo_step[OF demo_challenged_run]

lemma demo_reachable:
  "resolution_reachable ledger_client demo_client demo_self demo_ready"
  "resolution_reachable ledger_client demo_client demo_self demo_proposed"
  "resolution_reachable ledger_client demo_client demo_self demo_challenged"
  "resolution_reachable ledger_client demo_client demo_self demo_finalized"
  "resolution_reachable ledger_client demo_client demo_self demo_short"
proof -
  note go = resolution_reachable.step[OF _ demo_step]
  show 1: "resolution_reachable ledger_client demo_client demo_self demo_ready"
    by (rule go[OF _ demo_ready_run]) (simp add: demo_deployed_def resolution_reachable.deployed)
  show 2: "resolution_reachable ledger_client demo_client demo_self demo_proposed"
    by (rule go[OF 1 demo_proposed_run])
  show "resolution_reachable ledger_client demo_client demo_self demo_challenged"
    by (rule go[OF 2 demo_challenged_run])
  show "resolution_reachable ledger_client demo_client demo_self demo_finalized"
    by (rule go[OF 2 demo_finalized_run])
  show "resolution_reachable ledger_client demo_client demo_self demo_short"
    by (rule go[OF 1 demo_short_run])
qed

section \<open>The run as an escrow\<close>

lemma demo_escrow_step:
  "escrow_reachable ledger_client demo_client (\<lambda>l. l) demo_self s \<Longrightarrow>
     demo_call now who c s = (Ok (), s') \<Longrightarrow> who \<noteq> demo_self \<Longrightarrow>
     \<forall>a p t r. c \<noteq> SlashCollateral a p t r \<Longrightarrow>
     escrow_reachable ledger_client demo_client (\<lambda>l. l) demo_self s'"
  by (rule escrow_reachable.call) (auto simp: demo_env_def)

lemma demo_escrow_reachable:
  "escrow_reachable ledger_client demo_client (\<lambda>l. l) demo_self demo_proposed"
  "escrow_reachable ledger_client demo_client (\<lambda>l. l) demo_self demo_challenged"
proof -
  have 0: "escrow_reachable ledger_client demo_client (\<lambda>l. l) demo_self demo_deployed"
    unfolding demo_deployed_def
    by (rule escrow_reachable.deployed) (simp add: demo_ledger_def demo_addresses)
  have 1: "escrow_reachable ledger_client demo_client (\<lambda>l. l) demo_self demo_ready"
    by (rule demo_escrow_step[OF 0 demo_ready_run]) (simp_all add: demo_addresses)
  show 2: "escrow_reachable ledger_client demo_client (\<lambda>l. l) demo_self demo_proposed"
    by (rule demo_escrow_step[OF 1 demo_proposed_run]) (simp_all add: demo_addresses)
  show "escrow_reachable ledger_client demo_client (\<lambda>l. l) demo_self demo_challenged"
    by (rule demo_escrow_step[OF 2 demo_challenged_run]) (simp_all add: demo_addresses)
qed

text \<open>
  Alice issues a token of her own, deposits it as collateral while her proposal is open, and the
  admin slashes that amount in the market's token.
\<close>

definition demo_worthless :: address where "demo_worthless = Contract 99"

definition demo_minted :: "ledger resolution" where
  "demo_minted = demo_proposed\<lparr>ext := (ext demo_proposed)
     (demo_worthless := (\<lambda>a. if a = demo_alice then 15000000 else 0))\<rparr>"

definition demo_with_collateral :: "ledger resolution" where
  "demo_with_collateral = demo_after 4000 demo_alice
     (DepositCollateral demo_alice demo_worthless 15000000) demo_minted"

definition demo_slashed :: "ledger resolution" where
  "demo_slashed = demo_after 5000 demo_admin
     (SlashCollateral demo_admin demo_alice demo_token demo_bob) demo_with_collateral"

lemmas demo_slash = demo_minted_def demo_worthless_def demo_after_def demo_values demo_run
  res_get_proposer_collateral_def

lemma demo_with_collateral_run:
  "demo_call 4000 demo_alice (DepositCollateral demo_alice demo_worthless 15000000) demo_minted
     = (Ok (), demo_with_collateral)"
  by (simp add: demo_with_collateral_def prod_eq_iff demo_slash)

lemma demo_slashed_run:
  "demo_call 5000 demo_admin (SlashCollateral demo_admin demo_alice demo_token demo_bob)
     demo_with_collateral = (Ok (), demo_slashed)"
  by (simp add: demo_slashed_def demo_with_collateral_def prod_eq_iff demo_slash)

lemma demo_slashed_insolvent:
  "ext demo_slashed demo_token demo_self
     < owed (\<lambda>_. demo_token) demo_token (disputes_of demo_slashed)"
proof -
  have "disputes_of demo_slashed = disputes_of demo_proposed"
    by (simp add: demo_slashed_def demo_with_collateral_def disputes_of_def demo_slash)
  moreover have "ext demo_slashed demo_token demo_self = 5000000"
    by (simp add: demo_slashed_def demo_with_collateral_def demo_slash)
  moreover have "owed (\<lambda>_. demo_token) demo_token (disputes_of demo_proposed) = 20000000"
    by (simp add: owed_def held_def terminal_def disputes_of_def demo_values
        res_get_challengers_def)
  ultimately show ?thesis by simp
qed

lemma demo_with_collateral_reachable:
  "escrow_reachable ledger_client demo_client (\<lambda>l. l) demo_self demo_with_collateral"
proof -
  have "escrow_reachable ledger_client demo_client (\<lambda>l. l) demo_self demo_minted"
    unfolding demo_minted_def
    by (rule escrow_reachable.foreign[OF demo_escrow_reachable(1)])
      (simp add: demo_values demo_addresses demo_worthless_def demo_ledger_def)
  from demo_escrow_step[OF this demo_with_collateral_run] show ?thesis
    by (simp add: demo_addresses)
qed

section \<open>Timelocked changes\<close>

definition demo_factory_proposed :: "ledger resolution" where
  "demo_factory_proposed = demo_after 2000 demo_admin (ProposeFactory demo_admin demo_bob) demo_ready"

definition demo_factory_changed :: "ledger resolution" where
  "demo_factory_changed = demo_after 180000 demo_bob ExecuteFactory demo_factory_proposed"

definition demo_treasury_set :: "ledger resolution" where
  "demo_treasury_set = demo_ready\<lparr>key_treasury := Some demo_alice\<rparr>"

definition demo_treasury_proposed :: "ledger resolution" where
  "demo_treasury_proposed =
     demo_after 2000 demo_admin (ProposeTreasury demo_admin demo_bob) demo_treasury_set"

definition demo_treasury_changed :: "ledger resolution" where
  "demo_treasury_changed = demo_after 180000 demo_bob ExecuteTreasury demo_treasury_proposed"

lemmas demo_timelock = demo_factory_proposed_def demo_factory_changed_def demo_treasury_set_def
  demo_treasury_proposed_def demo_treasury_changed_def demo_after_def demo_values demo_run u64_max_def

lemma demo_factory_steps:
  "resolution_step ledger_client demo_client demo_self 2000 demo_ready demo_factory_proposed"
  "resolution_step ledger_client demo_client demo_self 180000 demo_factory_proposed
     demo_factory_changed"
  by (rule demo_step[where c = "ProposeFactory demo_admin demo_bob" and who = demo_admin],
      simp add: demo_timelock prod_eq_iff,
      rule demo_step[where c = ExecuteFactory and who = demo_bob],
      simp add: demo_timelock prod_eq_iff)

lemma demo_factory_values:
  "key_pending_factory demo_ready = None" "active_factory demo_factory_proposed = Some (Contract 13)"
  "active_factory demo_factory_changed = Some demo_bob" "demo_bob \<noteq> Contract 13"
  by (simp_all add: active_factory_def demo_timelock)

lemma demo_treasury_steps:
  "resolution_step ledger_client demo_client demo_self 2000 demo_treasury_set demo_treasury_proposed"
  "resolution_step ledger_client demo_client demo_self 180000 demo_treasury_proposed
     demo_treasury_changed"
  by (rule demo_step[where c = "ProposeTreasury demo_admin demo_bob" and who = demo_admin],
      simp add: demo_timelock prod_eq_iff,
      rule demo_step[where c = ExecuteTreasury and who = demo_bob],
      simp add: demo_timelock prod_eq_iff)

lemma demo_treasury_values:
  "key_pending_treasury demo_treasury_set = None"
  "key_treasury demo_treasury_proposed = Some demo_alice"
  "key_treasury demo_treasury_changed = Some demo_bob" "demo_bob \<noteq> demo_alice"
  by (simp_all add: demo_timelock)

end
