(* ===== verification/Resolution_Payouts.thy ===== *)
theory Resolution_Payouts
  imports Resolution_Solvency Resolution_Timelock
begin

text \<open>
  What the terminal calls of the Resolution contract publish, payment by payment, and what moves
  the recorded collateral.
\<close>

section \<open>The events of a payout\<close>

lemma split_bond_events:
  assumes "split_bond E T cid mid tok l w n s = (Ok u, s')" and "0 < n"
  shows "\<exists>r b t. r + b + t = n \<and> 0 \<le> r \<and> 0 \<le> b \<and> 0 \<le> t \<and>
    events s' = events s @ [BondSlashed cid mid l w n r b t (ledger_timestamp E)]"
proof -
  let ?this = "current_contract_address E"
  from assms obtain r b t s1 s2 s3 s4 where parts: "split_parts n s = (Ok (r, b, t), s1)"
    and 1: "(when_do (r > 0) (token_transfer T tok ?this w r) :: (_, unit) rcontract) s1 = (Ok (), s2)"
    and 2: "(when_do (b > 0) (token_burn T tok ?this b) :: (_, unit) rcontract) s2 = (Ok (), s3)"
    and 3: "(when_do (t > 0) (bind (gets res_get_treasury) (\<lambda>x. case x of None \<Rightarrow> return ()
        | Some treasury \<Rightarrow> token_transfer T tok ?this treasury t)) :: (_, unit) rcontract) s3 = (Ok (), s4)"
    and 4: "emit_bond_slashed E cid mid l w n r b t s4 = (Ok (), s')"
    by (simp add: split_bond_def Let_def bind_ok andthen_ok split: if_splits)
      (elim exE conjE, rule that, assumption+)
  from 1 have "events s2 = events s1"
    by (auto simp: when_do_ok token_transfer_ok split: if_splits)
  moreover from 2 have "events s3 = events s2"
    by (auto simp: when_do_ok token_burn_ok split: if_splits)
  moreover from 3 have "events s4 = events s3"
    by (auto simp: when_do_ok token_transfer_ok bind_ok gets_ok return_ok
        split: if_splits option.splits)
  moreover from 4 have "events s' = events s4 @ [BondSlashed cid mid l w n r b t (ledger_timestamp E)]"
    by (simp add: emit_bond_slashed_def emit_ok)
  ultimately show ?thesis
    using split_parts_sum[OF parts] assms(2) by auto
qed

lemma refund_loop_events:
  assumes "for_each rs (refund_challenger E T tok cid mid) s = (Ok u, s')"
    and "\<forall>r\<in>set rs. 0 < bond r"
  shows "events s' = events s @ map (\<lambda>x. BondRefunded cid mid (challenger x) (bond x)
    (ledger_timestamp E)) rs"
  using assms
proof (induction rs arbitrary: s)
  case Nil
  then show ?case by (simp add: return_ok)
next
  case (Cons r rs)
  from Cons.prems obtain s1 where "refund_challenger E T tok cid mid r s = (Ok (), s1)"
    and rest: "for_each rs (refund_challenger E T tok cid mid) s1 = (Ok u, s')"
    by (auto simp: andthen_ok)
  with Cons.prems(2) have "events s1 = events s @ [BondRefunded cid mid (challenger r) (bond r)
      (ledger_timestamp E)]"
    by (auto simp: refund_challenger_def ok_iff)
  with Cons.IH[OF rest] Cons.prems(2) show ?case by simp
qed

lemma query_events:
  "get_collateral_token M cfg mid s = (Ok tok, s') \<Longrightarrow> events s' = events s"
  "res_set_candidate c s = (Ok u, s') \<Longrightarrow> events s' = events s"
  "res_clear_challengers cid s = (Ok u, s') \<Longrightarrow> events s' = events s"
  by (auto simp: get_collateral_token_def ok_iff)

lemma void_market_events:
  assumes run: "resolution_void_market E T M a cid s = (Ok c', s')"
    and inv: "dispute_inv (disputes_of s)"
  shows "\<exists>c. key_candidate s cid = Some c \<and> status c = Challenged
    \<and> key_candidate s' cid = Some c' \<and> status c' = Voided \<and> res_get_challengers cid s' = []
    \<and> (\<exists>r b t. r + b + t = bond_amount c \<and> 0 \<le> r \<and> 0 \<le> b \<and> 0 \<le> t
      \<and> events s' = events s
        @ [BondSlashed cid (cand_market_id c) (proposer c)
             (challenger (last (res_get_challengers cid s))) (bond_amount c) r b t
             (ledger_timestamp E)]
        @ map (\<lambda>x. BondRefunded cid (cand_market_id c) (challenger x) (bond x)
             (ledger_timestamp E)) (res_get_challengers cid s)
        @ [MarketVoided cid (cand_market_id c) (ledger_timestamp E)])"
proof -
  from run obtain config c s1 s2 s3 s4 s5 tok
    where c: "key_candidate s cid = Some c" "status c = Challenged"
    and c': "c' = c\<lparr>status := Voided, finalized_at := Some (ledger_timestamp E)\<rparr>"
    and 1: "res_set_candidate
         (c\<lparr>status := Voided, finalized_at := Some (ledger_timestamp E)\<rparr>) s = (Ok (), s1)"
    and 2: "get_collateral_token M config (cand_market_id c) s1 = (Ok tok, s2)"
    and 3: "when_do (bond_amount c > 0) (split_bond E T cid (cand_market_id c) tok (proposer c)
         (if res_get_challengers cid s2 = []
          then proposer (c\<lparr>status := Voided, finalized_at := Some (ledger_timestamp E)\<rparr>)
          else challenger (last (res_get_challengers cid s2))) (bond_amount c)) s2 = (Ok (), s3)"
    and 4: "for_each (res_get_challengers cid s2)
         (refund_challenger E T tok cid (cand_market_id c)) s3 = (Ok (), s4)"
    and 5: "res_clear_challengers cid s4 = (Ok (), s5)"
    and 6: "events s' = events s5 @ [MarketVoided cid (cand_market_id c) (ledger_timestamp E)]"
      "key_candidate s' = key_candidate s5" "key_challengers s' = key_challengers s5"
    by (clarsimp simp: resolution_void_market_def Let_def guard_ok resolution_reads
        simp del: when_do_ok)
  let ?rs = "res_get_challengers cid s"
  note ok = dispute_invD(5)[OF inv, of cid c, unfolded disputes_of_reads resolution_reads, OF c(1)]
  from ok c(2) have rs: "?rs \<noteq> []" "\<forall>r\<in>set ?rs. 0 < bond r" and b: "0 < bond_amount c"
    by (auto simp: candidate_ok_def resolution_constants)
  have same: "res_get_challengers cid s2 = ?rs"
    using 1 same_storageD(6)[OF 2] by (simp add: ok_iff same_storage_def res_get_challengers_def)
  from 3 b rs(1) same obtain r b t where rbt: "r + b + t = bond_amount c" "0 \<le> r" "0 \<le> b" "0 \<le> t"
    and ev3: "events s3 = events s2 @ [BondSlashed cid (cand_market_id c) (proposer c)
      (challenger (last ?rs)) (bond_amount c) r b t (ledger_timestamp E)]"
    using split_bond_events by (fastforce simp: when_do_ok)
  from refund_loop_events[OF 4] rs(2) same query_events(3)[OF 5] 6(1) ev3
    query_events(1)[OF 2] query_events(2)[OF 1]
  have ev: "events s' = events s @ [BondSlashed cid (cand_market_id c) (proposer c)
      (challenger (last ?rs)) (bond_amount c) r b t (ledger_timestamp E)]
    @ map (\<lambda>x. BondRefunded cid (cand_market_id c) (challenger x) (bond x) (ledger_timestamp E)) ?rs
    @ [MarketVoided cid (cand_market_id c) (ledger_timestamp E)]"
    by simp
  have id: "cand_id c = cid"
    using dispute_invD(1)[OF inv, of cid c] c(1) by (simp add: resolution_reads)
  have "same_storage s2 s3" using 3 b same_storageD(1) by (simp add: when_do_ok)
  moreover have "same_storage s3 s4" by (rule keepsD[OF refund_loop_frame 4])
  ultimately have "key_candidate s' cid = Some c'" "res_get_challengers cid s' = []"
    using 1 same_storageD(6)[OF 2] 5 6(2,3) id c'
    by (auto simp: ok_iff same_storage_def res_get_challengers_def)
  with c c' rbt ev show ?thesis by auto
qed

section \<open>Recorded collateral\<close>

definition collateral_kept :: "'x resolution \<Rightarrow> 'x resolution \<Rightarrow> bool" where
  "collateral_kept s s' \<longleftrightarrow>
     (\<forall>p. res_get_proposer_collateral p s \<le> res_get_proposer_collateral p s')"

interpretation collateral_kept: run_relation collateral_kept
  by unfold_locales (auto simp: collateral_kept_def intro: order_trans)

lemma collateral_kept_weaken: "keeps same_storage m \<Longrightarrow> keeps collateral_kept m"
  by (auto simp: keeps_def same_storage_def collateral_kept_def res_get_proposer_collateral_def)

lemma collateral_kept_writes:
  "keeps collateral_kept (res_set_candidate c)" "keeps collateral_kept res_increment_candidate_id"
  "keeps collateral_kept (res_append_challenger cid a n)"
  "keeps collateral_kept (res_clear_challengers cid)"
  "keeps collateral_kept (res_set_emergency_mode m)" "keeps collateral_kept (res_set_paused b)"
  "keeps collateral_kept (res_set_config cf)" "keeps collateral_kept res_set_version"
  "keeps collateral_kept (res_set_pending_factory p)" "keeps collateral_kept res_clear_pending_factory"
  "keeps collateral_kept (res_set_pending_market_contract p)"
  "keeps collateral_kept res_clear_pending_market_contract"
  "keeps collateral_kept (res_set_pending_treasury p)"
  "keeps collateral_kept res_clear_pending_treasury" "keeps collateral_kept (res_set_treasury t)"
  by (auto simp: keeps_def collateral_kept_def res_get_proposer_collateral_def ok_iff Let_def)

lemma collateral_kept_deposit: "keeps collateral_kept (resolution_deposit_collateral E T p t n)"
  by (auto simp: keeps_def collateral_kept_def resolution_deposit_collateral_def guard_ok
      arith_i128_ok res_get_proposer_collateral_def res_set_proposer_collateral_def modify_ok)

lemmas collateral_kept_rules = collateral_kept.keeps_rules collateral_kept_writes
  same_storage_helpers[THEN collateral_kept_weaken] same_storage_host_ops[THEN collateral_kept_weaken]

lemma collateral_call_keeps:
  "\<forall>a p t r. c \<noteq> SlashCollateral a p t r \<Longrightarrow> keeps collateral_kept (resolution_call E T M c)"
  by (cases c)
    (simp_all add: dispute_entrypoints address_entrypoints resolution_set_emergency_mode_def
      resolution_pause_def resolution_unpause_def basic_guard_defs collateral_kept_deposit;
     (intro collateral_kept_rules allI impI)+)+

lemma collateral_call:
  assumes "resolution_call E T M c s = (Ok u, s')" and "\<forall>a p t r. c \<noteq> SlashCollateral a p t r"
  shows "res_get_proposer_collateral p s \<le> res_get_proposer_collateral p s'"
  using keepsD[OF collateral_call_keeps[OF assms(2)] assms(1)] by (simp add: collateral_kept_def)

end
