(* ===== verification/Resolution_Properties.thy ===== *)
theory Resolution_Properties
  imports Resolution_Examples Resolution_Payouts
begin

text \<open>
  The properties of the Resolution contract, each with a concrete instance on the run of
  \<^verbatim>\<open>Resolution_Examples\<close>.
\<close>

lemma fst_ok_iff: "fst r = Ok v \<longleftrightarrow> (\<exists>s'. r = (Ok v, s'))"
  by (cases r) auto

text \<open>A market that already has a candidate accepts no other.\<close>

lemma propose_taken:
  "key_candidate_by_market s mid = Some cid \<Longrightarrow>
     resolution_propose E T M p mid b sig ex uri w n s \<noteq> (Ok k, s')"
  by (auto simp: resolution_propose_def Let_def guard_ok resolution_reads)

lemma propose_v2_taken:
  "key_candidate_by_market s mid = Some cid \<Longrightarrow>
     resolution_propose_v2 E T M p mid b sig ex ep ph uri w n s \<noteq> (Ok k, s')"
  by (auto simp: resolution_propose_v2_def Let_def guard_ok resolution_reads)

text \<open>\<open>propose_v2\<close> reads and writes nothing of the pause flag.\<close>

lemma propose_v2_blind:
  "blind_to (\<lambda>s. s\<lparr>key_paused := x\<rparr>)
     (resolution_propose_v2 E T M p mid b sig vu ep ph uri w n)"
proof -
  let ?f = "\<lambda>s. s\<lparr>key_paused := x\<rparr>"
  have call: "blind_to ?f (invoke_contract g)" for g
    by (auto simp: blind_to_def invoke_contract_def split: option.splits)
  have steps: "blind_to ?f res_assert_version" "blind_to ?f res_get_config"
    "blind_to ?f (require_emergency_mode_allows ms)"
    "blind_to ?f (gets (res_get_candidate_id_for_market mid))"
    "blind_to ?f res_increment_candidate_id" "blind_to ?f (res_set_candidate c)"
    "blind_to ?f (emit ev)" for ms c ev
    unfolding res_assert_version_def res_get_config_def require_emergency_mode_allows_def
      res_increment_candidate_id_def res_set_candidate_def emit_def
    by (intro blind_rules blind_gets blind_modify;
        simp add: resolution_reads res_get_emergency_mode_def)+
  show ?thesis
    unfolding resolution_propose_v2_def validate_uri_def validate_challenge_window_def
      require_market_active_def verify_signature_v2_def get_collateral_token_def
      token_transfer_def resolution_emits
    by (intro blind_rules steps call)
qed

section \<open>Disputes\<close>

text \<open>
  C5. Every successful call of every entrypoint is one step of the abstract dispute machine at the
  call's ledger time: it opens a dispute, adds a challenger, re-opens a challenged proposal, closes
  a dispute for one side, or leaves all disputes as they were.
\<close>

theorem resolution_implements_dispute_machine:
  assumes "resolution_call E T M c s = (Ok u, s')"
  shows "dispute_step (ledger_timestamp E) (disputes_of s) (disputes_of s')"
  using assms by (rule resolution_refines_disputes)

lemma resolution_implements_dispute_machine_witness:
  "dispute_step 3000 (disputes_of demo_proposed) (disputes_of demo_challenged)"
  using resolution_implements_dispute_machine[OF demo_challenged_run] by (simp add: demo_env_def)

text \<open>
  C11. Candidate ids are never reused and no market ever has two candidates: after any run from a
  reachable state, at whatever times, every candidate stored before is still stored under its id with
  its own market, proposer, bond and other terms, and every other candidate has an id above the
  counter the run started with. Each candidate sits under its own id, between 1 and the counter, the
  market index points back to it, and two candidates of one market are the same one.
\<close>

theorem one_candidate_per_market:
  assumes "resolution_reachable T M self s" and "timed_run (resolution_step T M self) t s r"
    and "s' = last_state s r"
    and "key_candidate s' cid = Some c" and "key_candidate s' cid' = Some c'"
  shows "(\<forall>i b. key_candidate s i = Some b \<longrightarrow> (\<exists>b'. key_candidate s' i = Some b' \<and> same_terms b b'))
    \<and> (key_candidate s cid = None \<longrightarrow> d_counter (disputes_of s) < cid)
    \<and> cand_id c = cid \<and> 1 \<le> cid \<and> cid \<le> d_counter (disputes_of s')
    \<and> key_candidate_by_market s' (cand_market_id c) = Some cid
    \<and> (cand_market_id c = cand_market_id c' \<longrightarrow> cid = cid')"
proof -
  note d = timed_run_disputes[OF assms(2)] reachable_dispute_inv[OF assms(1)]
  have "resolution_reachable T M self s'"
    unfolding assms(3) by (rule timed_run_invariant[OF assms(2), where P = "resolution_reachable T M self"])
      (use assms(1) in \<open>auto intro: resolution_reachable.step\<close>)
  note inv = dispute_invD[OF reachable_dispute_inv[OF this], unfolded disputes_of_reads
      resolution_reads]
  have "\<exists>b'. key_candidate s' i = Some b' \<and> same_terms b b'" if "key_candidate s i = Some b" for i b
    using dispute_run_terms[OF d, of i b] that assms(3) by (auto simp: last_state_map resolution_reads)
  moreover have "d_counter (disputes_of s) < cid" if "key_candidate s cid = None"
    using dispute_run_ids[OF d] that assms(3,4) by (auto simp: last_state_map resolution_reads)
  ultimately show ?thesis using inv[OF assms(4)] inv(4)[OF assms(5)] by auto
qed

lemma one_candidate_per_market_witness:
  "(\<exists>b. key_candidate demo_proposed 1 = Some b) \<and> d_counter (disputes_of demo_ready) < 1
    \<and> key_candidate_by_market demo_proposed 7 = Some 1"
  using one_candidate_per_market[OF demo_reachable(1), where t = 0 and r = "[(2000, demo_proposed)]"
      and s' = demo_proposed and cid = 1 and cid' = 1 and c = demo_candidate and c' = demo_candidate]
    demo_step[OF demo_proposed_run]
  by (simp add: demo_values)

text \<open>
  C17. In every reachable state the challengers recorded for a candidate match its status: as many
  as appeals while it is proposed, one more while it is challenged (so at most four, the last of
  them being \<open>challenged_by\<close>), none once it is closed; every bond held is at least the minimum
  and the challenge window has its legal length.
\<close>

theorem challengers_match_status:
  assumes "resolution_reachable T M self s" and "key_candidate s cid = Some c"
  shows "candidate_ok c (res_get_challengers cid s)
    \<and> length (res_get_challengers cid s) \<le> Suc max_appeal_rounds"
  using dispute_invD(5)[OF reachable_dispute_inv[OF assms(1)], of cid c] assms(2)
  by (auto simp: resolution_reads candidate_ok_def split: candidate_status.splits)

lemma challengers_match_status_witness:
  "length (res_get_challengers 1 demo_challenged) \<le> Suc max_appeal_rounds"
  using challengers_match_status[OF demo_reachable(3), of 1] by (simp add: demo_values)

text \<open>
  C8. A finalized or voided candidate is final: whatever calls follow, at whatever times, the
  candidate stays exactly as it was stored.
\<close>

theorem closed_candidate_is_final:
  assumes "resolution_reachable T M self s" and "key_candidate s cid = Some c"
    and "status c = Finalized \<or> status c = Voided"
    and "timed_run (resolution_step T M self) t s r"
  shows "key_candidate (last_state s r) cid = Some c"
  using dispute_run_candidate[OF timed_run_disputes[OF assms(4)] reachable_dispute_inv[OF assms(1)],
      of cid c] assms(2,3)
  by (simp add: last_state_map resolution_reads terminal_def)

lemma closed_candidate_is_final_witness:
  "key_candidate (last_state demo_finalized [(7000, demo_finalized\<lparr>ext := demo_ledger\<rparr>)]) 1
     = Some (demo_candidate\<lparr>status := Finalized, finalized_at := Some 6000\<rparr>)"
  by (rule closed_candidate_is_final[OF demo_reachable(4), where t = 0])
    (simp_all add: demo_finalized_candidate resolution_step.foreign)

text \<open>
  The terms of a candidate never change: over any run its id, market, proposer, bond, signature
  expiry, epoch and passphrase hash stay, and its appeal round only grows.
\<close>

theorem candidate_terms_never_change:
  assumes "resolution_reachable T M self s" and "key_candidate s cid = Some c"
    and "timed_run (resolution_step T M self) t s r"
  shows "\<exists>c'. key_candidate (last_state s r) cid = Some c' \<and> same_terms c c'
    \<and> appeal_round c \<le> appeal_round c'"
  using dispute_run_terms[OF timed_run_disputes[OF assms(3)] reachable_dispute_inv[OF assms(1)],
      of cid c] assms(2)
  by (simp add: last_state_map resolution_reads)

lemma candidate_terms_never_change_witness:
  "\<exists>c'. key_candidate (last_state demo_proposed [(3000, demo_challenged)]) 1 = Some c'
    \<and> same_terms demo_candidate c' \<and> appeal_round demo_candidate \<le> appeal_round c'"
  by (rule candidate_terms_never_change[OF demo_reachable(2), where t = 0])
    (use demo_challenged_step in \<open>simp_all add: demo_values\<close>)

text \<open>
  C28. A proposal that went unchallenged past its deadline and whose signature has expired is stuck:
  no later call changes it, its market keeps pointing at it, and so every later proposal for that
  market, of either version, is refused. \<open>propose\<close> accepts such an expiry, since it compares it
  with the current time and not with the challenge deadline.
\<close>

theorem expired_proposal_blocks_market:
  assumes "resolution_reachable T M self s" and "key_candidate s cid = Some c"
    and "status c = Proposed" and "challenge_deadline c \<le> t" and "signature_expiry c < t"
    and "timed_run (resolution_step T M self) t s r"
  shows "key_candidate (last_state s r) cid = Some c
    \<and> fst (resolution_propose E T M p (cand_market_id c) b sig ex uri w n (last_state s r)) \<noteq> Ok k
    \<and> fst (resolution_propose_v2 E T M p (cand_market_id c) b sig ex ep ph uri w n
        (last_state s r)) \<noteq> Ok k"
proof -
  let ?s = "last_state s r"
  have keep: "key_candidate ?s cid = Some c"
    using dispute_run_candidate[OF timed_run_disputes[OF assms(6)]
        reachable_dispute_inv[OF assms(1)], of cid c] assms(2-5)
    by (simp add: last_state_map resolution_reads dead_def)
  have "resolution_reachable T M self ?s"
    by (rule timed_run_invariant[OF assms(6), where P = "resolution_reachable T M self"])
      (auto intro: assms(1) resolution_reachable.step)
  from dispute_invD(4)[OF reachable_dispute_inv[OF this], of cid c] keep
  have taken: "key_candidate_by_market ?s (cand_market_id c) = Some cid"
    by (simp add: resolution_reads)
  then show ?thesis
    using keep by (auto simp: propose_taken propose_v2_taken fst_ok_iff)
qed

text \<open>
  The witness: a proposal with a signature valid for one more second and a one-hour window is
  accepted and is stuck after the hour.
\<close>

lemma expired_proposal_blocks_market_witness:
  "fst (resolution_propose (demo_env 9000 demo_bob) ledger_client demo_client demo_bob 7 False []
       900000 ''u'' 3600 20000000 (last_state demo_short [(8000, demo_short\<lparr>ext := demo_ledger\<rparr>)]))
     \<noteq> Ok 2"
proof -
  let ?c = "demo_candidate\<lparr>signature_expiry := 2001\<rparr>"
  have "key_candidate demo_short 1 = Some ?c" "status ?c = Proposed"
    "challenge_deadline ?c \<le> 7000" "signature_expiry ?c < 7000"
    and m: "cand_market_id ?c = 7"
    and "timed_run (resolution_step ledger_client demo_client demo_self) 7000 demo_short
      [(8000, demo_short\<lparr>ext := demo_ledger\<rparr>)]"
    by (simp_all add: demo_short_candidate demo_candidate_def resolution_step.foreign)
  from expired_proposal_blocks_market[OF demo_reachable(5) this(1-4,6)] m show ?thesis by simp
qed

section \<open>Finalization\<close>

text \<open>The error \<open>finalize\<close> gives for the candidate stored under the id, if any.\<close>

definition candidate_refusal :: "u64 \<Rightarrow> resolution_candidate option \<Rightarrow> resolution_error option" where
  "candidate_refusal now found = (case found of
      None \<Rightarrow> Some CandidateNotFound
    | Some c \<Rightarrow>
        if status c = Finalized \<or> status c = Voided then Some CandidateAlreadyFinalized
        else if status c = Challenged then Some CandidateAlreadyChallenged
        else if now < challenge_deadline c then Some ChallengeWindowOpen
        else if signature_expiry c < now then Some SignatureExpired
        else None)"

text \<open>
  The error of an authorized call, if any: pause, version, emergency mode, then the candidate.
  A contract without a configuration traps before it looks at the emergency mode.
\<close>

definition finalize_refusal :: "env \<Rightarrow> 'x resolution \<Rightarrow> u32 \<Rightarrow> resolution_error option" where
  "finalize_refusal E s cid =
     (if res_is_paused s then Some ContractPaused
      else if key_storage_version s \<noteq> Some resolution_storage_version then Some UpgradeRequired
      else if key_config s = None then None
      else if res_get_emergency_mode s = GlobalFreeze then Some EmergencyModeActive
      else candidate_refusal (ledger_timestamp E) (key_candidate s cid))"


definition finalize_effects :: "env \<Rightarrow> 'x token_client \<Rightarrow> 'x market_client \<Rightarrow> resolution_config
    \<Rightarrow> u32 \<Rightarrow> resolution_candidate \<Rightarrow> ('x, resolution_candidate) rcontract" where
  "finalize_effects E T M config cid c =
     bind (get_collateral_token M config (cand_market_id c)) (\<lambda>collateral_token.
     andthen (refund_proposer E T collateral_token c)
     (andthen (settle_challengers_as_losers E T cid c collateral_token)
     (andthen (emit_candidate_finalized E c)
     (andthen
       (case passphrase_hash c of
          Some ph \<Rightarrow> call_resolve_market_v2 E M config c ph
        | None \<Rightarrow> call_resolve_market E M config c)
     (return c)))))"


text \<open>What an authorized call on a configured contract does.\<close>

lemma finalize_run:
  assumes "authorized E a" and "key_config s = Some config"
    and "\<forall>c. key_candidate s cid = Some c \<longrightarrow> cand_id c = cid"
  shows "resolution_finalize E T M a cid s = (case finalize_refusal E s cid of
      Some e \<Rightarrow> (Err e, s)
    | None \<Rightarrow> let c = (the (key_candidate s cid))\<lparr>status := Finalized,
                  finalized_at := Some (ledger_timestamp E)\<rparr>
              in finalize_effects E T M config cid c (snd (res_set_candidate c s)))"
proof (cases "key_candidate s cid")
  case None
  with assms show ?thesis
    by (cases "res_get_emergency_mode s")
      (simp_all add: finalize_refusal_def candidate_refusal_def resolution_finalize_def run_simps guard_defs
        resolution_reads res_get_version_def)
next
  case (Some c)
  with assms show ?thesis
    by (cases "res_get_emergency_mode s"; cases "status c")
      (simp_all add: finalize_refusal_def candidate_refusal_def finalize_effects_def resolution_finalize_def
        run_simps guard_defs resolution_reads res_get_version_def res_set_candidate_def Let_def)
qed





text \<open>
  A proposal nobody disputed can be finalized by anyone: when the checks of \<open>finalize\<close> pass
  and the token and the market accept the refund and the resolution, the call returns the
  finalized candidate, refunds exactly the proposer's bond in the market's collateral token, and
  resolves the market with the candidate's outcome and signature under its decimal id.
\<close>

theorem finalize_succeeds:
  assumes "authorized E a" and "finalize_refusal E s cid = None" and "key_config s = Some config"
    and "key_candidate s cid = Some c" and "cand_id c = cid" and "cand_market_id c \<le> u32_max"
    and "res_get_challengers cid s = []" and "passphrase_hash c = None" and "0 < bond_amount c"
    and "mc_get_collateral_token M (market_contract config) (cand_market_id c) (ext s)
      = Some (tok, x1)"
    and "tok_transfer T tok (current_contract_address E) (proposer c) (bond_amount c) x1
      = Some ((), x2)"
    and "market_id_to_string (cand_market_id c) = Some mid"
    and "mc_resolve_market M (market_contract config) (current_contract_address E) mid (outcome c)
      (signature c) (signature_expiry c) x2 = Some ((), x3)"
  shows "\<exists>s'. resolution_finalize E T M a cid s =
      (Ok (c\<lparr>status := Finalized, finalized_at := Some (ledger_timestamp E)\<rparr>), s')
    \<and> ext s' = x3 \<and> events s' = events s @ [CandidateFinalized cid (cand_market_id c) (outcome c)
      (ledger_timestamp E)]"
proof -
  have "\<forall>c'. key_candidate s cid = Some c' \<longrightarrow> cand_id c' = cid"
    using assms(4,5) by simp
  from finalize_run[OF assms(1,3) this, of T M] assms(2,4-) show ?thesis
    by (simp add: Let_def finalize_effects_def bind_def andthen_def get_collateral_token_def
        refund_proposer_def settle_challengers_as_losers_def res_set_candidate_def modify_def
        invoke_contract_def token_transfer_def when_do_def call_resolve_market_def expect_def
        return_def gets_def resolution_emits emit_def res_get_challengers_def)
qed

lemma finalize_succeeds_witness:
  "\<exists>s'. resolution_finalize (demo_env 6000 demo_bob) ledger_client demo_client demo_bob 1
     demo_proposed = (Ok (demo_candidate\<lparr>status := Finalized, finalized_at := Some 6000\<rparr>), s')"
proof -
  let ?E = "demo_env 6000 demo_bob" and ?l = "demo_escrow_ledger 80000000 20000000"
  have now: "ledger_timestamp ?E = 6000" by (simp add: demo_env_def)
  have "\<exists>x2. ledger_transfer demo_token demo_self demo_alice 20000000 ?l = Some ((), x2)"
    by (simp add: ledger_transfer_def demo_escrow_ledger_def demo_addresses)
  then obtain x2 where "ledger_transfer demo_token demo_self demo_alice 20000000 ?l = Some ((), x2)"
    by blast
  then show ?thesis
    using finalize_succeeds[of ?E demo_bob demo_proposed
        1 "\<lparr>admin = Account 20, factory = Contract 13, market_contract = Contract 12,
          challenge_window_secs = 3600\<rparr>" demo_candidate demo_client demo_token ?l
        ledger_client x2 "''7''" x2] demo_market_id
    by (auto simp: now demo_proposed_value demo_ready_value demo_candidate_def demo_env_def
        fresh_resolution_def res_is_paused_def res_get_emergency_mode_def u32_max_def
        resolution_storage_version_def finalize_refusal_def candidate_refusal_def res_get_challengers_def
        demo_client_def reference_market_def ledger_client_def)
qed

section \<open>Money\<close>

text \<open>
  C36. A forfeited bond is divided without loss: half of it (rounded down) rewards the winner, a
  quarter (rounded down) is burned, and the treasury gets the rest, which is between a quarter of
  the bond and two units more; the multiplications overflow only for bonds above
  \<open>i128::MAX / 5000\<close>, and then the call traps.
\<close>

theorem forfeited_bond_is_divided_exactly:
  assumes "0 \<le> n"
  shows "(n * reward_bps \<le> i128_max \<longrightarrow>
      split_parts n s = (Ok (n div 2, n div 4, n - n div 2 - n div 4), s)
      \<and> n div 4 \<le> n - n div 2 - n div 4 \<and> n - n div 2 - n div 4 \<le> n div 4 + 2)
    \<and> (i128_max < n * reward_bps \<longrightarrow> split_parts n s = (Panic, s))"
proof (intro conjI impI)
  show "split_parts n s = (Ok (n div 2, n div 4, n - n div 2 - n div 4), s)"
    if "n * reward_bps \<le> i128_max" by (rule split_parts_value[OF assms that])
  show "n div 4 \<le> n - n div 2 - n div 4" "n - n div 2 - n div 4 \<le> n div 4 + 2"
    using assms by linarith+
  show "split_parts n s = (Panic, s)" if "i128_max < n * reward_bps"
    using that by (simp add: split_parts_def run_simps in_i128_def)
qed

lemma forfeited_bond_is_divided_exactly_witness:
  "fst (split_parts 10000003 demo_ready) = Ok (5000001, 2500000, 2500002)
   \<and> fst (split_parts i128_max demo_ready) = Panic"
  using forfeited_bond_is_divided_exactly[of 10000003 demo_ready]
    forfeited_bond_is_divided_exactly[of i128_max demo_ready]
  by (simp add: i128_numerals reward_bps_def)

text \<open>
  C1. The contract is solvent: over any SEP-41 tokens and any market contract with the interface's
  laws, in every state reached without slashing collateral its balance in every token covers the
  bonds of all open disputes over markets with that collateral, whatever was proposed, challenged,
  appealed, finalized, arbitrated or voided, and however the bonds of closed ones were divided.
\<close>

theorem open_bonds_are_covered:
  assumes "escrow T balance M self collateral"
    and "escrow_reachable T M balance self s"
  shows "owed collateral t (disputes_of s) \<le> balance (ext s) t self"
  using escrow.reachable_solvent[OF assms] by (simp add: solvent_def)

lemma open_bonds_are_covered_witness:
  "owed (\<lambda>_. demo_token) demo_token (disputes_of demo_challenged)
     \<le> ext demo_challenged demo_token demo_self"
  by (rule open_bonds_are_covered[OF ledger_escrow.escrow_axioms])
    (use demo_escrow_reachable in \<open>simp add: demo_client_def\<close>)

text \<open>
  Slashing breaks that guarantee: collateral is recorded as an amount without its token, and
  the admin names the token to pay out, so slashing a proposer who deposited a worthless token can
  take the bonds of an open dispute.
\<close>

theorem slashing_can_take_bonds:
  "\<exists>s s'. escrow_reachable ledger_client demo_client (\<lambda>l. l) demo_self s
    \<and> demo_call 5000 demo_admin (SlashCollateral demo_admin demo_alice demo_token demo_bob) s
        = (Ok (), s')
    \<and> ext s' demo_token demo_self < owed (\<lambda>_. demo_token) demo_token (disputes_of s')"
proof (intro exI conjI)
  show "escrow_reachable ledger_client demo_client (\<lambda>l. l) demo_self demo_with_collateral"
    by (rule demo_with_collateral_reachable)
  show "demo_call 5000 demo_admin (SlashCollateral demo_admin demo_alice demo_token demo_bob)
      demo_with_collateral = (Ok (), demo_slashed)"
    by (rule demo_slashed_run)
  show "ext demo_slashed demo_token demo_self
      < owed (\<lambda>_. demo_token) demo_token (disputes_of demo_slashed)"
    by (rule demo_slashed_insolvent)
qed

section \<open>Administration\<close>

text \<open>
  The factory address is behind a 48-hour timelock: in a run that starts with no proposal
  pending, every change of it puts in force an address that was proposed at least 172800 seconds
  earlier and was still the pending one.
\<close>

theorem factory_change_was_announced:
  assumes "timed_run (resolution_step T M self) t s (r @ [(now, s')])"
    and "key_pending_factory s = None"
    and "active_factory (last_state s r) \<noteq> None"
    and "active_factory s' \<noteq> active_factory (last_state s r)"
  shows "\<exists>t1 s1 v. (t1, s1) \<in> set r \<and> t1 + address_timelock_seconds \<le> now
    \<and> pending_factory s1 = Some (v, t1 + address_timelock_seconds) \<and> active_factory s' = Some v"
  using factory_lock.change_was_announced[OF assms(1) _ assms(3,4)] assms(2)
  by (simp add: pending_factory_def pending_pair_def)

lemma factory_change_was_announced_witness:
  "\<exists>t1 s1 v. (t1, s1) \<in> set [(2000, demo_factory_proposed)]
    \<and> t1 + address_timelock_seconds \<le> 180000
    \<and> pending_factory s1 = Some (v, t1 + address_timelock_seconds)
    \<and> active_factory demo_factory_changed = Some v"
  by (rule factory_change_was_announced[where s = demo_ready and t = 0
      and T = ledger_client and M = demo_client and self = demo_self])
    (simp_all add: demo_factory_steps demo_factory_values last_state_def)

text \<open>
  So is the treasury that receives its share of forfeited bonds, once one is set.
\<close>

theorem treasury_change_was_announced:
  assumes "timed_run (resolution_step T M self) t s (r @ [(now, s')])"
    and "key_pending_treasury s = None"
    and "key_treasury (last_state s r) \<noteq> None"
    and "key_treasury s' \<noteq> key_treasury (last_state s r)"
  shows "\<exists>t1 s1 v. (t1, s1) \<in> set r \<and> t1 + address_timelock_seconds \<le> now
    \<and> pending_treasury s1 = Some (v, t1 + address_timelock_seconds) \<and> key_treasury s' = Some v"
  using treasury_lock.change_was_announced[OF assms(1), unfolded active_treasury_def,
      OF _ assms(3,4)] assms(2)
  by (simp add: pending_treasury_def pending_pair_def)

lemma treasury_change_was_announced_witness:
  "\<exists>t1 s1 v. (t1, s1) \<in> set [(2000, demo_treasury_proposed)]
    \<and> t1 + address_timelock_seconds \<le> 180000
    \<and> pending_treasury s1 = Some (v, t1 + address_timelock_seconds)
    \<and> key_treasury demo_treasury_changed = Some v"
  by (rule treasury_change_was_announced[where s = demo_treasury_set and t = 0
      and T = ledger_client and M = demo_client and self = demo_self])
    (simp_all add: demo_treasury_steps demo_treasury_values last_state_def)

text \<open>
  The market contract address is not: beside its propose and execute pair,
  \<open>set_market_contract\<close> lets the admin replace it in one call, with nothing pending, in any state.
\<close>

theorem market_contract_change_needs_no_announcement:
  assumes "authorized E a" and "key_storage_version s = Some resolution_storage_version"
    and "key_config s = Some config" and "admin config = a"
  shows "resolution_set_market_contract E a m s = (Ok (), s\<lparr>
      key_config := Some (config\<lparr>market_contract := m\<rparr>),
      events := events s @ [MarketContractSet m (ledger_timestamp E)]\<rparr>)"
  using assms by (auto simp: resolution_set_market_contract_def ok_iff)

lemma market_contract_change_needs_no_announcement_witness:
  "fst (resolution_set_market_contract (demo_env 1001 demo_admin) demo_admin demo_bob demo_ready)
     = Ok () \<and> key_pending_market_contract demo_ready = None"
  using market_contract_change_needs_no_announcement[of "demo_env 1001 demo_admin" demo_admin
      demo_ready "the (key_config demo_ready)" demo_bob]
  by (simp add: demo_values demo_env_def demo_addresses resolution_storage_version_def)

text \<open>
  The admin set by \<open>initialize\<close> stays: no successful call of any entrypoint replaces it, a
  second \<open>initialize\<close> included, and calls that need the admin only ever succeed for that address
  with its authorization.
\<close>

theorem admin_never_changes:
  assumes "resolution_call E T M c s = (Ok u, s')" and "key_config s = Some config"
  shows "\<exists>config'. key_config s' = Some config' \<and> admin config' = admin config"
  using assms by (rule admin_call)

lemma admin_never_changes_witness:
  "\<exists>config'. key_config demo_challenged = Some config' \<and> admin config' = demo_admin"
  using admin_never_changes[OF demo_challenged_run, of "the (key_config demo_proposed)"]
  by (simp add: demo_values demo_addresses)

text \<open>
  While the contract is paused no candidate can be proposed with \<open>propose\<close>, challenged,
  appealed, finalized, arbitrated or voided.
\<close>

theorem pause_blocks_disputes:
  assumes "key_paused s = Some True" and "touches_dispute c"
    and "\<forall>p mid b sig vu ep ph uri w n. c \<noteq> ProposeV2 p mid b sig vu ep ph uri w n"
  shows "fst (resolution_call E T M c s) \<noteq> Ok ()"
  using assms by (cases c)
    (auto simp: touches_dispute_def fst_ok_iff dispute_entrypoints guard_ok Let_def
      res_is_paused_def discard_ok)

lemma pause_blocks_disputes_witness:
  "fst (demo_call 3000 demo_bob (Challenge demo_bob 1 ''no'' 10000000)
     (demo_proposed\<lparr>key_paused := Some True\<rparr>)) \<noteq> Ok ()"
  by (rule pause_blocks_disputes) (simp_all add: touches_dispute_def)

text \<open>
  \<open>propose_v2\<close> does not look at the pause flag: it runs the same in a paused contract, so a
  paused contract still accepts proposals and their bonds.
\<close>

theorem propose_v2_ignores_pause:
  "fst (resolution_propose_v2 E T M p mid b sig vu ep ph uri w n
       (s\<lparr>key_paused := x\<rparr>)) = fst (resolution_propose_v2 E T M p mid b sig vu ep ph uri w n s)"
  using propose_v2_blind[of x E T M p mid b sig vu ep ph uri w n] by (simp add: blind_to_def)

text \<open>
  In the emergency mode \<open>GlobalFreeze\<close> nothing can be proposed (in either version),
  challenged, appealed, finalized or deposited as collateral.
\<close>

theorem global_freeze_blocks:
  assumes "key_emergency_mode s = Some GlobalFreeze"
    and "\<forall>a k. c \<noteq> ArbitrateUpholdProposer a k \<and> c \<noteq> VoidMarket a k"
    and "touches_dispute c \<or> (\<exists>p t n. c = DepositCollateral p t n)"
  shows "fst (resolution_call E T M c s) \<noteq> Ok ()"
  using assms by (cases c)
    (auto simp: touches_dispute_def fst_ok_iff dispute_entrypoints resolution_deposit_collateral_def
      guard_ok Let_def res_get_emergency_mode_def discard_ok)

lemma global_freeze_blocks_witness:
  "fst (demo_call 6000 demo_bob (Finalize demo_bob 1)
     (demo_proposed\<lparr>key_emergency_mode := Some GlobalFreeze\<rparr>)) \<noteq> Ok ()"
  by (rule global_freeze_blocks) (simp_all add: touches_dispute_def)

text \<open>
  A proposer's collateral only leaves the contract by slashing: no other call lowers the amount
  recorded for anyone, so there is no way to take a deposit back.
\<close>

theorem collateral_leaves_only_by_slashing:
  assumes "resolution_call E T M c s = (Ok u, s')" and "\<forall>a p t r. c \<noteq> SlashCollateral a p t r"
  shows "res_get_proposer_collateral p s \<le> res_get_proposer_collateral p s'"
  using assms by (rule collateral_call)

lemma collateral_leaves_only_by_slashing_witness:
  "res_get_proposer_collateral demo_alice demo_minted
     \<le> res_get_proposer_collateral demo_alice demo_with_collateral"
  by (rule collateral_leaves_only_by_slashing[OF demo_with_collateral_run]) simp

section \<open>Arbitration\<close>

text \<open>
  Upholding a proposer never uses the market's \<open>resolve_market_v2\<close>: the call is the same
  whatever that entrypoint does, so a candidate proposed with \<open>propose_v2\<close> is pushed through
  \<open>resolve_market\<close> with a signature that covers the other message format.
\<close>

theorem arbitration_never_uses_resolve_v2:
  "resolution_arbitrate_uphold_proposer E T (M\<lparr>mc_resolve_market_v2 := f\<rparr>) a cid
     = resolution_arbitrate_uphold_proposer E T M a cid"
  by (simp add: resolution_arbitrate_uphold_proposer_def get_collateral_token_def
      call_resolve_market_def)

text \<open>
  Voiding a market pays everyone out in one call: the events of a successful \<open>void_market\<close>
  are the division of the proposer's bond with the last challenger as winner, then one refund per
  challenger in the order they challenged, each of the full bond, then the voiding; the candidate
  ends voided with no challenger left on record.
\<close>

theorem void_market_pays_everyone:
  assumes "resolution_void_market E T M a cid s = (Ok c', s')"
    and "resolution_reachable T M self s"
  shows "\<exists>c. key_candidate s cid = Some c \<and> status c = Challenged
    \<and> key_candidate s' cid = Some c' \<and> status c' = Voided \<and> res_get_challengers cid s' = []
    \<and> (\<exists>r b t. r + b + t = bond_amount c \<and> 0 \<le> r \<and> 0 \<le> b \<and> 0 \<le> t
      \<and> events s' = events s
        @ [BondSlashed cid (cand_market_id c) (proposer c)
             (challenger (last (res_get_challengers cid s))) (bond_amount c) r b t
             (ledger_timestamp E)]
        @ map (\<lambda>x. BondRefunded cid (cand_market_id c) (challenger x) (bond x)
             (ledger_timestamp E)) (res_get_challengers cid s)
        @ [MarketVoided cid (cand_market_id c) (ledger_timestamp E)])"
  using void_market_events[OF assms(1) reachable_dispute_inv[OF assms(2)]] .

lemma void_market_pays_everyone_witness:
  "\<exists>c'. key_candidate demo_voided 1 = Some c' \<and> status c' = Voided
    \<and> res_get_challengers 1 demo_voided = []"
proof -
  from demo_voided_run obtain c' where
    "resolution_void_market (demo_env 200000 demo_admin) ledger_client demo_client demo_admin 1
       demo_challenged = (Ok c', demo_voided)"
    by (auto simp: discard_ok)
  from void_market_pays_everyone[OF this demo_reachable(3)] show ?thesis by auto
qed

end
