(* ===== verification/Treasury_State.thy ===== *)
theory Treasury_State
  imports Interfaces
begin

text \<open>
  Data of the Treasury contract: \<^verbatim>\<open>contracts/treasury/src/{error,events,storage}.rs\<close>. The
  file \<^verbatim>\<open>storage.rs\<close> stops after \<open>set_cumulative_fees\<close>; the accessors the contract uses
  and the file lacks (pause flag, total, fee tokens, stakeholders, emergency mode) are the
  parameter \<open>A\<close>, acting on a part \<open>unread\<close> of the storage nothing else touches.
\<close>

section \<open>error.rs\<close>

datatype treasury_error =
    UpgradeRequired
  | InsufficientBalance
  | InvalidAmount
  | InvalidStakeholderWeights
  | NotInitialized
  | NoStakeholdersConfigured
  | NoPendingStakeholderChange
  | CallerNotMarket
  | Unauthorized
  | InvalidAdmin
  | AlreadyInitialized
  | ContractPaused
  | EmergencyModeActive
  | DepositsPaused
  | ArithmeticOverflow
  | TimelockNotElapsed

section \<open>events.rs\<close>

datatype treasury_event =
    TreasuryInitialized address address u64
  | FeeCollected u32 address i128 i128 i128
  | FeesWithdrawn address address i128 i128
  | AdminTransferred address address u64
  | AdminTransferProposed address address u64
  | MarketContractUpdated address address
  | MarketContractProposed address u64
  | MarketContractSet address u64
  | MarketAdded address
  | MarketRemoved address
  | StakeholdersProposed "address list" "u32 list" u64
  | StakeholdersUpdated u32 "address list" "u32 list" u64
  | FeesDistributed address i128 i128 u32 u64
  | TreasuryPaused address u64
  | TreasuryUnpaused address u64
  | TreasuryEmergencyModeChanged emergency_mode address u64

section \<open>storage.rs\<close>

record pending_stakeholders =
  pending_list :: "(address \<times> u32) list"
  pending_effective_at :: u64

record ('x, 'r) treasury = "('x, treasury_event) host" +
  tkey_storage_version :: "u32 option"
  tkey_admin :: "address option"
  tkey_authorized_markets :: "address list option"
  tkey_token_balance :: "address \<Rightarrow> i128 option"
  tkey_cumulative_fees :: "address \<Rightarrow> i128 option"
  tkey_pending_market_contract :: "pending_address_change option"
  tkey_pending_admin :: "pending_address_change option"
  tkey_deposits_paused :: "bool option"
  unread :: 'r

type_synonym ('x, 'r, 'a) tcontract = "(treasury_error, ('x, 'r) treasury, 'a) contract"

definition fresh_treasury :: "'x \<Rightarrow> 'r \<Rightarrow> ('x, 'r) treasury" where
  "fresh_treasury x r = \<lparr>ext = x, events = [], tkey_storage_version = None, tkey_admin = None,
     tkey_authorized_markets = None, tkey_token_balance = (\<lambda>_. None),
     tkey_cumulative_fees = (\<lambda>_. None), tkey_pending_market_contract = None,
     tkey_pending_admin = None, tkey_deposits_paused = None, unread = r\<rparr>"

definition treasury_storage_version :: u32 where
  "treasury_storage_version = 3"

definition trs_set_version :: "('x, 'r, unit) tcontract" where
  "trs_set_version = modify (\<lambda>s. s\<lparr>tkey_storage_version := Some treasury_storage_version\<rparr>)"

definition trs_get_version :: "('x, 'r) treasury \<Rightarrow> u32 option" where
  "trs_get_version s = tkey_storage_version s"

definition trs_assert_version :: "('x, 'r, unit) tcontract" where
  "trs_assert_version = bind (gets trs_get_version) (\<lambda>v.
     ensure (v = Some treasury_storage_version) UpgradeRequired)"

definition trs_has_admin :: "('x, 'r) treasury \<Rightarrow> bool" where
  "trs_has_admin s \<longleftrightarrow> tkey_admin s \<noteq> None"

definition trs_get_admin :: "('x, 'r, address) tcontract" where
  "trs_get_admin = andthen trs_assert_version (bind (gets tkey_admin) expect)"

definition trs_set_admin :: "address \<Rightarrow> ('x, 'r, unit) tcontract" where
  "trs_set_admin a = modify (\<lambda>s. s\<lparr>tkey_admin := Some a\<rparr>)"

definition trs_get_pending_admin :: "('x, 'r) treasury \<Rightarrow> pending_address_change option" where
  "trs_get_pending_admin s = tkey_pending_admin s"

definition trs_set_pending_admin :: "pending_address_change \<Rightarrow> ('x, 'r, unit) tcontract" where
  "trs_set_pending_admin p = modify (\<lambda>s. s\<lparr>tkey_pending_admin := Some p\<rparr>)"

definition trs_clear_pending_admin :: "('x, 'r, unit) tcontract" where
  "trs_clear_pending_admin = modify (\<lambda>s. s\<lparr>tkey_pending_admin := None\<rparr>)"

definition trs_get_authorized_markets :: "('x, 'r) treasury \<Rightarrow> address list" where
  "trs_get_authorized_markets s = (case tkey_authorized_markets s of None \<Rightarrow> [] | Some ms \<Rightarrow> ms)"

definition trs_set_authorized_markets :: "address list \<Rightarrow> ('x, 'r, unit) tcontract" where
  "trs_set_authorized_markets ms = modify (\<lambda>s. s\<lparr>tkey_authorized_markets := Some ms\<rparr>)"

text \<open>\<open>markets.get(0)\<close>\<close>

definition list_get_0 :: "'a list \<Rightarrow> 'a option" where
  "list_get_0 xs = (case xs of [] \<Rightarrow> None | x # _ \<Rightarrow> Some x)"

definition trs_get_authorized_market :: "('x, 'r, address) tcontract" where
  "trs_get_authorized_market = bind (gets trs_get_authorized_markets) (\<lambda>markets.
     ok_or (list_get_0 markets) NotInitialized)"

definition trs_is_authorized_market :: "address \<Rightarrow> ('x, 'r) treasury \<Rightarrow> bool" where
  "trs_is_authorized_market m s \<longleftrightarrow> m \<in> set (trs_get_authorized_markets s)"

definition trs_get_pending_market_contract :: "('x, 'r) treasury \<Rightarrow> pending_address_change option"
  where "trs_get_pending_market_contract s = tkey_pending_market_contract s"

definition trs_set_pending_market_contract :: "pending_address_change \<Rightarrow> ('x, 'r, unit) tcontract"
  where "trs_set_pending_market_contract p =
     modify (\<lambda>s. s\<lparr>tkey_pending_market_contract := Some p\<rparr>)"

definition trs_clear_pending_market_contract :: "('x, 'r, unit) tcontract" where
  "trs_clear_pending_market_contract = modify (\<lambda>s. s\<lparr>tkey_pending_market_contract := None\<rparr>)"

definition trs_is_deposits_paused :: "('x, 'r) treasury \<Rightarrow> bool" where
  "trs_is_deposits_paused s = (case tkey_deposits_paused s of None \<Rightarrow> False | Some b \<Rightarrow> b)"

definition trs_set_deposits_paused :: "bool \<Rightarrow> ('x, 'r, unit) tcontract" where
  "trs_set_deposits_paused b = modify (\<lambda>s. s\<lparr>tkey_deposits_paused := Some b\<rparr>)"

definition trs_assert_deposits_not_paused :: "('x, 'r, unit) tcontract" where
  "trs_assert_deposits_not_paused = bind (gets trs_is_deposits_paused) (\<lambda>p.
     ensure (\<not> p) DepositsPaused)"

definition trs_get_token_balance :: "address \<Rightarrow> ('x, 'r, i128) tcontract" where
  "trs_get_token_balance t = andthen trs_assert_version
     (gets (\<lambda>s. case tkey_token_balance s t of None \<Rightarrow> 0 | Some n \<Rightarrow> n))"

definition trs_set_token_balance :: "address \<Rightarrow> i128 \<Rightarrow> ('x, 'r, unit) tcontract" where
  "trs_set_token_balance t n =
     modify (\<lambda>s. s\<lparr>tkey_token_balance := (tkey_token_balance s)(t \<mapsto> n)\<rparr>)"

definition trs_get_cumulative_fees :: "address \<Rightarrow> ('x, 'r, i128) tcontract" where
  "trs_get_cumulative_fees t = andthen trs_assert_version
     (gets (\<lambda>s. case tkey_cumulative_fees s t of None \<Rightarrow> 0 | Some n \<Rightarrow> n))"

definition trs_set_cumulative_fees :: "address \<Rightarrow> i128 \<Rightarrow> ('x, 'r, unit) tcontract" where
  "trs_set_cumulative_fees t n =
     modify (\<lambda>s. s\<lparr>tkey_cumulative_fees := (tkey_cumulative_fees s)(t \<mapsto> n)\<rparr>)"

section \<open>The accessors missing from storage.rs\<close>

record 'r treasury_accessors =
  acc_is_paused :: "'r \<Rightarrow> bool"
  acc_set_paused :: "bool \<Rightarrow> 'r \<Rightarrow> 'r"
  acc_get_total_collected :: "u32 option \<Rightarrow> 'r \<Rightarrow> treasury_error + i128"
  acc_set_total_collected :: "i128 \<Rightarrow> 'r \<Rightarrow> 'r"
  acc_register_fee_token :: "address \<Rightarrow> 'r \<Rightarrow> 'r"
  acc_get_fee_tokens :: "'r \<Rightarrow> address list"
  acc_get_stakeholders :: "u32 option \<Rightarrow> 'r \<Rightarrow> treasury_error + (address \<times> u32) list"
  acc_set_stakeholders :: "(address \<times> u32) list \<Rightarrow> 'r \<Rightarrow> 'r"
  acc_get_pending_stakeholders :: "'r \<Rightarrow> pending_stakeholders option"
  acc_set_pending_stakeholders :: "pending_stakeholders \<Rightarrow> 'r \<Rightarrow> 'r"
  acc_clear_pending_stakeholders :: "'r \<Rightarrow> 'r"
  acc_get_emergency_mode :: "'r \<Rightarrow> emergency_mode"
  acc_set_emergency_mode :: "emergency_mode \<Rightarrow> 'r \<Rightarrow> 'r"

definition read_acc :: "('r \<Rightarrow> 'a) \<Rightarrow> ('x, 'r, 'a) tcontract" where
  "read_acc f = gets (\<lambda>s. f (unread s))"

definition write_acc :: "('r \<Rightarrow> 'r) \<Rightarrow> ('x, 'r, unit) tcontract" where
  "write_acc f = modify (\<lambda>s. s\<lparr>unread := f (unread s)\<rparr>)"

text \<open>Accessors used with \<open>?\<close> see the stored schema version as well.\<close>

definition try_acc :: "(u32 option \<Rightarrow> 'r \<Rightarrow> treasury_error + 'a) \<Rightarrow> ('x, 'r, 'a) tcontract" where
  "try_acc f = bind (gets (\<lambda>s. f (tkey_storage_version s) (unread s))) try_result"

text \<open>
  What \<^verbatim>\<open>docs/treasury-storage.md\<close> says of the keys behind these accessors: defaults when
  unset, an idempotent append-only fee-token registry, a pending stakeholder list that is written,
  read and removed, and the schema check at the start of the accessors that return a \<open>Result\<close>.
\<close>

record treasury_view =
  v_paused :: "bool option"
  v_total :: "i128 option"
  v_fee_tokens :: "address list option"
  v_stakeholders :: "(address \<times> u32) list option"
  v_pending_stakeholders :: "pending_stakeholders option"
  v_emergency_mode :: "emergency_mode option"

definition stored_list :: "'a list option \<Rightarrow> 'a list" where
  "stored_list x = (case x of None \<Rightarrow> [] | Some l \<Rightarrow> l)"

definition fresh_view :: treasury_view where
  "fresh_view = \<lparr>v_paused = None, v_total = None, v_fee_tokens = None, v_stakeholders = None,
     v_pending_stakeholders = None, v_emergency_mode = None\<rparr>"

locale treasury_storage =
  fixes A :: "'r treasury_accessors"
    and view :: "'r \<Rightarrow> treasury_view"
  assumes reads:
      "acc_is_paused A r = (v_paused (view r) = Some True)"
      "acc_get_fee_tokens A r = stored_list (v_fee_tokens (view r))"
      "acc_get_pending_stakeholders A r = v_pending_stakeholders (view r)"
      "acc_get_emergency_mode A r =
         (case v_emergency_mode (view r) of None \<Rightarrow> Normal | Some m \<Rightarrow> m)"
    and checked_reads:
      "acc_get_total_collected A v r = (if v = Some treasury_storage_version
         then Inr (case v_total (view r) of None \<Rightarrow> 0 | Some n \<Rightarrow> n) else Inl UpgradeRequired)"
      "acc_get_stakeholders A v r = (if v = Some treasury_storage_version
         then Inr (stored_list (v_stakeholders (view r))) else Inl UpgradeRequired)"
    and writes:
      "view (acc_set_paused A b r) = (view r)\<lparr>v_paused := Some b\<rparr>"
      "view (acc_set_total_collected A n r) = (view r)\<lparr>v_total := Some n\<rparr>"
      "view (acc_register_fee_token A t r) =
         (if t \<in> set (stored_list (v_fee_tokens (view r))) then view r
          else (view r)\<lparr>v_fee_tokens := Some (stored_list (v_fee_tokens (view r)) @ [t])\<rparr>)"
      "view (acc_set_stakeholders A l r) = (view r)\<lparr>v_stakeholders := Some l\<rparr>"
      "view (acc_set_pending_stakeholders A p r) = (view r)\<lparr>v_pending_stakeholders := Some p\<rparr>"
      "view (acc_clear_pending_stakeholders A r) = (view r)\<lparr>v_pending_stakeholders := None\<rparr>"
      "view (acc_set_emergency_mode A m r) = (view r)\<lparr>v_emergency_mode := Some m\<rparr>"

text \<open>Accessors that keep the view itself, with the shape of the ones the file does contain.\<close>

definition direct_accessors :: "treasury_view treasury_accessors" where
  "direct_accessors = \<lparr>
     acc_is_paused = (\<lambda>r. v_paused r = Some True),
     acc_set_paused = (\<lambda>b r. r\<lparr>v_paused := Some b\<rparr>),
     acc_get_total_collected = (\<lambda>v r. if v = Some treasury_storage_version
       then Inr (case v_total r of None \<Rightarrow> 0 | Some n \<Rightarrow> n) else Inl UpgradeRequired),
     acc_set_total_collected = (\<lambda>n r. r\<lparr>v_total := Some n\<rparr>),
     acc_register_fee_token = (\<lambda>t r. if t \<in> set (stored_list (v_fee_tokens r)) then r
       else r\<lparr>v_fee_tokens := Some (stored_list (v_fee_tokens r) @ [t])\<rparr>),
     acc_get_fee_tokens = (\<lambda>r. stored_list (v_fee_tokens r)),
     acc_get_stakeholders = (\<lambda>v r. if v = Some treasury_storage_version
       then Inr (stored_list (v_stakeholders r)) else Inl UpgradeRequired),
     acc_set_stakeholders = (\<lambda>l r. r\<lparr>v_stakeholders := Some l\<rparr>),
     acc_get_pending_stakeholders = v_pending_stakeholders,
     acc_set_pending_stakeholders = (\<lambda>p r. r\<lparr>v_pending_stakeholders := Some p\<rparr>),
     acc_clear_pending_stakeholders = (\<lambda>r. r\<lparr>v_pending_stakeholders := None\<rparr>),
     acc_get_emergency_mode =
       (\<lambda>r. case v_emergency_mode r of None \<Rightarrow> Normal | Some m \<Rightarrow> m),
     acc_set_emergency_mode = (\<lambda>m r. r\<lparr>v_emergency_mode := Some m\<rparr>)\<rparr>"

interpretation direct: treasury_storage direct_accessors "\<lambda>r. r"
  by unfold_locales (simp_all add: direct_accessors_def)

section \<open>events.rs: the emit helpers\<close>

definition emit_treasury_initialized :: "env \<Rightarrow> address \<Rightarrow> address \<Rightarrow> ('x, 'r, unit) tcontract" where
  "emit_treasury_initialized E a m = emit (TreasuryInitialized a m (ledger_timestamp E))"

definition emit_fee_collected :: "env \<Rightarrow> u32 \<Rightarrow> address \<Rightarrow> i128 \<Rightarrow> i128 \<Rightarrow> i128 \<Rightarrow> ('x, 'r, unit) tcontract" where
  "emit_fee_collected E mid t fee bal cum = emit (FeeCollected mid t fee bal cum)"

definition emit_fees_withdrawn :: "env \<Rightarrow> address \<Rightarrow> address \<Rightarrow> i128 \<Rightarrow> i128 \<Rightarrow> ('x, 'r, unit) tcontract" where
  "emit_fees_withdrawn E t to n remaining = emit (FeesWithdrawn t to n remaining)"

definition emit_admin_transferred :: "env \<Rightarrow> address \<Rightarrow> address \<Rightarrow> ('x, 'r, unit) tcontract" where
  "emit_admin_transferred E a b = emit (AdminTransferred a b (ledger_timestamp E))"

definition emit_admin_transfer_proposed :: "env \<Rightarrow> address \<Rightarrow> address \<Rightarrow> u64 \<Rightarrow> ('x, 'r, unit) tcontract" where
  "emit_admin_transfer_proposed E a b eff = emit (AdminTransferProposed a b eff)"

definition emit_market_contract_updated :: "env \<Rightarrow> address \<Rightarrow> address \<Rightarrow> ('x, 'r, unit) tcontract" where
  "emit_market_contract_updated E a b = emit (MarketContractUpdated a b)"

definition treasury_emit_market_contract_proposed :: "env \<Rightarrow> address \<Rightarrow> u64 \<Rightarrow> ('x, 'r, unit) tcontract" where
  "treasury_emit_market_contract_proposed E m eff = emit (MarketContractProposed m eff)"

definition treasury_emit_market_contract_set :: "env \<Rightarrow> address \<Rightarrow> ('x, 'r, unit) tcontract" where
  "treasury_emit_market_contract_set E m = emit (MarketContractSet m (ledger_timestamp E))"

definition emit_market_added :: "env \<Rightarrow> address \<Rightarrow> ('x, 'r, unit) tcontract" where
  "emit_market_added E m = emit (MarketAdded m)"

definition emit_market_removed :: "env \<Rightarrow> address \<Rightarrow> ('x, 'r, unit) tcontract" where
  "emit_market_removed E m = emit (MarketRemoved m)"

definition emit_stakeholders_proposed :: "env \<Rightarrow> address list \<Rightarrow> u32 list \<Rightarrow> u64 \<Rightarrow> ('x, 'r, unit) tcontract" where
  "emit_stakeholders_proposed E as bs eff = emit (StakeholdersProposed as bs eff)"

definition emit_stakeholders_updated :: "env \<Rightarrow> address list \<Rightarrow> u32 list \<Rightarrow> ('x, 'r, unit) tcontract" where
  "emit_stakeholders_updated E as bs = emit (StakeholdersUpdated (length as) as bs (ledger_timestamp E))"

definition emit_fees_distributed :: "env \<Rightarrow> address \<Rightarrow> i128 \<Rightarrow> i128 \<Rightarrow> u32 \<Rightarrow> ('x, 'r, unit) tcontract" where
  "emit_fees_distributed E t n remaining k = emit (FeesDistributed t n remaining k (ledger_timestamp E))"

definition emit_treasury_paused :: "env \<Rightarrow> address \<Rightarrow> ('x, 'r, unit) tcontract" where
  "emit_treasury_paused E a = emit (TreasuryPaused a (ledger_timestamp E))"

definition emit_treasury_unpaused :: "env \<Rightarrow> address \<Rightarrow> ('x, 'r, unit) tcontract" where
  "emit_treasury_unpaused E a = emit (TreasuryUnpaused a (ledger_timestamp E))"

definition treasury_emit_emergency_mode_changed :: "env \<Rightarrow> emergency_mode \<Rightarrow> address \<Rightarrow> ('x, 'r, unit) tcontract" where
  "treasury_emit_emergency_mode_changed E m a = emit (TreasuryEmergencyModeChanged m a (ledger_timestamp E))"

lemmas treasury_emits =
  emit_treasury_initialized_def emit_fee_collected_def emit_fees_withdrawn_def emit_admin_transferred_def emit_admin_transfer_proposed_def emit_market_contract_updated_def treasury_emit_market_contract_proposed_def treasury_emit_market_contract_set_def emit_market_added_def emit_market_removed_def emit_stakeholders_proposed_def emit_stakeholders_updated_def emit_fees_distributed_def emit_treasury_paused_def emit_treasury_unpaused_def treasury_emit_emergency_mode_changed_def

section \<open>How the accessors run\<close>

lemmas treasury_reads = trs_get_version_def trs_has_admin_def trs_get_pending_admin_def
  trs_get_pending_market_contract_def trs_is_authorized_market_def

lemma trs_assert_version_ok [ok_iff]:
  "trs_assert_version s = (Ok u, s') \<longleftrightarrow>
     tkey_storage_version s = Some treasury_storage_version \<and> s' = s"
  by (auto simp: trs_assert_version_def trs_get_version_def ok_iff)

lemma trs_get_admin_ok [ok_iff]:
  "trs_get_admin s = (Ok a, s') \<longleftrightarrow>
     tkey_storage_version s = Some treasury_storage_version \<and> tkey_admin s = Some a \<and> s' = s"
  by (auto simp: trs_get_admin_def ok_iff)

definition recorded_balance :: "('x, 'r) treasury \<Rightarrow> address \<Rightarrow> i128" where
  "recorded_balance s t = (case tkey_token_balance s t of None \<Rightarrow> 0 | Some n \<Rightarrow> n)"

definition recorded_fees :: "('x, 'r) treasury \<Rightarrow> address \<Rightarrow> i128" where
  "recorded_fees s t = (case tkey_cumulative_fees s t of None \<Rightarrow> 0 | Some n \<Rightarrow> n)"

lemma trs_get_books_ok [ok_iff]:
  "trs_get_token_balance t s = (Ok n, s') \<longleftrightarrow>
     tkey_storage_version s = Some treasury_storage_version \<and> n = recorded_balance s t \<and> s' = s"
  "trs_get_cumulative_fees t s = (Ok n, s') \<longleftrightarrow>
     tkey_storage_version s = Some treasury_storage_version \<and> n = recorded_fees s t \<and> s' = s"
  by (auto simp: trs_get_token_balance_def trs_get_cumulative_fees_def ok_iff
      recorded_balance_def recorded_fees_def)

lemma acc_ok [ok_iff]:
  "read_acc f s = (Ok v, s') \<longleftrightarrow> v = f (unread s) \<and> s' = s"
  "write_acc g s = (Ok u, s') \<longleftrightarrow> s' = s\<lparr>unread := g (unread s)\<rparr>"
  "try_acc h s = (Ok w, s') \<longleftrightarrow> h (tkey_storage_version s) (unread s) = Inr w \<and> s' = s"
  by (auto simp: read_acc_def write_acc_def try_acc_def ok_iff)

lemmas treasury_writes [ok_iff] =
  trs_set_version_def trs_set_admin_def trs_set_pending_admin_def trs_clear_pending_admin_def
  trs_set_authorized_markets_def trs_set_pending_market_contract_def
  trs_clear_pending_market_contract_def trs_set_deposits_paused_def trs_set_token_balance_def
  trs_set_cumulative_fees_def

end
