(* ===== verification/Treasury.thy ===== *)
theory Treasury
  imports Treasury_State
begin

text \<open>
  The entrypoints of the Treasury contract, \<^verbatim>\<open>contracts/treasury/src/lib.rs\<close>, statement by
  statement. \<open>A\<close> stands for the storage accessors that are not in the repository, \<open>T\<close> for the
  SEP-41 tokens.
\<close>

definition treasury_bps_denominator :: i128 where "treasury_bps_denominator = 10000"
definition treasury_timelock_seconds :: u64 where "treasury_timelock_seconds = 172800"

lemmas treasury_constants = treasury_bps_denominator_def treasury_timelock_seconds_def

definition treasury_require_mode :: "'r treasury_accessors \<Rightarrow> emergency_mode list
    \<Rightarrow> ('x, 'r, unit) tcontract" where
  "treasury_require_mode A allowed_modes =
     bind (read_acc (acc_get_emergency_mode A)) (\<lambda>current.
     ensure (current \<in> set allowed_modes) EmergencyModeActive)"

text \<open>The opening of every admin entrypoint.\<close>

definition treasury_require_admin :: "env \<Rightarrow> address \<Rightarrow> ('x, 'r, address) tcontract" where
  "treasury_require_admin E caller =
     andthen (require_auth E caller)
     (bind (gets trs_has_admin) (\<lambda>initialized.
     andthen (ensure initialized NotInitialized)
     (bind trs_get_admin (\<lambda>admin.
     andthen (ensure (caller = admin) Unauthorized)
     (return admin)))))"

section \<open>Lifecycle and fee collection\<close>

definition treasury_initialize :: "env \<Rightarrow> address \<Rightarrow> address \<Rightarrow> ('x, 'r, unit) tcontract" where
  "treasury_initialize E admin market_contract =
     andthen (ensure (\<not> has_executable E admin) InvalidAdmin)
     (andthen (require_auth E admin)
     (bind (gets trs_has_admin) (\<lambda>initialized.
     andthen (ensure (\<not> initialized) AlreadyInitialized)
     (andthen (trs_set_admin admin)
     (andthen (trs_set_authorized_markets [market_contract])
     (andthen trs_set_version
     (emit_treasury_initialized E admin market_contract)))))))"

definition saturated_sum :: "i128 \<Rightarrow> i128 \<Rightarrow> i128" where
  "saturated_sum a b = (case checked_add a b of None \<Rightarrow> i128_max | Some n \<Rightarrow> n)"

definition treasury_collect_fee :: "env \<Rightarrow> 'r treasury_accessors \<Rightarrow> address \<Rightarrow> address \<Rightarrow> u32
    \<Rightarrow> i128 \<Rightarrow> ('x, 'r, unit) tcontract" where
  "treasury_collect_fee E A caller token market_id fee_amount =
     andthen (require_auth E caller)
     (bind (gets trs_has_admin) (\<lambda>initialized.
     andthen (ensure initialized NotInitialized)
     (bind (read_acc (acc_is_paused A)) (\<lambda>paused.
     andthen (ensure (\<not> paused) ContractPaused)
     (andthen (treasury_require_mode A [Normal, TradingHalted, SettleOnly])
     (bind (gets (trs_is_authorized_market caller)) (\<lambda>authorized.
     andthen (ensure authorized CallerNotMarket)
     (andthen (ensure (\<not> fee_amount \<le> 0) InvalidAmount)
     (andthen (write_acc (acc_register_fee_token A token))
     (bind (trs_get_token_balance token) (\<lambda>prev_balance.
     let new_balance = saturated_sum prev_balance fee_amount in
     andthen (trs_set_token_balance token new_balance)
     (bind (trs_get_cumulative_fees token) (\<lambda>prev_cumulative.
     let new_cumulative = saturated_sum prev_cumulative fee_amount in
     andthen (trs_set_cumulative_fees token new_cumulative)
     (bind (try_acc (acc_get_total_collected A)) (\<lambda>prev_total.
     andthen (write_acc (acc_set_total_collected A (saturated_sum prev_total fee_amount)))
     (emit_fee_collected E market_id token fee_amount new_balance new_cumulative))))))))))))))))"

section \<open>Admin operations\<close>

definition treasury_withdraw_fees :: "env \<Rightarrow> 'r treasury_accessors \<Rightarrow> 'x token_client \<Rightarrow> address
    \<Rightarrow> address \<Rightarrow> address \<Rightarrow> i128 \<Rightarrow> ('x, 'r, unit) tcontract" where
  "treasury_withdraw_fees E A T caller token to amount =
     andthen (require_auth E caller)
     (bind (gets trs_has_admin) (\<lambda>initialized.
     andthen (ensure initialized NotInitialized)
     (bind (read_acc (acc_is_paused A)) (\<lambda>paused.
     andthen (ensure (\<not> paused) ContractPaused)
     (andthen (treasury_require_mode A [Normal, TradingHalted, SettleOnly])
     (bind trs_get_admin (\<lambda>admin.
     andthen (ensure (caller = admin) Unauthorized)
     (andthen (ensure (\<not> amount \<le> 0) InvalidAmount)
     (bind (trs_get_token_balance token) (\<lambda>balance.
     andthen (ensure (\<not> amount > balance) InsufficientBalance)
     (bind (sub_i128 balance amount) (\<lambda>remaining.
     andthen (trs_set_token_balance token remaining)
     (andthen (token_transfer T token (current_contract_address E) to amount)
     (emit_fees_withdrawn E token to amount remaining))))))))))))))"

definition treasury_propose_admin :: "env \<Rightarrow> address \<Rightarrow> address \<Rightarrow> ('x, 'r, unit) tcontract" where
  "treasury_propose_admin E caller new_admin =
     bind (treasury_require_admin E caller) (\<lambda>admin.
     bind (add_u64 (ledger_timestamp E) treasury_timelock_seconds) (\<lambda>eff.
     andthen (trs_set_pending_admin \<lparr>new_address = new_admin, effective_at = eff\<rparr>)
     (emit_admin_transfer_proposed E admin new_admin eff)))"

definition treasury_execute_admin :: "env \<Rightarrow> ('x, 'r, address) tcontract" where
  "treasury_execute_admin E =
     bind (gets trs_get_pending_admin) (\<lambda>p.
     bind (ok_or p Unauthorized) (\<lambda>pending.
     andthen (ensure (\<not> ledger_timestamp E < effective_at pending) Unauthorized)
     (bind trs_get_admin (\<lambda>current_admin.
     andthen (trs_set_admin (new_address pending))
     (andthen trs_clear_pending_admin
     (andthen (emit_admin_transferred E current_admin (new_address pending))
     (return (new_address pending))))))))"

definition treasury_cancel_admin :: "env \<Rightarrow> address \<Rightarrow> ('x, 'r, unit) tcontract" where
  "treasury_cancel_admin E caller =
     bind (treasury_require_admin E caller) (\<lambda>_. trs_clear_pending_admin)"

definition treasury_transfer_admin :: "env \<Rightarrow> address \<Rightarrow> address \<Rightarrow> ('x, 'r, unit) tcontract" where
  "treasury_transfer_admin E caller new_admin =
     bind (treasury_require_admin E caller) (\<lambda>_.
     andthen (trs_set_admin new_admin)
     (emit_admin_transferred E caller new_admin))"

definition treasury_add_market :: "env \<Rightarrow> address \<Rightarrow> address \<Rightarrow> ('x, 'r, unit) tcontract" where
  "treasury_add_market E caller market_contract =
     bind (treasury_require_admin E caller) (\<lambda>_.
     bind (gets trs_get_authorized_markets) (\<lambda>markets.
     when_do (market_contract \<notin> set markets)
       (andthen (trs_set_authorized_markets (markets @ [market_contract]))
        (emit_market_added E market_contract))))"

definition treasury_remove_market :: "env \<Rightarrow> address \<Rightarrow> address \<Rightarrow> ('x, 'r, unit) tcontract" where
  "treasury_remove_market E caller market_contract =
     bind (treasury_require_admin E caller) (\<lambda>_.
     bind (gets trs_get_authorized_markets) (\<lambda>markets.
     if market_contract \<notin> set markets then return ()
     else
       andthen (trs_set_authorized_markets (filter (\<lambda>m. m \<noteq> market_contract) markets))
       (emit_market_removed E market_contract)))"

definition treasury_propose_market_contract :: "env \<Rightarrow> address \<Rightarrow> address
    \<Rightarrow> ('x, 'r, unit) tcontract" where
  "treasury_propose_market_contract E caller new_market_contract =
     bind (treasury_require_admin E caller) (\<lambda>_.
     bind (add_u64 (ledger_timestamp E) treasury_timelock_seconds) (\<lambda>eff.
     andthen (trs_set_pending_market_contract
       \<lparr>new_address = new_market_contract, effective_at = eff\<rparr>)
     (treasury_emit_market_contract_proposed E new_market_contract eff)))"

definition treasury_execute_market_contract :: "env \<Rightarrow> ('x, 'r, address) tcontract" where
  "treasury_execute_market_contract E =
     bind (gets trs_get_pending_market_contract) (\<lambda>p.
     bind (ok_or p Unauthorized) (\<lambda>pending.
     andthen (ensure (\<not> ledger_timestamp E < effective_at pending) Unauthorized)
     (bind (gets trs_get_authorized_markets) (\<lambda>markets.
     andthen (when_do (new_address pending \<notin> set markets)
       (trs_set_authorized_markets (markets @ [new_address pending])))
     (andthen trs_clear_pending_market_contract
     (andthen (treasury_emit_market_contract_set E (new_address pending))
     (return (new_address pending))))))))"

definition treasury_cancel_market_contract :: "env \<Rightarrow> address \<Rightarrow> ('x, 'r, unit) tcontract" where
  "treasury_cancel_market_contract E caller =
     bind (treasury_require_admin E caller) (\<lambda>_. trs_clear_pending_market_contract)"

definition treasury_set_market_contract :: "env \<Rightarrow> address \<Rightarrow> address
    \<Rightarrow> ('x, 'r, unit) tcontract" where
  "treasury_set_market_contract E caller market_contract =
     bind (treasury_require_admin E caller) (\<lambda>_.
     bind (gets trs_get_authorized_markets) (\<lambda>markets.
     andthen (when_do (market_contract \<notin> set markets)
       (trs_set_authorized_markets (markets @ [market_contract])))
     (treasury_emit_market_contract_set E market_contract)))"

definition treasury_pause :: "env \<Rightarrow> 'r treasury_accessors \<Rightarrow> address \<Rightarrow> ('x, 'r, unit) tcontract"
  where "treasury_pause E A caller =
     bind (treasury_require_admin E caller) (\<lambda>_.
     andthen (write_acc (acc_set_paused A True)) (emit_treasury_paused E caller))"

definition treasury_unpause :: "env \<Rightarrow> 'r treasury_accessors \<Rightarrow> address
    \<Rightarrow> ('x, 'r, unit) tcontract" where
  "treasury_unpause E A caller =
     bind (treasury_require_admin E caller) (\<lambda>_.
     andthen (write_acc (acc_set_paused A False)) (emit_treasury_unpaused E caller))"

definition treasury_set_emergency_mode :: "env \<Rightarrow> 'r treasury_accessors \<Rightarrow> address
    \<Rightarrow> emergency_mode \<Rightarrow> ('x, 'r, unit) tcontract" where
  "treasury_set_emergency_mode E A caller new_mode =
     bind (treasury_require_admin E caller) (\<lambda>_.
     andthen (write_acc (acc_set_emergency_mode A new_mode))
     (treasury_emit_emergency_mode_changed E new_mode caller))"

section \<open>Stakeholders and distribution\<close>

fun sum_shares :: "(address \<times> u32) list \<Rightarrow> i128 \<Rightarrow> treasury_error + i128" where
  "sum_shares [] acc = Inr acc"
| "sum_shares ((_, share_bps) # rest) acc = (case checked_add acc (int share_bps) of
     None \<Rightarrow> Inl ArithmeticOverflow
   | Some acc' \<Rightarrow> sum_shares rest acc')"

definition treasury_propose_stakeholders :: "env \<Rightarrow> 'r treasury_accessors \<Rightarrow> address
    \<Rightarrow> (address \<times> u32) list \<Rightarrow> ('x, 'r, unit) tcontract" where
  "treasury_propose_stakeholders E A caller stakeholders =
     bind (treasury_require_admin E caller) (\<lambda>_.
     andthen (ensure (stakeholders \<noteq> []) InvalidStakeholderWeights)
     (bind (try_result (sum_shares stakeholders 0)) (\<lambda>weight.
     andthen (ensure (weight = treasury_bps_denominator) InvalidStakeholderWeights)
     (bind (add_u64 (ledger_timestamp E) treasury_timelock_seconds) (\<lambda>eff.
     andthen (write_acc (acc_set_pending_stakeholders A
       \<lparr>pending_list = stakeholders, pending_effective_at = eff\<rparr>))
     (emit_stakeholders_proposed E (map fst stakeholders) (map snd stakeholders) eff))))))"

definition treasury_execute_stakeholders :: "env \<Rightarrow> 'r treasury_accessors
    \<Rightarrow> ('x, 'r, unit) tcontract" where
  "treasury_execute_stakeholders E A =
     bind (read_acc (acc_get_pending_stakeholders A)) (\<lambda>p.
     bind (ok_or p NoPendingStakeholderChange) (\<lambda>pending.
     andthen (ensure (\<not> ledger_timestamp E < pending_effective_at pending) TimelockNotElapsed)
     (andthen (write_acc (acc_set_stakeholders A (pending_list pending)))
     (andthen (write_acc (acc_clear_pending_stakeholders A))
     (emit_stakeholders_updated E (map fst (pending_list pending))
        (map snd (pending_list pending)))))))"

definition treasury_cancel_stakeholders :: "env \<Rightarrow> 'r treasury_accessors \<Rightarrow> address
    \<Rightarrow> ('x, 'r, unit) tcontract" where
  "treasury_cancel_stakeholders E A caller =
     bind (treasury_require_admin E caller) (\<lambda>_.
     write_acc (acc_clear_pending_stakeholders A))"

text \<open>The loop that computes every payout before any transfer is made.\<close>

fun payouts_of :: "i128 \<Rightarrow> (address \<times> u32) list \<Rightarrow> (address \<times> i128) list \<Rightarrow> i128
    \<Rightarrow> treasury_error + (address \<times> i128) list \<times> i128" where
  "payouts_of balance [] payouts distributed = Inr (payouts, distributed)"
| "payouts_of balance ((stakeholder, share_bps) # rest) payouts distributed =
     (case checked_mul balance (int share_bps) of
        None \<Rightarrow> Inl ArithmeticOverflow
      | Some product \<Rightarrow>
          let amount = product sdiv treasury_bps_denominator in
          if amount > 0 then
            (case checked_add distributed amount of
               None \<Rightarrow> Inl ArithmeticOverflow
             | Some distributed' \<Rightarrow>
                 payouts_of balance rest (payouts @ [(stakeholder, amount)]) distributed')
          else payouts_of balance rest payouts distributed)"

definition treasury_distribute_fees :: "env \<Rightarrow> 'r treasury_accessors \<Rightarrow> 'x token_client
    \<Rightarrow> address \<Rightarrow> address \<Rightarrow> ('x, 'r, unit) tcontract" where
  "treasury_distribute_fees E A T caller token =
     andthen (require_auth E caller)
     (bind (gets trs_has_admin) (\<lambda>initialized.
     andthen (ensure initialized NotInitialized)
     (bind (read_acc (acc_is_paused A)) (\<lambda>paused.
     andthen (ensure (\<not> paused) ContractPaused)
     (andthen (treasury_require_mode A [Normal, TradingHalted, SettleOnly])
     (bind trs_get_admin (\<lambda>admin.
     andthen (ensure (caller = admin) Unauthorized)
     (bind (try_acc (acc_get_stakeholders A)) (\<lambda>stakeholders.
     andthen (ensure (stakeholders \<noteq> []) NoStakeholdersConfigured)
     (bind (trs_get_token_balance token) (\<lambda>balance.
     andthen (ensure (\<not> balance \<le> 0) InsufficientBalance)
     (bind (try_result (payouts_of balance stakeholders [] 0)) (\<lambda>(payouts, distributed).
     bind (sub_i128 balance distributed) (\<lambda>remaining.
     andthen (trs_set_token_balance token remaining)
     (andthen (for_each payouts (\<lambda>(stakeholder, amount).
        token_transfer T token (current_contract_address E) stakeholder amount))
     (emit_fees_distributed E token distributed remaining (length stakeholders)))))))))))))))))"

section \<open>Getters\<close>

definition treasury_admin :: "('x, 'r, address) tcontract" where
  "treasury_admin = trs_get_admin"

definition treasury_market_contract :: "('x, 'r, address) tcontract" where
  "treasury_market_contract = bind (gets trs_get_authorized_markets) (\<lambda>markets.
     ok_or (list_get_0 markets) NotInitialized)"

definition treasury_list_markets :: "('x, 'r, address list) tcontract" where
  "treasury_list_markets = gets trs_get_authorized_markets"

definition treasury_token_balance :: "address \<Rightarrow> ('x, 'r, i128) tcontract" where
  "treasury_token_balance t = trs_get_token_balance t"

definition treasury_get_cumulative_fees :: "address \<Rightarrow> ('x, 'r, i128) tcontract" where
  "treasury_get_cumulative_fees t = trs_get_cumulative_fees t"

definition treasury_total_collected :: "'r treasury_accessors \<Rightarrow> ('x, 'r, i128) tcontract" where
  "treasury_total_collected A = try_acc (acc_get_total_collected A)"

section \<open>The contract as a step relation\<close>

datatype tcall =
    TInitialize address address
  | TCollectFee address address u32 i128
  | TWithdrawFees address address address i128
  | TProposeAdmin address address
  | TExecuteAdmin
  | TCancelAdmin address
  | TTransferAdmin address address
  | TAddMarket address address
  | TRemoveMarket address address
  | TProposeMarketContract address address
  | TExecuteMarketContract
  | TCancelMarketContract address
  | TSetMarketContract address address
  | TPause address
  | TUnpause address
  | TSetEmergencyMode address emergency_mode
  | TProposeStakeholders address "(address \<times> u32) list"
  | TExecuteStakeholders
  | TCancelStakeholders address
  | TDistributeFees address address

fun treasury_call :: "env \<Rightarrow> 'r treasury_accessors \<Rightarrow> 'x token_client \<Rightarrow> tcall
    \<Rightarrow> ('x, 'r, unit) tcontract" where
  "treasury_call E A T (TInitialize a m) = treasury_initialize E a m"
| "treasury_call E A T (TCollectFee c t m n) = treasury_collect_fee E A c t m n"
| "treasury_call E A T (TWithdrawFees c t to n) = treasury_withdraw_fees E A T c t to n"
| "treasury_call E A T (TProposeAdmin c a) = treasury_propose_admin E c a"
| "treasury_call E A T TExecuteAdmin = discard (treasury_execute_admin E)"
| "treasury_call E A T (TCancelAdmin c) = treasury_cancel_admin E c"
| "treasury_call E A T (TTransferAdmin c a) = treasury_transfer_admin E c a"
| "treasury_call E A T (TAddMarket c m) = treasury_add_market E c m"
| "treasury_call E A T (TRemoveMarket c m) = treasury_remove_market E c m"
| "treasury_call E A T (TProposeMarketContract c m) = treasury_propose_market_contract E c m"
| "treasury_call E A T TExecuteMarketContract =
     discard (treasury_execute_market_contract E)"
| "treasury_call E A T (TCancelMarketContract c) = treasury_cancel_market_contract E c"
| "treasury_call E A T (TSetMarketContract c m) = treasury_set_market_contract E c m"
| "treasury_call E A T (TPause c) = treasury_pause E A c"
| "treasury_call E A T (TUnpause c) = treasury_unpause E A c"
| "treasury_call E A T (TSetEmergencyMode c m) = treasury_set_emergency_mode E A c m"
| "treasury_call E A T (TProposeStakeholders c l) = treasury_propose_stakeholders E A c l"
| "treasury_call E A T TExecuteStakeholders = treasury_execute_stakeholders E A"
| "treasury_call E A T (TCancelStakeholders c) = treasury_cancel_stakeholders E A c"
| "treasury_call E A T (TDistributeFees c t) = treasury_distribute_fees E A T c t"

end
