(* ===== verification/Treasury_Books.thy ===== *)
theory Treasury_Books
  imports Treasury
begin

text \<open>
  The money of the Treasury contract: what each call does to its books (recorded balance and
  cumulative fees per token) and to its real token balances, the payout arithmetic of
  \<open>distribute_fees\<close>, and the bookkeeping invariant.
\<close>

section \<open>Payouts\<close>

text \<open>The share of one stakeholder, and what the whole list receives, by definition.\<close>

definition share_of :: "i128 \<Rightarrow> u32 \<Rightarrow> i128" where
  "share_of balance share_bps = balance * int share_bps div 10000"

definition shares_total :: "(address \<times> u32) list \<Rightarrow> int" where
  "shares_total l = (\<Sum>(a, b)\<leftarrow>l. int b)"

definition paid_total :: "i128 \<Rightarrow> (address \<times> u32) list \<Rightarrow> int" where
  "paid_total balance l = (\<Sum>(a, b)\<leftarrow>l. share_of balance b)"

lemma list_totals [simp]:
  "shares_total [] = 0" "shares_total ((a, b) # l) = int b + shares_total l"
  "paid_total n [] = 0" "paid_total n ((a, b) # l) = share_of n b + paid_total n l"
  by (simp_all add: shares_total_def paid_total_def)

lemma share_of_nonneg: "0 \<le> n \<Longrightarrow> 0 \<le> share_of n b"
  by (simp add: share_of_def pos_imp_zdiv_nonneg_iff)

lemma share_of_bounds:
  "10000 * share_of n b \<le> n * int b" "n * int b - 9999 \<le> 10000 * share_of n b"
  unfolding share_of_def by linarith+

lemma sum_shares_ok: "sum_shares l acc = Inr total' \<Longrightarrow> total' = acc + shares_total l"
  by (induction l acc rule: sum_shares.induct)
    (auto simp: checked_arith_Some split: option.splits)

lemma paid_total_bounds:
  "10000 * paid_total n l \<le> n * shares_total l"
  "n * shares_total l - 9999 * int (length l) \<le> 10000 * paid_total n l"
proof (induction l)
  case (Cons p l)
  obtain a b where p: "p = (a, b)" by (cases p)
  from Cons share_of_bounds[of n b] show
    "10000 * paid_total n (p # l) \<le> n * shares_total (p # l)"
    "n * shares_total (p # l) - 9999 * int (length (p # l)) \<le> 10000 * paid_total n (p # l)"
    by (simp_all add: p algebra_simps)
qed simp_all

text \<open>With weights summing to 100%, what stays is less than one unit per stakeholder.\<close>

lemma dust_bounds:
  assumes "shares_total l = 10000" and "l \<noteq> []"
  shows "0 \<le> n - paid_total n l" "n - paid_total n l < int (length l)"
proof -
  from paid_total_bounds[of n l] assms(1)
  have "10000 * paid_total n l \<le> n * 10000"
    "n * 10000 - 9999 * int (length l) \<le> 10000 * paid_total n l" by simp_all
  moreover have "0 < int (length l)" using assms(2) by simp
  ultimately show "0 \<le> n - paid_total n l" "n - paid_total n l < int (length l)"
    by linarith+
qed

lemma payouts_of_ok:
  assumes "payouts_of n l ps d = Inr (ps', d')" and "0 \<le> n"
  shows "ps' = ps @ filter (\<lambda>(a, k). k > 0) (map (\<lambda>(a, b). (a, share_of n b)) l)
    \<and> d' = d + paid_total n l"
  using assms(1)
proof (induction l arbitrary: ps d)
  case Nil
  then show ?case by simp
next
  case (Cons p l)
  obtain a b where p: "p = (a, b)" by (cases p)
  from Cons.prems have mul: "checked_mul n (int b) = Some (n * int b)"
    by (auto simp: p checked_mul_def split: if_splits)
  have amount: "n * int b sdiv treasury_bps_denominator = share_of n b"
    using assms(2) by (simp add: treasury_bps_denominator_def sdiv_nonneg share_of_def)
  show ?case
  proof (cases "share_of n b > 0")
    case True
    with Cons.prems mul amount have
      "payouts_of n l (ps @ [(a, share_of n b)]) (d + share_of n b) = Inr (ps', d')"
      by (auto simp: p checked_add_def Let_def split: if_splits)
    from Cons.IH[OF this] True show ?thesis by (simp add: p)
  next
    case False
    with share_of_nonneg[OF assms(2), of b] have "share_of n b = 0" by linarith
    moreover from this Cons.prems mul amount have "payouts_of n l ps d = Inr (ps', d')"
      by (auto simp: p Let_def)
    ultimately show ?thesis using Cons.IH by (simp add: p)
  qed
qed

section \<open>What each call does to the books\<close>

definition same_books :: "('x, 'r) treasury \<Rightarrow> ('x, 'r) treasury \<Rightarrow> bool" where
  "same_books s s' \<longleftrightarrow> ext s' = ext s \<and> tkey_token_balance s' = tkey_token_balance s
     \<and> tkey_cumulative_fees s' = tkey_cumulative_fees s"

interpretation same_books: run_relation same_books
  by unfold_locales (simp_all add: same_books_def)

lemma same_books_writes:
  "keeps same_books (emit ev)" "keeps same_books trs_set_version"
  "keeps same_books (trs_set_admin a)" "keeps same_books (trs_set_pending_admin p)"
  "keeps same_books trs_clear_pending_admin" "keeps same_books (trs_set_authorized_markets ms)"
  "keeps same_books (trs_set_pending_market_contract p)"
  "keeps same_books trs_clear_pending_market_contract" "keeps same_books (write_acc f)"
  by (auto simp: keeps_def same_books_def ok_iff)

lemmas same_books_rules = same_books.keeps_rules same_books_writes

definition moves_money :: "tcall \<Rightarrow> bool" where
  "moves_money c = (case c of TCollectFee _ _ _ _ \<Rightarrow> True | TWithdrawFees _ _ _ _ \<Rightarrow> True
     | TDistributeFees _ _ \<Rightarrow> True | _ \<Rightarrow> False)"

lemmas treasury_admin_calls =
  treasury_initialize_def treasury_propose_admin_def treasury_execute_admin_def
  treasury_cancel_admin_def treasury_transfer_admin_def treasury_add_market_def
  treasury_remove_market_def treasury_propose_market_contract_def
  treasury_execute_market_contract_def treasury_cancel_market_contract_def
  treasury_set_market_contract_def treasury_pause_def treasury_unpause_def
  treasury_set_emergency_mode_def treasury_propose_stakeholders_def
  treasury_execute_stakeholders_def treasury_cancel_stakeholders_def

lemmas treasury_guards = treasury_require_admin_def treasury_require_mode_def trs_get_admin_def
  trs_assert_version_def read_acc_def try_acc_def treasury_emits discard_def

lemma admin_call_books: "\<not> moves_money c \<Longrightarrow> keeps same_books (treasury_call E A T c)"
  by (cases c)
    (simp_all add: moves_money_def treasury_admin_calls treasury_guards;
     (intro same_books_rules)+)+

lemma treasury_require_mode_ok [ok_iff]:
  "treasury_require_mode A ms s = (Ok u, s') \<longleftrightarrow> acc_get_emergency_mode A (unread s) \<in> set ms \<and> s' = s"
  by (auto simp: treasury_require_mode_def ok_iff)

lemma treasury_require_admin_ok [ok_iff]:
  "treasury_require_admin E c s = (Ok a, s') \<longleftrightarrow> authorized E c \<and> tkey_admin s = Some c \<and> a = c
     \<and> tkey_storage_version s = Some treasury_storage_version \<and> s' = s"
  by (auto simp: treasury_require_admin_def ok_iff treasury_reads)

lemma collect_fee_ok:
  assumes "treasury_collect_fee E A c t m n s = (Ok u, s')"
  shows "0 < n" "authorized E c" "c \<in> set (trs_get_authorized_markets s)"
    "\<not> acc_is_paused A (unread s)" "ext s' = ext s"
    "tkey_token_balance s' = (tkey_token_balance s)(t \<mapsto> saturated_sum (recorded_balance s t) n)"
    "tkey_cumulative_fees s' = (tkey_cumulative_fees s)(t \<mapsto> saturated_sum (recorded_fees s t) n)"
  using assms
  by (auto simp: treasury_collect_fee_def Let_def ok_iff treasury_emits treasury_reads
      recorded_fees_def recorded_balance_def)

lemma withdraw_fees_ok:
  assumes "treasury_withdraw_fees E A T c t to n s = (Ok u, s')"
  shows "0 < n" "authorized E c" "tkey_admin s = Some c" "n \<le> recorded_balance s t"
    "tok_transfer T t (current_contract_address E) to n (ext s) = Some ((), ext s')"
    "tkey_token_balance s' = (tkey_token_balance s)(t \<mapsto> recorded_balance s t - n)"
    "tkey_cumulative_fees s' = tkey_cumulative_fees s"
  using assms
  by (auto simp: treasury_withdraw_fees_def ok_iff treasury_emits treasury_reads)

definition payout_list :: "i128 \<Rightarrow> (address \<times> u32) list \<Rightarrow> (address \<times> i128) list" where
  "payout_list n l = filter (\<lambda>(a, k). k > 0) (map (\<lambda>(a, b). (a, share_of n b)) l)"

definition pay_all :: "'x token_client \<Rightarrow> address \<Rightarrow> address \<Rightarrow> (address \<times> i128) list
    \<Rightarrow> ('x, 'r, unit) tcontract" where
  "pay_all T token from ps = for_each ps (\<lambda>(a, k). token_transfer T token from a k)"

lemma pay_all_simps [simp]:
  "pay_all T token from [] = return ()"
  "pay_all T token from ((a, k) # ps) =
     andthen (token_transfer T token from a k) (pay_all T token from ps)"
  by (simp_all add: pay_all_def)

lemma pay_all_frame: "pay_all T t from ps s = (Ok u, s') \<Longrightarrow> s' = s\<lparr>ext := ext s'\<rparr>"
proof (induction ps arbitrary: s)
  case Nil
  then show ?case by (simp add: return_ok)
next
  case (Cons p ps)
  obtain a k where p: "p = (a, k)" by (cases p)
  from Cons.prems obtain x where "pay_all T t from ps (s\<lparr>ext := x\<rparr>) = (Ok u, s')"
    by (auto simp: p ok_iff)
  from Cons.IH[OF this] show ?case by simp
qed

lemma distribute_fees_ok:
  assumes run: "treasury_distribute_fees E A T c t s = (Ok u, s')"
  obtains l s1 s2 where "authorized E c" "tkey_admin s = Some c" "0 < recorded_balance s t"
    "acc_get_stakeholders A (tkey_storage_version s) (unread s) = Inr l" "l \<noteq> []"
    "s1 = s\<lparr>tkey_token_balance := (tkey_token_balance s)
       (t \<mapsto> recorded_balance s t - paid_total (recorded_balance s t) l)\<rparr>"
    "pay_all T t (current_contract_address E) (payout_list (recorded_balance s t) l) s1
       = (Ok (), s2)"
    "s' = s2\<lparr>events := events s2 @ [FeesDistributed t (paid_total (recorded_balance s t) l)
       (recorded_balance s t - paid_total (recorded_balance s t) l) (length l)
       (ledger_timestamp E)]\<rparr>"
proof -
  from run obtain l ps d s2 where
    facts: "authorized E c" "tkey_admin s = Some c" "0 < recorded_balance s t"
      "acc_get_stakeholders A (tkey_storage_version s) (unread s) = Inr l" "l \<noteq> []"
    and ps: "payouts_of (recorded_balance s t) l [] 0 = Inr (ps, d)"
    and pay: "pay_all T t (current_contract_address E) ps
      (s\<lparr>tkey_token_balance := (tkey_token_balance s)(t \<mapsto> recorded_balance s t - d)\<rparr>) = (Ok (), s2)"
    and s': "s' = s2\<lparr>events := events s2 @ [FeesDistributed t d
       (recorded_balance s t - d) (length l) (ledger_timestamp E)]\<rparr>"
    by (auto simp: treasury_distribute_fees_def pay_all_def ok_iff treasury_emits treasury_reads)
  from payouts_of_ok[OF ps] facts(3) have "ps = payout_list (recorded_balance s t) l"
    "d = paid_total (recorded_balance s t) l"
    by (simp_all add: payout_list_def)
  with that facts pay s' show thesis by blast
qed

lemma distribute_books:
  fixes s :: "('x, 'r) treasury"
  assumes "treasury_distribute_fees E A T c t s = (Ok u, s')"
  obtains l s1 s2 where "acc_get_stakeholders A (tkey_storage_version s) (unread s) = Inr l"
    "l \<noteq> []" "0 < recorded_balance s t"
    "recorded_balance s' = (recorded_balance s)
       (t := recorded_balance s t - paid_total (recorded_balance s t) l)"
    "pay_all T t (current_contract_address E) (payout_list (recorded_balance s t) l) s1
       = ((Ok (), s2) :: (treasury_error, unit) result \<times> ('x, 'r) treasury)"
    "ext s1 = ext s" "ext s' = ext s2"
    "tkey_cumulative_fees s' = tkey_cumulative_fees s" "unread s' = unread s"
    "tkey_authorized_markets s' = tkey_authorized_markets s"
    "tkey_storage_version s' = tkey_storage_version s" "tkey_admin s = Some c" "authorized E c"
proof -
  from distribute_fees_ok[OF assms] obtain l s1 s2 where
    l: "acc_get_stakeholders A (tkey_storage_version s) (unread s) = Inr l" "l \<noteq> []"
      "0 < recorded_balance s t" "tkey_admin s = Some c" "authorized E c"
    and s1: "s1 = s\<lparr>tkey_token_balance := (tkey_token_balance s)
       (t \<mapsto> recorded_balance s t - paid_total (recorded_balance s t) l)\<rparr>"
    and pay: "pay_all T t (current_contract_address E) (payout_list (recorded_balance s t) l) s1
       = (Ok (), s2)"
    and s': "s' = s2\<lparr>events := events s2 @ [FeesDistributed t (paid_total (recorded_balance s t) l)
       (recorded_balance s t - paid_total (recorded_balance s t) l) (length l)
       (ledger_timestamp E)]\<rparr>"
    by blast
  note s2 = pay_all_frame[OF pay]
  from s1 have "ext s1 = ext s" by simp
  have "tkey_token_balance s2 = tkey_token_balance s1" "unread s2 = unread s"
    "tkey_cumulative_fees s2 = tkey_cumulative_fees s"
    "tkey_authorized_markets s2 = tkey_authorized_markets s"
    "tkey_storage_version s2 = tkey_storage_version s"
    by (subst s2, simp add: s1)+
  then have same: "tkey_token_balance s' = tkey_token_balance s1" "unread s' = unread s"
    "tkey_cumulative_fees s' = tkey_cumulative_fees s" "ext s' = ext s2"
    "tkey_authorized_markets s' = tkey_authorized_markets s"
    "tkey_storage_version s' = tkey_storage_version s"
    by (simp_all add: s')
  have "recorded_balance s' = (recorded_balance s)
      (t := recorded_balance s t - paid_total (recorded_balance s t) l)"
    using same(1) s1 by (auto simp: recorded_balance_def fun_eq_iff)
  from that[OF l(1-3) this pay \<open>ext s1 = ext s\<close> same(4,3,2,5,6) l(4,5)] show thesis .
qed

section \<open>Real balances\<close>

context sep41
begin

lemma pay_all_moves:
  assumes "pay_all T t from ps s = (Ok u, s')"
  shows "balance (ext s') t' x = balance (ext s) t' x + (if t' = t
      then (\<Sum>(a, k)\<leftarrow>ps. (if x = a then k else 0) - (if x = from then k else 0)) else 0)"
  using assms
proof (induction ps arbitrary: s)
  case Nil
  then show ?case by (simp add: return_ok)
next
  case (Cons p ps)
  obtain a k where p: "p = (a, k)" by (cases p)
  from Cons.prems obtain x' where tr: "tok_transfer T t from a k (ext s) = Some ((), x')"
    and rest: "pay_all T t from ps (s\<lparr>ext := x'\<rparr>) = (Ok u, s')"
    by (auto simp: p ok_iff)
  from Cons.IH[OF rest] transfer_moves[OF tr, of t' x] show ?case
    by (simp add: p split: if_splits)
qed

end

text \<open>What the treasury holds beyond its books; paying out never eats into it.\<close>

definition surplus :: "('x \<Rightarrow> address \<Rightarrow> address \<Rightarrow> int) \<Rightarrow> address \<Rightarrow> ('x, 'r) treasury
    \<Rightarrow> address \<Rightarrow> int" where
  "surplus balance self s t = balance (ext s) t self - recorded_balance s t"

lemma payouts_cost:
  assumes "0 \<le> n"
  shows "(\<Sum>(a, k)\<leftarrow>payout_list n l. (if from = a then k else 0) - k) =
    (\<Sum>(a, b)\<leftarrow>l. if from = a then share_of n b else 0) - paid_total n l"
proof (induction l)
  case (Cons p l)
  obtain a b where p: "p = (a, b)" by (cases p)
  from share_of_nonneg[OF assms, of b] Cons show ?case
    by (cases "share_of n b = 0") (simp_all add: p payout_list_def)
qed (simp add: payout_list_def)

lemma payouts_received:
  assumes "0 \<le> n" and "x \<noteq> from"
  shows "(\<Sum>(a, k)\<leftarrow>payout_list n l. (if x = a then k else 0) - (if x = from then k else 0)) =
    (\<Sum>(a, b)\<leftarrow>l. if x = a then share_of n b else 0)"
proof (induction l)
  case (Cons p l)
  obtain a b where p: "p = (a, b)" by (cases p)
  from share_of_nonneg[OF assms(1), of b] assms(2) Cons show ?case
    by (cases "share_of n b = 0") (simp_all add: p payout_list_def)
qed (simp add: payout_list_def)

lemma own_shares_nonneg: "0 \<le> n \<Longrightarrow> 0 \<le> (\<Sum>(a, b)\<leftarrow>l. if from = a then share_of n b else 0)"
  by (induction l) (auto simp: share_of_nonneg)

context sep41
begin

lemma withdraw_surplus:
  assumes "treasury_withdraw_fees E A T c t to n s = (Ok u, s')"
  shows "surplus balance (current_contract_address E) s t' \<le>
    surplus balance (current_contract_address E) s' t'"
  using withdraw_fees_ok[OF assms] transfer_moves[OF withdraw_fees_ok(5)[OF assms], of t']
  by (simp add: surplus_def recorded_balance_def)

lemma distribute_effect:
  assumes "treasury_distribute_fees E A T c t s = (Ok u, s')"
  obtains l where "acc_get_stakeholders A (tkey_storage_version s) (unread s) = Inr l"
    "0 < recorded_balance s t"
    "recorded_balance s' = (recorded_balance s)
       (t := recorded_balance s t - paid_total (recorded_balance s t) l)"
    "\<And>x. balance (ext s') t x = balance (ext s) t x
       + (\<Sum>(a, k)\<leftarrow>payout_list (recorded_balance s t) l.
            (if x = a then k else 0) - (if x = current_contract_address E then k else 0))"
    "\<And>t' x. t' \<noteq> t \<Longrightarrow> balance (ext s') t' x = balance (ext s) t' x"
  using assms
proof (rule distribute_books)
  fix l s1 s2
  assume l: "acc_get_stakeholders A (tkey_storage_version s) (unread s) = Inr l"
    "0 < recorded_balance s t"
    and books: "recorded_balance s' = (recorded_balance s)
       (t := recorded_balance s t - paid_total (recorded_balance s t) l)"
    and pay: "pay_all T t (current_contract_address E) (payout_list (recorded_balance s t) l) s1
       = (Ok (), s2)"
    and "ext s1 = ext s" "ext s' = ext s2"
  with pay_all_moves[OF pay] show thesis by (intro that[OF l books]) simp_all
qed

lemma distribute_surplus:
  assumes "treasury_distribute_fees E A T c t s = (Ok u, s')"
  shows "surplus balance (current_contract_address E) s t' \<le>
    surplus balance (current_contract_address E) s' t'"
proof (rule distribute_effect[OF assms])
  fix l
  let ?n = "recorded_balance s t" and ?self = "current_contract_address E"
  assume "0 < ?n" and books: "recorded_balance s' = (recorded_balance s)(t := ?n - paid_total ?n l)"
    and real: "\<And>x. balance (ext s') t x = balance (ext s) t x
       + (\<Sum>(a, k)\<leftarrow>payout_list ?n l. (if x = a then k else 0) - (if x = ?self then k else 0))"
    and other: "\<And>t' x. t' \<noteq> t \<Longrightarrow> balance (ext s') t' x = balance (ext s) t' x"
  then have "0 \<le> ?n" by simp
  from payouts_cost[OF this, of ?self l] own_shares_nonneg[OF this, of ?self l] books real[of ?self]
    other show ?thesis
    by (cases "t' = t") (simp_all add: surplus_def)
qed

lemma surplus_call:
  assumes "treasury_call E A T c s = (Ok u, s')" and "\<forall>a b m n. c \<noteq> TCollectFee a b m n"
  shows "surplus balance (current_contract_address E) s t \<le>
    surplus balance (current_contract_address E) s' t"
proof (cases "moves_money c")
  case True
  with assms show ?thesis
    by (cases c) (auto simp: moves_money_def intro: withdraw_surplus distribute_surplus)
next
  case False
  from keepsD[OF admin_call_books[OF False] assms(1)] show ?thesis
    by (simp add: surplus_def same_books_def recorded_balance_def)
qed

end

end
