(* ===== verification/Treasury_Invariants.thy ===== *)
theory Treasury_Invariants
  imports Treasury_Books
begin

text \<open>
  The invariant of the Treasury contract over its reachable states, and the timelock on its
  stakeholder list. The laws of the missing storage accessors enter through the locale
  \<open>treasury_storage\<close>; its interpretation on accessors of the documented shape is in
  \<^verbatim>\<open>Treasury_State\<close>.
\<close>

section \<open>The invariant\<close>

definition books_ok :: "('x, 'r) treasury \<Rightarrow> bool" where
  "books_ok s \<longleftrightarrow> (\<forall>t. 0 \<le> recorded_balance s t \<and> recorded_balance s t \<le> recorded_fees s t
     \<and> recorded_fees s t \<le> i128_max)"

definition weights_ok :: "(address \<times> u32) list \<Rightarrow> bool" where
  "weights_ok l \<longleftrightarrow> l \<noteq> [] \<and> shares_total l = 10000"

definition stakeholders_ok :: "treasury_view \<Rightarrow> bool" where
  "stakeholders_ok v \<longleftrightarrow> (\<forall>l. v_stakeholders v = Some l \<longrightarrow> weights_ok l)
     \<and> (\<forall>p. v_pending_stakeholders v = Some p \<longrightarrow> weights_ok (pending_list p))"

definition registries_ok :: "('r \<Rightarrow> treasury_view) \<Rightarrow> ('x, 'r) treasury \<Rightarrow> bool" where
  "registries_ok view s \<longleftrightarrow> distinct (trs_get_authorized_markets s)
     \<and> distinct (stored_list (v_fee_tokens (view (unread s))))"

definition treasury_inv :: "('r \<Rightarrow> treasury_view) \<Rightarrow> ('x, 'r) treasury \<Rightarrow> bool" where
  "treasury_inv view s \<longleftrightarrow> books_ok s \<and> stakeholders_ok (view (unread s)) \<and> registries_ok view s"

inductive treasury_step :: "'r treasury_accessors \<Rightarrow> 'x token_client \<Rightarrow> u64
    \<Rightarrow> ('x, 'r) treasury \<Rightarrow> ('x, 'r) treasury \<Rightarrow> bool"
  for A :: "'r treasury_accessors" and T :: "'x token_client" where
  call: "ledger_timestamp E = now \<Longrightarrow> treasury_call E A T c s = (Ok (), s') \<Longrightarrow>
     treasury_step A T now s s'"
| foreign: "treasury_step A T now s (s\<lparr>ext := x\<rparr>)"

inductive treasury_reachable :: "'r treasury_accessors \<Rightarrow> 'x token_client
    \<Rightarrow> ('r \<Rightarrow> treasury_view) \<Rightarrow> ('x, 'r) treasury \<Rightarrow> bool"
  for A :: "'r treasury_accessors" and T :: "'x token_client" and view :: "'r \<Rightarrow> treasury_view" where
  deployed: "view r = fresh_view \<Longrightarrow> treasury_reachable A T view (fresh_treasury x r)"
| step: "treasury_reachable A T view s \<Longrightarrow> treasury_step A T now s s' \<Longrightarrow>
     treasury_reachable A T view s'"

inductive_cases treasury_stepE: "treasury_step A T now s s'"

lemma treasury_inv_fresh: "view r = fresh_view \<Longrightarrow> treasury_inv view (fresh_treasury x r)"
  by (simp add: treasury_inv_def books_ok_def stakeholders_ok_def registries_ok_def
      recorded_balance_def recorded_fees_def fresh_treasury_def fresh_view_def stored_list_def
      trs_get_authorized_markets_def i128_numerals)

lemma treasury_inv_ext [simp]: "treasury_inv view (s\<lparr>ext := x\<rparr>) = treasury_inv view s"
  by (simp add: treasury_inv_def books_ok_def registries_ok_def recorded_balance_def
      recorded_fees_def trs_get_authorized_markets_def)

subsection \<open>Money\<close>

lemma saturated_sum_value: "0 \<le> a \<Longrightarrow> 0 \<le> b \<Longrightarrow> saturated_sum a b = min i128_max (a + b)"
  by (auto simp: saturated_sum_def checked_add_def in_i128_def i128_numerals split: option.splits)

lemma collect_fee_books:
  assumes "treasury_collect_fee E A c t m n s = (Ok u, s')" and "books_ok s"
  shows "books_ok s'"
proof -
  from collect_fee_ok[OF assms(1)] have n: "0 < n"
    and bal: "recorded_balance s' = (recorded_balance s)(t := saturated_sum (recorded_balance s t) n)"
    and fees: "recorded_fees s' = (recorded_fees s)(t := saturated_sum (recorded_fees s t) n)"
    by (auto simp: recorded_balance_def recorded_fees_def fun_eq_iff)
  show ?thesis
    unfolding books_ok_def
  proof
    fix t'
    from assms(2) have "0 \<le> recorded_balance s t'" "recorded_balance s t' \<le> recorded_fees s t'"
      "recorded_fees s t' \<le> i128_max" by (auto simp: books_ok_def)
    with n show "0 \<le> recorded_balance s' t' \<and> recorded_balance s' t' \<le> recorded_fees s' t'
        \<and> recorded_fees s' t' \<le> i128_max"
      by (cases "t' = t") (simp_all add: bal fees saturated_sum_value min_def i128_numerals)
  qed
qed

lemma pay_books:
  assumes "recorded_balance s' = (recorded_balance s)(t := recorded_balance s t - k)"
    and "tkey_cumulative_fees s' = tkey_cumulative_fees s" and "0 \<le> k" and "k \<le> recorded_balance s t"
    and "books_ok s"
  shows "books_ok s'"
  unfolding books_ok_def
proof
  fix t'
  from assms(2) have fees: "recorded_fees s' = recorded_fees s"
    by (simp add: recorded_fees_def fun_eq_iff)
  from assms(5) have "0 \<le> recorded_balance s t'" "recorded_balance s t' \<le> recorded_fees s t'"
    "recorded_fees s t' \<le> i128_max" by (auto simp: books_ok_def)
  with assms(3,4) show "0 \<le> recorded_balance s' t' \<and> recorded_balance s' t' \<le> recorded_fees s' t'
      \<and> recorded_fees s' t' \<le> i128_max"
    by (cases "t' = t") (simp_all add: assms(1) fees)
qed

lemma withdraw_fees_books:
  assumes "treasury_withdraw_fees E A T c t to n s = (Ok u, s')" and "books_ok s"
  shows "books_ok s'"
proof (rule pay_books)
  show "recorded_balance s' = (recorded_balance s)(t := recorded_balance s t - n)"
    using withdraw_fees_ok(6)[OF assms(1)] by (auto simp: recorded_balance_def fun_eq_iff)
qed (use withdraw_fees_ok[OF assms(1)] assms(2) in simp_all)

subsection \<open>Registries and stakeholders\<close>

text \<open>What collecting and paying out leave alone.\<close>

lemma money_call_registries:
  "treasury_withdraw_fees E A T c t to n s = (Ok u, s') \<Longrightarrow>
     unread s' = unread s \<and> tkey_authorized_markets s' = tkey_authorized_markets s"
  "treasury_collect_fee E A c t m n s = (Ok u, s') \<Longrightarrow>
     (\<exists>k. unread s' = acc_set_total_collected A k (acc_register_fee_token A t (unread s)))
     \<and> tkey_authorized_markets s' = tkey_authorized_markets s"
  by (auto simp: treasury_withdraw_fees_def treasury_collect_fee_def Let_def ok_iff treasury_emits)

context treasury_storage
begin

lemma collect_fee_registries:
  assumes "treasury_collect_fee E A c t m n s = (Ok u, s')" and "registries_ok view s"
  shows "registries_ok view s'" "v_stakeholders (view (unread s')) = v_stakeholders (view (unread s))"
    "v_pending_stakeholders (view (unread s')) = v_pending_stakeholders (view (unread s))"
  using money_call_registries(2)[OF assms(1)] assms(2)
  by (auto simp: registries_ok_def writes trs_get_authorized_markets_def stored_list_def
      split: option.splits)

lemma distribute_inv:
  assumes "treasury_distribute_fees E A T c t s = (Ok u, s')" and "treasury_inv view s"
  shows "treasury_inv view s'"
  using assms(1)
proof (rule distribute_books)
  fix l
  assume l: "acc_get_stakeholders A (tkey_storage_version s) (unread s) = Inr l" "l \<noteq> []"
    and pos: "0 < recorded_balance s t"
    and books: "recorded_balance s' = (recorded_balance s)
       (t := recorded_balance s t - paid_total (recorded_balance s t) l)"
      "tkey_cumulative_fees s' = tkey_cumulative_fees s"
    and same: "unread s' = unread s" "tkey_authorized_markets s' = tkey_authorized_markets s"
  from l have "v_stakeholders (view (unread s)) = Some l"
    by (auto simp: checked_reads stored_list_def split: if_splits option.splits)
  with assms(2) have "shares_total l = 10000"
    by (auto simp: treasury_inv_def stakeholders_ok_def weights_ok_def)
  with dust_bounds(1)[OF this l(2), of "recorded_balance s t"]
    paid_total_bounds(2)[of "recorded_balance s t" l] pos
  have "paid_total (recorded_balance s t) l \<le> recorded_balance s t" by simp
  moreover have "0 \<le> paid_total (recorded_balance s t) l"
    using pos by (induction l) (auto simp: share_of_nonneg)
  ultimately have "books_ok s'"
    using pay_books[OF books] assms(2) by (simp add: treasury_inv_def)
  with assms(2) same show ?thesis
    by (simp add: treasury_inv_def registries_ok_def trs_get_authorized_markets_def)
qed

lemma admin_call_inv:
  assumes run: "treasury_call E A T c s = (Ok u, s')" and "\<not> moves_money c"
    and inv: "stakeholders_ok (view (unread s))" "registries_ok view s"
  shows "stakeholders_ok (view (unread s'))" "registries_ok view s'"
  using assms
  by (cases c; auto simp: moves_money_def treasury_admin_calls treasury_emits ok_iff writes reads
      stakeholders_ok_def registries_ok_def weights_ok_def trs_get_authorized_markets_def
      treasury_reads treasury_bps_denominator_def dest!: sum_shares_ok
      split: if_splits option.splits)+

lemma money_call_inv:
  assumes inv: "treasury_inv view s"
  shows "treasury_collect_fee E A c t m n s = (Ok u, s') \<Longrightarrow> treasury_inv view s'"
    and "treasury_withdraw_fees E A T c t to n s = (Ok u, s') \<Longrightarrow> treasury_inv view s'"
proof -
  show "treasury_inv view s'" if "treasury_collect_fee E A c t m n s = (Ok u, s')"
    using collect_fee_books[OF that] collect_fee_registries[OF that] inv
    by (simp add: treasury_inv_def stakeholders_ok_def)
  show "treasury_inv view s'" if "treasury_withdraw_fees E A T c t to n s = (Ok u, s')"
    using withdraw_fees_books[OF that] money_call_registries(1)[OF that] inv
    by (simp add: treasury_inv_def registries_ok_def trs_get_authorized_markets_def)
qed

lemma call_inv:
  assumes "treasury_call E A T c s = (Ok u, s')" and "treasury_inv view s"
  shows "treasury_inv view s'"
proof (cases "moves_money c")
  case True
  with assms show ?thesis
    by (cases c) (auto simp: moves_money_def intro: money_call_inv distribute_inv)
next
  case False
  from keepsD[OF admin_call_books[OF False] assms(1)] assms(2) have "books_ok s'"
    by (simp add: treasury_inv_def books_ok_def same_books_def recorded_balance_def
        recorded_fees_def)
  with admin_call_inv[OF assms(1) False] assms(2) show ?thesis by (simp add: treasury_inv_def)
qed

lemma reachable_inv: "treasury_reachable A T view s \<Longrightarrow> treasury_inv view s"
  by (induction rule: treasury_reachable.induct)
    (auto simp: treasury_inv_fresh elim!: treasury_stepE intro: call_inv)

lemma stakeholders_in_force:
  assumes "treasury_reachable A T view s"
    and "acc_get_stakeholders A (tkey_storage_version s) (unread s) = Inr l" and "l \<noteq> []"
  shows "weights_ok l"
  using reachable_inv[OF assms(1)] assms(2,3)
  by (auto simp: treasury_inv_def stakeholders_ok_def checked_reads stored_list_def
      split: if_splits option.splits)

end

lemma distribution_has_stakeholders:
  assumes "treasury_distribute_fees E A T c t s = (Ok u, s')"
    and "acc_get_stakeholders A (tkey_storage_version s) (unread s) = Inr l"
  shows "l \<noteq> []"
  using assms(1) by (rule distribute_books) (use assms(2) in simp)

section \<open>The stakeholder timelock\<close>

definition pending_split :: "('r \<Rightarrow> treasury_view) \<Rightarrow> ('x, 'r) treasury
    \<Rightarrow> ((address \<times> u32) list \<times> u64) option" where
  "pending_split view s = map_option (\<lambda>p. (pending_list p, pending_effective_at p))
     (v_pending_stakeholders (view (unread s)))"

definition active_split :: "('r \<Rightarrow> treasury_view) \<Rightarrow> ('x, 'r) treasury \<Rightarrow> (address \<times> u32) list option"
  where "active_split view s = v_stakeholders (view (unread s))"

lemma split_ext [simp]:
  "pending_split view (s\<lparr>ext := x\<rparr>) = pending_split view s"
  "active_split view (s\<lparr>ext := x\<rparr>) = active_split view s"
  by (simp_all add: pending_split_def active_split_def)

context treasury_storage
begin

lemma distribute_unread:
  assumes "treasury_distribute_fees E A T c t s = (Ok u, s')"
  shows "unread s' = unread s"
  using assms by (rule distribute_books)

lemma money_call_split:
  assumes "treasury_call E A T c s = (Ok u, s')" and "moves_money c"
  shows "pending_split view s' = pending_split view s \<and> active_split view s' = active_split view s"
proof -
  have fee: "v_stakeholders (view (acc_register_fee_token A t r)) = v_stakeholders (view r)"
    "v_pending_stakeholders (view (acc_register_fee_token A t r)) = v_pending_stakeholders (view r)"
    for t r by (simp_all add: writes)
  from assms show ?thesis
    by (cases c) (auto simp: moves_money_def pending_split_def active_split_def writes(2) fee
        dest!: money_call_registries distribute_unread)
qed

lemma split_call:
  assumes "treasury_call E A T c s = (Ok u, s')"
  shows "pending_split view s' = pending_split view s \<and> active_split view s' = active_split view s
   \<or> (\<exists>v. pending_split view s' = Some (v, ledger_timestamp E + treasury_timelock_seconds))
       \<and> active_split view s' = active_split view s
   \<or> pending_split view s' = None \<and> active_split view s' = active_split view s
   \<or> (\<exists>v eff. pending_split view s = Some (v, eff) \<and> eff \<le> ledger_timestamp E
       \<and> pending_split view s' = None \<and> active_split view s' = Some v)"
proof (cases "moves_money c")
  case True
  from money_call_split[OF assms True] show ?thesis by simp
next
  case False
  with assms show ?thesis
    by (cases c) (auto simp: moves_money_def treasury_admin_calls treasury_emits ok_iff writes
        reads pending_split_def active_split_def treasury_reads split: if_splits)
qed

end

sublocale treasury_storage \<subseteq> stakeholder_lock: timelock "pending_split view" "active_split view"
    "treasury_step A T" treasury_timelock_seconds for T
  by unfold_locales (erule treasury_stepE; force dest!: split_call)+

context treasury_storage
begin

lemmas stakeholders_locked = stakeholder_lock.timelock_axioms

end

end
