(* ===== verification/Treasury_Properties.thy ===== *)
theory Treasury_Properties
  imports Treasury_Invariants
begin

text \<open>
  The properties of the Treasury contract, each with a concrete instance on a small deployment:
  one market, two stakeholders, the reference ledger and accessors of the documented shape.
\<close>

section \<open>A concrete deployment\<close>

definition tr_self :: address where "tr_self = Contract 30"
definition tr_token :: address where "tr_token = Contract 31"
definition tr_market :: address where "tr_market = Contract 32"
definition tr_admin :: address where "tr_admin = Account 40"
definition tr_alice :: address where "tr_alice = Account 41"
definition tr_bob :: address where "tr_bob = Account 42"

lemmas tr_addresses = tr_self_def tr_token_def tr_market_def tr_admin_def tr_alice_def tr_bob_def

definition tr_env :: "u64 \<Rightarrow> address \<Rightarrow> env" where
  "tr_env now who = \<lparr>ledger_timestamp = now, current_contract_address = tr_self,
     network_id = [], authorized = (\<lambda>a. a = who),
     has_executable = (\<lambda>a. case a of Contract _ \<Rightarrow> True | Account _ \<Rightarrow> False)\<rparr>"

definition tr_ledger :: "int \<Rightarrow> int \<Rightarrow> int \<Rightarrow> ledger" where
  "tr_ledger self alice bob = (\<lambda>_ _. 0)(tr_token := (\<lambda>_. 0)
     (tr_self := self, tr_alice := alice, tr_bob := bob))"

abbreviation tr_call :: "u64 \<Rightarrow> address \<Rightarrow> tcall \<Rightarrow> (ledger, treasury_view, unit) tcontract" where
  "tr_call now who c \<equiv> treasury_call (tr_env now who) direct_accessors ledger_client c"

definition tr_after :: "u64 \<Rightarrow> address \<Rightarrow> tcall \<Rightarrow> (ledger, treasury_view) treasury
    \<Rightarrow> (ledger, treasury_view) treasury" where
  "tr_after now who c s = snd (tr_call now who c s)"

definition tr_weights :: "(address \<times> u32) list" where
  "tr_weights = [(tr_alice, 7000), (tr_bob, 3000)]"

text \<open>Initialized; then a fee of 1003 transferred and recorded; then stakeholders put in force.\<close>

definition tr_ready :: "(ledger, treasury_view) treasury" where
  "tr_ready = tr_after 1000 tr_admin (TInitialize tr_admin tr_market)
     (fresh_treasury (tr_ledger 0 0 0) fresh_view)"

definition tr_collected :: "(ledger, treasury_view) treasury" where
  "tr_collected = tr_after 2000 tr_market (TCollectFee tr_market tr_token 7 1003)
     (tr_ready\<lparr>ext := tr_ledger 1003 0 0\<rparr>)"

definition tr_proposed :: "(ledger, treasury_view) treasury" where
  "tr_proposed = tr_after 3000 tr_admin (TProposeStakeholders tr_admin tr_weights) tr_collected"

definition tr_funded :: "(ledger, treasury_view) treasury" where
  "tr_funded = tr_after 180000 tr_bob TExecuteStakeholders tr_proposed"

definition tr_distributed :: "(ledger, treasury_view) treasury" where
  "tr_distributed = tr_after 190000 tr_admin (TDistributeFees tr_admin tr_token) tr_funded"

lemmas tr_defs = tr_addresses tr_env_def tr_weights_def tr_after_def
  fresh_treasury_def fresh_view_def ledger_client_def ledger_transfer_def
  direct_accessors_def stored_list_def treasury_constants treasury_storage_version_def
  i128_numerals in_i128_def u64_max_def

lemmas tr_run = tr_defs run_simps Let_def treasury_reads treasury_writes treasury_emits
  treasury_guards trs_get_authorized_markets_def trs_get_token_balance_def
  trs_get_cumulative_fees_def write_acc_def token_transfer_def treasury_admin_calls
  treasury_collect_fee_def treasury_distribute_fees_def saturated_sum_def sdiv_nonneg

lemma tr_ready_value:
  "tr_ready = (fresh_treasury (tr_ledger 0 0 0) fresh_view)\<lparr>
     tkey_storage_version := Some 3, tkey_admin := Some tr_admin,
     tkey_authorized_markets := Some [tr_market],
     events := [TreasuryInitialized tr_admin tr_market 1000]\<rparr>"
  by (simp add: tr_ready_def tr_run)

lemma tr_collected_value:
  "tr_collected = tr_ready\<lparr>ext := tr_ledger 1003 0 0,
     tkey_token_balance := [tr_token \<mapsto> 1003], tkey_cumulative_fees := [tr_token \<mapsto> 1003],
     unread := fresh_view\<lparr>v_total := Some 1003, v_fee_tokens := Some [tr_token]\<rparr>,
     events := events tr_ready @ [FeeCollected 7 tr_token 1003 1003 1003]\<rparr>"
  by (simp add: tr_collected_def tr_ready_value tr_run)

lemma tr_proposed_value:
  "tr_proposed = tr_collected\<lparr>
     unread := (unread tr_collected)\<lparr>v_pending_stakeholders :=
       Some \<lparr>pending_list = tr_weights, pending_effective_at = 175800\<rparr>\<rparr>,
     events := events tr_collected @ [StakeholdersProposed [tr_alice, tr_bob] [7000, 3000] 175800]\<rparr>"
  by (simp add: tr_proposed_def tr_collected_value tr_ready_value tr_run)

lemma tr_funded_value:
  "tr_funded = tr_collected\<lparr>
     unread := (unread tr_collected)\<lparr>v_stakeholders := Some tr_weights\<rparr>,
     events := events tr_proposed @ [StakeholdersUpdated 2 [tr_alice, tr_bob] [7000, 3000] 180000]\<rparr>"
  by (simp add: tr_funded_def tr_proposed_value tr_collected_value tr_ready_value tr_run
      numeral_2_eq_2)

lemmas tr_values = tr_funded_value tr_proposed_value tr_collected_value tr_ready_value

lemma tr_runs:
  "tr_call 1000 tr_admin (TInitialize tr_admin tr_market)
     (fresh_treasury (tr_ledger 0 0 0) fresh_view) = (Ok (), tr_ready)"
  "tr_call 2000 tr_market (TCollectFee tr_market tr_token 7 1003)
     (tr_ready\<lparr>ext := tr_ledger 1003 0 0\<rparr>) = (Ok (), tr_collected)"
  "tr_call 3000 tr_admin (TProposeStakeholders tr_admin tr_weights) tr_collected
     = (Ok (), tr_proposed)"
  "tr_call 180000 tr_bob TExecuteStakeholders tr_proposed = (Ok (), tr_funded)"
  "tr_call 190000 tr_admin (TDistributeFees tr_admin tr_token) tr_funded = (Ok (), tr_distributed)"
      apply (simp add: tr_ready_def prod_eq_iff tr_run)
     apply (simp add: tr_collected_def tr_ready_value prod_eq_iff tr_run)
    apply (simp add: tr_proposed_def tr_collected_value tr_ready_value prod_eq_iff tr_run)
   apply (simp add: tr_funded_def tr_proposed_value tr_collected_value tr_ready_value
      prod_eq_iff tr_run)
  apply (simp add: tr_distributed_def tr_values tr_ledger_def prod_eq_iff tr_run)
  done

lemma tr_step: "tr_call now who c s = (Ok (), s') \<Longrightarrow>
    treasury_step direct_accessors ledger_client now s s'"
  by (rule treasury_step.call) (simp_all add: tr_env_def)

lemma tr_reachable:
  "treasury_reachable direct_accessors ledger_client (\<lambda>r. r) tr_funded"
  "treasury_reachable direct_accessors ledger_client (\<lambda>r. r) tr_distributed"
proof -
  note go = treasury_reachable.step[OF _ tr_step]
  have "treasury_reachable direct_accessors ledger_client (\<lambda>r. r) tr_ready"
    by (rule go[OF _ tr_runs(1)]) (rule treasury_reachable.deployed, simp)
  then have "treasury_reachable direct_accessors ledger_client (\<lambda>r. r)
      (tr_ready\<lparr>ext := tr_ledger 1003 0 0\<rparr>)"
    by (rule treasury_reachable.step) (rule treasury_step.foreign)
  then show 1: "treasury_reachable direct_accessors ledger_client (\<lambda>r. r) tr_funded"
    by (intro go[OF _ tr_runs(4)] go[OF _ tr_runs(3)] go[OF _ tr_runs(2)])
  show "treasury_reachable direct_accessors ledger_client (\<lambda>r. r) tr_distributed"
    by (rule go[OF 1 tr_runs(5)])
qed

definition tr_reproposed :: "(ledger, treasury_view) treasury" where
  "tr_reproposed = tr_after 200000 tr_admin (TProposeStakeholders tr_admin [(tr_bob, 10000)]) tr_funded"

definition tr_changed :: "(ledger, treasury_view) treasury" where
  "tr_changed = tr_after 380000 tr_bob TExecuteStakeholders tr_reproposed"

lemma tr_change_steps:
  "treasury_step direct_accessors ledger_client 200000 tr_funded tr_reproposed"
  "treasury_step direct_accessors ledger_client 380000 tr_reproposed tr_changed"
  by (rule tr_step[where c = "TProposeStakeholders tr_admin [(tr_bob, 10000)]" and who = tr_admin],
      simp add: tr_reproposed_def prod_eq_iff tr_values tr_run,
      rule tr_step[where c = TExecuteStakeholders and who = tr_bob],
      simp add: tr_changed_def tr_reproposed_def prod_eq_iff tr_values tr_run)

lemma tr_change_values:
  "v_pending_stakeholders (unread tr_funded) = None"
  "active_split (\<lambda>r. r) tr_reproposed = Some tr_weights"
  "active_split (\<lambda>r. r) tr_changed = Some [(tr_bob, 10000)]" "tr_weights \<noteq> [(tr_bob, 10000)]"
  by (simp_all add: active_split_def tr_changed_def tr_reproposed_def tr_values tr_run)

definition tr_nominated :: "(ledger, treasury_view) treasury" where
  "tr_nominated = tr_after 1500 tr_admin (TProposeAdmin tr_admin tr_alice) tr_ready"

text \<open>\<open>collect_fee\<close> reads and writes nothing of the deposit-pause flag.\<close>

lemma collect_fee_blind:
  "blind_to (\<lambda>s. s\<lparr>tkey_deposits_paused := b\<rparr>) (treasury_collect_fee E A c t m n)"
  unfolding treasury_collect_fee_def treasury_require_mode_def read_acc_def write_acc_def
    try_acc_def trs_get_token_balance_def trs_get_cumulative_fees_def trs_set_token_balance_def
    trs_set_cumulative_fees_def trs_assert_version_def emit_fee_collected_def emit_def
  by (intro blind_rules blind_gets blind_modify;
      simp add: treasury_reads trs_get_authorized_markets_def)+

section \<open>Money\<close>

text \<open>
  C12. The treasury never pays out more than it books: over any SEP-41 tokens, a successful call
  other than \<open>collect_fee\<close> never lowers, in any token, the amount by which its real balance
  exceeds the balance it has recorded.
\<close>

theorem payouts_never_exceed_the_books:
  assumes "sep41 T balance" and "treasury_call E A T c s = (Ok u, s')"
    and "\<forall>a b m n. c \<noteq> TCollectFee a b m n"
  shows "surplus balance (current_contract_address E) s t
    \<le> surplus balance (current_contract_address E) s' t"
  using assms by (rule sep41.surplus_call)

lemma payouts_never_exceed_the_books_witness:
  "surplus (\<lambda>l. l) tr_self tr_funded tr_token \<le> surplus (\<lambda>l. l) tr_self tr_distributed tr_token"
  using payouts_never_exceed_the_books[OF ledger.sep41_axioms tr_runs(5), of tr_token]
  by (simp add: tr_env_def)

text \<open>
  C18. The books never go negative and never claim more than was ever collected: in every reachable
  state, for every token, the recorded balance is between zero and the cumulative fees, which fit
  the integer width.
\<close>

theorem books_never_overdrawn:
  assumes "treasury_storage A view" and "treasury_reachable A T view s"
  shows "0 \<le> recorded_balance s t \<and> recorded_balance s t \<le> recorded_fees s t
    \<and> recorded_fees s t \<le> i128_max"
  using treasury_storage.reachable_inv[OF assms] by (simp add: treasury_inv_def books_ok_def)

lemma books_never_overdrawn_witness:
  "0 \<le> recorded_balance tr_distributed tr_token
    \<and> recorded_balance tr_distributed tr_token \<le> recorded_fees tr_distributed tr_token"
  using books_never_overdrawn[OF direct.treasury_storage_axioms tr_reachable(2), of tr_token] by simp

text \<open>
  C19. \<open>distribute_fees\<close> pays every stakeholder its exact share, rounded down, of the recorded
  balance (the sum over its entries in the list), takes exactly what it pays off the books, and
  keeps back less than one unit per stakeholder.
\<close>

theorem distribution_pays_every_share:
  assumes "sep41 T balance" and "treasury_storage A view" and "treasury_reachable A T view s"
    and "treasury_distribute_fees E A T c t s = (Ok u, s')"
    and "acc_get_stakeholders A (tkey_storage_version s) (unread s) = Inr l"
  shows "(x \<noteq> current_contract_address E \<longrightarrow> balance (ext s') t x = balance (ext s) t x
      + (\<Sum>(a, b)\<leftarrow>l. if x = a then recorded_balance s t * int b div 10000 else 0))
    \<and> recorded_balance s' t = recorded_balance s t
      - (\<Sum>(a, b)\<leftarrow>l. recorded_balance s t * int b div 10000)
    \<and> 0 \<le> recorded_balance s' t \<and> recorded_balance s' t < int (length l)"
proof (rule sep41.distribute_effect[OF assms(1,4)])
  fix l'
  let ?n = "recorded_balance s t"
  assume "acc_get_stakeholders A (tkey_storage_version s) (unread s) = Inr l'"
    and n: "0 < ?n"
    and books: "recorded_balance s' = (recorded_balance s)(t := ?n - paid_total ?n l')"
    and real: "\<And>x. balance (ext s') t x = balance (ext s) t x
       + (\<Sum>(a, k)\<leftarrow>payout_list ?n l'.
            (if x = a then k else 0) - (if x = current_contract_address E then k else 0))"
  with assms(5) have l: "l' = l" by simp
  have "weights_ok l" by (rule treasury_storage.stakeholders_in_force[OF assms(2,3,5)])
    (rule distribution_has_stakeholders[OF assms(4,5)])
  then have w: "shares_total l = 10000" "l \<noteq> []" by (simp_all add: weights_ok_def)
  show ?thesis
    using payouts_received[of ?n x "current_contract_address E" l] n real[of x]
      dust_bounds[OF w, of ?n] books
    by (simp add: l share_of_def paid_total_def cong: if_cong)
qed

lemma distribution_pays_every_share_witness:
  "ext tr_distributed tr_token tr_alice = 702 \<and> recorded_balance tr_distributed tr_token = 1"
proof -
  have l: "acc_get_stakeholders direct_accessors (tkey_storage_version tr_funded) (unread tr_funded)
      = Inr tr_weights"
    by (simp add: tr_values tr_run)
  have "ext tr_funded tr_token tr_alice = 0" "recorded_balance tr_funded tr_token = 1003"
    "current_contract_address (tr_env 190000 tr_admin) = tr_self"
    by (simp_all add: tr_values tr_ledger_def recorded_balance_def tr_run)
  with distribution_pays_every_share[OF ledger.sep41_axioms direct.treasury_storage_axioms
      tr_reachable(1), where t = tr_token and l = tr_weights and c = tr_admin
      and E = "tr_env 190000 tr_admin" and s' = tr_distributed and u = "()" and x = tr_alice]
    l tr_runs(5)
  show ?thesis by (simp add: tr_weights_def tr_addresses)
qed

text \<open>
  A collected fee comes from a registered market that authorized the call, is positive, and is
  added to the recorded balance and the cumulative fees of its token, saturating at \<open>i128::MAX\<close>;
  the treasury neither moves nor checks any token.
\<close>

theorem collect_fee_records:
  assumes "treasury_collect_fee E A c t m n s = (Ok u, s')" and "books_ok s"
  shows "authorized E c \<and> c \<in> set (trs_get_authorized_markets s) \<and> 0 < n \<and> ext s' = ext s
    \<and> recorded_balance s' = (recorded_balance s)(t := min i128_max (recorded_balance s t + n))
    \<and> recorded_fees s' = (recorded_fees s)(t := min i128_max (recorded_fees s t + n))"
proof -
  note run = collect_fee_ok[OF assms(1)]
  have "0 \<le> recorded_balance s t" "0 \<le> recorded_fees s t"
    using assms(2) by (auto simp: books_ok_def intro: order_trans)
  with run(1) have "saturated_sum (recorded_balance s t) n = min i128_max (recorded_balance s t + n)"
    "saturated_sum (recorded_fees s t) n = min i128_max (recorded_fees s t + n)"
    by (simp_all add: saturated_sum_value)
  with run show ?thesis by (auto simp: recorded_balance_def recorded_fees_def fun_eq_iff)
qed

lemma collect_fee_records_witness:
  "recorded_balance tr_collected tr_token = 1003"
proof -
  have "books_ok (tr_ready\<lparr>ext := tr_ledger 1003 0 0\<rparr>)"
    by (simp add: books_ok_def recorded_balance_def recorded_fees_def tr_ready_value tr_run)
  from collect_fee_records[OF tr_runs(2)[simplified treasury_call.simps] this]
  show ?thesis by (simp add: recorded_balance_def tr_ready_value tr_run)
qed

section \<open>Administration\<close>

text \<open>
  The revenue split is behind a 48-hour timelock: in a run that starts with no proposal
  pending, every change of the stakeholder list in force installs a list that was proposed at
  least 172800 seconds earlier and was still the pending one.
\<close>

theorem stakeholder_change_was_announced:
  assumes "treasury_storage A view"
    and "timed_run (treasury_step A T) t s (r @ [(now, s')])"
    and "v_pending_stakeholders (view (unread s)) = None"
    and "active_split view (last_state s r) \<noteq> None"
    and "active_split view s' \<noteq> active_split view (last_state s r)"
  shows "\<exists>t1 s1 v. (t1, s1) \<in> set r \<and> t1 + treasury_timelock_seconds \<le> now
    \<and> pending_split view s1 = Some (v, t1 + treasury_timelock_seconds)
    \<and> active_split view s' = Some v"
  using timelock.change_was_announced[OF treasury_storage.stakeholders_locked[OF assms(1)] assms(2)
      _ assms(4,5)] assms(3)
  by (simp add: pending_split_def)

lemma stakeholder_change_was_announced_witness:
  "\<exists>t1 s1 v. (t1, s1) \<in> set [(200000, tr_reproposed)]
    \<and> t1 + treasury_timelock_seconds \<le> 380000
    \<and> pending_split (\<lambda>r. r) s1 = Some (v, t1 + treasury_timelock_seconds)
    \<and> active_split (\<lambda>r. r) tr_changed = Some v"
  by (rule stakeholder_change_was_announced[OF direct.treasury_storage_axioms, where s = tr_funded
        and T = ledger_client and t = 0])
    (use tr_change_values tr_change_steps in \<open>simp_all add: last_state_def\<close>)

text \<open>
  C37. The stakeholder list in force, and any list waiting for its timelock, is never empty and
  always sums to exactly 100%.
\<close>

theorem stakeholder_weights_are_complete:
  assumes "treasury_storage A view" and "treasury_reachable A T view s"
  shows "(\<forall>l. v_stakeholders (view (unread s)) = Some l \<longrightarrow> l \<noteq> [] \<and> shares_total l = 10000)
    \<and> (\<forall>p. v_pending_stakeholders (view (unread s)) = Some p \<longrightarrow>
        pending_list p \<noteq> [] \<and> shares_total (pending_list p) = 10000)"
  using treasury_storage.reachable_inv[OF assms]
  by (simp add: treasury_inv_def stakeholders_ok_def weights_ok_def)

lemma stakeholder_weights_are_complete_witness:
  "v_stakeholders (unread tr_funded) = Some tr_weights \<and> shares_total tr_weights = 10000"
  using stakeholder_weights_are_complete[OF direct.treasury_storage_axioms tr_reachable(1)]
  by (simp add: tr_values fresh_view_def)

text \<open>
  \<open>transfer_admin\<close> leaves a pending nomination standing: whoever an admin nominated before
  handing over can take the admin role once its timelock has passed, in a call that needs nobody's
  authorization.
\<close>

theorem nominee_survives_transfer:
  assumes "treasury_transfer_admin E c a s = (Ok u, s')"
    and "tkey_pending_admin s = Some p" and "effective_at p \<le> ledger_timestamp E'"
  shows "tkey_admin s' = Some a
    \<and> (\<exists>s''. treasury_execute_admin E' s' = (Ok (new_address p), s'')
        \<and> tkey_admin s'' = Some (new_address p))"
  using assms
  by (auto simp: treasury_transfer_admin_def treasury_execute_admin_def ok_iff treasury_emits
      treasury_reads)

lemma nominee_survives_transfer_witness:
  "tkey_admin (tr_after 2000 tr_admin (TTransferAdmin tr_admin tr_bob) tr_nominated) = Some tr_bob
   \<and> (\<exists>s''. treasury_execute_admin (tr_env 200000 tr_market)
        (tr_after 2000 tr_admin (TTransferAdmin tr_admin tr_bob) tr_nominated)
        = (Ok tr_alice, s'') \<and> tkey_admin s'' = Some tr_alice)"
proof -
  have "treasury_transfer_admin (tr_env 2000 tr_admin) tr_admin tr_bob tr_nominated
      = (Ok (), tr_after 2000 tr_admin (TTransferAdmin tr_admin tr_bob) tr_nominated)"
    "tkey_pending_admin tr_nominated = Some \<lparr>new_address = tr_alice, effective_at = 174300\<rparr>"
    "174300 \<le> ledger_timestamp (tr_env 200000 tr_market)"
    by (simp_all add: tr_nominated_def tr_ready_value prod_eq_iff tr_run)
  from nominee_survives_transfer[OF this(1,2)] this(3) show ?thesis by simp
qed

text \<open>
  The deposit pause has no effect: \<open>collect_fee\<close> gives the same result and makes the same
  changes whatever the flag is.
\<close>

theorem collect_fee_ignores_deposit_pause:
  "treasury_collect_fee E A c t m n (s\<lparr>tkey_deposits_paused := b\<rparr>) =
     (fst (treasury_collect_fee E A c t m n s),
      (snd (treasury_collect_fee E A c t m n s))\<lparr>tkey_deposits_paused := b\<rparr>)"
  by (rule collect_fee_blind[unfolded blind_to_def, rule_format])

text \<open>
  A market the admin has removed cannot record a fee any more, and every other market keeps
  its registration.
\<close>

theorem removed_market_cannot_collect:
  assumes "treasury_remove_market E c m s = (Ok u, s')"
  shows "m \<notin> set (trs_get_authorized_markets s')
    \<and> fst (treasury_collect_fee E' A m t mid n s') \<noteq> Ok ()
    \<and> (\<forall>m'. m' \<noteq> m \<longrightarrow>
        (m' \<in> set (trs_get_authorized_markets s') \<longleftrightarrow> m' \<in> set (trs_get_authorized_markets s)))"
proof -
  from assms have gone: "m \<notin> set (trs_get_authorized_markets s')"
    and rest: "\<forall>m'. m' \<noteq> m \<longrightarrow>
        (m' \<in> set (trs_get_authorized_markets s') \<longleftrightarrow> m' \<in> set (trs_get_authorized_markets s))"
    by (auto simp: treasury_remove_market_def ok_iff treasury_emits trs_get_authorized_markets_def
        split: if_splits)
  have "fst (treasury_collect_fee E' A m t mid n s') \<noteq> Ok ()"
  proof
    assume "fst (treasury_collect_fee E' A m t mid n s') = Ok ()"
    then have "treasury_collect_fee E' A m t mid n s'
        = (Ok (), snd (treasury_collect_fee E' A m t mid n s'))"
      by (simp add: prod_eq_iff)
    from collect_fee_ok(3)[OF this] gone show False by simp
  qed
  with gone rest show ?thesis by blast
qed

lemma removed_market_cannot_collect_witness:
  "fst (treasury_collect_fee (tr_env 9000 tr_market) direct_accessors tr_market tr_token 7 5
     (tr_after 8000 tr_admin (TRemoveMarket tr_admin tr_market) tr_ready)) \<noteq> Ok ()"
proof -
  have "treasury_remove_market (tr_env 8000 tr_admin) tr_admin tr_market tr_ready
      = (Ok (), tr_after 8000 tr_admin (TRemoveMarket tr_admin tr_market) tr_ready)"
    by (simp add: tr_ready_value prod_eq_iff tr_run)
  from removed_market_cannot_collect[OF this] show ?thesis by blast
qed

text \<open>The error \<open>withdraw_fees\<close> gives for a caller, an amount and the recorded balance.\<close>

definition withdraw_refusal :: "address \<Rightarrow> address \<Rightarrow> i128 \<Rightarrow> i128 \<Rightarrow> treasury_error option" where
  "withdraw_refusal caller admin amount balance =
     (if caller \<noteq> admin then Some Unauthorized
      else if amount \<le> 0 then Some InvalidAmount
      else if balance < amount then Some InsufficientBalance
      else None)"

text \<open>
  After authentication, initialization, pause and emergency mode, \<open>withdraw_fees\<close> fails with
  exactly the error of its first violated condition: not the admin, not a positive amount, more
  than the recorded balance.
\<close>

theorem withdraw_errors:
  assumes "authorized E c" and "tkey_storage_version s = Some treasury_storage_version"
    and "tkey_admin s = Some admin" and "\<not> acc_is_paused A (unread s)"
    and "acc_get_emergency_mode A (unread s) \<noteq> GlobalFreeze"
  shows "fst (treasury_withdraw_fees E A T c t to n s) = Err e
    \<longleftrightarrow> withdraw_refusal c admin n (recorded_balance s t) = Some e"
  using assms
  by (cases "acc_get_emergency_mode A (unread s)")
    (auto simp: withdraw_refusal_def treasury_withdraw_fees_def run_simps treasury_guards
      treasury_reads trs_get_token_balance_def recorded_balance_def token_transfer_def
      treasury_writes split: option.splits)

lemma withdraw_errors_witness:
  "fst (treasury_withdraw_fees (tr_env 9000 tr_admin) direct_accessors ledger_client tr_admin
     tr_token tr_bob 2000 tr_funded) = Err InsufficientBalance"
  using withdraw_errors[of "tr_env 9000 tr_admin" tr_admin tr_funded tr_admin direct_accessors
      ledger_client tr_token tr_bob 2000 InsufficientBalance]
  by (simp add: tr_values recorded_balance_def withdraw_refusal_def tr_run)

end
