(* ===== verification/Outcome_Token.thy ===== *)
theory Outcome_Token
  imports Interfaces
begin

text \<open>
  The outcome-token contract, \<^verbatim>\<open>contracts/outcome-token/src/lib.rs\<close>: the metadata of an
  outcome token, its length caps and its admin. The files \<^verbatim>\<open>storage.rs\<close>, \<^verbatim>\<open>types.rs\<close> and
  \<^verbatim>\<open>error.rs\<close> beside it are not part of the crate (\<open>lib.rs\<close> declares no module).
\<close>

section \<open>Data\<close>

definition max_symbol_len :: u32 where "max_symbol_len = 12"
definition max_name_len :: u32 where "max_name_len = 64"

datatype outcome_token_error =
    NotAuthorized
  | EmptySymbol
  | SymbolTooLong
  | EmptyName
  | NameTooLong

record outcome_metadata =
  md_symbol :: string
  md_name :: string

text \<open>One field per \<open>DataKey\<close>.\<close>

record outcome_token =
  okey_admin :: "address option"
  okey_metadata :: "outcome_metadata option"

type_synonym 'a ocontract = "(outcome_token_error, outcome_token, 'a) contract"

definition fresh_outcome_token :: outcome_token where
  "fresh_outcome_token = \<lparr>okey_admin = None, okey_metadata = None\<rparr>"

section \<open>Operations\<close>

definition validate_metadata :: "string \<Rightarrow> string \<Rightarrow> outcome_token_error + unit" where
  "validate_metadata symbol name =
     (if length symbol = 0 then Inl EmptySymbol
      else if length symbol > max_symbol_len then Inl SymbolTooLong
      else if length name = 0 then Inl EmptyName
      else if length name > max_name_len then Inl NameTooLong
      else Inr ())"

definition outcome_require_admin :: "address \<Rightarrow> unit ocontract" where
  "outcome_require_admin caller =
     bind (gets okey_admin) (\<lambda>stored.
     bind (ok_or stored NotAuthorized) (\<lambda>admin.
     ensure (admin = caller) NotAuthorized))"

definition outcome_initialize :: "env \<Rightarrow> address \<Rightarrow> string \<Rightarrow> string \<Rightarrow> unit ocontract" where
  "outcome_initialize E admin symbol name =
     andthen (require_auth E admin)
     (andthen (try_result (validate_metadata symbol name))
     (andthen (modify (\<lambda>s. s\<lparr>okey_admin := Some admin\<rparr>))
     (modify (\<lambda>s. s\<lparr>okey_metadata := Some \<lparr>md_symbol = symbol, md_name = name\<rparr>\<rparr>))))"

definition outcome_set_metadata :: "env \<Rightarrow> address \<Rightarrow> string \<Rightarrow> string \<Rightarrow> unit ocontract" where
  "outcome_set_metadata E caller symbol name =
     andthen (require_auth E caller)
     (andthen (outcome_require_admin caller)
     (andthen (try_result (validate_metadata symbol name))
     (modify (\<lambda>s. s\<lparr>okey_metadata := Some \<lparr>md_symbol = symbol, md_name = name\<rparr>\<rparr>))))"

definition outcome_get_metadata :: "outcome_metadata ocontract" where
  "outcome_get_metadata = bind (gets okey_metadata) (\<lambda>m. ok_or m NotAuthorized)"

definition outcome_get_symbol :: "string ocontract" where
  "outcome_get_symbol = bind outcome_get_metadata (\<lambda>m. return (md_symbol m))"

definition outcome_get_name :: "string ocontract" where
  "outcome_get_name = bind outcome_get_metadata (\<lambda>m. return (md_name m))"

section \<open>Reachable states\<close>

datatype ocall =
    OInitialize address string string
  | OSetMetadata address string string

fun outcome_call :: "env \<Rightarrow> ocall \<Rightarrow> unit ocontract" where
  "outcome_call E (OInitialize a symbol name) = outcome_initialize E a symbol name"
| "outcome_call E (OSetMetadata c symbol name) = outcome_set_metadata E c symbol name"

inductive outcome_reachable :: "outcome_token \<Rightarrow> bool" where
  fresh: "outcome_reachable fresh_outcome_token"
| call: "outcome_reachable s \<Longrightarrow> invoke (outcome_call E c) s = (r, s') \<Longrightarrow> outcome_reachable s'"

definition metadata_ok :: "outcome_metadata \<Rightarrow> bool" where
  "metadata_ok m \<longleftrightarrow> md_symbol m \<noteq> [] \<and> length (md_symbol m) \<le> max_symbol_len
     \<and> md_name m \<noteq> [] \<and> length (md_name m) \<le> max_name_len"

lemma validate_metadata_ok [ok_iff]:
  "validate_metadata symbol name = Inr u \<longleftrightarrow>
     metadata_ok \<lparr>md_symbol = symbol, md_name = name\<rparr>"
  by (auto simp: validate_metadata_def metadata_ok_def)

lemma outcome_initialize_ok [ok_iff]:
  "outcome_initialize E a symbol name s = (Ok u, s') \<longleftrightarrow>
     authorized E a \<and> metadata_ok \<lparr>md_symbol = symbol, md_name = name\<rparr>
     \<and> s' = \<lparr>okey_admin = Some a, okey_metadata = Some \<lparr>md_symbol = symbol, md_name = name\<rparr>\<rparr>"
  by (auto simp: outcome_initialize_def ok_iff)

lemma outcome_set_metadata_ok [ok_iff]:
  "outcome_set_metadata E c symbol name s = (Ok u, s') \<longleftrightarrow>
     authorized E c \<and> okey_admin s = Some c \<and> metadata_ok \<lparr>md_symbol = symbol, md_name = name\<rparr>
     \<and> s' = s\<lparr>okey_metadata := Some \<lparr>md_symbol = symbol, md_name = name\<rparr>\<rparr>"
  by (auto simp: outcome_set_metadata_def outcome_require_admin_def ok_iff)

definition outcome_inv :: "outcome_token \<Rightarrow> bool" where
  "outcome_inv s \<longleftrightarrow> (okey_admin s = None \<longleftrightarrow> okey_metadata s = None)
     \<and> pred_option metadata_ok (okey_metadata s)"

lemma outcome_inv_call: "outcome_inv s \<Longrightarrow> outcome_call E c s = (Ok u, s') \<Longrightarrow> outcome_inv s'"
  by (cases c) (auto simp: outcome_inv_def ok_iff)

lemma outcome_reachable_inv: "outcome_reachable s \<Longrightarrow> outcome_inv s"
proof (induction rule: outcome_reachable.induct)
  case fresh
  show ?case by (simp add: outcome_inv_def fresh_outcome_token_def)
next
  case (call s E c r s')
  then show ?case
    using outcome_inv_call invoke_failed[of "outcome_call E c" s r s']
    by (cases r) (auto simp: ok_iff)
qed

section \<open>Properties\<close>

text \<open>An initialized deployment, for the concrete checks.\<close>

definition ot_env :: "address \<Rightarrow> env" where
  "ot_env a = \<lparr>ledger_timestamp = 1000, current_contract_address = Contract 50, network_id = [],
     authorized = (\<lambda>b. b = a), has_executable = (\<lambda>_. False)\<rparr>"

definition ot_deployed :: outcome_token where
  "ot_deployed = snd (invoke (outcome_call (ot_env (Account 10))
     (OInitialize (Account 10) ''YES'' ''Rain'')) fresh_outcome_token)"

lemma ot_deployed_reachable: "outcome_reachable ot_deployed"
  unfolding ot_deployed_def
  by (rule outcome_reachable.call[OF outcome_reachable.fresh prod.collapse[symmetric]])

lemma ot_deployed_value:
  "ot_deployed = \<lparr>okey_admin = Some (Account 10),
     okey_metadata = Some \<lparr>md_symbol = ''YES'', md_name = ''Rain''\<rparr>\<rparr>"
  by (simp add: ot_deployed_def ot_env_def outcome_initialize_def validate_metadata_def
      max_symbol_len_def max_name_len_def run_simps fresh_outcome_token_def)

text \<open>
  Whatever calls were made, in whatever order, by whomever, the contract never holds metadata
  outside the length caps: the symbol has 1 to 12 bytes, the name 1 to 64, and metadata is present
  exactly when an admin is.
\<close>

theorem metadata_always_within_caps:
  assumes "outcome_reachable s"
  shows "(okey_admin s = None \<longleftrightarrow> okey_metadata s = None)
    \<and> (\<forall>m. okey_metadata s = Some m \<longrightarrow>
        1 \<le> length (md_symbol m) \<and> length (md_symbol m) \<le> 12
        \<and> 1 \<le> length (md_name m) \<and> length (md_name m) \<le> 64)"
  using outcome_reachable_inv[OF assms]
  by (auto simp: outcome_inv_def metadata_ok_def max_symbol_len_def max_name_len_def Suc_le_eq)

lemma metadata_always_within_caps_witness:
  "\<exists>m. okey_metadata ot_deployed = Some m \<and> length (md_symbol m) \<le> 12"
  using metadata_always_within_caps[OF ot_deployed_reachable] by (simp add: ot_deployed_value)

text \<open>
  \<open>initialize\<close> has no guard against being called again: in any state, also after another
  admin has been installed, anyone can make themselves admin with metadata of their choice, and
  the previous admin is locked out of \<open>set_metadata\<close>.
\<close>

theorem anyone_can_reinitialize:
  assumes "authorized E a" and "metadata_ok \<lparr>md_symbol = symbol, md_name = name\<rparr>"
    and "okey_admin s = Some old" and "a \<noteq> old"
  shows "\<exists>s'. outcome_initialize E a symbol name s = (Ok (), s')
    \<and> okey_admin s' = Some a \<and> okey_metadata s' = Some \<lparr>md_symbol = symbol, md_name = name\<rparr>
    \<and> (\<forall>E' sy nm. fst (outcome_set_metadata E' old sy nm s') \<noteq> Ok ())"
proof -
  let ?s = "\<lparr>okey_admin = Some a, okey_metadata = Some \<lparr>md_symbol = symbol, md_name = name\<rparr>\<rparr>"
  have "outcome_initialize E a symbol name s = (Ok (), ?s)"
    using assms(1,2) by (simp add: ok_iff)
  moreover have "fst (outcome_set_metadata E' old sy nm ?s) \<noteq> Ok ()" for E' sy nm
  proof
    assume "fst (outcome_set_metadata E' old sy nm ?s) = Ok ()"
    then have "outcome_set_metadata E' old sy nm ?s
        = (Ok (), snd (outcome_set_metadata E' old sy nm ?s))"
      by (simp add: prod_eq_iff)
    with assms(4) show False by (simp add: outcome_set_metadata_ok)
  qed
  ultimately show ?thesis by simp
qed

lemma anyone_can_reinitialize_witness:
  "\<exists>s'. outcome_initialize (ot_env (Account 66)) (Account 66) ''NO'' ''Seized'' ot_deployed
      = (Ok (), s') \<and> okey_admin s' = Some (Account 66)"
  using anyone_can_reinitialize[of "ot_env (Account 66)" "Account 66" "''NO''" "''Seized''"
      ot_deployed "Account 10"]
  by (auto simp: ot_env_def metadata_ok_def max_symbol_len_def max_name_len_def ot_deployed_value)

end
