(* ===== verification/Market_Entry.thy ===== *)
theory Market_Entry
  imports Interfaces
begin

text \<open>
  The market contract as its crate builds it, \<^verbatim>\<open>contracts/market/src/lib.rs\<close>: the symbol-keyed
  instance storage behind \<open>get_key\<close> and \<open>set_key\<close>, and the \<open>mint_on_trade\<close> edge. (The other
  files of the crate are not declared as modules of it; they have theories of their own.)
\<close>

section \<open>Storage keys\<close>

datatype entry_key =
    KAdmin
  | KPaused
  | KMarketConfig
  | KLiquidityPool
  | KPosition
  | KSettlement
  | KFeeAccrued
  | KOraclePrice
  | KReentrancyGuard
  | KOutcomeToken
  | KMintOnTradeSeen

definition all_storage_keys :: "entry_key list" where
  "all_storage_keys = [KAdmin, KPaused, KMarketConfig, KLiquidityPool, KPosition, KSettlement,
     KFeeAccrued, KOraclePrice, KReentrancyGuard, KOutcomeToken, KMintOnTradeSeen]"

fun key_symbol :: "entry_key \<Rightarrow> string" where
  "key_symbol KAdmin = ''admin''"
| "key_symbol KPaused = ''paused''"
| "key_symbol KMarketConfig = ''mkt_cfg''"
| "key_symbol KLiquidityPool = ''liq_pool''"
| "key_symbol KPosition = ''position''"
| "key_symbol KSettlement = ''settle''"
| "key_symbol KFeeAccrued = ''fee_acc''"
| "key_symbol KOraclePrice = ''oracle''"
| "key_symbol KReentrancyGuard = ''reent''"
| "key_symbol KOutcomeToken = ''out_tok''"
| "key_symbol KMintOnTradeSeen = ''mot_seen''"

fun key_name :: "entry_key \<Rightarrow> string" where
  "key_name KAdmin = ''Admin''"
| "key_name KPaused = ''Paused''"
| "key_name KMarketConfig = ''MarketConfig''"
| "key_name KLiquidityPool = ''LiquidityPool''"
| "key_name KPosition = ''Position''"
| "key_name KSettlement = ''Settlement''"
| "key_name KFeeAccrued = ''FeeAccrued''"
| "key_name KOraclePrice = ''OraclePrice''"
| "key_name KReentrancyGuard = ''ReentrancyGuard''"
| "key_name KOutcomeToken = ''OutcomeToken''"
| "key_name KMintOnTradeSeen = ''MintOnTradeSeen''"

definition is_money_path :: "entry_key \<Rightarrow> bool" where
  "is_money_path k \<longleftrightarrow>
     k \<in> {KLiquidityPool, KPosition, KSettlement, KFeeAccrued, KMintOnTradeSeen}"

datatype storage_error =
    StorageUnauthorized
  | UnknownKey
  | KeyMismatch
  | StoragePaused

datatype mint_on_trade_error =
    MintUnauthorized
  | MintPaused
  | OutcomeTokenNotConfigured
  | DuplicateCorrelationId
  | MintInvalidAmount

record mint_on_trade_edge =
  edge_trader :: address
  edge_market :: string
  edge_amount :: u64
  edge_correlation_id :: u64

section \<open>Instance storage\<close>

text \<open>
  The host's instance storage is a map from values to values. The contract uses two shapes of key
  (a symbol, or a symbol paired with a correlation id) and three types of value; reading a value
  at another type than it was written at traps (\<open>unwrap\<close> of the failed conversion).
\<close>

datatype storage_slot = SymbolSlot string | SeenSlot string u64

datatype storage_val = AddressVal address | U64Val u64 | BoolVal bool

type_synonym entry_state = "storage_slot \<Rightarrow> storage_val option"
type_synonym ('e, 'a) econtract = "('e, entry_state, 'a) contract"

fun as_address :: "storage_val \<Rightarrow> address option" where
  "as_address (AddressVal a) = Some a"
| "as_address _ = None"

fun as_u64 :: "storage_val \<Rightarrow> u64 option" where
  "as_u64 (U64Val n) = Some n"
| "as_u64 _ = None"

fun as_bool :: "storage_val \<Rightarrow> bool option" where
  "as_bool (BoolVal b) = Some b"
| "as_bool _ = None"

definition instance_get :: "(storage_val \<Rightarrow> 'a option) \<Rightarrow> storage_slot
    \<Rightarrow> ('e, 'a option) econtract" where
  "instance_get as slot = bind (gets (\<lambda>s. s slot)) (\<lambda>stored. case stored of
       None \<Rightarrow> return None
     | Some v \<Rightarrow> bind (expect (as v)) (\<lambda>a. return (Some a)))"

definition instance_set :: "storage_slot \<Rightarrow> storage_val \<Rightarrow> ('e, unit) econtract" where
  "instance_set slot v = modify (\<lambda>s. s(slot \<mapsto> v))"

definition unwrap_or :: "'a \<Rightarrow> 'a option \<Rightarrow> 'a" where
  "unwrap_or d x = (case x of None \<Rightarrow> d | Some v \<Rightarrow> v)"

section \<open>Operations\<close>

definition entry_is_paused :: "('e, bool) econtract" where
  "entry_is_paused = bind (instance_get as_bool (SymbolSlot (key_symbol KPaused)))
     (\<lambda>p. return (unwrap_or False p))"

definition entry_get_key :: "entry_key \<Rightarrow> (storage_error, u64) econtract" where
  "entry_get_key key =
     bind entry_is_paused (\<lambda>paused.
     andthen (ensure (\<not> (paused \<and> is_money_path key)) StoragePaused)
     (bind (instance_get as_u64 (SymbolSlot (key_symbol key))) (\<lambda>v. return (unwrap_or 0 v))))"

definition entry_set_key :: "env \<Rightarrow> address \<Rightarrow> entry_key \<Rightarrow> u64
    \<Rightarrow> (storage_error, unit) econtract" where
  "entry_set_key E caller key v =
     andthen (require_auth E caller)
     (bind (instance_get as_address (SymbolSlot (key_symbol KAdmin))) (\<lambda>stored.
     bind (ok_or stored StorageUnauthorized) (\<lambda>admin.
     andthen (ensure (\<not> caller \<noteq> admin) StorageUnauthorized)
     (bind entry_is_paused (\<lambda>paused.
     andthen (ensure (\<not> (paused \<and> is_money_path key)) StoragePaused)
     (instance_set (SymbolSlot (key_symbol key)) (U64Val v)))))))"

definition entry_set_outcome_token :: "env \<Rightarrow> address \<Rightarrow> address
    \<Rightarrow> (storage_error, unit) econtract" where
  "entry_set_outcome_token E caller outcome_token =
     andthen (require_auth E caller)
     (bind (instance_get as_address (SymbolSlot (key_symbol KAdmin))) (\<lambda>stored.
     bind (ok_or stored StorageUnauthorized) (\<lambda>admin.
     andthen (ensure (\<not> caller \<noteq> admin) StorageUnauthorized)
     (instance_set (SymbolSlot (key_symbol KOutcomeToken)) (AddressVal outcome_token)))))"

definition mint_seen :: "u64 \<Rightarrow> ('e, bool) econtract" where
  "mint_seen correlation_id =
     bind (instance_get as_bool (SeenSlot (key_symbol KMintOnTradeSeen) correlation_id))
       (\<lambda>b. return (unwrap_or False b))"

definition mark_mint_seen :: "u64 \<Rightarrow> ('e, unit) econtract" where
  "mark_mint_seen correlation_id =
     instance_set (SeenSlot (key_symbol KMintOnTradeSeen) correlation_id) (BoolVal True)"

definition dispatch_mint :: "address \<Rightarrow> mint_on_trade_edge \<Rightarrow> ('e, unit) econtract" where
  "dispatch_mint outcome_token edge = return ()"

definition mint_on_trade :: "env \<Rightarrow> mint_on_trade_edge
    \<Rightarrow> (mint_on_trade_error, unit) econtract" where
  "mint_on_trade E edge =
     bind entry_is_paused (\<lambda>paused.
     andthen (ensure (\<not> paused) MintPaused)
     (andthen (require_auth E (edge_trader edge))
     (andthen (ensure (edge_amount edge \<noteq> 0) MintInvalidAmount)
     (bind (instance_get as_address (SymbolSlot (key_symbol KOutcomeToken))) (\<lambda>stored.
     bind (ok_or stored OutcomeTokenNotConfigured) (\<lambda>outcome_token.
     bind (mint_seen (edge_correlation_id edge)) (\<lambda>seen.
     andthen (ensure (\<not> seen) DuplicateCorrelationId)
     (andthen (mark_mint_seen (edge_correlation_id edge))
     (dispatch_mint outcome_token edge)))))))))"

section \<open>Calls and runs\<close>

datatype ecall =
    EGetKey entry_key
  | ESetKey address entry_key u64
  | ESetOutcomeToken address address
  | EMintOnTrade mint_on_trade_edge

text \<open>\<open>entry_call E c s s'\<close>: the call succeeded and left \<open>s'\<close>.\<close>

fun entry_call :: "env \<Rightarrow> ecall \<Rightarrow> entry_state \<Rightarrow> entry_state \<Rightarrow> bool" where
  "entry_call E (EGetKey k) s s' \<longleftrightarrow> (\<exists>v. invoke (entry_get_key k) s = (Ok v, s'))"
| "entry_call E (ESetKey c k v) s s' \<longleftrightarrow> invoke (entry_set_key E c k v) s = (Ok (), s')"
| "entry_call E (ESetOutcomeToken c t) s s' \<longleftrightarrow>
     invoke (entry_set_outcome_token E c t) s = (Ok (), s')"
| "entry_call E (EMintOnTrade e) s s' \<longleftrightarrow> invoke (mint_on_trade E e) s = (Ok (), s')"

inductive entry_run :: "entry_state \<Rightarrow> ecall list \<Rightarrow> entry_state \<Rightarrow> bool" where
  none: "entry_run s [] s"
| call: "entry_call E c s t \<Longrightarrow> entry_run t cs s' \<Longrightarrow> entry_run s (c # cs) s'"

inductive_cases entry_run_ConsE: "entry_run s (c # cs) s'"
inductive_simps entry_run_Nil: "entry_run s [] s'"

lemma instance_set_ok [ok_iff]:
  "instance_set slot v s = (Ok u, s') \<longleftrightarrow> s' = s(slot \<mapsto> v)"
  by (simp add: instance_set_def ok_iff)

lemma instance_get_ok [ok_iff]:
  "instance_get as slot s = (Ok x, s') \<longleftrightarrow>
     s' = s \<and> (s slot = None \<and> x = None \<or> (\<exists>v a. s slot = Some v \<and> as v = Some a \<and> x = Some a))"
  by (cases "s slot") (auto simp: instance_get_def ok_iff)

lemma as_address_Some [simp]: "as_address v = Some a \<longleftrightarrow> v = AddressVal a"
  by (cases v) auto

lemma as_bool_Some [simp]: "as_bool v = Some b \<longleftrightarrow> v = BoolVal b"
  by (cases v) auto

lemma as_u64_Some [simp]: "as_u64 v = Some n \<longleftrightarrow> v = U64Val n"
  by (cases v) auto

text \<open>\<open>flag b x\<close>: the stored value \<open>x\<close> reads as the flag \<open>b\<close>, absent meaning false.\<close>

definition flag :: "bool \<Rightarrow> storage_val option \<Rightarrow> bool" where
  "flag b x \<longleftrightarrow> x = Some (BoolVal b) \<or> x = None \<and> \<not> b"

definition seen_slot :: "u64 \<Rightarrow> storage_slot" where
  "seen_slot i = SeenSlot ''mot_seen'' i"

lemma unwrap_or_simps [simp]: "unwrap_or d None = d" "unwrap_or d (Some v) = v"
  by (simp_all add: unwrap_or_def)

lemma entry_flags_ok [ok_iff]:
  "entry_is_paused s = (Ok b, s') \<longleftrightarrow> flag b (s (SymbolSlot ''paused'')) \<and> s' = s"
  "mint_seen i s = (Ok b, s') \<longleftrightarrow> flag b (s (seen_slot i)) \<and> s' = s"
  by (auto simp: entry_is_paused_def mint_seen_def ok_iff flag_def seen_slot_def)

lemma mark_mint_seen_ok [ok_iff]:
  "mark_mint_seen i s = (Ok u, s') \<longleftrightarrow> s' = s(seen_slot i \<mapsto> BoolVal True)"
  by (simp add: mark_mint_seen_def ok_iff seen_slot_def)

lemma mint_on_trade_ok [ok_iff]:
  "mint_on_trade E e s = (Ok u, s') \<longleftrightarrow>
     flag False (s (SymbolSlot ''paused''))
     \<and> authorized E (edge_trader e) \<and> edge_amount e \<noteq> 0
     \<and> (\<exists>t. s (SymbolSlot ''out_tok'') = Some (AddressVal t))
     \<and> flag False (s (seen_slot (edge_correlation_id e)))
     \<and> s' = s(seen_slot (edge_correlation_id e) \<mapsto> BoolVal True)"
  by (auto simp: mint_on_trade_def dispatch_mint_def ok_iff)

lemma entry_get_key_ok:
  assumes "entry_get_key k s = (Ok v, s')"
  shows "s' = s" and "\<exists>b. flag b (s (SymbolSlot ''paused''))"
  using assms by (auto simp: entry_get_key_def ok_iff)

lemma entry_set_key_ok:
  assumes "entry_set_key E c k v s = (Ok u, s')"
  shows "s' = s(SymbolSlot (key_symbol k) \<mapsto> U64Val v)"
    and "s (SymbolSlot ''admin'') = Some (AddressVal c)"
    and "\<exists>b. flag b (s (SymbolSlot ''paused''))"
  using assms by (auto simp: entry_set_key_def ok_iff)

lemma entry_set_outcome_token_ok:
  assumes "entry_set_outcome_token E c t s = (Ok u, s')"
  shows "s' = s(SymbolSlot ''out_tok'' \<mapsto> AddressVal t)"
    and "s (SymbolSlot ''admin'') = Some (AddressVal c)"
  using assms by (auto simp: entry_set_outcome_token_def ok_iff)

lemma entry_run_invariant:
  assumes "entry_run s cs s'" and "P s"
    and "\<And>E c t t'. P t \<Longrightarrow> entry_call E c t t' \<Longrightarrow> P t' \<and> Q c"
  shows "P s' \<and> (\<forall>c\<in>set cs. Q c)"
  using assms(1,2)
proof (induction rule: entry_run.induct)
  case (none s)
  then show ?case by simp
next
  case (call E c s t cs s')
  with assms(3) have "P t" "Q c" by blast+
  with call.IH show ?case by simp
qed

section \<open>Properties\<close>

text \<open>
  Every storage key has its own symbol and its own name, the list of keys is complete, and
  every symbol has at most nine characters, the limit of a short symbol.
\<close>

theorem storage_keys_are_collision_free:
  "inj key_symbol \<and> inj key_name \<and> set all_storage_keys = UNIV \<and> distinct all_storage_keys
    \<and> list_all (\<lambda>k. length (key_symbol k) \<le> 9) all_storage_keys"
proof -
  have "k \<in> set all_storage_keys" for k
    by (cases k) (simp_all add: all_storage_keys_def)
  then have all: "set all_storage_keys = UNIV" by blast
  have "inj_on key_symbol (set all_storage_keys)" "inj_on key_name (set all_storage_keys)"
    by (simp_all add: all_storage_keys_def)
  with all show ?thesis by (simp add: all_storage_keys_def)
qed

text \<open>
  The contract as deployed is inert: no entrypoint stores an admin, so starting from empty
  storage no sequence of calls by anyone ever writes anything; only reads succeed, and every
  attempt to set a key, to configure the outcome token or to mint on a trade is refused.
\<close>

theorem fresh_market_is_inert:
  assumes "entry_run Map.empty cs s"
  shows "s = Map.empty \<and> (\<forall>c\<in>set cs. \<exists>k. c = EGetKey k)"
  using assms
proof (rule entry_run_invariant)
  fix E c and t t' :: entry_state
  assume "t = Map.empty" and "entry_call E c t t'"
  then show "t' = Map.empty \<and> (\<exists>k. c = EGetKey k)"
    by (cases c) (auto simp: ok_iff flag_def dest: entry_get_key_ok(1) entry_set_key_ok(2)
        entry_set_outcome_token_ok(2))
qed simp

lemma fresh_market_is_inert_witness:
  "\<nexists>s. entry_run Map.empty [EGetKey KFeeAccrued, ESetKey (Account 10) KFeeAccrued 5] s"
  using fresh_market_is_inert[of "[EGetKey KFeeAccrued, ESetKey (Account 10) KFeeAccrued 5]"]
  by auto

text \<open>
  Minting is idempotent: from any storage whatever, in any sequence of successful calls, a
  correlation id is used by at most one \<open>mint_on_trade\<close>, and by none once it is marked.
\<close>

theorem correlation_id_mints_once:
  assumes "entry_run s cs s'"
  shows "length (filter (\<lambda>c. \<exists>e. c = EMintOnTrade e \<and> edge_correlation_id e = i) cs)
    \<le> (if s (seen_slot i) = Some (BoolVal True) then 0 else 1)"
  using assms
proof (induction rule: entry_run.induct)
  case (none s)
  then show ?case by simp
next
  case (call E c s t cs s')
  have "t (seen_slot i) = s (seen_slot i)
      \<or> (\<exists>e. c = EMintOnTrade e \<and> edge_correlation_id e = i) \<and> t (seen_slot i) = Some (BoolVal True)"
    using call.hyps(1) by (cases c) (auto simp: ok_iff seen_slot_def dest: entry_get_key_ok(1)
        entry_set_key_ok(1) entry_set_outcome_token_ok(1))
  moreover have "s (seen_slot i) \<noteq> Some (BoolVal True) \<and> t (seen_slot i) = Some (BoolVal True)"
    if "\<exists>e. c = EMintOnTrade e \<and> edge_correlation_id e = i"
    using that call.hyps(1) by (auto simp: ok_iff flag_def)
  ultimately show ?case using call.IH by (auto split: if_splits)
qed

definition entry_env :: "address \<Rightarrow> env" where
  "entry_env a = \<lparr>ledger_timestamp = 1000, current_contract_address = Contract 50,
     network_id = [], authorized = (\<lambda>b. b = a), has_executable = (\<lambda>_. False)\<rparr>"

definition entry_demo :: entry_state where
  "entry_demo = [SymbolSlot ''admin'' \<mapsto> AddressVal (Account 10),
     SymbolSlot ''out_tok'' \<mapsto> AddressVal (Contract 51)]"

definition edge_demo :: mint_on_trade_edge where
  "edge_demo = \<lparr>edge_trader = Account 20, edge_market = ''RAIN'', edge_amount = 7,
     edge_correlation_id = 99\<rparr>"

lemma mint_demo: "entry_call (entry_env (Account 20)) (EMintOnTrade edge_demo) entry_demo
    (entry_demo(seen_slot 99 \<mapsto> BoolVal True))"
  by (simp add: ok_iff flag_def entry_demo_def edge_demo_def entry_env_def seen_slot_def)

lemma correlation_id_mints_once_witness:
  "entry_run entry_demo [EMintOnTrade edge_demo] (entry_demo(seen_slot 99 \<mapsto> BoolVal True))
   \<and> (\<nexists>s. entry_run entry_demo [EMintOnTrade edge_demo, EMintOnTrade edge_demo] s)"
  using correlation_id_mints_once[of entry_demo "[EMintOnTrade edge_demo, EMintOnTrade edge_demo]"
      _ 99] entry_run.call[OF mint_demo entry_run.none]
  by (auto simp: edge_demo_def entry_demo_def seen_slot_def split: if_splits)

text \<open>
  Writing the pause flag through \<open>set_key\<close> breaks the contract for good: it stores an integer
  where every reader expects a boolean, and from then on no sequence of calls contains a successful
  read, write or mint; only the outcome token can still be configured.
\<close>

theorem pausing_by_set_key_bricks:
  assumes "entry_set_key E c KPaused v s = (Ok (), s')" and "entry_run s' cs s''"
  shows "\<forall>d\<in>set cs. \<exists>a t. d = ESetOutcomeToken a t"
proof -
  let ?P = "\<lambda>t. t (SymbolSlot ''paused'') = Some (U64Val v)"
  have "?P s'" using entry_set_key_ok(1)[OF assms(1)] by simp
  with assms(2) have "?P s'' \<and> (\<forall>d\<in>set cs. \<exists>a t. d = ESetOutcomeToken a t)"
  proof (rule entry_run_invariant)
    fix E' d and t t' :: entry_state
    assume P: "?P t" and "entry_call E' d t t'"
    then show "?P t' \<and> (\<exists>a x. d = ESetOutcomeToken a x)"
      by (cases d) (auto simp: ok_iff flag_def dest: entry_get_key_ok(2) entry_set_key_ok(3)
          entry_set_outcome_token_ok(1))
  qed
  then show ?thesis by blast
qed

lemma pausing_by_set_key_bricks_witness:
  "\<nexists>s. entry_run (entry_demo(SymbolSlot ''paused'' \<mapsto> U64Val 1)) [EGetKey KFeeAccrued] s"
proof -
  have "entry_set_key (entry_env (Account 10)) (Account 10) KPaused 1 entry_demo
      = (Ok (), entry_demo(SymbolSlot ''paused'' \<mapsto> U64Val 1))"
    by (simp add: entry_set_key_def entry_is_paused_def entry_demo_def entry_env_def
        instance_get_def instance_set_def run_simps is_money_path_def)
  from pausing_by_set_key_bricks[OF this, of "[EGetKey KFeeAccrued]"] show ?thesis by auto
qed

end
