(* ===== verification/Market_Keys.thy ===== *)
theory Market_Keys
  imports Interfaces
begin

text \<open>
  The typed persistent keys of \<^verbatim>\<open>contracts/market/src/storage.rs\<close>: their 32-byte encoding, its
  decoding and the checked \<open>read\<close> and \<open>write\<close>. How the host turns symbols and addresses into
  bytes and back is not in the repository; it is the argument \<open>H\<close>.
\<close>

section \<open>Keys\<close>

datatype typed_key =
    MarketConfig
  | MarketInfo string
  | MarketOpenInterest string
  | MarketPaused string
  | Position string address
  | PositionIndex address
  | PositionCollateral string address
  | Settlement string
  | SettlementNonce string
  | SettlementReceipt bytes
  | FeeAccrued string
  | FeeConfig
  | OraclePrice string
  | OracleTimestamp string

definition err_unknown_storage_key :: u32 where "err_unknown_storage_key = 9001"

record host_codec =
  symbol_bytes :: "string \<Rightarrow> bytes"
  address_bytes :: "address \<Rightarrow> bytes"
  symbol_of_bytes :: "bytes \<Rightarrow> string option"
  address_of_bytes :: "bytes \<Rightarrow> address"

fun typed_key_name :: "typed_key \<Rightarrow> string" where
  "typed_key_name MarketConfig = ''MarketConfig''"
| "typed_key_name (MarketInfo _) = ''MarketInfo''"
| "typed_key_name (MarketOpenInterest _) = ''MarketOpenInterest''"
| "typed_key_name (MarketPaused _) = ''MarketPaused''"
| "typed_key_name (Position _ _) = ''Position''"
| "typed_key_name (PositionIndex _) = ''PositionIndex''"
| "typed_key_name (PositionCollateral _ _) = ''PositionCollateral''"
| "typed_key_name (Settlement _) = ''Settlement''"
| "typed_key_name (SettlementNonce _) = ''SettlementNonce''"
| "typed_key_name (SettlementReceipt _) = ''SettlementReceipt''"
| "typed_key_name (FeeAccrued _) = ''FeeAccrued''"
| "typed_key_name FeeConfig = ''FeeConfig''"
| "typed_key_name (OraclePrice _) = ''OraclePrice''"
| "typed_key_name (OracleTimestamp _) = ''OracleTimestamp''"

section \<open>Encoding\<close>

fun tag_and_payload :: "host_codec \<Rightarrow> typed_key \<Rightarrow> 8 word \<times> bytes option" where
  "tag_and_payload H MarketConfig = (0x01, None)"
| "tag_and_payload H (MarketInfo s) = (0x02, Some (symbol_bytes H s))"
| "tag_and_payload H (MarketOpenInterest s) = (0x03, Some (symbol_bytes H s))"
| "tag_and_payload H (MarketPaused s) = (0x04, Some (symbol_bytes H s))"
| "tag_and_payload H (Position s a) = (0x10, Some (address_bytes H a))"
| "tag_and_payload H (PositionIndex a) = (0x11, Some (address_bytes H a))"
| "tag_and_payload H (PositionCollateral s a) = (0x12, Some (address_bytes H a))"
| "tag_and_payload H (Settlement s) = (0x20, Some (symbol_bytes H s))"
| "tag_and_payload H (SettlementNonce s) = (0x21, Some (symbol_bytes H s))"
| "tag_and_payload H (SettlementReceipt i) = (0x22, Some i)"
| "tag_and_payload H (FeeAccrued s) = (0x30, Some (symbol_bytes H s))"
| "tag_and_payload H FeeConfig = (0x31, None)"
| "tag_and_payload H (OraclePrice s) = (0x40, Some (symbol_bytes H s))"
| "tag_and_payload H (OracleTimestamp s) = (0x41, Some (symbol_bytes H s))"

definition write_prefix :: "bytes \<Rightarrow> bytes \<Rightarrow> bytes" where
  "write_prefix payload buf = payload @ drop (length payload) buf"

definition key_encode :: "host_codec \<Rightarrow> typed_key \<Rightarrow> bytes" where
  "key_encode H key = (case tag_and_payload H key of (tag, payload) \<Rightarrow>
     let rest = replicate 31 0 in
     tag # (case payload of
       None \<Rightarrow> rest
     | Some bs \<Rightarrow> write_prefix (take (min (length bs) 31) bs) rest))"

section \<open>Decoding\<close>

definition decode_symbol :: "host_codec \<Rightarrow> bytes \<Rightarrow> string" where
  "decode_symbol H b = (case symbol_of_bytes H (write_prefix b (replicate 32 0)) of
     None \<Rightarrow> '''' | Some s \<Rightarrow> s)"

definition decode_address :: "host_codec \<Rightarrow> bytes \<Rightarrow> address" where
  "decode_address H b = address_of_bytes H (write_prefix b (replicate 32 0))"

text \<open>\<open>copy_from_slice\<close> traps unless the two slices have the same length.\<close>

definition copy_from_slice :: "nat \<Rightarrow> bytes \<Rightarrow> bytes option" where
  "copy_from_slice n b = (if length b = n then Some b else None)"

definition key_decode :: "host_codec \<Rightarrow> bytes \<Rightarrow> (u32, 's, typed_key) contract" where
  "key_decode H raw = (let tag = hd raw; payload = tl raw; sym = decode_symbol H;
       addr = decode_address H in
     if tag = 0x01 then return MarketConfig
     else if tag = 0x02 then return (MarketInfo (sym payload))
     else if tag = 0x03 then return (MarketOpenInterest (sym payload))
     else if tag = 0x04 then return (MarketPaused (sym payload))
     else if tag = 0x10 then return (Position (sym payload) (addr payload))
     else if tag = 0x11 then return (PositionIndex (addr payload))
     else if tag = 0x12 then return (PositionCollateral (sym payload) (addr payload))
     else if tag = 0x20 then return (Settlement (sym payload))
     else if tag = 0x21 then return (SettlementNonce (sym payload))
     else if tag = 0x22 then
       bind (expect (copy_from_slice 32 payload)) (\<lambda>i. return (SettlementReceipt i))
     else if tag = 0x30 then return (FeeAccrued (sym payload))
     else if tag = 0x31 then return FeeConfig
     else if tag = 0x40 then return (OraclePrice (sym payload))
     else if tag = 0x41 then return (OracleTimestamp (sym payload))
     else throw err_unknown_storage_key)"

section \<open>Checked access to persistent storage\<close>

text \<open>
  Persistent storage maps raw keys to host values \<open>'v\<close>; \<open>from_val\<close> is the conversion of the type
  the caller reads at, and a value it rejects traps.
\<close>

type_synonym 'v persistent = "bytes \<Rightarrow> 'v option"

definition key_read :: "host_codec \<Rightarrow> ('v \<Rightarrow> 'a option) \<Rightarrow> typed_key
    \<Rightarrow> (u32, 'v persistent, 'a option) contract" where
  "key_read H from_val key =
     (let raw = key_encode H key in
     bind (key_decode H raw) (\<lambda>_.
     bind (gets (\<lambda>s. s raw)) (\<lambda>stored. case stored of
         None \<Rightarrow> return None
       | Some v \<Rightarrow> bind (expect (from_val v)) (\<lambda>a. return (Some a)))))"

definition key_write :: "host_codec \<Rightarrow> ('a \<Rightarrow> 'v) \<Rightarrow> typed_key \<Rightarrow> 'a
    \<Rightarrow> (u32, 'v persistent, unit) contract" where
  "key_write H into_val key value =
     (let raw = key_encode H key in
     bind (key_decode H raw) (\<lambda>_. modify (\<lambda>s. s(raw \<mapsto> into_val value))))"

section \<open>Lemmas\<close>

definition is_receipt :: "typed_key \<Rightarrow> bool" where
  "is_receipt k \<longleftrightarrow> (\<exists>i. k = SettlementReceipt i)"

lemma hd_key_encode [simp]: "hd (key_encode H k) = fst (tag_and_payload H k)"
  by (simp add: key_encode_def Let_def split: prod.splits)

lemma key_encode_length [simp]: "length (key_encode H k) = 32"
  by (auto simp: key_encode_def write_prefix_def Let_def split: prod.splits option.splits)

lemma decode_encode_receipt:
  "key_decode H (key_encode H (SettlementReceipt i)) s = (Panic, s)"
  by (simp add: key_decode_def Let_def copy_from_slice_def run_simps)

lemma decode_encode_name:
  assumes "\<not> is_receipt k"
  shows "\<exists>k'. key_decode H (key_encode H k) s = (Ok k', s) \<and> typed_key_name k' = typed_key_name k"
  using assms by (cases k) (auto simp: is_receipt_def key_decode_def Let_def return_def)

lemma same_tag_same_name:
  "fst (tag_and_payload H k) = fst (tag_and_payload H k') \<Longrightarrow> typed_key_name k = typed_key_name k'"
  by (cases k; cases k') simp_all

lemma key_write_run:
  assumes "\<not> is_receipt k"
  shows "key_write H into_val k v s = (Ok (), s(key_encode H k \<mapsto> into_val v))"
  using decode_encode_name[OF assms, of H s] by (auto simp: key_write_def Let_def run_simps)

lemma key_read_run:
  assumes "\<not> is_receipt k" and "s (key_encode H k) = Some w" and "from_val w = Some v"
  shows "key_read H from_val k s = (Ok (Some v), s)"
  using decode_encode_name[OF assms(1), of H s] assms(2,3)
  by (auto simp: key_read_def Let_def run_simps)

section \<open>Properties\<close>

text \<open>A concrete codec, for the checks: symbols by their character codes, addresses by number.\<close>

definition demo_codec :: host_codec where
  "demo_codec = \<lparr>symbol_bytes = map (\<lambda>c. of_nat (of_char c)),
     address_bytes = (\<lambda>a. case a of Account n \<Rightarrow> [71, of_nat n] | Contract n \<Rightarrow> [67, of_nat n]),
     symbol_of_bytes = (\<lambda>b. Some (map (\<lambda>x. char_of (unat x)) (takeWhile (\<lambda>x. x \<noteq> 0) b))),
     address_of_bytes = (\<lambda>b. if b ! 0 = 71 then Account (unat (b ! 1)) else Contract (unat (b ! 1)))\<rparr>"

text \<open>
  Keys of different variants never share an encoding, and under every variant but the
  settlement receipt a value that is written is read back, whatever the host's conversions.
\<close>

theorem variants_are_separated:
  assumes "\<And>a. from_val (into_val a) = Some a"
  shows "(typed_key_name k \<noteq> typed_key_name k' \<longrightarrow> key_encode H k \<noteq> key_encode H k')
    \<and> (\<not> is_receipt k \<longrightarrow> (\<exists>s'. key_write H into_val k v s = (Ok (), s')
         \<and> key_read H from_val k s' = (Ok (Some v), s')))"
proof (intro conjI impI)
  assume "typed_key_name k \<noteq> typed_key_name k'"
  then show "key_encode H k \<noteq> key_encode H k'"
    using same_tag_same_name[of H k k'] by (metis hd_key_encode)
next
  assume "\<not> is_receipt k"
  then show "\<exists>s'. key_write H into_val k v s = (Ok (), s')
      \<and> key_read H from_val k s' = (Ok (Some v), s')"
    using assms by (auto simp: key_write_run intro!: key_read_run)
qed

lemma variants_are_separated_witness:
  "\<exists>s'. key_write demo_codec (id :: nat \<Rightarrow> nat) (Settlement ''RAIN'') 5 Map.empty = (Ok (), s')
    \<and> key_read demo_codec Some (Settlement ''RAIN'') s' = (Ok (Some 5), s')"
  using variants_are_separated[of Some "id :: nat \<Rightarrow> nat" "Settlement ''RAIN''" FeeConfig demo_codec 5
      Map.empty]
  by (simp add: is_receipt_def)

text \<open>
  The encoding of a position does not contain its market: the positions of one owner in any two
  markets (and their collateral records) share one storage entry, so writing the one overwrites
  the other.
\<close>

theorem positions_of_one_owner_collide:
  assumes "from_val (into_val v) = Some v"
  shows "key_encode H (Position m a) = key_encode H (Position m' a)
    \<and> key_encode H (PositionCollateral m a) = key_encode H (PositionCollateral m' a)
    \<and> (\<exists>s'. key_write H into_val (Position m a) v s = (Ok (), s')
        \<and> key_read H from_val (Position m' a) s' = (Ok (Some v), s'))"
proof -
  have same: "key_encode H (Position m a) = key_encode H (Position m' a)"
    "key_encode H (PositionCollateral m a) = key_encode H (PositionCollateral m' a)"
    by (simp_all add: key_encode_def)
  moreover have "key_read H from_val (Position m' a) (s(key_encode H (Position m a) \<mapsto> into_val v))
      = (Ok (Some v), s(key_encode H (Position m a) \<mapsto> into_val v))"
    by (rule key_read_run[where w = "into_val v"]) (simp_all add: is_receipt_def same assms)
  ultimately show ?thesis by (simp add: key_write_run is_receipt_def)
qed

lemma positions_of_one_owner_collide_witness:
  "\<exists>s'. key_write demo_codec (id :: nat \<Rightarrow> nat) (Position ''RAIN'' (Account 10)) 7
        [key_encode demo_codec (Position ''SNOW'' (Account 10)) \<mapsto> 3] = (Ok (), s')
    \<and> key_read demo_codec Some (Position ''SNOW'' (Account 10)) s' = (Ok (Some 7), s')"
  using positions_of_one_owner_collide[of Some "id :: nat \<Rightarrow> nat" 7 demo_codec "''RAIN''" "Account 10"
      "''SNOW''" "[key_encode demo_codec (Position ''SNOW'' (Account 10)) \<mapsto> 3]"]
  by simp

text \<open>
  Settlement receipts cannot be stored or read: the round-trip check copies the 31 payload
  bytes of the key into a 32-byte id, so every access to a receipt traps and changes nothing.
\<close>

theorem settlement_receipts_always_trap:
  "key_write H into_val (SettlementReceipt i) v s = (Panic, s)
    \<and> key_read H from_val (SettlementReceipt i) s = (Panic, s)"
  by (simp add: key_write_def key_read_def Let_def decode_encode_receipt bind_def)

end
