(* ===== verification/Market_Types.thy ===== *)
theory Market_Types
  imports Interfaces
begin

text \<open>
  Types and errors of the market crate, \<^verbatim>\<open>contracts/market/src/{types,error}.rs\<close>. The enums
  \<open>MarketStatus\<close> and \<open>EmergencyMode\<close> and the struct \<open>PendingAddressChange\<close> are in
  \<open>Interfaces\<close>.
\<close>

section \<open>error.rs\<close>

text \<open>
  The last nine variants are returned by the market modules and described in
  \<^verbatim>\<open>STORAGE_MIGRATION_GUIDE.md\<close>, but \<^verbatim>\<open>error.rs\<close> does not declare them.
\<close>

datatype (plugins only: code) market_error =
    MarketNotFound
  | MarketAlreadyResolved
  | MarketNotResolved
  | MarketExpired
  | MarketNotActive
  | MarketClosedToDeposits
  | WithdrawCooldownActive
  | InsufficientCollateral
  | PositionAlreadySettled
  | NoPositionFound
  | InvalidShareAmount
  | BatchTooLarge
  | InvalidSignature
  | UnauthorizedOracle
  | InvalidOutcome
  | OraclePriceUnavailable
  | OracleMessageExpired
  | InvalidThresholdQuorum
  | StalePrice
  | InvalidPrice
  | InvalidQuantity
  | InvalidTimestamp
  | InvalidQuestion
  | InvalidOutcomeCount
  | InvalidAdmin
  | BelowMinDeposit
  | InvalidMetadataUri
  | InvalidFeeRate
  | InvalidFeeWaiverAccount
  | Unauthorized
  | WrongRole
  | AuthExpired
  | ReplayedAction
  | TokenTransferFailed
  | InvalidToken
  | ArithmeticOverflow
  | ArithmeticUnderflow
  | DivisionByZero
  | TreasuryOperationFailed
  | InsufficientTreasuryBalance
  | ReconciliationFailed
  | ConservationViolation
  | UpgradeRequired
  | NotInitialized
  | ContractPaused
  | EmergencyModeActive
  | ReentrantCall
  | NotAdmin
  | FeeWaiverCapReached
  | PositionTokenMismatch
  | ReconciliationAlreadyApplied

section \<open>types.rs\<close>

datatype adapter_type = Ed25519 | Reflector | Pyth

datatype asset = Stellar address | Other string

definition market_wasm32_size_budget :: u32 where "market_wasm32_size_budget = 65536"

record market =
  mkt_id :: u32
  mkt_question :: string
  mkt_end_time :: u64
  mkt_oracle_pubkey :: bytes
  mkt_status :: market_status
  mkt_result :: "bool option"
  mkt_creator :: address
  mkt_created_at :: u64
  mkt_collateral_token :: address
  mkt_price_bps :: i128
  mkt_resolver :: "address option"
  mkt_resolved_at :: "u64 option"
  mkt_adapter_type :: adapter_type
  mkt_outcome_count :: u32
  mkt_closed_to_deposits :: bool

record position =
  pos_user :: address
  pos_yes_shares :: i128
  pos_no_shares :: i128
  pos_locked_collateral :: i128
  pos_total_deposited :: i128
  pos_market_id :: u32
  pos_is_settled :: bool

record pending_fee_rate_change =
  pending_rate_bps :: i128
  rate_effective_at :: u64

record pending_adapter_type_change =
  new_adapter :: adapter_type
  adapter_effective_at :: u64

record market_adapter_config =
  oracle_contract :: address
  config_asset :: asset
  resolution_price :: i128

record pending_bytes_change =
  new_bytes :: bytes
  bytes_effective_at :: u64

record pending_threshold_signers_change =
  pending_signers :: "bytes list"
  pending_quorum :: u32
  signers_effective_at :: u64

definition new_empty :: "u32 \<Rightarrow> address \<Rightarrow> position" where
  "new_empty market_id user = \<lparr>pos_user = user, pos_yes_shares = 0, pos_no_shares = 0,
     pos_locked_collateral = 0, pos_total_deposited = 0, pos_market_id = market_id, pos_is_settled = False\<rparr>"

text \<open>The machine-integer fields of a stored position fit their width.\<close>

definition position_in_range :: "position \<Rightarrow> bool" where
  "position_in_range p \<longleftrightarrow> in_i128 (pos_yes_shares p) \<and> in_i128 (pos_no_shares p)
     \<and> in_i128 (pos_locked_collateral p) \<and> in_i128 (pos_total_deposited p)"

lemma new_empty_simps [simp]:
  "pos_user (new_empty m u) = u" "pos_yes_shares (new_empty m u) = 0" "pos_no_shares (new_empty m u) = 0"
  "pos_locked_collateral (new_empty m u) = 0" "pos_total_deposited (new_empty m u) = 0"
  "pos_market_id (new_empty m u) = m" "\<not> pos_is_settled (new_empty m u)"
  by (simp_all add: new_empty_def)

end
