(* ===== verification/Market_Validation.thy ===== *)
theory Market_Validation
  imports Market_Types
begin

text \<open>
  The validators of \<^verbatim>\<open>contracts/market/src/validation.rs\<close>: market creation, amounts, shares,
  prices, ids, fees, status transitions and the guards of the entrypoints. The storage accessors
  the guards call are not in the repository; what they return is an argument.
\<close>

section \<open>Constants\<close>

definition min_deposit_amount :: i128 where "min_deposit_amount = 10000000"
definition max_market_title_length :: u32 where "max_market_title_length = 500"
definition max_metadata_uri_length :: u32 where "max_metadata_uri_length = 512"
definition one_year_seconds :: u64 where "one_year_seconds = 31536000"
definition max_reasonable_amount :: i128 where "max_reasonable_amount = i128_max sdiv 2"

lemma max_reasonable_amount_value:
  "max_reasonable_amount = 85070591730234615865843651857942052863"
  by (simp add: max_reasonable_amount_def i128_max_def signed_divide_int_def)

lemmas validation_constants = min_deposit_amount_def max_market_title_length_def
  max_metadata_uri_length_def one_year_seconds_def max_reasonable_amount_value

section \<open>Validators\<close>

definition validate_input_guard :: "i128 \<Rightarrow> market_error + unit" where
  "validate_input_guard input = check (\<not> input \<le> 0) InvalidQuantity"

definition validate_end_time :: "u64 \<Rightarrow> u64 \<Rightarrow> market_error + unit" where
  "validate_end_time end_time current_time =
     try_then (check (\<not> end_time \<le> current_time) InvalidTimestamp) (\<lambda>_.
     check (\<not> end_time > saturating_add_u64 current_time one_year_seconds) InvalidTimestamp)"

definition validate_question_format :: "string \<Rightarrow> market_error + unit" where
  "validate_question_format question =
     try_then (check (question \<noteq> []) InvalidQuestion) (\<lambda>_.
     check (\<not> length question \<ge> 500) InvalidQuestion)"

definition validate_market_creation :: "string \<Rightarrow> u64 \<Rightarrow> u64 \<Rightarrow> market_error + unit" where
  "validate_market_creation question end_time current_time =
     try_then (validate_question_format question) (\<lambda>_.
     validate_end_time end_time current_time)"

definition is_ascii_graphic :: "char \<Rightarrow> bool" where
  "is_ascii_graphic c \<longleftrightarrow> 33 \<le> (of_char c :: nat) \<and> (of_char c :: nat) \<le> 126"

definition validate_metadata_uri :: "string option \<Rightarrow> market_error + unit" where
  "validate_metadata_uri metadata_uri = (case metadata_uri of
       None \<Rightarrow> Inr ()
     | Some uri \<Rightarrow>
         try_then (check (\<not> (length uri = 0 \<or> length uri > max_metadata_uri_length))
           InvalidMetadataUri) (\<lambda>_.
         check (list_all is_ascii_graphic uri) InvalidMetadataUri))"

definition validate_amount_positive :: "i128 \<Rightarrow> market_error + unit" where
  "validate_amount_positive amount = check (\<not> amount \<le> 0) InvalidQuantity"

definition validate_amount_reasonable :: "i128 \<Rightarrow> market_error + unit" where
  "validate_amount_reasonable amount = check (\<not> amount > max_reasonable_amount) InvalidQuantity"

definition validate_collateral_amount :: "i128 \<Rightarrow> market_error + unit" where
  "validate_collateral_amount amount =
     try_then (validate_amount_positive amount) (\<lambda>_. validate_amount_reasonable amount)"

definition validate_deposit_amount :: "i128 \<Rightarrow> market_error + unit" where
  "validate_deposit_amount amount =
     try_then (validate_collateral_amount amount) (\<lambda>_.
     check (\<not> amount < min_deposit_amount) BelowMinDeposit)"

definition validate_shares_non_negative :: "i128 \<Rightarrow> i128 \<Rightarrow> market_error + unit" where
  "validate_shares_non_negative yes_shares no_shares =
     check (\<not> (yes_shares < 0 \<or> no_shares < 0)) InvalidShareAmount"

definition validate_shares_not_empty :: "i128 \<Rightarrow> i128 \<Rightarrow> market_error + unit" where
  "validate_shares_not_empty yes_shares no_shares =
     check (\<not> (yes_shares = 0 \<and> no_shares = 0)) InvalidShareAmount"

definition validate_shares_bounded :: "i128 \<Rightarrow> i128 \<Rightarrow> market_error + unit" where
  "validate_shares_bounded yes_shares no_shares =
     check (\<not> (yes_shares > max_reasonable_amount \<or> no_shares > max_reasonable_amount))
       InvalidShareAmount"

definition validate_shares :: "i128 \<Rightarrow> i128 \<Rightarrow> market_error + unit" where
  "validate_shares yes_shares no_shares =
     try_then (validate_shares_non_negative yes_shares no_shares) (\<lambda>_.
     try_then (validate_shares_not_empty yes_shares no_shares) (\<lambda>_.
     validate_shares_bounded yes_shares no_shares))"

definition validate_market_price :: "i128 \<Rightarrow> market_error + unit" where
  "validate_market_price price = check (0 \<le> price \<and> price \<le> 10000) InvalidPrice"

definition validate_outcome :: "bool \<Rightarrow> market_error + unit" where
  "validate_outcome out = Inr ()"

definition validate_cancelable :: "market_status \<Rightarrow> market_error + unit" where
  "validate_cancelable st = (case st of
       MarketActive \<Rightarrow> Inr ()
     | MarketResolved \<Rightarrow> Inl MarketAlreadyResolved
     | MarketCanceled \<Rightarrow> Inl MarketNotActive)"

definition validate_reopenable :: "market_status \<Rightarrow> market_error + unit" where
  "validate_reopenable st = (case st of
       MarketCanceled \<Rightarrow> Inr ()
     | MarketResolved \<Rightarrow> Inl MarketAlreadyResolved
     | MarketActive \<Rightarrow> Inl MarketNotActive)"

definition checked_mul_u32 :: "u32 \<Rightarrow> u32 \<Rightarrow> u32 option" where
  "checked_mul_u32 a b = (if a * b \<le> u32_max then Some (a * b) else None)"

definition checked_add_u32 :: "u32 \<Rightarrow> u32 \<Rightarrow> u32 option" where
  "checked_add_u32 a b = (if a + b \<le> u32_max then Some (a + b) else None)"

text \<open>The loop of \<open>parse_market_id\<close> over the bytes of the string.\<close>

fun parse_digits :: "string \<Rightarrow> u32 \<Rightarrow> market_error + u32" where
  "parse_digits [] n = Inr n"
| "parse_digits (b # bs) n =
     try_then (check (\<not> ((of_char b :: nat) < 48 \<or> (of_char b :: nat) > 57)) InvalidQuantity) (\<lambda>_.
     try_then (opt_ok_or (Option.bind (checked_mul_u32 n 10)
       (\<lambda>n. checked_add_u32 n (of_char b - 48))) InvalidQuantity) (\<lambda>n'.
     parse_digits bs n'))"

definition parse_market_id :: "string \<Rightarrow> market_error + u32" where
  "parse_market_id market_id =
     try_then (check (\<not> (length market_id = 0 \<or> length market_id > 10)) InvalidQuantity) (\<lambda>_.
     parse_digits market_id 0)"

definition validate_fee_rate_bps :: "i128 \<Rightarrow> market_error + unit" where
  "validate_fee_rate_bps fee_rate_bps = validate_market_price fee_rate_bps"

definition validate_outcome_count :: "u32 \<Rightarrow> market_error + unit" where
  "validate_outcome_count outcome_count = check (outcome_count = 2) InvalidOutcomeCount"

definition calculate_fee :: "i128 \<Rightarrow> i128 \<Rightarrow> market_error + i128" where
  "calculate_fee amount fee_rate_bps =
     try_then (validate_amount_positive amount) (\<lambda>_.
     try_then (validate_market_price fee_rate_bps) (\<lambda>_.
     opt_ok_or (Option.bind (checked_mul amount fee_rate_bps) (\<lambda>p. checked_div p 10000))
       ArithmeticOverflow))"

definition market_require_initialized :: "bool \<Rightarrow> market_error + unit" where
  "market_require_initialized has_admin = check has_admin NotInitialized"

definition market_require_not_paused :: "bool \<Rightarrow> market_error + unit" where
  "market_require_not_paused is_paused = check (\<not> is_paused) ContractPaused"

definition market_require_mode :: "emergency_mode \<Rightarrow> emergency_mode list \<Rightarrow> market_error + unit"
  where "market_require_mode current allowed_modes =
     check (current \<in> set allowed_modes) EmergencyModeActive"

definition validate_admin_address :: "env \<Rightarrow> address \<Rightarrow> market_error + unit" where
  "validate_admin_address E a = check (\<not> has_executable E a) InvalidAdmin"

definition validate_fee_waiver_account :: "env \<Rightarrow> address \<Rightarrow> address \<Rightarrow> market_error + unit" where
  "validate_fee_waiver_account E account admin =
     check (\<not> (has_executable E account \<or> account = admin)) InvalidFeeWaiverAccount"

section \<open>Decimal ids\<close>

definition digit :: "char \<Rightarrow> bool" where
  "digit c \<longleftrightarrow> 48 \<le> (of_char c :: nat) \<and> (of_char c :: nat) \<le> 57"

text \<open>The number a digit string denotes, without any bound.\<close>

definition decimal :: "nat \<Rightarrow> string \<Rightarrow> nat" where
  "decimal n bs = foldl (\<lambda>n b. n * 10 + (of_char b - 48)) n bs"

lemma decimal_simps [simp]:
  "decimal n [] = n"
  "decimal n (b # bs) = decimal (n * 10 + (of_char b - 48)) bs"
  "decimal n (bs @ cs) = decimal (decimal n bs) cs"
  by (simp_all add: decimal_def)

lemma decimal_mono: "n \<le> decimal n bs"
proof (induction bs arbitrary: n)
  case (Cons b bs)
  have "n \<le> n * 10 + (of_char b - 48)" by simp
  also have "\<dots> \<le> decimal (n * 10 + (of_char b - 48)) bs" by (rule Cons.IH)
  finally show ?case by simp
qed simp

lemma parse_digits_ok:
  "parse_digits bs n = Inr m \<longleftrightarrow>
     list_all digit bs \<and> (bs \<noteq> [] \<longrightarrow> decimal n bs \<le> u32_max) \<and> m = decimal n bs"
proof (induction bs arbitrary: n)
  case (Cons b bs)
  have "n * 10 \<le> n * 10 + (of_char b - 48)"
    "n * 10 + (of_char b - 48) \<le> decimal (n * 10 + (of_char b - 48)) bs"
    by (simp_all add: decimal_mono)
  then show ?case
    by (auto simp: Cons.IH ok_iff digit_def checked_mul_u32_def checked_add_u32_def
        Option.bind_eq_Some_conv)
qed auto

lemma parse_digits_err: "parse_digits bs n = Inl e \<Longrightarrow> e = InvalidQuantity"
  by (induction bs arbitrary: n) (auto simp: pure_err_iff)

section \<open>The value of a fee\<close>

lemma fee_value:
  assumes "0 < amount" and "0 \<le> rate" and "rate \<le> 10000"
  shows "calculate_fee amount rate =
      (if amount * rate \<le> i128_max then Inr (amount * rate div 10000) else Inl ArithmeticOverflow)
    \<and> 0 \<le> amount * rate div 10000 \<and> amount * rate div 10000 \<le> amount"
proof -
  have pos: "0 \<le> amount * rate" using assms by simp
  then have low: "- 170141183460469231731687303715884105728 \<le> amount * rate" by linarith
  have "amount * rate \<le> amount * 10000" using assms by (intro mult_left_mono) auto
  then have le: "amount * rate div 10000 \<le> amount" by linarith
  have ge: "0 \<le> amount * rate div 10000" using pos by simp
  have "amount * rate div 10000 \<le> amount * rate" using pos by linarith
  then have "in_i128 (amount * rate sdiv 10000)" if "amount * rate \<le> i128_max"
    using that pos ge by (simp add: in_i128_def sdiv_nonneg i128_numerals)
  then show ?thesis using assms low le ge
    by (auto simp: calculate_fee_def validate_amount_positive_def validate_market_price_def
        check_def try_then_def opt_ok_or_def checked_mul_def checked_div_def in_i128_def
        i128_min_def sdiv_nonneg)
qed

section \<open>Properties\<close>

text \<open>
  \<open>parse_market_id\<close> accepts exactly the strings of one to ten decimal digits whose value fits
  an unsigned 32-bit integer, returns that value, and refuses every other string with
  \<open>InvalidQuantity\<close>.
\<close>

theorem parse_market_id_spec:
  "parse_market_id s =
     (if 1 \<le> length s \<and> length s \<le> 10 \<and> list_all digit s \<and> decimal 0 s \<le> u32_max
      then Inr (decimal 0 s) else Inl InvalidQuantity)"
proof (cases "parse_market_id s")
  case (Inl e)
  then have "e = InvalidQuantity"
    by (auto simp: parse_market_id_def pure_err_iff dest: parse_digits_err)
  moreover have "\<not> (1 \<le> length s \<and> length s \<le> 10 \<and> list_all digit s \<and> decimal 0 s \<le> u32_max)"
    using Inl parse_digits_ok[of s 0 "decimal 0 s"]
    by (auto simp: parse_market_id_def try_then_def check_def split: if_splits)
  ultimately show ?thesis using Inl by simp
next
  case (Inr n)
  then have "s \<noteq> []" "length s \<le> 10" "parse_digits s 0 = Inr n"
    by (auto simp: parse_market_id_def ok_iff)
  then show ?thesis using Inr by (auto simp: parse_digits_ok Suc_le_eq)
qed

text \<open>
  \<open>calculate_fee\<close> on a positive amount and a rate up to 100%: the fee is the exact product
  divided by 10000, rounded down, between zero and the amount; it is refused with
  \<open>ArithmeticOverflow\<close> exactly when the product does not fit \<open>i128\<close>.
\<close>

theorem calculate_fee_spec:
  assumes "0 < amount" and "0 \<le> rate" and "rate \<le> 10000"
  shows "calculate_fee amount rate =
      (if amount * rate \<le> i128_max then Inr (amount * rate div 10000) else Inl ArithmeticOverflow)
    \<and> 0 \<le> amount * rate div 10000 \<and> amount * rate div 10000 \<le> amount"
  by (rule fee_value[OF assms])

lemma calculate_fee_spec_witness:
  "calculate_fee 10001 500 = Inr 500 \<and> calculate_fee i128_max 10000 = Inl ArithmeticOverflow"
  using calculate_fee_spec[of 10001 500] calculate_fee_spec[of i128_max 10000]
  by (simp add: i128_numerals)

text \<open>
  Market creation is validated exactly: the question must have 1 to 499 bytes, else
  \<open>InvalidQuestion\<close>; then the end time must lie after the current time and at most one year
  (capped at the largest timestamp) ahead, else \<open>InvalidTimestamp\<close>.
\<close>

theorem market_creation_spec:
  "validate_market_creation q end_time now =
     (if \<not> (1 \<le> length q \<and> length q \<le> 499) then Inl InvalidQuestion
      else if \<not> (now < end_time \<and> end_time \<le> min u64_max (now + 31536000)) then Inl InvalidTimestamp
      else Inr ())"
  by (auto simp: validate_market_creation_def validate_question_format_def validate_end_time_def
      check_def try_then_def saturating_add_u64_def one_year_seconds_def not_le not_less Suc_le_eq)

text \<open>
  Two amounts that pass validation are positive and add without overflow; the two sides of a
  share pair that passes are non-negative, not both zero, and add without overflow; a deposit is
  accepted exactly from the protocol minimum up to half of \<open>i128::MAX\<close>.
\<close>

theorem validated_amounts_add_safely:
  "(validate_collateral_amount a = Inr () \<and> validate_collateral_amount b = Inr () \<longrightarrow>
      0 < a \<and> 0 < b \<and> checked_add a b = Some (a + b))
   \<and> (validate_shares yes no = Inr () \<longrightarrow>
      0 \<le> yes \<and> 0 \<le> no \<and> 0 < yes + no \<and> checked_add yes no = Some (yes + no))
   \<and> (validate_deposit_amount d = Inr () \<longleftrightarrow> 10000000 \<le> d \<and> d \<le> max_reasonable_amount)"
  by (auto simp: validate_collateral_amount_def validate_shares_def validate_deposit_amount_def
      validate_amount_positive_def validate_amount_reasonable_def validate_shares_non_negative_def
      validate_shares_not_empty_def validate_shares_bounded_def ok_iff checked_add_def in_i128_def
      i128_numerals validation_constants)

lemma validated_amounts_add_safely_witness:
  "checked_add max_reasonable_amount max_reasonable_amount
     = Some (max_reasonable_amount + max_reasonable_amount)"
  using validated_amounts_add_safely[of max_reasonable_amount max_reasonable_amount 1 0 1]
  by (simp add: validate_collateral_amount_def validate_amount_positive_def
      validate_amount_reasonable_def check_def try_then_def max_reasonable_amount_value)

end
