(* ===== verification/Market_Ids.thy ===== *)
theory Market_Ids
  imports Resolution Market_Validation
begin

text \<open>
  Where the contracts meet on market ids: the Resolution contract prints the number of a market
  (\<open>market_id_to_string\<close>) and hands the text to the market, which parses it
  (\<open>parse_market_id\<close>).
\<close>

lemma decimal_zero_prefix: "decimal n bs = n * 10 ^ length bs + decimal 0 bs"
proof (induction bs arbitrary: n)
  case (Cons b bs)
  from Cons.IH[of "n * 10 + (of_char b - 48)"] Cons.IH[of "of_char b - 48"] show ?case
    by (simp add: algebra_simps)
qed simp

lemma digit_of_number:
  "n < 10 \<Longrightarrow> digit (char_of (48 + n :: nat)) \<and> of_char (char_of (48 + n :: nat)) - 48 = (n :: nat)"
  by (simp add: digit_def)

lemma digits_into_value:
  "digits_into i n acc = Some r \<Longrightarrow>
     \<exists>ds. r = ds @ acc \<and> list_all digit ds \<and> decimal 0 ds = n \<and> length ds \<le> i \<and> (n \<noteq> 0 \<longrightarrow> ds \<noteq> [])"
proof (induction i arbitrary: n acc)
  case 0
  then show ?case by (auto split: if_splits)
next
  case (Suc i)
  show ?case
  proof (cases "n = 0")
    case True
    with Suc.prems show ?thesis by auto
  next
    case False
    let ?c = "char_of (48 + n mod 10)"
    from False Suc.prems have "digits_into i (n div 10) (?c # acc) = Some r" by simp
    from Suc.IH[OF this] obtain ds where ds: "r = ds @ ?c # acc" "list_all digit ds"
      "decimal 0 ds = n div 10" "length ds \<le> i" by blast
    from digit_of_number[of "n mod 10"] have c: "digit ?c" "of_char ?c - 48 = n mod 10" by simp_all
    with ds have "decimal 0 (ds @ [?c]) = n" by simp
    with ds c show ?thesis by (intro exI[of _ "ds @ [?c]"]) simp
  qed
qed

text \<open>
  C38. Market ids survive the trip from the Resolution contract to the market: for every unsigned
  32-bit number the printer returns a text, and the market's parser reads exactly that number
  back; in particular two different ids are never printed alike.
\<close>

theorem market_ids_round_trip:
  assumes "n \<le> u32_max"
  shows "\<exists>s. market_id_to_string n = Some s \<and> parse_market_id s = Inr n"
proof (cases "n = 0")
  case True
  have "parse_market_id ''0'' = Inr 0"
    by (simp add: parse_market_id_def check_def try_then_def checked_mul_u32_def
        checked_add_u32_def opt_ok_or_def)
  with True show ?thesis by (simp add: market_id_to_string_def)
next
  case False
  from market_id_to_string_total[OF assms] obtain s where s: "market_id_to_string n = Some s"
    by blast
  with False have "digits_into 10 n [] = Some s" by (simp add: market_id_to_string_def)
  from digits_into_value[OF this] False obtain ds where "s = ds" "list_all digit ds"
    "decimal 0 ds = n" "length ds \<le> 10" "ds \<noteq> []" by auto
  with assms have "parse_market_id s = Inr n"
    by (simp add: parse_market_id_def check_def try_then_def parse_digits_ok)
  with s show ?thesis by blast
qed

lemma market_ids_round_trip_witness:
  "\<exists>s. market_id_to_string 4294967295 = Some s \<and> parse_market_id s = Inr 4294967295"
  by (rule market_ids_round_trip) (simp add: u32_max_def)

end
