(* ===== verification/Market_Events.thy ===== *)
theory Market_Events
  imports Market_Types
begin

text \<open>
  The events of the market contract, \<^verbatim>\<open>contracts/market/src/events.rs\<close>: one constructor per
  event struct with its fields in order, one definition per \<open>emit_*\<close> helper.
\<close>

definition event_version :: u32 where "event_version = 1"

datatype (plugins only: code) market_event =
    ContractInitialized u32 address u64
  | EmergencyPauseToggled u32 bool u64
  | EmergencyModeChanged u32 emergency_mode address u64
  | MarketCreated u32 u32 address string u64 "string option"
  | CollateralDeposited u32 address u32 i128 i128
  | CollateralWithdrawn u32 address u32 i128 i128
  | LargeWithdraw u32 address u32 i128 u64
  | WithdrawEdgeCase u32 address u32 i128
  | MarketClosedToDeposits u32 u32 address u64
  | MarketResolved u32 u32 bytes address bool u64
  | OracleAdaptersEnabledEvent u64
  | MarketCanceled u32 u32 address u64
  | MarketVoided u32 u32 address u64
  | MarketReopened u32 u32 address u64
  | PositionLimitExceededEvent u32 u32 address bool
  | PositionUpdated u32 u32 address i128 i128 i128
  | TradeExecuted u32 u32 address i128 i128 bool u64
  | ValidationFailed u32 string u32
  | PositionSettled u32 u32 address i128 u64
  | PositionsBatchSettled u32 u32 "address list" "i128 list" u64
  | OracleSignatureVerified u32 u32 bool u64
  | FeeCalculated u32 u32 address i128 i128
  | FeeRetainedNoTreasury u32 u32 address i128
  | AdminTransferProposed u32 address address u64
  | AdminTransferAccepted u32 address address u64
  | AdminTransferCanceled u32 address address u64
  | MarketOracleUpdated u32 address bytes bytes u64
  | TreasurySet u32 address u64
  | FeeRateChangeProposed u32 i128 u64
  | FeeRateChangeExecuted u32 i128 u64
  | AdminRenounceProposed u32 address u64
  | AdminRenounced u32 address u64
  | OracleAdapterConfigured adapter_type bool u64
  | FeeWaiverAdded address address u64
  | FeeWaiverRemoved address address u64
  | TreasuryProposed u32 address u64
  | OutcomeTokenProposed u32 address u64
  | OutcomeTokenSet u32 address u64
  | ResolutionProposed u32 address u64
  | ResolutionSet u32 address u64
  | MarketOracleProposed u32 address bytes bytes u64
  | PositionTokenMismatchDetected u32 u32 address i128 i128 i128 i128
  | PositionTokensReconciled u32 u32 address address i128 i128 u64

text \<open>
  The schema version a published event carries as its first explicit topic, if it carries one.
\<close>

primrec schema_version :: "market_event \<Rightarrow> u32 option" where
  "schema_version (ContractInitialized v x1 x2) = Some v"
| "schema_version (EmergencyPauseToggled v x1 x2) = Some v"
| "schema_version (EmergencyModeChanged v x1 x2 x3) = Some v"
| "schema_version (MarketCreated v x1 x2 x3 x4 x5) = Some v"
| "schema_version (CollateralDeposited v x1 x2 x3 x4) = Some v"
| "schema_version (CollateralWithdrawn v x1 x2 x3 x4) = Some v"
| "schema_version (LargeWithdraw v x1 x2 x3 x4) = Some v"
| "schema_version (WithdrawEdgeCase v x1 x2 x3) = Some v"
| "schema_version (MarketClosedToDeposits v x1 x2 x3) = Some v"
| "schema_version (MarketResolved v x1 x2 x3 x4 x5) = Some v"
| "schema_version (OracleAdaptersEnabledEvent x1) = None"
| "schema_version (MarketCanceled v x1 x2 x3) = Some v"
| "schema_version (MarketVoided v x1 x2 x3) = Some v"
| "schema_version (MarketReopened v x1 x2 x3) = Some v"
| "schema_version (PositionLimitExceededEvent v x1 x2 x3) = Some v"
| "schema_version (PositionUpdated v x1 x2 x3 x4 x5) = Some v"
| "schema_version (TradeExecuted v x1 x2 x3 x4 x5 x6) = Some v"
| "schema_version (ValidationFailed v x1 x2) = Some v"
| "schema_version (PositionSettled v x1 x2 x3 x4) = Some v"
| "schema_version (PositionsBatchSettled v x1 x2 x3 x4) = Some v"
| "schema_version (OracleSignatureVerified v x1 x2 x3) = Some v"
| "schema_version (FeeCalculated v x1 x2 x3 x4) = Some v"
| "schema_version (FeeRetainedNoTreasury v x1 x2 x3) = Some v"
| "schema_version (AdminTransferProposed v x1 x2 x3) = Some v"
| "schema_version (AdminTransferAccepted v x1 x2 x3) = Some v"
| "schema_version (AdminTransferCanceled v x1 x2 x3) = Some v"
| "schema_version (MarketOracleUpdated x1 x2 x3 x4 x5) = None"
| "schema_version (TreasurySet v x1 x2) = Some v"
| "schema_version (FeeRateChangeProposed v x1 x2) = Some v"
| "schema_version (FeeRateChangeExecuted v x1 x2) = Some v"
| "schema_version (AdminRenounceProposed v x1 x2) = Some v"
| "schema_version (AdminRenounced v x1 x2) = Some v"
| "schema_version (OracleAdapterConfigured x1 x2 x3) = None"
| "schema_version (FeeWaiverAdded x1 x2 x3) = None"
| "schema_version (FeeWaiverRemoved x1 x2 x3) = None"
| "schema_version (TreasuryProposed v x1 x2) = Some v"
| "schema_version (OutcomeTokenProposed v x1 x2) = Some v"
| "schema_version (OutcomeTokenSet v x1 x2) = Some v"
| "schema_version (ResolutionProposed v x1 x2) = Some v"
| "schema_version (ResolutionSet v x1 x2) = Some v"
| "schema_version (MarketOracleProposed x1 x2 x3 x4 x5) = None"
| "schema_version (PositionTokenMismatchDetected v x1 x2 x3 x4 x5 x6) = Some v"
| "schema_version (PositionTokensReconciled v x1 x2 x3 x4 x5 x6) = Some v"

section \<open>Emit helpers\<close>

definition mkt_emit_contract_initialized :: "env \<Rightarrow> address
    \<Rightarrow> ('e, ('x, market_event, 'more) host_scheme, unit) contract" where
  "mkt_emit_contract_initialized E admin =
     emit (ContractInitialized event_version admin (ledger_timestamp E))"

definition mkt_emit_emergency_pause_toggled :: "env \<Rightarrow> bool
    \<Rightarrow> ('e, ('x, market_event, 'more) host_scheme, unit) contract" where
  "mkt_emit_emergency_pause_toggled E paused =
     emit (EmergencyPauseToggled event_version paused (ledger_timestamp E))"

definition mkt_emit_emergency_mode_changed :: "env \<Rightarrow> emergency_mode \<Rightarrow> address
    \<Rightarrow> ('e, ('x, market_event, 'more) host_scheme, unit) contract" where
  "mkt_emit_emergency_mode_changed E new_mode admin =
     emit (EmergencyModeChanged event_version new_mode admin (ledger_timestamp E))"

definition mkt_emit_collateral_deposited :: "env \<Rightarrow> address \<Rightarrow> u32 \<Rightarrow> i128 \<Rightarrow> i128
    \<Rightarrow> ('e, ('x, market_event, 'more) host_scheme, unit) contract" where
  "mkt_emit_collateral_deposited E user market_id amount new_total =
     emit (CollateralDeposited event_version user market_id amount new_total)"

definition mkt_emit_collateral_withdrawn :: "env \<Rightarrow> address \<Rightarrow> u32 \<Rightarrow> i128 \<Rightarrow> i128
    \<Rightarrow> ('e, ('x, market_event, 'more) host_scheme, unit) contract" where
  "mkt_emit_collateral_withdrawn E user market_id amount new_total =
     emit (CollateralWithdrawn event_version user market_id amount new_total)"

definition mkt_emit_large_withdraw :: "env \<Rightarrow> address \<Rightarrow> u32 \<Rightarrow> i128 \<Rightarrow> u64
    \<Rightarrow> ('e, ('x, market_event, 'more) host_scheme, unit) contract" where
  "mkt_emit_large_withdraw E user market_id amount timestamp =
     emit (LargeWithdraw event_version user market_id amount timestamp)"

definition mkt_emit_market_created :: "env \<Rightarrow> u32 \<Rightarrow> address \<Rightarrow> string \<Rightarrow> u64 \<Rightarrow> string option
    \<Rightarrow> ('e, ('x, market_event, 'more) host_scheme, unit) contract" where
  "mkt_emit_market_created E market_id creator question end_time metadata_uri =
     emit (MarketCreated event_version market_id creator question end_time metadata_uri)"

definition mkt_emit_market_closed_to_deposits :: "env \<Rightarrow> u32 \<Rightarrow> address \<Rightarrow> u64
    \<Rightarrow> ('e, ('x, market_event, 'more) host_scheme, unit) contract" where
  "mkt_emit_market_closed_to_deposits E market_id admin closed_at =
     emit (MarketClosedToDeposits event_version market_id admin closed_at)"

definition mkt_emit_withdraw_edge_case :: "env \<Rightarrow> address \<Rightarrow> u32 \<Rightarrow> i128
    \<Rightarrow> ('e, ('x, market_event, 'more) host_scheme, unit) contract" where
  "mkt_emit_withdraw_edge_case E user market_id amount =
     emit (WithdrawEdgeCase event_version user market_id amount)"

definition mkt_emit_market_resolved :: "env \<Rightarrow> u32 \<Rightarrow> bytes \<Rightarrow> address \<Rightarrow> bool \<Rightarrow> u64
    \<Rightarrow> ('e, ('x, market_event, 'more) host_scheme, unit) contract" where
  "mkt_emit_market_resolved E market_id oracle_pubkey resolver outcome resolved_at =
     emit (MarketResolved event_version market_id oracle_pubkey resolver outcome resolved_at)"

definition mkt_emit_oracle_adapters_enabled :: "env
    \<Rightarrow> ('e, ('x, market_event, 'more) host_scheme, unit) contract" where
  "mkt_emit_oracle_adapters_enabled E =
     emit (OracleAdaptersEnabledEvent (ledger_timestamp E))"

definition mkt_emit_market_canceled :: "env \<Rightarrow> u32 \<Rightarrow> address \<Rightarrow> u64
    \<Rightarrow> ('e, ('x, market_event, 'more) host_scheme, unit) contract" where
  "mkt_emit_market_canceled E market_id canceler canceled_at =
     emit (MarketCanceled event_version market_id canceler canceled_at)"

definition mkt_emit_market_voided :: "env \<Rightarrow> u32 \<Rightarrow> address \<Rightarrow> u64
    \<Rightarrow> ('e, ('x, market_event, 'more) host_scheme, unit) contract" where
  "mkt_emit_market_voided E market_id voided_by voided_at =
     emit (MarketVoided event_version market_id voided_by voided_at)"

definition mkt_emit_market_reopened :: "env \<Rightarrow> u32 \<Rightarrow> address \<Rightarrow> u64
    \<Rightarrow> ('e, ('x, market_event, 'more) host_scheme, unit) contract" where
  "mkt_emit_market_reopened E market_id admin reopened_at =
     emit (MarketReopened event_version market_id admin reopened_at)"

definition mkt_emit_position_limit_exceeded :: "env \<Rightarrow> u32 \<Rightarrow> address \<Rightarrow> bool
    \<Rightarrow> ('e, ('x, market_event, 'more) host_scheme, unit) contract" where
  "mkt_emit_position_limit_exceeded E market_id user side_yes =
     emit (PositionLimitExceededEvent event_version market_id user side_yes)"

definition mkt_emit_position_updated :: "env \<Rightarrow> u32 \<Rightarrow> address \<Rightarrow> i128 \<Rightarrow> i128 \<Rightarrow> i128
    \<Rightarrow> ('e, ('x, market_event, 'more) host_scheme, unit) contract" where
  "mkt_emit_position_updated E market_id user yes_shares no_shares locked_collateral =
     emit (PositionUpdated event_version market_id user yes_shares no_shares locked_collateral)"

definition mkt_emit_trade_executed :: "env \<Rightarrow> u32 \<Rightarrow> address \<Rightarrow> i128 \<Rightarrow> i128 \<Rightarrow> bool \<Rightarrow> u64
    \<Rightarrow> ('e, ('x, market_event, 'more) host_scheme, unit) contract" where
  "mkt_emit_trade_executed E market_id user quantity price_bps side_yes executed_at =
     emit (TradeExecuted event_version market_id user quantity price_bps side_yes executed_at)"

definition mkt_emit_validation_failed :: "env \<Rightarrow> string \<Rightarrow> u32
    \<Rightarrow> ('e, ('x, market_event, 'more) host_scheme, unit) contract" where
  "mkt_emit_validation_failed E ctxt error_code =
     emit (ValidationFailed event_version ctxt error_code)"

definition mkt_emit_position_settled :: "env \<Rightarrow> u32 \<Rightarrow> address \<Rightarrow> i128 \<Rightarrow> u64
    \<Rightarrow> ('e, ('x, market_event, 'more) host_scheme, unit) contract" where
  "mkt_emit_position_settled E market_id user payout settled_at =
     emit (PositionSettled event_version market_id user payout settled_at)"

definition mkt_emit_positions_batch_settled :: "env \<Rightarrow> u32 \<Rightarrow> address list \<Rightarrow> i128 list \<Rightarrow> u64
    \<Rightarrow> ('e, ('x, market_event, 'more) host_scheme, unit) contract" where
  "mkt_emit_positions_batch_settled E market_id users payouts settled_at =
     emit (PositionsBatchSettled event_version market_id users payouts settled_at)"

definition mkt_emit_oracle_signature_verified :: "env \<Rightarrow> u32 \<Rightarrow> bool \<Rightarrow> u64
    \<Rightarrow> ('e, ('x, market_event, 'more) host_scheme, unit) contract" where
  "mkt_emit_oracle_signature_verified E market_id outcome verified_at =
     emit (OracleSignatureVerified event_version market_id outcome verified_at)"

definition mkt_emit_fee_calculated :: "env \<Rightarrow> u32 \<Rightarrow> address \<Rightarrow> i128 \<Rightarrow> i128
    \<Rightarrow> ('e, ('x, market_event, 'more) host_scheme, unit) contract" where
  "mkt_emit_fee_calculated E market_id user fee_amount available_after_fee =
     emit (FeeCalculated event_version market_id user fee_amount available_after_fee)"

definition mkt_emit_fee_retained_no_treasury :: "env \<Rightarrow> u32 \<Rightarrow> address \<Rightarrow> i128
    \<Rightarrow> ('e, ('x, market_event, 'more) host_scheme, unit) contract" where
  "mkt_emit_fee_retained_no_treasury E market_id user fee_amount =
     emit (FeeRetainedNoTreasury event_version market_id user fee_amount)"

definition mkt_emit_admin_transfer_proposed :: "env \<Rightarrow> address \<Rightarrow> address
    \<Rightarrow> ('e, ('x, market_event, 'more) host_scheme, unit) contract" where
  "mkt_emit_admin_transfer_proposed E current_admin pending_admin =
     emit (AdminTransferProposed event_version current_admin pending_admin (ledger_timestamp E))"

definition mkt_emit_admin_transfer_accepted :: "env \<Rightarrow> address \<Rightarrow> address
    \<Rightarrow> ('e, ('x, market_event, 'more) host_scheme, unit) contract" where
  "mkt_emit_admin_transfer_accepted E old_admin new_admin =
     emit (AdminTransferAccepted event_version old_admin new_admin (ledger_timestamp E))"

definition mkt_emit_admin_transfer_canceled :: "env \<Rightarrow> address \<Rightarrow> address
    \<Rightarrow> ('e, ('x, market_event, 'more) host_scheme, unit) contract" where
  "mkt_emit_admin_transfer_canceled E current_admin canceled_pending_admin =
     emit (AdminTransferCanceled event_version current_admin canceled_pending_admin (ledger_timestamp E))"

definition mkt_emit_market_oracle_updated :: "env \<Rightarrow> u32 \<Rightarrow> address \<Rightarrow> bytes \<Rightarrow> bytes \<Rightarrow> u64
    \<Rightarrow> ('e, ('x, market_event, 'more) host_scheme, unit) contract" where
  "mkt_emit_market_oracle_updated E market_id admin old_oracle_pubkey new_oracle_pubkey updated_at =
     emit (MarketOracleUpdated market_id admin old_oracle_pubkey new_oracle_pubkey updated_at)"

definition mkt_emit_treasury_set :: "env \<Rightarrow> address
    \<Rightarrow> ('e, ('x, market_event, 'more) host_scheme, unit) contract" where
  "mkt_emit_treasury_set E treasury =
     emit (TreasurySet event_version treasury (ledger_timestamp E))"

definition mkt_emit_fee_rate_change_proposed :: "env \<Rightarrow> i128 \<Rightarrow> u64
    \<Rightarrow> ('e, ('x, market_event, 'more) host_scheme, unit) contract" where
  "mkt_emit_fee_rate_change_proposed E new_rate_bps eff =
     emit (FeeRateChangeProposed event_version new_rate_bps eff)"

definition mkt_emit_fee_rate_change_executed :: "env \<Rightarrow> i128 \<Rightarrow> u64
    \<Rightarrow> ('e, ('x, market_event, 'more) host_scheme, unit) contract" where
  "mkt_emit_fee_rate_change_executed E new_rate_bps executed_at =
     emit (FeeRateChangeExecuted event_version new_rate_bps executed_at)"

definition mkt_emit_admin_renounce_proposed :: "env \<Rightarrow> address
    \<Rightarrow> ('e, ('x, market_event, 'more) host_scheme, unit) contract" where
  "mkt_emit_admin_renounce_proposed E admin =
     emit (AdminRenounceProposed event_version admin (ledger_timestamp E))"

definition mkt_emit_admin_renounced :: "env \<Rightarrow> address
    \<Rightarrow> ('e, ('x, market_event, 'more) host_scheme, unit) contract" where
  "mkt_emit_admin_renounced E admin =
     emit (AdminRenounced event_version admin (ledger_timestamp E))"

definition mkt_emit_oracle_adapter_configured :: "env \<Rightarrow> adapter_type \<Rightarrow> bool
    \<Rightarrow> ('e, ('x, market_event, 'more) host_scheme, unit) contract" where
  "mkt_emit_oracle_adapter_configured E adapter_type enabled =
     emit (OracleAdapterConfigured adapter_type enabled (ledger_timestamp E))"

definition mkt_emit_fee_waiver_added :: "env \<Rightarrow> address \<Rightarrow> address
    \<Rightarrow> ('e, ('x, market_event, 'more) host_scheme, unit) contract" where
  "mkt_emit_fee_waiver_added E account admin =
     emit (FeeWaiverAdded account admin (ledger_timestamp E))"

definition mkt_emit_fee_waiver_removed :: "env \<Rightarrow> address \<Rightarrow> address
    \<Rightarrow> ('e, ('x, market_event, 'more) host_scheme, unit) contract" where
  "mkt_emit_fee_waiver_removed E account admin =
     emit (FeeWaiverRemoved account admin (ledger_timestamp E))"

definition mkt_emit_treasury_proposed :: "env \<Rightarrow> address \<Rightarrow> u64
    \<Rightarrow> ('e, ('x, market_event, 'more) host_scheme, unit) contract" where
  "mkt_emit_treasury_proposed E treasury eff =
     emit (TreasuryProposed event_version treasury eff)"

definition mkt_emit_outcome_token_proposed :: "env \<Rightarrow> address \<Rightarrow> u64
    \<Rightarrow> ('e, ('x, market_event, 'more) host_scheme, unit) contract" where
  "mkt_emit_outcome_token_proposed E outcome_token eff =
     emit (OutcomeTokenProposed event_version outcome_token eff)"

definition mkt_emit_outcome_token_set :: "env \<Rightarrow> address
    \<Rightarrow> ('e, ('x, market_event, 'more) host_scheme, unit) contract" where
  "mkt_emit_outcome_token_set E outcome_token =
     emit (OutcomeTokenSet event_version outcome_token (ledger_timestamp E))"

definition mkt_emit_resolution_proposed :: "env \<Rightarrow> address \<Rightarrow> u64
    \<Rightarrow> ('e, ('x, market_event, 'more) host_scheme, unit) contract" where
  "mkt_emit_resolution_proposed E resolution eff =
     emit (ResolutionProposed event_version resolution eff)"

definition mkt_emit_resolution_set :: "env \<Rightarrow> address
    \<Rightarrow> ('e, ('x, market_event, 'more) host_scheme, unit) contract" where
  "mkt_emit_resolution_set E resolution =
     emit (ResolutionSet event_version resolution (ledger_timestamp E))"

definition mkt_emit_market_oracle_proposed :: "env \<Rightarrow> u32 \<Rightarrow> address \<Rightarrow> bytes \<Rightarrow> bytes \<Rightarrow> u64
    \<Rightarrow> ('e, ('x, market_event, 'more) host_scheme, unit) contract" where
  "mkt_emit_market_oracle_proposed E market_id admin old_oracle_pubkey new_oracle_pubkey eff =
     emit (MarketOracleProposed market_id admin old_oracle_pubkey new_oracle_pubkey eff)"

definition mkt_emit_position_token_mismatch_detected :: "env \<Rightarrow> u32 \<Rightarrow> address \<Rightarrow> i128 \<Rightarrow> i128 \<Rightarrow> i128 \<Rightarrow> i128
    \<Rightarrow> ('e, ('x, market_event, 'more) host_scheme, unit) contract" where
  "mkt_emit_position_token_mismatch_detected E market_id user yes_shares no_shares yes_token_balance no_token_balance =
     emit (PositionTokenMismatchDetected event_version market_id user yes_shares no_shares yes_token_balance no_token_balance)"

definition mkt_emit_position_tokens_reconciled :: "env \<Rightarrow> u32 \<Rightarrow> address \<Rightarrow> address \<Rightarrow> i128 \<Rightarrow> i128
    \<Rightarrow> ('e, ('x, market_event, 'more) host_scheme, unit) contract" where
  "mkt_emit_position_tokens_reconciled E market_id user admin yes_delta_applied no_delta_applied =
     emit (PositionTokensReconciled event_version market_id user admin yes_delta_applied no_delta_applied (ledger_timestamp E))"

lemmas market_emits =
  mkt_emit_contract_initialized_def mkt_emit_emergency_pause_toggled_def
  mkt_emit_emergency_mode_changed_def mkt_emit_collateral_deposited_def
  mkt_emit_collateral_withdrawn_def mkt_emit_large_withdraw_def mkt_emit_market_created_def
  mkt_emit_market_closed_to_deposits_def mkt_emit_withdraw_edge_case_def
  mkt_emit_market_resolved_def mkt_emit_oracle_adapters_enabled_def mkt_emit_market_canceled_def
  mkt_emit_market_voided_def mkt_emit_market_reopened_def mkt_emit_position_limit_exceeded_def
  mkt_emit_position_updated_def mkt_emit_trade_executed_def mkt_emit_validation_failed_def
  mkt_emit_position_settled_def mkt_emit_positions_batch_settled_def
  mkt_emit_oracle_signature_verified_def mkt_emit_fee_calculated_def
  mkt_emit_fee_retained_no_treasury_def mkt_emit_admin_transfer_proposed_def
  mkt_emit_admin_transfer_accepted_def mkt_emit_admin_transfer_canceled_def
  mkt_emit_market_oracle_updated_def mkt_emit_treasury_set_def
  mkt_emit_fee_rate_change_proposed_def mkt_emit_fee_rate_change_executed_def
  mkt_emit_admin_renounce_proposed_def mkt_emit_admin_renounced_def
  mkt_emit_oracle_adapter_configured_def mkt_emit_fee_waiver_added_def
  mkt_emit_fee_waiver_removed_def mkt_emit_treasury_proposed_def
  mkt_emit_outcome_token_proposed_def mkt_emit_outcome_token_set_def
  mkt_emit_resolution_proposed_def mkt_emit_resolution_set_def
  mkt_emit_market_oracle_proposed_def mkt_emit_position_token_mismatch_detected_def
  mkt_emit_position_tokens_reconciled_def

end
