(* ===== verification/Market_Storage.thy ===== *)
theory Market_Storage
  imports Market_Events
begin

text \<open>
  The storage behind the market modules. \<^verbatim>\<open>deposit.rs\<close>, \<^verbatim>\<open>withdraw.rs\<close>,
  \<^verbatim>\<open>settlement.rs\<close>, \<^verbatim>\<open>positions.rs\<close>, \<^verbatim>\<open>reconciliation.rs\<close>,
  \<^verbatim>\<open>fee_waiver.rs\<close> and \<^verbatim>\<open>oracle.rs\<close> call accessors of a \<open>storage\<close> module that the
  repository's \<^verbatim>\<open>storage.rs\<close> does not contain. They are the parameter \<open>A\<close>, acting on a store
  \<open>'r\<close>; the locale \<open>market_storage\<close> states what the repository documents of them.
\<close>

section \<open>State\<close>

record ('x, 'r) market_state = "('x, market_event) host" +
  store :: 'r

type_synonym ('e, 'x, 'r, 'a) mod_contract = "('e, ('x, 'r) market_state, 'a) contract"
type_synonym ('x, 'r, 'a) mcontract = "(market_error, 'x, 'r, 'a) mod_contract"

section \<open>The accessors\<close>

record 'r market_accessors =
  ms_get_market :: "u32 \<Rightarrow> 'r \<Rightarrow> market_error + market option"
  ms_get_position :: "u32 \<Rightarrow> address \<Rightarrow> 'r \<Rightarrow> market_error + position option"
  ms_set_position :: "u32 \<Rightarrow> address \<Rightarrow> position \<Rightarrow> 'r \<Rightarrow> market_error + 'r"
  ms_is_deposit_locked :: "'r \<Rightarrow> bool"
  ms_set_deposit_locked :: "bool \<Rightarrow> 'r \<Rightarrow> 'r"
  ms_get_collateral_balance :: "address \<Rightarrow> 'r \<Rightarrow> i128"
  ms_set_collateral_balance :: "address \<Rightarrow> i128 \<Rightarrow> 'r \<Rightarrow> 'r"
  ms_debit_collateral_balance :: "address \<Rightarrow> i128 \<Rightarrow> 'r \<Rightarrow> 'r option"
  ms_add_market_participant :: "u32 \<Rightarrow> address \<Rightarrow> 'r \<Rightarrow> 'r"
  ms_get_market_participants :: "u32 \<Rightarrow> 'r \<Rightarrow> address list"
  ms_set_last_deposit_time :: "u32 \<Rightarrow> address \<Rightarrow> u64 \<Rightarrow> 'r \<Rightarrow> 'r"
  ms_get_last_deposit_time :: "u32 \<Rightarrow> address \<Rightarrow> 'r \<Rightarrow> u64 option"
  ms_get_fee_rate_bps :: "'r \<Rightarrow> i128"
  ms_is_fee_waived :: "address \<Rightarrow> 'r \<Rightarrow> bool"
  ms_get_treasury :: "'r \<Rightarrow> address option"
  ms_get_outcome_token_contract :: "'r \<Rightarrow> address option"
  ms_is_operator :: "address \<Rightarrow> address \<Rightarrow> 'r \<Rightarrow> bool"
  ms_is_request_consumed :: "address \<Rightarrow> u64 \<Rightarrow> 'r \<Rightarrow> bool"
  ms_mark_request_consumed :: "address \<Rightarrow> u64 \<Rightarrow> 'r \<Rightarrow> 'r"
  ms_get_emergency_mode :: "'r \<Rightarrow> emergency_mode"
  ms_get_admin :: "'r \<Rightarrow> address option"
  ms_get_fee_waivers :: "'r \<Rightarrow> address list"
  ms_set_fee_waivers :: "address list \<Rightarrow> 'r \<Rightarrow> 'r"
  ms_max_fee_waivers :: u32
  ms_max_batch_settle_size :: u32
  ms_has_oracle_adapters :: "'r \<Rightarrow> bool"
  ms_is_adapter_enabled :: "adapter_type \<Rightarrow> 'r \<Rightarrow> bool"
  ms_get_market_adapter_config :: "u32 \<Rightarrow> 'r \<Rightarrow> market_adapter_config option"
  ms_get_reconciliation_record :: "bytes \<Rightarrow> 'r \<Rightarrow> (u32 \<times> address) option"
  ms_set_reconciliation_record :: "bytes \<Rightarrow> u32 \<Rightarrow> address \<Rightarrow> 'r \<Rightarrow> 'r"

definition read_store :: "('r \<Rightarrow> 'a) \<Rightarrow> ('e, 'x, 'r, 'a) mod_contract" where
  "read_store f = gets (\<lambda>s. f (store s))"

definition write_store :: "('r \<Rightarrow> 'r) \<Rightarrow> ('e, 'x, 'r, unit) mod_contract" where
  "write_store f = modify (\<lambda>s. s\<lparr>store := f (store s)\<rparr>)"

text \<open>An accessor used with \<open>?\<close>, one that may fail while writing, and one that may trap.\<close>

definition try_read :: "('r \<Rightarrow> 'e + 'a) \<Rightarrow> ('e, 'x, 'r, 'a) mod_contract" where
  "try_read f = bind (gets (\<lambda>s. f (store s))) try_result"

definition try_write :: "('r \<Rightarrow> 'e + 'r) \<Rightarrow> ('e, 'x, 'r, unit) mod_contract" where
  "try_write f = bind (gets (\<lambda>s. f (store s))) (\<lambda>res.
     bind (try_result res) (\<lambda>r. modify (\<lambda>s. s\<lparr>store := r\<rparr>)))"

definition trap_write :: "('r \<Rightarrow> 'r option) \<Rightarrow> ('e, 'x, 'r, unit) mod_contract" where
  "trap_write f = bind (gets (\<lambda>s. f (store s))) (\<lambda>res.
     bind (expect res) (\<lambda>r. modify (\<lambda>s. s\<lparr>store := r\<rparr>)))"

lemma store_ok [ok_iff]:
  "read_store f s = (Ok v, s') \<longleftrightarrow> v = f (store s) \<and> s' = s"
  "write_store g s = (Ok u, s') \<longleftrightarrow> s' = s\<lparr>store := g (store s)\<rparr>"
  "try_read h s = (Ok w, s') \<longleftrightarrow> h (store s) = Inr w \<and> s' = s"
  "try_write i s = (Ok u, s') \<longleftrightarrow> (\<exists>r. i (store s) = Inr r \<and> s' = s\<lparr>store := r\<rparr>)"
  "trap_write j s = (Ok u, s') \<longleftrightarrow> (\<exists>r. j (store s) = Some r \<and> s' = s\<lparr>store := r\<rparr>)"
  by (auto simp: read_store_def write_store_def try_read_def try_write_def trap_write_def ok_iff)

lemmas store_run [run_simps] =
  read_store_def write_store_def try_read_def try_write_def trap_write_def

text \<open>\<open>validation::require_emergency_mode_allows\<close> on the stored mode.\<close>

definition require_mode :: "'r market_accessors \<Rightarrow> emergency_mode list
    \<Rightarrow> ('x, 'r, unit) mcontract" where
  "require_mode A allowed_modes =
     bind (read_store (ms_get_emergency_mode A)) (\<lambda>current.
     ensure (current \<in> set allowed_modes) EmergencyModeActive)"

lemma require_mode_ok [ok_iff]:
  "require_mode A ms s = (Ok u, s') \<longleftrightarrow> ms_get_emergency_mode A (store s) \<in> set ms \<and> s' = s"
  by (auto simp: require_mode_def ok_iff)

text \<open>An event published under a condition only extends the log.\<close>

lemma when_emit_ok:
  "when_do b (emit ev) s = (Ok u, s') \<longleftrightarrow> s' = s\<lparr>events := events s @ (if b then [ev] else [])\<rparr>"
  by (auto simp: when_do_ok emit_ok)

section \<open>Catching errors\<close>

text \<open>
  \<open>attempt m\<close>: the caller looks at the \<open>Result\<close> of \<open>m\<close> and goes on; what \<open>m\<close> did before failing
  stays. \<open>on_err m h\<close>: \<open>if let Err(e) = m { .. }\<close>. \<open>dropping d m\<close>: the destructor \<open>d\<close> of a guard
  runs when \<open>m\<close> returns, with a value or an error (a trap aborts the transaction).
\<close>

definition attempt :: "('e, 's, 'a) contract \<Rightarrow> ('f, 's, 'e + 'a) contract" where
  "attempt m = (\<lambda>s. case m s of
      (Ok v, s') \<Rightarrow> (Ok (Inr v), s')
    | (Err e, s') \<Rightarrow> (Ok (Inl e), s')
    | (Panic, s') \<Rightarrow> (Panic, s'))"

definition on_err :: "('e, 's, 'a) contract \<Rightarrow> ('e \<Rightarrow> ('e, 's, 'a) contract)
    \<Rightarrow> ('e, 's, 'a) contract" where
  "on_err m h = (\<lambda>s. case m s of
      (Ok v, s') \<Rightarrow> (Ok v, s')
    | (Err e, s') \<Rightarrow> h e s'
    | (Panic, s') \<Rightarrow> (Panic, s'))"

definition dropping :: "('s \<Rightarrow> 's) \<Rightarrow> ('e, 's, 'a) contract \<Rightarrow> ('e, 's, 'a) contract" where
  "dropping d m = (\<lambda>s. case m s of
      (Ok v, s') \<Rightarrow> (Ok v, d s')
    | (Err e, s') \<Rightarrow> (Err e, d s')
    | (Panic, s') \<Rightarrow> (Panic, s'))"

lemma attempt_ok [ok_iff]:
  "attempt m s = (Ok (Inr v), s') \<longleftrightarrow> m s = (Ok v, s')"
  "attempt m s = (Ok (Inl e), s') \<longleftrightarrow> m s = (Err e, s')"
  by (auto simp: attempt_def split: prod.splits result.splits)

lemma dropping_ok [ok_iff]:
  "dropping d m s = (Ok v, s') \<longleftrightarrow> (\<exists>t. m s = (Ok v, t) \<and> s' = d t)"
  by (auto simp: dropping_def split: prod.splits result.splits)

lemmas catch_run [run_simps] = attempt_def on_err_def dropping_def

text \<open>Reading a position with \<open>.unwrap_or_else(|_| None)\<close>, writing one with \<open>.unwrap_or_default()\<close>.\<close>

definition peek_position :: "'r market_accessors \<Rightarrow> u32 \<Rightarrow> address
    \<Rightarrow> ('e, 'x, 'r, position option) mod_contract" where
  "peek_position A market_id user = read_store (\<lambda>r.
     case ms_get_position A market_id user r of Inl _ \<Rightarrow> None | Inr p \<Rightarrow> p)"

definition poke_position :: "'r market_accessors \<Rightarrow> u32 \<Rightarrow> address \<Rightarrow> position
    \<Rightarrow> ('e, 'x, 'r, unit) mod_contract" where
  "poke_position A market_id user p = write_store (\<lambda>r.
     case ms_set_position A market_id user p r of Inl _ \<Rightarrow> r | Inr r' \<Rightarrow> r')"

section \<open>What the accessors do\<close>

record market_view =
  v_ready :: bool
  v_markets :: "u32 \<Rightarrow> market option"
  v_positions :: "u32 \<times> address \<Rightarrow> position option"
  v_deposit_locked :: bool
  v_balance :: "address \<Rightarrow> i128"
  v_participants :: "u32 \<Rightarrow> address list"
  v_last_deposit :: "u32 \<times> address \<Rightarrow> u64 option"
  v_fee_rate :: i128
  v_fee_waivers :: "address list"
  v_treasury :: "address option"
  v_outcome_token :: "address option"
  v_operators :: "(address \<times> address) set"
  v_consumed :: "(address \<times> u64) set"
  v_mode :: emergency_mode
  v_admin :: "address option"
  v_adapters :: bool
  v_adapter_enabled :: "adapter_type \<Rightarrow> bool"
  v_adapter_config :: "u32 \<Rightarrow> market_adapter_config option"
  v_reconciled :: "bytes \<Rightarrow> (u32 \<times> address) option"

text \<open>
  Each key is a variable of its own, read back as written; the accessors that return a \<open>Result\<close>
  check the stored schema version first (\<^verbatim>\<open>STORAGE_MIGRATION_GUIDE.md\<close>); registering a
  participant is idempotent (\<^verbatim>\<open>deposit.rs\<close>); waivers are the admin-managed list
  (\<^verbatim>\<open>withdraw.rs\<close>). Of \<open>debit_collateral_balance\<close> only the frame is assumed.
\<close>

locale market_storage =
  fixes A :: "'r market_accessors"
    and view :: "'r \<Rightarrow> market_view"
  assumes checked:
      "ms_get_market A m r = (if v_ready (view r) then Inr (v_markets (view r) m)
         else Inl UpgradeRequired)"
      "ms_get_position A m a r = (if v_ready (view r) then Inr (v_positions (view r) (m, a))
         else Inl UpgradeRequired)"
      "ms_set_position A m a p r = Inr r' \<Longrightarrow> v_ready (view r)
         \<and> view r' = (view r)\<lparr>v_positions := (v_positions (view r))((m, a) \<mapsto> p)\<rparr>"
      "v_ready (view r) \<Longrightarrow> \<exists>r'. ms_set_position A m a p r = Inr r'"
    and reads:
      "ms_is_deposit_locked A r = v_deposit_locked (view r)"
      "ms_get_collateral_balance A a r = v_balance (view r) a"
      "ms_get_market_participants A m r = v_participants (view r) m"
      "ms_get_last_deposit_time A m a r = v_last_deposit (view r) (m, a)"
      "ms_get_fee_rate_bps A r = v_fee_rate (view r)"
      "ms_is_fee_waived A a r = (a \<in> set (v_fee_waivers (view r)))"
      "ms_get_treasury A r = v_treasury (view r)"
      "ms_get_outcome_token_contract A r = v_outcome_token (view r)"
      "ms_is_operator A a b r = ((a, b) \<in> v_operators (view r))"
      "ms_is_request_consumed A a i r = ((a, i) \<in> v_consumed (view r))"
      "ms_get_emergency_mode A r = v_mode (view r)"
      "ms_get_admin A r = v_admin (view r)"
      "ms_get_fee_waivers A r = v_fee_waivers (view r)"
      "ms_has_oracle_adapters A r = v_adapters (view r)"
      "ms_is_adapter_enabled A ty r = v_adapter_enabled (view r) ty"
      "ms_get_market_adapter_config A m r = v_adapter_config (view r) m"
      "ms_get_reconciliation_record A k r = v_reconciled (view r) k"
    and writes:
      "view (ms_set_deposit_locked A locked r) = (view r)\<lparr>v_deposit_locked := locked\<rparr>"
      "view (ms_set_collateral_balance A a n r) =
         (view r)\<lparr>v_balance := (v_balance (view r))(a := n)\<rparr>"
      "view (ms_add_market_participant A m a r) =
         (if a \<in> set (v_participants (view r) m) then view r
          else (view r)\<lparr>v_participants :=
            (v_participants (view r))(m := v_participants (view r) m @ [a])\<rparr>)"
      "view (ms_set_last_deposit_time A m a t r) =
         (view r)\<lparr>v_last_deposit := (v_last_deposit (view r))((m, a) \<mapsto> t)\<rparr>"
      "view (ms_mark_request_consumed A a i r) =
         (view r)\<lparr>v_consumed := insert (a, i) (v_consumed (view r))\<rparr>"
      "view (ms_set_fee_waivers A l r) = (view r)\<lparr>v_fee_waivers := l\<rparr>"
      "view (ms_set_reconciliation_record A k m a r) =
         (view r)\<lparr>v_reconciled := (v_reconciled (view r))(k \<mapsto> (m, a))\<rparr>"
    and debit:
      "ms_debit_collateral_balance A a n r = Some r' \<Longrightarrow>
         \<exists>b. view r' = (view r)\<lparr>v_balance := (v_balance (view r))(a := b)\<rparr>"

text \<open>The position the modules work on: a fresh one when none is stored.\<close>

definition position_in :: "market_view \<Rightarrow> u32 \<Rightarrow> address \<Rightarrow> position" where
  "position_in v m a = (case v_positions v (m, a) of None \<Rightarrow> new_empty m a | Some p \<Rightarrow> p)"

context market_storage
begin

abbreviation V :: "('x, 'r) market_state \<Rightarrow> market_view" where
  "V s \<equiv> view (store s)"

abbreviation position_of :: "('x, 'r) market_state \<Rightarrow> u32 \<Rightarrow> address \<Rightarrow> position" where
  "position_of s m a \<equiv> position_in (V s) m a"

lemma get_market_Inr: "ms_get_market A m r = Inr x \<longleftrightarrow> v_ready (view r) \<and> x = v_markets (view r) m"
  by (auto simp: checked)

lemma get_position_Inr:
  "ms_get_position A m a r = Inr x \<longleftrightarrow> v_ready (view r) \<and> x = v_positions (view r) (m, a)"
  by (auto simp: checked)

lemmas accessor_laws = get_market_Inr get_position_Inr reads writes

lemma set_position_Inr:
  "ms_set_position A m a p r = Inr r' \<Longrightarrow>
     view r' = (view r)\<lparr>v_positions := (v_positions (view r))((m, a) \<mapsto> p)\<rparr>"
  by (blast dest: checked(3))

end

section \<open>A direct store\<close>

text \<open>Accessors that keep the view itself; a debit beyond the balance traps.\<close>

definition direct_market :: "market_view market_accessors" where
  "direct_market = \<lparr>
     ms_get_market = (\<lambda>m r. if v_ready r then Inr (v_markets r m) else Inl UpgradeRequired),
     ms_get_position =
       (\<lambda>m a r. if v_ready r then Inr (v_positions r (m, a)) else Inl UpgradeRequired),
     ms_set_position = (\<lambda>m a p r. if v_ready r
       then Inr (r\<lparr>v_positions := (v_positions r)((m, a) \<mapsto> p)\<rparr>) else Inl UpgradeRequired),
     ms_is_deposit_locked = v_deposit_locked,
     ms_set_deposit_locked = (\<lambda>b r. r\<lparr>v_deposit_locked := b\<rparr>),
     ms_get_collateral_balance = (\<lambda>a r. v_balance r a),
     ms_set_collateral_balance = (\<lambda>a n r. r\<lparr>v_balance := (v_balance r)(a := n)\<rparr>),
     ms_debit_collateral_balance = (\<lambda>a n r. if n \<le> v_balance r a
       then Some (r\<lparr>v_balance := (v_balance r)(a := v_balance r a - n)\<rparr>) else None),
     ms_add_market_participant = (\<lambda>m a r. if a \<in> set (v_participants r m) then r
       else r\<lparr>v_participants := (v_participants r)(m := v_participants r m @ [a])\<rparr>),
     ms_get_market_participants = (\<lambda>m r. v_participants r m),
     ms_set_last_deposit_time =
       (\<lambda>m a t r. r\<lparr>v_last_deposit := (v_last_deposit r)((m, a) \<mapsto> t)\<rparr>),
     ms_get_last_deposit_time = (\<lambda>m a r. v_last_deposit r (m, a)),
     ms_get_fee_rate_bps = v_fee_rate,
     ms_is_fee_waived = (\<lambda>a r. a \<in> set (v_fee_waivers r)),
     ms_get_treasury = v_treasury,
     ms_get_outcome_token_contract = v_outcome_token,
     ms_is_operator = (\<lambda>a b r. (a, b) \<in> v_operators r),
     ms_is_request_consumed = (\<lambda>a i r. (a, i) \<in> v_consumed r),
     ms_mark_request_consumed = (\<lambda>a i r. r\<lparr>v_consumed := insert (a, i) (v_consumed r)\<rparr>),
     ms_get_emergency_mode = v_mode,
     ms_get_admin = v_admin,
     ms_get_fee_waivers = v_fee_waivers,
     ms_set_fee_waivers = (\<lambda>l r. r\<lparr>v_fee_waivers := l\<rparr>),
     ms_max_fee_waivers = 2,
     ms_max_batch_settle_size = 100,
     ms_has_oracle_adapters = v_adapters,
     ms_is_adapter_enabled = (\<lambda>ty r. v_adapter_enabled r ty),
     ms_get_market_adapter_config = (\<lambda>m r. v_adapter_config r m),
     ms_get_reconciliation_record = (\<lambda>i r. v_reconciled r i),
     ms_set_reconciliation_record =
       (\<lambda>i m a r. r\<lparr>v_reconciled := (v_reconciled r)(i \<mapsto> (m, a))\<rparr>)\<rparr>"

definition empty_view :: market_view where
  "empty_view = \<lparr>v_ready = True, v_markets = (\<lambda>_. None), v_positions = (\<lambda>_. None),
     v_deposit_locked = False, v_balance = (\<lambda>_. 0), v_participants = (\<lambda>_. []),
     v_last_deposit = (\<lambda>_. None), v_fee_rate = 0, v_fee_waivers = [], v_treasury = None,
     v_outcome_token = None, v_operators = {}, v_consumed = {}, v_mode = Normal, v_admin = None,
     v_adapters = False, v_adapter_enabled = (\<lambda>_. False), v_adapter_config = (\<lambda>_. None),
     v_reconciled = (\<lambda>_. None)\<rparr>"

interpretation market_direct: market_storage direct_market "\<lambda>r. r"
  by unfold_locales (auto simp: direct_market_def split: if_splits)

end
