(* ===== verification/Market_Funds.thy ===== *)
theory Market_Funds
  imports Market_Storage Market_Validation
begin

text \<open>
  Money into and out of a market: \<^verbatim>\<open>contracts/market/src/deposit.rs\<close> and
  \<^verbatim>\<open>withdraw.rs\<close>. The contracts the market calls (collateral tokens, the treasury's
  \<open>collect_fee\<close>) are parameters.
\<close>

section \<open>deposit.rs\<close>

definition deposit_guard_acquire :: "'r market_accessors \<Rightarrow> ('x, 'r, unit) mcontract" where
  "deposit_guard_acquire A =
     bind (read_store (ms_is_deposit_locked A)) (\<lambda>locked.
     andthen (ensure (\<not> locked) ReentrantCall)
     (write_store (ms_set_deposit_locked A True)))"

definition deposit_guard_drop :: "'r market_accessors \<Rightarrow> ('x, 'r) market_state
    \<Rightarrow> ('x, 'r) market_state" where
  "deposit_guard_drop A s = s\<lparr>store := ms_set_deposit_locked A False (store s)\<rparr>"

definition deposit_body :: "env \<Rightarrow> 'r market_accessors \<Rightarrow> 'x token_client \<Rightarrow> address \<Rightarrow> u32
    \<Rightarrow> i128 \<Rightarrow> ('x, 'r, unit) mcontract" where
  "deposit_body E A T user market_id amount =
     andthen (ensure (\<not> amount \<le> 0) InvalidQuantity)
     (andthen (try_result (validate_collateral_amount amount))
     (bind (try_read (ms_get_market A market_id)) (\<lambda>found.
     bind (ok_or found MarketNotFound) (\<lambda>market.
     andthen (ensure (\<not> mkt_status market \<noteq> MarketActive) MarketNotActive)
     (andthen (ensure (\<not> mkt_closed_to_deposits market) market_error.MarketClosedToDeposits)
     (andthen (ensure (\<not> ledger_timestamp E \<ge> mkt_end_time market) MarketExpired)
     (bind (read_store (ms_get_collateral_balance A user)) (\<lambda>collateral_balance.
     bind (ok_or (checked_add collateral_balance amount) ArithmeticOverflow) (\<lambda>new_balance.
     andthen (write_store (ms_set_collateral_balance A user new_balance))
     (bind (try_read (ms_get_position A market_id user)) (\<lambda>stored.
     let position = case stored of None \<Rightarrow> new_empty market_id user | Some p \<Rightarrow> p in
     bind (ok_or (checked_add (pos_total_deposited position) amount) ArithmeticOverflow)
       (\<lambda>total_deposited.
     let position' = position\<lparr>pos_total_deposited := total_deposited\<rparr> in
     andthen (try_write (ms_set_position A market_id user position'))
     (andthen (write_store (ms_add_market_participant A market_id user))
     (andthen (write_store (ms_set_last_deposit_time A market_id user (ledger_timestamp E)))
     (andthen (token_transfer T (mkt_collateral_token market) user (current_contract_address E)
       amount)
     (mkt_emit_collateral_deposited E user market_id amount total_deposited))))))))))))))))"

definition deposit_collateral :: "env \<Rightarrow> 'r market_accessors \<Rightarrow> 'x token_client \<Rightarrow> address
    \<Rightarrow> u32 \<Rightarrow> i128 \<Rightarrow> ('x, 'r, unit) mcontract" where
  "deposit_collateral E A T user market_id amount =
     andthen (require_auth E user)
     (andthen (require_mode A [Normal])
     (andthen (deposit_guard_acquire A)
     (dropping (deposit_guard_drop A) (deposit_body E A T user market_id amount))))"

section \<open>withdraw.rs\<close>

definition withdraw_cooldown_seconds :: u64 where "withdraw_cooldown_seconds = 3600"
definition large_withdraw_threshold :: i128 where "large_withdraw_threshold = 10000000000000"

text \<open>
  The treasury's \<open>collect_fee\<close>: treasury, caller, token, market id and amount; a failure there
  traps the market.
\<close>

type_synonym 'x fee_sink = "address \<Rightarrow> address \<Rightarrow> address \<Rightarrow> u32 \<Rightarrow> i128 \<Rightarrow> 'x
    \<Rightarrow> (unit \<times> 'x) option"

definition cooldown_check :: "env \<Rightarrow> 'r market_accessors \<Rightarrow> u32 \<Rightarrow> address
    \<Rightarrow> ('x, 'r, unit) mcontract" where
  "cooldown_check E A market_id user =
     bind (read_store (ms_get_last_deposit_time A market_id user)) (\<lambda>last. case last of
       None \<Rightarrow> return ()
     | Some last_deposit_time \<Rightarrow>
         ensure (\<not> ledger_timestamp E - last_deposit_time < withdraw_cooldown_seconds)
           WithdrawCooldownActive)"

definition withdraw_fee :: "'r market_accessors \<Rightarrow> address \<Rightarrow> i128 \<Rightarrow> ('x, 'r, i128) mcontract"
  where "withdraw_fee A user amount =
     bind (read_store (ms_get_fee_rate_bps A)) (\<lambda>fee_rate_bps.
     andthen (try_result (validate_fee_rate_bps fee_rate_bps))
     (bind (read_store (ms_is_fee_waived A user)) (\<lambda>waived.
     if fee_rate_bps > 0 \<and> \<not> waived then try_result (calculate_fee amount fee_rate_bps)
     else return 0)))"

definition route_fee :: "env \<Rightarrow> 'r market_accessors \<Rightarrow> 'x token_client \<Rightarrow> 'x fee_sink \<Rightarrow> market
    \<Rightarrow> address \<Rightarrow> u32 \<Rightarrow> i128 \<Rightarrow> ('x, 'r, unit) mcontract" where
  "route_fee E A T F market user market_id fee_amount =
     when_do (fee_amount > 0)
       (bind (read_store (ms_get_treasury A)) (\<lambda>treasury. case treasury of
         Some treasury_addr \<Rightarrow>
           andthen (token_transfer T (mkt_collateral_token market) (current_contract_address E)
             treasury_addr fee_amount)
           (invoke_contract (F treasury_addr (current_contract_address E)
             (mkt_collateral_token market) market_id fee_amount))
       | None \<Rightarrow> mkt_emit_fee_retained_no_treasury E market_id user fee_amount))"

text \<open>Steps 7 to 9: persist, debit, route the fee, pay the user.\<close>

definition withdraw_payout :: "env \<Rightarrow> 'r market_accessors \<Rightarrow> 'x token_client \<Rightarrow> 'x fee_sink
    \<Rightarrow> market \<Rightarrow> address \<Rightarrow> u32 \<Rightarrow> i128 \<Rightarrow> position \<Rightarrow> i128 \<Rightarrow> ('x, 'r, unit) mcontract" where
  "withdraw_payout E A T F market user market_id amount position fee_amount =
     bind (ok_or (checked_add amount fee_amount) ArithmeticOverflow) (\<lambda>total_deducted.
     bind (ok_or (checked_sub (pos_total_deposited position) total_deducted) ArithmeticOverflow)
       (\<lambda>total_deposited.
     let position' = position\<lparr>pos_total_deposited := total_deposited\<rparr> in
     andthen (try_write (ms_set_position A market_id user position'))
     (andthen (trap_write (ms_debit_collateral_balance A user total_deducted))
     (andthen (route_fee E A T F market user market_id fee_amount)
     (andthen (token_transfer T (mkt_collateral_token market) (current_contract_address E) user
       amount)
     (andthen (mkt_emit_collateral_withdrawn E user market_id amount total_deposited)
     (when_do (amount \<ge> large_withdraw_threshold)
       (mkt_emit_large_withdraw E user market_id amount (ledger_timestamp E)))))))))"

definition withdraw_unused_collateral :: "env \<Rightarrow> 'r market_accessors \<Rightarrow> 'x token_client
    \<Rightarrow> 'x fee_sink \<Rightarrow> address \<Rightarrow> u32 \<Rightarrow> i128 \<Rightarrow> ('x, 'r, unit) mcontract" where
  "withdraw_unused_collateral E A T F user market_id amount =
     andthen (require_auth E user)
     (andthen (require_mode A [Normal, TradingHalted, SettleOnly])
     (andthen (try_result (validate_collateral_amount amount))
     (bind (try_read (ms_get_market A market_id)) (\<lambda>found.
     bind (ok_or found MarketNotFound) (\<lambda>market.
     andthen (ensure (\<not> mkt_status market \<noteq> MarketActive) MarketNotActive)
     (andthen (cooldown_check E A market_id user)
     (bind (try_read (ms_get_position A market_id user)) (\<lambda>stored.
     let position = case stored of None \<Rightarrow> new_empty market_id user | Some p \<Rightarrow> p in
     andthen (when_do (pos_total_deposited position = 0)
       (andthen (mkt_emit_withdraw_edge_case E user market_id amount)
        (throw InsufficientCollateral)))
     (bind (withdraw_fee A user amount) (\<lambda>fee_amount.
     let available = saturating_sub (pos_total_deposited position) (pos_locked_collateral position)
     in
     andthen (when_do (fee_amount > 0)
       (mkt_emit_fee_calculated E market_id user fee_amount available))
     (bind (ok_or (checked_add amount fee_amount) ArithmeticOverflow) (\<lambda>total_required.
     andthen (ensure (\<not> total_required > available) InsufficientCollateral)
     (withdraw_payout E A T F market user market_id amount position fee_amount)))))))))))))"

section \<open>Deposits\<close>

text \<open>The participant list after registering \<open>a\<close>.\<close>

definition enrol :: "address \<Rightarrow> address list \<Rightarrow> address list" where
  "enrol a l = (if a \<in> set l then l else l @ [a])"

text \<open>What the route of a fee does outside the market.\<close>

definition fee_routed :: "env \<Rightarrow> 'x token_client \<Rightarrow> 'x fee_sink \<Rightarrow> market \<Rightarrow> u32 \<Rightarrow> i128
    \<Rightarrow> address option \<Rightarrow> 'x \<Rightarrow> 'x \<Rightarrow> bool" where
  "fee_routed E T F mk m fee treasury x x' \<longleftrightarrow> (if fee > 0 then (case treasury of
       None \<Rightarrow> x' = x
     | Some ta \<Rightarrow> \<exists>y. tok_transfer T (mkt_collateral_token mk) (current_contract_address E) ta fee x
           = Some ((), y)
         \<and> F ta (current_contract_address E) (mkt_collateral_token mk) m fee y = Some ((), x'))
     else x' = x)"

text \<open>The first guard of a deposit that fails, in the order of the code.\<close>

definition deposit_refusal :: "env \<Rightarrow> market_view \<Rightarrow> u32 \<Rightarrow> i128 \<Rightarrow> market_error option" where
  "deposit_refusal E v m n =
     (if v_mode v \<noteq> Normal then Some EmergencyModeActive
      else if v_deposit_locked v then Some ReentrantCall
      else if n \<le> 0 \<or> max_reasonable_amount < n then Some InvalidQuantity
      else if \<not> v_ready v then Some market_error.UpgradeRequired
      else case v_markets v m of
          None \<Rightarrow> Some MarketNotFound
        | Some mk \<Rightarrow>
            if mkt_status mk \<noteq> MarketActive then Some MarketNotActive
            else if mkt_closed_to_deposits mk then Some market_error.MarketClosedToDeposits
            else if mkt_end_time mk \<le> ledger_timestamp E then Some MarketExpired
            else None)"

text \<open>The fee a withdrawal owes.\<close>

definition fee_due :: "market_view \<Rightarrow> address \<Rightarrow> i128 \<Rightarrow> i128" where
  "fee_due v user n = (if 0 < v_fee_rate v \<and> user \<notin> set (v_fee_waivers v)
     then n * v_fee_rate v div 10000 else 0)"

context market_storage
begin

lemma add_participant_view:
  "view (ms_add_market_participant A m a r) =
     (view r)\<lparr>v_participants := (v_participants (view r))(m := enrol a (v_participants (view r) m))\<rparr>"
  by (simp add: writes enrol_def)

lemma deposit_ok:
  assumes "deposit_collateral E A T user m n s = (Ok u, s')"
  obtains mk where "v_markets (V s) m = Some mk" "mkt_status mk = MarketActive"
    "\<not> mkt_closed_to_deposits mk" "ledger_timestamp E < mkt_end_time mk"
    "authorized E user" "v_mode (V s) = Normal" "\<not> v_deposit_locked (V s)"
    "0 < n" "n \<le> max_reasonable_amount"
    "in_i128 (v_balance (V s) user + n)" "in_i128 (pos_total_deposited (position_of s m user) + n)"
    "V s' = (V s)\<lparr>v_deposit_locked := False,
       v_balance := (v_balance (V s))(user := v_balance (V s) user + n),
       v_positions := (v_positions (V s))((m, user) \<mapsto> (position_of s m user)
         \<lparr>pos_total_deposited := pos_total_deposited (position_of s m user) + n\<rparr>),
       v_participants := (v_participants (V s))(m := enrol user (v_participants (V s) m)),
       v_last_deposit := (v_last_deposit (V s))((m, user) \<mapsto> ledger_timestamp E)\<rparr>"
    "tok_transfer T (mkt_collateral_token mk) user (current_contract_address E) n (ext s)
       = Some ((), ext s')"
    "events s' = events s @ [CollateralDeposited event_version user m n
       (pos_total_deposited (position_of s m user) + n)]"
proof -
  from assms obtain t where auth: "authorized E user" and mode: "v_mode (V s) = Normal"
    and free: "\<not> v_deposit_locked (V s)"
    and body: "deposit_body E A T user m n (s\<lparr>store := ms_set_deposit_locked A True (store s)\<rparr>)
      = (Ok (), t)"
    and s': "s' = deposit_guard_drop A t"
    by (auto simp: deposit_collateral_def deposit_guard_acquire_def ok_iff reads)
  have pos: "position_of (s\<lparr>store := ms_set_deposit_locked A True (store s)\<rparr>) m user
      = position_of s m user"
    by (simp add: position_in_def writes)
  from body obtain mk r where mk: "v_markets (V s) m = Some mk" "mkt_status mk = MarketActive"
      "\<not> mkt_closed_to_deposits mk" "ledger_timestamp E < mkt_end_time mk"
    and n: "0 < n" "n \<le> max_reasonable_amount"
    and fits: "in_i128 (v_balance (V s) user + n)"
      "in_i128 (pos_total_deposited (position_of s m user) + n)"
    and r: "ms_set_position A m user ((position_of s m user)
        \<lparr>pos_total_deposited := pos_total_deposited (position_of s m user) + n\<rparr>)
        (ms_set_collateral_balance A user (v_balance (V s) user + n)
          (ms_set_deposit_locked A True (store s))) = Inr r"
    and st: "store t = ms_set_last_deposit_time A m user (ledger_timestamp E)
        (ms_add_market_participant A m user r)"
    and tok: "tok_transfer T (mkt_collateral_token mk) user (current_contract_address E) n (ext s)
       = Some ((), ext t)"
    and ev: "events t = events s @ [CollateralDeposited event_version user m n
       (pos_total_deposited (position_of s m user) + n)]"
    by (auto simp: deposit_body_def ok_iff accessor_laws Let_def checked_arith_Some
        validate_collateral_amount_def validate_amount_positive_def validate_amount_reasonable_def
        mkt_emit_collateral_deposited_def position_in_def not_le)
  have "V s' = (view r)\<lparr>v_deposit_locked := False,
      v_participants := (v_participants (view r))(m := enrol user (v_participants (view r) m)),
      v_last_deposit := (v_last_deposit (view r))((m, user) \<mapsto> ledger_timestamp E)\<rparr>"
    by (simp add: s' deposit_guard_drop_def st writes(1,4) add_participant_view)
  then have "V s' = (V s)\<lparr>v_deposit_locked := False,
       v_balance := (v_balance (V s))(user := v_balance (V s) user + n),
       v_positions := (v_positions (V s))((m, user) \<mapsto> (position_of s m user)
         \<lparr>pos_total_deposited := pos_total_deposited (position_of s m user) + n\<rparr>),
       v_participants := (v_participants (V s))(m := enrol user (v_participants (V s) m)),
       v_last_deposit := (v_last_deposit (V s))((m, user) \<mapsto> ledger_timestamp E)\<rparr>"
    by (simp add: set_position_Inr[OF r] writes)
  with that[OF mk auth mode free n fits] tok ev show ?thesis
    by (simp add: s' deposit_guard_drop_def)
qed

lemma withdraw_fee_ok:
  assumes "withdraw_fee A user n s = (Ok fee, s')" and "0 < n"
  shows "s' = s" and "0 \<le> v_fee_rate (V s)" and "v_fee_rate (V s) \<le> 10000"
    and "fee = fee_due (V s) user n" and "0 \<le> fee" and "fee \<le> n"
proof -
  from assms(1) show "s' = s" and r: "0 \<le> v_fee_rate (V s)" "v_fee_rate (V s) \<le> 10000"
    by (auto simp: withdraw_fee_def ok_iff reads validate_fee_rate_bps_def validate_market_price_def
        split: if_splits)
  have f: "fee = fee_due (V s) user n \<and> 0 \<le> fee_due (V s) user n \<and> fee_due (V s) user n \<le> n"
  proof (cases "0 < v_fee_rate (V s) \<and> user \<notin> set (v_fee_waivers (V s))")
    case True
    with assms(1) have "calculate_fee n (v_fee_rate (V s)) = Inr fee"
      by (auto simp: withdraw_fee_def ok_iff reads)
    with fee_value[OF assms(2) r] True show ?thesis
      by (auto simp: fee_due_def split: if_splits)
  next
    case False
    with assms show ?thesis
      by (auto simp: withdraw_fee_def ok_iff reads fee_due_def split: if_splits)
  qed
  then show "fee = fee_due (V s) user n" "0 \<le> fee" "fee \<le> n" by simp_all
qed

lemma route_fee_ok:
  assumes "route_fee E A T F mk user m fee s = (Ok u, s')"
  shows "store s' = store s" and "fee_routed E T F mk m fee (v_treasury (V s)) (ext s) (ext s')"
  using assms by (auto simp: route_fee_def ok_iff reads fee_routed_def
      mkt_emit_fee_retained_no_treasury_def split: option.splits if_splits)

lemma withdraw_payout_ok:
  assumes "withdraw_payout E A T F mk user m n p fee s = (Ok u, s')"
  obtains x b where
    "V s' = (V s)\<lparr>v_balance := (v_balance (V s))(user := b), v_positions := (v_positions (V s))
       ((m, user) \<mapsto> p\<lparr>pos_total_deposited := pos_total_deposited p - (n + fee)\<rparr>)\<rparr>"
    "fee_routed E T F mk m fee (v_treasury (V s)) (ext s) x"
    "tok_transfer T (mkt_collateral_token mk) (current_contract_address E) user n x
       = Some ((), ext s')"
proof -
  from assms obtain r r' t where
      set: "ms_set_position A m user
        (p\<lparr>pos_total_deposited := pos_total_deposited p - (n + fee)\<rparr>) (store s) = Inr r"
    and deb: "ms_debit_collateral_balance A user (n + fee) r = Some r'"
    and route: "route_fee E A T F mk user m fee (s\<lparr>store := r'\<rparr>) = (Ok (), t)"
    and pay: "tok_transfer T (mkt_collateral_token mk) (current_contract_address E) user n (ext t)
        = Some ((), ext s')"
    and st: "store s' = store t"
    unfolding withdraw_payout_def Let_def mkt_emit_collateral_withdrawn_def
      mkt_emit_large_withdraw_def
    by (auto simp: ok_iff when_emit_ok checked_arith_Some simp del: when_do_ok)
  from debit[OF deb] obtain b where "view r' = (view r)\<lparr>v_balance := (v_balance (view r))(user := b)\<rparr>"
    by blast
  then have V: "view r' = (V s)\<lparr>v_balance := (v_balance (V s))(user := b),
      v_positions := (v_positions (V s))
       ((m, user) \<mapsto> p\<lparr>pos_total_deposited := pos_total_deposited p - (n + fee)\<rparr>)\<rparr>"
    by (simp add: set_position_Inr[OF set])
  have "store t = r'" using route_fee_ok(1)[OF route] by simp
  with V st have "V s' = (V s)\<lparr>v_balance := (v_balance (V s))(user := b),
      v_positions := (v_positions (V s))
       ((m, user) \<mapsto> p\<lparr>pos_total_deposited := pos_total_deposited p - (n + fee)\<rparr>)\<rparr>"
    by simp
  moreover have "fee_routed E T F mk m fee (v_treasury (V s)) (ext s) (ext t)"
    using route_fee_ok(2)[OF route] V by simp
  ultimately show ?thesis using that pay by blast
qed

lemma cooldown_check_ok:
  "cooldown_check E A m user s = (Ok u, s') \<longleftrightarrow> s' = s \<and>
     (\<forall>t. v_last_deposit (V s) (m, user) = Some t \<longrightarrow>
        withdraw_cooldown_seconds \<le> ledger_timestamp E - t)"
  by (auto simp: cooldown_check_def ok_iff reads split: option.splits)

lemma available_covers:
  assumes "k \<le> saturating_sub a b" and "0 < k" shows "k \<le> a - b"
  using assms by (auto simp: saturating_sub_def clamp_i128_def i128_numerals split: if_splits)

lemma withdraw_ok:
  assumes "withdraw_unused_collateral E A T F user m n s = (Ok u, s')"
  obtains mk x b where "v_markets (V s) m = Some mk" "mkt_status mk = MarketActive"
    "authorized E user" "v_mode (V s) \<noteq> GlobalFreeze" "0 < n"
    "\<forall>t. v_last_deposit (V s) (m, user) = Some t \<longrightarrow> withdraw_cooldown_seconds \<le> ledger_timestamp E - t"
    "0 \<le> fee_due (V s) user n" "fee_due (V s) user n \<le> n"
    "n + fee_due (V s) user n \<le> pos_total_deposited (position_of s m user)
       - pos_locked_collateral (position_of s m user)"
    "V s' = (V s)\<lparr>v_balance := (v_balance (V s))(user := b),
       v_positions := (v_positions (V s))((m, user) \<mapsto> (position_of s m user)
         \<lparr>pos_total_deposited :=
            pos_total_deposited (position_of s m user) - (n + fee_due (V s) user n)\<rparr>)\<rparr>"
    "fee_routed E T F mk m (fee_due (V s) user n) (v_treasury (V s)) (ext s) x"
    "tok_transfer T (mkt_collateral_token mk) (current_contract_address E) user n x
       = Some ((), ext s')"
proof -
  let ?p = "position_of s m user"
  from assms obtain mk fee s1 t where
      mk: "v_markets (V s) m = Some mk" "mkt_status mk = MarketActive"
    and auth: "authorized E user"
    and mode: "v_mode (V s) \<in> {Normal, TradingHalted, SettleOnly}" and n: "0 < n"
    and cool: "\<forall>t. v_last_deposit (V s) (m, user) = Some t
        \<longrightarrow> withdraw_cooldown_seconds \<le> ledger_timestamp E - t"
    and fee: "withdraw_fee A user n s = (Ok fee, s1)"
    and pay: "withdraw_payout E A T F mk user m n ?p fee t = (Ok (), s')"
    and t: "store t = store s1" "ext t = ext s1"
    and avail: "n + fee \<le> saturating_sub (pos_total_deposited ?p) (pos_locked_collateral ?p)"
    unfolding withdraw_unused_collateral_def Let_def
    by (auto simp: ok_iff accessor_laws validate_collateral_amount_def cooldown_check_ok
        validate_amount_positive_def checked_arith_Some mkt_emit_fee_calculated_def
        simp flip: position_in_def split: if_splits)
  note f = withdraw_fee_ok[OF fee n]
  have V: "V t = V s" "ext t = ext s" using t f(1) by simp_all
  from pay obtain x b where out:
    "V s' = (V s)\<lparr>v_balance := (v_balance (V s))(user := b), v_positions := (v_positions (V s))
       ((m, user) \<mapsto> ?p\<lparr>pos_total_deposited := pos_total_deposited ?p - (n + fee)\<rparr>)\<rparr>"
    "fee_routed E T F mk m fee (v_treasury (V s)) (ext s) x"
    "tok_transfer T (mkt_collateral_token mk) (current_contract_address E) user n x
       = Some ((), ext s')" unfolding V[symmetric] by (rule withdraw_payout_ok)
  have le: "n + fee \<le> pos_total_deposited ?p - pos_locked_collateral ?p"
    using avail n f(5) by (intro available_covers) auto
  from mode have mode: "v_mode (V s) \<noteq> GlobalFreeze" by auto
  show ?thesis
    by (rule that[OF mk auth mode n cool f(5,6)[unfolded f(4)] le[unfolded f(4)]
          out[unfolded f(4)]])
qed

text \<open>What a failing guard makes of the body, once the reentrancy lock is taken.\<close>

lemma deposit_body_refused:
  assumes "deposit_refusal E v m n = Some e" and "v_mode v = Normal" "\<not> v_deposit_locked v"
    and "V s = v\<lparr>v_deposit_locked := True\<rparr>"
  shows "deposit_body E A T a m n s = (Err e, s)"
  using assms
  by (auto simp: deposit_body_def deposit_refusal_def run_simps checked validate_collateral_amount_def
      validate_amount_positive_def validate_amount_reasonable_def check_def try_then_def
      split: option.splits if_splits)

lemma deposit_refused:
  assumes "authorized E a" and e: "deposit_refusal E (V s) m n = Some e"
  shows "\<exists>s'. deposit_collateral E A T a m n s = (Err e, s') \<and> ext s' = ext s \<and> events s' = events s
    \<and> V s' = V s"
proof (cases "v_mode (V s) = Normal \<and> \<not> v_deposit_locked (V s)")
  case True
  let ?s = "s\<lparr>store := ms_set_deposit_locked A True (store s)\<rparr>"
  have "deposit_body E A T a m n ?s = (Err e, ?s)"
    using e True by (intro deposit_body_refused) (auto simp: writes)
  with True assms(1) have "deposit_collateral E A T a m n s = (Err e, deposit_guard_drop A ?s)"
    by (simp add: deposit_collateral_def deposit_guard_acquire_def require_mode_def run_simps reads)
  then show ?thesis using True by (simp add: deposit_guard_drop_def writes)
next
  case False
  with assms show ?thesis
    by (auto simp: deposit_collateral_def deposit_guard_acquire_def require_mode_def run_simps reads
        deposit_refusal_def split: if_splits)
qed

end

end
