(* ===== verification/Market_Positions.thy ===== *)
theory Market_Positions
  imports Market_Storage Market_Validation
begin

text \<open>
  \<^verbatim>\<open>contracts/market/src/positions.rs\<close>: locked collateral, share changes, and the transfer and
  merge of positions. The file breaks off inside the last call of \<open>update_position\<close>, an
  \<open>emit_position_updated\<close> for the market and the user whose share counts and lock cannot be read:
  \<open>update_position_persist\<close> publishes that event with the argument \<open>shown\<close> for them, and returns
  the position as the function's documentation says. Transfer and merge announce their changes by a
  three-argument \<open>emit_position_updated\<close> that \<^verbatim>\<open>events.rs\<close> does not have (its function of that
  name takes six); the event it publishes is the argument \<open>touched\<close>.
\<close>

section \<open>Errors and constants\<close>

datatype position_error =
    ShareBalanceBelowZero
  | InvalidMarketPrice
  | InsufficientProtocolCollateral
  | Unauthorized
  | DuplicateRequest
  | MarketMismatch
  | InvalidPositionState

type_synonym ('x, 'r, 'a) pcontract = "(position_error, 'x, 'r, 'a) mod_contract"

definition basis_points :: i128 where "basis_points = 10000"
definition stroops_per_usdc :: i128 where "stroops_per_usdc = 10000000"

section \<open>Locked collateral\<close>

definition scale_by_bps :: "i128 \<Rightarrow> i128 \<Rightarrow> i128" where
  "scale_by_bps amount price_bps =
     (let product = saturating_mul amount price_bps in
      case checked_div product basis_points of None \<Rightarrow> i128_max | Some result \<Rightarrow> result)"

text \<open>\<open>None\<close> is the overflow trap of a plain subtraction.\<close>

definition calculate_locked_collateral :: "i128 \<Rightarrow> i128 \<Rightarrow> i128 \<Rightarrow> i128 option" where
  "calculate_locked_collateral yes no market_price =
     (if yes = no then Some 0
      else if yes > no then
        map_option (\<lambda>net. scale_by_bps net market_price) (checked_sub yes no)
      else
        Option.bind (checked_sub no yes) (\<lambda>net.
        map_option (\<lambda>q. scale_by_bps net q) (checked_sub basis_points market_price)))"

definition calculate_net_position :: "i128 \<Rightarrow> i128 \<Rightarrow> i128 option" where
  "calculate_net_position yes no = checked_sub yes no"

definition can_settle :: "position \<Rightarrow> market \<Rightarrow> bool" where
  "can_settle position market \<longleftrightarrow> mkt_status market = market_status.MarketResolved \<and> \<not> pos_is_settled position"

definition check_protocol_collateral :: "i128 \<Rightarrow> i128 \<Rightarrow> i128 \<Rightarrow> position_error + unit" where
  "check_protocol_collateral prospective_locked collateral_balance locked_elsewhere =
     check (\<not> saturating_add prospective_locked locked_elsewhere > collateral_balance)
       InsufficientProtocolCollateral"

section \<open>Share changes\<close>

definition validate_position_change :: "position \<Rightarrow> i128 \<Rightarrow> i128
    \<Rightarrow> (position_error, 's, unit) contract" where
  "validate_position_change current yes_delta no_delta =
     bind (add_i128 (pos_yes_shares current) yes_delta) (\<lambda>new_yes.
     bind (add_i128 (pos_no_shares current) no_delta) (\<lambda>new_no.
     ensure (\<not> (new_yes < 0 \<or> new_no < 0)) ShareBalanceBelowZero))"

definition position_limit_exceeded_side :: "position \<Rightarrow> i128 \<Rightarrow> i128
    \<Rightarrow> (position_error, 's, bool) contract" where
  "position_limit_exceeded_side current yes_delta no_delta =
     bind (add_i128 (pos_yes_shares current) yes_delta) (\<lambda>new_yes.
     bind (add_i128 (pos_no_shares current) no_delta) (\<lambda>new_no.
     return (new_yes < 0 \<or> (new_no < 0 \<and> new_yes \<ge> 0))))"

definition require_price :: "i128 \<Rightarrow> ('x, 'r, unit) pcontract" where
  "require_price market_price = (case validate_market_price market_price of
       Inl _ \<Rightarrow> throw InvalidMarketPrice
     | Inr _ \<Rightarrow> return ())"

definition authorize_position_operator :: "'r market_accessors \<Rightarrow> address \<Rightarrow> address
    \<Rightarrow> ('x, 'r, unit) pcontract" where
  "authorize_position_operator A owner caller =
     (if caller = owner then return ()
      else bind (read_store (ms_is_operator A owner caller)) (\<lambda>approved.
        if approved then return () else throw Unauthorized))"

definition consume_request_id :: "'r market_accessors \<Rightarrow> address \<Rightarrow> u64
    \<Rightarrow> ('x, 'r, unit) pcontract" where
  "consume_request_id A owner request_id =
     bind (read_store (ms_is_request_consumed A owner request_id)) (\<lambda>consumed.
     andthen (ensure (\<not> consumed) DuplicateRequest)
     (write_store (ms_mark_request_consumed A owner request_id)))"

text \<open>Recomputing the lock of a position from its shares.\<close>

definition relock :: "position \<Rightarrow> i128 \<Rightarrow> (position_error, 's, position) contract" where
  "relock p market_price =
     bind (expect (calculate_locked_collateral (pos_yes_shares p) (pos_no_shares p) market_price))
       (\<lambda>locked. return (p\<lparr>pos_locked_collateral := locked\<rparr>))"

section \<open>Transfer, merge and update\<close>

definition transfer_position :: "(u32 \<Rightarrow> address \<Rightarrow> market_event) \<Rightarrow> 'r market_accessors \<Rightarrow> u32
    \<Rightarrow> address \<Rightarrow> address \<Rightarrow> address \<Rightarrow> i128 \<Rightarrow> i128 \<Rightarrow> i128 \<Rightarrow> u64 \<Rightarrow> ('x, 'r, unit) pcontract"
  where "transfer_position touched A market_id from to caller yes no market_price request_id =
     andthen (require_price market_price)
     (andthen (authorize_position_operator A from caller)
     (andthen (consume_request_id A from request_id)
     (andthen (ensure (\<not> (yes < 0 \<or> no < 0)) ShareBalanceBelowZero)
     (bind (peek_position A market_id from) (\<lambda>stored.
     bind (ok_or stored InvalidPositionState) (\<lambda>source.
     andthen (ensure (\<not> pos_is_settled source) InvalidPositionState)
     (andthen (validate_position_change source (- yes) (- no))
     (bind (peek_position A market_id to) (\<lambda>stored'.
     let dest = case stored' of None \<Rightarrow> new_empty market_id to | Some p \<Rightarrow> p in
     andthen (ensure (\<not> pos_is_settled dest) InvalidPositionState)
     (bind (sub_i128 (pos_yes_shares source) yes) (\<lambda>source_yes.
     bind (sub_i128 (pos_no_shares source) no) (\<lambda>source_no.
     bind (add_i128 (pos_yes_shares dest) yes) (\<lambda>dest_yes.
     bind (add_i128 (pos_no_shares dest) no) (\<lambda>dest_no.
     bind (relock (source\<lparr>pos_yes_shares := source_yes, pos_no_shares := source_no\<rparr>) market_price)
       (\<lambda>source'.
     bind (relock (dest\<lparr>pos_yes_shares := dest_yes, pos_no_shares := dest_no\<rparr>) market_price)
       (\<lambda>dest'.
     andthen (poke_position A market_id from source')
     (andthen (poke_position A market_id to dest')
     (andthen (emit (touched market_id from))
     (emit (touched market_id to))))))))))))))))))))"

definition merge_positions :: "(u32 \<Rightarrow> address \<Rightarrow> market_event) \<Rightarrow> 'r market_accessors \<Rightarrow> u32
    \<Rightarrow> address \<Rightarrow> address \<Rightarrow> address \<Rightarrow> address \<Rightarrow> i128 \<Rightarrow> u64 \<Rightarrow> ('x, 'r, unit) pcontract" where
  "merge_positions touched A market_id owner primary other caller market_price request_id =
     andthen (require_price market_price)
     (andthen (authorize_position_operator A owner caller)
     (andthen (consume_request_id A owner request_id)
     (bind (peek_position A market_id primary) (\<lambda>stored.
     bind (ok_or stored InvalidPositionState) (\<lambda>primary_pos.
     bind (peek_position A market_id other) (\<lambda>stored'.
     bind (ok_or stored' InvalidPositionState) (\<lambda>other_pos.
     andthen (ensure (\<not> (pos_is_settled primary_pos \<or> pos_is_settled other_pos))
       InvalidPositionState)
     (bind (add_i128 (pos_yes_shares primary_pos) (pos_yes_shares other_pos)) (\<lambda>yes.
     bind (add_i128 (pos_no_shares primary_pos) (pos_no_shares other_pos)) (\<lambda>no.
     bind (add_i128 (pos_total_deposited primary_pos) (pos_total_deposited other_pos)) (\<lambda>total.
     bind (relock (primary_pos\<lparr>pos_yes_shares := yes, pos_no_shares := no,
       pos_total_deposited := total\<rparr>) market_price) (\<lambda>primary'.
     let other' = other_pos\<lparr>pos_yes_shares := 0, pos_no_shares := 0, pos_locked_collateral := 0,
       pos_total_deposited := 0\<rparr> in
     andthen (poke_position A market_id primary primary')
     (andthen (poke_position A market_id other other')
     (andthen (emit (touched market_id primary))
     (emit (touched market_id other))))))))))))))))"

text \<open>The event of an update, with the three arguments that cannot be read.\<close>

definition announce_update :: "env \<Rightarrow> u32 \<Rightarrow> address \<Rightarrow> i128 \<times> i128 \<times> i128 \<Rightarrow> ('x, 'r, unit) pcontract" where
  "announce_update E market_id user unread = (case unread of (yes_shares, no_shares, locked_collateral) \<Rightarrow>
     mkt_emit_position_updated E market_id user yes_shares no_shares locked_collateral)"

definition update_position_persist :: "env \<Rightarrow> 'r market_accessors \<Rightarrow> (position \<Rightarrow> i128 \<times> i128 \<times> i128)
    \<Rightarrow> u32 \<Rightarrow> address \<Rightarrow> i128 \<Rightarrow> i128 \<Rightarrow> i128 \<Rightarrow> ('x, 'r, position) pcontract" where
  "update_position_persist E A shown market_id user yes_delta no_delta market_price =
     andthen (require_price market_price)
     (bind (peek_position A market_id user) (\<lambda>stored.
     let position = case stored of None \<Rightarrow> new_empty market_id user | Some p \<Rightarrow> p in
     bind (position_limit_exceeded_side position yes_delta no_delta) (\<lambda>side_yes.
     andthen (on_err (validate_position_change position yes_delta no_delta) (\<lambda>e.
       andthen (mkt_emit_position_limit_exceeded E market_id user side_yes) (throw e)))
     (bind (add_i128 (pos_yes_shares position) yes_delta) (\<lambda>yes.
     bind (add_i128 (pos_no_shares position) no_delta) (\<lambda>no.
     bind (relock (position\<lparr>pos_yes_shares := yes, pos_no_shares := no\<rparr>) market_price)
       (\<lambda>position'.
     andthen (poke_position A market_id user position')
     (andthen (announce_update E market_id user (shown position'))
     (return position')))))))))"

definition update_event :: "u32 \<Rightarrow> address \<Rightarrow> i128 \<times> i128 \<times> i128 \<Rightarrow> market_event" where
  "update_event market_id user unread = (case unread of (yes_shares, no_shares, locked_collateral) \<Rightarrow>
     PositionUpdated event_version market_id user yes_shares no_shares locked_collateral)"

lemma announce_update_run:
  "announce_update E m a t s = (Ok (), s\<lparr>events := events s @ [update_event m a t]\<rparr>)"
  by (cases t) (simp add: announce_update_def update_event_def mkt_emit_position_updated_def run_simps)

section \<open>Locked collateral: bounds\<close>

lemma scale_by_bps_value:
  assumes "0 \<le> n" "0 \<le> price"
  shows "scale_by_bps n price = min (n * price) i128_max div 10000"
proof -
  have "0 \<le> n * price" using assms by simp
  then have "saturating_mul n price = min (n * price) i128_max"
    by (auto simp: saturating_mul_def clamp_i128_def i128_numerals min_def)
  moreover have "0 \<le> min (n * price) i128_max"
    using \<open>0 \<le> n * price\<close> by (simp add: i128_numerals)
  moreover have "in_i128 (min (n * price) i128_max div 10000)"
    using calculation(2) unfolding in_i128_def by (auto simp: i128_numerals)
  ultimately show ?thesis
    by (simp add: scale_by_bps_def Let_def checked_div_def basis_points_def sdiv_nonneg)
qed

lemma scale_by_bps_bounds:
  assumes "0 \<le> n" "0 \<le> price" "price \<le> 10000"
  shows "0 \<le> scale_by_bps n price" and "scale_by_bps n price \<le> n"
proof -
  have "n * price \<le> n * 10000" using assms by (intro mult_left_mono) auto
  then have "min (n * price) i128_max div 10000 \<le> n * 10000 div 10000"
    by (intro zdiv_mono1) auto
  then show "scale_by_bps n price \<le> n"
    using assms by (simp add: scale_by_bps_value)
  have "0 \<le> n * price" using assms by simp
  then show "0 \<le> scale_by_bps n price"
    using assms by (simp add: scale_by_bps_value i128_numerals pos_imp_zdiv_nonneg_iff)
qed

lemma locked_collateral_value:
  assumes "0 \<le> yes" "yes \<le> i128_max" "0 \<le> no" "no \<le> i128_max" "0 \<le> price" "price \<le> 10000"
  shows "calculate_locked_collateral yes no price =
     Some (scale_by_bps \<bar>yes - no\<bar> (if no \<le> yes then price else 10000 - price))"
proof -
  have "checked_sub yes no = Some (yes - no)" "checked_sub no yes = Some (no - yes)"
    "checked_sub basis_points price = Some (10000 - price)"
    using assms by (auto simp: checked_sub_def in_i128_def i128_numerals basis_points_def)
  moreover have "scale_by_bps 0 price = 0"
    using assms by (simp add: scale_by_bps_value i128_numerals)
  ultimately show ?thesis
    by (auto simp: calculate_locked_collateral_def abs_if)
qed

section \<open>What the operations do\<close>

text \<open>The contents of a position after a lock recomputation, and a well-formed position.\<close>

definition position_ok :: "u32 \<Rightarrow> address \<Rightarrow> position \<Rightarrow> bool" where
  "position_ok m a p \<longleftrightarrow> pos_market_id p = m \<and> pos_user p = a \<and> position_in_range p
     \<and> 0 \<le> pos_yes_shares p \<and> 0 \<le> pos_no_shares p \<and> 0 \<le> pos_total_deposited p
     \<and> 0 \<le> pos_locked_collateral p
     \<and> pos_locked_collateral p \<le> \<bar>pos_yes_shares p - pos_no_shares p\<bar>"

lemma position_ok_empty [simp]: "position_ok m a (new_empty m a)"
  by (simp add: position_ok_def position_in_range_def in_i128_def i128_numerals)

lemma require_price_ok [ok_iff]:
  "require_price price s = (Ok u, s') \<longleftrightarrow> 0 \<le> price \<and> price \<le> 10000 \<and> s' = s"
  by (auto simp: require_price_def validate_market_price_def check_def ok_iff split: if_splits)

lemma relock_ok [ok_iff]:
  "relock p price s = (Ok p', s') \<longleftrightarrow> (\<exists>l. calculate_locked_collateral (pos_yes_shares p)
     (pos_no_shares p) price = Some l \<and> p' = p\<lparr>pos_locked_collateral := l\<rparr> \<and> s' = s)"
  by (auto simp: relock_def ok_iff)

lemma validate_position_change_ok [ok_iff]:
  "validate_position_change p dy dn s = (Ok u, s') \<longleftrightarrow>
     in_i128 (pos_yes_shares p + dy) \<and> in_i128 (pos_no_shares p + dn)
     \<and> 0 \<le> pos_yes_shares p + dy \<and> 0 \<le> pos_no_shares p + dn \<and> s' = s"
  by (auto simp: validate_position_change_def ok_iff not_less)

lemma position_limit_exceeded_side_ok [ok_iff]:
  "position_limit_exceeded_side p dy dn s = (Ok b, s') \<longleftrightarrow>
     in_i128 (pos_yes_shares p + dy) \<and> in_i128 (pos_no_shares p + dn)
     \<and> b = (pos_yes_shares p + dy < 0 \<or> pos_no_shares p + dn < 0 \<and> 0 \<le> pos_yes_shares p + dy)
     \<and> s' = s"
  by (auto simp: position_limit_exceeded_side_def ok_iff)

text \<open>Relocking yields a well-formed position, whatever the lock was before.\<close>

lemma relocked_position_ok:
  assumes "calculate_locked_collateral (pos_yes_shares p) (pos_no_shares p) price = Some l"
    and "0 \<le> price" "price \<le> 10000"
    and "pos_market_id p = m" "pos_user p = a" "0 \<le> pos_yes_shares p" "0 \<le> pos_no_shares p"
    and "0 \<le> pos_total_deposited p" "in_i128 (pos_yes_shares p)" "in_i128 (pos_no_shares p)"
    and "in_i128 (pos_total_deposited p)"
  shows "position_ok m a (p\<lparr>pos_locked_collateral := l\<rparr>)"
proof -
  let ?net = "\<bar>pos_yes_shares p - pos_no_shares p\<bar>"
  from assms have "l = scale_by_bps ?net
      (if pos_no_shares p \<le> pos_yes_shares p then price else 10000 - price)"
    by (simp add: locked_collateral_value in_i128_def)
  then have l: "0 \<le> l" "l \<le> ?net"
    using assms(2,3) by (auto intro: scale_by_bps_bounds)
  have "?net \<le> i128_max"
    using assms(6,7,9,10) unfolding in_i128_def by (simp add: abs_if)
  with l have "in_i128 l" unfolding in_i128_def by (auto simp: i128_numerals)
  with assms l show ?thesis by (simp add: position_ok_def position_in_range_def)
qed

context market_storage
begin

lemma peek_position_ok [ok_iff]:
  "peek_position A m a s = (Ok p, s') \<longleftrightarrow>
     s' = s \<and> p = (if v_ready (V s) then v_positions (V s) (m, a) else None)"
  by (auto simp: peek_position_def ok_iff checked)

lemma poke_position_ok:
  assumes "poke_position A m a p s = (Ok u, s')" and "v_ready (V s)"
  shows "V s' = (V s)\<lparr>v_positions := (v_positions (V s))((m, a) \<mapsto> p)\<rparr>"
    and "ext s' = ext s" and "events s' = events s"
proof -
  from checked(4)[OF assms(2)] obtain r where r: "ms_set_position A m a p (store s) = Inr r"
    by blast
  with assms(1) have "s' = s\<lparr>store := r\<rparr>" by (simp add: poke_position_def ok_iff)
  with set_position_Inr[OF r]
  show "V s' = (V s)\<lparr>v_positions := (v_positions (V s))((m, a) \<mapsto> p)\<rparr>"
    and "ext s' = ext s" and "events s' = events s"
    by simp_all
qed

lemma poke_two_ok:
  assumes "poke_position A m a p s = (Ok u, t)" and "poke_position A m b q t = (Ok u', s')"
    and "v_ready (V s)"
  shows "V s' = (V s)\<lparr>v_positions := (v_positions (V s))((m, a) \<mapsto> p, (m, b) \<mapsto> q)\<rparr>"
    and "ext s' = ext s" and "events s' = events s"
proof -
  note t = poke_position_ok[OF assms(1,3)]
  from t assms(3) have "v_ready (V t)" by simp
  note s' = poke_position_ok[OF assms(2) this]
  show "V s' = (V s)\<lparr>v_positions := (v_positions (V s))((m, a) \<mapsto> p, (m, b) \<mapsto> q)\<rparr>"
    and "ext s' = ext s" and "events s' = events s"
    by (simp_all add: s' t)
qed

lemma authorize_ok [ok_iff]:
  "authorize_position_operator A owner caller s = (Ok u, s') \<longleftrightarrow>
     (caller = owner \<or> (owner, caller) \<in> v_operators (V s)) \<and> s' = s"
  by (auto simp: authorize_position_operator_def ok_iff reads)

lemma consume_request_id_ok [ok_iff]:
  "consume_request_id A owner i s = (Ok u, s') \<longleftrightarrow>
     (owner, i) \<notin> v_consumed (V s) \<and> s' = s\<lparr>store := ms_mark_request_consumed A owner i (store s)\<rparr>"
  by (auto simp: consume_request_id_def ok_iff reads)

lemma transfer_ok:
  assumes "transfer_position ev A m from to caller yes no price i s = (Ok u, s')"
  obtains src l l' where "v_ready (V s)" "v_positions (V s) (m, from) = Some src"
    "\<not> pos_is_settled src" "\<not> pos_is_settled (position_of s m to)"
    "caller = from \<or> (from, caller) \<in> v_operators (V s)" "(from, i) \<notin> v_consumed (V s)"
    "0 \<le> price" "price \<le> 10000" "0 \<le> yes" "0 \<le> no"
    "yes \<le> pos_yes_shares src" "no \<le> pos_no_shares src"
    "in_i128 (pos_yes_shares (position_of s m to) + yes)"
    "in_i128 (pos_no_shares (position_of s m to) + no)"
    "calculate_locked_collateral (pos_yes_shares src - yes) (pos_no_shares src - no) price = Some l"
    "calculate_locked_collateral (pos_yes_shares (position_of s m to) + yes)
       (pos_no_shares (position_of s m to) + no) price = Some l'"
    "V s' = (V s)\<lparr>v_consumed := insert (from, i) (v_consumed (V s)),
       v_positions := (v_positions (V s))
         ((m, from) \<mapsto> src\<lparr>pos_yes_shares := pos_yes_shares src - yes,
            pos_no_shares := pos_no_shares src - no, pos_locked_collateral := l\<rparr>,
          (m, to) \<mapsto> (position_of s m to)
            \<lparr>pos_yes_shares := pos_yes_shares (position_of s m to) + yes,
             pos_no_shares := pos_no_shares (position_of s m to) + no,
             pos_locked_collateral := l'\<rparr>)\<rparr>"
    "ext s' = ext s" "events s' = events s @ [ev m from, ev m to]"
proof -
  let ?d = "position_of s m to" and ?s = "s\<lparr>store := ms_mark_request_consumed A from i (store s)\<rparr>"
  have pos: "position_of ?s m to = ?d" by (simp add: position_in_def writes)
  from assms obtain src l l' t1 t2 where
      found: "v_positions (V s) (m, from) = Some src"
    and l: "calculate_locked_collateral (pos_yes_shares src - yes) (pos_no_shares src - no) price
        = Some l"
      "calculate_locked_collateral (pos_yes_shares ?d + yes) (pos_no_shares ?d + no) price = Some l'"
    and w1: "poke_position A m from (src\<lparr>pos_yes_shares := pos_yes_shares src - yes,
            pos_no_shares := pos_no_shares src - no, pos_locked_collateral := l\<rparr>) ?s
        = (Ok () :: (position_error, unit) result, t1)"
    and w2: "poke_position A m to (?d\<lparr>pos_yes_shares := pos_yes_shares ?d + yes,
            pos_no_shares := pos_no_shares ?d + no, pos_locked_collateral := l'\<rparr>) t1
        = (Ok () :: (position_error, unit) result, t2)"
    and s': "s' = t2\<lparr>events := events t2 @ [ev m from, ev m to]\<rparr>"
    and src: "v_ready (V s)" "\<not> pos_is_settled src"
    and d: "\<not> pos_is_settled ?d"
    and auth: "caller = from \<or> (from, caller) \<in> v_operators (V s)"
    and id: "(from, i) \<notin> v_consumed (V s)"
    and price: "0 \<le> price" "price \<le> 10000" and amt: "0 \<le> yes" "0 \<le> no"
      "yes \<le> pos_yes_shares src" "no \<le> pos_no_shares src"
    and fits: "in_i128 (pos_yes_shares ?d + yes)" "in_i128 (pos_no_shares ?d + no)"
    unfolding transfer_position_def Let_def
    by (auto simp: ok_iff writes not_less simp flip: position_in_def split: if_splits)
  from src have ready: "v_ready (V ?s)" by (simp add: writes)
  note out = poke_two_ok[OF w1 w2 ready]
  show ?thesis
    by (rule that[OF src(1) found src(2) d auth id price amt fits l])
      (simp_all add: s' out writes)
qed

lemma merge_ok:
  assumes "merge_positions ev A m owner a b caller price i s = (Ok u, s')"
  obtains p q l where "v_ready (V s)" "v_positions (V s) (m, a) = Some p"
    "v_positions (V s) (m, b) = Some q" "\<not> pos_is_settled p" "\<not> pos_is_settled q"
    "caller = owner \<or> (owner, caller) \<in> v_operators (V s)" "(owner, i) \<notin> v_consumed (V s)"
    "0 \<le> price" "price \<le> 10000"
    "in_i128 (pos_yes_shares p + pos_yes_shares q)" "in_i128 (pos_no_shares p + pos_no_shares q)"
    "in_i128 (pos_total_deposited p + pos_total_deposited q)"
    "calculate_locked_collateral (pos_yes_shares p + pos_yes_shares q)
       (pos_no_shares p + pos_no_shares q) price = Some l"
    "V s' = (V s)\<lparr>v_consumed := insert (owner, i) (v_consumed (V s)),
       v_positions := (v_positions (V s))
         ((m, a) \<mapsto> p\<lparr>pos_yes_shares := pos_yes_shares p + pos_yes_shares q,
            pos_no_shares := pos_no_shares p + pos_no_shares q,
            pos_total_deposited := pos_total_deposited p + pos_total_deposited q,
            pos_locked_collateral := l\<rparr>,
          (m, b) \<mapsto> q\<lparr>pos_yes_shares := 0, pos_no_shares := 0, pos_locked_collateral := 0,
            pos_total_deposited := 0\<rparr>)\<rparr>"
    "ext s' = ext s" "events s' = events s @ [ev m a, ev m b]"
proof -
  let ?s = "s\<lparr>store := ms_mark_request_consumed A owner i (store s)\<rparr>"
  from assms obtain p q l t1 t2 where
      found: "v_positions (V s) (m, a) = Some p" "v_positions (V s) (m, b) = Some q"
    and l: "calculate_locked_collateral (pos_yes_shares p + pos_yes_shares q)
       (pos_no_shares p + pos_no_shares q) price = Some l"
    and w1: "poke_position A m a (p\<lparr>pos_yes_shares := pos_yes_shares p + pos_yes_shares q,
            pos_no_shares := pos_no_shares p + pos_no_shares q,
            pos_total_deposited := pos_total_deposited p + pos_total_deposited q,
            pos_locked_collateral := l\<rparr>) ?s = (Ok () :: (position_error, unit) result, t1)"
    and w2: "poke_position A m b (q\<lparr>pos_yes_shares := 0, pos_no_shares := 0,
            pos_locked_collateral := 0, pos_total_deposited := 0\<rparr>) t1
        = (Ok () :: (position_error, unit) result, t2)"
    and s': "s' = t2\<lparr>events := events t2 @ [ev m a, ev m b]\<rparr>"
    and pre: "v_ready (V s)" "\<not> pos_is_settled p" "\<not> pos_is_settled q"
      "caller = owner \<or> (owner, caller) \<in> v_operators (V s)" "(owner, i) \<notin> v_consumed (V s)"
      "0 \<le> price" "price \<le> 10000"
      "in_i128 (pos_yes_shares p + pos_yes_shares q)" "in_i128 (pos_no_shares p + pos_no_shares q)"
      "in_i128 (pos_total_deposited p + pos_total_deposited q)"
    unfolding merge_positions_def Let_def
    by (auto simp: ok_iff writes split: if_splits)
  from pre have ready: "v_ready (V ?s)" by (simp add: writes)
  note out = poke_two_ok[OF w1 w2 ready]
  show ?thesis
    by (rule that[OF pre(1) found pre(2-) l]) (simp_all add: s' out writes)
qed

lemma update_ok:
  assumes "update_position_persist E A shown m a dy dn price s = (Ok p, s')" and "v_ready (V s)"
  obtains l where "0 \<le> price" "price \<le> 10000"
    "0 \<le> pos_yes_shares (position_of s m a) + dy" "0 \<le> pos_no_shares (position_of s m a) + dn"
    "in_i128 (pos_yes_shares (position_of s m a) + dy)"
    "in_i128 (pos_no_shares (position_of s m a) + dn)"
    "calculate_locked_collateral (pos_yes_shares (position_of s m a) + dy)
       (pos_no_shares (position_of s m a) + dn) price = Some l"
    "p = (position_of s m a)\<lparr>pos_yes_shares := pos_yes_shares (position_of s m a) + dy,
       pos_no_shares := pos_no_shares (position_of s m a) + dn, pos_locked_collateral := l\<rparr>"
    "V s' = (V s)\<lparr>v_positions := (v_positions (V s))((m, a) \<mapsto> p)\<rparr>"
    "ext s' = ext s" "events s' = events s @ [update_event m a (shown p)]"
proof -
  let ?p = "position_of s m a"
  have on_err: "on_err m h t = (Ok v, t') \<longleftrightarrow> m t = (Ok v, t') \<or> (\<exists>e t''. m t = (Err e, t'')
      \<and> h e t'' = (Ok v, t'))" for m h t v t' by (auto simp: on_err_def split: prod.splits result.splits)
  from assms obtain l t where
      l: "calculate_locked_collateral (pos_yes_shares ?p + dy) (pos_no_shares ?p + dn) price = Some l"
    and p: "p = ?p\<lparr>pos_yes_shares := pos_yes_shares ?p + dy,
       pos_no_shares := pos_no_shares ?p + dn, pos_locked_collateral := l\<rparr>"
    and w: "poke_position A m a p s = (Ok () :: (position_error, unit) result, t)"
    and s': "s' = t\<lparr>events := events t @ [update_event m a (shown p)]\<rparr>"
    and pre: "0 \<le> price" "price \<le> 10000" "0 \<le> pos_yes_shares ?p + dy" "0 \<le> pos_no_shares ?p + dn"
      "in_i128 (pos_yes_shares ?p + dy)" "in_i128 (pos_no_shares ?p + dn)"
    unfolding update_position_persist_def Let_def
    by (auto simp: ok_iff on_err announce_update_run simp flip: position_in_def)
  show ?thesis
    by (rule that[OF pre l p]) (simp_all add: s' poke_position_ok[OF w assms(2)])
qed

text \<open>A merge by anyone who names themself as the owner goes through.\<close>

lemma merge_runs:
  assumes "v_ready (V s)" "v_positions (V s) (m, a) = Some p" "v_positions (V s) (m, b) = Some q"
    and "\<not> pos_is_settled p" "\<not> pos_is_settled q" "0 \<le> price" "price \<le> 10000"
    and "(caller, i) \<notin> v_consumed (V s)" "position_ok m a p" "position_ok m b q"
    and "pos_yes_shares p + pos_yes_shares q \<le> i128_max"
    and "pos_no_shares p + pos_no_shares q \<le> i128_max"
    and "pos_total_deposited p + pos_total_deposited q \<le> i128_max"
  shows "\<exists>s'. merge_positions ev A m caller a b caller price i s = (Ok (), s')"
proof -
  from assms(9,10) have nn: "0 \<le> pos_yes_shares p" "0 \<le> pos_yes_shares q" "0 \<le> pos_no_shares p"
    "0 \<le> pos_no_shares q" "0 \<le> pos_total_deposited p" "0 \<le> pos_total_deposited q"
    by (auto simp: position_ok_def)
  with assms(11-13) have fits: "in_i128 (pos_yes_shares p + pos_yes_shares q)"
    "in_i128 (pos_no_shares p + pos_no_shares q)"
    "in_i128 (pos_total_deposited p + pos_total_deposited q)"
    by (auto simp: in_i128_def i128_numerals)
  obtain l where "calculate_locked_collateral (pos_yes_shares p + pos_yes_shares q)
       (pos_no_shares p + pos_no_shares q) price = Some l"
    using nn assms(6,7,11,12) by (simp add: locked_collateral_value)
  with assms fits show ?thesis
    unfolding merge_positions_def Let_def
    by (simp add: ok_iff writes poke_position_def)
qed

text \<open>A consumed id is refused.\<close>

lemma consumed_refused:
  assumes "(owner, i) \<in> v_consumed (V s)"
  shows "fst (transfer_position ev A m owner to caller yes no price i s) \<noteq> Ok ()"
    and "fst (merge_positions ev A m owner a b caller price i s) \<noteq> Ok ()"
proof -
  have False if "transfer_position ev A m owner to caller yes no price i s = (Ok (), s')" for s'
    using assms by (rule_tac transfer_ok[OF that]) simp
  then show "fst (transfer_position ev A m owner to caller yes no price i s) \<noteq> Ok ()"
    by (metis prod.collapse)
  have False if "merge_positions ev A m owner a b caller price i s = (Ok (), s')" for s'
    using assms by (rule_tac merge_ok[OF that]) simp
  then show "fst (merge_positions ev A m owner a b caller price i s) \<noteq> Ok ()"
    by (metis prod.collapse)
qed

end

end
