(* ===== verification/Market_Reconciliation.thy ===== *)
theory Market_Reconciliation
  imports Market_Storage
begin

text \<open>
  \<^verbatim>\<open>contracts/market/src/reconciliation.rs\<close>: the comparison of a position with the user's
  outcome tokens, and its repair. The outcome-token client the module calls (\<open>balance\<close>,
  \<open>mint\<close>, \<open>burn\<close> by market, holder and side) is not in the outcome-token crate; it is the
  parameter \<open>C\<close>, with what its documentation promises in the locale \<open>outcome_ledger\<close>.
\<close>

section \<open>The outcome-token client\<close>

datatype token_kind = TokenYes | TokenNo

record 'x outcome_client =
  oc_balance :: "address \<Rightarrow> u32 \<Rightarrow> address \<Rightarrow> token_kind \<Rightarrow> 'x \<Rightarrow> (i128 \<times> 'x) option"
  oc_mint :: "address \<Rightarrow> u32 \<Rightarrow> address \<Rightarrow> token_kind \<Rightarrow> i128 \<Rightarrow> 'x \<Rightarrow> (unit \<times> 'x) option"
  oc_burn :: "address \<Rightarrow> u32 \<Rightarrow> address \<Rightarrow> token_kind \<Rightarrow> i128 \<Rightarrow> 'x \<Rightarrow> (unit \<times> 'x) option"

text \<open>
  \<open>bal x tok m a k\<close>: what contract \<open>tok\<close> records for side \<open>k\<close> of market \<open>m\<close> and holder \<open>a\<close>.
\<close>

locale outcome_ledger =
  fixes C :: "'x outcome_client"
    and bal :: "'x \<Rightarrow> address \<times> u32 \<times> address \<times> token_kind \<Rightarrow> int"
  assumes balance_reads:
      "oc_balance C tok m a k x = Some (n, x') \<Longrightarrow> n = bal x (tok, m, a, k) \<and> x' = x"
    and mint_adds:
      "oc_mint C tok m a k n x = Some (u, x') \<Longrightarrow>
         bal x' = (bal x)((tok, m, a, k) := bal x (tok, m, a, k) + n)"
    and burn_removes:
      "oc_burn C tok m a k n x = Some (u, x') \<Longrightarrow>
         bal x' = (bal x)((tok, m, a, k) := bal x (tok, m, a, k) - n)"

text \<open>A ledger with these laws: amounts are positive and a burn beyond the balance traps.\<close>

type_synonym outcome_balances = "address \<times> u32 \<times> address \<times> token_kind \<Rightarrow> int"

definition outcome_book :: "outcome_balances outcome_client" where
  "outcome_book = \<lparr>
     oc_balance = (\<lambda>tok m a k l. Some (l (tok, m, a, k), l)),
     oc_mint = (\<lambda>tok m a k n l. if n \<le> 0 then None
       else Some ((), l((tok, m, a, k) := l (tok, m, a, k) + n))),
     oc_burn = (\<lambda>tok m a k n l. if n \<le> 0 \<or> l (tok, m, a, k) < n then None
       else Some ((), l((tok, m, a, k) := l (tok, m, a, k) - n)))\<rparr>"

interpretation outcome_book: outcome_ledger outcome_book "\<lambda>l. l"
  by unfold_locales (auto simp: outcome_book_def split: if_splits)

section \<open>The operations\<close>

record position_token_parity =
  par_yes_shares :: i128
  par_no_shares :: i128
  par_yes_token_balance :: i128
  par_no_token_balance :: i128
  par_is_matched :: bool

definition load_token_balances :: "'r market_accessors \<Rightarrow> 'x outcome_client \<Rightarrow> u32 \<Rightarrow> address
    \<Rightarrow> ('x, 'r, (i128 \<times> i128) option) mcontract" where
  "load_token_balances A C market_id user =
     bind (read_store (ms_get_outcome_token_contract A)) (\<lambda>registered. case registered of
       None \<Rightarrow> return None
     | Some outcome_token_address \<Rightarrow>
         bind (invoke_contract (oc_balance C outcome_token_address market_id user TokenYes)) (\<lambda>yes.
         bind (invoke_contract (oc_balance C outcome_token_address market_id user TokenNo)) (\<lambda>no.
         return (Some (yes, no)))))"

definition get_position_token_parity :: "'r market_accessors \<Rightarrow> 'x outcome_client \<Rightarrow> u32
    \<Rightarrow> address \<Rightarrow> ('x, 'r, position_token_parity) mcontract" where
  "get_position_token_parity A C market_id user =
     bind (try_read (ms_get_position A market_id user)) (\<lambda>stored.
     let position = case stored of None \<Rightarrow> new_empty market_id user | Some p \<Rightarrow> p in
     bind (load_token_balances A C market_id user) (\<lambda>loaded.
     let (yes_token_balance, no_token_balance) =
       (case loaded of None \<Rightarrow> (pos_yes_shares position, pos_no_shares position) | Some b \<Rightarrow> b);
       is_matched = pos_is_settled position
         \<or> (yes_token_balance = pos_yes_shares position \<and> no_token_balance = pos_no_shares position)
     in return \<lparr>par_yes_shares = pos_yes_shares position, par_no_shares = pos_no_shares position,
          par_yes_token_balance = yes_token_balance, par_no_token_balance = no_token_balance,
          par_is_matched = is_matched\<rparr>))"

definition assert_position_token_parity :: "env \<Rightarrow> 'r market_accessors \<Rightarrow> 'x outcome_client
    \<Rightarrow> u32 \<Rightarrow> address \<Rightarrow> ('x, 'r, unit) mcontract" where
  "assert_position_token_parity E A C market_id user =
     bind (get_position_token_parity A C market_id user) (\<lambda>parity.
     when_do (\<not> par_is_matched parity)
       (andthen (mkt_emit_position_token_mismatch_detected E market_id user
          (par_yes_shares parity) (par_no_shares parity) (par_yes_token_balance parity)
          (par_no_token_balance parity))
        (throw PositionTokenMismatch)))"

text \<open>Mint or burn the difference on one side.\<close>

definition repair_side :: "'x outcome_client \<Rightarrow> address \<Rightarrow> u32 \<Rightarrow> address \<Rightarrow> token_kind \<Rightarrow> i128
    \<Rightarrow> ('x, 'r, unit) mcontract" where
  "repair_side C outcome_token_address market_id user kind delta =
     (if delta > 0
      then invoke_contract (oc_mint C outcome_token_address market_id user kind delta)
      else if delta < 0
      then bind (sub_i128 0 delta) (\<lambda>n.
        invoke_contract (oc_burn C outcome_token_address market_id user kind n))
      else return ())"

definition reconcile_position_tokens :: "env \<Rightarrow> 'r market_accessors \<Rightarrow> 'x outcome_client
    \<Rightarrow> address \<Rightarrow> u32 \<Rightarrow> address \<Rightarrow> bytes \<Rightarrow> ('x, 'r, position_token_parity) mcontract" where
  "reconcile_position_tokens E A C admin market_id user correlation_id =
     bind (get_position_token_parity A C market_id user) (\<lambda>parity.
     if par_is_matched parity then return parity
     else
       bind (read_store (ms_get_reconciliation_record A correlation_id)) (\<lambda>seen.
       andthen (ensure (seen = None) ReconciliationAlreadyApplied)
       (andthen (write_store (ms_set_reconciliation_record A correlation_id market_id user))
       (bind (read_store (ms_get_outcome_token_contract A)) (\<lambda>registered.
       bind (expect registered) (\<lambda>outcome_token_address.
       bind (sub_i128 (par_yes_shares parity) (par_yes_token_balance parity)) (\<lambda>yes_delta.
       bind (sub_i128 (par_no_shares parity) (par_no_token_balance parity)) (\<lambda>no_delta.
       andthen (repair_side C outcome_token_address market_id user TokenYes yes_delta)
       (andthen (repair_side C outcome_token_address market_id user TokenNo no_delta)
       (andthen (mkt_emit_position_tokens_reconciled E market_id user admin yes_delta no_delta)
       (get_position_token_parity A C market_id user)))))))))))"

section \<open>What parity reads and what a repair achieves\<close>

locale market_tokens = market_storage A view + outcome_ledger C bal
  for A :: "'r market_accessors" and view :: "'r \<Rightarrow> market_view"
    and C :: "'x outcome_client"
    and bal :: "'x \<Rightarrow> address \<times> u32 \<times> address \<times> token_kind \<Rightarrow> int"
begin

text \<open>The tokens of a user agree with the stored position.\<close>

definition tokens_match :: "('x, 'r) market_state \<Rightarrow> u32 \<Rightarrow> address \<Rightarrow> bool" where
  "tokens_match s m a \<longleftrightarrow> (case v_outcome_token (V s) of None \<Rightarrow> True
     | Some tok \<Rightarrow> bal (ext s) (tok, m, a, TokenYes) = pos_yes_shares (position_of s m a)
         \<and> bal (ext s) (tok, m, a, TokenNo) = pos_no_shares (position_of s m a))"

text \<open>The snapshot a state gives.\<close>

definition parity_at :: "('x, 'r) market_state \<Rightarrow> u32 \<Rightarrow> address \<Rightarrow> position_token_parity" where
  "parity_at s m a = (let p = position_of s m a;
     (y, n) = (case v_outcome_token (V s) of None \<Rightarrow> (pos_yes_shares p, pos_no_shares p)
       | Some tok \<Rightarrow> (bal (ext s) (tok, m, a, TokenYes), bal (ext s) (tok, m, a, TokenNo)))
     in \<lparr>par_yes_shares = pos_yes_shares p, par_no_shares = pos_no_shares p,
       par_yes_token_balance = y, par_no_token_balance = n,
       par_is_matched = (pos_is_settled p \<or> (y = pos_yes_shares p \<and> n = pos_no_shares p))\<rparr>)"

lemma parity_ok:
  assumes "get_position_token_parity A C m a s = (Ok p, s')"
  shows "s' = s \<and> v_ready (V s) \<and> p = parity_at s m a"
proof (cases "v_outcome_token (V s)")
  case None
  with assms show ?thesis
    by (auto simp: get_position_token_parity_def ok_iff accessor_laws parity_at_def Let_def
        load_token_balances_def simp flip: position_in_def)
next
  case (Some tok)
  with assms show ?thesis
    by (auto simp: get_position_token_parity_def ok_iff accessor_laws parity_at_def Let_def
        load_token_balances_def simp flip: position_in_def dest!: balance_reads)
qed

lemma parity_at_matched:
  "par_is_matched (parity_at s m a) \<longleftrightarrow> pos_is_settled (position_of s m a) \<or> tokens_match s m a"
  by (auto simp: parity_at_def tokens_match_def Let_def split: option.splits)

lemma assert_parity_ok:
  assumes "assert_position_token_parity E A C m a s = (Ok u, s')"
  shows "s' = s \<and> (pos_is_settled (position_of s m a) \<or> tokens_match s m a)"
  using assms by (auto simp: assert_position_token_parity_def ok_iff parity_at_matched
      dest!: parity_ok split: if_splits)

lemma repair_side_ok:
  assumes "repair_side C tok m a k d s = (Ok u, s')"
  shows "store s' = store s" and "events s' = events s"
    and "bal (ext s') = (bal (ext s))((tok, m, a, k) := bal (ext s) (tok, m, a, k) + d)"
  using assms by (auto simp: repair_side_def ok_iff dest!: mint_adds burn_removes split: if_splits)

text \<open>
  A reconciliation that succeeds either found the ledgers in agreement and changed nothing, or
  used a fresh correlation id and left the tokens equal to the position.
\<close>

lemma reconcile_ok:
  assumes "reconcile_position_tokens E A C admin m a i s = (Ok p, s')"
  shows "(par_is_matched (parity_at s m a) \<and> s' = s \<and> p = parity_at s m a) \<or>
     (\<exists>tok. \<not> par_is_matched (parity_at s m a) \<and> v_outcome_token (V s) = Some tok
        \<and> v_reconciled (V s) i = None
        \<and> V s' = (V s)\<lparr>v_reconciled := (v_reconciled (V s))(i \<mapsto> (m, a))\<rparr>
        \<and> bal (ext s') = (bal (ext s))
            ((tok, m, a, TokenYes) := pos_yes_shares (position_of s m a),
             (tok, m, a, TokenNo) := pos_no_shares (position_of s m a))
        \<and> p = parity_at s' m a
        \<and> (\<exists>y n. events s' = events s @ [PositionTokensReconciled event_version m a admin y n
             (ledger_timestamp E)]))"
proof (cases "par_is_matched (parity_at s m a)")
  case True
  with assms show ?thesis
    by (auto simp: reconcile_position_tokens_def ok_iff dest!: parity_ok)
next
  case False
  let ?q = "parity_at s m a"
  let ?s = "s\<lparr>store := ms_set_reconciliation_record A i m a (store s)\<rparr>"
  from assms have run: "get_position_token_parity A C m a s = (Ok ?q, s)"
    by (auto simp: reconcile_position_tokens_def bind_ok dest: parity_ok)
  from assms False obtain tok t1 t2 where
      tok: "v_outcome_token (V s) = Some tok"
    and fresh: "v_reconciled (V s) i = None"
    and r1: "repair_side C tok m a TokenYes (par_yes_shares ?q - par_yes_token_balance ?q) ?s
        = (Ok (), t1)"
    and r2: "repair_side C tok m a TokenNo (par_no_shares ?q - par_no_token_balance ?q) t1
        = (Ok (), t2)"
    and last: "get_position_token_parity A C m a (t2\<lparr>events := events t2 @
        [PositionTokensReconciled event_version m a admin
           (par_yes_shares ?q - par_yes_token_balance ?q)
           (par_no_shares ?q - par_no_token_balance ?q) (ledger_timestamp E)]\<rparr>) = (Ok p, s')"
    by (auto simp: reconcile_position_tokens_def ok_iff reads writes run
        mkt_emit_position_tokens_reconciled_def)
  note o1 = repair_side_ok[OF r1] and o2 = repair_side_ok[OF r2] and out = parity_ok[OF last]
  have q: "par_yes_token_balance ?q = bal (ext s) (tok, m, a, TokenYes)"
    "par_no_token_balance ?q = bal (ext s) (tok, m, a, TokenNo)"
    "par_yes_shares ?q = pos_yes_shares (position_of s m a)"
    "par_no_shares ?q = pos_no_shares (position_of s m a)"
    by (simp_all add: parity_at_def tok Let_def)
  have "bal (ext s') = (bal (ext s))
            ((tok, m, a, TokenYes) := pos_yes_shares (position_of s m a),
             (tok, m, a, TokenNo) := pos_no_shares (position_of s m a))"
    using out o1 o2 by (simp add: q fun_eq_iff)
  moreover have "V s' = (V s)\<lparr>v_reconciled := (v_reconciled (V s))(i \<mapsto> (m, a))\<rparr>"
    using out o1 o2 by (simp add: writes)
  ultimately show ?thesis using False tok fresh out o1(2) o2(2) by auto
qed

end

end
