(* ===== verification/Market_Settlement.thy ===== *)
theory Market_Settlement
  imports Market_Reconciliation
begin

text \<open>
  \<^verbatim>\<open>contracts/market/src/settlement.rs\<close>: what a settled position pays, and the three ways
  to settle (one user, a list of users, a page of the participant registry).
\<close>

section \<open>Payouts\<close>

definition calculate_payout :: "position \<Rightarrow> bool \<Rightarrow> i128" where
  "calculate_payout position outcome =
     (if outcome then pos_yes_shares position else pos_no_shares position)"

definition validate_settlement_eligibility :: "position \<Rightarrow> market \<Rightarrow> market_error + unit" where
  "validate_settlement_eligibility position market =
     try_then (check (\<not> mkt_status market \<noteq> market_status.MarketResolved) MarketNotResolved) (\<lambda>_.
     check (\<not> pos_is_settled position) PositionAlreadySettled)"

definition validate_payout :: "i128 \<Rightarrow> market_error + unit" where
  "validate_payout payout = check (\<not> payout < 0) InvalidQuantity"

definition calculate_potential_payout :: "position \<Rightarrow> market \<Rightarrow> i128 option" where
  "calculate_potential_payout position market =
     (if mkt_status market = market_status.MarketResolved then
        (case mkt_result market of
           Some outcome \<Rightarrow> Some (calculate_payout position outcome)
         | None \<Rightarrow> Some (pos_total_deposited position))
      else None)"

definition calculate_market_settlement_stats :: "i128 \<Rightarrow> i128 \<Rightarrow> bool \<Rightarrow> i128 \<times> i128 \<times> i128" where
  "calculate_market_settlement_stats total_yes_shares total_no_shares outcome =
     (if outcome then (total_yes_shares, total_no_shares, total_yes_shares)
      else (total_no_shares, total_yes_shares, total_no_shares))"

section \<open>Settling one position\<close>

text \<open>The mutated position is returned with the payout.\<close>

definition compute_settlement :: "env \<Rightarrow> 'r market_accessors \<Rightarrow> 'x outcome_client \<Rightarrow> position
    \<Rightarrow> market \<Rightarrow> ('x, 'r, i128 \<times> position) mcontract" where
  "compute_settlement E A C position market =
     andthen (try_result (validate_settlement_eligibility position market))
     (andthen (assert_position_token_parity E A C (pos_market_id position) (pos_user position))
     (let payout = (case mkt_result market of
        Some outcome \<Rightarrow> calculate_payout position outcome
      | None \<Rightarrow> pos_total_deposited position) in
     andthen (try_result (validate_payout payout))
     (return (payout, position\<lparr>pos_is_settled := True\<rparr>))))"

definition burn_settled_outcome_tokens :: "'r market_accessors \<Rightarrow> 'x outcome_client \<Rightarrow> u32
    \<Rightarrow> address \<Rightarrow> position \<Rightarrow> ('x, 'r, unit) mcontract" where
  "burn_settled_outcome_tokens A C market_id user position =
     bind (read_store (ms_get_outcome_token_contract A)) (\<lambda>registered. case registered of
       None \<Rightarrow> return ()
     | Some outcome_token_address \<Rightarrow>
         andthen (when_do (pos_yes_shares position > 0)
           (invoke_contract (oc_burn C outcome_token_address market_id user TokenYes
             (pos_yes_shares position))))
         (when_do (pos_no_shares position > 0)
           (invoke_contract (oc_burn C outcome_token_address market_id user TokenNo
             (pos_no_shares position)))))"

definition execute_settlement :: "env \<Rightarrow> 'r market_accessors \<Rightarrow> 'x outcome_client \<Rightarrow> position
    \<Rightarrow> market \<Rightarrow> ('x, 'r, i128 \<times> position) mcontract" where
  "execute_settlement E A C position market =
     bind (compute_settlement E A C position market) (\<lambda>(payout, position').
     andthen (mkt_emit_position_updated E (pos_market_id position') (pos_user position')
       (pos_yes_shares position') (pos_no_shares position') 0)
     (andthen (mkt_emit_position_settled E (pos_market_id position') (pos_user position') payout
       (ledger_timestamp E))
     (return (payout, position'))))"

definition pay_settled :: "env \<Rightarrow> 'x token_client \<Rightarrow> market \<Rightarrow> address \<Rightarrow> i128
    \<Rightarrow> ('x, 'r, unit) mcontract" where
  "pay_settled E T market user payout =
     when_do (payout > 0)
       (token_transfer T (mkt_collateral_token market) (current_contract_address E) user payout)"

definition settle_position :: "env \<Rightarrow> 'r market_accessors \<Rightarrow> 'x outcome_client
    \<Rightarrow> 'x token_client \<Rightarrow> address \<Rightarrow> u32 \<Rightarrow> ('x, 'r, i128) mcontract" where
  "settle_position E A C T user market_id =
     andthen (require_auth E user)
     (andthen (require_mode A [Normal, TradingHalted, SettleOnly])
     (bind (try_read (ms_get_market A market_id)) (\<lambda>found.
     bind (ok_or found MarketNotFound) (\<lambda>market.
     bind (try_read (ms_get_position A market_id user)) (\<lambda>stored.
     bind (ok_or stored NoPositionFound) (\<lambda>position.
     bind (execute_settlement E A C position market) (\<lambda>(payout, position').
     andthen (try_write (ms_set_position A market_id user position'))
     (andthen (burn_settled_outcome_tokens A C market_id user position')
     (andthen (pay_settled E T market user payout)
     (return payout))))))))))"

section \<open>Settling many\<close>

text \<open>
  The body of both loops: \<open>continue\<close> hands the accumulators (total, users, payouts) on as they
  are.
\<close>

type_synonym settled_so_far = "i128 \<times> address list \<times> i128 list"

definition add_settled :: "settled_so_far \<Rightarrow> address \<Rightarrow> i128 \<Rightarrow> settled_so_far" where
  "add_settled acc user payout = (case acc of (total_payout, settled_users, settled_payouts) \<Rightarrow>
     (saturating_add total_payout payout, settled_users @ [user], settled_payouts @ [payout]))"

definition settle_one :: "env \<Rightarrow> 'r market_accessors \<Rightarrow> 'x outcome_client \<Rightarrow> 'x token_client
    \<Rightarrow> market \<Rightarrow> u32 \<Rightarrow> address \<Rightarrow> settled_so_far \<Rightarrow> ('x, 'r, settled_so_far) mcontract" where
  "settle_one E A C T market market_id user acc =
     bind (gets (\<lambda>s. ms_get_position A market_id user (store s))) (\<lambda>stored. case stored of
       Inl _ \<Rightarrow> return acc
     | Inr None \<Rightarrow> return acc
     | Inr (Some position) \<Rightarrow>
         bind (attempt (compute_settlement E A C position market)) (\<lambda>computed. case computed of
           Inl (_ :: market_error) \<Rightarrow> return acc
         | Inr (payout, position') \<Rightarrow>
             andthen (burn_settled_outcome_tokens A C market_id user position')
             (bind (attempt (try_write (ms_set_position A market_id user position'))) (\<lambda>written.
             case written of
               Inl (_ :: market_error) \<Rightarrow> return acc
             | Inr _ \<Rightarrow>
                 andthen (pay_settled E T market user payout)
                 (return (add_settled acc user payout))))))"

primrec settle_users :: "env \<Rightarrow> 'r market_accessors \<Rightarrow> 'x outcome_client \<Rightarrow> 'x token_client
    \<Rightarrow> market \<Rightarrow> u32 \<Rightarrow> address list \<Rightarrow> settled_so_far \<Rightarrow> ('x, 'r, settled_so_far) mcontract"
  where
  "settle_users E A C T market market_id [] acc = return acc"
| "settle_users E A C T market market_id (user # users) acc =
     bind (settle_one E A C T market market_id user acc)
       (settle_users E A C T market market_id users)"

text \<open>The loop from empty accumulators and the aggregated event after it.\<close>

definition settle_listed :: "env \<Rightarrow> 'r market_accessors \<Rightarrow> 'x outcome_client \<Rightarrow> 'x token_client
    \<Rightarrow> market \<Rightarrow> u32 \<Rightarrow> address list \<Rightarrow> ('x, 'r, i128) mcontract" where
  "settle_listed E A C T market market_id users =
     bind (settle_users E A C T market market_id users (0, [], []))
       (\<lambda>(total_payout, settled_users, settled_payouts).
     andthen (when_do (settled_users \<noteq> [])
       (mkt_emit_positions_batch_settled E market_id settled_users settled_payouts
         (ledger_timestamp E)))
     (return total_payout))"

definition batch_settle_positions :: "env \<Rightarrow> 'r market_accessors \<Rightarrow> 'x outcome_client
    \<Rightarrow> 'x token_client \<Rightarrow> u32 \<Rightarrow> address list \<Rightarrow> ('x, 'r, i128) mcontract" where
  "batch_settle_positions E A C T market_id users =
     andthen (require_mode A [Normal, TradingHalted, SettleOnly])
     (andthen (ensure (\<not> users = []) BatchTooLarge)
     (andthen (ensure (\<not> length users > ms_max_batch_settle_size A) BatchTooLarge)
     (bind (try_read (ms_get_market A market_id)) (\<lambda>found.
     bind (ok_or found MarketNotFound) (\<lambda>market.
     andthen (ensure (\<not> mkt_status market \<noteq> market_status.MarketResolved) MarketNotResolved)
     (settle_listed E A C T market market_id users))))))"

definition settle_positions_page :: "env \<Rightarrow> 'r market_accessors \<Rightarrow> 'x outcome_client
    \<Rightarrow> 'x token_client \<Rightarrow> u32 \<Rightarrow> u32 \<Rightarrow> u32 \<Rightarrow> ('x, 'r, i128 \<times> u32 \<times> bool) mcontract" where
  "settle_positions_page E A C T market_id start_index limit =
     andthen (require_mode A [Normal, TradingHalted, SettleOnly])
     (bind (try_read (ms_get_market A market_id)) (\<lambda>found.
     bind (ok_or found MarketNotFound) (\<lambda>market.
     andthen (ensure (\<not> mkt_status market \<noteq> market_status.MarketResolved) MarketNotResolved)
     (bind (read_store (ms_get_market_participants A market_id)) (\<lambda>participants.
     let total = length participants in
     if start_index \<ge> total then return (0, total, True)
     else
       let end_index = min (min u32_max (start_index + limit)) total in
       bind (settle_listed E A C T market market_id
          (take (end_index - start_index) (drop start_index participants))) (\<lambda>total_payout.
       return (total_payout, end_index, end_index \<ge> total)))))))"

section \<open>What a settlement does\<close>

text \<open>The amount due on a position of a resolved market.\<close>

definition payout_due :: "market \<Rightarrow> position \<Rightarrow> i128" where
  "payout_due mk p = (case mkt_result mk of None \<Rightarrow> pos_total_deposited p
     | Some outcome \<Rightarrow> if outcome then pos_yes_shares p else pos_no_shares p)"

text \<open>How often an event reports a payment of user \<open>a\<close> in market \<open>m\<close>.\<close>

definition paid_by :: "u32 \<Rightarrow> address \<Rightarrow> market_event \<Rightarrow> nat" where
  "paid_by m a ev = (case ev of
     PositionSettled _ m' a' _ _ \<Rightarrow> if m' = m \<and> a' = a then 1 else 0
   | PositionsBatchSettled _ m' users _ _ \<Rightarrow> if m' = m then count_list users a else 0
   | _ \<Rightarrow> 0)"

definition paid_count :: "u32 \<Rightarrow> address \<Rightarrow> market_event list \<Rightarrow> nat" where
  "paid_count m a evs = sum_list (map (paid_by m a) evs)"

lemma paid_count_simps [simp]:
  "paid_count m a [] = 0"
  "paid_count m a (evs @ [ev]) = paid_count m a evs + paid_by m a ev"
  "paid_count m a (evs @ evs') = paid_count m a evs + paid_count m a evs'"
  "paid_count m a (ev # evs) = paid_by m a ev + paid_count m a evs"
  by (simp_all add: paid_count_def)

lemma paid_by_simps [simp]:
  "paid_by m a (PositionSettled v m' a' n t) = (if m' = m \<and> a' = a then 1 else 0)"
  "paid_by m a (PositionsBatchSettled v m' users ns t) = (if m' = m then count_list users a else 0)"
  "paid_by m a (PositionTokenMismatchDetected v m' a' i j k l) = 0"
  "paid_by m a (PositionUpdated v m' a' i j k) = 0"
  "paid_by m a (PositionTokensReconciled v m' a' b i j t) = 0"
  "paid_by m a (CollateralDeposited v a' m' i j) = 0"
  by (simp_all add: paid_by_def)

text \<open>Two states with the same storage, foreign contracts and reported payments.\<close>

definition same_effects :: "('x, 'r) market_state \<Rightarrow> ('x, 'r) market_state \<Rightarrow> bool" where
  "same_effects s s' \<longleftrightarrow> store s' = store s \<and> ext s' = ext s
     \<and> (\<forall>m a. paid_count m a (events s') = paid_count m a (events s))"

lemma same_effects_refl [simp]: "same_effects s s"
  by (simp add: same_effects_def)

text \<open>The outcome token calls that burn the shares of a settled position.\<close>

definition burned_side :: "'x outcome_client \<Rightarrow> address \<Rightarrow> u32 \<Rightarrow> address \<Rightarrow> token_kind \<Rightarrow> i128 \<Rightarrow> 'x \<Rightarrow> 'x \<Rightarrow> bool"
  where "burned_side C tok m a k n x x' \<longleftrightarrow>
    (if 0 < n then oc_burn C tok m a k n x = Some ((), x') else x' = x)"

definition burned :: "'x outcome_client \<Rightarrow> address \<Rightarrow> u32 \<Rightarrow> address \<Rightarrow> position \<Rightarrow> 'x \<Rightarrow> 'x \<Rightarrow> bool" where
  "burned C tok m a p x x' \<longleftrightarrow> (\<exists>y. burned_side C tok m a TokenYes (pos_yes_shares p) x y
     \<and> burned_side C tok m a TokenNo (pos_no_shares p) y x')"

context market_tokens
begin

lemma compute_settlement_ok:
  assumes "compute_settlement E A C p mk s = (Ok (n, p'), s')"
  shows "s' = s" and "mkt_status mk = market_status.MarketResolved" and "\<not> pos_is_settled p"
    and "n = payout_due mk p" and "0 \<le> n" and "p' = p\<lparr>pos_is_settled := True\<rparr>"
    and "pos_is_settled (position_of s (pos_market_id p) (pos_user p))
       \<or> tokens_match s (pos_market_id p) (pos_user p)"
  using assms
  by (auto simp: compute_settlement_def ok_iff validate_settlement_eligibility_def Let_def
      validate_payout_def payout_due_def calculate_payout_def check_def try_then_def
      dest!: assert_parity_ok split: option.splits if_splits)

text \<open>An error of the computation leaves at most the mismatch announcement.\<close>

lemma parity_err:
  assumes "get_position_token_parity A C m a s = (Err e, s')"
  shows "s' = s"
  using assms by (auto simp: get_position_token_parity_def load_token_balances_def run_simps
      Let_def split: sum.splits option.splits prod.splits dest!: balance_reads)

lemma assert_parity_err:
  assumes "assert_position_token_parity E A C m a s = (Err e, s')"
  shows "same_effects s s'"
  using assms unfolding assert_position_token_parity_def
  by (auto simp: run_simps same_effects_def
      mkt_emit_position_token_mismatch_detected_def dest!: parity_err parity_ok
      split: prod.splits result.splits if_splits)

lemma compute_settlement_err:
  assumes "compute_settlement E A C p mk s = (Err e, s')"
  shows "same_effects s s'"
  using assms unfolding compute_settlement_def Let_def
  by (auto simp: bind_def andthen_def try_result_def throw_def return_def
      dest!: assert_parity_err assert_parity_ok
      split: prod.splits result.splits if_splits sum.splits)

lemma burn_side_ok:
  assumes "when_do (0 < n) (invoke_contract (oc_burn C tok m a k n)) s = (Ok u, s')"
  shows "store s' = store s \<and> events s' = events s \<and> burned_side C tok m a k n (ext s) (ext s')
     \<and> bal (ext s') = (bal (ext s))((tok, m, a, k) := bal (ext s) (tok, m, a, k) - max 0 n)"
  using assms by (auto simp: ok_iff max_def burned_side_def dest: burn_removes split: if_splits)

lemma burn_settled_ok:
  assumes "burn_settled_outcome_tokens A C m a p s = (Ok u, s')"
  shows "store s' = store s" and "events s' = events s"
    and "v_outcome_token (V s) = None \<Longrightarrow> ext s' = ext s"
    and "v_outcome_token (V s) = Some tok \<Longrightarrow> bal (ext s') = (bal (ext s))
       ((tok, m, a, TokenYes) := bal (ext s) (tok, m, a, TokenYes) - max 0 (pos_yes_shares p),
        (tok, m, a, TokenNo) := bal (ext s) (tok, m, a, TokenNo) - max 0 (pos_no_shares p))"
    and "v_outcome_token (V s) = Some tok \<Longrightarrow> burned C tok m a p (ext s) (ext s')"
proof -
  have "(v_outcome_token (V s) = None \<longrightarrow> s' = s) \<and> (\<forall>tok. v_outcome_token (V s) = Some tok \<longrightarrow>
      (\<exists>t. when_do (0 < pos_yes_shares p)
          (invoke_contract (oc_burn C tok m a TokenYes (pos_yes_shares p))) s
          = (Ok () :: (market_error, unit) result, t)
        \<and> when_do (0 < pos_no_shares p)
          (invoke_contract (oc_burn C tok m a TokenNo (pos_no_shares p))) t
          = (Ok () :: (market_error, unit) result, s')))"
    using assms by (auto simp: burn_settled_outcome_tokens_def bind_ok andthen_ok return_ok
        store_ok reads)
  then show "store s' = store s" and "events s' = events s"
    and "v_outcome_token (V s) = None \<Longrightarrow> ext s' = ext s"
    and "v_outcome_token (V s) = Some tok \<Longrightarrow> bal (ext s') = (bal (ext s))
       ((tok, m, a, TokenYes) := bal (ext s) (tok, m, a, TokenYes) - max 0 (pos_yes_shares p),
        (tok, m, a, TokenNo) := bal (ext s) (tok, m, a, TokenNo) - max 0 (pos_no_shares p))"
    and "v_outcome_token (V s) = Some tok \<Longrightarrow> burned C tok m a p (ext s) (ext s')"
    by (cases "v_outcome_token (V s)"; auto simp: burned_def dest!: burn_side_ok)+
qed

lemma pay_settled_ok [ok_iff]:
  "pay_settled E T mk a n s = (Ok u, s') \<longleftrightarrow> (if 0 < n
     then \<exists>x. tok_transfer T (mkt_collateral_token mk) (current_contract_address E) a n (ext s)
       = Some ((), x) \<and> s' = s\<lparr>ext := x\<rparr> else s' = s)"
  by (auto simp: pay_settled_def ok_iff)

text \<open>
  The common effect: the stored position becomes settled, its outcome tokens are burned and
  exactly the payout due is paid from the contract.
\<close>

definition settles :: "env \<Rightarrow> 'x token_client \<Rightarrow> market \<Rightarrow> u32 \<Rightarrow> address \<Rightarrow> i128
    \<Rightarrow> ('x, 'r) market_state \<Rightarrow> ('x, 'r) market_state \<Rightarrow> bool" where
  "settles E T mk m a n s s' \<longleftrightarrow> (\<exists>p x.
     mkt_status mk = market_status.MarketResolved
     \<and> v_positions (V s) (m, a) = Some p \<and> \<not> pos_is_settled p
     \<and> n = payout_due mk p \<and> 0 \<le> n
     \<and> V s' = (V s)\<lparr>v_positions := (v_positions (V s))((m, a) \<mapsto> p\<lparr>pos_is_settled := True\<rparr>)\<rparr>
     \<and> (case v_outcome_token (V s) of None \<Rightarrow> x = ext s
        | Some tok \<Rightarrow> burned C tok m a p (ext s) x \<and> bal x = (bal (ext s))
           ((tok, m, a, TokenYes) := bal (ext s) (tok, m, a, TokenYes) - max 0 (pos_yes_shares p),
            (tok, m, a, TokenNo) := bal (ext s) (tok, m, a, TokenNo) - max 0 (pos_no_shares p)))
     \<and> (if 0 < n then tok_transfer T (mkt_collateral_token mk) (current_contract_address E) a n x
          = Some ((), ext s') else ext s' = x))"

lemma settlesI:
  assumes "mkt_status mk = market_status.MarketResolved"
    and "v_positions (V s) (m, a) = Some p" and "\<not> pos_is_settled p"
    and "n = payout_due mk p" and "0 \<le> n"
    and "ext t = ext s" and tok: "v_outcome_token (V t) = v_outcome_token (V s)"
    and burn: "burn_settled_outcome_tokens A C m a (p\<lparr>pos_is_settled := True\<rparr>) t = (Ok u, t1)"
    and t2: "ext t2 = ext t1"
    and pay: "pay_settled E T mk a n t2 = (Ok u', s')"
    and V: "V t2 = (V s)\<lparr>v_positions := (v_positions (V s))((m, a) \<mapsto> p\<lparr>pos_is_settled := True\<rparr>)\<rparr>"
  shows "settles E T mk m a n s s'"
proof -
  from pay have "V s' = V t2" by (auto simp: ok_iff split: if_splits)
  with V have V': "V s' =
      (V s)\<lparr>v_positions := (v_positions (V s))((m, a) \<mapsto> p\<lparr>pos_is_settled := True\<rparr>)\<rparr>"
    by simp
  from burn_settled_ok(3-5)[OF burn] assms(6) tok
  have x: "case v_outcome_token (V s) of None \<Rightarrow> ext t1 = ext s
        | Some tok \<Rightarrow> burned C tok m a p (ext s) (ext t1) \<and> bal (ext t1) = (bal (ext s))
           ((tok, m, a, TokenYes) := bal (ext s) (tok, m, a, TokenYes) - max 0 (pos_yes_shares p),
            (tok, m, a, TokenNo) := bal (ext s) (tok, m, a, TokenNo) - max 0 (pos_no_shares p))"
    by (auto simp: burned_def split: option.splits)
  have money: "if 0 < n then tok_transfer T (mkt_collateral_token mk) (current_contract_address E)
      a n (ext t1) = Some ((), ext s') else ext s' = ext t1"
    using pay t2 by (auto simp: ok_iff split: if_splits)
  show ?thesis
    unfolding settles_def
    by (rule exI[of _ p], rule exI[of _ "ext t1"], intro conjI) (fact assms V' x money)+
qed

lemma not_frozen_ok:
  "require_mode A [Normal, TradingHalted, SettleOnly] s = (Ok u, s') \<longleftrightarrow>
     v_mode (V s) \<noteq> GlobalFreeze \<and> s' = s"
  by (cases "v_mode (V s)") (simp_all add: ok_iff reads)

lemma settle_position_ok:
  assumes "settle_position E A C T a m s = (Ok n, s')"
  obtains mk p where "v_markets (V s) m = Some mk" "v_positions (V s) (m, a) = Some p"
    "settles E T mk m a n s s'" "authorized E a" "v_mode (V s) \<noteq> GlobalFreeze" "v_ready (V s)"
    "events s' = events s @ [PositionUpdated event_version (pos_market_id p) (pos_user p)
         (pos_yes_shares p) (pos_no_shares p) 0,
       PositionSettled event_version (pos_market_id p) (pos_user p) n (ledger_timestamp E)]"
    "pos_market_id p = m \<Longrightarrow> pos_user p = a \<Longrightarrow> tokens_match s m a"
proof -
  from assms obtain mk p q s1 r t where
      mk: "v_markets (V s) m = Some mk" and p: "v_positions (V s) (m, a) = Some p"
    and comp: "compute_settlement E A C p mk s = (Ok (n, q), s1)"
    and w: "ms_set_position A m a q (store s1) = Inr r"
    and burn: "burn_settled_outcome_tokens A C m a q (s1\<lparr>events := events s1 @
        [PositionUpdated event_version (pos_market_id q) (pos_user q)
         (pos_yes_shares q) (pos_no_shares q) 0,
       PositionSettled event_version (pos_market_id q) (pos_user q) n (ledger_timestamp E)],
       store := r\<rparr>) = (Ok (), t)"
    and pay: "pay_settled E T mk a n t = (Ok () :: (market_error, unit) result, s')"
    and pre: "authorized E a" "v_mode (V s) \<noteq> GlobalFreeze" "v_ready (V s)"
    unfolding settle_position_def execute_settlement_def mkt_emit_position_updated_def
      mkt_emit_position_settled_def
    by (auto simp: ok_iff accessor_laws not_frozen_ok simp del: pay_settled_ok require_mode_ok
        split: prod.splits)
  note c = compute_settlement_ok[OF comp]
  have V: "view r = (V s)\<lparr>v_positions := (v_positions (V s))((m, a) \<mapsto> p\<lparr>pos_is_settled := True\<rparr>)\<rparr>"
    using set_position_Inr[OF w] c by simp
  have "settles E T mk m a n s s'"
    by (rule settlesI[OF c(2) p c(3,4,5) _ _ burn[unfolded c(6)] refl pay])
      (use burn_settled_ok(1)[OF burn] in \<open>simp_all add: V c(1)\<close>)
  moreover have "events s' = events s @ [PositionUpdated event_version (pos_market_id p) (pos_user p)
         (pos_yes_shares p) (pos_no_shares p) 0,
       PositionSettled event_version (pos_market_id p) (pos_user p) n (ledger_timestamp E)]"
    using burn_settled_ok(2)[OF burn] pay c(1,6) by (auto simp: ok_iff split: if_splits)
  moreover have "tokens_match s m a" if "pos_market_id p = m" "pos_user p = a"
    using c(3,7) p that by (simp add: position_in_def)
  ultimately show ?thesis using that mk p pre by blast
qed

lemma bind_gets: "bind (gets f) k s = k (f s) s"
  by (simp add: bind_def gets_def)

text \<open>One turn of the loop: the user is skipped, or settled and added to the accumulators.\<close>

lemma settle_one_ok:
  assumes "settle_one E A C T mk m a acc s = (Ok acc', s')"
  shows "(acc' = acc \<and> same_effects s s') \<or>
    (\<exists>n. settles E T mk m a n s s' \<and> acc' = add_settled acc a n \<and> events s' = events s)"
proof (cases "ms_get_position A m a (store s)")
  case (Inl e)
  with assms show ?thesis by (simp add: settle_one_def ok_iff)
next
  case (Inr stored)
  show ?thesis
  proof (cases stored)
    case None
    with Inr assms show ?thesis by (simp add: settle_one_def ok_iff)
  next
    case (Some p)
    with Inr have p: "v_positions (V s) (m, a) = Some p" and ready: "v_ready (V s)"
      by (auto simp: checked split: if_splits)
    obtain out s1 where out: "compute_settlement E A C p mk s = (out, s1)" by fastforce
    have one: "bind (attempt (compute_settlement E A C p mk)) (\<lambda>computed. case computed of
         Inl (_ :: market_error) \<Rightarrow> return acc
       | Inr (n, q) \<Rightarrow> andthen (burn_settled_outcome_tokens A C m a q)
          (bind (attempt (try_write (ms_set_position A m a q))) (\<lambda>written. case written of
             Inl (_ :: market_error) \<Rightarrow> return acc
           | Inr _ \<Rightarrow> andthen (pay_settled E T mk a n) (return (add_settled acc a n))))) s
       = (Ok acc', s')"
      using assms unfolding settle_one_def bind_gets Inr Some by simp
    show ?thesis
    proof (cases out)
      case (Err e)
      with one out have "acc' = acc" "s' = s1" by (auto simp: bind_def attempt_def return_def)
      with compute_settlement_err out Err show ?thesis by simp
    next
      case Panic
      with one out show ?thesis by (simp add: bind_def attempt_def)
    next
      case (Ok v)
      obtain n q where v: "v = (n, q)" by (cases v)
      have go1: "compute_settlement E A C p mk s = (Ok (n, q), s1)" using out Ok v by simp
      then have "attempt (compute_settlement E A C p mk) s
          = (Ok (Inr (n, q)) :: (market_error, market_error + i128 \<times> position) result, s1)"
        by (simp add: attempt_def)
      with one obtain t where
          go2: "burn_settled_outcome_tokens A C m a q s1 = (Ok () :: (market_error, unit) result, t)"
        and go3: "bind (attempt (try_write (ms_set_position A m a q))) (\<lambda>written. case written of
             Inl (_ :: market_error) \<Rightarrow> return acc
           | Inr _ \<Rightarrow> andthen (pay_settled E T mk a n) (return (add_settled acc a n))) t
           = (Ok acc', s')"
        by (auto simp: bind_def[of "attempt (compute_settlement E A C p mk)"] andthen_ok)
      note c = compute_settlement_ok[OF go1] and b = burn_settled_ok[OF go2]
      have st: "store t = store s" using b(1) c(1) by simp
      from checked(4)[OF ready] obtain r where w: "ms_set_position A m a q (store s) = Inr r"
        by blast
      have V: "view r = (V s)\<lparr>v_positions := (v_positions (V s))((m, a) \<mapsto> p\<lparr>pos_is_settled := True\<rparr>)\<rparr>"
        using set_position_Inr[OF w] c by simp
      from go3 w st have pay: "pay_settled E T mk a n (t\<lparr>store := r\<rparr>)
          = (Ok () :: (market_error, unit) result, s')" and acc': "acc' = add_settled acc a n"
        by (auto simp: run_simps split: prod.splits result.splits)
      have "settles E T mk m a n s s'"
        by (rule settlesI[OF c(2) p c(3,4,5) _ _ go2[unfolded c(6)] _ pay])
          (simp_all add: V c(1))
      moreover have "events s' = events s"
        using b(2) c(1) pay by (auto simp: ok_iff split: if_splits)
      ultimately show ?thesis using acc' by blast
    qed
  qed
qed

text \<open>The rule for the loop: what every turn keeps, the loop keeps.\<close>

lemma settle_users_rule:
  assumes "settle_users E A C T mk m users acc s = (Ok acc', s')" and "Q acc s"
    and "\<And>a acc t acc' t'. Q acc t \<Longrightarrow> settle_one E A C T mk m a acc t = (Ok acc', t') \<Longrightarrow> Q acc' t'"
  shows "Q acc' s'"
  using assms(1,2)
proof (induction users arbitrary: acc s)
  case Nil
  then show ?case by (simp add: ok_iff)
next
  case (Cons a users)
  from Cons.prems(1) obtain acc1 s1 where "settle_one E A C T mk m a acc s = (Ok acc1, s1)"
    and rest: "settle_users E A C T mk m users acc1 s1 = (Ok acc', s')"
    by (auto simp: bind_ok)
  with Cons.prems(2) assms(3) have "Q acc1 s1" by blast
  with rest show ?case by (rule Cons.IH)
qed

lemma settle_listed_ok:
  assumes "settle_listed E A C T mk m users s = (Ok n, s')"
  obtains us ns t where "settle_users E A C T mk m users (0, [], []) s = (Ok (n, us, ns), t)"
    "s' = t\<lparr>events := events t @
       (if us = [] then [] else [PositionsBatchSettled event_version m us ns (ledger_timestamp E)])\<rparr>"
  using assms by (auto simp: settle_listed_def ok_iff mkt_emit_positions_batch_settled_def
      split: prod.splits if_splits)

lemma batch_ok:
  assumes "batch_settle_positions E A C T m users s = (Ok n, s')"
  obtains mk where "v_markets (V s) m = Some mk" "mkt_status mk = market_status.MarketResolved"
    "users \<noteq> []" "length users \<le> ms_max_batch_settle_size A" "v_mode (V s) \<noteq> GlobalFreeze"
    "v_ready (V s)" "settle_listed E A C T mk m users s = (Ok n, s')"
  using assms unfolding batch_settle_positions_def
  by (auto simp: ok_iff not_frozen_ok accessor_laws simp del: require_mode_ok)

lemma page_ok:
  assumes "settle_positions_page E A C T m start limit s = (Ok (n, next, fin), s')"
  obtains mk where "v_markets (V s) m = Some mk" "mkt_status mk = market_status.MarketResolved"
    "v_mode (V s) \<noteq> GlobalFreeze" "v_ready (V s)"
    "if length (v_participants (V s) m) \<le> start
     then n = 0 \<and> next = length (v_participants (V s) m) \<and> fin \<and> s' = s
     else next = min (min u32_max (start + limit)) (length (v_participants (V s) m))
       \<and> (fin \<longleftrightarrow> length (v_participants (V s) m) \<le> next)
       \<and> settle_listed E A C T mk m (take (next - start) (drop start (v_participants (V s) m))) s
         = (Ok n, s')"
  using assms unfolding settle_positions_page_def Let_def
  by (auto simp: ok_iff not_frozen_ok accessor_laws simp del: require_mode_ok split: if_splits)

end

end
