(* ===== verification/Market_Lifecycle.thy ===== *)
theory Market_Lifecycle
  imports Market_Funds Market_Positions Market_Settlement
begin

text \<open>
  The market modules as one system: a step is any successful call of a deposit, withdrawal,
  transfer, merge, share update, settlement (single, batch or page) or reconciliation, by anyone
  and at any ledger time. A failed call is rolled back and is no step.
\<close>

section \<open>Steps and runs\<close>

inductive market_step :: "'r market_accessors \<Rightarrow> 'x outcome_client \<Rightarrow> 'x token_client
    \<Rightarrow> 'x fee_sink \<Rightarrow> (u32 \<Rightarrow> address \<Rightarrow> market_event)
    \<Rightarrow> ('x, 'r) market_state \<Rightarrow> ('x, 'r) market_state \<Rightarrow> bool"
  for A C T F ev where
  deposit: "deposit_collateral E A T a m n s = (Ok (), s') \<Longrightarrow> market_step A C T F ev s s'"
| withdraw: "withdraw_unused_collateral E A T F a m n s = (Ok (), s') \<Longrightarrow>
     market_step A C T F ev s s'"
| transfer: "transfer_position ev A m from to caller yes no price i s = (Ok (), s') \<Longrightarrow>
     market_step A C T F ev s s'"
| merge: "merge_positions ev A m owner a b caller price i s = (Ok (), s') \<Longrightarrow>
     market_step A C T F ev s s'"
| update: "update_position_persist E A shown m a dy dn price s = (Ok p, s') \<Longrightarrow>
     market_step A C T F ev s s'"
| settle: "settle_position E A C T a m s = (Ok n, s') \<Longrightarrow> market_step A C T F ev s s'"
| batch: "batch_settle_positions E A C T m users s = (Ok n, s') \<Longrightarrow> market_step A C T F ev s s'"
| page: "settle_positions_page E A C T m start limit s = (Ok out, s') \<Longrightarrow>
     market_step A C T F ev s s'"
| reconcile: "reconcile_position_tokens E A C admin m a i s = (Ok par, s') \<Longrightarrow>
     market_step A C T F ev s s'"

inductive market_reach :: "'r market_accessors \<Rightarrow> 'x outcome_client \<Rightarrow> 'x token_client
    \<Rightarrow> 'x fee_sink \<Rightarrow> (u32 \<Rightarrow> address \<Rightarrow> market_event)
    \<Rightarrow> ('x, 'r) market_state \<Rightarrow> ('x, 'r) market_state \<Rightarrow> bool"
  for A C T F ev s where
  here: "market_reach A C T F ev s s"
| there: "market_reach A C T F ev s t \<Longrightarrow> market_step A C T F ev t u \<Longrightarrow>
     market_reach A C T F ev s u"

section \<open>Invariants of the view\<close>

definition positions_ok :: "market_view \<Rightarrow> bool" where
  "positions_ok v \<longleftrightarrow> (\<forall>m a p. v_positions v (m, a) = Some p \<longrightarrow> position_ok m a p)"

definition settled_at :: "market_view \<Rightarrow> u32 \<Rightarrow> address \<Rightarrow> bool" where
  "settled_at v m a \<longleftrightarrow> (\<exists>p. v_positions v (m, a) = Some p \<and> pos_is_settled p)"

lemma positions_ok_put:
  "v_positions w = (v_positions v)((m, a) \<mapsto> p) \<Longrightarrow> positions_ok v \<Longrightarrow> position_ok m a p \<Longrightarrow>
     positions_ok w"
  by (simp add: positions_ok_def)

lemma positions_ok_put2:
  "v_positions w = (v_positions v)((m, a) \<mapsto> p, (m, b) \<mapsto> q) \<Longrightarrow> positions_ok v \<Longrightarrow>
     position_ok m a p \<Longrightarrow> position_ok m b q \<Longrightarrow> positions_ok w"
  by (simp add: positions_ok_def)

lemma positions_ok_cong: "v_positions w = v_positions v \<Longrightarrow> positions_ok v \<Longrightarrow> positions_ok w"
  by (simp add: positions_ok_def)

lemma settled_at_cong: "v_positions w = v_positions v \<Longrightarrow> settled_at w = settled_at v"
  by (simp add: settled_at_def fun_eq_iff)

lemma position_ok_range:
  assumes "position_ok m a p"
  shows "0 \<le> pos_yes_shares p" "pos_yes_shares p \<le> i128_max"
    "0 \<le> pos_no_shares p" "pos_no_shares p \<le> i128_max"
    "0 \<le> pos_total_deposited p" "pos_total_deposited p \<le> i128_max"
    "0 \<le> pos_locked_collateral p" "pos_market_id p = m" "pos_user p = a"
  using assms by (auto simp: position_ok_def position_in_range_def in_i128_def)

lemma position_ok_settled: "position_ok m a p \<Longrightarrow> position_ok m a (p\<lparr>pos_is_settled := b\<rparr>)"
  by (simp add: position_ok_def position_in_range_def)

lemma position_ok_total:
  "position_ok m a p \<Longrightarrow> 0 \<le> n \<Longrightarrow> in_i128 n \<Longrightarrow> position_ok m a (p\<lparr>pos_total_deposited := n\<rparr>)"
  by (simp add: position_ok_def position_in_range_def)

lemma in_range_less: "0 \<le> n \<Longrightarrow> n \<le> k \<Longrightarrow> k \<le> i128_max \<Longrightarrow> in_i128 n"
  by (simp add: in_i128_def i128_numerals)

context market_storage
begin

lemma position_of_ok: "positions_ok (V s) \<Longrightarrow> position_ok m a (position_of s m a)"
  by (auto simp: position_in_def positions_ok_def split: option.splits)

lemma settled_at_position_of: "settled_at (V s) m a \<longleftrightarrow> pos_is_settled (position_of s m a)"
  by (auto simp: settled_at_def position_in_def split: option.splits)

lemma position_of_stored: "v_positions (V s) (m, a) = Some p \<Longrightarrow> position_of s m a = p"
  by (simp add: position_in_def)

text \<open>Replacing one position by one with the same settled flag.\<close>

lemma settled_at_put:
  assumes "v_positions (V s') = (v_positions (V s))((m, a) \<mapsto> p)"
    and "pos_is_settled p = pos_is_settled (position_of s m a)"
  shows "settled_at (V s') = settled_at (V s)"
  using assms by (auto simp: settled_at_def fun_eq_iff position_in_def split: option.splits)

lemma settled_at_put2:
  assumes "v_positions (V s') = (v_positions (V s))((m, a) \<mapsto> p, (m, b) \<mapsto> q)"
    and "pos_is_settled p = pos_is_settled (position_of s m a)"
    and "pos_is_settled q = pos_is_settled (position_of s m b)"
  shows "settled_at (V s') = settled_at (V s)"
  using assms by (auto simp: settled_at_def fun_eq_iff position_in_def split: option.splits)

text \<open>
  What the operations that move no settlement keep: well-formed positions stay well-formed, the
  settled positions are the same, and no payment is reported.
\<close>

definition unsettling :: "('x, 'r) market_state \<Rightarrow> ('x, 'r) market_state \<Rightarrow> bool" where
  "unsettling s s' \<longleftrightarrow> (positions_ok (V s) \<longrightarrow> positions_ok (V s'))
     \<and> settled_at (V s') = settled_at (V s)"

lemma deposit_unsettling:
  assumes "deposit_collateral E A T a m n s = (Ok u, s')"
  shows "unsettling s s'"
proof -
  let ?p = "position_of s m a"
  from assms obtain n: "0 < n" and fit: "in_i128 (pos_total_deposited ?p + n)"
    and V: "v_positions (V s') = (v_positions (V s))((m, a) \<mapsto>
      ?p\<lparr>pos_total_deposited := pos_total_deposited ?p + n\<rparr>)"
    by (rule deposit_ok) simp
  have "position_ok m a (?p\<lparr>pos_total_deposited := pos_total_deposited ?p + n\<rparr>)"
    if "positions_ok (V s)"
    using n fit position_of_ok[OF that, of m a] position_ok_range(5)[OF position_of_ok[OF that]]
    by (intro position_ok_total) (auto intro: add_nonneg_pos less_imp_le)
  then show ?thesis
    unfolding unsettling_def by (auto intro!: positions_ok_put[OF V] settled_at_put[OF V])
qed

lemma withdraw_unsettling:
  assumes "withdraw_unused_collateral E A T F a m n s = (Ok u, s')"
  shows "unsettling s s'"
proof -
  let ?p = "position_of s m a" and ?k = "n + fee_due (V s) a n"
  from assms obtain n: "0 < n" "0 \<le> fee_due (V s) a n"
    and le: "?k \<le> pos_total_deposited ?p - pos_locked_collateral ?p"
    and V: "v_positions (V s') = (v_positions (V s))((m, a) \<mapsto>
      ?p\<lparr>pos_total_deposited := pos_total_deposited ?p - ?k\<rparr>)"
    by (rule withdraw_ok) simp
  have "position_ok m a (?p\<lparr>pos_total_deposited := pos_total_deposited ?p - ?k\<rparr>)"
    if "positions_ok (V s)"
  proof -
    note p = position_of_ok[OF that, of m a]
    with n le position_ok_range(6,7)[OF p] show ?thesis
      by (intro position_ok_total[OF p] in_range_less[of _ "pos_total_deposited ?p"]) auto
  qed
  then show ?thesis
    unfolding unsettling_def by (auto intro!: positions_ok_put[OF V] settled_at_put[OF V])
qed

lemma transfer_unsettling:
  assumes "transfer_position ev A m from to caller yes no price i s = (Ok u, s')"
  shows "unsettling s s'"
proof -
  let ?d = "position_of s m to"
  from assms obtain src l l' where src: "v_positions (V s) (m, from) = Some src"
    and amt: "0 \<le> price" "price \<le> 10000" "0 \<le> yes" "0 \<le> no"
      "yes \<le> pos_yes_shares src" "no \<le> pos_no_shares src"
      "in_i128 (pos_yes_shares ?d + yes)" "in_i128 (pos_no_shares ?d + no)"
    and l: "calculate_locked_collateral (pos_yes_shares src - yes) (pos_no_shares src - no) price
        = Some l"
      "calculate_locked_collateral (pos_yes_shares ?d + yes) (pos_no_shares ?d + no) price = Some l'"
    and V: "v_positions (V s') = (v_positions (V s))
         ((m, from) \<mapsto> src\<lparr>pos_yes_shares := pos_yes_shares src - yes,
            pos_no_shares := pos_no_shares src - no, pos_locked_collateral := l\<rparr>,
          (m, to) \<mapsto> ?d\<lparr>pos_yes_shares := pos_yes_shares ?d + yes,
             pos_no_shares := pos_no_shares ?d + no, pos_locked_collateral := l'\<rparr>)"
    by (rule transfer_ok) simp
  have ok: "positions_ok (V s')" if "positions_ok (V s)"
  proof (rule positions_ok_put2[OF V that])
    note p = position_of_ok[OF that, of m "from", unfolded position_of_stored[OF src]]
      and d = position_of_ok[OF that, of m to]
    show "position_ok m from (src\<lparr>pos_yes_shares := pos_yes_shares src - yes,
            pos_no_shares := pos_no_shares src - no, pos_locked_collateral := l\<rparr>)"
      using relocked_position_ok[of "src\<lparr>pos_yes_shares := pos_yes_shares src - yes,
            pos_no_shares := pos_no_shares src - no\<rparr>" price l m "from"] l(1) amt
        position_ok_range[OF p] by (simp add: in_i128_def i128_numerals)
    show "position_ok m to (?d\<lparr>pos_yes_shares := pos_yes_shares ?d + yes,
             pos_no_shares := pos_no_shares ?d + no, pos_locked_collateral := l'\<rparr>)"
      using relocked_position_ok[of "?d\<lparr>pos_yes_shares := pos_yes_shares ?d + yes,
             pos_no_shares := pos_no_shares ?d + no\<rparr>" price l' m to] l(2) amt
        position_ok_range[OF d] by (simp add: in_i128_def i128_numerals)
  qed
  show ?thesis
    unfolding unsettling_def using ok
    by (auto intro!: settled_at_put2[OF V] simp: position_of_stored[OF src])
qed

lemma merge_unsettling:
  assumes "merge_positions ev A m owner a b caller price i s = (Ok u, s')"
  shows "unsettling s s'"
proof -
  from assms obtain p q l where p: "v_positions (V s) (m, a) = Some p"
    and q: "v_positions (V s) (m, b) = Some q"
    and fit: "0 \<le> price" "price \<le> 10000"
      "in_i128 (pos_yes_shares p + pos_yes_shares q)" "in_i128 (pos_no_shares p + pos_no_shares q)"
      "in_i128 (pos_total_deposited p + pos_total_deposited q)"
    and l: "calculate_locked_collateral (pos_yes_shares p + pos_yes_shares q)
       (pos_no_shares p + pos_no_shares q) price = Some l"
    and V: "v_positions (V s') = (v_positions (V s))
         ((m, a) \<mapsto> p\<lparr>pos_yes_shares := pos_yes_shares p + pos_yes_shares q,
            pos_no_shares := pos_no_shares p + pos_no_shares q,
            pos_total_deposited := pos_total_deposited p + pos_total_deposited q,
            pos_locked_collateral := l\<rparr>,
          (m, b) \<mapsto> q\<lparr>pos_yes_shares := 0, pos_no_shares := 0, pos_locked_collateral := 0,
            pos_total_deposited := 0\<rparr>)"
    by (rule merge_ok) simp
  have ok: "positions_ok (V s')" if "positions_ok (V s)"
  proof (rule positions_ok_put2[OF V that])
    note pr = position_ok_range[OF position_of_ok[OF that, of m a, unfolded position_of_stored[OF p]]]
      and qr = position_ok_range[OF position_of_ok[OF that, of m b, unfolded position_of_stored[OF q]]]
    show "position_ok m a (p\<lparr>pos_yes_shares := pos_yes_shares p + pos_yes_shares q,
            pos_no_shares := pos_no_shares p + pos_no_shares q,
            pos_total_deposited := pos_total_deposited p + pos_total_deposited q,
            pos_locked_collateral := l\<rparr>)"
      using relocked_position_ok[of "p\<lparr>pos_yes_shares := pos_yes_shares p + pos_yes_shares q,
            pos_no_shares := pos_no_shares p + pos_no_shares q,
            pos_total_deposited := pos_total_deposited p + pos_total_deposited q\<rparr>" price l m a]
        l fit pr qr by simp
    show "position_ok m b (q\<lparr>pos_yes_shares := 0, pos_no_shares := 0, pos_locked_collateral := 0,
            pos_total_deposited := 0\<rparr>)"
      using qr by (simp add: position_ok_def position_in_range_def in_i128_def i128_numerals)
  qed
  show ?thesis
    unfolding unsettling_def using ok
    by (auto intro!: settled_at_put2[OF V] simp: position_of_stored[OF p] position_of_stored[OF q])
qed

text \<open>On a store of another schema version the update reports success, publishes its event and stores nothing.\<close>

lemma update_not_ready:
  assumes "update_position_persist E A shown m a dy dn price s = (Ok p, s')" and "\<not> v_ready (V s)"
  shows "s' = s\<lparr>events := events s @ [update_event m a (shown p)]\<rparr>"
proof -
  from assms(2) have no: "ms_set_position A m a p (store s) \<noteq> Inr r" for p r
    using checked(3)[of m a p "store s" r] by auto
  have poke: "poke_position A m a p s = (Ok (), s)" for p
    using no[of p] by (cases "ms_set_position A m a p (store s)")
      (auto simp: poke_position_def write_store_def modify_def)
  have on_err: "on_err m h t = (Ok v, t') \<longleftrightarrow> m t = (Ok v, t') \<or> (\<exists>e t''. m t = (Err e, t'')
      \<and> h e t'' = (Ok v, t'))" for m h t v t' by (auto simp: on_err_def split: prod.splits result.splits)
  from assms show ?thesis
    unfolding update_position_persist_def Let_def by (auto simp: ok_iff on_err poke announce_update_run)
qed

lemma update_unsettling:
  assumes "update_position_persist E A shown m a dy dn price s = (Ok p, s')"
  shows "unsettling s s'"
proof (cases "v_ready (V s)")
  case False
  with update_not_ready[OF assms] show ?thesis by (simp add: unsettling_def)
next
  case True
  let ?p = "position_of s m a"
  from assms True obtain l where fit: "0 \<le> price" "price \<le> 10000"
      "0 \<le> pos_yes_shares ?p + dy" "0 \<le> pos_no_shares ?p + dn"
      "in_i128 (pos_yes_shares ?p + dy)" "in_i128 (pos_no_shares ?p + dn)"
    and l: "calculate_locked_collateral (pos_yes_shares ?p + dy) (pos_no_shares ?p + dn) price
        = Some l"
    and p: "p = ?p\<lparr>pos_yes_shares := pos_yes_shares ?p + dy,
       pos_no_shares := pos_no_shares ?p + dn, pos_locked_collateral := l\<rparr>"
    and V: "v_positions (V s') = (v_positions (V s))((m, a) \<mapsto> p)"
    by (rule update_ok) simp
  have "position_ok m a p" if "positions_ok (V s)"
    using relocked_position_ok[of "?p\<lparr>pos_yes_shares := pos_yes_shares ?p + dy,
       pos_no_shares := pos_no_shares ?p + dn\<rparr>" price l m a] l fit
      position_ok_range[OF position_of_ok[OF that, of m a]] p
    by (simp add: in_i128_def i128_numerals)
  then show ?thesis
    unfolding unsettling_def
    by (auto intro!: positions_ok_put[OF V] settled_at_put[OF V] simp: p)
qed

end

section \<open>Runs that report no payment\<close>

definition quiet :: "('x, 'r) market_state \<Rightarrow> ('x, 'r) market_state \<Rightarrow> bool" where
  "quiet s s' \<longleftrightarrow> (\<forall>m a. paid_count m a (events s') = paid_count m a (events s))"

interpretation quiet: run_relation quiet
  by unfold_locales (auto simp: quiet_def)

lemma paid_by_others [simp]:
  "paid_by m a (FeeCalculated v1 v2 v3 v4 v5) = 0"
  "paid_by m a (FeeRetainedNoTreasury w1 w2 w3 w4) = 0"
  "paid_by m a (WithdrawEdgeCase x1 x2 x3 x4) = 0"
  "paid_by m a (CollateralWithdrawn y1 y2 y3 y4 y5) = 0"
  "paid_by m a (LargeWithdraw z1 z2 z3 z4 z5) = 0"
  "paid_by m a (PositionLimitExceededEvent u1 u2 u3 u4) = 0"
  by (simp_all add: paid_by_def)

lemma quiet_emit: "(\<And>m a. paid_by m a ev = 0) \<Longrightarrow> keeps quiet (emit ev)"
  by (auto simp: keeps_def quiet_def ok_iff)

lemma quiet_store:
  "keeps quiet (read_store f)" "keeps quiet (write_store g)" "keeps quiet (try_read h)"
  "keeps quiet (try_write i)" "keeps quiet (trap_write j)" "keeps quiet (invoke_contract k)"
  "keeps quiet (token_transfer T tok from to n)"
  by (auto simp: keeps_def quiet_def ok_iff)

lemma quiet_on_err: "keeps quiet m \<Longrightarrow> (\<And>e s. fst (h e s) \<noteq> Ok ()) \<Longrightarrow> keeps quiet (on_err m h)"
  unfolding keeps_def on_err_def by (auto split: prod.splits result.splits) (metis fst_conv)+

lemma quiet_dropping: "keeps quiet m \<Longrightarrow> (\<And>s. events (d s) = events s) \<Longrightarrow> keeps quiet (dropping d m)"
  by (auto simp: keeps_def dropping_ok quiet_def)

lemmas quiet_rules = quiet.keeps_rules quiet_emit quiet_store quiet_on_err quiet_dropping

lemma quiet_deposit: "keeps quiet (deposit_collateral E A T a m n)"
  unfolding deposit_collateral_def deposit_guard_acquire_def deposit_body_def require_mode_def
    market_emits
  by (intro quiet_rules; simp add: deposit_guard_drop_def)

lemma quiet_withdraw: "keeps quiet (withdraw_unused_collateral E A T F a m n)"
  unfolding withdraw_unused_collateral_def require_mode_def cooldown_check_def withdraw_fee_def
    withdraw_payout_def route_fee_def market_emits
  by (intro quiet_rules; simp)

lemma quiet_position_parts:
  "keeps quiet (require_price price)" "keeps quiet (authorize_position_operator A owner caller)"
  "keeps quiet (consume_request_id A owner i)" "keeps quiet (validate_position_change p dy dn)"
  "keeps quiet (peek_position A m a)" "keeps quiet (poke_position A m a q)"
  "keeps quiet (relock r price)" "keeps quiet (position_limit_exceeded_side p dy dn)"
  by (auto simp: keeps_def quiet_def ok_iff authorize_position_operator_def consume_request_id_def
      peek_position_def poke_position_def split: if_splits)

lemma quiet_transfer:
  "(\<And>m a m' a'. paid_by m a (ev m' a') = 0) \<Longrightarrow>
     keeps quiet (transfer_position ev A m from to caller yes no price i)"
  unfolding transfer_position_def by (intro quiet_rules quiet_position_parts; simp)

lemma quiet_merge:
  "(\<And>m a m' a'. paid_by m a (ev m' a') = 0) \<Longrightarrow>
     keeps quiet (merge_positions ev A m owner a b caller price i)"
  unfolding merge_positions_def by (intro quiet_rules quiet_position_parts; simp)

lemma quiet_announce: "keeps quiet (announce_update E m a t)"
  by (cases t) (auto simp: keeps_def quiet_def announce_update_run update_event_def)

lemma quiet_update: "keeps quiet (update_position_persist E A shown m a dy dn price)"
  unfolding update_position_persist_def market_emits
  by (intro quiet_rules quiet_position_parts quiet_announce; simp add: run_simps)

lemma quietD: "keeps quiet m \<Longrightarrow> m s = (Ok v, s') \<Longrightarrow> paid_count k a (events s') = paid_count k a (events s)"
  by (auto simp: keeps_def quiet_def)

context market_tokens
begin

lemma reconcile_unsettling:
  assumes "reconcile_position_tokens E A C admin m a i s = (Ok p, s')"
  shows "unsettling s s'"
proof -
  from reconcile_ok[OF assms] have "v_positions (V s') = v_positions (V s)" by auto
  from positions_ok_cong[OF this] settled_at_cong[OF this] show ?thesis
    by (simp add: unsettling_def)
qed

section \<open>The invariant of the market\<close>

text \<open>
  Stored positions are well-formed, and a user's payment in a market has been reported at most
  once, and only if the position is settled.
\<close>

definition market_inv :: "('x, 'r) market_state \<Rightarrow> bool" where
  "market_inv s \<longleftrightarrow> positions_ok (V s)
     \<and> (\<forall>m a. paid_count m a (events s) \<le> (if settled_at (V s) m a then 1 else 0))"

lemma market_inv_unsettling:
  assumes "unsettling s s'" and "\<And>m a. paid_count m a (events s') = paid_count m a (events s)"
    and "market_inv s"
  shows "market_inv s'"
  using assms by (simp add: market_inv_def unsettling_def)

lemma settles_put:
  assumes "settles E T mk m a n s s'"
  obtains p where "v_positions (V s) (m, a) = Some p" "\<not> pos_is_settled p"
    "v_positions (V s') = (v_positions (V s))((m, a) \<mapsto> p\<lparr>pos_is_settled := True\<rparr>)"
  using assms unfolding settles_def by auto

text \<open>The accounting with the users settled so far but not yet reported.\<close>

definition loop_inv :: "u32 \<Rightarrow> address list \<Rightarrow> ('x, 'r) market_state \<Rightarrow> bool" where
  "loop_inv m users s \<longleftrightarrow> positions_ok (V s) \<and> (\<forall>m' a.
     paid_count m' a (events s) + (if m' = m then count_list users a else 0)
       \<le> (if settled_at (V s) m' a then 1 else 0))"

lemma loop_inv_start: "loop_inv m [] s = market_inv s"
  by (simp add: loop_inv_def market_inv_def cong: if_cong split del: if_split)

lemma loop_inv_settles:
  assumes "loop_inv m users s" and "settles E T mk m a n s s'" and "events s' = events s"
  shows "loop_inv m (users @ [a]) s'"
proof -
  from assms(2) obtain p where p: "v_positions (V s) (m, a) = Some p" "\<not> pos_is_settled p"
    and V: "v_positions (V s') = (v_positions (V s))((m, a) \<mapsto> p\<lparr>pos_is_settled := True\<rparr>)"
    by (rule settles_put)
  have "positions_ok (V s')"
    using assms(1) p by (intro positions_ok_put[OF V] position_ok_settled)
      (auto simp: loop_inv_def positions_ok_def)
  moreover have "\<not> settled_at (V s) m a" using p by (simp add: settled_at_def)
  moreover have "settled_at (V s') m' a' \<longleftrightarrow> settled_at (V s) m' a' \<or> m' = m \<and> a' = a" for m' a'
    using p by (auto simp: settled_at_def V)
  ultimately show ?thesis
    using assms(1,3) unfolding loop_inv_def by (auto split: if_splits)
qed

lemma loop_inv_done:
  assumes "loop_inv m users s"
    and "events s' = events s @ evs" and "V s' = V s"
    and "\<And>m' a. paid_count m' a evs = (if m' = m then count_list users a else 0)"
  shows "market_inv s'"
  using assms unfolding loop_inv_def market_inv_def by simp

lemma settle_listed_inv:
  assumes "settle_listed E A C T mk m users s = (Ok n, s')" and "market_inv s"
  shows "market_inv s'"
proof -
  from assms(1) obtain us ns t where
      run: "settle_users E A C T mk m users (0, [], []) s = (Ok (n, us, ns), t)"
    and s': "s' = t\<lparr>events := events t @
       (if us = [] then [] else [PositionsBatchSettled event_version m us ns (ledger_timestamp E)])\<rparr>"
    by (rule settle_listed_ok)
  have "loop_inv m (fst (snd (n, us, ns))) t"
  proof (rule settle_users_rule[OF run])
    show "loop_inv m (fst (snd (0, [], []))) s" using assms(2) by (simp add: loop_inv_start)
  next
    fix a acc u acc' u'
    assume inv: "loop_inv m (fst (snd acc)) u" and "settle_one E A C T mk m a acc u = (Ok acc', u')"
    from settle_one_ok[OF this(2)] show "loop_inv m (fst (snd acc')) u'"
    proof (elim disjE exE conjE)
      assume "acc' = acc" "same_effects u u'"
      with inv show ?thesis by (simp add: loop_inv_def same_effects_def)
    next
      fix n assume "settles E T mk m a n u u'" "acc' = add_settled acc a n" "events u' = events u"
      with loop_inv_settles[OF inv] show ?thesis by (simp add: add_settled_def split: prod.splits)
    qed
  qed
  then have "loop_inv m us t" by simp
  then show ?thesis by (rule loop_inv_done) (auto simp: s')
qed

lemma settle_position_inv:
  assumes "settle_position E A C T a m s = (Ok n, s')" and inv: "market_inv s"
  shows "market_inv s'"
proof -
  from assms(1) obtain mk p where p: "v_positions (V s) (m, a) = Some p"
    and st: "settles E T mk m a n s s'"
    and ev: "events s' = events s @ [PositionUpdated event_version (pos_market_id p) (pos_user p)
         (pos_yes_shares p) (pos_no_shares p) 0,
       PositionSettled event_version (pos_market_id p) (pos_user p) n (ledger_timestamp E)]"
    by (rule settle_position_ok)
  from inv p have "pos_market_id p = m" "pos_user p = a"
    by (auto simp: market_inv_def positions_ok_def position_ok_def)
  note ev = ev[unfolded this]
  let ?s' = "s'\<lparr>events := events s\<rparr>"
  have "settles E T mk m a n s ?s'" using st
    unfolding settles_def by (simp cong: if_cong split del: if_split)
  from loop_inv_settles[OF _ this, of "[]"] inv
  have "loop_inv m [a] ?s'" by (simp add: loop_inv_start)
  then show ?thesis by (rule loop_inv_done) (auto simp: ev)
qed

lemma reconcile_quiet:
  assumes "reconcile_position_tokens E A C admin m a i s = (Ok p, s')"
  shows "paid_count k b (events s') = paid_count k b (events s)"
  using reconcile_ok[OF assms] by auto

lemma market_step_inv:
  assumes "market_step A C T F ev s s'" and inv: "market_inv s"
    and ev: "\<And>m a m' a'. paid_by m a (ev m' a') = 0"
  shows "market_inv s'"
  using assms(1)
proof cases
  case deposit
  from market_inv_unsettling[OF deposit_unsettling[OF this] quietD[OF quiet_deposit this] inv]
  show ?thesis .
next
  case withdraw
  from market_inv_unsettling[OF withdraw_unsettling[OF this] quietD[OF quiet_withdraw this] inv]
  show ?thesis .
next
  case transfer
  from market_inv_unsettling[OF transfer_unsettling[OF this] quietD[OF quiet_transfer[OF ev] this]
    inv] show ?thesis .
next
  case merge
  from market_inv_unsettling[OF merge_unsettling[OF this] quietD[OF quiet_merge[OF ev] this] inv]
  show ?thesis .
next
  case update
  from market_inv_unsettling[OF update_unsettling[OF this] quietD[OF quiet_update this] inv]
  show ?thesis .
next
  case settle
  from settle_position_inv[OF this inv] show ?thesis .
next
  case batch
  from this inv show ?thesis by (elim batch_ok) (rule settle_listed_inv)
next
  case (page E m start limit out)
  obtain n "next" fin where "out = (n, next, fin)" by (cases out)
  with page inv show ?thesis by (auto elim!: page_ok intro: settle_listed_inv split: if_splits)
next
  case reconcile
  from market_inv_unsettling[OF reconcile_unsettling[OF this] reconcile_quiet[OF this] inv]
  show ?thesis .
qed

lemma market_reach_inv:
  assumes "market_reach A C T F ev s s'" and "market_inv s"
    and ev: "\<And>m a m' a'. paid_by m a (ev m' a') = 0"
  shows "market_inv s'"
  using assms(1,2) by induction (auto intro: market_step_inv[OF _ _ ev])

text \<open>Fresh markets satisfy the invariant: nothing stored, nothing published.\<close>

lemma market_inv_empty:
  "v_positions (V s) = (\<lambda>_. None) \<Longrightarrow> events s = [] \<Longrightarrow> market_inv s"
  by (simp add: market_inv_def positions_ok_def)

text \<open>What does not depend on the positions survives every settlement.\<close>

definition beside_positions :: "(market_view \<Rightarrow> 'c) \<Rightarrow> bool" where
  "beside_positions f \<longleftrightarrow> (\<forall>v ps. f (v\<lparr>v_positions := ps\<rparr>) = f v)"

lemma beside_positions_fields [simp]: "beside_positions v_consumed" "beside_positions v_markets"
  by (simp_all add: beside_positions_def)

lemma settles_keeps: "beside_positions f \<Longrightarrow> settles E T mk m a n s s' \<Longrightarrow> f (V s') = f (V s)"
  unfolding settles_def beside_positions_def by (elim exE conjE) simp

lemma settle_one_keeps:
  assumes "settle_one E A C T mk m a acc s = (Ok acc', s')" and "beside_positions f"
  shows "f (V s') = f (V s)"
  using settle_one_ok[OF assms(1)]
  by (elim disjE exE conjE) (simp_all add: same_effects_def settles_keeps[OF assms(2)])

lemma settle_listed_keeps:
  assumes "settle_listed E A C T mk m users s = (Ok n, s')" and f: "beside_positions f"
  shows "f (V s') = f (V s)"
proof -
  from assms(1) obtain us ns t where
      run: "settle_users E A C T mk m users (0, [], []) s = (Ok (n, us, ns), t)"
    and s': "s' = t\<lparr>events := events t @
       (if us = [] then [] else [PositionsBatchSettled event_version m us ns (ledger_timestamp E)])\<rparr>"
    by (rule settle_listed_ok)
  have "f (V t) = f (V s)"
    by (rule settle_users_rule[OF run, where Q = "\<lambda>_ t. f (V t) = f (V s)"])
      (simp_all add: settle_one_keeps[OF _ f])
  then show ?thesis by (simp add: s')
qed

text \<open>Consumed request ids stay consumed, and no operation changes a market.\<close>

lemma market_step_consumed:
  assumes "market_step A C T F ev s s'"
  shows "v_consumed (V s) \<subseteq> v_consumed (V s')"
  using assms
proof cases
  case deposit
  then show ?thesis by (rule deposit_ok) simp
next
  case withdraw
  then show ?thesis by (rule withdraw_ok) simp
next
  case transfer
  then show ?thesis by (rule transfer_ok) auto
next
  case merge
  then show ?thesis by (rule merge_ok) auto
next
  case update
  then show ?thesis
    by (cases "v_ready (V s)") (auto elim: update_ok dest: update_not_ready)
next
  case settle
  then show ?thesis by (rule settle_position_ok) (simp add: settles_keeps[of v_consumed])
next
  case batch
  then show ?thesis by (auto elim!: batch_ok dest: settle_listed_keeps[OF _ beside_positions_fields(1)])
next
  case (page E m start limit out)
  obtain n "next" fin where "out = (n, next, fin)" by (cases out)
  with page show ?thesis by (auto elim!: page_ok dest!: settle_listed_keeps[OF _ beside_positions_fields(1)] split: if_splits)
next
  case reconcile
  then show ?thesis by (auto dest!: reconcile_ok)
qed

lemma market_reach_consumed:
  "market_reach A C T F ev s s' \<Longrightarrow> v_consumed (V s) \<subseteq> v_consumed (V s')"
  by (induction rule: market_reach.induct) (auto dest: market_step_consumed)

lemma market_step_markets:
  assumes "market_step A C T F ev s s'"
  shows "v_markets (V s') = v_markets (V s)"
  using assms
proof cases
  case deposit
  then show ?thesis by (rule deposit_ok) simp
next
  case withdraw
  then show ?thesis by (rule withdraw_ok) simp
next
  case transfer
  then show ?thesis by (rule transfer_ok) auto
next
  case merge
  then show ?thesis by (rule merge_ok) auto
next
  case update
  then show ?thesis
    by (cases "v_ready (V s)") (auto elim: update_ok dest: update_not_ready)
next
  case settle
  then show ?thesis by (rule settle_position_ok) (simp add: settles_keeps[of v_markets])
next
  case batch
  then show ?thesis by (auto elim!: batch_ok dest: settle_listed_keeps[OF _ beside_positions_fields(2)])
next
  case (page E m start limit out)
  obtain n "next" fin where "out = (n, next, fin)" by (cases out)
  with page show ?thesis
    by (auto elim!: page_ok dest!: settle_listed_keeps[OF _ beside_positions_fields(2)] split: if_splits)
next
  case reconcile
  then show ?thesis by (auto dest!: reconcile_ok)
qed

lemma market_reach_markets:
  "market_reach A C T F ev s s' \<Longrightarrow> v_markets (V s') = v_markets (V s)"
  by (induction rule: market_reach.induct) (auto dest: market_step_markets)

end

end
