(* ===== verification/Market_Paging.thy ===== *)
theory Market_Paging
  imports Market_Settlement
begin

text \<open>
  Settling a market page by page: every page makes progress, the paging ends, and what it leaves
  in storage and in the token contracts is what one settlement of the whole participant list
  would leave.
\<close>

section \<open>Computations that do not look at the event log\<close>

text \<open>
  \<open>log_blind P m n\<close>: from states that differ in the event log only, \<open>m\<close> and \<open>n\<close> end the same way (the
  returned values related by \<open>P\<close>) in states that differ in the event log only.
\<close>

definition same_store :: "('x, 'r) market_state \<Rightarrow> ('x, 'r) market_state \<Rightarrow> bool" where
  "same_store s t \<longleftrightarrow> store s = store t \<and> ext s = ext t"

definition log_blind :: "('a \<Rightarrow> 'b \<Rightarrow> bool) \<Rightarrow> ('e, 'x, 'r, 'a) mod_contract
    \<Rightarrow> ('e, 'x, 'r, 'b) mod_contract \<Rightarrow> bool" where
  "log_blind P m n \<longleftrightarrow> (\<forall>s t. same_store s t \<longrightarrow>
     same_store (snd (m s)) (snd (n t)) \<and> rel_result (=) P (fst (m s)) (fst (n t)))"

lemma log_blind_bind:
  fixes m :: "('e, 'x, 'r, 'a) mod_contract"
  assumes "log_blind P m n" and "\<And>a b. P a b \<Longrightarrow> log_blind Q (f a) (g b)"
  shows "log_blind Q (bind m f) (bind n g)"
  unfolding log_blind_def
proof (intro allI impI)
  fix s t :: "('x, 'r) market_state"
  assume "same_store s t"
  with assms(1) have st: "same_store (snd (m s)) (snd (n t))"
    and r: "rel_result (=) P (fst (m s)) (fst (n t))" by (auto simp: log_blind_def)
  show "same_store (snd (bind m f s)) (snd (bind n g t))
      \<and> rel_result (=) Q (fst (bind m f s)) (fst (bind n g t))"
  proof (cases "m s"; cases "n t")
    fix r1 s1 r2 t1 assume m: "m s = (r1, s1)" "n t = (r2, t1)"
    with st r assms(2) show ?thesis
      by (cases r1; cases r2) (auto simp: bind_def log_blind_def)
  qed
qed

lemma log_blind_andthen:
  "log_blind (=) m n \<Longrightarrow> log_blind Q k l \<Longrightarrow> log_blind Q (andthen m k) (andthen n l)"
  unfolding andthen_def by (rule log_blind_bind)

lemma log_blind_base:
  "P a b \<Longrightarrow> log_blind P (return a) (return b)" "log_blind P (throw e) (throw e)"
  "log_blind (=) (emit ev) (emit ev')" "log_blind (=) (read_store f) (read_store f)"
  "log_blind (=) (try_read g) (try_read g)" "log_blind (=) (try_write h) (try_write h)"
  "log_blind (=) (invoke_contract k) (invoke_contract k)" "log_blind (=) (try_result r) (try_result r)"
  "log_blind (=) (gets (\<lambda>s. f (store s))) (gets (\<lambda>s. f (store s)))"
  by (auto simp: log_blind_def same_store_def run_simps split: option.splits sum.splits)

lemma log_blind_token_transfer:
  "log_blind (=) (token_transfer T tok a b n) (token_transfer T tok a b n)"
  unfolding token_transfer_def by (rule log_blind_base)

lemma log_blind_when_do: "log_blind (=) m n \<Longrightarrow> log_blind (=) (when_do c m) (when_do c n)"
  by (simp add: when_do_def log_blind_base)

lemma log_blind_attempt:
  "log_blind (=) m m \<Longrightarrow> log_blind (=) (attempt m :: ('f, 'x, 'r, 'e + 'a) mod_contract) (attempt m)"
  unfolding log_blind_def attempt_def by (fastforce split: prod.splits result.splits)

lemma log_blind_option:
  "(x = None \<Longrightarrow> log_blind P m n) \<Longrightarrow> (\<And>y. x = Some y \<Longrightarrow> log_blind P (f y) (g y)) \<Longrightarrow>
     log_blind P (case x of None \<Rightarrow> m | Some y \<Rightarrow> f y) (case x of None \<Rightarrow> n | Some y \<Rightarrow> g y)"
  by (cases x) auto

lemma log_blind_sum:
  "(\<And>e. x = Inl e \<Longrightarrow> log_blind P (f e) (f' e)) \<Longrightarrow> (\<And>y. x = Inr y \<Longrightarrow> log_blind P (g y) (g' y)) \<Longrightarrow>
     log_blind P (case x of Inl e \<Rightarrow> f e | Inr y \<Rightarrow> g y) (case x of Inl e \<Rightarrow> f' e | Inr y \<Rightarrow> g' y)"
  by (cases x) auto

lemma log_blind_prod:
  "(\<And>a b. p = (a, b) \<Longrightarrow> log_blind P (f a b) (g a b)) \<Longrightarrow>
     log_blind P (case p of (a, b) \<Rightarrow> f a b) (case p of (a, b) \<Rightarrow> g a b)"
  by (cases p) auto

lemma log_blind_bind_eq:
  "log_blind (=) m n \<Longrightarrow> (\<And>a. log_blind Q (f a) (g a)) \<Longrightarrow> log_blind Q (bind m f) (bind n g)"
  by (rule log_blind_bind[where P = "(=)"]) simp_all

lemmas log_blind_intros = log_blind_andthen log_blind_bind_eq log_blind_when_do log_blind_token_transfer log_blind_base
  log_blind_attempt log_blind_option log_blind_sum log_blind_prod

lemma log_blind_parity:
  "log_blind (=) (get_position_token_parity A C m a) (get_position_token_parity A C m a)"
  unfolding get_position_token_parity_def load_token_balances_def Let_def
  by (intro log_blind_intros) simp_all

lemma log_blind_compute: "log_blind (=) (compute_settlement E A C p mk) (compute_settlement E A C p mk)"
  unfolding compute_settlement_def assert_position_token_parity_def Let_def
    mkt_emit_position_token_mismatch_detected_def
  by (intro log_blind_intros log_blind_parity refl)

lemma log_blind_burn:
  "log_blind (=) (burn_settled_outcome_tokens A C m a p) (burn_settled_outcome_tokens A C m a p)"
  unfolding burn_settled_outcome_tokens_def by (intro log_blind_intros refl)

lemma log_blind_pay: "log_blind (=) (pay_settled E T mk a n) (pay_settled E T mk a n)"
  unfolding pay_settled_def by (intro log_blind_intros)

text \<open>The accumulators are not looked at either.\<close>

lemma log_blind_settle_one:
  "log_blind (\<lambda>_ _. True) (settle_one E A C T mk m a acc) (settle_one E A C T mk m a acc')"
  unfolding settle_one_def by (intro log_blind_intros log_blind_compute log_blind_burn log_blind_pay TrueI)

lemma log_blind_settle_users:
  "log_blind (\<lambda>_ _. True) (settle_users E A C T mk m users acc) (settle_users E A C T mk m users acc')"
proof (induction users arbitrary: acc acc')
  case Nil
  then show ?case by (simp add: log_blind_base)
next
  case (Cons a users)
  then show ?case by (auto intro: log_blind_bind log_blind_settle_one)
qed

lemma settle_users_blind:
  assumes "settle_users E A C T mk m users acc s = (Ok r, s')" and "same_store s t"
  obtains r' t' where "settle_users E A C T mk m users acc' t = (Ok r', t')" "same_store s' t'"
proof -
  from log_blind_settle_users[of E A C T mk m users acc acc'] assms
  have "same_store s' (snd (settle_users E A C T mk m users acc' t))"
    and "rel_result (=) (\<lambda>_ _. True) (Ok r :: (market_error, settled_so_far) result)
       (fst (settle_users E A C T mk m users acc' t))"
    by (auto simp: log_blind_def) (metis fst_conv snd_conv)+
  with that show ?thesis
    by (cases "settle_users E A C T mk m users acc' t"; cases "fst (settle_users E A C T mk m users acc' t)") auto
qed

lemma settle_users_append:
  "settle_users E A C T mk m (xs @ ys) acc =
     bind (settle_users E A C T mk m xs acc) (settle_users E A C T mk m ys)"
  by (induction xs arbitrary: acc) (auto simp: bind_def return_def fun_eq_iff split: prod.splits result.splits)

section \<open>Paging\<close>

text \<open>
  The caller's loop of \<open>settle_positions_page\<close> (its documentation: call again from the returned
  index until the returned flag is set), cut off after \<open>fuel\<close> calls.
\<close>

primrec settle_pages :: "env \<Rightarrow> 'r market_accessors \<Rightarrow> 'x outcome_client \<Rightarrow> 'x token_client
    \<Rightarrow> u32 \<Rightarrow> u32 \<Rightarrow> nat \<Rightarrow> u32 \<Rightarrow> ('x, 'r, u32 \<times> bool) mcontract" where
  "settle_pages E A C T m limit 0 start = return (start, False)"
| "settle_pages E A C T m limit (Suc fuel) start =
     bind (settle_positions_page E A C T m start limit) (\<lambda>(n, next_index, is_complete).
     if is_complete then return (next_index, True)
     else settle_pages E A C T m limit fuel next_index)"

context market_tokens
begin

text \<open>The list a page reads never changes while settling.\<close>

lemma settle_one_frame:
  assumes "settle_one E A C T mk m a acc s = (Ok acc', s')"
  shows "v_participants (V s') = v_participants (V s)" and "v_markets (V s') = v_markets (V s)"
  using settle_one_ok[OF assms] by (auto simp: same_effects_def settles_def)

lemma settle_users_frame:
  assumes "settle_users E A C T mk m users acc s = (Ok acc', s')"
  shows "v_participants (V s') = v_participants (V s)" and "v_markets (V s') = v_markets (V s)"
proof -
  have "v_participants (V s') = v_participants (V s) \<and> v_markets (V s') = v_markets (V s)"
    by (rule settle_users_rule[OF assms, where Q = "\<lambda>_ t. v_participants (V t) = v_participants (V s)
        \<and> v_markets (V t) = v_markets (V s)"]) (auto dest: settle_one_frame)
  then show "v_participants (V s') = v_participants (V s)" "v_markets (V s') = v_markets (V s)"
    by simp_all
qed

text \<open>One page: where it ends, and that it settles its slice.\<close>

lemma page_slice:
  assumes "settle_positions_page E A C T m start limit s = (Ok (n, next_index, fin), s')"
    and len: "length (v_participants (V s) m) \<le> u32_max"
    and mk: "v_markets (V s) m = Some mk"
  obtains acc t where
    "settle_users E A C T mk m (take (next_index - start) (drop start (v_participants (V s) m)))
       (0, [], []) s = (Ok acc, t)" "same_store t s'"
    "next_index = (if length (v_participants (V s) m) \<le> start then length (v_participants (V s) m)
       else min (start + limit) (length (v_participants (V s) m)))"
    "fin \<longleftrightarrow> length (v_participants (V s) m) \<le> next_index"
proof -
  let ?l = "v_participants (V s) m"
  from assms(1) obtain mk' where "v_markets (V s) m = Some mk'" and p': "if length ?l \<le> start
     then n = 0 \<and> next_index = length ?l \<and> fin \<and> s' = s
     else next_index = min (min u32_max (start + limit)) (length ?l)
       \<and> (fin \<longleftrightarrow> length ?l \<le> next_index)
       \<and> settle_listed E A C T mk' m (take (next_index - start) (drop start ?l)) s = (Ok n, s')"
    by (rule page_ok)
  with mk have "mk' = mk" by simp
  note p = p'[unfolded this]
  show ?thesis
  proof (cases "length ?l \<le> start")
    case True
    with p that[of "(0, [], [])" s] show ?thesis by (simp add: ok_iff same_store_def)
  next
    case False
    with p obtain us ns t where
        "settle_users E A C T mk m (take (next_index - start) (drop start ?l)) (0, [], []) s
           = (Ok (n, us, ns), t)" "same_store t s'"
      by (auto elim!: settle_listed_ok simp: same_store_def)
    with that False p len show ?thesis by auto
  qed
qed

text \<open>All pages together, from index \<open>start\<close> on.\<close>

lemma settle_pages_from:
  assumes "settle_pages E A C T m limit fuel start s = (Ok (last_index, fin), s')"
    and "v_markets (V s) m = Some mk" and "length (v_participants (V s) m) \<le> u32_max"
    and "0 < limit" and "length (v_participants (V s) m) - start \<le> fuel * limit"
    and "0 < fuel" and "start \<le> length (v_participants (V s) m)"
  shows "fin \<and> last_index = length (v_participants (V s) m) \<and>
    (\<exists>acc t. settle_users E A C T mk m (drop start (v_participants (V s) m)) (0, [], []) s
       = (Ok acc, t) \<and> same_store t s')"
  using assms
proof (induction fuel arbitrary: start s)
  case 0
  then show ?case by simp
next
  case (Suc fuel)
  let ?l = "v_participants (V s) m"
  from Suc.prems(1) obtain n nx whole s1 where
      page: "settle_positions_page E A C T m start limit s = (Ok (n, nx, whole), s1)"
    and rest: "(if whole then return (nx, True) else settle_pages E A C T m limit fuel nx) s1
        = (Ok (last_index, fin), s')"
    by (auto simp: bind_ok)
  from page Suc.prems(3,2) obtain acc t where
      slice: "settle_users E A C T mk m (take (nx - start) (drop start ?l)) (0, [], []) s = (Ok acc, t)"
    and t: "same_store t s1"
    and nx: "nx = (if length ?l \<le> start then length ?l else min (start + limit) (length ?l))"
    and fin: "whole \<longleftrightarrow> length ?l \<le> nx"
    by (rule page_slice)
  from t have V1: "V s1 = V t" by (simp add: same_store_def)
  note frame = settle_users_frame[OF slice]
  show ?case
  proof (cases "whole")
    case True
    with rest fin nx slice t Suc.prems(7) show ?thesis
      by (cases acc) (auto simp: ok_iff split: if_splits)
  next
    case False
    with fin nx Suc.prems(4) have nx: "nx = start + limit" "nx < length ?l" by (auto split: if_splits)
    have IH: "fin \<and> last_index = length ?l \<and>
        (\<exists>acc u. settle_users E A C T mk m (drop nx ?l) (0, [], []) s1 = (Ok acc, u)
          \<and> same_store u s')"
      using Suc.IH[of nx s1] rest False Suc.prems nx V1 frame
      by (cases fuel) (auto simp: algebra_simps)
    then obtain acc2 u where u: "settle_users E A C T mk m (drop nx ?l) (0, [], []) s1 = (Ok acc2, u)"
      "same_store u s'" by blast
    have "same_store s1 t" using t by (simp add: same_store_def)
    from settle_users_blind[OF u(1) this, of acc] obtain acc3 w where
      w: "settle_users E A C T mk m (drop nx ?l) acc t = (Ok acc3, w)" "same_store u w" .
    have split: "drop start ?l = take (nx - start) (drop start ?l) @ drop nx ?l"
      using nx by (metis append_take_drop_id drop_drop le_add1 le_add_diff_inverse2 add.commute)
    have "settle_users E A C T mk m (drop start ?l) (0, [], []) s = (Ok acc3, w)"
      by (subst split) (simp add: settle_users_append bind_def slice w)
    moreover have "same_store w s'" using w(2) u(2) by (simp add: same_store_def)
    ultimately show ?thesis using IH by blast
  qed
qed

end

end
