(* ===== verification/Market_Treasury.thy ===== *)
theory Market_Treasury
  imports Market_Funds Treasury_Invariants
begin

text \<open>
  The market and the treasury together: the fee of a withdrawal goes through the treasury
  contract's \<open>collect_fee\<close>. To the market, the world outside is the state of one treasury, whose
  own outside holds the token contracts.
\<close>

section \<open>The composition\<close>

text \<open>Token contracts under the treasury's state; nothing of the treasury changes in a transfer.\<close>

definition beside_treasury :: "'x token_client \<Rightarrow> ('x, 'q) treasury token_client" where
  "beside_treasury T = \<lparr>
     tok_transfer = (\<lambda>t from to n q. case tok_transfer T t from to n (ext q) of
         None \<Rightarrow> None | Some (u, x) \<Rightarrow> Some (u, q\<lparr>ext := x\<rparr>)),
     tok_burn = (\<lambda>t from n q. case tok_burn T t from n (ext q) of
         None \<Rightarrow> None | Some (u, x) \<Rightarrow> Some (u, q\<lparr>ext := x\<rparr>))\<rparr>"

text \<open>
  The treasury at \<open>addr\<close>, called by another contract: the caller has authorized its own call, an
  error or a trap of the treasury traps the caller, a call of any other address traps.
\<close>

definition called_by :: "address \<Rightarrow> address \<Rightarrow> env \<Rightarrow> env" where
  "called_by caller self E =
     E\<lparr>current_contract_address := self, authorized := (\<lambda>a. a = caller)\<rparr>"

definition treasury_sink :: "address \<Rightarrow> env \<Rightarrow> 'q treasury_accessors \<Rightarrow> ('x, 'q) treasury fee_sink"
  where
  "treasury_sink addr E B = (\<lambda>ta caller token market_id amount q.
     if ta \<noteq> addr then None
     else (case treasury_collect_fee
         (called_by caller addr E) B caller token market_id amount q of
       (Ok _, q') \<Rightarrow> Some ((), q') | (Err _, _) \<Rightarrow> None | (Panic, _) \<Rightarrow> None))"

lemma beside_treasury_transfer:
  "tok_transfer (beside_treasury T) t from to n q = Some (u, q') \<longleftrightarrow>
     (\<exists>x. tok_transfer T t from to n (ext q) = Some (u, x) \<and> q' = q\<lparr>ext := x\<rparr>)"
  by (auto simp: beside_treasury_def split: option.splits)

lemma treasury_sink_Some:
  "treasury_sink addr E B ta caller token m n q = Some (u, q') \<longleftrightarrow> ta = addr \<and>
     treasury_collect_fee (called_by caller addr E) B caller token m n q = (Ok (), q')"
  by (cases "treasury_collect_fee (called_by caller addr E) B caller token m n q";
      cases "fst (treasury_collect_fee (called_by caller addr E) B caller token m n q)")
    (auto simp: treasury_sink_def)

section \<open>A withdrawal with a fee\<close>

text \<open>A fee that is routed is held by the treasury and booked, and the books stay sound.\<close>

locale market_over_treasury = market_storage A view + sep41 T balance
  for A :: "'r market_accessors" and view :: "'r \<Rightarrow> market_view"
    and T :: "'x token_client" and balance :: "'x \<Rightarrow> address \<Rightarrow> address \<Rightarrow> int"
begin

lemma fee_routed_books:
  fixes q q' :: "('x, 'q) treasury"
  assumes "fee_routed E (beside_treasury T) (treasury_sink addr E B) mk m fee (Some ta) q q'"
    and "0 < fee" and market: "current_contract_address E \<noteq> addr"
  shows "ta = addr" and "current_contract_address E \<in> set (trs_get_authorized_markets q)"
    and "recorded_balance q' = (recorded_balance q)(mkt_collateral_token mk :=
       saturated_sum (recorded_balance q (mkt_collateral_token mk)) fee)"
    and "balance (ext q') t addr = balance (ext q) t addr
       + (if t = mkt_collateral_token mk then fee else 0)"
    and "books_ok q \<Longrightarrow> books_ok q'"
proof -
  from assms(1,2) obtain p where
      tr: "tok_transfer (beside_treasury T) (mkt_collateral_token mk) (current_contract_address E) ta
        fee q = Some ((), p)"
    and col: "treasury_sink addr E B ta (current_contract_address E) (mkt_collateral_token mk) m fee p
        = Some ((), q')"
    by (auto simp: fee_routed_def)
  from tr obtain x where x: "tok_transfer T (mkt_collateral_token mk) (current_contract_address E) ta
      fee (ext q) = Some ((), x)" and p: "p = q\<lparr>ext := x\<rparr>"
    by (auto simp: beside_treasury_transfer)
  from col have ta: "ta = addr" and run: "treasury_collect_fee
      (called_by (current_contract_address E) addr E) B
      (current_contract_address E) (mkt_collateral_token mk) m fee p = (Ok (), q')"
    by (auto simp: treasury_sink_Some)
  note c = collect_fee_ok[OF run]
  show "ta = addr" by (rule ta)
  show "current_contract_address E \<in> set (trs_get_authorized_markets q)"
    using c(3) by (simp add: p trs_get_authorized_markets_def)
  show "recorded_balance q' = (recorded_balance q)(mkt_collateral_token mk :=
       saturated_sum (recorded_balance q (mkt_collateral_token mk)) fee)"
    using c(6) by (auto simp: p recorded_balance_def fun_eq_iff)
  show "balance (ext q') t addr = balance (ext q) t addr
       + (if t = mkt_collateral_token mk then fee else 0)"
    using transfer_moves[OF x, of t addr] c(5) market by (simp add: p ta)
  have "books_ok p" if "books_ok q"
    using that by (simp add: books_ok_def p recorded_balance_def recorded_fees_def)
  with collect_fee_books[OF run] show "books_ok q \<Longrightarrow> books_ok q'" by blast
qed

lemma withdrawal_books:
  fixes s s' :: "(('x, 'q) treasury, 'r) market_state"
  assumes run: "withdraw_unused_collateral E A (beside_treasury T) (treasury_sink addr E B) user m n s
      = (Ok u, s')"
    and fee: "0 < fee_due (V s) user n" and ta: "v_treasury (V s) = Some ta"
    and distinct: "current_contract_address E \<noteq> addr" "user \<noteq> addr"
  shows "\<exists>mk. v_markets (V s) m = Some mk \<and> ta = addr
    \<and> current_contract_address E \<in> set (trs_get_authorized_markets (ext s))
    \<and> recorded_balance (ext s') = (recorded_balance (ext s))(mkt_collateral_token mk :=
        saturated_sum (recorded_balance (ext s) (mkt_collateral_token mk)) (fee_due (V s) user n))
    \<and> (\<forall>t. balance (ext (ext s')) t addr = balance (ext (ext s)) t addr
        + (if t = mkt_collateral_token mk then fee_due (V s) user n else 0))
    \<and> (books_ok (ext s) \<longrightarrow> books_ok (ext s'))"
proof -
  from run obtain mk x where mk: "v_markets (V s) m = Some mk"
    and r: "fee_routed E (beside_treasury T) (treasury_sink addr E B) mk m (fee_due (V s) user n)
        (v_treasury (V s)) (ext s) x"
    and pay: "tok_transfer (beside_treasury T) (mkt_collateral_token mk) (current_contract_address E)
        user n x = Some ((), ext s')"
    by (rule withdraw_ok) blast
  note f = fee_routed_books[OF r[unfolded ta] fee distinct(1)]
  from pay obtain y where y: "tok_transfer T (mkt_collateral_token mk) (current_contract_address E)
      user n (ext x) = Some ((), y)" and s': "ext s' = x\<lparr>ext := y\<rparr>"
    by (auto simp: beside_treasury_transfer)
  have same: "recorded_balance (ext s') = recorded_balance x" "books_ok (ext s') = books_ok x"
    by (simp_all add: s' recorded_balance_def recorded_fees_def books_ok_def fun_eq_iff)
  have "balance (ext (ext s')) t addr = balance (ext x) t addr" for t
    using transfer_moves[OF y, of t addr] distinct by (simp add: s')
  with f mk same show ?thesis by auto
qed

end

text \<open>Beside a treasury, the tokens still keep their laws.\<close>

lemma beside_treasury_sep41:
  fixes T :: "'x token_client"
  assumes "sep41 T balance"
  shows "sep41 (beside_treasury T :: ('x, 'q) treasury token_client) (\<lambda>q. balance (ext q))"
proof
  fix tok "from" to n and q q' :: "('x, 'q) treasury" and u t a
  assume "tok_transfer (beside_treasury T) tok from to n q = Some (u, q')"
  then obtain x where x: "tok_transfer T tok from to n (ext q) = Some (u, x)" "q' = q\<lparr>ext := x\<rparr>"
    by (auto simp: beside_treasury_transfer)
  from sep41.transfer_moves[OF assms x(1), of t a] x(2)
  show "balance (ext q') t a = balance (ext q) t a - (if t = tok \<and> a = from then n else 0)
      + (if t = tok \<and> a = to then n else 0)" by simp
next
  fix tok "from" n and q q' :: "('x, 'q) treasury" and u t a
  assume "tok_burn (beside_treasury T) tok from n q = Some (u, q')"
  then obtain x where x: "tok_burn T tok from n (ext q) = Some (u, x)" "q' = q\<lparr>ext := x\<rparr>"
    by (auto simp: beside_treasury_def split: option.splits)
  from sep41.burn_destroys[OF assms x(1), of t a] x(2)
  show "balance (ext q') t a = balance (ext q) t a - (if t = tok \<and> a = from then n else 0)" by simp
qed

text \<open>The composition on the direct accessors and the reference ledger.\<close>

interpretation market_treasury: market_over_treasury direct_market "\<lambda>r. r" ledger_client "\<lambda>l. l"
  by unfold_locales

end
