(* ===== verification/Market_Waivers.thy ===== *)
theory Market_Waivers
  imports Market_Storage
begin

text \<open>
  \<^verbatim>\<open>contracts/market/src/fee_waiver.rs\<close>: the bounded list of accounts that pay no withdrawal
  fee. The module announces changes by four-argument calls that \<^verbatim>\<open>events.rs\<close> does not have
  (its functions take three); what they publish is the argument \<open>note\<close>. The base rate comes from
  \<^verbatim>\<open>fee_rate.rs\<close>, which is empty: it is the argument \<open>base_rate\<close>. A missing admin traps.
\<close>

section \<open>Operations\<close>

definition waiver_admin :: "env \<Rightarrow> 'r market_accessors \<Rightarrow> address \<Rightarrow> ('x, 'r, unit) mcontract" where
  "waiver_admin E A caller =
     andthen (require_auth E caller)
     (bind (read_store (ms_get_admin A)) (\<lambda>stored.
     bind (expect stored) (\<lambda>admin.
     ensure (\<not> caller \<noteq> admin) NotAdmin)))"

definition add_fee_waiver :: "(address \<Rightarrow> address \<Rightarrow> u32 \<Rightarrow> market_event) \<Rightarrow> env
    \<Rightarrow> 'r market_accessors \<Rightarrow> address \<Rightarrow> address \<Rightarrow> ('x, 'r, unit) mcontract" where
  "add_fee_waiver note E A caller waiver_address =
     andthen (waiver_admin E A caller)
     (bind (read_store (ms_get_fee_waivers A)) (\<lambda>waivers.
     if waiver_address \<in> set waivers then return ()
     else
       andthen (ensure (\<not> length waivers \<ge> ms_max_fee_waivers A) FeeWaiverCapReached)
       (let waivers' = waivers @ [waiver_address] in
        andthen (write_store (ms_set_fee_waivers A waivers'))
        (emit (note caller waiver_address (length waivers'))))))"

definition remove_fee_waiver :: "(address \<Rightarrow> address \<Rightarrow> u32 \<Rightarrow> market_event) \<Rightarrow> env
    \<Rightarrow> 'r market_accessors \<Rightarrow> address \<Rightarrow> address \<Rightarrow> ('x, 'r, unit) mcontract" where
  "remove_fee_waiver note E A caller waiver_address =
     andthen (waiver_admin E A caller)
     (bind (read_store (ms_get_fee_waivers A)) (\<lambda>waivers.
     let new_waivers = filter (\<lambda>addr. addr \<noteq> waiver_address) waivers in
     when_do (waiver_address \<in> set waivers)
       (andthen (write_store (ms_set_fee_waivers A new_waivers))
       (emit (note caller waiver_address (length new_waivers))))))"

definition has_fee_waiver :: "'r market_accessors \<Rightarrow> address \<Rightarrow> 'r \<Rightarrow> bool" where
  "has_fee_waiver A addr r \<longleftrightarrow> addr \<in> set (ms_get_fee_waivers A r)"

definition effective_fee_rate_bps :: "('r \<Rightarrow> u32) \<Rightarrow> 'r market_accessors \<Rightarrow> address \<Rightarrow> 'r \<Rightarrow> u32"
  where "effective_fee_rate_bps base_rate A account r =
     (if has_fee_waiver A account r then 0 else base_rate r)"

section \<open>What they do to the list\<close>

definition waivers_ok :: "'r market_accessors \<Rightarrow> market_view \<Rightarrow> bool" where
  "waivers_ok A v \<longleftrightarrow> distinct (v_fee_waivers v) \<and> length (v_fee_waivers v) \<le> ms_max_fee_waivers A"

text \<open>Any sequence of successful additions and removals, by any callers.\<close>

inductive waiver_reach :: "'r market_accessors \<Rightarrow> ('x, 'r) market_state \<Rightarrow> ('x, 'r) market_state
    \<Rightarrow> bool" for A s where
  waiver_here: "waiver_reach A s s"
| waiver_add: "waiver_reach A s t \<Longrightarrow> add_fee_waiver note E A caller a t = (Ok (), u) \<Longrightarrow>
     waiver_reach A s u"
| waiver_remove: "waiver_reach A s t \<Longrightarrow> remove_fee_waiver note E A caller a t = (Ok (), u) \<Longrightarrow>
     waiver_reach A s u"

context market_storage
begin

lemma waiver_admin_ok [ok_iff]:
  "waiver_admin E A caller s = (Ok u, s') \<longleftrightarrow>
     authorized E caller \<and> v_admin (V s) = Some caller \<and> s' = s"
  by (auto simp: waiver_admin_def ok_iff reads)

lemma add_fee_waiver_ok:
  assumes "add_fee_waiver note E A caller a s = (Ok u, s')"
  shows "authorized E caller \<and> v_admin (V s) = Some caller \<and> ext s' = ext s
    \<and> (if a \<in> set (v_fee_waivers (V s)) then s' = s
       else length (v_fee_waivers (V s)) < ms_max_fee_waivers A
         \<and> V s' = (V s)\<lparr>v_fee_waivers := v_fee_waivers (V s) @ [a]\<rparr>)"
  using assms by (auto simp: add_fee_waiver_def ok_iff reads writes Let_def split: if_splits)

lemma remove_fee_waiver_ok:
  assumes "remove_fee_waiver note E A caller a s = (Ok u, s')"
  shows "authorized E caller \<and> v_admin (V s) = Some caller \<and> ext s' = ext s
    \<and> V s' = (V s)\<lparr>v_fee_waivers := filter (\<lambda>b. b \<noteq> a) (v_fee_waivers (V s))\<rparr>"
proof -
  have "filter (\<lambda>b. b \<noteq> a) l = l" if "a \<notin> set l" for l :: "address list"
    using that by (induction l) auto
  with assms show ?thesis
    by (auto simp: remove_fee_waiver_def ok_iff reads writes Let_def split: if_splits)
qed

lemma add_keeps_waivers_ok:
  "add_fee_waiver note E A caller a s = (Ok u, s') \<Longrightarrow> waivers_ok A (V s) \<Longrightarrow> waivers_ok A (V s')"
  by (drule add_fee_waiver_ok) (auto simp: waivers_ok_def split: if_splits)

lemma remove_keeps_waivers_ok:
  "remove_fee_waiver note E A caller a s = (Ok u, s') \<Longrightarrow> waivers_ok A (V s) \<Longrightarrow> waivers_ok A (V s')"
  by (drule remove_fee_waiver_ok)
    (auto simp: waivers_ok_def intro: order_trans[OF length_filter_le])

lemma waiver_reach_ok:
  "waiver_reach A s s' \<Longrightarrow> waivers_ok A (V s) \<Longrightarrow> waivers_ok A (V s')"
  by (induction rule: waiver_reach.induct) (auto intro: add_keeps_waivers_ok remove_keeps_waivers_ok)

end

end
