(* ===== verification/Market_Oracle.thy ===== *)
theory Market_Oracle
  imports Market_Storage
begin

text \<open>
  \<^verbatim>\<open>contracts/market/src/oracle.rs\<close> and \<^verbatim>\<open>oracle_adapter.rs\<close>: the messages an oracle signs,
  the Ed25519, Reflector and Pyth verifiers and the threshold of signers. Hashing, the Ed25519
  primitives of \<open>ed25519_dalek\<close> and the two price contracts are parameters; the Cargo feature
  \<open>oracle-adapter\<close> is a boolean argument.
\<close>

section \<open>What lies outside\<close>

record pyth_price =
  pp_price :: int
  pp_conf :: u64
  pp_exp :: int
  pp_publish_time :: u64

record reflector_price_data =
  rp_price :: i128
  rp_timestamp :: u64

record 'x oracle_world =
  ow_keccak256 :: "bytes \<Rightarrow> bytes"
  ow_key_decodes :: "bytes \<Rightarrow> bool"
  ow_key_verifies :: "bytes \<Rightarrow> bytes \<Rightarrow> bytes \<Rightarrow> bool"
  ow_lastprice :: "address \<Rightarrow> asset \<Rightarrow> 'x \<Rightarrow> (reflector_price_data option \<times> 'x) option"
  ow_update_price_feeds :: "address \<Rightarrow> bytes \<Rightarrow> 'x \<Rightarrow> (unit \<times> 'x) option"
  ow_get_price :: "address \<Rightarrow> bytes \<Rightarrow> 'x \<Rightarrow> (pyth_price \<times> 'x) option"

section \<open>Messages\<close>

text \<open>\<open>to_be_bytes\<close> of an unsigned integer of \<open>k\<close> bytes.\<close>

primrec be_bytes :: "nat \<Rightarrow> nat \<Rightarrow> bytes" where
  "be_bytes 0 n = []"
| "be_bytes (Suc k) n = be_bytes k (n div 256) @ [word_of_nat n]"

definition ascii :: "string \<Rightarrow> bytes" where
  "ascii s = map of_char s"

definition oracle_domain_separator :: bytes where
  "oracle_domain_separator = ascii ''VATIX_ORACLE_V1''"

definition oracle_domain_separator_v2 :: bytes where
  "oracle_domain_separator_v2 = ascii ''VATIX_ORACLE_V2''"

definition oracle_preimage_len :: nat where
  "oracle_preimage_len = length oracle_domain_separator + 4 + 1"

definition oracle_preimage_len_v2 :: nat where
  "oracle_preimage_len_v2 = length oracle_domain_separator_v2 + 32 + 4 + 1 + 8 + 4"

definition outcome_byte :: "bool \<Rightarrow> bytes" where
  "outcome_byte outcome = [if outcome then 1 else 0]"

definition build_oracle_preimage :: "u32 \<Rightarrow> bool \<Rightarrow> bytes" where
  "build_oracle_preimage market_id outcome =
     oracle_domain_separator @ be_bytes 4 market_id @ outcome_byte outcome"

definition build_oracle_preimage_v2 :: "bytes \<Rightarrow> u32 \<Rightarrow> bool \<Rightarrow> u64 \<Rightarrow> u32 \<Rightarrow> bytes" where
  "build_oracle_preimage_v2 passphrase_hash market_id outcome valid_until epoch =
     oracle_domain_separator_v2 @ passphrase_hash @ be_bytes 4 market_id @ outcome_byte outcome
       @ be_bytes 8 valid_until @ be_bytes 4 epoch"

definition construct_oracle_message :: "'x oracle_world \<Rightarrow> u32 \<Rightarrow> bool \<Rightarrow> bytes" where
  "construct_oracle_message W market_id outcome =
     ow_keccak256 W (build_oracle_preimage market_id outcome)"

definition construct_oracle_message_v2 :: "'x oracle_world \<Rightarrow> bytes \<Rightarrow> u32 \<Rightarrow> bool \<Rightarrow> u64 \<Rightarrow> u32
    \<Rightarrow> bytes" where
  "construct_oracle_message_v2 W passphrase_hash market_id outcome valid_until epoch =
     ow_keccak256 W
       (build_oracle_preimage_v2 passphrase_hash market_id outcome valid_until epoch)"

definition validate_oracle_preimage_len :: "bytes \<Rightarrow> market_error + unit" where
  "validate_oracle_preimage_len preimage =
     check (\<not> length preimage \<noteq> oracle_preimage_len) InvalidSignature"

definition hash_oracle_preimage_checked :: "'x oracle_world \<Rightarrow> bytes \<Rightarrow> market_error + bytes" where
  "hash_oracle_preimage_checked W preimage =
     try_then (validate_oracle_preimage_len preimage) (\<lambda>_. Inr (ow_keccak256 W preimage))"

section \<open>Single signatures\<close>

definition verify_ed25519_safe :: "'x oracle_world \<Rightarrow> bytes \<Rightarrow> bytes \<Rightarrow> bytes \<Rightarrow> bool" where
  "verify_ed25519_safe W pubkey message signature =
     (if \<not> ow_key_decodes W pubkey then False else ow_key_verifies W pubkey message signature)"

definition require_ed25519_path_open :: "'r market_accessors \<Rightarrow> ('x, 'r, unit) mcontract" where
  "require_ed25519_path_open A =
     bind (read_store (ms_has_oracle_adapters A)) (\<lambda>has. ensure (\<not> has) UnauthorizedOracle)"

definition require_current_network :: "env \<Rightarrow> bytes \<Rightarrow> ('x, 'r, unit) mcontract" where
  "require_current_network E passphrase_hash =
     ensure (\<not> passphrase_hash \<noteq> network_id E) InvalidSignature"

definition zero_key :: bytes where
  "zero_key = replicate 32 0"

definition verify_oracle_signature :: "'x oracle_world \<Rightarrow> 'r market_accessors \<Rightarrow> u32 \<Rightarrow> bool
    \<Rightarrow> bytes \<Rightarrow> bytes \<Rightarrow> ('x, 'r, unit) mcontract" where
  "verify_oracle_signature W A market_id outcome signature oracle_pubkey =
     andthen (require_ed25519_path_open A)
     (andthen (ensure (\<not> oracle_pubkey = zero_key) UnauthorizedOracle)
     (let message = construct_oracle_message W market_id outcome in
      ensure (verify_ed25519_safe W oracle_pubkey message signature) InvalidSignature))"

definition verify_oracle_signature_v2 :: "env \<Rightarrow> 'x oracle_world \<Rightarrow> 'r market_accessors \<Rightarrow> bytes
    \<Rightarrow> u32 \<Rightarrow> bool \<Rightarrow> u64 \<Rightarrow> u32 \<Rightarrow> bytes \<Rightarrow> bytes \<Rightarrow> ('x, 'r, unit) mcontract" where
  "verify_oracle_signature_v2 E W A passphrase_hash market_id outcome valid_until epoch signature
     oracle_pubkey =
     andthen (require_ed25519_path_open A)
     (andthen (ensure (\<not> oracle_pubkey = zero_key) UnauthorizedOracle)
     (andthen (ensure (\<not> ledger_timestamp E > valid_until) InvalidSignature)
     (let message = construct_oracle_message_v2 W passphrase_hash market_id outcome valid_until epoch
      in ensure (verify_ed25519_safe W oracle_pubkey message signature) InvalidSignature)))"

definition validate_oracle_authorization :: "market \<Rightarrow> bytes \<Rightarrow> market_error + unit" where
  "validate_oracle_authorization market oracle_pubkey =
     (if mkt_oracle_pubkey market = oracle_pubkey then Inr () else Inl UnauthorizedOracle)"

section \<open>oracle_adapter.rs\<close>

definition max_price_age_seconds :: u64 where "max_price_age_seconds = 3600"

text \<open>The adapters; \<^verbatim>\<open>oracle_adapter.rs\<close> declares a second \<open>Asset\<close> with the same variants.\<close>

record ed25519_adapter =
  ea_oracle_pubkey :: bytes

record reflector_adapter =
  ra_contract_id :: address
  ra_asset :: asset
  ra_resolution_price :: i128

record pyth_adapter =
  pa_contract_id :: address
  pa_price_feed_id :: bytes
  pa_resolution_price :: int

datatype any_adapter =
    AnyEd25519 ed25519_adapter
  | AnyReflector reflector_adapter
  | AnyPyth pyth_adapter

definition ed25519_verify_outcome :: "'x oracle_world \<Rightarrow> 'r market_accessors \<Rightarrow> ed25519_adapter
    \<Rightarrow> u32 \<Rightarrow> bool \<Rightarrow> bytes \<Rightarrow> ('x, 'r, unit) mcontract" where
  "ed25519_verify_outcome W A self market_id outcome proof_bytes =
     andthen (ensure (length proof_bytes = 64) InvalidSignature)
     (verify_oracle_signature W A market_id outcome proof_bytes (ea_oracle_pubkey self))"

definition reflector_verify_outcome :: "env \<Rightarrow> 'x oracle_world \<Rightarrow> reflector_adapter \<Rightarrow> bool
    \<Rightarrow> ('x, 'r, unit) mcontract" where
  "reflector_verify_outcome E W self outcome =
     bind (invoke_contract (ow_lastprice W (ra_contract_id self) (ra_asset self))) (\<lambda>price_data.
     bind (ok_or price_data OraclePriceUnavailable) (\<lambda>data.
     andthen (ensure (\<not> ledger_timestamp E - rp_timestamp data > max_price_age_seconds) StalePrice)
     (let resolved_yes = rp_price data \<ge> ra_resolution_price self in
      ensure (\<not> resolved_yes \<noteq> outcome) InvalidSignature)))"

definition pyth_verify_outcome :: "env \<Rightarrow> 'x oracle_world \<Rightarrow> pyth_adapter \<Rightarrow> bool \<Rightarrow> bytes
    \<Rightarrow> ('x, 'r, unit) mcontract" where
  "pyth_verify_outcome E W self outcome proof_bytes =
     andthen (ensure (\<not> proof_bytes = []) InvalidSignature)
     (andthen (invoke_contract (ow_update_price_feeds W (pa_contract_id self) proof_bytes))
     (bind (invoke_contract (ow_get_price W (pa_contract_id self) (pa_price_feed_id self)))
       (\<lambda>price_data.
     andthen (ensure (\<not> ledger_timestamp E - pp_publish_time price_data > max_price_age_seconds)
       StalePrice)
     (let resolved_yes = pp_price price_data \<ge> pa_resolution_price self in
      ensure (\<not> resolved_yes \<noteq> outcome) InvalidSignature))))"

definition any_verify_outcome :: "env \<Rightarrow> 'x oracle_world \<Rightarrow> 'r market_accessors \<Rightarrow> any_adapter
    \<Rightarrow> u32 \<Rightarrow> bool \<Rightarrow> bytes \<Rightarrow> ('x, 'r, unit) mcontract" where
  "any_verify_outcome E W A self market_id outcome proof_bytes = (case self of
     AnyEd25519 a \<Rightarrow> ed25519_verify_outcome W A a market_id outcome proof_bytes
   | AnyReflector a \<Rightarrow> reflector_verify_outcome E W a outcome
   | AnyPyth a \<Rightarrow> pyth_verify_outcome E W a outcome proof_bytes)"

section \<open>Dispatch on the adapter of a market\<close>

text \<open>The adapter built from the stored configuration of the market.\<close>

definition configured_reflector :: "env \<Rightarrow> 'x oracle_world \<Rightarrow> 'r market_accessors \<Rightarrow> u32 \<Rightarrow> bool
    \<Rightarrow> ('x, 'r, unit) mcontract" where
  "configured_reflector E W A market_id outcome =
     bind (read_store (ms_get_market_adapter_config A market_id)) (\<lambda>stored.
     bind (ok_or stored OraclePriceUnavailable) (\<lambda>config.
     reflector_verify_outcome E W \<lparr>ra_contract_id = oracle_contract config,
       ra_asset = config_asset config, ra_resolution_price = resolution_price config\<rparr> outcome))"

definition verify_via_reflector :: "bool \<Rightarrow> env \<Rightarrow> 'x oracle_world \<Rightarrow> 'r market_accessors \<Rightarrow> u32
    \<Rightarrow> market \<Rightarrow> bool \<Rightarrow> bytes \<Rightarrow> ('x, 'r, unit) mcontract" where
  "verify_via_reflector feature E W A market_id market outcome proof_bytes =
     bind (read_store (ms_is_adapter_enabled A Reflector)) (\<lambda>enabled.
     if \<not> enabled then
       verify_oracle_signature W A market_id outcome proof_bytes (mkt_oracle_pubkey market)
     else if feature then configured_reflector E W A market_id outcome
     else throw UnauthorizedOracle)"

definition verify_market_outcome :: "bool \<Rightarrow> env \<Rightarrow> 'x oracle_world \<Rightarrow> 'r market_accessors \<Rightarrow> u32
    \<Rightarrow> market \<Rightarrow> adapter_type \<Rightarrow> bool \<Rightarrow> bytes \<Rightarrow> ('x, 'r, unit) mcontract" where
  "verify_market_outcome feature E W A market_id market adapter_type outcome proof_bytes =
     (case adapter_type of
        Ed25519 \<Rightarrow>
          verify_oracle_signature W A market_id outcome proof_bytes (mkt_oracle_pubkey market)
      | Reflector \<Rightarrow> verify_via_reflector feature E W A market_id market outcome proof_bytes
      | Pyth \<Rightarrow>
          bind (read_store (ms_is_adapter_enabled A adapter_type)) (\<lambda>enabled.
          if enabled then throw UnauthorizedOracle
          else
            verify_oracle_signature W A market_id outcome proof_bytes (mkt_oracle_pubkey market)))"

definition verify_market_outcome_v2 :: "bool \<Rightarrow> env \<Rightarrow> 'x oracle_world \<Rightarrow> 'r market_accessors
    \<Rightarrow> bytes \<Rightarrow> u32 \<Rightarrow> market \<Rightarrow> adapter_type \<Rightarrow> bool \<Rightarrow> u64 \<Rightarrow> u32 \<Rightarrow> bytes
    \<Rightarrow> ('x, 'r, unit) mcontract" where
  "verify_market_outcome_v2 feature E W A passphrase_hash market_id market adapter_type outcome
     valid_until epoch proof_bytes =
     andthen (require_current_network E passphrase_hash)
     (let signed = verify_oracle_signature_v2 E W A passphrase_hash market_id outcome valid_until
        epoch proof_bytes (mkt_oracle_pubkey market)
      in case adapter_type of
        Ed25519 \<Rightarrow> signed
      | Reflector \<Rightarrow>
          bind (read_store (ms_is_adapter_enabled A adapter_type)) (\<lambda>enabled.
          if enabled then
            (if feature then configured_reflector E W A market_id outcome
             else throw UnauthorizedOracle)
          else signed)
      | Pyth \<Rightarrow>
          bind (read_store (ms_is_adapter_enabled A adapter_type)) (\<lambda>enabled.
          if enabled then throw UnauthorizedOracle else signed))"

section \<open>Thresholds\<close>

text \<open>
  The counting loop over the aligned keys and signatures: a signature of the opposite outcome
  aborts it, the quorum ends it.
\<close>

primrec threshold_loop :: "'x oracle_world \<Rightarrow> bytes \<Rightarrow> bytes \<Rightarrow> u32 \<Rightarrow> (bytes \<times> bytes) list \<Rightarrow> u32
    \<Rightarrow> market_error + unit" where
  "threshold_loop W message_target message_opposite quorum [] valid = Inl InvalidSignature"
| "threshold_loop W message_target message_opposite quorum (entry # rest) valid =
     (case entry of (pubkey, sig) \<Rightarrow>
       if verify_ed25519_safe W pubkey message_opposite sig then Inl InvalidSignature
       else if verify_ed25519_safe W pubkey message_target sig then
         (if valid + 1 \<ge> quorum then Inr ()
          else threshold_loop W message_target message_opposite quorum rest (valid + 1))
       else threshold_loop W message_target message_opposite quorum rest valid)"

definition verify_threshold_signatures :: "'x oracle_world \<Rightarrow> 'r market_accessors \<Rightarrow> u32 \<Rightarrow> bool
    \<Rightarrow> bytes list \<Rightarrow> bytes list \<Rightarrow> u32 \<Rightarrow> ('x, 'r, unit) mcontract" where
  "verify_threshold_signatures W A market_id outcome signers signatures quorum =
     andthen (require_ed25519_path_open A)
     (andthen (ensure (\<not> (signers = [] \<or> quorum = 0 \<or> quorum > length signers))
       UnauthorizedOracle)
     (andthen (ensure (distinct signers) InvalidSignature)
     (try_result (threshold_loop W (construct_oracle_message W market_id outcome)
        (construct_oracle_message W market_id (\<not> outcome)) quorum (zip signers signatures) 0))))"

definition verify_threshold_signatures_v2 :: "env \<Rightarrow> 'x oracle_world \<Rightarrow> 'r market_accessors
    \<Rightarrow> bytes \<Rightarrow> u32 \<Rightarrow> bool \<Rightarrow> u64 \<Rightarrow> u32 \<Rightarrow> bytes list \<Rightarrow> bytes list \<Rightarrow> u32
    \<Rightarrow> ('x, 'r, unit) mcontract" where
  "verify_threshold_signatures_v2 E W A passphrase_hash market_id outcome valid_until epoch signers
     signatures quorum =
     andthen (require_ed25519_path_open A)
     (andthen (require_current_network E passphrase_hash)
     (andthen (ensure (\<not> (signers = [] \<or> quorum = 0 \<or> quorum > length signers))
       UnauthorizedOracle)
     (andthen (ensure (\<not> ledger_timestamp E > valid_until) InvalidSignature)
     (andthen (ensure (distinct signers) InvalidSignature)
     (try_result (threshold_loop W
        (construct_oracle_message_v2 W passphrase_hash market_id outcome valid_until epoch)
        (construct_oracle_message_v2 W passphrase_hash market_id (\<not> outcome) valid_until epoch)
        quorum (zip signers signatures) 0))))))"

section \<open>Facts about messages\<close>

lemma length_be_bytes [simp]: "length (be_bytes k n) = k"
  by (induction k arbitrary: n) simp_all

lemma be_bytes_inject:
  "n < 256 ^ k \<Longrightarrow> m < 256 ^ k \<Longrightarrow> be_bytes k n = be_bytes k m \<Longrightarrow> n = m"
proof (induction k arbitrary: n m)
  case 0
  then show ?case by simp
next
  case (Suc k)
  from Suc.prems have "be_bytes k (n div 256) = be_bytes k (m div 256)"
    and w: "(word_of_nat n :: 8 word) = word_of_nat m" by simp_all
  with Suc have d: "n div 256 = m div 256"
    by (metis less_mult_imp_div_less mult.commute power_Suc)
  have "unat (word_of_nat i :: 8 word) = i mod 256" for i by (simp add: unat_of_nat)
  with w have "n mod 256 = m mod 256" by metis
  with d show ?case by (metis div_mult_mod_eq)
qed

lemma separator_lengths [simp]:
  "length oracle_domain_separator = 15" "length oracle_domain_separator_v2 = 15"
  by (simp_all add: oracle_domain_separator_def oracle_domain_separator_v2_def ascii_def)

lemma preimage_lens: "oracle_preimage_len = 20" "oracle_preimage_len_v2 = 64"
  by (simp_all add: oracle_preimage_len_def oracle_preimage_len_v2_def)

lemma length_preimages:
  "length (build_oracle_preimage m b) = oracle_preimage_len"
  "length h = 32 \<Longrightarrow> length (build_oracle_preimage_v2 h m b t e) = oracle_preimage_len_v2"
  by (simp_all add: build_oracle_preimage_def build_oracle_preimage_v2_def outcome_byte_def
      preimage_lens)

lemma outcome_byte_inject [simp]: "outcome_byte a = outcome_byte b \<longleftrightarrow> a = b"
  by (cases a; cases b) (simp_all add: outcome_byte_def)

lemma length_outcome_byte [simp]: "length (outcome_byte b) = 1"
  by (simp add: outcome_byte_def)

lemma preimage_inject:
  assumes "m \<le> u32_max" "m' \<le> u32_max"
    and "build_oracle_preimage m b = build_oracle_preimage m' b'"
  shows "m = m' \<and> b = b'"
  using assms be_bytes_inject[of m 4 m']
  by (auto simp: build_oracle_preimage_def u32_max_def)

lemma preimage_v2_inject:
  assumes "length h = 32" "length h' = 32" "m \<le> u32_max" "m' \<le> u32_max"
    and "t \<le> u64_max" "t' \<le> u64_max" "e \<le> u32_max" "e' \<le> u32_max"
    and "build_oracle_preimage_v2 h m b t e = build_oracle_preimage_v2 h' m' b' t' e'"
  shows "h = h' \<and> m = m' \<and> b = b' \<and> t = t' \<and> e = e'"
  using assms be_bytes_inject[of m 4 m'] be_bytes_inject[of t 8 t'] be_bytes_inject[of e 4 e']
  by (auto simp: build_oracle_preimage_v2_def u32_max_def u64_max_def)

section \<open>Facts about the verifiers\<close>

text \<open>How the loop succeeds: before the quorum is complete no signature is of the other outcome.\<close>

definition signed_by :: "'x oracle_world \<Rightarrow> bytes \<Rightarrow> (bytes \<times> bytes) list \<Rightarrow> (bytes \<times> bytes) list"
  where "signed_by W message l = filter (\<lambda>(k, sig). verify_ed25519_safe W k message sig) l"

definition reaches_quorum :: "'x oracle_world \<Rightarrow> bytes \<Rightarrow> bytes \<Rightarrow> u32 \<Rightarrow> (bytes \<times> bytes) list
    \<Rightarrow> u32 \<Rightarrow> bool" where
  "reaches_quorum W target opposite quorum l valid \<longleftrightarrow> (\<exists>p r. l = p @ r
     \<and> signed_by W opposite p = [] \<and> quorum \<le> valid + length (signed_by W target p))"

lemma reaches_quorum_now: "quorum \<le> valid \<Longrightarrow> reaches_quorum W t opp quorum l valid"
  unfolding reaches_quorum_def by (rule exI[of _ "[]"]) (simp add: signed_by_def)

lemma reaches_quorum_Nil [simp]: "reaches_quorum W t opp quorum [] valid \<longleftrightarrow> quorum \<le> valid"
  by (simp add: reaches_quorum_def signed_by_def)

lemma reaches_quorum_Cons:
  "reaches_quorum W t opp quorum ((k, sig) # l) valid \<longleftrightarrow> quorum \<le> valid \<or>
     (\<not> verify_ed25519_safe W k opp sig \<and> reaches_quorum W t opp quorum l
        (if verify_ed25519_safe W k t sig then valid + 1 else valid))" (is "?L \<longleftrightarrow> ?R")
proof
  assume ?L
  then obtain p r where p: "(k, sig) # l = p @ r" "signed_by W opp p = []"
    "quorum \<le> valid + length (signed_by W t p)" by (auto simp: reaches_quorum_def)
  show ?R
  proof (cases p)
    case Nil
    with p show ?thesis by (simp add: signed_by_def)
  next
    case (Cons y p')
    with p have "y = (k, sig)" "l = p' @ r" by auto
    moreover have "\<not> verify_ed25519_safe W k opp sig" "signed_by W opp p' = []"
      "quorum \<le> (if verify_ed25519_safe W k t sig then valid + 1 else valid)
         + length (signed_by W t p')"
      using p Cons calculation by (auto simp: signed_by_def split: if_splits)
    ultimately show ?thesis unfolding reaches_quorum_def by blast
  qed
next
  assume ?R
  then show ?L
  proof
    assume "quorum \<le> valid"
    then show ?L by (rule reaches_quorum_now)
  next
    assume R: "\<not> verify_ed25519_safe W k opp sig \<and> reaches_quorum W t opp quorum l
        (if verify_ed25519_safe W k t sig then valid + 1 else valid)"
    then obtain p r where "l = p @ r" "signed_by W opp p = []"
      "quorum \<le> (if verify_ed25519_safe W k t sig then valid + 1 else valid)
         + length (signed_by W t p)" by (auto simp: reaches_quorum_def)
    with R show ?L
      unfolding reaches_quorum_def
      by (intro exI[of _ "(k, sig) # p"] exI[of _ r]) (auto simp: signed_by_def split: if_splits)
  qed
qed

lemma threshold_loop_iff:
  "0 < quorum \<Longrightarrow> valid < quorum \<Longrightarrow> threshold_loop W t opp quorum l valid = Inr () \<longleftrightarrow>
     reaches_quorum W t opp quorum l valid"
proof (induction l arbitrary: valid)
  case Nil
  then show ?case by simp
next
  case (Cons x l)
  obtain k sig where x: "x = (k, sig)" by (cases x)
  show ?case
    using Cons.prems Cons.IH[of valid] Cons.IH[of "valid + 1"]
      reaches_quorum_now[of quorum "valid + 1"]
    by (auto simp: x reaches_quorum_Cons)
qed

text \<open>A reached quorum names that many different signers.\<close>

lemma quorum_signers:
  assumes "reaches_quorum W t opp q (zip ks sigs) 0" and "distinct ks"
  shows "\<exists>S. S \<subseteq> set ks \<and> finite S \<and> q \<le> card S
    \<and> (\<forall>k\<in>S. \<exists>sig\<in>set sigs. verify_ed25519_safe W k t sig)"
proof -
  from assms(1) obtain p r where p: "zip ks sigs = p @ r" and q: "q \<le> length (signed_by W t p)"
    by (auto simp: reaches_quorum_def)
  let ?S = "set (map fst (signed_by W t p))"
  have sub: "set p \<subseteq> set (zip ks sigs)" by (simp add: p)
  have "distinct (map fst (zip ks sigs))"
    using assms(2) by (simp add: map_fst_zip_take)
  then have "distinct (map fst (signed_by W t p))"
    by (simp add: p signed_by_def distinct_map_filter)
  then have "card ?S = length (signed_by W t p)" by (simp only: distinct_card length_map)
  moreover have "?S \<subseteq> set ks" "\<forall>k\<in>?S. \<exists>sig\<in>set sigs. verify_ed25519_safe W k t sig"
    using sub by (auto simp: signed_by_def dest!: subsetD dest: set_zip_leftD set_zip_rightD)
  ultimately show ?thesis using q by (intro exI[of _ ?S]) simp
qed

context market_storage
begin

lemma path_open_ok [ok_iff]:
  "require_ed25519_path_open A s = (Ok u, s') \<longleftrightarrow> \<not> v_adapters (V s) \<and> s' = s"
  by (auto simp: require_ed25519_path_open_def ok_iff reads)

lemma path_locked:
  "v_adapters (V s) \<Longrightarrow> require_ed25519_path_open A s = (Err UnauthorizedOracle, s)"
  by (simp add: require_ed25519_path_open_def run_simps reads)

lemma verify_signature_ok [ok_iff]:
  "verify_oracle_signature W A m b sig k s = (Ok u, s') \<longleftrightarrow>
     \<not> v_adapters (V s) \<and> k \<noteq> zero_key
     \<and> verify_ed25519_safe W k (construct_oracle_message W m b) sig \<and> s' = s"
  by (auto simp: verify_oracle_signature_def Let_def ok_iff)

lemma verify_signature_v2_ok [ok_iff]:
  "verify_oracle_signature_v2 E W A h m b t e sig k s = (Ok u, s') \<longleftrightarrow>
     \<not> v_adapters (V s) \<and> k \<noteq> zero_key \<and> ledger_timestamp E \<le> t
     \<and> verify_ed25519_safe W k (construct_oracle_message_v2 W h m b t e) sig \<and> s' = s"
  by (auto simp: verify_oracle_signature_v2_def Let_def ok_iff not_less)

lemma reflector_ok [ok_iff]:
  "reflector_verify_outcome E W ra b s = (Ok u, s') \<longleftrightarrow> (\<exists>d x.
     ow_lastprice W (ra_contract_id ra) (ra_asset ra) (ext s) = Some (Some d, x)
     \<and> ledger_timestamp E - rp_timestamp d \<le> max_price_age_seconds
     \<and> b = (ra_resolution_price ra \<le> rp_price d) \<and> s' = s\<lparr>ext := x\<rparr>)"
  by (auto simp: reflector_verify_outcome_def Let_def ok_iff not_less)

lemma configured_reflector_ok [ok_iff]:
  "configured_reflector E W A m b s = (Ok u, s') \<longleftrightarrow> (\<exists>c d x. v_adapter_config (V s) m = Some c
     \<and> ow_lastprice W (oracle_contract c) (config_asset c) (ext s) = Some (Some d, x)
     \<and> ledger_timestamp E - rp_timestamp d \<le> max_price_age_seconds
     \<and> b = (resolution_price c \<le> rp_price d) \<and> s' = s\<lparr>ext := x\<rparr>)"
  by (auto simp: configured_reflector_def ok_iff reads)

text \<open>The three ways an outcome can be accepted.\<close>

lemma verify_outcome_ok:
  "verify_market_outcome f E W A m mk ty b pr s = (Ok u, s') \<longleftrightarrow>
     (if ty \<noteq> Ed25519 \<and> v_adapter_enabled (V s) ty
      then ty = Reflector \<and> f \<and> configured_reflector E W A m b s = (Ok u, s')
      else verify_oracle_signature W A m b pr (mkt_oracle_pubkey mk) s = (Ok u, s'))"
  by (cases ty) (auto simp: verify_market_outcome_def verify_via_reflector_def ok_iff reads)

lemma verify_outcome_v2_ok:
  "verify_market_outcome_v2 f E W A h m mk ty b t e pr s = (Ok u, s') \<longleftrightarrow> h = network_id E \<and>
     (if ty \<noteq> Ed25519 \<and> v_adapter_enabled (V s) ty
      then ty = Reflector \<and> f \<and> configured_reflector E W A m b s = (Ok u, s')
      else verify_oracle_signature_v2 E W A h m b t e pr (mkt_oracle_pubkey mk) s = (Ok u, s'))"
  by (cases ty) (auto simp: verify_market_outcome_v2_def require_current_network_def Let_def
      ok_iff reads)

lemma threshold_v2_ok:
  "verify_threshold_signatures_v2 E W A h m b t e ks sigs q s = (Ok u, s') \<longleftrightarrow>
     \<not> v_adapters (V s) \<and> h = network_id E \<and> 0 < q \<and> q \<le> length ks \<and> ledger_timestamp E \<le> t
     \<and> distinct ks \<and> s' = s
     \<and> reaches_quorum W (construct_oracle_message_v2 W h m b t e)
          (construct_oracle_message_v2 W h m (\<not> b) t e) q (zip ks sigs) 0"
  by (auto simp: verify_threshold_signatures_v2_def require_current_network_def ok_iff
      threshold_loop_iff not_less)

lemma threshold_ok:
  "verify_threshold_signatures W A m b ks sigs q s = (Ok u, s') \<longleftrightarrow>
     \<not> v_adapters (V s) \<and> 0 < q \<and> q \<le> length ks \<and> distinct ks \<and> s' = s
     \<and> reaches_quorum W (construct_oracle_message W m b)
          (construct_oracle_message W m (\<not> b)) q (zip ks sigs) 0"
  by (auto simp: verify_threshold_signatures_def ok_iff threshold_loop_iff not_less)

end

end
