(* ===== verification/Market_Examples.thy ===== *)
theory Market_Examples
  imports Market_Lifecycle Market_Paging Market_Treasury Market_Waivers Market_Oracle
begin

text \<open>
  A small concrete market for the witnesses: one collateral token, one outcome-token contract,
  the direct accessors, two traders with positions and outcome tokens.
\<close>

section \<open>Both ledgers side by side\<close>

type_synonym both_ledgers = "ledger \<times> outcome_balances"

definition both_tokens :: "both_ledgers token_client" where
  "both_tokens = \<lparr>
     tok_transfer = (\<lambda>t from to n x. map_option (\<lambda>(u, l). (u, (l, snd x)))
       (ledger_transfer t from to n (fst x))),
     tok_burn = (\<lambda>t from n x. map_option (\<lambda>(u, l). (u, (l, snd x)))
       (ledger_burn t from n (fst x)))\<rparr>"

definition both_outcomes :: "both_ledgers outcome_client" where
  "both_outcomes = \<lparr>
     oc_balance = (\<lambda>tok m a k x. Some (snd x (tok, m, a, k), x)),
     oc_mint = (\<lambda>tok m a k n x. map_option (\<lambda>(u, l). (u, (fst x, l)))
       (oc_mint outcome_book tok m a k n (snd x))),
     oc_burn = (\<lambda>tok m a k n x. map_option (\<lambda>(u, l). (u, (fst x, l)))
       (oc_burn outcome_book tok m a k n (snd x)))\<rparr>"

interpretation both: sep41 both_tokens fst
  by unfold_locales (auto simp: both_tokens_def ledger_transfer_def ledger_burn_def Let_def
      split: if_splits)

interpretation both_market: market_tokens direct_market "\<lambda>r. r" both_outcomes snd
  by unfold_locales (auto simp: both_outcomes_def outcome_book_def split: if_splits)

lemmas both_laws = market_direct.market_storage_axioms both_market.outcome_ledger_axioms
  both.sep41_axioms

section \<open>The market\<close>

definition demo_token :: address where "demo_token = Contract 30"
definition demo_outcomes :: address where "demo_outcomes = Contract 31"
definition demo_trader :: address where "demo_trader = Account 20"
definition demo_other :: address where "demo_other = Account 21"

definition demo_market_env :: env where
  "demo_market_env = \<lparr>ledger_timestamp = 10000, current_contract_address = Contract 10,
     network_id = [7], authorized = (\<lambda>_. True), has_executable = (\<lambda>_. True)\<rparr>"

definition demo_market_record :: "market_status \<Rightarrow> market" where
  "demo_market_record status = \<lparr>mkt_id = 5, mkt_question = ''Q'', mkt_end_time = 20000,
     mkt_oracle_pubkey = [9], mkt_status = status,
     mkt_result = (if status = market_status.MarketResolved then Some True else None),
     mkt_creator = Account 22, mkt_created_at = 0, mkt_collateral_token = demo_token,
     mkt_price_bps = 5000, mkt_resolver = None, mkt_resolved_at = None,
     mkt_adapter_type = Ed25519, mkt_outcome_count = 2, mkt_closed_to_deposits = False\<rparr>"

definition demo_position :: "address \<Rightarrow> position" where
  "demo_position a = (new_empty 5 a)\<lparr>pos_yes_shares := 40, pos_no_shares := 10,
     pos_locked_collateral := 15, pos_total_deposited := 100\<rparr>"

definition demo_market_view :: "market_status \<Rightarrow> market_view" where
  "demo_market_view status = empty_view
     \<lparr>v_markets := (\<lambda>_. None)(5 := Some (demo_market_record status)),
      v_positions := (\<lambda>_. None)((5, demo_trader) := Some (demo_position demo_trader),
        (5, demo_other) := Some (demo_position demo_other)),
      v_participants := (\<lambda>_. [])(5 := [demo_trader, demo_other]),
      v_balance := (\<lambda>_. 100),
      v_outcome_token := Some demo_outcomes, v_admin := Some (Account 22)\<rparr>"

definition demo_outcome_balances :: outcome_balances where
  "demo_outcome_balances = (\<lambda>(tok, m, a, k).
     if tok = demo_outcomes \<and> m = 5 \<and> a \<in> {demo_trader, demo_other}
     then (case k of TokenYes \<Rightarrow> 40 | TokenNo \<Rightarrow> 10) else 0)"

definition demo_ledger :: ledger where
  "demo_ledger = (\<lambda>t a. if t = demo_token then 1000 else 0)"

definition demo_market_state :: "market_status \<Rightarrow> (both_ledgers, market_view) market_state" where
  "demo_market_state status = \<lparr>ext = (demo_ledger, demo_outcome_balances), events = [],
     store = demo_market_view status\<rparr>"

lemmas market_demo_addresses = demo_token_def demo_outcomes_def demo_trader_def demo_other_def

lemmas market_demo_defs = demo_market_env_def demo_market_record_def demo_position_def
  demo_market_view_def demo_outcome_balances_def demo_ledger_def demo_market_state_def
  market_demo_addresses empty_view_def new_empty_def

lemma demo_positions_ok: "positions_ok (store (demo_market_state status))"
  by (auto simp: positions_ok_def position_ok_def position_in_range_def market_demo_defs in_i128_def
      i128_numerals split: if_splits)

lemma demo_settles:
  "\<exists>s'. settle_position demo_market_env direct_market both_outcomes both_tokens demo_trader 5
     (demo_market_state market_status.MarketResolved) = (Ok 40, s')"
  by (simp add: settle_position_def execute_settlement_def compute_settlement_def
      assert_position_token_parity_def get_position_token_parity_def load_token_balances_def
      burn_settled_outcome_tokens_def pay_settled_def validate_settlement_eligibility_def
      validate_payout_def calculate_payout_def check_def try_then_def
      both_tokens_def both_outcomes_def outcome_book_def ledger_transfer_def
      direct_market_def market_emits ok_iff require_mode_ok market_demo_defs Let_def)

text \<open>One turn of the settlement loop on any state that holds the demo position of \<open>a\<close>.\<close>

lemma settle_one_go:
  assumes "ms_get_position A m a (store s) = Inr (Some p)"
    and "compute_settlement E A C p mk s = (Ok (n, q), s)"
    and "burn_settled_outcome_tokens A C m a q s = (Ok (), t)"
    and "ms_set_position A m a q (store t) = Inr r"
    and "pay_settled E T mk a n (t\<lparr>store := r\<rparr>) = (Ok (), s')"
  shows "settle_one E A C T mk m a acc s = (Ok (add_settled acc a n), s')"
proof -
  have "attempt (compute_settlement E A C p mk) s
      = (Ok (Inr (n, q)) :: (market_error, market_error + i128 \<times> position) result, s)"
    using assms(2) by (simp add: attempt_def)
  moreover have "attempt (try_write (ms_set_position A m a q)) t
      = (Ok (Inr ()) :: (market_error, market_error + unit) result, t\<lparr>store := r\<rparr>)"
    using assms(4) by (simp add: attempt_def try_write_def run_simps)
  ultimately show ?thesis
    using assms(1,3,5) unfolding settle_one_def by (simp add: bind_def andthen_def gets_def return_def)
qed

abbreviation (input) demo_resolved :: market where
  "demo_resolved \<equiv> demo_market_record market_status.MarketResolved"

lemma demo_settle_one:
  assumes pos: "v_ready (store s)" "v_positions (store s) (5, a) = Some (demo_position a)"
    and tok: "v_outcome_token (store s) = Some demo_outcomes"
    and bal: "snd (ext s) (demo_outcomes, 5, a, TokenYes) = 40"
      "snd (ext s) (demo_outcomes, 5, a, TokenNo) = 10"
    and money: "40 \<le> fst (ext s) demo_token (Contract 10)"
  obtains s' where "settle_one demo_market_env direct_market both_outcomes both_tokens demo_resolved 5 a
       acc s = (Ok (add_settled acc a 40), s')"
    "store s' = (store s)\<lparr>v_positions := (v_positions (store s))((5, a) \<mapsto>
       (demo_position a)\<lparr>pos_is_settled := True\<rparr>)\<rparr>"
    "snd (ext s') = (snd (ext s))((demo_outcomes, 5, a, TokenYes) := 0,
       (demo_outcomes, 5, a, TokenNo) := 0)"
    "a \<noteq> Contract 10 \<longrightarrow> fst (ext s') demo_token (Contract 10) = fst (ext s) demo_token (Contract 10) - 40"
proof -
  let ?q = "(demo_position a)\<lparr>pos_is_settled := True\<rparr>"
  let ?o = "(snd (ext s))((demo_outcomes, 5, a, TokenYes) := 0, (demo_outcomes, 5, a, TokenNo) := 0)"
  let ?l = "(fst (ext s))(demo_token := (fst (ext s) demo_token)(Contract 10 :=
     fst (ext s) demo_token (Contract 10) - 40))"
  let ?l' = "?l(demo_token := (?l demo_token)(a := ?l demo_token a + 40))"
  let ?r = "(store s)\<lparr>v_positions := (v_positions (store s))((5, a) \<mapsto> ?q)\<rparr>"
  have comp: "compute_settlement demo_market_env direct_market both_outcomes (demo_position a) demo_resolved s
      = (Ok (40, ?q), s)"
    using assms by (simp add: compute_settlement_def assert_position_token_parity_def
        get_position_token_parity_def load_token_balances_def validate_settlement_eligibility_def
        validate_payout_def calculate_payout_def check_def try_then_def both_outcomes_def
        direct_market_def ok_iff Let_def demo_position_def demo_market_record_def)
  have burn: "burn_settled_outcome_tokens direct_market both_outcomes 5 a ?q s
      = (Ok (), s\<lparr>ext := (fst (ext s), ?o)\<rparr>)"
    using assms by (simp add: burn_settled_outcome_tokens_def both_outcomes_def outcome_book_def
        direct_market_def ok_iff demo_position_def)
  have pay: "pay_settled demo_market_env both_tokens demo_resolved a 40
      (s\<lparr>ext := (fst (ext s), ?o)\<rparr>\<lparr>store := ?r\<rparr>)
      = (Ok (), s\<lparr>ext := (?l', ?o), store := ?r\<rparr>)"
    using money by (simp add: pay_settled_def both_tokens_def ledger_transfer_def ok_iff Let_def
        demo_market_env_def demo_market_record_def)
  show ?thesis
    by (rule that[OF settle_one_go[OF _ comp burn _ pay]])
      (use pos in \<open>simp_all add: direct_market_def\<close>)
qed

lemma settle_listed_go:
  assumes "settle_users E A C T mk m users (0, [], []) s = (Ok (n, us, ns), t)"
  shows "\<exists>s'. settle_listed E A C T mk m users s = (Ok n, s')"
  unfolding settle_listed_def bind_def assms
  by (cases "us = []") (simp_all add: mkt_emit_positions_batch_settled_def ok_iff)

lemma demo_pages:
  "\<exists>s'. settle_pages demo_market_env direct_market both_outcomes both_tokens 5 2 1 0
     (demo_market_state market_status.MarketResolved) = (Ok (2, True), s')"
proof -
  let ?s = "demo_market_state market_status.MarketResolved"
  obtain s1 where s1: "settle_one demo_market_env direct_market both_outcomes both_tokens demo_resolved 5
       demo_trader (0, [], []) ?s = (Ok (add_settled (0, [], []) demo_trader 40), s1)"
    "store s1 = (store ?s)\<lparr>v_positions := (v_positions (store ?s))((5, demo_trader) \<mapsto>
       (demo_position demo_trader)\<lparr>pos_is_settled := True\<rparr>)\<rparr>"
    "snd (ext s1) = (snd (ext ?s))((demo_outcomes, 5, demo_trader, TokenYes) := 0,
       (demo_outcomes, 5, demo_trader, TokenNo) := 0)"
    "demo_trader \<noteq> Contract 10 \<longrightarrow>
       fst (ext s1) demo_token (Contract 10) = fst (ext ?s) demo_token (Contract 10) - 40"
    by (rule demo_settle_one[of ?s demo_trader "(0, [], [])"]) (simp_all add: market_demo_defs)
  obtain s2 where s2: "settle_one demo_market_env direct_market both_outcomes both_tokens demo_resolved 5
       demo_other (add_settled (0, [], []) demo_trader 40) s1
     = (Ok (add_settled (add_settled (0, [], []) demo_trader 40) demo_other 40), s2)"
    by (rule demo_settle_one[of s1 demo_other "add_settled (0, [], []) demo_trader 40"])
      (use s1 in \<open>simp_all add: market_demo_defs\<close>)
  have "settle_users demo_market_env direct_market both_outcomes both_tokens demo_resolved 5
      [demo_trader, demo_other] (0, [], []) ?s
    = (Ok (80, [demo_trader, demo_other], [40, 40]), s2)"
    using s2 by (simp add: add_settled_def saturating_add_def clamp_i128_def i128_numerals
        bind_def return_def s1(1)[unfolded add_settled_def])
  note settle_listed_go[OF this]
  moreover have "v_participants (store ?s) 5 = [demo_trader, demo_other]" "v_ready (store ?s)"
    "v_mode (store ?s) = Normal" "v_markets (store ?s) 5 = Some demo_resolved"
    "mkt_status demo_resolved = market_status.MarketResolved"
    by (simp_all add: market_demo_defs)
  ultimately show ?thesis
    by (auto simp: settle_positions_page_def ok_iff direct_market_def Let_def u32_max_def)
qed

end
