(* ===== verification/Market_Properties.thy ===== *)
theory Market_Properties
  imports Market_Examples
begin

text \<open>
  The properties of the market modules over any accessors, token contracts and treasuries that
  keep the laws of their interfaces, each with a witness on the concrete market of
  \<open>Market_Examples\<close>.
\<close>

section \<open>Settlement\<close>

text \<open>
  C2. No payment is reported twice: over any sequence of market operations from well-formed positions
  and an empty event log, the events report at most one settlement payment of a user in a
  market, and none while the position is unsettled.
\<close>

theorem no_payment_is_reported_twice:
  assumes "market_storage A view" and "outcome_ledger C bal"
    and "market_reach A C T F ev s s'"
    and "positions_ok (view (store s))" and "events s = []"
    and "\<And>m a m' a'. paid_by m a (ev m' a') = 0"
  shows "paid_count m a (events s') \<le> (if settled_at (view (store s')) m a then 1 else 0)"
proof -
  note M = market_tokens.intro[OF assms(1,2)]
  have "market_tokens.market_inv view s"
    using assms(4,5) by (simp add: market_tokens.market_inv_def[OF M])
  from market_tokens.market_reach_inv[OF M assms(3) this assms(6)] show ?thesis
    by (simp add: market_tokens.market_inv_def[OF M])
qed

lemma demo_settled_once:
  obtains s' where "market_reach direct_market both_outcomes both_tokens F
     (\<lambda>m a. CollateralDeposited 1 a m 0 0) (demo_market_state market_status.MarketResolved) s'"
    "settle_position demo_market_env direct_market both_outcomes both_tokens demo_trader 5
       (demo_market_state market_status.MarketResolved) = (Ok 40, s')"
  using demo_settles market_reach.there[OF market_reach.here market_step.settle] by blast

theorem no_payment_is_reported_twice_witness:
  "\<exists>s' :: (both_ledgers, market_view) market_state. paid_count 5 demo_trader (events s') = 1
     \<and> settled_at (store s') 5 demo_trader"
proof -
  obtain s' where r: "market_reach direct_market both_outcomes both_tokens (\<lambda>_ _ _ _ _ _. None)
     (\<lambda>m a. CollateralDeposited 1 a m 0 0) (demo_market_state market_status.MarketResolved) s'"
    and st: "settle_position demo_market_env direct_market both_outcomes both_tokens demo_trader 5
       (demo_market_state market_status.MarketResolved) = (Ok 40, s')"
    by (rule demo_settled_once)
  have "paid_count 5 demo_trader (events s') = 1"
    by (rule both_market.settle_position_ok[OF st]) (auto simp: market_demo_defs)
  moreover have "paid_count 5 demo_trader (events s')
      \<le> (if settled_at (store s') 5 demo_trader then 1 else 0)"
    by (rule no_payment_is_reported_twice[OF both_laws(1,2) r demo_positions_ok])
      (simp_all add: demo_market_state_def)
  ultimately show ?thesis by (auto split: if_splits)
qed

text \<open>
  C6. Stored positions stay well-typed: every operation keeps every stored position filed under its
  own user and market, its amounts non-negative and within \<open>i128\<close>, and its locked collateral at
  most its net exposure.
\<close>

theorem positions_stay_well_formed:
  assumes "market_storage A view" and "outcome_ledger C bal"
    and "market_reach A C T F ev s s'"
    and "positions_ok (view (store s))" and "events s = []"
    and "\<And>m a m' a'. paid_by m a (ev m' a') = 0"
    and "v_positions (view (store s')) (m, a) = Some p"
  shows "position_ok m a p"
proof -
  note M = market_tokens.intro[OF assms(1,2)]
  have "market_tokens.market_inv view s"
    using assms(4,5) by (simp add: market_tokens.market_inv_def[OF M])
  from market_tokens.market_reach_inv[OF M assms(3) this assms(6)] assms(7) show ?thesis
    by (simp add: market_tokens.market_inv_def[OF M] positions_ok_def)
qed

theorem positions_stay_well_formed_witness:
  "\<exists>p. pos_is_settled p \<and> position_ok 5 demo_trader p"
proof -
  obtain s' where r: "market_reach direct_market both_outcomes both_tokens (\<lambda>_ _ _ _ _ _. None)
     (\<lambda>m a. CollateralDeposited 1 a m 0 0) (demo_market_state market_status.MarketResolved) s'"
    and st: "settle_position demo_market_env direct_market both_outcomes both_tokens demo_trader 5
       (demo_market_state market_status.MarketResolved) = (Ok 40, s')"
    by (rule demo_settled_once)
  from st have "\<exists>p. v_positions (store s') (5, demo_trader) = Some (p\<lparr>pos_is_settled := True\<rparr>)"
    by (rule both_market.settle_position_ok) (auto simp: both_market.settles_def)
  then obtain p where "v_positions (store s') (5, demo_trader) = Some (p\<lparr>pos_is_settled := True\<rparr>)" ..
  from positions_stay_well_formed[OF both_laws(1,2) r demo_positions_ok _ _ this]
  show ?thesis by (intro exI) (auto simp: demo_market_state_def)
qed

text \<open>
  C7. A settlement pays exactly what is due and burns the position's outcome tokens: the payout is
  the winning side's shares (the deposit, if the market has no winner), the position becomes
  settled and nothing else in storage changes, both token balances drop to zero, and the payout
  is one transfer from the contract to the user.
\<close>

theorem settling_pays_what_is_due:
  assumes "market_storage A view" and "outcome_ledger C bal"
    and "settle_position E A C T a m s = (Ok n, s')"
    and "positions_ok (view (store s))" and "v_outcome_token (view (store s)) = Some tok"
  shows "authorized E a \<and> (\<exists>mk p x. v_markets (view (store s)) m = Some mk
    \<and> mkt_status mk = market_status.MarketResolved
    \<and> v_positions (view (store s)) (m, a) = Some p \<and> \<not> pos_is_settled p \<and> n = payout_due mk p
    \<and> view (store s') = (view (store s))\<lparr>v_positions :=
        (v_positions (view (store s)))((m, a) \<mapsto> p\<lparr>pos_is_settled := True\<rparr>)\<rparr>
    \<and> bal x = (bal (ext s))((tok, m, a, TokenYes) := 0, (tok, m, a, TokenNo) := 0)
    \<and> (if 0 < n then tok_transfer T (mkt_collateral_token mk) (current_contract_address E) a n x
         = Some ((), ext s') else ext s' = x))"
proof -
  note M = market_tokens.intro[OF assms(1,2)]
  from market_tokens.settle_position_ok[OF M assms(3)] obtain mk p where
      mk: "v_markets (view (store s)) m = Some mk" and p: "v_positions (view (store s)) (m, a) = Some p"
    and st: "market_tokens.settles view C bal E T mk m a n s s'" and auth: "authorized E a"
    and match: "pos_market_id p = m \<Longrightarrow> pos_user p = a \<Longrightarrow> market_tokens.tokens_match view bal s m a"
    by metis
  from assms(4) p have ok: "position_ok m a p" by (simp add: positions_ok_def)
  with match have "bal (ext s) (tok, m, a, TokenYes) = pos_yes_shares p"
    "bal (ext s) (tok, m, a, TokenNo) = pos_no_shares p"
    by (auto simp: market_tokens.tokens_match_def[OF M] assms(5) position_in_def p position_ok_def)
  with st mk p ok auth assms(5) show ?thesis
    unfolding market_tokens.settles_def[OF M]
    by (auto simp: position_ok_def max_def)
qed

theorem settling_pays_what_is_due_witness:
  "\<exists>s'. settle_position demo_market_env direct_market both_outcomes both_tokens demo_trader 5
     (demo_market_state market_status.MarketResolved) = (Ok 40, s')
     \<and> settled_at (store s') 5 demo_trader"
proof -
  from demo_settles obtain s' where
    st: "settle_position demo_market_env direct_market both_outcomes both_tokens demo_trader 5
     (demo_market_state market_status.MarketResolved) = (Ok 40, s')" by blast
  have "v_outcome_token (store (demo_market_state market_status.MarketResolved)) = Some demo_outcomes"
    by (simp add: market_demo_defs)
  from settling_pays_what_is_due[OF both_laws(1,2) st demo_positions_ok this] st
  show ?thesis by (auto simp: settled_at_def)
qed

section \<open>Paging\<close>

text \<open>
  C9. Paging is equivalent to one settlement of the whole participant list: pages of any positive
  size, called one after the other from index 0, leave storage and the token contracts exactly
  as the loop over all participants leaves them.
\<close>

theorem pages_settle_the_whole_market:
  assumes "market_storage A view" and "outcome_ledger C bal"
    and "settle_pages E A C T m limit fuel 0 s = (Ok (i, fin), s')"
    and "v_markets (view (store s)) m = Some mk"
    and "length (v_participants (view (store s)) m) \<le> u32_max"
    and "0 < limit" and "0 < fuel" and "length (v_participants (view (store s)) m) \<le> fuel * limit"
  shows "\<exists>acc t. settle_users E A C T mk m (v_participants (view (store s)) m) (0, [], []) s = (Ok acc, t)
    \<and> store t = store s' \<and> ext t = ext s'"
  using market_tokens.settle_pages_from[OF market_tokens.intro[OF assms(1,2)] assms(3,4,5,6)] assms(7,8)
  by (auto simp: same_store_def)

theorem pages_settle_the_whole_market_witness:
  "\<exists>acc t s'. settle_users demo_market_env direct_market both_outcomes both_tokens demo_resolved 5
       [demo_trader, demo_other] (0, [], []) (demo_market_state market_status.MarketResolved) = (Ok acc, t)
     \<and> settle_pages demo_market_env direct_market both_outcomes both_tokens 5 2 1 0
       (demo_market_state market_status.MarketResolved) = (Ok (2, True), s') \<and> store t = store s'"
proof -
  from demo_pages obtain s' where
    p: "settle_pages demo_market_env direct_market both_outcomes both_tokens 5 2 1 0
       (demo_market_state market_status.MarketResolved) = (Ok (2, True), s')" by blast
  have "v_markets (store (demo_market_state market_status.MarketResolved)) 5 = Some demo_resolved"
    "v_participants (store (demo_market_state market_status.MarketResolved)) 5 = [demo_trader, demo_other]"
    by (simp_all add: market_demo_defs)
  with pages_settle_the_whole_market[OF both_laws(1,2) p] p show ?thesis
    by (auto simp: u32_max_def)
qed

text \<open>
  C10. Paging ends: with a positive page size, the caller's loop is complete after at most as many
  calls as there are pages, and stops exactly at the end of the participant list.
\<close>

theorem paging_ends:
  assumes "market_storage A view" and "outcome_ledger C bal"
    and "settle_pages E A C T m limit fuel start s = (Ok (i, fin), s')"
    and "v_markets (view (store s)) m = Some mk"
    and "length (v_participants (view (store s)) m) \<le> u32_max"
    and "0 < limit" and "0 < fuel" and "start \<le> length (v_participants (view (store s)) m)"
    and "length (v_participants (view (store s)) m) - start \<le> fuel * limit"
  shows "fin \<and> i = length (v_participants (view (store s)) m)"
  using market_tokens.settle_pages_from[OF market_tokens.intro[OF assms(1,2)] assms(3,4,5,6)] assms(7-9)
  by blast

theorem paging_ends_witness:
  "\<exists>s'. settle_pages demo_market_env direct_market both_outcomes both_tokens 5 2 1 0
       (demo_market_state market_status.MarketResolved) = (Ok (2, True), s')
     \<and> 2 = length (v_participants (store (demo_market_state market_status.MarketResolved)) 5)"
proof -
  from demo_pages obtain s' where
    p: "settle_pages demo_market_env direct_market both_outcomes both_tokens 5 2 1 0
       (demo_market_state market_status.MarketResolved) = (Ok (2, True), s')" by blast
  have "v_markets (store (demo_market_state market_status.MarketResolved)) 5 = Some demo_resolved"
    "v_participants (store (demo_market_state market_status.MarketResolved)) 5 = [demo_trader, demo_other]"
    by (simp_all add: market_demo_defs)
  with paging_ends[OF both_laws(1,2) p] p show ?thesis
    by (auto simp: u32_max_def)
qed

text \<open>
  A page size of zero never ends: however often the caller repeats the call, the index stays
  where it is and the completion flag stays false.
\<close>

theorem a_zero_page_never_ends:
  assumes "market_storage A view" and "outcome_ledger C bal"
    and "settle_pages E A C T m 0 fuel start s = (Ok (i, fin), s')"
    and "start < length (v_participants (view (store s)) m)" and "start \<le> u32_max"
  shows "i = start \<and> \<not> fin \<and> s' = s"
  using assms(3)
proof (induction fuel)
  case 0
  then show ?case by (simp add: ok_iff)
next
  case (Suc fuel)
  from Suc.prems obtain n nx full s1 where
      page: "settle_positions_page E A C T m start 0 s = (Ok (n, nx, full), s1)"
    and rest: "(if full then return (nx, True) else settle_pages E A C T m 0 fuel nx) s1
        = (Ok (i, fin), s')"
    by (auto simp: bind_ok)
  obtain mk where p: "if length (v_participants (view (store s)) m) \<le> start
     then n = 0 \<and> nx = length (v_participants (view (store s)) m) \<and> full \<and> s1 = s
     else nx = min (min u32_max (start + 0)) (length (v_participants (view (store s)) m))
       \<and> (full \<longleftrightarrow> length (v_participants (view (store s)) m) \<le> nx)
       \<and> settle_listed E A C T mk m
           (take (nx - start) (drop start (v_participants (view (store s)) m))) s = (Ok n, s1)"
    by (rule market_tokens.page_ok[OF market_tokens.intro[OF assms(1,2)] page])
  with assms(4,5) have nx: "nx = start" "\<not> full" by (auto split: if_splits)
  with p assms(4) have "settle_listed E A C T mk m [] s = (Ok n, s1)" by simp
  then have "s1 = s" by (auto simp: settle_listed_def ok_iff)
  with nx rest Suc.IH show ?case by simp
qed

theorem a_zero_page_never_ends_witness:
  "\<exists>s'. settle_pages demo_market_env direct_market both_outcomes both_tokens 5 0 3 0
       (demo_market_state market_status.MarketResolved) = (Ok (0, False), s')
     \<and> s' = demo_market_state market_status.MarketResolved"
proof -
  let ?s = "demo_market_state market_status.MarketResolved"
  have "settle_positions_page demo_market_env direct_market both_outcomes both_tokens 5 0 0 ?s
      = (Ok (0, 0, False), ?s)"
    by (simp add: settle_positions_page_def settle_listed_def ok_iff direct_market_def Let_def
        market_demo_defs)
  then have "settle_pages demo_market_env direct_market both_outcomes both_tokens 5 0 3 0 ?s
      = (Ok (0, False), ?s)"
    by (simp add: numeral_3_eq_3 bind_def return_def)
  with a_zero_page_never_ends[OF both_laws(1,2) this] show ?thesis by blast
qed

end
