(* ===== verification/Market_Trading_Properties.thy ===== *)
theory Market_Trading_Properties
  imports Market_Examples
begin

text \<open>
  Properties of deposits, withdrawals, position changes, reconciliation and fee waivers, over any
  accessors that keep the laws of \<open>market_storage\<close>.
\<close>

section \<open>Deposits\<close>

text \<open>
  C20. A deposit is credited and paid for: it is accepted only in normal mode into an active, open,
  unexpired market, adds exactly the amount to the user's balance and position, registers the
  participant, and moves exactly the amount of collateral into the contract.
\<close>

theorem a_deposit_is_credited:
  assumes "market_storage A view" and "sep41 T balance"
    and "deposit_collateral E A T a m n s = (Ok (), s')" and "a \<noteq> current_contract_address E"
  shows "\<exists>mk. v_markets (view (store s)) m = Some mk \<and> mkt_status mk = MarketActive
    \<and> \<not> mkt_closed_to_deposits mk \<and> ledger_timestamp E < mkt_end_time mk
    \<and> v_mode (view (store s)) = Normal \<and> authorized E a \<and> 0 < n
    \<and> v_balance (view (store s')) = (v_balance (view (store s)))(a := v_balance (view (store s)) a + n)
    \<and> position_in (view (store s')) m a = (position_in (view (store s)) m a)
        \<lparr>pos_total_deposited := pos_total_deposited (position_in (view (store s)) m a) + n\<rparr>
    \<and> a \<in> set (v_participants (view (store s')) m)
    \<and> v_last_deposit (view (store s')) (m, a) = Some (ledger_timestamp E)
    \<and> balance (ext s') (mkt_collateral_token mk) (current_contract_address E)
        = balance (ext s) (mkt_collateral_token mk) (current_contract_address E) + n"
proof -
  from assms(3) obtain mk where d: "v_markets (view (store s)) m = Some mk"
      "mkt_status mk = MarketActive" "\<not> mkt_closed_to_deposits mk"
      "ledger_timestamp E < mkt_end_time mk" "authorized E a" "v_mode (view (store s)) = Normal" "0 < n"
    and V: "view (store s') = (view (store s))\<lparr>v_deposit_locked := False,
       v_balance := (v_balance (view (store s)))(a := v_balance (view (store s)) a + n),
       v_positions := (v_positions (view (store s)))((m, a) \<mapsto> (position_in (view (store s)) m a)
         \<lparr>pos_total_deposited := pos_total_deposited (position_in (view (store s)) m a) + n\<rparr>),
       v_participants := (v_participants (view (store s)))(m := enrol a (v_participants (view (store s)) m)),
       v_last_deposit := (v_last_deposit (view (store s)))((m, a) \<mapsto> ledger_timestamp E)\<rparr>"
    and tok: "tok_transfer T (mkt_collateral_token mk) a (current_contract_address E) n (ext s)
       = Some ((), ext s')"
    by (rule market_storage.deposit_ok[OF assms(1)])
  from sep41.transfer_in[OF assms(2) tok assms(4)] d V show ?thesis
    by (auto simp: position_in_def enrol_def)
qed

lemma demo_deposit:
  "\<exists>s'. deposit_collateral demo_market_env direct_market both_tokens demo_trader 5 60
     (demo_market_state MarketActive) = (Ok (), s')"
  by (simp add: deposit_collateral_def deposit_guard_acquire_def deposit_guard_drop_def
      deposit_body_def both_tokens_def ledger_transfer_def direct_market_def market_emits ok_iff
      validate_collateral_amount_def validate_amount_positive_def validate_amount_reasonable_def
      check_def try_then_def checked_arith_Some market_demo_defs Let_def in_i128_def i128_numerals
      max_reasonable_amount_value)

theorem a_deposit_is_credited_witness:
  "\<exists>s' :: (both_ledgers, market_view) market_state. v_balance (store s') demo_trader = 160
     \<and> fst (ext s') demo_token (Contract 10) = 1060"
proof -
  from demo_deposit obtain s' where d: "deposit_collateral demo_market_env direct_market both_tokens
      demo_trader 5 60 (demo_market_state MarketActive) = (Ok (), s')" by blast
  have "demo_trader \<noteq> current_contract_address demo_market_env" by (simp add: market_demo_defs)
  from a_deposit_is_credited[OF both_laws(1,3) d this]
  show ?thesis by (intro exI[of _ s']) (auto simp: market_demo_defs)
qed

text \<open>
  Refused deposits: an authorized deposit that fails a guard returns the error of the first one
  that fails, and leaves storage (the reentrancy lock released), token contracts and events as
  they were.
\<close>

theorem refused_deposits:
  assumes "market_storage A view" and "authorized E a"
    and "deposit_refusal E (view (store s)) m n = Some e"
  shows "\<exists>s'. deposit_collateral E A T a m n s = (Err e, s') \<and> ext s' = ext s \<and> events s' = events s
    \<and> view (store s') = view (store s)"
  by (rule market_storage.deposit_refused[OF assms])

theorem refused_deposits_witness:
  "\<exists>s'. deposit_collateral demo_market_env direct_market both_tokens demo_trader 5 60
     (demo_market_state market_status.MarketResolved) = (Err MarketNotActive, s')
     \<and> store s' = store (demo_market_state market_status.MarketResolved)"
proof -
  have "authorized demo_market_env demo_trader"
    "deposit_refusal demo_market_env (store (demo_market_state market_status.MarketResolved)) 5 60
       = Some MarketNotActive"
    by (simp_all add: deposit_refusal_def market_demo_defs max_reasonable_amount_value)
  from refused_deposits[OF both_laws(1) this] show ?thesis by blast
qed

section \<open>Withdrawals\<close>

text \<open>
  A withdrawal leaves the lock: it is accepted only from an active market, an hour or more after
  the user's last deposit; amount and fee come out of what is not locked, so the collateral
  still deposited covers the lock; the user receives exactly the amount.
\<close>

theorem a_withdrawal_leaves_the_lock:
  assumes "market_storage A view" and "positions_ok (view (store s))"
    and "withdraw_unused_collateral E A T F a m n s = (Ok (), s')"
  shows "\<exists>mk x. v_markets (view (store s)) m = Some mk \<and> mkt_status mk = MarketActive \<and> authorized E a
    \<and> (\<forall>t. v_last_deposit (view (store s)) (m, a) = Some t \<longrightarrow> 3600 \<le> ledger_timestamp E - t)
    \<and> 0 < n \<and> 0 \<le> fee_due (view (store s)) a n \<and> fee_due (view (store s)) a n \<le> n
    \<and> pos_total_deposited (position_in (view (store s')) m a)
        = pos_total_deposited (position_in (view (store s)) m a) - (n + fee_due (view (store s)) a n)
    \<and> pos_locked_collateral (position_in (view (store s')) m a)
        = pos_locked_collateral (position_in (view (store s)) m a)
    \<and> pos_locked_collateral (position_in (view (store s')) m a)
        \<le> pos_total_deposited (position_in (view (store s')) m a)
    \<and> tok_transfer T (mkt_collateral_token mk) (current_contract_address E) a n x = Some ((), ext s')"
proof -
  from assms(3) obtain mk x b where w: "v_markets (view (store s)) m = Some mk"
      "mkt_status mk = MarketActive" "authorized E a" "0 < n"
      "\<forall>t. v_last_deposit (view (store s)) (m, a) = Some t \<longrightarrow>
         withdraw_cooldown_seconds \<le> ledger_timestamp E - t"
      "0 \<le> fee_due (view (store s)) a n" "fee_due (view (store s)) a n \<le> n"
      "n + fee_due (view (store s)) a n \<le> pos_total_deposited (position_in (view (store s)) m a)
         - pos_locked_collateral (position_in (view (store s)) m a)"
    and V: "view (store s') = (view (store s))\<lparr>v_balance := (v_balance (view (store s)))(a := b),
       v_positions := (v_positions (view (store s)))((m, a) \<mapsto> (position_in (view (store s)) m a)
         \<lparr>pos_total_deposited := pos_total_deposited (position_in (view (store s)) m a)
            - (n + fee_due (view (store s)) a n)\<rparr>)\<rparr>"
    and pay: "tok_transfer T (mkt_collateral_token mk) (current_contract_address E) a n x
       = Some ((), ext s')"
    by (rule market_storage.withdraw_ok[OF assms(1)])
  have "position_in (view (store s')) m a = (position_in (view (store s)) m a)\<lparr>pos_total_deposited :=
      pos_total_deposited (position_in (view (store s)) m a) - (n + fee_due (view (store s)) a n)\<rparr>"
    by (simp add: V position_in_def)
  with w pay show ?thesis
    by (intro exI[of _ mk] exI[of _ x]) (simp add: withdraw_cooldown_seconds_def)
qed

lemma demo_withdrawal:
  "\<exists>s'. withdraw_unused_collateral demo_market_env direct_market both_tokens (\<lambda>_ _ _ _ _ _. None)
     demo_trader 5 80 (demo_market_state MarketActive) = (Ok (), s')"
  by (simp add: withdraw_unused_collateral_def cooldown_check_def withdraw_fee_def withdraw_payout_def
      route_fee_def both_tokens_def ledger_transfer_def direct_market_def market_emits ok_iff
      validate_collateral_amount_def validate_amount_positive_def validate_amount_reasonable_def
      validate_fee_rate_bps_def validate_market_price_def large_withdraw_threshold_def
      check_def try_then_def checked_arith_Some market_demo_defs Let_def in_i128_def i128_numerals
      max_reasonable_amount_value saturating_sub_def clamp_i128_def)

theorem a_withdrawal_leaves_the_lock_witness:
  "\<exists>v :: market_view. pos_total_deposited (position_in v 5 demo_trader) = 20
     \<and> pos_locked_collateral (position_in v 5 demo_trader) = 15"
proof -
  from demo_withdrawal obtain s' where w: "withdraw_unused_collateral demo_market_env direct_market
      both_tokens (\<lambda>_ _ _ _ _ _. None) demo_trader 5 80 (demo_market_state MarketActive) = (Ok (), s')"
    by blast
  have "fee_due (store (demo_market_state MarketActive)) demo_trader 80 = 0"
    "position_in (store (demo_market_state MarketActive)) 5 demo_trader = demo_position demo_trader"
    by (simp_all add: fee_due_def position_in_def market_demo_defs)
  with a_withdrawal_leaves_the_lock[OF both_laws(1) demo_positions_ok w] show ?thesis
    by (intro exI[of _ "store s'"]) (auto simp: demo_position_def)
qed

text \<open>
  C13. A routed fee reaches the treasury's books: when a withdrawal owes a fee and a treasury is
  configured, the market has called that treasury as one of its authorized markets, the
  treasury's token balance has grown by exactly the fee, its recorded balance by the same
  (saturating), and sound books stay sound.
\<close>

theorem a_withdrawal_fee_is_booked:
  fixes s s' :: "(('x, 'q) treasury, 'r) market_state"
  assumes "market_storage A view" and "sep41 T balance"
    and "withdraw_unused_collateral E A (beside_treasury T) (treasury_sink addr E B) a m n s = (Ok (), s')"
    and "0 < fee_due (view (store s)) a n" and "v_treasury (view (store s)) = Some ta"
    and "current_contract_address E \<noteq> addr" and "a \<noteq> addr"
  shows "\<exists>mk. v_markets (view (store s)) m = Some mk \<and> ta = addr
    \<and> current_contract_address E \<in> set (trs_get_authorized_markets (ext s))
    \<and> recorded_balance (ext s') = (recorded_balance (ext s))(mkt_collateral_token mk :=
        saturated_sum (recorded_balance (ext s) (mkt_collateral_token mk)) (fee_due (view (store s)) a n))
    \<and> (\<forall>t. balance (ext (ext s')) t addr = balance (ext (ext s)) t addr
        + (if t = mkt_collateral_token mk then fee_due (view (store s)) a n else 0))
    \<and> (books_ok (ext s) \<longrightarrow> books_ok (ext s'))"
  using market_over_treasury.withdrawal_books[OF market_over_treasury.intro[OF assms(1,2)] assms(3-7)]
  by blast

definition demo_treasury :: "(ledger, treasury_view) treasury" where
  "demo_treasury = (fresh_treasury demo_ledger fresh_view)
     \<lparr>tkey_storage_version := Some treasury_storage_version, tkey_admin := Some (Account 22),
      tkey_authorized_markets := Some [Contract 10]\<rparr>"

definition demo_fee_state :: "((ledger, treasury_view) treasury, market_view) market_state" where
  "demo_fee_state = \<lparr>ext = demo_treasury, events = [], store = (demo_market_view MarketActive)
     \<lparr>v_fee_rate := 1000, v_treasury := Some (Contract 40)\<rparr>\<rparr>"

lemma demo_fee_withdrawal:
  "\<exists>s'. withdraw_unused_collateral demo_market_env direct_market (beside_treasury ledger_client)
     (treasury_sink (Contract 40) demo_market_env direct_accessors) demo_trader 5 40 demo_fee_state
     = (Ok (), s')"
proof -
  have fee: "calculate_fee 40 1000 = Inr 4"
    using fee_value[of 40 1000] by (simp add: i128_numerals)
  show ?thesis
    by (simp add: withdraw_unused_collateral_def cooldown_check_def withdraw_fee_def withdraw_payout_def
      route_fee_def beside_treasury_transfer treasury_sink_Some ledger_client_def ledger_transfer_def
      direct_market_def market_emits ok_iff fee demo_fee_state_def demo_treasury_def fresh_treasury_def
      treasury_collect_fee_def treasury_reads treasury_emits treasury_require_mode_ok
      direct_accessors_def fresh_view_def called_by_def saturated_sum_def recorded_balance_def
      trs_get_authorized_markets_def
      validate_collateral_amount_def validate_amount_positive_def validate_amount_reasonable_def
      validate_fee_rate_bps_def validate_market_price_def large_withdraw_threshold_def
      check_def try_then_def checked_arith_Some market_demo_defs Let_def in_i128_def i128_numerals
      max_reasonable_amount_value saturating_sub_def clamp_i128_def)
qed

theorem a_withdrawal_fee_is_booked_witness:
  "\<exists>q :: (ledger, treasury_view) treasury. recorded_balance q demo_token = 4
     \<and> ext q demo_token (Contract 40) = 1004"
proof -
  from demo_fee_withdrawal obtain s' where w: "withdraw_unused_collateral demo_market_env direct_market
      (beside_treasury ledger_client) (treasury_sink (Contract 40) demo_market_env direct_accessors)
      demo_trader 5 40 demo_fee_state = (Ok (), s')" by blast
  have fee: "fee_due (store demo_fee_state) demo_trader 40 = 4"
    "v_treasury (store demo_fee_state) = Some (Contract 40)"
    "current_contract_address demo_market_env \<noteq> Contract 40" "demo_trader \<noteq> Contract 40"
    "v_markets (store demo_fee_state) 5 = Some (demo_market_record MarketActive)"
    "mkt_collateral_token (demo_market_record MarketActive) = demo_token"
    "recorded_balance (ext demo_fee_state) demo_token = 0"
    "ext (ext demo_fee_state) demo_token (Contract 40) = 1000"
    by (simp_all add: fee_due_def demo_fee_state_def demo_treasury_def fresh_treasury_def
        recorded_balance_def market_demo_defs)
  from a_withdrawal_fee_is_booked[OF both_laws(1) ledger.sep41_axioms w _ fee(2-4)] fee
  show ?thesis
    by (intro exI[of _ "ext s'"]) (auto simp: saturated_sum_value i128_numerals)
qed

section \<open>Position changes\<close>

text \<open>
  C24. A transfer between two accounts moves shares and creates none: the source loses exactly what
  the destination gains, their deposits stay, no other position changes, and the caller is the
  source's owner or an operator the owner approved.
\<close>

theorem a_transfer_conserves_shares:
  assumes "market_storage A view"
    and "transfer_position ev A m from to caller yes no price i s = (Ok (), s')" and "from \<noteq> to"
  shows "(caller = from \<or> (from, caller) \<in> v_operators (view (store s)))
    \<and> 0 \<le> yes \<and> 0 \<le> no
    \<and> pos_yes_shares (position_in (view (store s')) m from)
        = pos_yes_shares (position_in (view (store s)) m from) - yes
    \<and> pos_yes_shares (position_in (view (store s')) m to)
        = pos_yes_shares (position_in (view (store s)) m to) + yes
    \<and> pos_no_shares (position_in (view (store s')) m from)
        = pos_no_shares (position_in (view (store s)) m from) - no
    \<and> pos_no_shares (position_in (view (store s')) m to)
        = pos_no_shares (position_in (view (store s)) m to) + no
    \<and> pos_total_deposited (position_in (view (store s')) m from)
        = pos_total_deposited (position_in (view (store s)) m from)
    \<and> pos_total_deposited (position_in (view (store s')) m to)
        = pos_total_deposited (position_in (view (store s)) m to)
    \<and> (\<forall>m' a. (m', a) \<notin> {(m, from), (m, to)} \<longrightarrow>
         v_positions (view (store s')) (m', a) = v_positions (view (store s)) (m', a))"
  using assms(3)
  by (rule_tac market_storage.transfer_ok[OF assms(1,2)]) (auto simp: position_in_def)

lemma demo_transfer:
  "\<exists>s'. transfer_position (\<lambda>m a. CollateralDeposited 2 a m 0 0) direct_market 5 demo_trader b
     demo_trader 30 10 5000 7 (demo_market_state MarketActive) = (Ok (), s')"
  if "b = demo_trader \<or> b = demo_other"
proof -
  have lock: "calculate_locked_collateral 10 0 5000 = Some 5"
    "calculate_locked_collateral 70 20 5000 = Some 25"
    by (simp_all add: locked_collateral_value scale_by_bps_value i128_numerals)
  from that show ?thesis
    by (elim disjE) (simp_all add: transfer_position_def require_price_def validate_market_price_def
      authorize_position_operator_def consume_request_id_def peek_position_def poke_position_def
      relock_ok direct_market_def ok_iff check_def lock market_demo_defs Let_def in_i128_def i128_numerals)
qed

theorem a_transfer_conserves_shares_witness:
  "\<exists>v :: market_view. pos_yes_shares (position_in v 5 demo_trader) = 10
     \<and> pos_yes_shares (position_in v 5 demo_other) = 70"
proof -
  from demo_transfer[of demo_other] obtain s' where t: "transfer_position
      (\<lambda>m a. CollateralDeposited 2 a m 0 0) direct_market 5 demo_trader demo_other demo_trader 30 10
      5000 7 (demo_market_state MarketActive) = (Ok (), s')" by blast
  have "demo_trader \<noteq> demo_other"
    "position_in (store (demo_market_state MarketActive)) 5 demo_trader = demo_position demo_trader"
    "position_in (store (demo_market_state MarketActive)) 5 demo_other = demo_position demo_other"
    by (simp_all add: market_demo_defs position_in_def)
  with a_transfer_conserves_shares[OF both_laws(1) t] show ?thesis
    by (intro exI[of _ "store s'"]) (simp add: demo_position_def)
qed

text \<open>
  C25. A transfer of a user to themself creates shares: the destination is written last, from the
  shares before the transfer, so the position ends with the transferred shares added.
\<close>

theorem a_self_transfer_creates_shares:
  assumes "market_storage A view"
    and "transfer_position ev A m a a caller yes no price i s = (Ok (), s')"
  shows "pos_yes_shares (position_in (view (store s')) m a)
        = pos_yes_shares (position_in (view (store s)) m a) + yes
    \<and> pos_no_shares (position_in (view (store s')) m a)
        = pos_no_shares (position_in (view (store s)) m a) + no"
  by (rule market_storage.transfer_ok[OF assms]) (auto simp: position_in_def)

theorem a_self_transfer_creates_shares_witness:
  "\<exists>v :: market_view. pos_yes_shares (position_in v 5 demo_trader) = 70"
proof -
  from demo_transfer[of demo_trader] obtain s' where t: "transfer_position
      (\<lambda>m a. CollateralDeposited 2 a m 0 0) direct_market 5 demo_trader demo_trader demo_trader 30 10
      5000 7 (demo_market_state MarketActive) = (Ok (), s')" by blast
  have "position_in (store (demo_market_state MarketActive)) 5 demo_trader = demo_position demo_trader"
    by (simp_all add: market_demo_defs position_in_def)
  with a_self_transfer_creates_shares[OF both_laws(1) t] show ?thesis
    by (intro exI[of _ "store s'"]) (simp add: demo_position_def)
qed

text \<open>
  C26. A merge takes anyone's position: the only authorization is of a caller for the \<open>owner\<close> it
  names, and no argument is related to the two positions; any caller naming themself as owner
  moves all shares and deposits of any unsettled position \<open>b\<close> into any other unsettled position.
\<close>

theorem a_merge_takes_any_position:
  assumes "market_storage A view" and "v_ready (view (store s))"
    and "v_positions (view (store s)) (m, a) = Some p" "v_positions (view (store s)) (m, b) = Some q"
    and "\<not> pos_is_settled p" "\<not> pos_is_settled q" "position_ok m a p" "position_ok m b q"
    and "a \<noteq> b" "0 \<le> price" "price \<le> 10000" "(caller, i) \<notin> v_consumed (view (store s))"
    and "pos_yes_shares p + pos_yes_shares q \<le> i128_max"
    and "pos_no_shares p + pos_no_shares q \<le> i128_max"
    and "pos_total_deposited p + pos_total_deposited q \<le> i128_max"
  shows "\<exists>s' p' q'. merge_positions ev A m caller a b caller price i s = (Ok (), s')
    \<and> v_positions (view (store s')) (m, a) = Some p' \<and> v_positions (view (store s')) (m, b) = Some q'
    \<and> pos_yes_shares p' = pos_yes_shares p + pos_yes_shares q \<and> pos_yes_shares q' = 0
    \<and> pos_no_shares p' = pos_no_shares p + pos_no_shares q \<and> pos_no_shares q' = 0
    \<and> pos_total_deposited p' = pos_total_deposited p + pos_total_deposited q
    \<and> pos_total_deposited q' = 0"
proof -
  from market_storage.merge_runs[OF assms(1-6) assms(10-12) assms(7,8) assms(13-15)]
  obtain s' where run: "merge_positions ev A m caller a b caller price i s = (Ok (), s')" by blast
  from this assms(3,4,9) show ?thesis
    by (rule_tac market_storage.merge_ok[OF assms(1) run]) auto
qed

theorem a_merge_takes_any_position_witness:
  "\<exists>s' p' q'. merge_positions (\<lambda>m a. CollateralDeposited 2 a m 0 0) direct_market 5 (Account 66)
       demo_trader demo_other (Account 66) 5000 3 (demo_market_state MarketActive) = (Ok (), s')
     \<and> v_positions (store s') (5, demo_trader) = Some p' \<and> pos_yes_shares p' = 80
     \<and> v_positions (store s') (5, demo_other) = Some q' \<and> pos_yes_shares q' = 0"
proof -
  let ?v = "store (demo_market_state MarketActive)"
  have pos: "v_ready ?v" "v_positions ?v (5, demo_trader) = Some (demo_position demo_trader)"
    "v_positions ?v (5, demo_other) = Some (demo_position demo_other)" "demo_trader \<noteq> demo_other"
    "(Account 66, 3) \<notin> v_consumed ?v"
    by (simp_all add: market_demo_defs)
  have small: "\<not> pos_is_settled (demo_position c)" "position_ok 5 c (demo_position c)"
    "pos_yes_shares (demo_position c) + pos_yes_shares (demo_position d) \<le> i128_max"
    "pos_no_shares (demo_position c) + pos_no_shares (demo_position d) \<le> i128_max"
    "pos_total_deposited (demo_position c) + pos_total_deposited (demo_position d) \<le> i128_max" for c d
    by (simp_all add: demo_position_def position_ok_def position_in_range_def in_i128_def i128_numerals)
  from a_merge_takes_any_position[OF both_laws(1) pos(1,2,3) small(1,1,2,2) pos(4) _ _ pos(5) small(3-5),
      where price = 5000]
  show ?thesis by (fastforce simp: demo_position_def)
qed

text \<open>
  C27. A request id is used once: after a successful transfer under an id, no transfer and no merge
  for the same owner and id succeeds in any later state.
\<close>

theorem request_ids_are_used_once:
  assumes "market_storage A view" and "outcome_ledger C bal"
    and "transfer_position ev A m owner to caller yes no price i s = (Ok (), t)"
    and "market_reach A C T F ev t s'"
  shows "fst (transfer_position ev A m' owner to' caller' yes' no' price' i s') \<noteq> Ok ()
    \<and> fst (merge_positions ev A m' owner a b caller' price' i s') \<noteq> Ok ()"
proof -
  have "(owner, i) \<in> v_consumed (view (store t))"
    by (rule market_storage.transfer_ok[OF assms(1,3)]) simp
  with market_tokens.market_reach_consumed[OF market_tokens.intro[OF assms(1,2)] assms(4)]
  have "(owner, i) \<in> v_consumed (view (store s'))" by blast
  from market_storage.consumed_refused[OF assms(1) this] show ?thesis by blast
qed

theorem request_ids_are_used_once_witness:
  "\<exists>t :: (both_ledgers, market_view) market_state. pos_yes_shares (position_in (store t) 5 demo_other) = 70
     \<and> fst (transfer_position (\<lambda>m a. CollateralDeposited 2 a m 0 0) direct_market 5 demo_trader demo_other
         demo_trader 1 0 5000 7 t) \<noteq> Ok ()"
proof -
  from demo_transfer[of demo_other] obtain t where t: "transfer_position
      (\<lambda>m a. CollateralDeposited 2 a m 0 0) direct_market 5 demo_trader demo_other demo_trader 30 10
      5000 7 (demo_market_state MarketActive) = (Ok (), t)" by blast
  have "pos_yes_shares (position_in (store t) 5 demo_other) = 70"
    by (rule market_direct.transfer_ok[OF t]) (simp add: market_demo_defs position_in_def)
  with request_ids_are_used_once[OF both_laws(1,2) t market_reach.here] show ?thesis by blast
qed

section \<open>Locked collateral\<close>




text \<open>
  An overflowing lock is small: where net position times price leaves \<open>i128\<close>, the saturated
  product is divided all the same, so the lock is the maximum divided by 10000, far below the
  exposure.
\<close>

theorem an_overflowing_lock_is_small:
  assumes "0 \<le> net" "net \<le> i128_max" "0 \<le> price" "price \<le> 10000" "i128_max < net * price"
  shows "calculate_locked_collateral net 0 price = Some (i128_max div 10000)"
  using assms by (simp add: locked_collateral_value scale_by_bps_value min_def)

theorem an_overflowing_lock_is_small_witness:
  "calculate_locked_collateral i128_max 0 10000 = Some (i128_max div 10000)
     \<and> i128_max div 10000 < i128_max"
  using an_overflowing_lock_is_small[of i128_max 10000] by (simp add: i128_numerals)

section \<open>Reconciliation\<close>

text \<open>
  C29. A reconciliation restores parity: when it succeeds for an unsettled position, the user's
  outcome tokens equal the position's shares on both sides, positions and markets are as before,
  and if anything had to be repaired the correlation id was fresh and is now recorded.
\<close>

theorem a_reconciliation_restores_parity:
  assumes "market_storage A view" and "outcome_ledger C bal"
    and "reconcile_position_tokens E A C admin m a i s = (Ok par, s')"
    and "v_outcome_token (view (store s)) = Some tok"
    and "\<not> pos_is_settled (position_in (view (store s)) m a)"
  shows "bal (ext s') (tok, m, a, TokenYes) = pos_yes_shares (position_in (view (store s')) m a)
    \<and> bal (ext s') (tok, m, a, TokenNo) = pos_no_shares (position_in (view (store s')) m a)
    \<and> v_positions (view (store s')) = v_positions (view (store s))
    \<and> (s' = s \<or> v_reconciled (view (store s)) i = None
        \<and> v_reconciled (view (store s')) i = Some (m, a))"
proof -
  note M = market_tokens.intro[OF assms(1,2)]
  from market_tokens.reconcile_ok[OF M assms(3)] assms(4,5) show ?thesis
    by (auto simp: market_tokens.parity_at_matched[OF M] market_tokens.tokens_match_def[OF M]
        position_in_def)
qed

definition demo_mismatch :: "(both_ledgers, market_view) market_state" where
  "demo_mismatch = (demo_market_state MarketActive)\<lparr>ext := (demo_ledger, \<lambda>_. 25)\<rparr>"

lemma demo_reconciliation:
  "\<exists>par s'. reconcile_position_tokens demo_market_env direct_market both_outcomes (Account 22) 5
     demo_trader [4] demo_mismatch = (Ok par, s') \<and> s' \<noteq> demo_mismatch"
  by (simp add: reconcile_position_tokens_def get_position_token_parity_def load_token_balances_def
      repair_side_def both_outcomes_def outcome_book_def direct_market_def market_emits ok_iff
      demo_mismatch_def market_demo_defs Let_def in_i128_def i128_numerals)

theorem a_reconciliation_restores_parity_witness:
  "\<exists>l :: both_ledgers. snd l (demo_outcomes, 5, demo_trader, TokenYes) = 40
     \<and> snd l (demo_outcomes, 5, demo_trader, TokenNo) = 10"
proof -
  from demo_reconciliation obtain par s' where
    r: "reconcile_position_tokens demo_market_env direct_market both_outcomes (Account 22) 5
     demo_trader [4] demo_mismatch = (Ok par, s')" by blast
  have p: "v_outcome_token (store demo_mismatch) = Some demo_outcomes"
    "position_in (store demo_mismatch) 5 demo_trader = demo_position demo_trader"
    by (simp_all add: demo_mismatch_def market_demo_defs position_in_def)
  from a_reconciliation_restores_parity[OF both_laws(1,2) r p(1)] p(2) show ?thesis
    by (intro exI[of _ "ext s'"]) (auto simp: position_in_def demo_position_def)
qed

section \<open>Fee waivers\<close>

text \<open>
  C40. The waiver list stays bounded: over any sequence of additions and removals it has no
  duplicates and at most \<open>MAX_FEE_WAIVERS\<close> entries, and an account pays no fee exactly when it is
  on it.
\<close>

theorem waivers_stay_bounded:
  assumes "market_storage A view" and "waiver_reach A s s'"
    and "waivers_ok A (view (store s))"
  shows "distinct (v_fee_waivers (view (store s')))
    \<and> length (v_fee_waivers (view (store s'))) \<le> ms_max_fee_waivers A
    \<and> (effective_fee_rate_bps rate A a (store s') =
        (if a \<in> set (v_fee_waivers (view (store s'))) then 0 else rate (store s')))"
  using market_storage.waiver_reach_ok[OF assms]
  by (simp add: waivers_ok_def effective_fee_rate_bps_def has_fee_waiver_def
      market_storage.reads(13)[OF assms(1)])

theorem waivers_stay_bounded_witness:
  "\<exists>s' :: (both_ledgers, market_view) market_state. v_fee_waivers (store s') = [demo_trader]
     \<and> effective_fee_rate_bps (\<lambda>_. 30) direct_market demo_trader (store s') = 0"
proof -
  let ?note = "\<lambda>a b n. CollateralDeposited 2 a n 0 0"
  have "\<exists>s'. add_fee_waiver ?note demo_market_env direct_market (Account 22) demo_trader
      (demo_market_state MarketActive) = (Ok (), s') \<and> v_fee_waivers (store s') = [demo_trader]"
    by (simp add: add_fee_waiver_def waiver_admin_def direct_market_def ok_iff market_demo_defs)
  then obtain s' where add: "add_fee_waiver ?note demo_market_env direct_market (Account 22) demo_trader
      (demo_market_state MarketActive) = (Ok (), s')" and l: "v_fee_waivers (store s') = [demo_trader]"
    by blast
  have "waivers_ok direct_market (store (demo_market_state MarketActive))"
    by (simp add: waivers_ok_def market_demo_defs)
  from waivers_stay_bounded[OF both_laws(1) waiver_add[OF waiver_here add] this, of "\<lambda>_. 30" demo_trader] l
  show ?thesis by auto
qed

end
