(* ===== verification/Market_Oracle_Properties.thy ===== *)
theory Market_Oracle_Properties
  imports Market_Examples
begin

text \<open>
  Properties of the oracle verifiers, for any hash, any signature primitive and any price
  contracts.
\<close>

section \<open>A concrete world\<close>

text \<open>The hash is the identity, and a signature is the key followed by the message.\<close>

definition demo_world :: "both_ledgers oracle_world" where
  "demo_world = \<lparr>ow_keccak256 = (\<lambda>m. m), ow_key_decodes = (\<lambda>k. k \<noteq> []),
     ow_key_verifies = (\<lambda>k m sig. sig = k @ m),
     ow_lastprice = (\<lambda>_ _ x. Some (Some \<lparr>rp_price = 70, rp_timestamp = 9000\<rparr>, x)),
     ow_update_price_feeds = (\<lambda>_ _ x. Some ((), x)),
     ow_get_price = (\<lambda>_ _ x. Some (\<lparr>pp_price = 70, pp_conf = 0, pp_exp = 0,
       pp_publish_time = 9000\<rparr>, x))\<rparr>"

definition demo_adapters :: "bool \<Rightarrow> (both_ledgers, market_view) market_state" where
  "demo_adapters locked = (demo_market_state MarketActive)
     \<lparr>store := (demo_market_view MarketActive)
       \<lparr>v_adapters := locked, v_adapter_enabled := (\<lambda>ty. ty = Reflector \<and> locked),
        v_adapter_config := (\<lambda>_. Some \<lparr>oracle_contract = Contract 50,
          config_asset = Other ''BTC'', resolution_price = 60\<rparr>)\<rparr>\<rparr>"

section \<open>Thresholds\<close>

text \<open>
  C22. A threshold needs a quorum: a V2 report is accepted only on this network, before it expires,
  while Ed25519 is not locked out, and only if at least \<open>quorum\<close> different registered keys each
  verify a submitted signature of exactly this market, outcome, expiry and epoch.
\<close>

theorem a_threshold_needs_a_quorum:
  assumes "market_storage A view"
    and "verify_threshold_signatures_v2 E W A h m b t e ks sigs q s = (Ok (), s')"
  shows "s' = s \<and> \<not> v_adapters (view (store s)) \<and> h = network_id E \<and> ledger_timestamp E \<le> t
    \<and> 0 < q \<and> (\<exists>S. S \<subseteq> set ks \<and> finite S \<and> q \<le> card S \<and> (\<forall>k\<in>S. \<exists>sig\<in>set sigs.
        verify_ed25519_safe W k (construct_oracle_message_v2 W h m b t e) sig))"
proof -
  from assms(2) have ok: "\<not> v_adapters (view (store s)) \<and> h = network_id E \<and> 0 < q \<and> q \<le> length ks
      \<and> ledger_timestamp E \<le> t \<and> distinct ks \<and> s' = s
      \<and> reaches_quorum W (construct_oracle_message_v2 W h m b t e)
          (construct_oracle_message_v2 W h m (\<not> b) t e) q (zip ks sigs) 0"
    unfolding market_storage.threshold_v2_ok[OF assms(1)] .
  then have "reaches_quorum W (construct_oracle_message_v2 W h m b t e)
          (construct_oracle_message_v2 W h m (\<not> b) t e) q (zip ks sigs) 0" "distinct ks" by blast+
  from quorum_signers[OF this] ok show ?thesis by blast
qed

lemma demo_threshold:
  "verify_threshold_signatures_v2 demo_market_env demo_world direct_market [7] 5 True 20000 2
     [[81], [82], [83]]
     [[81] @ build_oracle_preimage_v2 [7] 5 True 20000 2, [],
      [83] @ build_oracle_preimage_v2 [7] 5 True 20000 2] 2 (demo_adapters False)
   = (Ok (), demo_adapters False)"
proof -
  let ?m = "build_oracle_preimage_v2 [7] 5 True 20000 2"
    and ?o = "build_oracle_preimage_v2 [7] 5 False 20000 2"
  have ne: "?m \<noteq> ?o" by (simp add: build_oracle_preimage_v2_def)
  have ver: "verify_ed25519_safe demo_world k x sig \<longleftrightarrow> k \<noteq> [] \<and> sig = k @ x" for k x sig
    by (simp add: verify_ed25519_safe_def demo_world_def)
  have msg: "construct_oracle_message_v2 demo_world [7] 5 c 20000 2
      = build_oracle_preimage_v2 [7] 5 c 20000 2" for c
    by (simp add: construct_oracle_message_v2_def demo_world_def)
  show ?thesis
    unfolding market_direct.threshold_v2_ok
    using ne by (simp add: threshold_loop_iff[symmetric] msg ver demo_adapters_def market_demo_defs)
qed

theorem a_threshold_needs_a_quorum_witness:
  "\<exists>S. S \<subseteq> set [[81], [82], [83]] \<and> 2 \<le> card (S :: bytes set)"
  using a_threshold_needs_a_quorum[OF both_laws(1) demo_threshold] by blast

section \<open>Messages\<close>

text \<open>
  Oracle messages are unambiguous: the V2 bytes of two reports are equal only if network, market,
  outcome, expiry and epoch are; they are always 64 bytes, V1 messages always 20, so no V1
  message is a V2 message.
\<close>

theorem oracle_messages_are_unambiguous:
  assumes "length h = 32" "length h' = 32" "m \<le> u32_max" "m' \<le> u32_max" "t \<le> u64_max" "t' \<le> u64_max"
    and "e \<le> u32_max" "e' \<le> u32_max"
  shows "(build_oracle_preimage_v2 h m b t e = build_oracle_preimage_v2 h' m' b' t' e' \<longleftrightarrow>
      h = h' \<and> m = m' \<and> b = b' \<and> t = t' \<and> e = e')
    \<and> (build_oracle_preimage m b = build_oracle_preimage m' b' \<longleftrightarrow> m = m' \<and> b = b')
    \<and> length (build_oracle_preimage_v2 h m b t e) = 64 \<and> length (build_oracle_preimage m b) = 20
    \<and> build_oracle_preimage m' b' \<noteq> build_oracle_preimage_v2 h m b t e"
proof -
  have len: "length (build_oracle_preimage_v2 h m b t e) = 64" "length (build_oracle_preimage c d) = 20"
    for c d using length_preimages assms(1) by (simp_all add: preimage_lens)
  have "build_oracle_preimage m' b' \<noteq> build_oracle_preimage_v2 h m b t e"
  proof
    assume "build_oracle_preimage m' b' = build_oracle_preimage_v2 h m b t e"
    then have "length (build_oracle_preimage m' b') = length (build_oracle_preimage_v2 h m b t e)"
      by (rule arg_cong)
    then show False by (simp add: len)
  qed
  with len preimage_v2_inject[OF assms] preimage_inject[OF assms(3,4)] show ?thesis by blast
qed

theorem oracle_messages_are_unambiguous_witness:
  "build_oracle_preimage_v2 zero_key 5 True 20000 2 \<noteq> build_oracle_preimage_v2 zero_key 5 False 20000 2
     \<and> build_oracle_preimage 5 True \<noteq> build_oracle_preimage_v2 zero_key 5 True 20000 2"
  using oracle_messages_are_unambiguous[of zero_key zero_key 5 5 20000 20000 2 2 True False]
    oracle_messages_are_unambiguous[of zero_key zero_key 5 5 20000 20000 2 2 True True]
  by (simp add: zero_key_def u32_max_def u64_max_def)

section \<open>The adapter lock\<close>

text \<open>
  C23. The adapter lock is final: once oracle adapters are on, no single or threshold Ed25519 report
  of either version is accepted, and a market outcome is accepted only by the Reflector adapter,
  enabled, compiled in and configured.
\<close>

theorem the_adapter_lock_is_final:
  assumes "market_storage A view" and "v_adapters (view (store s))"
  shows "verify_oracle_signature W A m b sig k s = (Err UnauthorizedOracle, s)
    \<and> verify_oracle_signature_v2 E W A h m b t e sig k s = (Err UnauthorizedOracle, s)
    \<and> verify_threshold_signatures W A m b ks sigs q s = (Err UnauthorizedOracle, s)
    \<and> verify_threshold_signatures_v2 E W A h m b t e ks sigs q s = (Err UnauthorizedOracle, s)
    \<and> (verify_market_outcome f E W A m mk ty b sig s = (Ok (), s') \<longrightarrow>
         ty = Reflector \<and> f \<and> v_adapter_enabled (view (store s)) Reflector
         \<and> v_adapter_config (view (store s)) m \<noteq> None)
    \<and> (verify_market_outcome_v2 f E W A h m mk ty b t e sig s = (Ok (), s') \<longrightarrow>
         ty = Reflector \<and> f \<and> v_adapter_enabled (view (store s)) Reflector
         \<and> v_adapter_config (view (store s)) m \<noteq> None)"
proof -
  note lock = market_storage.path_locked[OF assms]
  note rules = market_storage.verify_outcome_ok[OF assms(1)]
    market_storage.verify_outcome_v2_ok[OF assms(1)] market_storage.verify_signature_ok[OF assms(1)]
    market_storage.verify_signature_v2_ok[OF assms(1)] market_storage.configured_reflector_ok[OF assms(1)]
  have "verify_oracle_signature W A m b sig k s = (Err UnauthorizedOracle, s)"
    "verify_oracle_signature_v2 E W A h m b t e sig k s = (Err UnauthorizedOracle, s)"
    "verify_threshold_signatures W A m b ks sigs q s = (Err UnauthorizedOracle, s)"
    "verify_threshold_signatures_v2 E W A h m b t e ks sigs q s = (Err UnauthorizedOracle, s)"
    by (simp_all add: verify_oracle_signature_def verify_oracle_signature_v2_def
        verify_threshold_signatures_def verify_threshold_signatures_v2_def andthen_def bind_def lock)
  with assms(2) show ?thesis by (auto simp: rules split: if_splits)
qed

text \<open>
  C30. A Reflector outcome follows a fresh price: where the market's Reflector adapter is enabled, an
  accepted outcome is the comparison of a price at most an hour old with the market's threshold,
  and in the same state no proof makes the opposite outcome acceptable.
\<close>

theorem a_reflector_outcome_follows_a_fresh_price:
  assumes "market_storage A view" and "v_adapter_enabled (view (store s)) Reflector"
    and "verify_market_outcome f E W A m mk Reflector b sig s = (Ok (), s')"
  shows "\<exists>c d x. v_adapter_config (view (store s)) m = Some c
    \<and> ow_lastprice W (oracle_contract c) (config_asset c) (ext s) = Some (Some d, x)
    \<and> ledger_timestamp E - rp_timestamp d \<le> 3600 \<and> b = (resolution_price c \<le> rp_price d)
    \<and> fst (verify_market_outcome f E W A m mk Reflector (\<not> b) sig' s) \<noteq> Ok ()"
proof -
  note rules = market_storage.verify_outcome_ok[OF assms(1)]
    market_storage.configured_reflector_ok[OF assms(1)]
  from assms(2,3) obtain c d x where c: "v_adapter_config (view (store s)) m = Some c"
    "ow_lastprice W (oracle_contract c) (config_asset c) (ext s) = Some (Some d, x)"
    "ledger_timestamp E - rp_timestamp d \<le> max_price_age_seconds" "b = (resolution_price c \<le> rp_price d)"
    by (auto simp: rules)
  have False if "verify_market_outcome f E W A m mk Reflector (\<not> b) sig' s = (Ok (), u)" for u
    using that assms(2) c by (auto simp: rules)
  then have "fst (verify_market_outcome f E W A m mk Reflector (\<not> b) sig' s) \<noteq> Ok ()"
    by (metis prod.collapse)
  with c show ?thesis by (auto simp: max_price_age_seconds_def)
qed

theorem the_adapter_lock_is_final_witness:
  "verify_oracle_signature demo_world direct_market 5 True [9] [9] (demo_adapters True)
     = (Err UnauthorizedOracle, demo_adapters True)"
proof -
  have "v_adapters (store (demo_adapters True))" by (simp add: demo_adapters_def)
  from the_adapter_lock_is_final[OF both_laws(1) this] show ?thesis by blast
qed

theorem a_reflector_outcome_follows_a_fresh_price_witness:
  "\<exists>p :: reflector_price_data. verify_market_outcome True demo_market_env demo_world direct_market 5
       (demo_market_record MarketActive) Reflector True [] (demo_adapters True)
       = (Ok (), demo_adapters True)
     \<and> rp_price p = 70 \<and> 10000 - rp_timestamp p \<le> 3600"
proof -
  have e: "v_adapter_enabled (store (demo_adapters True)) Reflector"
    by (simp add: demo_adapters_def)
  have r: "verify_market_outcome True demo_market_env demo_world direct_market 5
       (demo_market_record MarketActive) Reflector True [] (demo_adapters True)
       = (Ok (), demo_adapters True)"
    unfolding market_direct.verify_outcome_ok
    by (simp add: market_direct.configured_reflector_ok demo_adapters_def demo_world_def
        max_price_age_seconds_def demo_market_env_def)
  from a_reflector_outcome_follows_a_fresh_price[OF both_laws(1) e r, where sig' = "[]"]
  obtain c :: market_adapter_config and d :: reflector_price_data and x where
    "ow_lastprice demo_world (oracle_contract c) (config_asset c) (ext (demo_adapters True))
       = Some (Some d, x)" "ledger_timestamp demo_market_env - rp_timestamp d \<le> 3600" by blast
  then have "rp_price d = 70 \<and> 10000 - rp_timestamp d \<le> 3600"
    by (auto simp: demo_world_def demo_market_env_def)
  with r show ?thesis by blast
qed

end
