(* ===== verification/Market_Custody.thy ===== *)
theory Market_Custody
  imports Market_Trading_Properties
begin

text \<open>
  What the market holds against what it owes: while the market trades (deposits, withdrawals,
  transfers, merges and share updates, by anyone and in any order), its balance of every
  collateral token covers the deposits recorded in all positions of the markets in that token.
  Settlement is outside that: it pays shares, and no operation relates shares to deposits. What it
  pays, in any sequence of settlements, is exactly the winning shares of the users it settles.
\<close>

section \<open>The deposits a market owes\<close>

definition collateral_of :: "market_view \<Rightarrow> u32 \<Rightarrow> address option" where
  "collateral_of v m = map_option mkt_collateral_token (v_markets v m)"

definition deposit_at :: "market_view \<Rightarrow> u32 \<times> address \<Rightarrow> i128" where
  "deposit_at v k = pos_total_deposited (position_in v (fst k) (snd k))"

definition owed :: "market_view \<Rightarrow> address \<Rightarrow> int" where
  "owed v t = (\<Sum>k \<in> {k \<in> dom (v_positions v). collateral_of v (fst k) = Some t}. deposit_at v k)"

lemma deposit_at_absent: "v_positions v k = None \<Longrightarrow> deposit_at v k = 0"
  by (cases k) (simp add: deposit_at_def position_in_def new_empty_def)

lemma owed_superset:
  assumes "finite K" and "dom (v_positions v) \<subseteq> K"
  shows "owed v t = (\<Sum>k \<in> {k \<in> K. collateral_of v (fst k) = Some t}. deposit_at v k)"
  unfolding owed_def using assms
  by (intro sum.mono_neutral_left) (auto intro: deposit_at_absent)

text \<open>Storing one position changes what is owed by the change of its deposit.\<close>

lemma owed_put:
  assumes fin: "finite (dom (v_positions v))" and mk: "v_markets w = v_markets v"
    and put: "v_positions w = (v_positions v)((m, a) \<mapsto> p)"
  shows "owed w t = owed v t + (if collateral_of v m = Some t
    then pos_total_deposited p - pos_total_deposited (position_in v m a) else 0)"
proof -
  let ?K = "insert (m, a) (dom (v_positions v))"
  let ?S = "{k \<in> ?K. collateral_of v (fst k) = Some t}"
  have col: "collateral_of w = collateral_of v" by (simp add: collateral_of_def fun_eq_iff mk)
  have w: "owed w t = (\<Sum>k \<in> ?S. deposit_at w k)"
    using fin by (subst owed_superset[of ?K]) (auto simp: put col)
  have v: "owed v t = (\<Sum>k \<in> ?S. deposit_at v k)"
    using fin by (subst owed_superset[of ?K]) auto
  have other: "deposit_at w k = deposit_at v k" if "k \<noteq> (m, a)" for k
    using that by (cases k) (auto simp: deposit_at_def position_in_def put)
  have here: "deposit_at w (m, a) = pos_total_deposited p" "deposit_at v (m, a) = pos_total_deposited (position_in v m a)"
    by (simp_all add: deposit_at_def position_in_def put)
  show ?thesis
  proof (cases "collateral_of v m = Some t")
    case True
    then have "(\<Sum>k \<in> ?S. deposit_at w k) = (\<Sum>k \<in> ?S. deposit_at v k) - deposit_at v (m, a) + deposit_at w (m, a)"
      using fin other by (intro sum_change_one) auto
    with True here show ?thesis by (simp add: w v)
  next
    case False
    then have "(m, a) \<notin> ?S" by simp
    then have "(\<Sum>k \<in> ?S. deposit_at w k) = (\<Sum>k \<in> ?S. deposit_at v k)"
      by (intro sum.cong[OF refl] other) blast
    with False show ?thesis by (simp add: w v)
  qed
qed

lemma owed_put2:
  assumes fin: "finite (dom (v_positions v))" and mk: "v_markets w = v_markets v"
    and put: "v_positions w = (v_positions v)((m, a) \<mapsto> p, (m, b) \<mapsto> q)"
    and sum: "pos_total_deposited p + pos_total_deposited q
      = pos_total_deposited (position_in v m a) + pos_total_deposited (position_in v m b)"
    and pos: "0 \<le> pos_total_deposited (position_in v m a)" "a = b \<Longrightarrow> pos_total_deposited q
      \<le> pos_total_deposited (position_in v m a)"
  shows "owed w t \<le> owed v t"
proof -
  let ?u = "v\<lparr>v_positions := (v_positions v)((m, a) \<mapsto> p)\<rparr>"
  have "owed ?u t = owed v t + (if collateral_of v m = Some t
      then pos_total_deposited p - pos_total_deposited (position_in v m a) else 0)"
    by (rule owed_put[OF fin]) simp_all
  moreover have "owed w t = owed ?u t + (if collateral_of ?u m = Some t
      then pos_total_deposited q - pos_total_deposited (position_in ?u m b) else 0)"
    using fin by (intro owed_put) (simp_all add: mk put)
  moreover have "collateral_of ?u = collateral_of v" by (simp add: collateral_of_def fun_eq_iff)
  moreover have "position_in ?u m b = (if b = a then p else position_in v m b)"
    by (auto simp: position_in_def)
  ultimately show ?thesis using sum pos by (auto split: if_splits)
qed

section \<open>Trading\<close>

inductive trading_step :: "'r market_accessors \<Rightarrow> 'x token_client \<Rightarrow> 'x fee_sink
    \<Rightarrow> (u32 \<Rightarrow> address \<Rightarrow> market_event) \<Rightarrow> address
    \<Rightarrow> ('x, 'r) market_state \<Rightarrow> ('x, 'r) market_state \<Rightarrow> bool"
  for A T F ev self where
  deposit: "deposit_collateral E A T a m n s = (Ok (), s') \<Longrightarrow> current_contract_address E = self \<Longrightarrow>
     a \<noteq> self \<Longrightarrow> trading_step A T F ev self s s'"
| withdraw: "withdraw_unused_collateral E A T F a m n s = (Ok (), s') \<Longrightarrow>
     current_contract_address E = self \<Longrightarrow> trading_step A T F ev self s s'"
| transfer: "transfer_position ev A m from to caller yes no price i s = (Ok (), s') \<Longrightarrow>
     trading_step A T F ev self s s'"
| merge: "merge_positions ev A m owner a b caller price i s = (Ok (), s') \<Longrightarrow>
     trading_step A T F ev self s s'"
| update: "update_position_persist E A shown m a dy dn price s = (Ok p, s') \<Longrightarrow>
     trading_step A T F ev self s s'"

inductive trading_reach :: "'r market_accessors \<Rightarrow> 'x token_client \<Rightarrow> 'x fee_sink
    \<Rightarrow> (u32 \<Rightarrow> address \<Rightarrow> market_event) \<Rightarrow> address
    \<Rightarrow> ('x, 'r) market_state \<Rightarrow> ('x, 'r) market_state \<Rightarrow> bool"
  for A T F ev self s where
  here: "trading_reach A T F ev self s s"
| there: "trading_reach A T F ev self s t \<Longrightarrow> trading_step A T F ev self t u \<Longrightarrow>
     trading_reach A T F ev self s u"

definition custody_ok :: "('x \<Rightarrow> address \<Rightarrow> address \<Rightarrow> int) \<Rightarrow> address \<Rightarrow> market_view \<Rightarrow> 'x \<Rightarrow> bool" where
  "custody_ok balance self v x \<longleftrightarrow> finite (dom (v_positions v)) \<and> positions_ok v
     \<and> (\<forall>t. owed v t \<le> balance x t self)"

text \<open>The market, its tokens, and a treasury that takes nothing from the market by itself.\<close>

locale market_custody = market_storage A view + sep41 T balance
  for A :: "'r market_accessors" and view :: "'r \<Rightarrow> market_view"
    and T :: "'x token_client" and balance :: "'x \<Rightarrow> address \<Rightarrow> address \<Rightarrow> int" +
  fixes F :: "'x fee_sink" and self :: address
  assumes sink_keeps: "F ta caller tok m n x = Some (u, x') \<Longrightarrow> balance x t self \<le> balance x' t self"
begin

abbreviation ok :: "('x, 'r) market_state \<Rightarrow> bool" where
  "ok s \<equiv> custody_ok balance self (V s) (ext s)"

lemma deposit_custody:
  assumes run: "deposit_collateral E A T a m n s = (Ok u, s')" and "ok s"
    and self: "current_contract_address E = self" "a \<noteq> self"
  shows "ok s'"
proof -
  from run obtain mk where mk: "v_markets (V s) m = Some mk"
    and V: "V s' = (V s)\<lparr>v_deposit_locked := False,
       v_balance := (v_balance (V s))(a := v_balance (V s) a + n),
       v_positions := (v_positions (V s))((m, a) \<mapsto> (position_of s m a)
         \<lparr>pos_total_deposited := pos_total_deposited (position_of s m a) + n\<rparr>),
       v_participants := (v_participants (V s))(m := enrol a (v_participants (V s) m)),
       v_last_deposit := (v_last_deposit (V s))((m, a) \<mapsto> ledger_timestamp E)\<rparr>"
    and tr: "tok_transfer T (mkt_collateral_token mk) a (current_contract_address E) n (ext s) = Some ((), ext s')"
    by (rule deposit_ok) blast
  have "owed (V s') t = owed (V s) t + (if collateral_of (V s) m = Some t then n else 0)" for t
    using assms(2) by (subst owed_put[of "V s" _ m a]) (auto simp: V custody_ok_def)
  moreover have "collateral_of (V s) m = Some (mkt_collateral_token mk)" by (simp add: collateral_of_def mk)
  ultimately have "owed (V s') t \<le> balance (ext s') t self" for t
    using assms(2) transfer_moves[OF tr, of t self] self by (simp add: custody_ok_def)
  moreover have "positions_ok (V s')" using deposit_unsettling[OF run] assms(2)
    by (simp add: unsettling_def custody_ok_def)
  ultimately show ?thesis using assms(2) by (simp add: custody_ok_def V)
qed

lemma fee_leaves:
  assumes "fee_routed E T F mk m fee ta x x'" and "0 \<le> fee" and "current_contract_address E = self"
  shows "balance x t self - (if t = mkt_collateral_token mk then fee else 0) \<le> balance x' t self"
proof (cases "0 < fee \<and> ta \<noteq> None")
  case True
  then obtain a y where y: "tok_transfer T (mkt_collateral_token mk) self a fee x = Some ((), y)"
    and F: "F a self (mkt_collateral_token mk) m fee y = Some ((), x')"
    using assms(1,3) by (auto simp: fee_routed_def)
  from transfer_out_at_most[OF y, of t self] sink_keeps[OF F, of t] assms(2) show ?thesis by simp
next
  case False
  with assms show ?thesis by (auto simp: fee_routed_def split: if_splits)
qed

lemma withdraw_custody:
  assumes run: "withdraw_unused_collateral E A T F a m n s = (Ok u, s')" and "ok s"
    and self: "current_contract_address E = self"
  shows "ok s'"
proof -
  let ?p = "position_of s m a" and ?f = "fee_due (V s) a n"
  from run obtain mk x b where mk: "v_markets (V s) m = Some mk" and n: "0 < n" "0 \<le> ?f"
    and V: "V s' = (V s)\<lparr>v_balance := (v_balance (V s))(a := b),
       v_positions := (v_positions (V s))((m, a) \<mapsto> ?p
         \<lparr>pos_total_deposited := pos_total_deposited ?p - (n + ?f)\<rparr>)\<rparr>"
    and fee: "fee_routed E T F mk m ?f (v_treasury (V s)) (ext s) x"
    and tr: "tok_transfer T (mkt_collateral_token mk) (current_contract_address E) a n x = Some ((), ext s')"
    by (rule withdraw_ok) blast
  have "owed (V s') t = owed (V s) t - (if collateral_of (V s) m = Some t then n + ?f else 0)" for t
    using assms(2) by (subst owed_put[of "V s" _ m a]) (auto simp: V custody_ok_def)
  moreover have "collateral_of (V s) m = Some (mkt_collateral_token mk)" by (simp add: collateral_of_def mk)
  moreover have "balance (ext s) t self - (if t = mkt_collateral_token mk then n + ?f else 0)
      \<le> balance (ext s') t self" for t
    using fee_leaves[OF fee n(2) self, of t] transfer_out_at_most[OF tr, of t self] n by (auto split: if_splits)
  ultimately have "owed (V s') t \<le> balance (ext s') t self" for t
    using assms(2) by (smt (verit) custody_ok_def option.inject)
  moreover have "positions_ok (V s')" using withdraw_unsettling[OF run] assms(2)
    by (simp add: unsettling_def custody_ok_def)
  ultimately show ?thesis using assms(2) by (simp add: custody_ok_def V)
qed

text \<open>What an operation on positions alone has to show.\<close>

lemma custody_by_positions:
  assumes "ok s" and "unsettling s s'" and "ext s' = ext s" and "finite (dom (v_positions (V s')))"
    and "\<And>t. owed (V s') t \<le> owed (V s) t"
  shows "ok s'"
  using assms unfolding custody_ok_def unsettling_def by (metis order_trans)

lemma transfer_custody:
  assumes run: "transfer_position ev A m from to caller yes no price i s = (Ok u, s')" and ok: "ok s"
  shows "ok s'"
proof -
  from run obtain src l l' where src: "v_positions (V s) (m, from) = Some src"
    and V: "V s' = (V s)\<lparr>v_consumed := insert (from, i) (v_consumed (V s)),
       v_positions := (v_positions (V s))
         ((m, from) \<mapsto> src\<lparr>pos_yes_shares := pos_yes_shares src - yes,
            pos_no_shares := pos_no_shares src - no, pos_locked_collateral := l\<rparr>,
          (m, to) \<mapsto> (position_of s m to)
            \<lparr>pos_yes_shares := pos_yes_shares (position_of s m to) + yes,
             pos_no_shares := pos_no_shares (position_of s m to) + no,
             pos_locked_collateral := l'\<rparr>)\<rparr>"
    and x: "ext s' = ext s" by (rule transfer_ok) blast
  show ?thesis
  proof (rule custody_by_positions[OF ok transfer_unsettling[OF run] x])
    show "finite (dom (v_positions (V s')))" using ok by (simp add: V custody_ok_def)
    show "owed (V s') t \<le> owed (V s) t" for t
      by (rule owed_put2[OF _ _ V[THEN arg_cong, of v_positions, simplified]])
        (use ok src position_ok_range(5)[OF position_of_ok, of s m "from"] in
          \<open>auto simp: V custody_ok_def position_in_def\<close>)
  qed
qed

lemma merge_custody:
  assumes run: "merge_positions ev A m owner a b caller price i s = (Ok u, s')" and ok: "ok s"
  shows "ok s'"
proof -
  from run obtain p q l where pq: "v_positions (V s) (m, a) = Some p" "v_positions (V s) (m, b) = Some q"
    and V: "V s' = (V s)\<lparr>v_consumed := insert (owner, i) (v_consumed (V s)),
       v_positions := (v_positions (V s))
         ((m, a) \<mapsto> p\<lparr>pos_yes_shares := pos_yes_shares p + pos_yes_shares q,
            pos_no_shares := pos_no_shares p + pos_no_shares q,
            pos_total_deposited := pos_total_deposited p + pos_total_deposited q,
            pos_locked_collateral := l\<rparr>,
          (m, b) \<mapsto> q\<lparr>pos_yes_shares := 0, pos_no_shares := 0, pos_locked_collateral := 0,
            pos_total_deposited := 0\<rparr>)\<rparr>"
    and x: "ext s' = ext s" by (rule merge_ok) blast
  show ?thesis
  proof (rule custody_by_positions[OF ok merge_unsettling[OF run] x])
    show "finite (dom (v_positions (V s')))" using ok by (simp add: V custody_ok_def)
    show "owed (V s') t \<le> owed (V s) t" for t
      by (rule owed_put2[OF _ _ V[THEN arg_cong, of v_positions, simplified]])
        (use ok pq position_ok_range(5)[OF position_of_ok, of s m a] in
          \<open>auto simp: V custody_ok_def position_in_def\<close>)
  qed
qed

lemma update_custody:
  assumes run: "update_position_persist E A shown m a dy dn price s = (Ok p, s')" and ok: "ok s"
  shows "ok s'"
proof (cases "v_ready (V s)")
  case False
  with update_not_ready[OF run] ok show ?thesis by simp
next
  case True
  from run True obtain l where p: "p = (position_of s m a)\<lparr>pos_yes_shares := pos_yes_shares (position_of s m a) + dy,
       pos_no_shares := pos_no_shares (position_of s m a) + dn, pos_locked_collateral := l\<rparr>"
    and V: "V s' = (V s)\<lparr>v_positions := (v_positions (V s))((m, a) \<mapsto> p)\<rparr>"
    and x: "ext s' = ext s" by (rule update_ok) blast
  show ?thesis
  proof (rule custody_by_positions[OF ok update_unsettling[OF run] x])
    show "finite (dom (v_positions (V s')))" using ok by (simp add: V custody_ok_def)
    show "owed (V s') t \<le> owed (V s) t" for t
      using ok by (subst owed_put[of "V s" _ m a p]) (auto simp: V custody_ok_def p)
  qed
qed

lemma trading_keeps_custody:
  "trading_reach A T F ev self s s' \<Longrightarrow> ok s \<Longrightarrow> ok s'"
proof (induction rule: trading_reach.induct)
  case (there t u)
  note ok = there.IH[OF there.prems]
  from there.hyps(2) show ?case
  proof cases
    case deposit with ok show ?thesis by (metis deposit_custody)
  next
    case withdraw with ok show ?thesis by (metis withdraw_custody)
  next
    case transfer with ok show ?thesis by (metis transfer_custody)
  next
    case merge with ok show ?thesis by (metis merge_custody)
  next
    case update with ok show ?thesis by (metis update_custody)
  qed
qed

end

text \<open>The treasury's \<open>collect_fee\<close> moves no tokens.\<close>

lemma treasury_sink_moves_nothing:
  "treasury_sink addr E B ta caller tok m n q = Some (u, q') \<Longrightarrow> ext q' = ext q"
  by (auto simp: treasury_sink_Some dest: collect_fee_ok(5))

interpretation treasury_custody: market_custody direct_market "\<lambda>r. r" "beside_treasury ledger_client" ext
    "treasury_sink addr E direct_accessors" self
  for addr E self
proof (intro market_custody.intro market_custody_axioms.intro)
  show "market_storage direct_market (\<lambda>r. r)" by (rule both_laws(1))
  show "sep41 (beside_treasury ledger_client) ext" by (rule beside_treasury_sep41[OF ledger.sep41_axioms])
qed (simp add: treasury_sink_moves_nothing)

section \<open>Settling pays winnings only\<close>

text \<open>
  What leaves the contract when the users of a list are settled: their positions, unsettled before,
  carry the flag afterwards, no other position and no deposit on record changes, and the contract has
  paid out their winning shares in the market's collateral token and nothing else.
\<close>

definition pays_winnings :: "('x \<Rightarrow> address \<Rightarrow> address \<Rightarrow> int) \<Rightarrow> address \<Rightarrow> address \<Rightarrow> u32 \<Rightarrow> bool
    \<Rightarrow> address list \<Rightarrow> market_view \<Rightarrow> market_view \<Rightarrow> 'x \<Rightarrow> 'x \<Rightarrow> bool" where
  "pays_winnings balance self tok m outcome users v v' x x' \<longleftrightarrow> distinct users
     \<and> (\<forall>a \<in> set users. \<exists>p. v_positions v (m, a) = Some p \<and> \<not> pos_is_settled p
          \<and> v_positions v' (m, a) = Some (p\<lparr>pos_is_settled := True\<rparr>))
     \<and> (\<forall>k. k \<notin> {m} \<times> set users \<longrightarrow> v_positions v' k = v_positions v k)
     \<and> deposit_at v' = deposit_at v
     \<and> (\<forall>t. balance x' t self = balance x t self - (if t = tok
          then \<Sum>a\<leftarrow>users. if a = self then 0 else calculate_payout (position_in v m a) outcome else 0))"

lemma pays_nobody: "v_positions v' = v_positions v \<Longrightarrow> balance x' = balance x \<Longrightarrow>
    pays_winnings balance self tok m outcome [] v v' x x'"
  by (simp add: pays_winnings_def deposit_at_def position_in_def fun_eq_iff)

lemma pays_append:
  assumes "pays_winnings balance self tok m outcome us v v1 x x1"
    and "pays_winnings balance self tok m outcome us' v1 v2 x1 x2"
  shows "pays_winnings balance self tok m outcome (us @ us') v v2 x x2"
proof -
  have dis: "a \<notin> set us'" if "a \<in> set us" for a
    using assms that unfolding pays_winnings_def by fastforce
  have kept: "v_positions v1 (m, a) = v_positions v (m, a)" if "a \<in> set us'" for a
    using assms(1) dis that unfolding pays_winnings_def by blast
  have sum: "(\<Sum>a\<leftarrow>us'. if a = self then 0 else calculate_payout (position_in v1 m a) outcome)
      = (\<Sum>a\<leftarrow>us'. if a = self then 0 else calculate_payout (position_in v m a) outcome)"
    by (intro arg_cong[of _ _ sum_list] map_cong) (auto simp: position_in_def kept)
  have "balance x2 t self = balance x t self - (if t = tok
      then \<Sum>a\<leftarrow>us @ us'. if a = self then 0 else calculate_payout (position_in v m a) outcome else 0)" for t
  proof -
    have "balance x1 t self = balance x t self - (if t = tok
      then \<Sum>a\<leftarrow>us. if a = self then 0 else calculate_payout (position_in v m a) outcome else 0)"
      using assms(1) by (simp add: pays_winnings_def)
    moreover have "balance x2 t self = balance x1 t self - (if t = tok
      then \<Sum>a\<leftarrow>us'. if a = self then 0 else calculate_payout (position_in v m a) outcome else 0)"
      using assms(2) by (simp add: pays_winnings_def sum)
    ultimately show ?thesis by simp
  qed
  moreover have "distinct (us @ us')" using assms dis by (auto simp: pays_winnings_def)
  moreover have "\<exists>p. v_positions v (m, a) = Some p \<and> \<not> pos_is_settled p
      \<and> v_positions v2 (m, a) = Some (p\<lparr>pos_is_settled := True\<rparr>)" if a: "a \<in> set (us @ us')" for a
  proof (cases "a \<in> set us")
    case True
    with dis have "v_positions v2 (m, a) = v_positions v1 (m, a)" using assms(2) unfolding pays_winnings_def by blast
    with True assms(1) show ?thesis by (auto simp: pays_winnings_def)
  next
    case False
    with a have "a \<in> set us'" by simp
    with kept assms(2) show ?thesis by (auto simp: pays_winnings_def)
  qed
  moreover have "v_positions v2 k = v_positions v k" if k: "k \<notin> {m} \<times> set (us @ us')" for k
  proof -
    from k have "k \<notin> {m} \<times> set us" "k \<notin> {m} \<times> set us'" by auto
    with assms show ?thesis unfolding pays_winnings_def by metis
  qed
  moreover have "deposit_at v2 = deposit_at v" using assms by (simp add: pays_winnings_def)
  ultimately show ?thesis unfolding pays_winnings_def by (intro conjI ballI allI impI)
qed

text \<open>Any sequence of settlements of a market, one by one, in batches and by pages.\<close>

inductive settlement_run :: "'r market_accessors \<Rightarrow> 'x outcome_client \<Rightarrow> 'x token_client \<Rightarrow> address \<Rightarrow> u32
    \<Rightarrow> ('x, 'r) market_state \<Rightarrow> ('x, 'r) market_state \<Rightarrow> bool"
  for A C T self m s where
  none: "settlement_run A C T self m s s"
| single: "settlement_run A C T self m s t \<Longrightarrow> current_contract_address E = self \<Longrightarrow>
     settle_position E A C T a m t = (Ok n, u) \<Longrightarrow> settlement_run A C T self m s u"
| batch: "settlement_run A C T self m s t \<Longrightarrow> current_contract_address E = self \<Longrightarrow>
     batch_settle_positions E A C T m users t = (Ok n, u) \<Longrightarrow> settlement_run A C T self m s u"
| page: "settlement_run A C T self m s t \<Longrightarrow> current_contract_address E = self \<Longrightarrow>
     settle_positions_page E A C T m start limit t = (Ok out, u) \<Longrightarrow> settlement_run A C T self m s u"

text \<open>The market and its tokens, where burning outcome tokens moves no collateral.\<close>

locale settlement_world = market_tokens A view C bal + sep41 T balance
  for A :: "'r market_accessors" and view :: "'r \<Rightarrow> market_view" and C :: "'x outcome_client"
    and bal :: "'x \<Rightarrow> address \<times> u32 \<times> address \<times> token_kind \<Rightarrow> int"
    and T :: "'x token_client" and balance :: "'x \<Rightarrow> address \<Rightarrow> address \<Rightarrow> int" +
  assumes burn_moves_nothing: "oc_burn C tok m a k n x = Some (u, x') \<Longrightarrow> balance x' = balance x"
begin

lemma burned_moves_nothing: "burned C tok m a p x x' \<Longrightarrow> balance x' = balance x"
  unfolding burned_def burned_side_def by (metis burn_moves_nothing)

lemma settles_pays:
  assumes st: "settles E T mk m a n s s'" and "mkt_result mk = Some outcome" "current_contract_address E = self"
  shows "pays_winnings balance self (mkt_collateral_token mk) m outcome [a] (V s) (V s') (ext s) (ext s')"
proof -
  from st obtain p x where p: "v_positions (V s) (m, a) = Some p" "\<not> pos_is_settled p"
    and n: "n = payout_due mk p" "0 \<le> n"
    and V: "V s' = (V s)\<lparr>v_positions := (v_positions (V s))((m, a) \<mapsto> p\<lparr>pos_is_settled := True\<rparr>)\<rparr>"
    and x: "balance x = balance (ext s)"
    and pay: "if 0 < n then tok_transfer T (mkt_collateral_token mk) (current_contract_address E) a n x
          = Some ((), ext s') else ext s' = x"
    unfolding settles_def by (auto split: option.splits dest: burned_moves_nothing)
  have pos: "position_of s m a = p" by (simp add: position_in_def p)
  have "n = calculate_payout p outcome" using n(1) assms(2) by (simp add: payout_due_def calculate_payout_def)
  moreover have "balance (ext s') t self = balance (ext s) t self - (if t = mkt_collateral_token mk \<and> a \<noteq> self
      then n else 0)" for t
    using pay n(2) transfer_moves[of "mkt_collateral_token mk" self a n x "()" "ext s'" t self] assms(3)
    by (auto simp: x split: if_splits)
  moreover have "deposit_at (V s') = deposit_at (V s)"
    by (auto simp: fun_eq_iff deposit_at_def position_in_def V p(1))
  ultimately show ?thesis using p by (auto simp: pays_winnings_def V pos)
qed

lemma users_pay:
  assumes "settle_users E A C T mk m users acc s = (Ok acc', s')"
    and "mkt_result mk = Some outcome" "current_contract_address E = self"
  shows "\<exists>us. pays_winnings balance self (mkt_collateral_token mk) m outcome us (V s) (V s') (ext s) (ext s')"
proof (rule settle_users_rule[OF assms(1)])
  show "\<exists>us. pays_winnings balance self (mkt_collateral_token mk) m outcome us (V s) (V s) (ext s) (ext s)"
    by (rule exI[of _ "[]"]) (simp add: pays_nobody)
next
  fix a acc t acc' t'
  assume "\<exists>us. pays_winnings balance self (mkt_collateral_token mk) m outcome us (V s) (V t) (ext s) (ext t)"
  then obtain us where us: "pays_winnings balance self (mkt_collateral_token mk) m outcome us (V s) (V t) (ext s) (ext t)" ..
  assume "settle_one E A C T mk m a acc t = (Ok acc', t')"
  from settle_one_ok[OF this]
  show "\<exists>us. pays_winnings balance self (mkt_collateral_token mk) m outcome us (V s) (V t') (ext s) (ext t')"
  proof (elim disjE exE conjE)
    assume "same_effects t t'"
    with us show ?thesis by (auto simp: same_effects_def)
  next
    fix n assume "settles E T mk m a n t t'"
    from pays_append[OF us settles_pays[OF this assms(2,3)]] show ?thesis by blast
  qed
qed

lemma listed_pays:
  assumes "settle_listed E A C T mk m users s = (Ok n, s')"
    and "mkt_result mk = Some outcome" "current_contract_address E = self"
  shows "\<exists>us. pays_winnings balance self (mkt_collateral_token mk) m outcome us (V s) (V s') (ext s) (ext s')"
  by (rule settle_listed_ok[OF assms(1)]) (use users_pay[OF _ assms(2,3)] in \<open>fastforce split: if_splits\<close>)

lemma settlement_run_reach: "settlement_run A C T self m s t \<Longrightarrow> market_reach A C T F ev s t"
  by (induction rule: settlement_run.induct)
    (auto intro: market_reach.intros market_step.settle market_step.batch market_step.page)

lemma settlement_pays:
  assumes "settlement_run A C T self m s t" and mk: "v_markets (V s) m = Some mk"
    and win: "mkt_result mk = Some outcome"
  shows "\<exists>us. pays_winnings balance self (mkt_collateral_token mk) m outcome us (V s) (V t) (ext s) (ext t)"
  using assms(1)
proof (induction rule: settlement_run.induct)
  case none
  show ?case by (rule exI[of _ "[]"]) (simp add: pays_nobody)
next
  case (single t E a n u)
  have mkt: "v_markets (V t) m = Some mk" using market_reach_markets[OF settlement_run_reach[OF single.hyps(1)]] mk by simp
  from single.IH obtain us where
    us: "pays_winnings balance self (mkt_collateral_token mk) m outcome us (V s) (V t) (ext s) (ext t)" ..
  from single.hyps(3) obtain mk' where "v_markets (V t) m = Some mk'" "settles E T mk' m a n t u"
    by (rule settle_position_ok)
  then have "settles E T mk m a n t u" using mkt by simp
  from pays_append[OF us settles_pays[OF this win single.hyps(2)]] show ?case ..
next
  case (batch t E users n u)
  have mkt: "v_markets (V t) m = Some mk" using market_reach_markets[OF settlement_run_reach[OF batch.hyps(1)]] mk by simp
  from batch.IH obtain us where
    us: "pays_winnings balance self (mkt_collateral_token mk) m outcome us (V s) (V t) (ext s) (ext t)" ..
  from batch.hyps(3) obtain mk' where "v_markets (V t) m = Some mk'" "settle_listed E A C T mk' m users t = (Ok n, u)"
    by (rule batch_ok)
  then have "settle_listed E A C T mk m users t = (Ok n, u)" using mkt by simp
  from listed_pays[OF this win batch.hyps(2)] obtain us' where
    "pays_winnings balance self (mkt_collateral_token mk) m outcome us' (V t) (V u) (ext t) (ext u)" ..
  from pays_append[OF us this] show ?case ..
next
  case (page t E start limit out u)
  have mkt: "v_markets (V t) m = Some mk" using market_reach_markets[OF settlement_run_reach[OF page.hyps(1)]] mk by simp
  from page.IH obtain us where
    us: "pays_winnings balance self (mkt_collateral_token mk) m outcome us (V s) (V t) (ext s) (ext t)" ..
  obtain n "next" fin where out: "out = (n, next, fin)" by (cases out)
  from page.hyps(3)[unfolded out] obtain users where
    "u = t \<or> settle_listed E A C T mk m users t = (Ok n, u)"
    by (rule page_ok) (auto simp: mkt split: if_splits)
  then show ?case
  proof
    assume "u = t" with us show ?thesis by blast
  next
    assume "settle_listed E A C T mk m users t = (Ok n, u)"
    from listed_pays[OF this win page.hyps(2)] obtain us' where
      "pays_winnings balance self (mkt_collateral_token mk) m outcome us' (V t) (V u) (ext t) (ext u)" ..
    from pays_append[OF us this] show ?thesis ..
  qed
qed

end

interpretation both_settlement: settlement_world direct_market "\<lambda>r. r" both_outcomes snd both_tokens fst
  by (intro settlement_world.intro settlement_world_axioms.intro both_market.market_tokens_axioms both_laws(3))
    (auto simp: both_outcomes_def)

section \<open>Properties\<close>

text \<open>
  C3. Custody covers the deposits: from a market that holds what it owes, any sequence of deposits,
  withdrawals, transfers, merges and share updates, by any callers and at any times, leaves the
  contract's balance of every token at least the deposits recorded in all positions of the markets
  in that token. Fees, whether routed to a treasury or retained, are paid out of the withdrawer's
  own deposit.
\<close>

theorem custody_covers_deposits:
  assumes "market_custody A view T balance F self"
    and "trading_reach A T F ev self s s'"
    and "custody_ok balance self (view (store s)) (ext s)"
  shows "owed (view (store s')) t \<le> balance (ext s') t self"
  using market_custody.trading_keeps_custody[OF assms(1,2,3)] by (simp add: custody_ok_def)

lemma demo_fee_custody: "custody_ok ext (Contract 10) (store demo_fee_state) (ext demo_fee_state)"
proof -
  have dom: "dom (v_positions (store demo_fee_state)) = {(5, demo_trader), (5, demo_other)}"
    by (auto simp: demo_fee_state_def demo_market_view_def split: if_splits)
  have "positions_ok (store demo_fee_state)"
    using demo_positions_ok[of MarketActive]
    by (simp add: positions_ok_def demo_fee_state_def demo_market_state_def)
  moreover have "owed (store demo_fee_state) t = (if t = demo_token then 200 else 0)" for t
  proof (cases "t = demo_token")
    case True
    have "{k \<in> {(5, demo_trader), (5, demo_other)}. collateral_of (store demo_fee_state) (fst k) = Some t}
        = {(5, demo_trader), (5, demo_other)}"
      using True by (auto simp: collateral_of_def demo_fee_state_def demo_market_view_def demo_market_record_def)
    with True show ?thesis
      unfolding owed_def dom
      by (simp add: deposit_at_def position_in_def demo_fee_state_def demo_market_view_def demo_position_def
          market_demo_addresses)
  next
    case False
    then have "{k \<in> {(5, demo_trader), (5, demo_other)}. collateral_of (store demo_fee_state) (fst k) = Some t} = {}"
      by (auto simp: collateral_of_def demo_fee_state_def demo_market_view_def demo_market_record_def)
    with False show ?thesis unfolding owed_def dom by (simp only: sum.empty if_False)
  qed
  ultimately show ?thesis
    unfolding custody_ok_def dom
    by (simp add: demo_fee_state_def demo_treasury_def fresh_treasury_def demo_ledger_def)
qed

lemma custody_covers_deposits_witness:
  "\<exists>s'. withdraw_unused_collateral demo_market_env direct_market (beside_treasury ledger_client)
     (treasury_sink (Contract 40) demo_market_env direct_accessors) demo_trader 5 40 demo_fee_state = (Ok (), s')
     \<and> owed (store s') demo_token \<le> ext (ext s') demo_token (Contract 10)"
proof -
  from demo_fee_withdrawal obtain s' where w: "withdraw_unused_collateral demo_market_env direct_market
      (beside_treasury ledger_client) (treasury_sink (Contract 40) demo_market_env direct_accessors)
      demo_trader 5 40 demo_fee_state = (Ok (), s')" by blast
  have "current_contract_address demo_market_env = Contract 10" by (simp add: demo_market_env_def)
  from trading_reach.there[OF trading_reach.here trading_step.withdraw[OF w this]]
  have "trading_reach direct_market (beside_treasury ledger_client)
      (treasury_sink (Contract 40) demo_market_env direct_accessors) (\<lambda>m a. CollateralDeposited 1 a m 0 0)
      (Contract 10) demo_fee_state s'" .
  from custody_covers_deposits[OF treasury_custody.market_custody_axioms this demo_fee_custody] w
  show ?thesis by blast
qed

text \<open>
  C15. After a market is resolved with a winner, nothing pays its deposits back. In every later state
  each withdrawal from it fails, settling a position returns its winning shares, and any sequence of
  settlements, one by one, in batches and by pages, settles a list of different users whose winning
  shares are exactly what leaves the contract: no deposit on record changes, no other token moves,
  and everything else of the market's collateral, used or not, locked or not, stays. The outcome
  tokens are assumed to move no collateral when they are burned.
\<close>

theorem unspent_deposits_are_stranded:
  assumes "settlement_world A view C bal T balance"
    and "market_reach A C T F ev s s'"
    and "v_markets (view (store s)) m = Some mk" and "mkt_status mk = market_status.MarketResolved"
    and "mkt_result mk = Some outcome"
  shows "withdraw_unused_collateral E A T F a m n s' \<noteq> (Ok (), s'')
    \<and> (settle_position E A C T a m s' = (Ok k, s'')
        \<longrightarrow> k = calculate_payout (position_in (view (store s')) m a) outcome)
    \<and> (settlement_run A C T self m s' t \<longrightarrow> (\<exists>users. pays_winnings balance self (mkt_collateral_token mk) m
        outcome users (view (store s')) (view (store t)) (ext s') (ext t)))"
proof -
  note M = settlement_world.axioms(1)[OF assms(1)]
  have mk: "v_markets (view (store s')) m = Some mk"
    using market_tokens.market_reach_markets[OF M assms(2)] assms(3) by simp
  have "withdraw_unused_collateral E A T F a m n s' \<noteq> (Ok (), s'')"
  proof
    assume "withdraw_unused_collateral E A T F a m n s' = (Ok (), s'')"
    then obtain mk' where "v_markets (view (store s')) m = Some mk'" "mkt_status mk' = MarketActive"
      by (rule market_storage.withdraw_ok[OF market_tokens.axioms(1)[OF M]])
    with mk assms(4) show False by simp
  qed
  moreover have "k = calculate_payout (position_in (view (store s')) m a) outcome"
    if "settle_position E A C T a m s' = (Ok k, s'')"
  proof -
    obtain mk' where "v_markets (view (store s')) m = Some mk'"
      and "market_tokens.settles view C bal E T mk' m a k s' s''"
      by (rule market_tokens.settle_position_ok[OF M \<open>settle_position E A C T a m s' = (Ok k, s'')\<close>])
    with mk assms(5) show ?thesis
      by (auto simp: market_tokens.settles_def[OF M] payout_due_def position_in_def calculate_payout_def)
  qed
  ultimately show ?thesis using settlement_world.settlement_pays[OF assms(1) _ mk assms(5)] by blast
qed

text \<open>The demo trader has deposited 100 and locked 15; after the resolution 40 shares are all there is.\<close>

lemma unspent_deposits_are_stranded_witness:
  "withdraw_unused_collateral demo_market_env direct_market both_tokens (\<lambda>_ _ _ _ _ _. None) demo_trader 5 80
     (demo_market_state market_status.MarketResolved) \<noteq> (Ok (), demo_market_state market_status.MarketResolved)
   \<and> (\<exists>s' users. settle_position demo_market_env direct_market both_outcomes both_tokens demo_trader 5
     (demo_market_state market_status.MarketResolved) = (Ok 40, s') \<and> (40::int) = calculate_payout (demo_position demo_trader) True
     \<and> pays_winnings fst (Contract 10) demo_token 5 True users (store (demo_market_state market_status.MarketResolved))
         (store s') (ext (demo_market_state market_status.MarketResolved)) (ext s'))"
proof -
  let ?s = "demo_market_state market_status.MarketResolved"
  obtain s' where r: "settle_position demo_market_env direct_market both_outcomes both_tokens demo_trader 5 ?s = (Ok 40, s')"
    using demo_settles by blast
  have self: "current_contract_address demo_market_env = Contract 10" by (simp add: demo_market_env_def)
  have "v_markets (store ?s) 5 = Some demo_resolved" "mkt_status demo_resolved = market_status.MarketResolved"
    "mkt_result demo_resolved = Some True" "position_in (store ?s) 5 demo_trader = demo_position demo_trader"
    "mkt_collateral_token demo_resolved = demo_token"
    by (simp_all add: market_demo_defs position_in_def)
  with unspent_deposits_are_stranded[OF both_settlement.settlement_world_axioms market_reach.here, of ?s 5 demo_resolved True
      demo_market_env "\<lambda>_ _ _ _ _ _. None" demo_trader 80] r settlement_run.single[OF settlement_run.none self r]
  show ?thesis by metis
qed

section \<open>Shares without deposits\<close>

text \<open>
  The payout of one market may come from the deposits of another one in the same token: nothing
  relates shares to deposits, so a position without any deposit is settled from the common balance,
  and what is left no longer covers the deposits of the market that still trades.
\<close>

definition mixed_state :: "(both_ledgers, market_view) market_state" where
  "mixed_state = \<lparr>ext = ((\<lambda>_ _. 0)(demo_token := (\<lambda>_. 0)(Contract 10 := 100)), demo_outcome_balances), events = [],
     store = (demo_market_view market_status.MarketResolved)
       \<lparr>v_markets := [5 \<mapsto> demo_resolved, 6 \<mapsto> (demo_market_record MarketActive)\<lparr>mkt_id := 6\<rparr>],
        v_positions := [(5, demo_trader) \<mapsto> (demo_position demo_trader)\<lparr>pos_total_deposited := 0\<rparr>,
          (6, demo_other) \<mapsto> (new_empty 6 demo_other)\<lparr>pos_total_deposited := 100\<rparr>]\<rparr>\<rparr>"

lemma owed_after_mixed:
  assumes "v_markets v = v_markets (store mixed_state)"
    and "v_positions v = [(5, demo_trader) \<mapsto> p, (6, demo_other) \<mapsto> (new_empty 6 demo_other)\<lparr>pos_total_deposited := 100\<rparr>]"
    and "pos_total_deposited p = 0"
  shows "owed v t = (if t = demo_token then 100 else 0)"
proof -
  have dom: "dom (v_positions v) = {(5, demo_trader), (6, demo_other)}" by (auto simp: assms(2))
  have col: "collateral_of v 5 = Some demo_token" "collateral_of v 6 = Some demo_token"
    by (simp_all add: collateral_of_def assms(1) mixed_state_def demo_market_record_def)
  have "{k \<in> {(5, demo_trader), (6, demo_other)}. collateral_of v (fst k) = Some t}
      = (if t = demo_token then {(5, demo_trader), (6, demo_other)} else {})"
    using col by auto
  then show ?thesis unfolding owed_def dom
    by (simp add: deposit_at_def position_in_def assms(2,3))
qed

lemma a_payout_spends_other_deposits:
  "custody_ok fst (Contract 10) (store mixed_state) (ext mixed_state) \<and>
   (\<exists>s'. settle_position demo_market_env direct_market both_outcomes both_tokens demo_trader 5 mixed_state = (Ok 40, s')
     \<and> fst (ext s') demo_token (Contract 10) = 60 \<and> owed (store s') demo_token = 100)"
proof
  show "custody_ok fst (Contract 10) (store mixed_state) (ext mixed_state)"
    unfolding custody_ok_def
  proof (intro conjI allI)
    show "owed (store mixed_state) t \<le> fst (ext mixed_state) t (Contract 10)" for t
      by (subst owed_after_mixed[where p = "(demo_position demo_trader)\<lparr>pos_total_deposited := 0\<rparr>"])
        (simp_all add: mixed_state_def)
  qed (auto simp: mixed_state_def positions_ok_def position_ok_def position_in_range_def demo_position_def new_empty_def
      in_i128_def i128_numerals split: if_splits)
next
  obtain s' where r: "settle_position demo_market_env direct_market both_outcomes both_tokens demo_trader 5 mixed_state
        = (Ok 40, s')" "fst (ext s') demo_token (Contract 10) = 60" "v_markets (store s') = v_markets (store mixed_state)"
      "v_positions (store s') = (v_positions (store mixed_state))((5, demo_trader) \<mapsto>
        (demo_position demo_trader)\<lparr>pos_total_deposited := 0, pos_is_settled := True\<rparr>)"
    by (simp add: settle_position_def execute_settlement_def compute_settlement_def
      assert_position_token_parity_def get_position_token_parity_def load_token_balances_def
      burn_settled_outcome_tokens_def pay_settled_def validate_settlement_eligibility_def
      validate_payout_def calculate_payout_def check_def try_then_def mixed_state_def
      both_tokens_def both_outcomes_def outcome_book_def ledger_transfer_def
      direct_market_def market_emits ok_iff require_mode_ok market_demo_defs Let_def)
  have "owed (store s') demo_token = 100"
    by (subst owed_after_mixed[OF r(3), where p = "(demo_position demo_trader)\<lparr>pos_total_deposited := 0, pos_is_settled := True\<rparr>"])
      (simp_all add: r(4) mixed_state_def fun_upd_twist)
  with r(1,2) show "\<exists>s'. settle_position demo_market_env direct_market both_outcomes both_tokens demo_trader 5 mixed_state
        = (Ok 40, s') \<and> fst (ext s') demo_token (Contract 10) = 60 \<and> owed (store s') demo_token = 100" by blast
qed

end
