(* ===== verification/Market_Decisions.thy ===== *)
theory Market_Decisions
  imports Market_Funds
begin

text \<open>
  Deposits and withdrawals decided: the guards of \<^verbatim>\<open>contracts/market/src/withdraw.rs\<close> in the
  order of the code, the error each gives, and the run that follows when none fires and the token
  contracts pay; and the run of an accepted deposit. For the success of a withdrawal the protocol-wide balance has to cover the debit; the law of that accessor
  (\<^verbatim>\<open>withdraw.rs\<close>, step 7) is the extension \<open>market_ledger\<close> of the storage interface.
\<close>

section \<open>Evaluating guards\<close>

text \<open>The generic steps of an entrypoint as equations on \<open>if\<close> and \<open>case\<close>.\<close>

lemma guard_run:
  "andthen (require_auth E a) k s = (if authorized E a then k s else (Panic, s))"
  "andthen (ensure b e) k s = (if b then k s else (Err e, s))"
  "bind (ok_or x e) f s = (case x of None \<Rightarrow> (Err e, s) | Some v \<Rightarrow> f v s)"
  "andthen (when_do b (emit ev)) h t = h (if b then t\<lparr>events := events t @ [ev]\<rparr> else t)"
  "andthen (when_do b (andthen (emit ev) (throw e))) h t =
     (if b then (Err e, t\<lparr>events := events t @ [ev]\<rparr>) else h t)"
  "andthen (emit ev) h t = h (t\<lparr>events := events t @ [ev]\<rparr>)"
  "when_do b (emit ev) t = (Ok (), if b then t\<lparr>events := events t @ [ev]\<rparr> else t)"
  by (auto simp: run_simps split: option.splits)

lemma store_run_steps:
  "bind (read_store f) k s = k (f (store s)) s"
  "andthen (write_store g) h s = h (s\<lparr>store := g (store s)\<rparr>)"
  "i (store s) = Inr r \<Longrightarrow> andthen (try_write i) h s = h (s\<lparr>store := r\<rparr>)"
  "j (store s) = Some r \<Longrightarrow> andthen (trap_write j) h s = h (s\<lparr>store := r\<rparr>)"
  "tok_transfer T tok from to n (ext s) = Some ((), y) \<Longrightarrow>
     andthen (token_transfer T tok from to n) h s = h (s\<lparr>ext := y\<rparr>)"
  by (simp_all add: run_simps token_transfer_def)

section \<open>The guards\<close>

definition in_cooldown :: "env \<Rightarrow> market_view \<Rightarrow> u32 \<Rightarrow> address \<Rightarrow> bool" where
  "in_cooldown E v m a = (case v_last_deposit v (m, a) of
       None \<Rightarrow> False
     | Some t \<Rightarrow> ledger_timestamp E - t < withdraw_cooldown_seconds)"

definition withdrawal_refusal :: "env \<Rightarrow> market_view \<Rightarrow> address \<Rightarrow> u32 \<Rightarrow> i128 \<Rightarrow> market_error option"
  where "withdrawal_refusal E v a m n =
     (let p = position_in v m a; rate = v_fee_rate v; fee = fee_due v a n
      in if v_mode v = GlobalFreeze then Some EmergencyModeActive
      else if n \<le> 0 \<or> max_reasonable_amount < n then Some InvalidQuantity
      else if \<not> v_ready v then Some market_error.UpgradeRequired
      else case v_markets v m of
          None \<Rightarrow> Some MarketNotFound
        | Some mk \<Rightarrow>
            if mkt_status mk \<noteq> MarketActive then Some MarketNotActive
            else if in_cooldown E v m a then Some WithdrawCooldownActive
            else if pos_total_deposited p = 0 then Some InsufficientCollateral
            else if rate < 0 \<or> 10000 < rate then Some InvalidPrice
            else if a \<notin> set (v_fee_waivers v) \<and> i128_max < n * rate then Some ArithmeticOverflow
            else if i128_max < n + fee then Some ArithmeticOverflow
            else if saturating_sub (pos_total_deposited p) (pos_locked_collateral p) < n + fee
            then Some InsufficientCollateral
            else None)"

locale market_ledger = market_storage A view
  for A :: "'r market_accessors" and view :: "'r \<Rightarrow> market_view" +
  assumes debit_pays: "0 \<le> n \<Longrightarrow> n \<le> v_balance (view r) a \<Longrightarrow>
    \<exists>r'. ms_debit_collateral_balance A a n r = Some r'
      \<and> view r' = (view r)\<lparr>v_balance := (v_balance (view r))(a := v_balance (view r) a - n)\<rparr>"

interpretation ledger_direct: market_ledger direct_market "\<lambda>r. r"
  by unfold_locales (simp add: direct_market_def)

lemma fee_due_bounds:
  assumes "0 < n" and "v_fee_rate v \<le> 10000"
  shows "0 \<le> fee_due v a n" and "fee_due v a n \<le> n"
  using fee_value[OF assms(1), of "v_fee_rate v"] assms by (auto simp: fee_due_def)

context market_storage
begin

lemma storage_guards:
  "andthen (require_mode A [Normal, TradingHalted, SettleOnly]) k s =
     (if v_mode (V s) = GlobalFreeze then (Err EmergencyModeActive, s) else k s)"
  "andthen (try_result (validate_collateral_amount n)) k s =
     (if n \<le> 0 \<or> max_reasonable_amount < n then (Err InvalidQuantity, s) else k s)"
  "bind (try_read (ms_get_market A m)) f s =
     (if v_ready (V s) then f (v_markets (V s) m) s else (Err market_error.UpgradeRequired, s))"
  "bind (try_read (ms_get_position A m a)) g s =
     (if v_ready (V s) then g (v_positions (V s) (m, a)) s else (Err market_error.UpgradeRequired, s))"
  "andthen (cooldown_check E A m a) k s =
     (if in_cooldown E (V s) m a then (Err WithdrawCooldownActive, s) else k s)"
  by (cases "v_mode (V s)")
    (auto simp: require_mode_def run_simps reads checked cooldown_check_def in_cooldown_def
      validate_collateral_amount_def validate_amount_positive_def validate_amount_reasonable_def
      check_def try_then_def split: option.splits)

text \<open>The fee of a withdrawal, on every branch.\<close>

lemma withdraw_fee_run:
  assumes "0 < n"
  shows "bind (withdraw_fee A a n) k s =
    (if v_fee_rate (V s) < 0 \<or> 10000 < v_fee_rate (V s) then (Err InvalidPrice, s)
     else if a \<notin> set (v_fee_waivers (V s)) \<and> i128_max < n * v_fee_rate (V s)
       then (Err ArithmeticOverflow, s)
     else k (fee_due (V s) a n) s)"
proof (cases "0 \<le> v_fee_rate (V s) \<and> v_fee_rate (V s) \<le> 10000")
  case True
  have "\<not> i128_max < 0" by (simp add: i128_numerals)
  with True fee_value[OF assms, of "v_fee_rate (V s)"] show ?thesis
    by (auto simp: withdraw_fee_def run_simps reads validate_fee_rate_bps_def
        validate_market_price_def check_def fee_due_def split: if_splits)
next
  case False
  then show ?thesis
    by (auto simp: withdraw_fee_def run_simps reads validate_fee_rate_bps_def
        validate_market_price_def check_def)
qed

text \<open>A withdrawal that some guard refuses gives the error of the first one and changes nothing.\<close>

lemma withdrawal_refused:
  assumes "authorized E a" and "withdrawal_refusal E (V s) a m n = Some e"
  shows "\<exists>s'. withdraw_unused_collateral E A T F a m n s = (Err e, s') \<and> store s' = store s
    \<and> ext s' = ext s"
proof -
  let ?p = "position_of s m a" and ?fee = "fee_due (V s) a n"
  have fits: "checked_add n ?fee = (if i128_max < n + ?fee then None else Some (n + ?fee))"
    if "0 < n" "v_fee_rate (V s) \<le> 10000"
    using fee_due_bounds[OF that, of a] that(1) by (auto simp: checked_add_def in_i128_def i128_numerals)
  show ?thesis
  proof (cases "0 < n")
    case True
    with assms fits[OF True] show ?thesis
      unfolding withdraw_unused_collateral_def withdrawal_refusal_def
      by (auto simp: guard_run storage_guards withdraw_fee_run[OF True] mkt_emit_withdraw_edge_case_def
          mkt_emit_fee_calculated_def Let_def position_in_def[symmetric] split: if_splits option.splits)
  next
    case False
    with assms show ?thesis
      by (auto simp: withdraw_unused_collateral_def withdrawal_refusal_def guard_run storage_guards
          Let_def split: if_splits option.splits)
  qed
qed

text \<open>Routing a fee succeeds when the treasury takes it.\<close>

lemma route_fee_go:
  assumes "fee_routed E T F mk m fee (v_treasury (V s)) (ext s) x"
  shows "\<exists>t. route_fee E A T F mk user m fee s = (Ok (), t) \<and> ext t = x \<and> store t = store s"
  using assms
  by (cases "fee > 0") (auto simp: fee_routed_def route_fee_def ok_iff reads
      mkt_emit_fee_retained_no_treasury_def split: option.splits)

end

text \<open>What a withdrawal of \<open>n\<close> with fee \<open>k\<close> leaves of the storage.\<close>

definition withdrawn_view :: "market_view \<Rightarrow> u32 \<Rightarrow> address \<Rightarrow> i128 \<Rightarrow> market_view" where
  "withdrawn_view v m a n = v\<lparr>v_balance := (v_balance v)(a := v_balance v a - n),
     v_positions := (v_positions v)((m, a) \<mapsto> (position_in v m a)
       \<lparr>pos_total_deposited := pos_total_deposited (position_in v m a) - n\<rparr>)\<rparr>"

context market_ledger
begin

lemma withdraw_payout_go:
  fixes s :: "('x, 'r) market_state"
  assumes "v_ready (V s)" and "p = position_of s m a" and "0 \<le> n" "0 \<le> fee"
    and "in_i128 (n + fee)" "in_i128 (pos_total_deposited p - (n + fee))"
    and "n + fee \<le> v_balance (V s) a"
    and "fee_routed E T F mk m fee (v_treasury (V s)) (ext s) x"
    and "tok_transfer T (mkt_collateral_token mk) (current_contract_address E) a n x = Some ((), y)"
  shows "\<exists>s'. withdraw_payout E A T F mk a m n p fee s = (Ok (), s') \<and> ext s' = y
    \<and> V s' = withdrawn_view (V s) m a (n + fee)"
proof -
  let ?p = "p\<lparr>pos_total_deposited := pos_total_deposited p - (n + fee)\<rparr>"
  obtain r where r: "ms_set_position A m a ?p (store s) = Inr r" using checked(4)[OF assms(1)] by blast
  have vr: "view r = (V s)\<lparr>v_positions := (v_positions (V s))((m, a) \<mapsto> ?p)\<rparr>" by (rule set_position_Inr[OF r])
  obtain r' where r': "ms_debit_collateral_balance A a (n + fee) r = Some r'"
    "view r' = (view r)\<lparr>v_balance := (v_balance (view r))(a := v_balance (view r) a - (n + fee))\<rparr>"
    using debit_pays[of "n + fee" r a] assms(3,4,7) by (auto simp: vr)
  let ?s = "s\<lparr>store := r\<rparr>\<lparr>store := r'\<rparr>"
  have "fee_routed E T F mk m fee (v_treasury (V ?s)) (ext ?s) x" using assms(8) by (simp add: r' vr)
  from route_fee_go[OF this] obtain t where t: "route_fee E A T F mk a m fee ?s = (Ok (), t)"
    "ext t = x" "store t = r'" by auto
  have "andthen (route_fee E A T F mk a m fee) k ?s = k t" for k :: "('x, 'r, unit) mcontract"
    using t(1) by (simp add: andthen_def bind_def)
  moreover have "V (t\<lparr>ext := y\<rparr>) = withdrawn_view (V s) m a (n + fee)"
    by (simp add: t(3) r'(2) vr withdrawn_view_def assms(2))
  ultimately show ?thesis
    using assms(5,6,9) t(2) r r'(1)
    by (simp add: withdraw_payout_def Let_def guard_run store_run_steps checked_add_def checked_sub_def
        mkt_emit_collateral_withdrawn_def mkt_emit_large_withdraw_def)
qed

text \<open>The deposit covers the withdrawal and its fee, on a position within range.\<close>

lemma refusal_None_covers:
  assumes "withdrawal_refusal E v a m n = None" and "0 \<le> pos_locked_collateral (position_in v m a)"
    and "in_i128 (pos_total_deposited (position_in v m a))"
  shows "0 < n" "n \<le> max_reasonable_amount" "v_mode v \<noteq> GlobalFreeze" "v_ready v"
    "\<exists>mk. v_markets v m = Some mk \<and> mkt_status mk = MarketActive" "\<not> in_cooldown E v m a"
    "0 \<le> fee_due v a n" "in_i128 (n + fee_due v a n)"
    "n + fee_due v a n \<le> pos_total_deposited (position_in v m a) - pos_locked_collateral (position_in v m a)"
    "in_i128 (pos_total_deposited (position_in v m a) - (n + fee_due v a n))"
proof -
  show n: "0 < n" "n \<le> max_reasonable_amount" "v_mode v \<noteq> GlobalFreeze" "v_ready v"
    "\<exists>mk. v_markets v m = Some mk \<and> mkt_status mk = MarketActive" "\<not> in_cooldown E v m a"
    using assms(1) by (auto simp: withdrawal_refusal_def Let_def split: if_splits option.splits)
  from assms(1) have r: "v_fee_rate v \<le> 10000" "n + fee_due v a n \<le> i128_max"
    "n + fee_due v a n \<le> saturating_sub (pos_total_deposited (position_in v m a))
       (pos_locked_collateral (position_in v m a))"
    by (auto simp: withdrawal_refusal_def Let_def split: if_splits option.splits)
  show f: "0 \<le> fee_due v a n" by (rule fee_due_bounds[OF n(1) r(1)])
  show c: "n + fee_due v a n \<le> pos_total_deposited (position_in v m a) - pos_locked_collateral (position_in v m a)"
    using available_covers[OF r(3)] n(1) f by simp
  show "in_i128 (n + fee_due v a n)" using n(1) f r(2) by (simp add: in_i128_def i128_numerals)
  show "in_i128 (pos_total_deposited (position_in v m a) - (n + fee_due v a n))"
    using c n(1) f assms(2,3) by (simp add: in_i128_def i128_numerals)
qed

lemma withdraw_go:
  assumes "authorized E a" and ref: "withdrawal_refusal E (V s) a m n = None"
    and "0 \<le> pos_locked_collateral (position_of s m a)" "in_i128 (pos_total_deposited (position_of s m a))"
    and "v_markets (V s) m = Some mk"
    and bal: "n + fee_due (V s) a n \<le> v_balance (V s) a"
    and fee: "fee_routed E T F mk m (fee_due (V s) a n) (v_treasury (V s)) (ext s) x"
    and pay: "tok_transfer T (mkt_collateral_token mk) (current_contract_address E) a n x = Some ((), y)"
  shows "\<exists>s'. withdraw_unused_collateral E A T F a m n s = (Ok (), s') \<and> ext s' = y
    \<and> V s' = withdrawn_view (V s) m a (n + fee_due (V s) a n)"
proof -
  let ?p = "position_of s m a" and ?fee = "fee_due (V s) a n"
  let ?av = "saturating_sub (pos_total_deposited ?p) (pos_locked_collateral ?p)"
  note c = refusal_None_covers[OF ref assms(3,4)]
  let ?s = "if ?fee > 0 then s\<lparr>events := events s @ [FeeCalculated event_version m a ?fee ?av]\<rparr> else s"
  have s: "V ?s = V s" "ext ?s = ext s" by simp_all
  from withdraw_payout_go[of ?s ?p m a n ?fee E T F mk x y] c bal fee pay obtain s' where
    p: "withdraw_payout E A T F mk a m n ?p ?fee ?s = (Ok (), s')" "ext s' = y"
      "V s' = withdrawn_view (V s) m a (n + ?fee)"
    unfolding s by auto
  have "withdraw_unused_collateral E A T F a m n s = withdraw_payout E A T F mk a m n ?p ?fee ?s"
    using assms(1,5) ref c(1,2,3,8)
    unfolding withdraw_unused_collateral_def withdrawal_refusal_def
    by (auto simp: guard_run storage_guards withdraw_fee_run[OF c(1)] mkt_emit_withdraw_edge_case_def
        mkt_emit_fee_calculated_def Let_def position_in_def[symmetric] checked_add_def
        split: if_splits)
  with p show ?thesis by simp
qed

end

section \<open>Deposits\<close>

definition deposited_view :: "env \<Rightarrow> market_view \<Rightarrow> u32 \<Rightarrow> address \<Rightarrow> i128 \<Rightarrow> market_view" where
  "deposited_view E v m a n = v\<lparr>v_deposit_locked := False,
     v_balance := (v_balance v)(a := v_balance v a + n),
     v_positions := (v_positions v)((m, a) \<mapsto> (position_in v m a)
       \<lparr>pos_total_deposited := pos_total_deposited (position_in v m a) + n\<rparr>),
     v_participants := (v_participants v)(m := enrol a (v_participants v m)),
     v_last_deposit := (v_last_deposit v)((m, a) \<mapsto> ledger_timestamp E)\<rparr>"

context market_storage
begin

lemma deposit_go:
  fixes s :: "('x, 'r) market_state"
  assumes auth: "authorized E a" and ref: "deposit_refusal E (V s) m n = None"
    and mk: "v_markets (V s) m = Some mk"
    and fits: "in_i128 (v_balance (V s) a + n)" "in_i128 (pos_total_deposited (position_of s m a) + n)"
    and pay: "tok_transfer T (mkt_collateral_token mk) a (current_contract_address E) n (ext s) = Some ((), y)"
  shows "\<exists>s'. deposit_collateral E A T a m n s = (Ok (), s') \<and> ext s' = y
    \<and> V s' = deposited_view E (V s) m a n"
proof -
  let ?p = "position_of s m a"
  let ?p' = "?p\<lparr>pos_total_deposited := pos_total_deposited ?p + n\<rparr>"
  let ?r = "ms_set_collateral_balance A a (v_balance (V s) a + n) (ms_set_deposit_locked A True (store s))"
  from ref mk have g: "v_mode (V s) = Normal" "\<not> v_deposit_locked (V s)" "0 < n" "n \<le> max_reasonable_amount"
    "v_ready (V s)" "mkt_status mk = MarketActive" "\<not> mkt_closed_to_deposits mk"
    "ledger_timestamp E < mkt_end_time mk"
    by (auto simp: deposit_refusal_def split: if_splits)
  obtain r where r: "ms_set_position A m a ?p' ?r = Inr r"
    using checked(4)[of ?r m a ?p'] g(5) by (auto simp: writes)
  have pos: "position_of (s\<lparr>store := ?r\<rparr>) m a = ?p" by (simp add: position_in_def writes)
  have body: "\<exists>t. deposit_body E A T a m n (s\<lparr>store := ms_set_deposit_locked A True (store s)\<rparr>) = (Ok (), t)
      \<and> ext t = y"
    using g mk fits pay pos r
    by (simp add: deposit_body_def guard_run storage_guards store_run_steps Let_def writes reads
        position_in_def[symmetric] checked_add_def mkt_emit_collateral_deposited_def)
      (simp add: emit_def modify_def)
  then obtain t where t: "deposit_body E A T a m n (s\<lparr>store := ms_set_deposit_locked A True (store s)\<rparr>)
      = (Ok (), t)" "ext t = y" by blast
  have run: "deposit_collateral E A T a m n s = (Ok (), deposit_guard_drop A t)"
    using auth g t by (simp add: deposit_collateral_def deposit_guard_acquire_def require_mode_def
        run_simps reads)
  from run obtain "V (deposit_guard_drop A t) = (V s)\<lparr>v_deposit_locked := False,
       v_balance := (v_balance (V s))(a := v_balance (V s) a + n),
       v_positions := (v_positions (V s))((m, a) \<mapsto> ?p'),
       v_participants := (v_participants (V s))(m := enrol a (v_participants (V s) m)),
       v_last_deposit := (v_last_deposit (V s))((m, a) \<mapsto> ledger_timestamp E)\<rparr>"
    by (rule deposit_ok) simp
  with run t(2) show ?thesis by (simp add: deposited_view_def deposit_guard_drop_def)
qed

end

end
