(* ===== verification/Market_Fuzz.thy ===== *)
theory Market_Fuzz
  imports Market_Decisions "HOL-Library.While_Combinator"
begin

text \<open>
  The independent model of \<^verbatim>\<open>contracts/market/src/withdraw_fuzz.rs\<close>: the fee properties, and the
  harness that replays random deposits, withdrawals and trades through the contract and compares
  it with \<open>Model\<close> after every operation. A test is a computation of the contract monad over the
  ledger time, the chain and the model; a failing \<open>prop_assert\<close> is an error, an unwrapped failure
  a trap. The trading entrypoint the harness calls is not in the repository and is the argument
  \<open>trade\<close>; so are the balances and the treasury's total the assertions read. The harness computes
  fees, costs and the largest withdrawal in \<open>i128\<close>, and an overflow there panics; only the totals of
  \<open>Model\<close>, which always sum up to the user's funds of \<open>10 ^ 12\<close>, are added without a check.
\<close>

section \<open>The fee properties\<close>

definition prop_fee_rounding_never_overflows_or_exceeds_amount :: "i128 \<Rightarrow> i128 \<Rightarrow> bool" where
  "prop_fee_rounding_never_overflows_or_exceeds_amount amount fee_rate_bps =
     (case calculate_fee amount fee_rate_bps of Inl _ \<Rightarrow> False | Inr fee_amount \<Rightarrow>
       fee_amount \<ge> 0 \<and> fee_amount \<le> amount
       \<and> (case checked_mul amount fee_rate_bps of None \<Rightarrow> False | Some product \<Rightarrow>
            (let dust = product - fee_amount * 10000 in 0 \<le> dust \<and> dust < 10000))
       \<and> checked_add amount fee_amount \<noteq> None)"

definition prop_fee_rounding_near_zero_amount :: "i128 \<Rightarrow> i128 \<Rightarrow> bool" where
  "prop_fee_rounding_near_zero_amount amount fee_rate_bps =
     (case calculate_fee amount fee_rate_bps of Inl _ \<Rightarrow> False | Inr fee_amount \<Rightarrow>
       fee_amount \<ge> 0 \<and> fee_amount \<le> amount
       \<and> (fee_rate_bps > 0 \<and> amount < 10000 sdiv max fee_rate_bps 1 \<longrightarrow> fee_amount = 0))"

definition prop_fee_rounding_near_max_amount :: "i128 \<Rightarrow> i128 \<Rightarrow> bool" where
  "prop_fee_rounding_near_max_amount amount fee_rate_bps =
     (validate_collateral_amount amount = Inr ()
     \<and> (case checked_mul amount fee_rate_bps of
          Some product \<Rightarrow> (case calculate_fee amount fee_rate_bps of Inl _ \<Rightarrow> False | Inr fee_amount \<Rightarrow>
            fee_amount \<ge> 0 \<and> fee_amount \<le> amount \<and> fee_amount = product sdiv 10000
            \<and> checked_add amount fee_amount \<noteq> None)
        | None \<Rightarrow> calculate_fee amount fee_rate_bps = Inl ArithmeticOverflow))"

definition prop_fee_rounding_max_bps_equals_amount :: "i128 \<Rightarrow> bool" where
  "prop_fee_rounding_max_bps_equals_amount amount \<longleftrightarrow> calculate_fee amount 10000 = Inr amount"

definition prop_fee_rounding_zero_bps_is_always_zero :: "i128 \<Rightarrow> bool" where
  "prop_fee_rounding_zero_bps_is_always_zero amount \<longleftrightarrow> calculate_fee amount 0 = Inr 0"

section \<open>Operations, model, harness\<close>

definition fuzz_cooldown :: u64 where "fuzz_cooldown = 3600"
definition user_funds :: i128 where "user_funds = 1000000000000"
definition price_bps :: i128 where "price_bps = 5000"

datatype fuzz_op =
    OpDeposit i128
  | OpWithdraw i128
  | OpWithdrawMax
  | OpWithdrawMaxPlusOne
  | OpWithdrawImmediately i128
  | OpWithdrawExtreme i128
  | OpTrade i128

text \<open>The operations \<open>arb_op\<close> can draw.\<close>

definition arb_op :: "fuzz_op \<Rightarrow> bool" where
  "arb_op op = (case op of
       OpDeposit n \<Rightarrow> 1 \<le> n \<and> n \<le> 1000000000
     | OpWithdraw n \<Rightarrow> 1 \<le> n \<and> n \<le> 1000000000
     | OpWithdrawMax \<Rightarrow> True
     | OpWithdrawMaxPlusOne \<Rightarrow> True
     | OpWithdrawImmediately n \<Rightarrow> 1 \<le> n \<and> n \<le> 1000000000
     | OpWithdrawExtreme n \<Rightarrow>
         n \<in> {0, -1, i128_min, i128_max, i128_max sdiv 2, i128_max sdiv 2 + 1}
     | OpTrade n \<Rightarrow> 1 \<le> n \<and> n \<le> 500000000)"

record fuzz_model =
  fm_deposited :: i128
  fm_user :: i128
  fm_market :: i128
  fm_treasury :: i128
  fm_last_deposit :: "u64 option"

record fuzz_harness =
  fh_market_addr :: address
  fh_user :: address
  fh_token :: address
  fh_treasury :: "address option"
  fh_market_id :: u32
  fh_fee_bps :: i128
  fh_waived :: bool

record ('x, 'r) fuzz_state =
  fz_time :: u64
  fz_chain :: "('x, 'r) market_state"
  fz_model :: fuzz_model

type_synonym ('x, 'r, 'a) fuzz_test = "(unit, ('x, 'r) fuzz_state, 'a) contract"

definition prop_assert :: "bool \<Rightarrow> ('x, 'r, unit) fuzz_test" where
  "prop_assert b = ensure b ()"

text \<open>\<open>env.mock_all_auths()\<close> at the current ledger time.\<close>

definition fuzz_env :: "fuzz_harness \<Rightarrow> u64 \<Rightarrow> env" where
  "fuzz_env h t = \<lparr>ledger_timestamp = t, current_contract_address = fh_market_addr h, network_id = [],
     authorized = (\<lambda>_. True), has_executable = (\<lambda>_. False)\<rparr>"

text \<open>A call of the contract through its client.\<close>

definition client_call :: "(env \<Rightarrow> ('e, 'x, 'r, 'a) mod_contract) \<Rightarrow> fuzz_harness
    \<Rightarrow> ('x, 'r, ('e, 'a) result) fuzz_test" where
  "client_call m h = (\<lambda>z. case invoke (m (fuzz_env h (fz_time z))) (fz_chain z) of
      (res, s') \<Rightarrow> (Ok res, z\<lparr>fz_chain := s'\<rparr>))"

definition fuzz_position :: "fuzz_harness \<Rightarrow> 'r market_accessors \<Rightarrow> ('x, 'r, position) fuzz_test" where
  "fuzz_position h A =
     bind (gets (\<lambda>z. ms_get_position A (fh_market_id h) (fh_user h) (store (fz_chain z)))) (\<lambda>found.
     case found of
       Inl _ \<Rightarrow> panic
     | Inr None \<Rightarrow> return (new_empty (fh_market_id h) (fh_user h))
     | Inr (Some p) \<Rightarrow> return p)"

text \<open>The fee; \<open>None\<close> is the panic of a product that leaves \<open>i128\<close>.\<close>

definition fuzz_fee :: "fuzz_harness \<Rightarrow> i128 \<Rightarrow> i128 option" where
  "fuzz_fee h amount = (if fh_waived h then Some 0
     else Option.bind (checked_mul amount (fh_fee_bps h)) (\<lambda>product. checked_div product 10000))"

definition amount_and_fee :: "fuzz_harness \<Rightarrow> i128 \<Rightarrow> i128 option" where
  "amount_and_fee h amount = Option.bind (fuzz_fee h amount) (checked_add amount)"

definition fuzz_available :: "fuzz_harness \<Rightarrow> 'r market_accessors \<Rightarrow> ('x, 'r, i128) fuzz_test" where
  "fuzz_available h A = bind (fuzz_position h A) (\<lambda>p.
     sub_i128 (pos_total_deposited p) (pos_locked_collateral p))"

text \<open>
  A loop whose condition and body can panic. The outer \<open>None\<close> is a loop that does not end, the
  inner one a panic, which ends it.
\<close>

definition while_checked :: "('a \<Rightarrow> bool option) \<Rightarrow> ('a \<Rightarrow> 'a option) \<Rightarrow> 'a \<Rightarrow> 'a option option" where
  "while_checked cond body a =
     while_option (\<lambda>s. case s of None \<Rightarrow> False | Some a \<Rightarrow> cond a \<noteq> Some False)
       (\<lambda>s. Option.bind s (\<lambda>a. if cond a = Some True then body a else None)) (Some a)"

text \<open>
  The search for the largest amount whose cost fits: a first guess, then two loops that correct
  it upwards and downwards.
\<close>

definition first_guess :: "fuzz_harness \<Rightarrow> i128 \<Rightarrow> i128 option" where
  "first_guess h available =
     Option.bind (checked_mul available 10000) (\<lambda>product.
     Option.bind (checked_add 10000 (if fh_waived h then 0 else fh_fee_bps h)) (\<lambda>divisor.
     checked_div product divisor))"

definition next_fits :: "fuzz_harness \<Rightarrow> i128 \<Rightarrow> i128 \<Rightarrow> bool option" where
  "next_fits h available a =
     Option.bind (checked_add a 1) (\<lambda>b. map_option (\<lambda>n. n \<le> available) (amount_and_fee h b))"

definition costs_too_much :: "fuzz_harness \<Rightarrow> i128 \<Rightarrow> i128 \<Rightarrow> bool option" where
  "costs_too_much h available a =
     (if a > 0 then map_option (\<lambda>n. n > available) (amount_and_fee h a) else Some False)"

definition largest_fitting :: "fuzz_harness \<Rightarrow> i128 \<Rightarrow> i128 option option" where
  "largest_fitting h available =
     (if available \<le> 0 then Some (Some 0)
      else case first_guess h available of
        None \<Rightarrow> Some None
      | Some a \<Rightarrow>
          (case while_checked (next_fits h available) (\<lambda>a. checked_add a 1) a of
            None \<Rightarrow> None
          | Some None \<Rightarrow> Some None
          | Some (Some a) \<Rightarrow> while_checked (costs_too_much h available) (\<lambda>a. checked_sub a 1) a))"

definition max_withdrawable :: "fuzz_harness \<Rightarrow> 'r market_accessors \<Rightarrow> ('x, 'r, i128) fuzz_test" where
  "max_withdrawable h A = bind (fuzz_available h A) (\<lambda>available.
     bind (expect (largest_fitting h available)) expect)"

definition skip_cooldown :: "('x, 'r, unit) fuzz_test" where
  "skip_cooldown = bind (gets fz_time) (\<lambda>t. bind (add_u64 t (fuzz_cooldown + 1)) (\<lambda>t'.
     modify (\<lambda>z. z\<lparr>fz_time := t'\<rparr>)))"

definition fuzz_in_cooldown :: "('x, 'r) fuzz_state \<Rightarrow> bool" where
  "fuzz_in_cooldown z = (case fm_last_deposit (fz_model z) of
       None \<Rightarrow> False
     | Some t \<Rightarrow> fz_time z - t < fuzz_cooldown)"

definition try_withdraw :: "fuzz_harness \<Rightarrow> 'r market_accessors \<Rightarrow> 'x token_client \<Rightarrow> 'x fee_sink
    \<Rightarrow> i128 \<Rightarrow> ('x, 'r, market_error + unit) fuzz_test" where
  "try_withdraw h A T F amount =
     bind (client_call (\<lambda>E. withdraw_unused_collateral E A T F (fh_user h) (fh_market_id h) amount) h)
       (\<lambda>res. case res of
          Ok _ \<Rightarrow> return (Inr ())
        | Err e \<Rightarrow> return (Inl e)
        | Panic \<Rightarrow> panic)"

definition model_withdraw :: "fuzz_harness \<Rightarrow> i128 \<Rightarrow> i128 \<Rightarrow> fuzz_model \<Rightarrow> fuzz_model" where
  "model_withdraw h amount fee md =
     (let md = md\<lparr>fm_deposited := fm_deposited md - (amount + fee), fm_user := fm_user md + amount,
        fm_market := fm_market md - amount\<rparr>
      in if fee > 0 \<and> fh_treasury h \<noteq> None
         then md\<lparr>fm_market := fm_market md - fee, fm_treasury := fm_treasury md + fee\<rparr> else md)"

definition model_deposit :: "u64 \<Rightarrow> i128 \<Rightarrow> fuzz_model \<Rightarrow> fuzz_model" where
  "model_deposit t amount md = md\<lparr>fm_deposited := fm_deposited md + amount,
     fm_user := fm_user md - amount, fm_market := fm_market md + amount, fm_last_deposit := Some t\<rparr>"

definition check_withdraw :: "fuzz_harness \<Rightarrow> 'r market_accessors \<Rightarrow> 'x token_client \<Rightarrow> 'x fee_sink
    \<Rightarrow> i128 \<Rightarrow> ('x, 'r, unit) fuzz_test" where
  "check_withdraw h A T F amount =
     bind (fuzz_position h A) (\<lambda>before.
     bind (try_withdraw h A T F amount) (\<lambda>result.
     bind (gets fuzz_in_cooldown) (\<lambda>cooling.
     if cooling then prop_assert (result = Inl WithdrawCooldownActive)
     else
       bind (expect (fuzz_fee h amount)) (\<lambda>fee.
       bind (sub_i128 (pos_total_deposited before) (pos_locked_collateral before)) (\<lambda>available.
       bind (add_i128 amount fee) (\<lambda>needed.
       if needed \<le> available
       then andthen (prop_assert (result = Inr ()))
         (modify (\<lambda>z. z\<lparr>fz_model := model_withdraw h amount fee (fz_model z)\<rparr>))
       else prop_assert (result = Inl InsufficientCollateral)))))))"

definition check_invariants :: "fuzz_harness \<Rightarrow> 'r market_accessors \<Rightarrow> ('x \<Rightarrow> address \<Rightarrow> address \<Rightarrow> int)
    \<Rightarrow> ('x \<Rightarrow> i128) \<Rightarrow> ('x, 'r, unit) fuzz_test" where
  "check_invariants h A balance collected =
     bind (fuzz_position h A) (\<lambda>p.
     bind (gets fz_model) (\<lambda>md.
     bind (gets fz_chain) (\<lambda>s.
     andthen (prop_assert (pos_total_deposited p \<ge> 0))
     (andthen (prop_assert (pos_total_deposited p = fm_deposited md))
     (andthen (prop_assert (pos_locked_collateral p \<le> pos_total_deposited p))
     (andthen (prop_assert (ms_get_collateral_balance A (fh_user h) (store s) = fm_deposited md))
     (andthen (prop_assert (balance (ext s) (fh_token h) (fh_user h) = fm_user md))
     (andthen (prop_assert (balance (ext s) (fh_token h) (fh_market_addr h) = fm_market md))
     (andthen (prop_assert ((case fh_treasury h of None \<Rightarrow> 0
        | Some t \<Rightarrow> balance (ext s) (fh_token h) t) = fm_treasury md))
     (andthen (prop_assert (fh_treasury h \<noteq> None \<longrightarrow> collected (ext s) = fm_treasury md))
     (andthen (prop_assert (fm_user md + fm_market md + fm_treasury md = user_funds))
     (prop_assert (fm_market md \<ge> fm_deposited md)))))))))))))"

section \<open>The test\<close>

text \<open>A deposit through the client; an error fails the test.\<close>

definition harness_deposit :: "fuzz_harness \<Rightarrow> 'r market_accessors \<Rightarrow> 'x token_client \<Rightarrow> i128
    \<Rightarrow> ('x, 'r, unit) fuzz_test" where
  "harness_deposit h A T amount =
     bind (client_call (\<lambda>E. deposit_collateral E A T (fh_user h) (fh_market_id h) amount) h) (\<lambda>res.
     case res of Ok _ \<Rightarrow> return () | Err _ \<Rightarrow> panic | Panic \<Rightarrow> panic)"

definition fuzz_op :: "fuzz_harness \<Rightarrow> 'r market_accessors \<Rightarrow> 'x token_client \<Rightarrow> 'x fee_sink
    \<Rightarrow> (i128 \<Rightarrow> env \<Rightarrow> ('e, 'x, 'r, 'p) mod_contract) \<Rightarrow> fuzz_op \<Rightarrow> ('x, 'r, unit) fuzz_test" where
  "fuzz_op h A T F trade op = (case op of
       OpDeposit amount \<Rightarrow>
         andthen (harness_deposit h A T amount)
           (modify (\<lambda>z. z\<lparr>fz_model := model_deposit (fz_time z) amount (fz_model z)\<rparr>))
     | OpWithdraw amount \<Rightarrow> andthen skip_cooldown (check_withdraw h A T F amount)
     | OpWithdrawMax \<Rightarrow>
         andthen skip_cooldown
         (bind (max_withdrawable h A) (\<lambda>a.
          when_do (a > 0) (andthen (check_withdraw h A T F a)
            (bind (fuzz_available h A) (\<lambda>left. prop_assert (left \<ge> 0))))))
     | OpWithdrawMaxPlusOne \<Rightarrow>
         andthen skip_cooldown
         (bind (max_withdrawable h A) (\<lambda>a.
          bind (add_i128 a 1) (\<lambda>over.
          bind (fuzz_position h A) (\<lambda>before.
          bind (try_withdraw h A T F over) (\<lambda>result.
          andthen (prop_assert (result = Inl InsufficientCollateral))
          (bind (fuzz_position h A) (\<lambda>now. prop_assert (now = before))))))))
     | OpWithdrawImmediately amount \<Rightarrow> check_withdraw h A T F amount
     | OpWithdrawExtreme amount \<Rightarrow>
         andthen skip_cooldown
         (bind (fuzz_position h A) (\<lambda>before.
          bind (try_withdraw h A T F amount) (\<lambda>result.
          andthen (prop_assert (result \<noteq> Inr ()))
          (bind (fuzz_position h A) (\<lambda>now. prop_assert (now = before))))))
     | OpTrade yes \<Rightarrow>
         bind (fuzz_position h A) (\<lambda>before.
         bind (client_call (trade yes) h) (\<lambda>res.
         bind (fuzz_position h A) (\<lambda>after.
         andthen (prop_assert (pos_total_deposited after = pos_total_deposited before))
         (case res of Ok _ \<Rightarrow> return ()
          | Err _ \<Rightarrow> prop_assert (after = before) | Panic \<Rightarrow> prop_assert (after = before))))))"

definition fuzz_sequence :: "fuzz_harness \<Rightarrow> 'r market_accessors \<Rightarrow> 'x token_client \<Rightarrow> 'x fee_sink
    \<Rightarrow> (i128 \<Rightarrow> env \<Rightarrow> ('e, 'x, 'r, 'p) mod_contract) \<Rightarrow> ('x \<Rightarrow> address \<Rightarrow> address \<Rightarrow> int)
    \<Rightarrow> ('x \<Rightarrow> i128) \<Rightarrow> fuzz_op list \<Rightarrow> ('x, 'r, unit) fuzz_test" where
  "fuzz_sequence h A T F trade balance collected ops =
     for_each ops (\<lambda>op. andthen (fuzz_op h A T F trade op) (check_invariants h A balance collected))"

section \<open>The fee properties hold\<close>

lemma fee_in_range: "0 < a \<Longrightarrow> 0 \<le> r \<Longrightarrow> a * r \<le> i128_max \<Longrightarrow> checked_mul a r = Some (a * r)"
  by (auto simp: checked_mul_def in_i128_def i128_min_def intro: order_trans[of _ 0])

lemma fee_dust: "0 \<le> (n :: int) - n div 10000 * 10000 \<and> n - n div 10000 * 10000 < 10000"
  by linarith

lemma fee_sum_fits:
  assumes "0 < a" "a \<le> max_reasonable_amount" "0 \<le> f" "f \<le> a"
  shows "checked_add a f = Some (a + f)"
  using assms by (simp add: checked_add_def in_i128_def i128_numerals max_reasonable_amount_value)

lemma tiny_fee_is_zero:
  assumes "0 < a" "0 < r" "a < 10000 sdiv max r 1" shows "a * r div 10000 = (0 :: int)"
proof -
  have "a < 10000 div r" using assms by (simp add: sdiv_nonneg)
  then have "a * r < 10000 div r * r" using assms(2) by simp
  also have "\<dots> \<le> 10000" using div_mult_mod_eq[of 10000 r] pos_mod_sign[of r 10000] assms(2) by linarith
  finally show ?thesis using assms by (simp add: div_pos_pos_trivial)
qed

section \<open>The search for the largest amount\<close>

text \<open>Fee and cost without bounds.\<close>

definition fee_at :: "fuzz_harness \<Rightarrow> int \<Rightarrow> int" where
  "fee_at h a = (if fh_waived h then 0 else a * fh_fee_bps h div 10000)"

definition cost :: "fuzz_harness \<Rightarrow> int \<Rightarrow> int" where
  "cost h a = a + fee_at h a"

lemma fee_at_mono: "0 \<le> fh_fee_bps h \<Longrightarrow> a \<le> b \<Longrightarrow> fee_at h a \<le> fee_at h b"
  by (auto simp: fee_at_def mult_right_mono intro: zdiv_mono1)

lemma fee_at_nonneg: "0 \<le> fh_fee_bps h \<Longrightarrow> 0 \<le> a \<Longrightarrow> 0 \<le> fee_at h a"
  by (simp add: fee_at_def pos_imp_zdiv_nonneg_iff)

lemma cost_mono: "0 \<le> fh_fee_bps h \<Longrightarrow> a < b \<Longrightarrow> cost h a < cost h b"
  using fee_at_mono[of h a b] by (simp add: cost_def)

lemma fee_at_most:
  assumes "fh_fee_bps h \<le> 10000" and "0 \<le> a" shows "fee_at h a \<le> a"
proof -
  have "a * fh_fee_bps h div 10000 \<le> a * 10000 div 10000"
    using assms by (intro zdiv_mono1 mult_left_mono) auto
  then show ?thesis using assms by (simp add: fee_at_def)
qed

lemma fuzz_fee_run:
  assumes "0 \<le> fh_fee_bps h" "0 \<le> a" "a * fh_fee_bps h \<le> i128_max"
  shows "fuzz_fee h a = Some (fee_at h a)"
proof -
  have nn: "0 \<le> a * fh_fee_bps h" using assms by simp
  then have "a * fh_fee_bps h div 10000 \<le> a * fh_fee_bps h" by linarith
  moreover have "0 \<le> a * fh_fee_bps h div 10000" using nn by (simp add: pos_imp_zdiv_nonneg_iff)
  ultimately show ?thesis
    using assms(3) nn by (auto simp: fuzz_fee_def fee_at_def checked_mul_def checked_div_def sdiv_nonneg
        in_i128_def i128_min_def)
qed

lemma amount_and_fee_run:
  assumes "0 \<le> fh_fee_bps h" "0 \<le> a" "a * fh_fee_bps h \<le> i128_max" "cost h a \<le> i128_max"
  shows "amount_and_fee h a = Some (cost h a)"
  using assms fee_at_nonneg[of h a]
  by (simp add: amount_and_fee_def fuzz_fee_run checked_add_def cost_def in_i128_def i128_min_def)

text \<open>A loop whose steps never panic is the plain loop.\<close>

lemma while_checked_run:
  assumes inv: "P a" and cond: "\<And>a. P a \<Longrightarrow> cond a = Some (test a)"
    and body: "\<And>a. P a \<Longrightarrow> test a \<Longrightarrow> body a = Some (step a) \<and> P (step a)"
  shows "while_checked cond body a = map_option Some (while_option test step a)"
  unfolding while_checked_def
  by (rule while_option_commute_invariant[where P = P, symmetric]) (use inv cond body in auto)

lemma upward_loop:
  assumes "0 \<le> fh_fee_bps h" and "P a0" and P: "\<And>a. P a \<Longrightarrow> cost h (a + 1) \<le> n \<Longrightarrow> P (a + 1)"
    and nonneg: "\<And>a. P a \<Longrightarrow> 0 \<le> a"
  shows "\<exists>a. while_option (\<lambda>a. cost h (a + 1) \<le> n) (\<lambda>a. a + 1) a0 = Some a \<and> P a \<and> n < cost h (a + 1)"
proof -
  have "\<exists>a. while_option (\<lambda>a. cost h (a + 1) \<le> n) (\<lambda>a. a + 1) a0 = Some a"
  proof (rule measure_while_option_Some[where P = P and f = "\<lambda>a. nat (n - a)"])
    fix a assume a: "P a" "cost h (a + 1) \<le> n"
    with fee_at_nonneg[OF assms(1), of "a + 1"] nonneg[OF a(1)] P[OF a]
    show "P (a + 1) \<and> nat (n - (a + 1)) < nat (n - a)" by (simp add: cost_def)
  qed (rule assms(2))
  then obtain a where a: "while_option (\<lambda>a. cost h (a + 1) \<le> n) (\<lambda>a. a + 1) a0 = Some a" ..
  have "P a" by (rule while_option_rule[OF _ a, where P = P]) (use assms(2) P in auto)
  with a while_option_stop[OF a] show ?thesis by auto
qed

lemma downward_loop:
  assumes "P a0" and P: "\<And>a. P a \<Longrightarrow> 0 < a \<Longrightarrow> P (a - 1)" and nonneg: "\<And>a. P a \<Longrightarrow> 0 \<le> a"
    and "n < cost h (a0 + 1)"
  shows "\<exists>a. while_option (\<lambda>a. a > 0 \<and> cost h a > n) (\<lambda>a. a - 1) a0 = Some a
    \<and> 0 \<le> a \<and> (a = 0 \<or> cost h a \<le> n) \<and> n < cost h (a + 1)"
proof -
  have "\<exists>a. while_option (\<lambda>a. a > 0 \<and> cost h a > n) (\<lambda>a. a - 1) a0 = Some a"
    by (rule measure_while_option_Some[where P = P and f = nat]) (use assms(1) P in auto)
  then obtain a where a: "while_option (\<lambda>a. a > 0 \<and> cost h a > n) (\<lambda>a. a - 1) a0 = Some a" ..
  have "P a \<and> n < cost h (a + 1)"
    by (rule while_option_rule[OF _ a, where P = "\<lambda>a. P a \<and> n < cost h (a + 1)"])
      (use assms(1,4) P in auto)
  with a while_option_stop[OF a] nonneg show ?thesis by (metis le_less not_less)
qed

text \<open>Amounts the search looks at: little more than fits, so no product and no sum overflows.\<close>

definition within_search :: "fuzz_harness \<Rightarrow> i128 \<Rightarrow> i128 \<Rightarrow> bool" where
  "within_search h n a \<longleftrightarrow> 0 \<le> a \<and> a * (10000 + (if fh_waived h then 0 else fh_fee_bps h)) < (n + 1) * 10000"

lemma within_search_bounds:
  assumes "0 \<le> fh_fee_bps h" "fh_fee_bps h \<le> 10000" "0 < n" "n * 10000 \<le> i128_max" "within_search h n a"
  shows "a \<le> n" "fh_waived h \<or> 2 * ((a + 1) * fh_fee_bps h) \<le> n * 10000 + 30000"
proof -
  let ?r = "if fh_waived h then 0 else fh_fee_bps h"
  have a: "0 \<le> a" "a * (10000 + ?r) < (n + 1) * 10000" using assms(5) by (simp_all add: within_search_def)
  have "0 \<le> ?r" using assms(1) by simp
  then have "a * 10000 \<le> a * (10000 + ?r)" using a(1) by (intro mult_left_mono) auto
  with a(2) show "a \<le> n" by simp
  show "fh_waived h \<or> 2 * ((a + 1) * fh_fee_bps h) \<le> n * 10000 + 30000"
  proof (cases "fh_waived h")
    case False
    have "a * (2 * fh_fee_bps h) \<le> a * (10000 + fh_fee_bps h)"
      using a(1) assms(2) by (intro mult_left_mono) auto
    with a(2) False assms(2) show ?thesis by (simp add: algebra_simps)
  qed simp
qed

lemma within_search_step:
  assumes "0 \<le> a" and "cost h (a + 1) \<le> n" shows "within_search h n (a + 1)"
proof -
  let ?r = "fh_fee_bps h"
  have "(a + 1) * ?r < (a + 1) * ?r div 10000 * 10000 + 10000" by linarith
  then show ?thesis using assms by (auto simp: within_search_def cost_def fee_at_def algebra_simps)
qed

lemma search_fee_run:
  assumes "0 \<le> fh_fee_bps h" "fh_fee_bps h \<le> 10000" "0 < n" "n * 10000 \<le> i128_max" "within_search h n a"
  shows "amount_and_fee h (a + 1) = Some (cost h (a + 1))"
proof -
  note b = within_search_bounds[OF assms]
  have a: "0 \<le> a" using assms(5) by (simp add: within_search_def)
  have m: "n \<le> 17014118346046923173168730371588410" using assms(4) by (simp add: i128_numerals)
  have "cost h (a + 1) \<le> 2 * (n + 1)" using fee_at_most[of h "a + 1"] assms(2) a b(1) by (simp add: cost_def)
  then have c: "cost h (a + 1) \<le> i128_max" using m by (simp add: i128_numerals)
  show ?thesis
  proof (cases "fh_waived h")
    case True
    with a c show ?thesis by (simp add: amount_and_fee_def fuzz_fee_def cost_def fee_at_def checked_add_def in_i128_def i128_min_def)
  next
    case False
    with b(2) m have "(a + 1) * fh_fee_bps h \<le> i128_max" by (simp add: i128_numerals)
    with amount_and_fee_run[OF assms(1) _ this c] a show ?thesis by simp
  qed
qed

text \<open>Both loops end, and the result is the largest amount whose cost fits.\<close>

lemma largest_fitting_spec:
  assumes r: "0 \<le> fh_fee_bps h" "fh_fee_bps h \<le> 10000" and n: "0 < n" "n * 10000 \<le> i128_max"
  shows "\<exists>a. largest_fitting h n = Some (Some a) \<and> 0 \<le> a \<and> cost h a \<le> n \<and> (\<forall>b. a < b \<longrightarrow> n < cost h b)"
proof -
  let ?k = "10000 + (if fh_waived h then 0 else fh_fee_bps h)"
  let ?a = "n * 10000 div ?k" and ?P = "within_search h n"
  have k: "0 < ?k" using r by simp
  have m: "n \<le> 17014118346046923173168730371588410" using n(2) by (simp add: i128_numerals)
  have small: "in_i128 a \<and> in_i128 (a + 1) \<and> in_i128 (a - 1)" if "?P a" for a
    using within_search_bounds(1)[OF r n that] that m by (auto simp: within_search_def in_i128_def i128_numerals)
  have start: "?P ?a"
  proof -
    have "?a * ?k \<le> n * 10000" using div_mult_mod_eq[of "n * 10000" ?k] pos_mod_sign[OF k, of "n * 10000"] by linarith
    moreover have "0 \<le> ?a" using n(1) k by (intro pos_imp_zdiv_nonneg_iff[THEN iffD2]) auto
    ultimately show ?thesis by (simp add: within_search_def)
  qed
  have guess: "first_guess h n = Some ?a"
    using n r k small[OF start]
    by (auto simp: first_guess_def checked_mul_def checked_add_def checked_div_def sdiv_nonneg in_i128_def i128_numerals)
  have up: "next_fits h n a = Some (cost h (a + 1) \<le> n)" if "?P a" for a
    using small[OF that] search_fee_run[OF r n that] by (simp add: next_fits_def checked_add_def)
  have down: "costs_too_much h n a = Some (a > 0 \<and> cost h a > n)" if "?P a" for a
  proof (cases "0 < a")
    case True
    have "a - 1 < a" by simp
    then have "(a - 1) * ?k \<le> a * ?k" using k by (intro mult_right_mono) auto
    with that True have "?P (a - 1)" by (simp add: within_search_def)
    from search_fee_run[OF r n this] True show ?thesis by (simp add: costs_too_much_def)
  qed (simp add: costs_too_much_def)
  have less: "?P (a - 1)" if "?P a" "0 < a" for a
  proof -
    have "(a - 1) * ?k \<le> a * ?k" using k by (intro mult_right_mono) auto
    with that show ?thesis by (simp add: within_search_def)
  qed
  have nonneg: "0 \<le> a" if "?P a" for a using that by (simp add: within_search_def)
  obtain a1 where a1: "while_option (\<lambda>a. cost h (a + 1) \<le> n) (\<lambda>a. a + 1) ?a = Some a1" "?P a1" "n < cost h (a1 + 1)"
    using upward_loop[OF r(1), of ?P ?a n, OF start within_search_step[OF nonneg] nonneg] by blast
  obtain a where a: "while_option (\<lambda>a. a > 0 \<and> cost h a > n) (\<lambda>a. a - 1) a1 = Some a"
    "0 \<le> a" "a = 0 \<or> cost h a \<le> n" "n < cost h (a + 1)"
    using downward_loop[of ?P a1, OF a1(2) less nonneg a1(3)] by blast
  have "while_checked (next_fits h n) (\<lambda>a. checked_add a 1) ?a
      = map_option Some (while_option (\<lambda>a. cost h (a + 1) \<le> n) (\<lambda>a. a + 1) ?a)"
    by (rule while_checked_run[where P = ?P, OF start up])
      (use small nonneg within_search_step in \<open>auto simp: checked_add_def\<close>)
  then have "while_checked (next_fits h n) (\<lambda>a. checked_add a 1) ?a = Some (Some a1)" unfolding a1(1) by simp
  moreover
  have "while_checked (costs_too_much h n) (\<lambda>a. checked_sub a 1) a1
      = map_option Some (while_option (\<lambda>a. a > 0 \<and> cost h a > n) (\<lambda>a. a - 1) a1)"
    by (rule while_checked_run[where P = ?P, OF a1(2) down])
      (use small less in \<open>auto simp: checked_sub_def\<close>)
  then have "while_checked (costs_too_much h n) (\<lambda>a. checked_sub a 1) a1 = Some (Some a)" unfolding a(1) by simp
  moreover have "n < cost h b" if "a < b" for b
    using cost_mono[OF r(1), of "a + 1" b] a(4) that by (cases "b = a + 1") auto
  moreover have "cost h a \<le> n" using a(3) n by (auto simp: cost_def fee_at_def)
  ultimately show ?thesis using n a(2) by (auto simp: largest_fitting_def guess)
qed

text \<open>Nothing available gives zero, and more than \<open>i128\<close> can scale by ten thousand panics at once.\<close>

lemma largest_fitting_nothing: "n \<le> 0 \<Longrightarrow> largest_fitting h n = Some (Some 0)"
  by (simp add: largest_fitting_def)

lemma largest_fitting_overflow: "i128_max < n * 10000 \<Longrightarrow> largest_fitting h n = Some None"
  by (auto simp: largest_fitting_def first_guess_def checked_mul_def in_i128_def i128_max_def)

end
