(* ===== verification/Market_Fuzz_World.thy ===== *)
theory Market_Fuzz_World
  imports Market_Fuzz Market_Treasury Market_Positions
begin

text \<open>
  The contract implements the model of the fuzz test: an invariant relates the chain to \<open>Model\<close>,
  and every operation of the test keeps it, so no assertion of the test can fail. The world around
  the market is a locale: tokens that pay covered transfers, a treasury that accepts the market's
  fees, and the trading entrypoint \<open>MarketContract::update_position\<close>, which no file of the repository
  defines. The last law states what the repository says of it: it is the only caller of
  \<open>positions::update_position\<close>, which alone persists positions (\<^verbatim>\<open>deposit.rs\<close>, \<^verbatim>\<open>withdraw.rs\<close>); a trade
  that increases the lock is compared with the user's protocol balance by \<open>check_protocol_collateral\<close>
  (\<^verbatim>\<open>docs/adr-002-protocol-wide-collateral.md\<close>, \<^verbatim>\<open>types.rs\<close>); it enrols the user as a participant
  (\<^verbatim>\<open>deposit.rs\<close>, \<^verbatim>\<open>settlement.rs\<close>), keeps the total of the user's locks, and calls no contract but the
  outcome token, to read, mint and burn (\<^verbatim>\<open>docs/cross-contract-call-graph.md\<close>). So around
  \<open>update_position_persist\<close>, the model of \<open>positions::update_position\<close>, it may do anything that leaves the
  market's settings, this user's position, balance and last deposit, the market's collateral token and the
  Treasury alone. That a trade keeps the deposit and that its lock stays below it are proved from
  the model, not assumed.
\<close>

section \<open>The world around the market\<close>

text \<open>What a trade leaves alone besides its update of the position.\<close>

definition beside_the_update :: "fuzz_harness \<Rightarrow> market_view \<Rightarrow> market_view \<Rightarrow> bool" where
  "beside_the_update h v w \<longleftrightarrow> v_ready w = v_ready v \<and> v_mode w = v_mode v
     \<and> v_deposit_locked w = v_deposit_locked v \<and> v_fee_rate w = v_fee_rate v
     \<and> v_fee_waivers w = v_fee_waivers v \<and> v_treasury w = v_treasury v
     \<and> v_markets w (fh_market_id h) = v_markets v (fh_market_id h)
     \<and> v_positions w (fh_market_id h, fh_user h) = v_positions v (fh_market_id h, fh_user h)
     \<and> v_balance w (fh_user h) = v_balance v (fh_user h)
     \<and> v_last_deposit w (fh_market_id h, fh_user h) = v_last_deposit v (fh_market_id h, fh_user h)"

definition no_money_moves :: "fuzz_harness \<Rightarrow> ('x \<Rightarrow> address \<Rightarrow> address \<Rightarrow> int) \<Rightarrow> ('x \<Rightarrow> i128)
    \<Rightarrow> (address \<Rightarrow> address \<Rightarrow> 'x \<Rightarrow> bool) \<Rightarrow> 'x \<Rightarrow> 'x \<Rightarrow> bool" where
  "no_money_moves h balance collected accepts x y \<longleftrightarrow> balance y (fh_token h) = balance x (fh_token h)
     \<and> collected y = collected x \<and> (\<forall>ta ma. accepts ta ma y = accepts ta ma x)"

locale fuzz_world = market_ledger A view + sep41 T balance
  for A :: "'r market_accessors" and view :: "'r \<Rightarrow> market_view"
    and T :: "'x token_client" and balance :: "'x \<Rightarrow> address \<Rightarrow> address \<Rightarrow> int" +
  fixes F :: "'x fee_sink"
    and collected :: "'x \<Rightarrow> i128"
    and accepts :: "address \<Rightarrow> address \<Rightarrow> 'x \<Rightarrow> bool"
    and trade :: "fuzz_harness \<Rightarrow> i128 \<Rightarrow> env \<Rightarrow> ('e, 'x, 'r, 'p) mod_contract"
  assumes pays: "0 \<le> n \<Longrightarrow> n \<le> balance x tok from \<Longrightarrow> \<exists>x'. tok_transfer T tok from to n x = Some ((), x')"
    and transfer_frame: "tok_transfer T tok from to n x = Some (u, x') \<Longrightarrow>
      collected x' = collected x \<and> accepts ta ma x' = accepts ta ma x"
    and sink: "accepts ta ma x \<Longrightarrow> 0 < n \<Longrightarrow> 0 \<le> collected x \<Longrightarrow> in_i128 (collected x + n) \<Longrightarrow>
      \<exists>x'. F ta ma tok m n x = Some ((), x') \<and> balance x' = balance x
        \<and> collected x' = collected x + n \<and> accepts ta ma x'"
    and trade_updates_the_position: "trade h yes E s = (Ok r, s') \<Longrightarrow> \<exists>s1 s2 shown p elsewhere.
      update_position_persist E A shown (fh_market_id h) (fh_user h) yes 0 price_bps s1 = (Ok p, s2)
      \<and> beside_the_update h (view (store s)) (view (store s1))
      \<and> beside_the_update h (view (store s2)) (view (store s'))
      \<and> no_money_moves h balance collected accepts (ext s) (ext s1)
      \<and> no_money_moves h balance collected accepts (ext s2) (ext s')
      \<and> (pos_locked_collateral (position_in (view (store s)) (fh_market_id h) (fh_user h)) < pos_locked_collateral p
         \<longrightarrow> 0 \<le> elsewhere \<and> check_protocol_collateral (pos_locked_collateral p)
               (v_balance (view (store s)) (fh_user h)) elsewhere = Inr ())"

section \<open>The invariant\<close>

definition fuzz_start :: u64 where "fuzz_start = 1000000"
definition fuzz_end :: u64 where "fuzz_end = fuzz_start + 300 * 86400"

definition fuzz_config :: "fuzz_harness \<Rightarrow> market_view \<Rightarrow> bool" where
  "fuzz_config h v \<longleftrightarrow> v_ready v \<and> v_mode v = Normal \<and> \<not> v_deposit_locked v
     \<and> v_fee_rate v = fh_fee_bps h \<and> 0 \<le> fh_fee_bps h \<and> fh_fee_bps h \<le> 10000
     \<and> (fh_user h \<in> set (v_fee_waivers v) \<longleftrightarrow> fh_waived h) \<and> v_treasury v = fh_treasury h
     \<and> (\<exists>mk. v_markets v (fh_market_id h) = Some mk \<and> mkt_status mk = MarketActive
          \<and> \<not> mkt_closed_to_deposits mk \<and> mkt_collateral_token mk = fh_token h
          \<and> mkt_end_time mk = fuzz_end)
     \<and> fh_user h \<noteq> fh_market_addr h
     \<and> (\<forall>t. fh_treasury h = Some t \<longrightarrow> t \<noteq> fh_user h \<and> t \<noteq> fh_market_addr h)"

definition position_agrees :: "fuzz_harness \<Rightarrow> market_view \<Rightarrow> fuzz_model \<Rightarrow> bool" where
  "position_agrees h v md \<longleftrightarrow> (let p = position_in v (fh_market_id h) (fh_user h) in
     pos_total_deposited p = fm_deposited md \<and> 0 \<le> pos_locked_collateral p
     \<and> pos_locked_collateral p \<le> fm_deposited md
     \<and> v_balance v (fh_user h) = fm_deposited md
     \<and> v_last_deposit v (fh_market_id h, fh_user h) = fm_last_deposit md)"

definition money_agrees :: "fuzz_harness \<Rightarrow> ('x \<Rightarrow> address \<Rightarrow> address \<Rightarrow> int) \<Rightarrow> ('x \<Rightarrow> i128) \<Rightarrow> 'x
    \<Rightarrow> fuzz_model \<Rightarrow> bool" where
  "money_agrees h balance collected x md \<longleftrightarrow>
     balance x (fh_token h) (fh_user h) = fm_user md
     \<and> balance x (fh_token h) (fh_market_addr h) = fm_market md
     \<and> (case fh_treasury h of None \<Rightarrow> fm_treasury md = 0
        | Some t \<Rightarrow> balance x (fh_token h) t = fm_treasury md \<and> collected x = fm_treasury md)
     \<and> fm_user md + fm_market md + fm_treasury md = user_funds
     \<and> 0 \<le> fm_treasury md \<and> 0 \<le> fm_user md \<and> fm_deposited md \<le> fm_market md"

text \<open>After \<open>k\<close> operations.\<close>

definition bounds_hold :: "nat \<Rightarrow> u64 \<Rightarrow> fuzz_model \<Rightarrow> bool" where
  "bounds_hold k t md \<longleftrightarrow> t \<le> fuzz_start + 3601 * k \<and> user_funds - 1000000000 * int k \<le> fm_user md
     \<and> (\<forall>t'. fm_last_deposit md = Some t' \<longrightarrow> t' \<le> t)"

definition fuzz_inv :: "('r \<Rightarrow> market_view) \<Rightarrow> ('x \<Rightarrow> address \<Rightarrow> address \<Rightarrow> int) \<Rightarrow> ('x \<Rightarrow> i128)
    \<Rightarrow> (address \<Rightarrow> address \<Rightarrow> 'x \<Rightarrow> bool) \<Rightarrow> fuzz_harness \<Rightarrow> nat \<Rightarrow> ('x, 'r) fuzz_state \<Rightarrow> bool" where
  "fuzz_inv view balance collected accepts h k z \<longleftrightarrow>
     fuzz_config h (view (store (fz_chain z)))
     \<and> position_agrees h (view (store (fz_chain z))) (fz_model z)
     \<and> money_agrees h balance collected (ext (fz_chain z)) (fz_model z)
     \<and> (\<forall>t. fh_treasury h = Some t \<longrightarrow> accepts t (fh_market_addr h) (ext (fz_chain z)))
     \<and> bounds_hold k (fz_time z) (fz_model z)"

lemma fee_agrees:
  assumes "fuzz_config h v" and "0 < n"
  shows "fee_due v (fh_user h) n = fee_at h n"
  using assms by (auto simp: fuzz_config_def fee_due_def fee_at_def sdiv_nonneg)

lemma fee_at_bounds:
  assumes "fuzz_config h v" and "0 < n"
  shows "0 \<le> fee_at h n" and "fee_at h n \<le> n"
  using fee_due_bounds[OF assms(2), of v "fh_user h"] assms fee_agrees[OF assms]
  by (auto simp: fuzz_config_def)

text \<open>For every amount the tests look at the fee fits into \<open>i128\<close>.\<close>

lemma fuzz_fee_in_test:
  assumes "fuzz_config h v" and "0 \<le> n" "n \<le> 2 * user_funds"
  shows "fuzz_fee h n = Some (fee_at h n)"
proof -
  have r: "0 \<le> fh_fee_bps h" "fh_fee_bps h \<le> 10000" using assms(1) by (simp_all add: fuzz_config_def)
  have "n * fh_fee_bps h \<le> 2 * user_funds * 10000" using assms r by (intro mult_mono) auto
  then show ?thesis using assms(2) r(1) by (intro fuzz_fee_run) (simp_all add: i128_numerals user_funds_def)
qed

context fuzz_world
begin

abbreviation inv :: "fuzz_harness \<Rightarrow> nat \<Rightarrow> ('x, 'r) fuzz_state \<Rightarrow> bool" where
  "inv \<equiv> fuzz_inv view balance collected accepts"

abbreviation pos :: "fuzz_harness \<Rightarrow> ('x, 'r) fuzz_state \<Rightarrow> position" where
  "pos h z \<equiv> position_in (view (store (fz_chain z))) (fh_market_id h) (fh_user h)"

lemma invD:
  assumes "inv h k z"
  shows "fuzz_config h (view (store (fz_chain z)))"
    "pos_total_deposited (pos h z) = fm_deposited (fz_model z)"
    "0 \<le> pos_locked_collateral (pos h z)" "pos_locked_collateral (pos h z) \<le> fm_deposited (fz_model z)"
    "v_balance (view (store (fz_chain z))) (fh_user h) = fm_deposited (fz_model z)"
    "v_last_deposit (view (store (fz_chain z))) (fh_market_id h, fh_user h) = fm_last_deposit (fz_model z)"
    "0 \<le> fm_deposited (fz_model z)" "fm_deposited (fz_model z) \<le> user_funds"
    "money_agrees h balance collected (ext (fz_chain z)) (fz_model z)"
  using assms by (auto simp: fuzz_inv_def position_agrees_def Let_def money_agrees_def)

lemma fuzz_position_run:
  "inv h k z \<Longrightarrow> fuzz_position h A z = (Ok (pos h z), z)"
  by (auto simp: fuzz_inv_def fuzz_config_def fuzz_position_def run_simps checked position_in_def
      split: option.splits)

lemma fuzz_available_run:
  assumes "inv h k z"
  shows "fuzz_available h A z = (Ok (pos_total_deposited (pos h z) - pos_locked_collateral (pos h z)), z)"
  using invD[OF assms]
  by (simp add: fuzz_available_def run_simps fuzz_position_run[OF assms] in_i128_def i128_numerals user_funds_def)

lemma max_withdrawable_run:
  assumes "inv h k z"
  shows "\<exists>a. max_withdrawable h A z = (Ok a, z) \<and> 0 \<le> a
    \<and> cost h a \<le> pos_total_deposited (pos h z) - pos_locked_collateral (pos h z)
    \<and> (\<forall>b. a < b \<longrightarrow> pos_total_deposited (pos h z) - pos_locked_collateral (pos h z) < cost h b)"
proof -
  note i = invD[OF assms]
  let ?n = "pos_total_deposited (pos h z) - pos_locked_collateral (pos h z)"
  have r: "0 \<le> fh_fee_bps h" "fh_fee_bps h \<le> 10000" using i(1) by (simp_all add: fuzz_config_def)
  have "\<exists>a. largest_fitting h ?n = Some (Some a) \<and> 0 \<le> a \<and> cost h a \<le> ?n \<and> (\<forall>b. a < b \<longrightarrow> ?n < cost h b)"
  proof (cases "0 < ?n")
    case True
    have "?n * 10000 \<le> i128_max" using i by (simp add: i128_numerals user_funds_def)
    from largest_fitting_spec[OF r True this] show ?thesis .
  next
    case False
    then have n: "?n = 0" using i(2,4) by simp
    have "0 < cost h b" if "0 < b" for b using that fee_at_nonneg[OF r(1), of b] by (simp add: cost_def)
    then show ?thesis unfolding n by (simp add: largest_fitting_nothing cost_def fee_at_def)
  qed
  then show ?thesis by (force simp: max_withdrawable_def bind_def fuzz_available_run[OF assms] expect_def return_def)
qed

section \<open>Withdrawals\<close>

lemma refusal_value:
  assumes "inv h k z" and "0 < n" "n \<le> 2 * user_funds"
  shows "withdrawal_refusal (fuzz_env h (fz_time z)) (view (store (fz_chain z))) (fh_user h) (fh_market_id h) n
    = (if fuzz_in_cooldown z then Some WithdrawCooldownActive
       else if cost h n \<le> pos_total_deposited (pos h z) - pos_locked_collateral (pos h z) then None
       else Some InsufficientCollateral)"
proof -
  note i = invD[OF assms(1)]
  have cool: "in_cooldown (fuzz_env h (fz_time z)) (view (store (fz_chain z))) (fh_market_id h) (fh_user h)
      = fuzz_in_cooldown z"
    using i(6) by (cases "fm_last_deposit (fz_model z)") (simp_all add: in_cooldown_def
        fuzz_in_cooldown_def fuzz_env_def fuzz_cooldown_def withdraw_cooldown_seconds_def)
  note f = fee_at_bounds[OF i(1) assms(2)] fee_agrees[OF i(1) assms(2)]
  have sub: "saturating_sub (fm_deposited (fz_model z)) (pos_locked_collateral (pos h z))
      = fm_deposited (fz_model z) - pos_locked_collateral (pos h z)"
    using i by (simp add: saturating_sub_def in_i128_def i128_numerals user_funds_def)
  have "n * fh_fee_bps h \<le> 2 * user_funds * 10000"
    using assms(2,3) i(1) by (intro mult_mono) (auto simp: fuzz_config_def)
  then have m: "\<not> i128_max < n * fh_fee_bps h" "\<not> i128_max < n + fee_at h n" "\<not> max_reasonable_amount < n"
    using assms(2,3) f by (simp_all add: i128_numerals user_funds_def max_reasonable_amount_value)
  have "0 < cost h n" using assms(2) f(1) by (simp add: cost_def)
  with i m f(3) assms(2) show ?thesis
    by (auto simp: withdrawal_refusal_def Let_def fuzz_config_def cool sub cost_def not_less)
qed

lemma try_withdraw_refused:
  assumes "withdrawal_refusal (fuzz_env h (fz_time z)) (view (store (fz_chain z))) (fh_user h) (fh_market_id h) n
     = Some e"
  shows "try_withdraw h A T F n z = (Ok (Inl e), z)"
proof -
  have "authorized (fuzz_env h (fz_time z)) (fh_user h)" by (simp add: fuzz_env_def)
  from withdrawal_refused[OF this assms] obtain s' where
    "withdraw_unused_collateral (fuzz_env h (fz_time z)) A T F (fh_user h) (fh_market_id h) n (fz_chain z)
      = (Err e, s')" by blast
  then show ?thesis by (simp add: try_withdraw_def client_call_def run_simps)
qed

lemma fee_step:
  assumes i: "inv h k z" and n: "0 < n" and fee: "fee_at h n \<le> fm_deposited (fz_model z)"
    and mk: "mkt_collateral_token mk = fh_token h"
  shows "\<exists>x. fee_routed (fuzz_env h t) T F mk m (fee_at h n) (fh_treasury h) (ext (fz_chain z)) x
    \<and> (\<forall>t. fh_treasury h = Some t \<longrightarrow> accepts t (fh_market_addr h) x)
    \<and> money_agrees h balance collected x (model_withdraw h 0 (fee_at h n) (fz_model z)
        \<lparr>fm_deposited := fm_deposited (fz_model z) - fee_at h n\<rparr>)"
proof (cases "0 < fee_at h n")
  case False
  then have "fee_at h n = 0" using fee_at_bounds[OF invD(1)[OF i] n] by simp
  with i show ?thesis
    by (auto simp: fee_routed_def fuzz_inv_def money_agrees_def model_withdraw_def Let_def)
next
  case True
  note d = invD[OF i]
  show ?thesis
  proof (cases "fh_treasury h")
    case None
    with True i show ?thesis
      by (auto simp: fee_routed_def fuzz_inv_def money_agrees_def model_withdraw_def Let_def)
  next
    case (Some ta)
    let ?x = "ext (fz_chain z)" and ?f = "fee_at h n" and ?self = "fh_market_addr h"
    have ne: "ta \<noteq> fh_user h" "ta \<noteq> ?self" "fh_user h \<noteq> ?self"
      using d(1) Some by (auto simp: fuzz_config_def)
    from d(9) Some have m: "balance ?x (fh_token h) (fh_user h) = fm_user (fz_model z)"
      "balance ?x (fh_token h) ?self = fm_market (fz_model z)"
      "balance ?x (fh_token h) ta = fm_treasury (fz_model z)" "collected ?x = fm_treasury (fz_model z)"
      "fm_user (fz_model z) + fm_market (fz_model z) + fm_treasury (fz_model z) = user_funds"
      "0 \<le> fm_treasury (fz_model z)" "0 \<le> fm_user (fz_model z)" "fm_deposited (fz_model z) \<le> fm_market (fz_model z)"
      by (auto simp: money_agrees_def)
    obtain y where y: "tok_transfer T (fh_token h) ?self ta ?f ?x = Some ((), y)"
      using pays[of ?f ?x "fh_token h" ?self ta] True fee m by auto
    note mv = transfer_moves[OF y] and fr = transfer_frame[OF y, of ta ?self]
    have "accepts ta ?self y" using fr i Some by (simp add: fuzz_inv_def)
    moreover have "0 \<le> collected y" "in_i128 (collected y + ?f)"
      using fr m True fee by (simp_all add: in_i128_def i128_numerals user_funds_def)
    ultimately obtain x where x: "F ta ?self (fh_token h) m ?f y = Some ((), x)" "balance x = balance y"
      "collected x = collected y + ?f" "accepts ta ?self x"
      using sink[of ta ?self y ?f "fh_token h" m] True by auto
    have "fee_routed (fuzz_env h t) T F mk m ?f (fh_treasury h) ?x x"
      using True y x(1) by (auto simp: fee_routed_def Some fuzz_env_def mk)
    moreover have "money_agrees h balance collected x (model_withdraw h 0 ?f (fz_model z)
        \<lparr>fm_deposited := fm_deposited (fz_model z) - ?f\<rparr>)"
      using True m ne fr by (simp add: money_agrees_def model_withdraw_def Let_def Some x(2,3) mv)
    ultimately show ?thesis using x(4) Some by auto
  qed
qed

lemma model_withdraw_fields:
  "fm_deposited (model_withdraw h n f md) = fm_deposited md - (n + f)"
  "fm_user (model_withdraw h n f md) = fm_user md + n"
  "fm_market (model_withdraw h n f md) = fm_market (model_withdraw h 0 f md) - n"
  "fm_treasury (model_withdraw h n f md) = fm_treasury (model_withdraw h 0 f md)"
  "fm_last_deposit (model_withdraw h n f md) = fm_last_deposit md"
  by (auto simp: model_withdraw_def Let_def)

lemma config_withdrawn [simp]: "fuzz_config h (withdrawn_view v m a n) = fuzz_config h v"
  by (simp add: fuzz_config_def withdrawn_view_def)

text \<open>A withdrawal that fits is paid, and the model follows.\<close>

lemma withdraw_paid:
  assumes i: "inv h k z" and n: "0 < n" "n \<le> user_funds" and cool: "\<not> fuzz_in_cooldown z"
    and fit: "cost h n \<le> pos_total_deposited (pos h z) - pos_locked_collateral (pos h z)"
  shows "\<exists>s'. try_withdraw h A T F n z = (Ok (Inr ()), z\<lparr>fz_chain := s'\<rparr>)
    \<and> inv h k (z\<lparr>fz_chain := s', fz_model := model_withdraw h n (fee_at h n) (fz_model z)\<rparr>)
    \<and> pos_locked_collateral (pos h (z\<lparr>fz_chain := s'\<rparr>)) = pos_locked_collateral (pos h z)"
proof -
  let ?s = "fz_chain z" and ?E = "fuzz_env h (fz_time z)" and ?f = "fee_at h n" and ?u = "fh_user h"
  let ?v = "view (store ?s)" and ?md = "fz_model z" and ?self = "fh_market_addr h"
  note d = invD[OF i]
  note f = fee_at_bounds[OF d(1) n(1)] fee_agrees[OF d(1) n(1)]
  from d(1) obtain mk where mk: "v_markets ?v (fh_market_id h) = Some mk"
    "mkt_collateral_token mk = fh_token h" and ne: "?u \<noteq> ?self" and tr: "v_treasury ?v = fh_treasury h"
    "\<forall>t. fh_treasury h = Some t \<longrightarrow> t \<noteq> ?u \<and> t \<noteq> ?self"
    by (auto simp: fuzz_config_def)
  have cov: "n + ?f \<le> fm_deposited ?md" using fit d(2,3) by (simp add: cost_def)
  then have "?f \<le> fm_deposited ?md" using n(1) by simp
  from fee_step[OF i n(1) this mk(2), of "fz_time z" "fh_market_id h"] obtain x where
    x: "fee_routed ?E T F mk (fh_market_id h) ?f (fh_treasury h) (ext ?s) x"
    "\<forall>t. fh_treasury h = Some t \<longrightarrow> accepts t ?self x"
    and money: "money_agrees h balance collected x (model_withdraw h 0 ?f ?md
        \<lparr>fm_deposited := fm_deposited ?md - ?f\<rparr>)" by blast
  have "n \<le> balance x (fh_token h) ?self" using money cov by (simp add: money_agrees_def)
  with pays[of n x "fh_token h" ?self ?u] n(1) obtain y where
    y: "tok_transfer T (fh_token h) ?self ?u n x = Some ((), y)" by auto
  note mv = transfer_moves[OF y] and fr = transfer_frame[OF y]
  have ref: "withdrawal_refusal ?E ?v ?u (fh_market_id h) n = None"
    using refusal_value[OF i n(1)] n cool fit by (simp add: user_funds_def)
  have rng: "in_i128 (pos_total_deposited (pos h z))" "0 \<le> pos_locked_collateral (pos h z)"
    using d by (simp_all add: in_i128_def i128_numerals user_funds_def)
  obtain s' where s': "withdraw_unused_collateral ?E A T F ?u (fh_market_id h) n ?s = (Ok (), s')"
    "ext s' = y" "V s' = withdrawn_view ?v (fh_market_id h) ?u (n + ?f)"
    using withdraw_go[OF _ ref rng(2,1) mk(1), where T = T and F = F and x = x and y = y] x(1) y cov f d(5) tr(1)
    by (auto simp: fuzz_env_def mk(2))
  have run: "try_withdraw h A T F n z = (Ok (Inr ()), z\<lparr>fz_chain := s'\<rparr>)"
    using s'(1) by (simp add: try_withdraw_def client_call_def run_simps)
  have lock: "pos_locked_collateral (pos h (z\<lparr>fz_chain := s'\<rparr>)) = pos_locked_collateral (pos h z)"
    by (simp add: s'(3) withdrawn_view_def position_in_def)
  have "position_agrees h (V s') (model_withdraw h n ?f ?md)"
    using d cov fit by (simp add: s'(3) position_agrees_def Let_def withdrawn_view_def position_in_def[of _ "fh_market_id h"]
        model_withdraw_fields[of h n] cost_def)
  moreover have "money_agrees h balance collected y (model_withdraw h n ?f ?md)"
    using money ne tr(2) fr n(1) by (auto simp: money_agrees_def model_withdraw_fields[of h n]
        model_withdraw_fields(2)[of h 0] mv split: option.splits)
  moreover have "bounds_hold k (fz_time z) (model_withdraw h n ?f ?md)"
    using i n(1) by (simp add: fuzz_inv_def bounds_hold_def model_withdraw_fields[of h n])
  ultimately have "inv h k (z\<lparr>fz_chain := s', fz_model := model_withdraw h n ?f ?md\<rparr>)"
    using d(1) x(2) fr by (simp add: fuzz_inv_def s'(2,3))
  with run lock show ?thesis by blast
qed

lemma check_withdraw_go:
  assumes i: "inv h k z" and n: "0 < n" "n \<le> user_funds"
  shows "\<exists>z'. check_withdraw h A T F n z = (Ok (), z') \<and> inv h k z'"
proof -
  note d = invD[OF i]
  let ?av = "pos_total_deposited (pos h z) - pos_locked_collateral (pos h z)"
  have sub: "checked_sub (pos_total_deposited (pos h z)) (pos_locked_collateral (pos h z)) = Some ?av"
    using d by (simp add: checked_sub_def in_i128_def i128_numerals user_funds_def)
  have ref: "withdrawal_refusal (fuzz_env h (fz_time z)) (view (store (fz_chain z))) (fh_user h) (fh_market_id h) n
    = (if fuzz_in_cooldown z then Some WithdrawCooldownActive
       else if cost h n \<le> ?av then None else Some InsufficientCollateral)"
    using refusal_value[OF i n(1)] n by (simp add: user_funds_def)
  have fee: "fuzz_fee h n = Some (fee_at h n)" using fuzz_fee_in_test[OF d(1)] n by (simp add: user_funds_def)
  have "checked_add n (fee_at h n) = Some (cost h n)"
    using n fee_at_bounds[OF d(1) n(1)] by (simp add: checked_add_def cost_def in_i128_def i128_numerals user_funds_def)
  note run = check_withdraw_def bind_def fuzz_position_run[OF i] gets_def sub_i128_def add_i128_def expect_def sub
    return_def prop_assert_def ensure_def andthen_def modify_def Let_def fee this
  consider "fuzz_in_cooldown z" | "\<not> fuzz_in_cooldown z" "cost h n \<le> ?av"
    | "\<not> fuzz_in_cooldown z" "\<not> cost h n \<le> ?av" by blast
  then show ?thesis
  proof cases
    case 1
    with ref have "try_withdraw h A T F n z = (Ok (Inl WithdrawCooldownActive), z)"
      by (intro try_withdraw_refused) simp
    with 1 i show ?thesis by (simp add: run)
  next
    case 2
    from withdraw_paid[OF i n 2] obtain s' where
      s': "try_withdraw h A T F n z = (Ok (Inr ()), z\<lparr>fz_chain := s'\<rparr>)"
      "inv h k (z\<lparr>fz_chain := s', fz_model := model_withdraw h n (fee_at h n) (fz_model z)\<rparr>)" by blast
    moreover have "\<not> fuzz_in_cooldown (z\<lparr>fz_chain := s'\<rparr>)" using 2(1)
      by (cases "fm_last_deposit (fz_model z)") (simp_all add: fuzz_in_cooldown_def)
    ultimately show ?thesis using 2(2) by (simp add: run)
  next
    case 3
    with ref have "try_withdraw h A T F n z = (Ok (Inl InsufficientCollateral), z)"
      by (intro try_withdraw_refused) simp
    with 3 i show ?thesis by (simp add: run)
  qed
qed

section \<open>The operations of the test\<close>

lemma inv_Suc: "inv h k z \<Longrightarrow> inv h (Suc k) z"
  by (auto simp: fuzz_inv_def bounds_hold_def)

lemma skip_cooldown_run:
  assumes "inv h k z" and "k < 1000"
  shows "skip_cooldown z = (Ok (), z\<lparr>fz_time := fz_time z + 3601\<rparr>)"
    "inv h (Suc k) (z\<lparr>fz_time := fz_time z + 3601\<rparr>)" "\<not> fuzz_in_cooldown (z\<lparr>fz_time := fz_time z + 3601\<rparr>)"
proof -
  from assms have "fz_time z \<le> fuzz_start + 3601 * k" by (simp add: fuzz_inv_def bounds_hold_def)
  with assms(2) have "fz_time z + 3601 \<le> u64_max" by (simp add: fuzz_start_def i128_numerals)
  then show "skip_cooldown z = (Ok (), z\<lparr>fz_time := fz_time z + 3601\<rparr>)"
    by (simp add: skip_cooldown_def run_simps fuzz_cooldown_def)
  show "inv h (Suc k) (z\<lparr>fz_time := fz_time z + 3601\<rparr>)"
    using assms(1) by (auto simp: fuzz_inv_def bounds_hold_def)
  show "\<not> fuzz_in_cooldown (z\<lparr>fz_time := fz_time z + 3601\<rparr>)"
    using assms(1) by (auto simp: fuzz_inv_def bounds_hold_def fuzz_in_cooldown_def fuzz_cooldown_def
        split: option.splits)
qed

lemma skip_cooldown_go:
  "inv h k z \<Longrightarrow> k < 1000 \<Longrightarrow>
    \<exists>z'. skip_cooldown z = (Ok (), z') \<and> inv h (Suc k) z' \<and> \<not> fuzz_in_cooldown z'"
  using skip_cooldown_run by blast

lemma deposit_paid:
  assumes i: "inv h k z" and n: "1 \<le> n" "n \<le> 1000000000" and k: "k < 1000"
  shows "\<exists>s'. harness_deposit h A T n z = (Ok (), z\<lparr>fz_chain := s'\<rparr>)
    \<and> inv h (Suc k) (z\<lparr>fz_chain := s', fz_model := model_deposit (fz_time z) n (fz_model z)\<rparr>)
    \<and> pos_locked_collateral (pos h (z\<lparr>fz_chain := s'\<rparr>)) = pos_locked_collateral (pos h z)"
proof -
  let ?s = "fz_chain z" and ?E = "fuzz_env h (fz_time z)" and ?u = "fh_user h" and ?md = "fz_model z"
  let ?v = "view (store ?s)" and ?self = "fh_market_addr h"
  note d = invD[OF i]
  from i have b: "fz_time z \<le> fuzz_start + 3601 * k" "user_funds - 1000000000 * int k \<le> fm_user ?md"
    by (simp_all add: fuzz_inv_def bounds_hold_def)
  from d(1) obtain mk where mk: "v_markets ?v (fh_market_id h) = Some mk"
    "mkt_status mk = MarketActive" "\<not> mkt_closed_to_deposits mk" "mkt_collateral_token mk = fh_token h"
    "mkt_end_time mk = fuzz_end"
    and c: "v_ready ?v" "v_mode ?v = Normal" "\<not> v_deposit_locked ?v" "?u \<noteq> ?self"
      "\<forall>t. fh_treasury h = Some t \<longrightarrow> t \<noteq> ?u \<and> t \<noteq> ?self"
    by (auto simp: fuzz_config_def)
  have "fz_time z < fuzz_end" using b(1) k by (simp add: fuzz_end_def)
  then have ref: "deposit_refusal ?E ?v (fh_market_id h) n = None"
    using mk c n by (simp add: deposit_refusal_def fuzz_env_def max_reasonable_amount_value)
  have money: "n \<le> balance (ext ?s) (fh_token h) ?u"
    using d(9) b(2) n k by (simp add: money_agrees_def user_funds_def)
  with pays[of n "ext ?s" "fh_token h" ?u ?self] n obtain y where
    y: "tok_transfer T (fh_token h) ?u ?self n (ext ?s) = Some ((), y)" by auto
  note mv = transfer_moves[OF y] and fr = transfer_frame[OF y]
  have fits: "in_i128 (v_balance ?v ?u + n)" "in_i128 (pos_total_deposited (pos h z) + n)"
    using d n by (simp_all add: in_i128_def i128_numerals user_funds_def)
  obtain s' where s': "deposit_collateral ?E A T ?u (fh_market_id h) n ?s = (Ok (), s')" "ext s' = y"
    "V s' = deposited_view ?E ?v (fh_market_id h) ?u n"
    using deposit_go[OF _ ref mk(1) fits] y mk(4) by (auto simp: fuzz_env_def)
  let ?z' = "z\<lparr>fz_chain := s', fz_model := model_deposit (fz_time z) n ?md\<rparr>"
  have run: "harness_deposit h A T n z = (Ok (), z\<lparr>fz_chain := s'\<rparr>)"
    using s'(1) by (simp add: harness_deposit_def client_call_def run_simps)
  have "pos_locked_collateral (pos h (z\<lparr>fz_chain := s'\<rparr>)) = pos_locked_collateral (pos h z)"
    by (simp add: s'(3) deposited_view_def position_in_def)
  note run = run this
  have "fuzz_config h (V s')" using d(1) by (simp add: s'(3) fuzz_config_def deposited_view_def)
  moreover have "position_agrees h (V s') (model_deposit (fz_time z) n ?md)"
    using d n by (simp add: s'(3) position_agrees_def Let_def deposited_view_def
        position_in_def[of _ "fh_market_id h"] model_deposit_def fuzz_env_def)
  moreover have "money_agrees h balance collected y (model_deposit (fz_time z) n ?md)"
    using d(9) c(4,5) fr n money by (auto simp: money_agrees_def model_deposit_def mv split: option.splits)
  moreover have "bounds_hold (Suc k) (fz_time z) (model_deposit (fz_time z) n ?md)"
    using b n by (simp add: bounds_hold_def model_deposit_def)
  ultimately have "inv h (Suc k) ?z'" using i fr by (simp add: fuzz_inv_def s'(2))
  with run show ?thesis by blast
qed

lemma deposit_step_go:
  assumes "inv h k z" and "1 \<le> n" "n \<le> 1000000000" and "k < 1000"
  shows "\<exists>z'. fuzz_op h A T F (trade h) (OpDeposit n) z = (Ok (), z') \<and> inv h (Suc k) z'"
proof -
  from deposit_paid[OF assms] obtain s' where "harness_deposit h A T n z = (Ok (), z\<lparr>fz_chain := s'\<rparr>)"
    "inv h (Suc k) (z\<lparr>fz_chain := s', fz_model := model_deposit (fz_time z) n (fz_model z)\<rparr>)" by blast
  then show ?thesis by (simp add: fuzz_op_def run_simps)
qed

text \<open>
  A trade keeps the deposit, because the update does; its lock stays below the deposit, because it
  either does not grow or is covered by the protocol balance, which agrees with the deposit.
\<close>

lemma traded_lock:
  assumes i: "inv h k z"
    and up: "update_position_persist E A shown (fh_market_id h) (fh_user h) yes 0 price_bps s1 = (Ok p, s2)"
    and b1: "beside_the_update h (view (store (fz_chain z))) (V s1)"
    and cov: "pos_locked_collateral (pos h z) < pos_locked_collateral p \<longrightarrow> 0 \<le> elsewhere \<and>
      check_protocol_collateral (pos_locked_collateral p) (v_balance (view (store (fz_chain z))) (fh_user h)) elsewhere
        = Inr ()"
  shows "V s2 = (V s1)\<lparr>v_positions := (v_positions (V s1))((fh_market_id h, fh_user h) \<mapsto> p)\<rparr>"
    "ext s2 = ext s1" "pos_total_deposited p = fm_deposited (fz_model z)" "0 \<le> pos_locked_collateral p"
    "pos_locked_collateral p \<le> fm_deposited (fz_model z)"
proof -
  note d = invD[OF i]
  let ?q = "position_of s1 (fh_market_id h) (fh_user h)"
  have q: "?q = pos h z" using b1 by (simp add: beside_the_update_def position_in_def)
  have ready: "v_ready (V s1)" using b1 d(1) by (simp add: beside_the_update_def fuzz_config_def)
  from update_ok[OF up ready] obtain l where
    sh: "0 \<le> pos_yes_shares ?q + yes" "0 \<le> pos_no_shares ?q + 0" "in_i128 (pos_yes_shares ?q + yes)"
      "in_i128 (pos_no_shares ?q + 0)"
    and l: "calculate_locked_collateral (pos_yes_shares ?q + yes) (pos_no_shares ?q + 0) price_bps = Some l"
    and p: "p = ?q\<lparr>pos_yes_shares := pos_yes_shares ?q + yes, pos_no_shares := pos_no_shares ?q + 0,
       pos_locked_collateral := l\<rparr>"
    and st: "V s2 = (V s1)\<lparr>v_positions := (v_positions (V s1))((fh_market_id h, fh_user h) \<mapsto> p)\<rparr>"
      "ext s2 = ext s1" by metis
  let ?n = "\<bar>pos_yes_shares ?q + yes - (pos_no_shares ?q + 0)\<bar>"
  have n: "0 \<le> ?n" "?n \<le> i128_max" using sh by (auto simp: in_i128_def abs_le_iff)
  have scaled: "l = scale_by_bps ?n 5000"
    using locked_collateral_value[of "pos_yes_shares ?q + yes" "pos_no_shares ?q + 0" 5000] sh l
    by (simp add: in_i128_def price_bps_def cong: if_cong)
  have l: "0 \<le> l" "l \<le> i128_max"
    unfolding scaled using n(2) scale_by_bps_bounds[OF n(1), of 5000] by linarith+
  show "V s2 = (V s1)\<lparr>v_positions := (v_positions (V s1))((fh_market_id h, fh_user h) \<mapsto> p)\<rparr>" "ext s2 = ext s1"
    by (fact st)+
  show "pos_total_deposited p = fm_deposited (fz_model z)" using d(2) by (simp add: p q)
  show "0 \<le> pos_locked_collateral p" using l by (simp add: p)
  show "pos_locked_collateral p \<le> fm_deposited (fz_model z)"
  proof (cases "pos_locked_collateral (pos h z) < l")
    case True
    with cov have "saturating_add l elsewhere \<le> fm_deposited (fz_model z)" "0 \<le> elsewhere"
      by (auto simp: p check_protocol_collateral_def check_def d(5) split: if_splits)
    moreover have "l \<le> saturating_add l elsewhere"
      using l \<open>0 \<le> elsewhere\<close> by (auto simp: saturating_add_def clamp_i128_def in_i128_def i128_numerals)
    ultimately show ?thesis by (simp add: p)
  next
    case False
    with d(4) show ?thesis by (simp add: p)
  qed
qed

lemma trade_kept:
  assumes i: "inv h k z" and run: "trade h n E (fz_chain z) = (Ok v, s')"
  shows "inv h k (z\<lparr>fz_chain := s'\<rparr>)"
    and "pos_total_deposited (pos h (z\<lparr>fz_chain := s'\<rparr>)) = pos_total_deposited (pos h z)"
proof -
  note d = invD[OF i]
  from trade_updates_the_position[OF run] obtain s1 s2 shown p elsewhere where
    up: "update_position_persist E A shown (fh_market_id h) (fh_user h) n 0 price_bps s1 = (Ok p, s2)"
    and b1: "beside_the_update h (view (store (fz_chain z))) (V s1)" and b2: "beside_the_update h (V s2) (V s')"
    and m: "no_money_moves h balance collected accepts (ext (fz_chain z)) (ext s1)"
      "no_money_moves h balance collected accepts (ext s2) (ext s')"
    and cov: "pos_locked_collateral (pos h z) < pos_locked_collateral p \<longrightarrow> 0 \<le> elsewhere \<and>
      check_protocol_collateral (pos_locked_collateral p) (v_balance (view (store (fz_chain z))) (fh_user h)) elsewhere
        = Inr ()" by blast
  note t = traded_lock[OF i up b1 cov]
  have p: "position_in (V s') (fh_market_id h) (fh_user h) = p"
    using b2 by (simp add: beside_the_update_def t(1) position_in_def)
  have config: "fuzz_config h (V s')" using d(1) b1 b2 by (simp add: beside_the_update_def t(1) fuzz_config_def)
  moreover have "position_agrees h (V s') (fz_model z)"
    using d(5,6) t(3-5) b1 b2 by (simp add: position_agrees_def Let_def p beside_the_update_def t(1))
  moreover have "money_agrees h balance collected (ext s') (fz_model z)"
    using d(9) m by (simp add: money_agrees_def no_money_moves_def t(2) split: option.splits)
  moreover have "\<forall>t. fh_treasury h = Some t \<longrightarrow> accepts t (fh_market_addr h) (ext s')"
    using i m by (simp add: fuzz_inv_def no_money_moves_def t(2))
  ultimately show "inv h k (z\<lparr>fz_chain := s'\<rparr>)" using i by (simp add: fuzz_inv_def)
  show "pos_total_deposited (pos h (z\<lparr>fz_chain := s'\<rparr>)) = pos_total_deposited (pos h z)"
    using d(2) by (simp add: p t(3))
qed

lemma trade_step_go:
  assumes i: "inv h k z"
  shows "\<exists>z'. fuzz_op h A T F (trade h) (OpTrade n) z = (Ok (), z') \<and> inv h (Suc k) z'"
proof -
  let ?s = "fz_chain z" and ?E = "fuzz_env h (fz_time z)"
  note d = invD[OF i] and p = fuzz_position_run[OF i]
  obtain res s' where r: "trade h n ?E ?s = (res, s')" by fastforce
  show ?thesis
  proof (cases res)
    case (Ok v)
    from trade_kept[OF i r[unfolded Ok]] obtain q where q: "inv h k (z\<lparr>fz_chain := s'\<rparr>)"
      "pos h (z\<lparr>fz_chain := s'\<rparr>) = q" "pos_total_deposited q = pos_total_deposited (pos h z)" by blast
    let ?z = "z\<lparr>fz_chain := s'\<rparr>"
    note j = q(1)
    have "pos h ?z = q" by (fact q(2))
    then have "fuzz_op h A T F (trade h) (OpTrade n) z = (Ok (), ?z)"
      using p fuzz_position_run[OF j] r Ok q(3)
      by (simp add: fuzz_op_def client_call_def run_simps prop_assert_def)
    with inv_Suc[OF j] show ?thesis by blast
  next
    case (Err e)
    with p r have "fuzz_op h A T F (trade h) (OpTrade n) z = (Ok (), z)"
      by (simp add: fuzz_op_def client_call_def run_simps prop_assert_def)
    with inv_Suc[OF i] show ?thesis by blast
  next
    case Panic
    with p r have "fuzz_op h A T F (trade h) (OpTrade n) z = (Ok (), z)"
      by (simp add: fuzz_op_def client_call_def run_simps prop_assert_def)
    with inv_Suc[OF i] show ?thesis by blast
  qed
qed

lemma withdraw_max_step_go:
  assumes i: "inv h k z" and k: "k < 1000"
  shows "\<exists>z'. fuzz_op h A T F (trade h) OpWithdrawMax z = (Ok (), z') \<and> inv h (Suc k) z'"
proof -
  from skip_cooldown_go[OF i k] obtain z1 where z1: "skip_cooldown z = (Ok (), z1)" "inv h (Suc k) z1"
    by blast
  from max_withdrawable_run[OF z1(2)] obtain a where a: "max_withdrawable h A z1 = (Ok a, z1)"
    "cost h a \<le> pos_total_deposited (pos h z1) - pos_locked_collateral (pos h z1)" "0 \<le> a" by blast
  show ?thesis
  proof (cases "0 < a")
    case True
    note d = invD[OF z1(2)]
    have "a \<le> user_funds" using a(2) d True fee_at_bounds(1)[OF d(1) True] by (simp add: cost_def)
    from check_withdraw_go[OF z1(2) True this] obtain z2 where
      z2: "check_withdraw h A T F a z1 = (Ok (), z2)" "inv h (Suc k) z2" by blast
    have "0 \<le> pos_total_deposited (pos h z2) - pos_locked_collateral (pos h z2)"
      using invD[OF z2(2)] by simp
    then have "fuzz_op h A T F (trade h) OpWithdrawMax z = (Ok (), z2)"
      using True by (simp add: fuzz_op_def andthen_def bind_def z1(1) a(1) z2(1) when_do_def
          fuzz_available_run[OF z2(2)] prop_assert_def ensure_def return_def)
    with z2(2) show ?thesis by blast
  next
    case False
    then have "fuzz_op h A T F (trade h) OpWithdrawMax z = (Ok (), z1)"
      by (simp add: fuzz_op_def andthen_def bind_def z1(1) a(1) when_do_def return_def)
    with z1(2) show ?thesis by blast
  qed
qed

lemma withdraw_max_plus_one_step_go:
  assumes i: "inv h k z" and k: "k < 1000"
  shows "\<exists>z'. fuzz_op h A T F (trade h) OpWithdrawMaxPlusOne z = (Ok (), z') \<and> inv h (Suc k) z'"
proof -
  from skip_cooldown_go[OF i k] obtain z1 where z1: "skip_cooldown z = (Ok (), z1)" "inv h (Suc k) z1"
    "\<not> fuzz_in_cooldown z1" by blast
  from max_withdrawable_run[OF z1(2)] obtain a where a: "max_withdrawable h A z1 = (Ok a, z1)" "0 \<le> a"
    "cost h a \<le> pos_total_deposited (pos h z1) - pos_locked_collateral (pos h z1)"
    "pos_total_deposited (pos h z1) - pos_locked_collateral (pos h z1) < cost h (a + 1)" by force
  note d = invD[OF z1(2)]
  have "a \<le> user_funds"
    using a(2,3) d fee_at_nonneg[of h a] by (simp add: cost_def fuzz_config_def)
  moreover from this have "checked_add a 1 = Some (a + 1)"
    using a(2) by (simp add: checked_add_def in_i128_def i128_numerals user_funds_def)
  ultimately have "try_withdraw h A T F (a + 1) z1 = (Ok (Inl InsufficientCollateral), z1)"
    "checked_add a 1 = Some (a + 1)"
    using refusal_value[OF z1(2), of "a + 1"] a(2,4) z1(3)
    by (auto intro!: try_withdraw_refused simp: user_funds_def)
  then have "fuzz_op h A T F (trade h) OpWithdrawMaxPlusOne z = (Ok (), z1)"
    by (simp add: fuzz_op_def andthen_def bind_def z1(1) a(1) fuzz_position_run[OF z1(2)]
        prop_assert_def ensure_def return_def add_i128_def expect_def)
  with z1(2) show ?thesis by blast
qed

text \<open>No amount of the extreme ones passes: none of them can be covered.\<close>

lemma withdraw_extreme_step_go:
  assumes i: "inv h k z" and k: "k < 1000"
    and n: "n \<in> {0, -1, i128_min, i128_max, i128_max sdiv 2, i128_max sdiv 2 + 1}"
  shows "\<exists>z'. fuzz_op h A T F (trade h) (OpWithdrawExtreme n) z = (Ok (), z') \<and> inv h (Suc k) z'"
proof -
  from skip_cooldown_go[OF i k] obtain z1 where z1: "skip_cooldown z = (Ok (), z1)" "inv h (Suc k) z1"
    by blast
  note d = invD[OF z1(2)]
  have "withdrawal_refusal (fuzz_env h (fz_time z1)) (view (store (fz_chain z1))) (fh_user h) (fh_market_id h) n
      \<noteq> None"
  proof
    assume r: "withdrawal_refusal (fuzz_env h (fz_time z1)) (view (store (fz_chain z1))) (fh_user h)
      (fh_market_id h) n = None"
    have "in_i128 (pos_total_deposited (pos h z1))" using d by (simp add: in_i128_def i128_numerals user_funds_def)
    from refusal_None_covers[OF r d(3) this] have "0 < n" "n \<le> pos_total_deposited (pos h z1)"
      using d(3) by auto
    with d n show False
      by (auto simp: i128_numerals user_funds_def signed_divide_int_def)
  qed
  then obtain e where "try_withdraw h A T F n z1 = (Ok (Inl e), z1)" using try_withdraw_refused by blast
  then have "fuzz_op h A T F (trade h) (OpWithdrawExtreme n) z = (Ok (), z1)"
    by (simp add: fuzz_op_def andthen_def bind_def z1(1) fuzz_position_run[OF z1(2)]
        prop_assert_def ensure_def return_def)
  with z1(2) show ?thesis by blast
qed

lemma fuzz_op_go:
  assumes i: "inv h k z" and k: "k < 1000" and op: "arb_op op"
  shows "\<exists>z'. fuzz_op h A T F (trade h) op z = (Ok (), z') \<and> inv h (Suc k) z'"
proof (cases op)
  case (OpDeposit n)
  with op deposit_step_go[OF i _ _ k] show ?thesis by (simp add: arb_op_def)
next
  case (OpWithdraw n)
  with op have n: "0 < n" "n \<le> user_funds" by (simp_all add: arb_op_def user_funds_def)
  from skip_cooldown_go[OF i k] obtain z1 where z1: "skip_cooldown z = (Ok (), z1)" "inv h (Suc k) z1"
    by blast
  with check_withdraw_go[OF z1(2) n] show ?thesis
    by (auto simp: OpWithdraw fuzz_op_def andthen_def bind_def)
next
  case OpWithdrawMax
  with withdraw_max_step_go[OF i k] show ?thesis by simp
next
  case OpWithdrawMaxPlusOne
  with withdraw_max_plus_one_step_go[OF i k] show ?thesis by simp
next
  case (OpWithdrawImmediately n)
  with op have n: "0 < n" "n \<le> user_funds" by (simp_all add: arb_op_def user_funds_def)
  from check_withdraw_go[OF inv_Suc[OF i] n] show ?thesis by (simp add: OpWithdrawImmediately fuzz_op_def)
next
  case (OpWithdrawExtreme n)
  with op withdraw_extreme_step_go[OF i k] show ?thesis by (simp add: arb_op_def)
next
  case (OpTrade n)
  with trade_step_go[OF i] show ?thesis by simp
qed

lemma check_invariants_go:
  assumes "inv h k z"
  shows "check_invariants h A balance collected z = (Ok (), z)"
  using invD[OF assms]
  by (auto simp: check_invariants_def bind_def andthen_def gets_def fuzz_position_run[OF assms]
      prop_assert_def ensure_def return_def reads money_agrees_def split: option.splits)

text \<open>Every sequence passes, and leaves a state on which further operations pass.\<close>

lemma fuzz_sequence_go:
  assumes "inv h k z" and "k + length ops \<le> 1000" and "list_all arb_op ops"
  shows "\<exists>z'. fuzz_sequence h A T F (trade h) balance collected ops z = (Ok (), z')
    \<and> inv h (k + length ops) z'"
  using assms
proof (induction ops arbitrary: k z)
  case Nil
  then show ?case by (simp add: fuzz_sequence_def return_def)
next
  case (Cons op ops)
  then obtain z1 where z1: "fuzz_op h A T F (trade h) op z = (Ok (), z1)" "inv h (Suc k) z1"
    using fuzz_op_go[of h k z op] by auto
  from Cons.IH[OF z1(2)] Cons.prems obtain z2 where
    "fuzz_sequence h A T F (trade h) balance collected ops z1 = (Ok (), z2)" "inv h (Suc k + length ops) z2"
    by auto
  with z1 check_invariants_go[OF z1(2)] show ?case
    by (simp add: fuzz_sequence_def andthen_def bind_def)
qed

end

end
