(* ===== verification/Market_Fuzz_Boundary.thy ===== *)
theory Market_Fuzz_Boundary
  imports Market_Fuzz_World
begin

text \<open>
  The boundary tests of \<^verbatim>\<open>withdraw_fuzz.rs\<close>: a waived user withdraws everything, the largest
  withdrawal is exact, and round trips at the maximal fee. They
  keep no model; their proofs carry it along as a ghost.
\<close>

section \<open>The tests\<close>

definition prop_waived_user_withdraws_full_available_fee_free :: "fuzz_harness \<Rightarrow> 'r market_accessors
    \<Rightarrow> 'x token_client \<Rightarrow> 'x fee_sink \<Rightarrow> ('x \<Rightarrow> address \<Rightarrow> address \<Rightarrow> int) \<Rightarrow> i128
    \<Rightarrow> ('x, 'r, unit) fuzz_test" where
  "prop_waived_user_withdraws_full_available_fee_free h A T F balance deposit =
     andthen (harness_deposit h A T deposit)
     (andthen skip_cooldown
     (bind (try_withdraw h A T F deposit) (\<lambda>result.
     andthen (prop_assert (result = Inr ()))
     (bind (fuzz_position h A) (\<lambda>p.
     andthen (prop_assert (pos_total_deposited p = 0))
     (bind (gets fz_chain) (\<lambda>s.
     andthen (prop_assert (balance (ext s) (fh_token h) (fh_user h) = user_funds))
     (andthen (prop_assert (balance (ext s) (fh_token h) (fh_market_addr h) = 0))
     (bind (try_withdraw h A T F 1) (\<lambda>again.
     prop_assert (again = Inl InsufficientCollateral)))))))))))"

definition prop_fee_on_top_boundary_is_exact :: "fuzz_harness \<Rightarrow> 'r market_accessors
    \<Rightarrow> 'x token_client \<Rightarrow> 'x fee_sink \<Rightarrow> i128 \<Rightarrow> ('x, 'r, unit) fuzz_test" where
  "prop_fee_on_top_boundary_is_exact h A T F deposit =
     andthen (harness_deposit h A T deposit)
     (andthen skip_cooldown
     (bind (max_withdrawable h A) (\<lambda>a.
     if a = 0 then bind (try_withdraw h A T F 1) (\<lambda>result. prop_assert (result = Inl InsufficientCollateral))
     else
       bind (add_i128 a 1) (\<lambda>more.
       bind (try_withdraw h A T F more) (\<lambda>over.
       andthen (prop_assert (over = Inl InsufficientCollateral))
       (bind (try_withdraw h A T F a) (\<lambda>result.
       andthen (prop_assert (result = Inr ()))
       (bind (fuzz_position h A) (\<lambda>p.
       let left = pos_total_deposited p in
       bind (expect (fuzz_fee h a)) (\<lambda>fee.
       bind (sub_i128 deposit a) (\<lambda>rest.
       bind (sub_i128 rest fee) (\<lambda>expected.
       andthen (prop_assert (left = expected))
       (prop_assert (left \<ge> 0))))))))))))))"

text \<open>One round of the loop: deposit, wait, withdraw as much as possible; the fees are summed up.\<close>

primrec round_trips :: "fuzz_harness \<Rightarrow> 'r market_accessors \<Rightarrow> 'x token_client \<Rightarrow> 'x fee_sink \<Rightarrow> nat
    \<Rightarrow> i128 \<Rightarrow> ('x, 'r, i128) fuzz_test" where
  "round_trips h A T F 0 routed = return routed"
| "round_trips h A T F (Suc k) routed =
     andthen (harness_deposit h A T 1001)
     (andthen skip_cooldown
     (bind (max_withdrawable h A) (\<lambda>a.
     andthen (prop_assert (a > 0))
     (bind (try_withdraw h A T F a) (\<lambda>result.
     andthen (prop_assert (result = Inr ()))
     (bind (expect (fuzz_fee h a)) (\<lambda>fee.
     bind (add_i128 routed fee) (\<lambda>routed'.
     bind (fuzz_position h A) (\<lambda>p.
     andthen (prop_assert (pos_total_deposited p \<ge> 0))
     (round_trips h A T F k routed'))))))))))"

definition repeated_round_trips_at_max_fee_stay_non_negative :: "fuzz_harness \<Rightarrow> 'r market_accessors
    \<Rightarrow> 'x token_client \<Rightarrow> 'x fee_sink \<Rightarrow> ('x \<Rightarrow> address \<Rightarrow> address \<Rightarrow> int) \<Rightarrow> ('x, 'r, unit) fuzz_test" where
  "repeated_round_trips_at_max_fee_stay_non_negative h A T F balance =
     bind (round_trips h A T F 5 0) (\<lambda>routed.
     bind (expect (fh_treasury h)) (\<lambda>treasury.
     bind (gets fz_chain) (\<lambda>s.
     andthen (prop_assert (balance (ext s) (fh_token h) treasury = routed))
     (bind (fuzz_position h A) (\<lambda>p.
     prop_assert (balance (ext s) (fh_token h) (fh_market_addr h) = pos_total_deposited p))))))"

section \<open>Nothing but the assertions looks at the model\<close>

lemma client_call_model:
  "client_call m h (z\<lparr>fz_model := md\<rparr>) = map_prod id (fz_model_update (\<lambda>_. md)) (client_call m h z)"
  by (simp add: client_call_def split: prod.split)

lemma fuzz_position_model:
  "fuzz_position h A (z\<lparr>fz_model := md\<rparr>) = map_prod id (fz_model_update (\<lambda>_. md)) (fuzz_position h A z)"
  by (simp add: fuzz_position_def run_simps split: sum.split option.split)

lemma other_model:
  "harness_deposit h A T n z = (Ok (), z') \<Longrightarrow>
     harness_deposit h A T n (z\<lparr>fz_model := md\<rparr>) = (Ok (), z'\<lparr>fz_model := md\<rparr>)"
  "try_withdraw h A T F n z = (Ok r, z') \<Longrightarrow>
     try_withdraw h A T F n (z\<lparr>fz_model := md\<rparr>) = (Ok r, z'\<lparr>fz_model := md\<rparr>)"
  "skip_cooldown z = (Ok (), z') \<Longrightarrow> skip_cooldown (z\<lparr>fz_model := md\<rparr>) = (Ok (), z'\<lparr>fz_model := md\<rparr>)"
  "fuzz_position h A z = (Ok p, z') \<Longrightarrow>
     fuzz_position h A (z\<lparr>fz_model := md\<rparr>) = (Ok p, z'\<lparr>fz_model := md\<rparr>)"
  "max_withdrawable h A z = (Ok n, z') \<Longrightarrow>
     max_withdrawable h A (z\<lparr>fz_model := md\<rparr>) = (Ok n, z'\<lparr>fz_model := md\<rparr>)"
proof -
  show "harness_deposit h A T n (z\<lparr>fz_model := md\<rparr>) = (Ok (), z'\<lparr>fz_model := md\<rparr>)"
    if "harness_deposit h A T n z = (Ok (), z')"
    using that by (auto simp: harness_deposit_def bind_def client_call_model return_def panic_def
        split: prod.splits result.splits)
  show "try_withdraw h A T F n (z\<lparr>fz_model := md\<rparr>) = (Ok r, z'\<lparr>fz_model := md\<rparr>)"
    if "try_withdraw h A T F n z = (Ok r, z')"
    using that by (auto simp: try_withdraw_def bind_def client_call_model return_def panic_def
        split: prod.splits result.splits)
  show "skip_cooldown (z\<lparr>fz_model := md\<rparr>) = (Ok (), z'\<lparr>fz_model := md\<rparr>)" if "skip_cooldown z = (Ok (), z')"
    using that by (auto simp: skip_cooldown_def run_simps split: option.splits if_splits)
  show "fuzz_position h A (z\<lparr>fz_model := md\<rparr>) = (Ok p, z'\<lparr>fz_model := md\<rparr>)"
    if "fuzz_position h A z = (Ok p, z')" using that by (simp add: fuzz_position_model)
  show "max_withdrawable h A (z\<lparr>fz_model := md\<rparr>) = (Ok n, z'\<lparr>fz_model := md\<rparr>)"
    if "max_withdrawable h A z = (Ok n, z')"
    using that by (auto simp: max_withdrawable_def fuzz_available_def bind_def fuzz_position_model run_simps
        split: prod.splits result.splits option.splits if_splits)
qed

section \<open>The tests pass\<close>

definition fresh_model :: fuzz_model where
  "fresh_model = \<lparr>fm_deposited = 0, fm_user = user_funds, fm_market = 0, fm_treasury = 0,
     fm_last_deposit = None\<rparr>"

context fuzz_world
begin

text \<open>
  The state of a test that keeps no model, with the model carried along as a ghost: \<open>g\<close> agrees
  with its model, the test runs on \<open>g\<close> with any other one.
\<close>

lemma ghost_deposit:
  assumes i: "inv h k g" and "k < 998" and n: "1 \<le> n" "n \<le> 1000000000"
  obtains z g' where "harness_deposit h A T n (g\<lparr>fz_model := md\<rparr>) = (Ok (), z)"
    "skip_cooldown z = (Ok (), g'\<lparr>fz_model := md\<rparr>)" "inv h (k + 2) g'" "\<not> fuzz_in_cooldown g'"
    "pos_locked_collateral (pos h g') = pos_locked_collateral (pos h g)"
    "fz_model g' = model_deposit (fz_time g) n (fz_model g)"
proof -
  from assms(2) have k: "k < 1000" "Suc k < 1000" by simp_all
  from deposit_paid[OF i n k(1)] obtain s where s: "harness_deposit h A T n g = (Ok (), g\<lparr>fz_chain := s\<rparr>)"
    "inv h (Suc k) (g\<lparr>fz_chain := s, fz_model := model_deposit (fz_time g) n (fz_model g)\<rparr>)" (is "inv _ _ ?g")
    "pos_locked_collateral (pos h (g\<lparr>fz_chain := s\<rparr>)) = pos_locked_collateral (pos h g)" by auto
  note c = skip_cooldown_run[OF s(2) k(2)]
  from other_model(1)[OF s(1), of md] have "harness_deposit h A T n (g\<lparr>fz_model := md\<rparr>) = (Ok (), ?g\<lparr>fz_model := md\<rparr>)"
    by simp
  from that[OF this other_model(3)[OF c(1)]] c(2,3) s(3) show ?thesis by simp
qed

lemma ghost_withdraw:
  assumes "inv h k g" and "0 < n" "n \<le> user_funds" and cool: "\<not> fuzz_in_cooldown g"
    and "cost h n \<le> pos_total_deposited (pos h g) - pos_locked_collateral (pos h g)"
  obtains g' where "try_withdraw h A T F n (g\<lparr>fz_model := md\<rparr>) = (Ok (Inr ()), g'\<lparr>fz_model := md\<rparr>)"
    "inv h k g'" "\<not> fuzz_in_cooldown g'" "fz_model g' = model_withdraw h n (fee_at h n) (fz_model g)"
    "pos_locked_collateral (pos h g') = pos_locked_collateral (pos h g)"
proof -
  from withdraw_paid[OF assms(1-3) cool assms(5)] obtain s where
    s: "try_withdraw h A T F n g = (Ok (Inr ()), g\<lparr>fz_chain := s\<rparr>)"
    "inv h k (g\<lparr>fz_chain := s, fz_model := model_withdraw h n (fee_at h n) (fz_model g)\<rparr>)" (is "inv _ _ ?g")
    "pos_locked_collateral (pos h (g\<lparr>fz_chain := s\<rparr>)) = pos_locked_collateral (pos h g)" by blast
  from other_model(2)[OF s(1), of md]
  have "try_withdraw h A T F n (g\<lparr>fz_model := md\<rparr>) = (Ok (Inr ()), ?g\<lparr>fz_model := md\<rparr>)" by simp
  moreover have "\<not> fuzz_in_cooldown ?g"
    using cool by (cases "fm_last_deposit (fz_model g)") (simp_all add: fuzz_in_cooldown_def model_withdraw_fields)
  ultimately show ?thesis using s(2,3) by (intro that[of ?g]) simp_all
qed

lemma ghost_refused:
  assumes "inv h k g" and "0 < n" "n \<le> 2 * user_funds" and "\<not> fuzz_in_cooldown g"
    and "pos_total_deposited (pos h g) - pos_locked_collateral (pos h g) < cost h n"
  shows "try_withdraw h A T F n (g\<lparr>fz_model := md\<rparr>) = (Ok (Inl InsufficientCollateral), g\<lparr>fz_model := md\<rparr>)"
  using refusal_value[OF assms(1-3)] assms(4,5) by (intro other_model(2) try_withdraw_refused) simp

lemma ghost_reads:
  assumes "inv h k g"
  shows "fuzz_position h A (g\<lparr>fz_model := md\<rparr>) = (Ok (pos h g), g\<lparr>fz_model := md\<rparr>)"
    "\<exists>a. max_withdrawable h A (g\<lparr>fz_model := md\<rparr>) = (Ok a, g\<lparr>fz_model := md\<rparr>) \<and> 0 \<le> a \<and> a \<le> user_funds
      \<and> cost h a \<le> pos_total_deposited (pos h g) - pos_locked_collateral (pos h g)
      \<and> (\<forall>b. a < b \<longrightarrow> pos_total_deposited (pos h g) - pos_locked_collateral (pos h g) < cost h b)"
proof -
  show "fuzz_position h A (g\<lparr>fz_model := md\<rparr>) = (Ok (pos h g), g\<lparr>fz_model := md\<rparr>)"
    by (rule other_model(4)[OF fuzz_position_run[OF assms]])
  note d = invD[OF assms]
  from max_withdrawable_run[OF assms] obtain a where a: "max_withdrawable h A g = (Ok a, g)" "0 \<le> a"
    "cost h a \<le> pos_total_deposited (pos h g) - pos_locked_collateral (pos h g)"
    "\<forall>b. a < b \<longrightarrow> pos_total_deposited (pos h g) - pos_locked_collateral (pos h g) < cost h b" by blast
  have "a \<le> user_funds" using a(2,3) d fee_at_nonneg[of h a] by (simp add: cost_def fuzz_config_def)
  with other_model(5)[OF a(1), of md] a show "\<exists>a. max_withdrawable h A (g\<lparr>fz_model := md\<rparr>) = (Ok a, g\<lparr>fz_model := md\<rparr>)
      \<and> 0 \<le> a \<and> a \<le> user_funds \<and> cost h a \<le> pos_total_deposited (pos h g) - pos_locked_collateral (pos h g)
      \<and> (\<forall>b. a < b \<longrightarrow> pos_total_deposited (pos h g) - pos_locked_collateral (pos h g) < cost h b)" by blast
qed

lemma own_model: "fz_model z = md \<Longrightarrow> z\<lparr>fz_model := md\<rparr> = z"
  by (cases z) simp

lemma fresh_lock: "inv h k z \<Longrightarrow> fz_model z = fresh_model \<Longrightarrow> pos_locked_collateral (pos h z) = 0"
  using invD(3,4)[of h k z] by (simp add: fresh_model_def)

lemmas test_steps = andthen_def bind_def prop_assert_def ensure_def return_def gets_def expect_def
  add_i128_def sub_i128_def

text \<open>With a waiver the whole deposit can be withdrawn, and nothing more.\<close>

lemma waived_user_go:
  assumes i: "inv h 0 z" and md: "fz_model z = fresh_model" and n: "1 \<le> n" "n \<le> 1000000000" and w: "fh_waived h"
  shows "fst (prop_waived_user_withdraws_full_available_fee_free h A T F balance n z) = Ok ()"
proof -
  have free: "fee_at h k = 0" "cost h k = k" for k using w by (simp_all add: cost_def fee_at_def)
  obtain z1 g where g: "harness_deposit h A T n z = (Ok (), z1)" "skip_cooldown z1 = (Ok (), g\<lparr>fz_model := fresh_model\<rparr>)"
    "inv h 2 g" "\<not> fuzz_in_cooldown g" "pos_locked_collateral (pos h g) = 0" "fz_model g = model_deposit (fz_time z) n fresh_model"
    using ghost_deposit[OF i _ n, of fresh_model] by (simp add: own_model[OF md] md fresh_lock[OF i md] numeral_2_eq_2) metis
  have "cost h n \<le> pos_total_deposited (pos h g) - pos_locked_collateral (pos h g)"
    using invD(2)[OF g(3)] g(5,6) by (simp add: free model_deposit_def fresh_model_def)
  then obtain g' where g': "try_withdraw h A T F n (g\<lparr>fz_model := fresh_model\<rparr>) = (Ok (Inr ()), g'\<lparr>fz_model := fresh_model\<rparr>)"
    "inv h 2 g'" "\<not> fuzz_in_cooldown g'" "fz_model g' = model_withdraw h n (fee_at h n) (fz_model g)"
    using ghost_withdraw[OF g(3) _ _ g(4), of n fresh_model] n by (auto simp: user_funds_def)
  note d = invD[OF g'(2)]
  have p: "pos_total_deposited (pos h g') = 0"
    using d(2) g'(4) by (simp add: free g(6) model_withdraw_def model_deposit_def fresh_model_def)
  have m: "balance (ext (fz_chain g')) (fh_token h) (fh_user h) = user_funds"
    "balance (ext (fz_chain g')) (fh_token h) (fh_market_addr h) = 0"
    using d(9) by (simp_all add: money_agrees_def free g'(4) g(6) model_withdraw_def model_deposit_def fresh_model_def)
  have "try_withdraw h A T F 1 (g'\<lparr>fz_model := fresh_model\<rparr>) = (Ok (Inl InsufficientCollateral), g'\<lparr>fz_model := fresh_model\<rparr>)"
    using p d(3) by (intro ghost_refused[OF g'(2) _ _ g'(3)]) (simp_all add: free user_funds_def)
  with g(1,2) g'(1) p m show ?thesis
    by (simp add: prop_waived_user_withdraws_full_available_fee_free_def test_steps ghost_reads(1)[OF g'(2)])
qed

text \<open>The largest amount is withdrawn and leaves what it should; one unit more is refused.\<close>

lemma boundary_go:
  assumes i: "inv h 0 z" and md: "fz_model z = fresh_model" and n: "1 \<le> n" "n \<le> 1000000000"
  shows "fst (prop_fee_on_top_boundary_is_exact h A T F n z) = Ok ()"
proof -
  let ?o = "\<lambda>g. g\<lparr>fz_model := fresh_model\<rparr>"
  obtain z1 g where g: "harness_deposit h A T n z = (Ok (), z1)" "skip_cooldown z1 = (Ok (), ?o g)"
    "inv h 2 g" "\<not> fuzz_in_cooldown g" "pos_locked_collateral (pos h g) = 0" "fz_model g = model_deposit (fz_time z) n fresh_model"
    using ghost_deposit[OF i _ n, of fresh_model] by (simp add: own_model[OF md] md fresh_lock[OF i md] numeral_2_eq_2) metis
  have av: "pos_total_deposited (pos h g) - pos_locked_collateral (pos h g) = n"
    using invD(2)[OF g(3)] g(5,6) by (simp add: model_deposit_def fresh_model_def)
  from ghost_reads(2)[OF g(3), of fresh_model] obtain a where a: "max_withdrawable h A (?o g) = (Ok a, ?o g)"
    "0 \<le> a" "a \<le> user_funds" "cost h a \<le> n" "n < cost h (a + 1)" by (auto simp: av)
  have over: "try_withdraw h A T F (a + 1) (?o g) = (Ok (Inl InsufficientCollateral), ?o g)"
    using a by (intro ghost_refused[OF g(3) _ _ g(4)]) (simp_all add: av user_funds_def)
  have f: "fuzz_fee h a = Some (fee_at h a)" "0 \<le> fee_at h a"
    using fuzz_fee_in_test[OF invD(1)[OF g(3)], of a] fee_at_nonneg[of h a] a(2,3) invD(1)[OF g(3)]
    by (simp_all add: user_funds_def fuzz_config_def)
  have r: "checked_add a 1 = Some (a + 1)" "checked_sub n a = Some (n - a)"
    "checked_sub (n - a) (fee_at h a) = Some (n - a - fee_at h a)"
    using a(2-4) f(2) n by (simp_all add: checked_add_def checked_sub_def in_i128_def i128_numerals user_funds_def cost_def)
  show ?thesis
  proof (cases "a = 0")
    case True
    with over show ?thesis by (simp add: prop_fee_on_top_boundary_is_exact_def test_steps g(1,2) a(1))
  next
    case False
    with ghost_withdraw[OF g(3) _ a(3) g(4), of fresh_model] a av obtain g' where
      g': "try_withdraw h A T F a (?o g) = (Ok (Inr ()), ?o g')" "inv h 2 g'"
      "fz_model g' = model_withdraw h a (fee_at h a) (fz_model g)" by auto
    have "pos_total_deposited (pos h g') = n - a - fee_at h a"
      using invD(2)[OF g'(2)] by (simp add: g'(3) g(6) model_withdraw_fields model_deposit_def fresh_model_def)
    with a(4) False over show ?thesis
      by (simp add: prop_fee_on_top_boundary_is_exact_def test_steps g(1,2) a(1) g'(1) ghost_reads(1)[OF g'(2)]
          Let_def cost_def f(1) r)
  qed
qed

text \<open>
  With a treasury and the maximal fee, every round can withdraw something, the treasury holds the
  fees summed up, and the market what is left of the deposits.
\<close>

lemma round_trips_go:
  assumes "inv h k g" and "k + 2 * rounds < 998" and "fh_treasury h = Some t" and "pos_locked_collateral (pos h g) = 0"
    and "fm_market (fz_model g) = fm_deposited (fz_model g)" and "fm_treasury (fz_model g) = routed"
  shows "\<exists>g' routed'. round_trips h A T F rounds routed (g\<lparr>fz_model := md\<rparr>) = (Ok routed', g'\<lparr>fz_model := md\<rparr>)
    \<and> inv h (k + 2 * rounds) g' \<and> fm_market (fz_model g') = fm_deposited (fz_model g') \<and> fm_treasury (fz_model g') = routed'"
  using assms
proof (induction rounds arbitrary: k g routed)
  case 0
  then show ?case by (auto simp: return_def)
next
  case (Suc rounds)
  let ?o = "\<lambda>g. g\<lparr>fz_model := md\<rparr>"
  note i = Suc.prems(1)
  obtain z1 g1 where g: "harness_deposit h A T 1001 (?o g) = (Ok (), z1)" "skip_cooldown z1 = (Ok (), ?o g1)"
    "inv h (k + 2) g1" "\<not> fuzz_in_cooldown g1" "pos_locked_collateral (pos h g1) = 0"
    "fz_model g1 = model_deposit (fz_time g) 1001 (fz_model g)"
    using ghost_deposit[OF i, of 1001 md] Suc.prems(2,4) by auto
  note d = invD[OF g(3)]
  have av: "1001 \<le> pos_total_deposited (pos h g1) - pos_locked_collateral (pos h g1)"
    using d(2) g(5,6) invD(7)[OF i] by (simp add: model_deposit_def)
  from ghost_reads(2)[OF g(3), of md] obtain a where a: "max_withdrawable h A (?o g1) = (Ok a, ?o g1)"
    "0 \<le> a" "a \<le> user_funds" "cost h a \<le> pos_total_deposited (pos h g1) - pos_locked_collateral (pos h g1)"
    "\<forall>b. a < b \<longrightarrow> pos_total_deposited (pos h g1) - pos_locked_collateral (pos h g1) < cost h b" by blast
  have "cost h 1 \<le> 2" using fee_at_bounds(2)[OF d(1), of 1] by (simp add: cost_def)
  with a(5) av have "\<not> a < 1" by force
  then have pos: "0 < a" by simp
  obtain g2 where g2: "try_withdraw h A T F a (?o g1) = (Ok (Inr ()), ?o g2)" "inv h (k + 2) g2"
    "fz_model g2 = model_withdraw h a (fee_at h a) (fz_model g1)" "pos_locked_collateral (pos h g2) = 0"
    using ghost_withdraw[OF g(3) pos a(3) g(4) a(4), of md] g(5) by metis
  have f: "0 \<le> fee_at h a" using fee_at_bounds(1)[OF d(1) pos] .
  have m: "fm_market (fz_model g2) = fm_deposited (fz_model g2)" "fm_treasury (fz_model g2) = routed + fee_at h a"
    using Suc.prems(3,5,6) f by (auto simp: g2(3) g(6) model_withdraw_def model_deposit_def Let_def)
  have fee: "fuzz_fee h a = Some (fee_at h a)"
    using fuzz_fee_in_test[OF d(1), of a] a(2,3) by (simp add: user_funds_def)
  have "fm_treasury (fz_model g2) \<le> user_funds" "0 \<le> fm_treasury (fz_model g2)"
    using invD(7,9)[OF g2(2)] by (auto simp: money_agrees_def)
  then have sum: "checked_add routed (fee_at h a) = Some (routed + fee_at h a)"
    unfolding m(2) by (simp add: checked_add_def in_i128_def i128_numerals user_funds_def)
  have "0 \<le> pos_total_deposited (pos h g2)" using invD(2,7)[OF g2(2)] by simp
  then have "round_trips h A T F (Suc rounds) routed (?o g) = round_trips h A T F rounds (routed + fee_at h a) (?o g2)"
    using pos by (simp add: test_steps g(1,2) a(1) g2(1) ghost_reads(1)[OF g2(2)] fee sum)
  with Suc.IH[OF g2(2) _ Suc.prems(3) g2(4) m] Suc.prems(2) show ?case by simp
qed

lemma max_fee_rounds_go:
  assumes i: "inv h 0 z" and md: "fz_model z = fresh_model" and t: "fh_treasury h = Some t"
  shows "fst (repeated_round_trips_at_max_fee_stay_non_negative h A T F balance z) = Ok ()"
proof -
  obtain g r where g: "round_trips h A T F 5 0 z = (Ok r, g\<lparr>fz_model := fresh_model\<rparr>)" "inv h (0 + 2 * 5) g"
    "fm_market (fz_model g) = fm_deposited (fz_model g)" "fm_treasury (fz_model g) = r"
    using round_trips_go[OF i _ t fresh_lock[OF i md], of 5 0 fresh_model]
    unfolding own_model[OF md] md by (auto simp: fresh_model_def[THEN arg_cong, of fm_market]
      fresh_model_def[THEN arg_cong, of fm_deposited] fresh_model_def[THEN arg_cong, of fm_treasury])
  note d = invD[OF g(2)]
  show ?thesis
    using d(2,9) g(3,4) t
    by (simp add: repeated_round_trips_at_max_fee_stay_non_negative_def test_steps g(1) ghost_reads(1)[OF g(2)]
        money_agrees_def del: round_trips.simps)
qed

end

end
