(* ===== verification/Market_Fuzz_Properties.thy ===== *)
theory Market_Fuzz_Properties
  imports Market_Fuzz_Boundary
begin

text \<open>
  The fuzz test of \<^verbatim>\<open>withdraw_fuzz.rs\<close>, proved instead of sampled: its properties hold for every
  input it can draw. The world of the test is instantiated with the models of the development: the
  market over the Treasury contract and the reference ledger, and a trading entrypoint made of
  \<open>check_protocol_collateral\<close>, the participant registry and \<open>update_position\<close>, as the repository
  describes the missing one.
\<close>

section \<open>The treasury as the market sees it\<close>

definition treasury_collected :: "('x, treasury_view) treasury \<Rightarrow> i128" where
  "treasury_collected q = (case v_total (unread q) of None \<Rightarrow> 0 | Some n \<Rightarrow> n)"

definition treasury_accepts :: "address \<Rightarrow> address \<Rightarrow> address \<Rightarrow> ('x, treasury_view) treasury \<Rightarrow> bool" where
  "treasury_accepts addr ta ma q \<longleftrightarrow> ta = addr \<and> tkey_storage_version q = Some treasury_storage_version
     \<and> trs_has_admin q \<and> v_paused (unread q) \<noteq> Some True
     \<and> v_emergency_mode (unread q) \<noteq> Some GlobalFreeze \<and> ma \<in> set (trs_get_authorized_markets q)"

lemma collect_fee_accepted:
  fixes q :: "('x, treasury_view) treasury"
  assumes "treasury_accepts addr ta ma q" and "0 < n" and "0 \<le> treasury_collected q"
    and "in_i128 (treasury_collected q + n)"
  shows "\<exists>q'. treasury_sink addr E direct_accessors ta ma tok m n q = Some ((), q') \<and> ext q' = ext q
    \<and> treasury_collected q' = treasury_collected q + n \<and> treasury_accepts addr ta ma q'"
proof -
  have mode: "v_emergency_mode (unread q) = None \<or> v_emergency_mode (unread q) = Some Normal
     \<or> v_emergency_mode (unread q) = Some TradingHalted \<or> v_emergency_mode (unread q) = Some SettleOnly"
    using assms(1) unfolding treasury_accepts_def
    by (metis (full_types) emergency_mode.exhaust option.exhaust)
  obtain q' where run: "treasury_collect_fee (called_by ma addr E) direct_accessors ma tok m n q = (Ok (), q')"
    using assms mode
    by (auto simp: treasury_collect_fee_def treasury_accepts_def Let_def run_simps treasury_reads
        treasury_require_mode_def read_acc_def write_acc_def try_acc_def direct_accessors_def called_by_def
        trs_get_token_balance_def trs_get_cumulative_fees_def treasury_writes trs_assert_version_def
        trs_set_token_balance_def trs_set_cumulative_fees_def emit_fee_collected_def)
  have keep: "tkey_storage_version q' = tkey_storage_version q \<and> tkey_admin q' = tkey_admin q
      \<and> tkey_authorized_markets q' = tkey_authorized_markets q \<and> ext q' = ext q
      \<and> v_paused (unread q') = v_paused (unread q) \<and> v_emergency_mode (unread q') = v_emergency_mode (unread q)
      \<and> v_total (unread q') = Some (saturated_sum (treasury_collected q) n)"
    using run
    by (auto simp: treasury_collect_fee_def Let_def ok_iff treasury_emits treasury_reads direct_accessors_def
        treasury_collected_def)
  have "saturated_sum (treasury_collected q) n = treasury_collected q + n"
    using assms(4) by (simp add: saturated_sum_def checked_add_def)
  with run keep assms(1) show ?thesis
    by (auto simp: treasury_sink_Some treasury_accepts_def treasury_collected_def trs_has_admin_def
        trs_get_authorized_markets_def)
qed

section \<open>A trading entrypoint\<close>

text \<open>
  The prospective lock, if it grows, is compared with the protocol balance; then the user is enrolled
  and the position updated.
\<close>

definition covered_trade :: "fuzz_harness \<Rightarrow> i128 \<Rightarrow> env \<Rightarrow> ('x, market_view, position) pcontract" where
  "covered_trade h yes E =
     bind (read_store (\<lambda>v. v)) (\<lambda>v.
     andthen (ensure (v_ready v) InvalidPositionState)
     (let q = position_in v (fh_market_id h) (fh_user h) in
     bind (add_i128 (pos_yes_shares q) yes) (\<lambda>shares.
     bind (expect (calculate_locked_collateral shares (pos_no_shares q) price_bps)) (\<lambda>lock.
     andthen (when_do (pos_locked_collateral q < lock)
       (try_result (check_protocol_collateral lock (v_balance v (fh_user h)) 0)))
     (andthen (write_store (ms_add_market_participant direct_market (fh_market_id h) (fh_user h)))
     (update_position_persist E direct_market
        (\<lambda>p. (pos_yes_shares p, pos_no_shares p, pos_locked_collateral p))
        (fh_market_id h) (fh_user h) yes 0 price_bps))))))"

lemma covered_trade_updates_the_position:
  fixes s :: "('x, market_view) market_state"
  assumes "covered_trade h yes E s = (Ok r, s')"
  shows "\<exists>s1 s2 shown p elsewhere.
      update_position_persist E direct_market shown (fh_market_id h) (fh_user h) yes 0 price_bps s1 = (Ok p, s2)
      \<and> beside_the_update h (store s) (store s1) \<and> beside_the_update h (store s2) (store s')
      \<and> no_money_moves h balance collected accepts (ext s) (ext s1)
      \<and> no_money_moves h balance collected accepts (ext s2) (ext s')
      \<and> (pos_locked_collateral (position_in (store s) (fh_market_id h) (fh_user h)) < pos_locked_collateral p
         \<longrightarrow> 0 \<le> elsewhere \<and> check_protocol_collateral (pos_locked_collateral p)
               (v_balance (store s) (fh_user h)) elsewhere = Inr ())"
proof -
  let ?q = "position_in (store s) (fh_market_id h) (fh_user h)"
  let ?s1 = "s\<lparr>store := ms_add_market_participant direct_market (fh_market_id h) (fh_user h) (store s)\<rparr>"
  let ?shown = "\<lambda>p. (pos_yes_shares p, pos_no_shares p, pos_locked_collateral p)"
  from assms obtain lock where ready: "v_ready (store s)"
    and lock: "calculate_locked_collateral (pos_yes_shares ?q + yes) (pos_no_shares ?q) price_bps = Some lock"
    and cov: "pos_locked_collateral ?q < lock \<longrightarrow>
      check_protocol_collateral lock (v_balance (store s) (fh_user h)) 0 = Inr ()"
    and up: "update_position_persist E direct_market ?shown (fh_market_id h) (fh_user h) yes 0 price_bps ?s1 = (Ok r, s')"
    by (auto simp: covered_trade_def ok_iff Let_def split: if_splits)
  have b1: "beside_the_update h (store s) (store ?s1)"
    by (simp add: beside_the_update_def direct_market_def)
  have ready': "v_ready (store ?s1)" and q: "position_in (store ?s1) (fh_market_id h) (fh_user h) = ?q"
    using ready by (simp_all add: direct_market_def position_in_def)
  from market_direct.update_ok[OF up ready', unfolded q] obtain l where
    l: "calculate_locked_collateral (pos_yes_shares ?q + yes) (pos_no_shares ?q + 0) price_bps = Some l"
    and r: "r = ?q\<lparr>pos_yes_shares := pos_yes_shares ?q + yes, pos_no_shares := pos_no_shares ?q + 0,
       pos_locked_collateral := l\<rparr>" by blast
  have "pos_locked_collateral r = lock" using l lock by (simp add: r)
  with lock cov have "pos_locked_collateral ?q < pos_locked_collateral r \<longrightarrow> 0 \<le> (0 :: int) \<and>
      check_protocol_collateral (pos_locked_collateral r) (v_balance (store s) (fh_user h)) 0 = Inr ()" by simp
  moreover have "beside_the_update h (store s') (store s')" by (simp add: beside_the_update_def)
  moreover have "no_money_moves h balance collected accepts (ext s) (ext ?s1)"
    "no_money_moves h balance collected accepts (ext s') (ext s')" by (simp_all add: no_money_moves_def)
  ultimately show ?thesis using up b1 by blast
qed

text \<open>The reference ledger pays every covered transfer.\<close>

lemma ledger_pays: "0 \<le> n \<Longrightarrow> n \<le> l tok from \<Longrightarrow> \<exists>l'. ledger_transfer tok from to n l = Some ((), l')"
  by (simp add: ledger_transfer_def Let_def)

interpretation treasury_world: fuzz_world direct_market "\<lambda>r. r" "beside_treasury ledger_client" ext
    "treasury_sink addr E direct_accessors" treasury_collected "treasury_accepts addr" covered_trade
  for addr E
proof (intro fuzz_world.intro fuzz_world_axioms.intro)
  show "market_ledger direct_market (\<lambda>r. r)" by (rule ledger_direct.market_ledger_axioms)
  show "sep41 (beside_treasury ledger_client) ext"
    by (rule beside_treasury_sep41[OF ledger.sep41_axioms])
next
  fix n :: int and x :: "(ledger, treasury_view) treasury" and tok "from" to u x' ta ma
  show "\<exists>x'. tok_transfer (beside_treasury ledger_client) tok from to n x = Some ((), x')"
    if "0 \<le> n" "n \<le> ext x tok from"
    using ledger_pays[of n "ext x" tok "from" to] that by (auto simp: beside_treasury_def ledger_client_def)
  show "treasury_collected x' = treasury_collected x \<and> treasury_accepts addr ta ma x' = treasury_accepts addr ta ma x"
    if "tok_transfer (beside_treasury ledger_client) tok from to n x = Some (u, x')"
    using that by (auto simp: beside_treasury_transfer treasury_collected_def treasury_accepts_def
        trs_has_admin_def trs_get_authorized_markets_def)
next
  fix ta ma :: address and x :: "(ledger, treasury_view) treasury" and n tok m
  show "\<exists>x'. treasury_sink addr E direct_accessors ta ma tok m n x = Some ((), x') \<and> ext x' = ext x \<and>
      treasury_collected x' = treasury_collected x + n \<and> treasury_accepts addr ta ma x'"
    if "treasury_accepts addr ta ma x" "0 < n" "0 \<le> treasury_collected x" "in_i128 (treasury_collected x + n)"
    by (rule collect_fee_accepted[OF that])
qed (rule covered_trade_updates_the_position)

section \<open>Properties\<close>


text \<open>A harness with a treasury and a fee of half a percent, as \<open>Harness::new\<close> leaves it.\<close>

definition fuzz_demo :: fuzz_harness where
  "fuzz_demo = \<lparr>fh_market_addr = Contract 10, fh_user = Account 20, fh_token = Contract 30,
     fh_treasury = Some (Contract 40), fh_market_id = 1, fh_fee_bps = 50, fh_waived = False\<rparr>"

definition fuzz_demo_market :: market where
  "fuzz_demo_market = \<lparr>mkt_id = 1, mkt_question = ''Q'', mkt_end_time = fuzz_end,
     mkt_oracle_pubkey = [1], mkt_status = MarketActive, mkt_result = None,
     mkt_creator = Account 22, mkt_created_at = fuzz_start, mkt_collateral_token = Contract 30,
     mkt_price_bps = 5000, mkt_resolver = None, mkt_resolved_at = None,
     mkt_adapter_type = Ed25519, mkt_outcome_count = 2, mkt_closed_to_deposits = False\<rparr>"

definition fuzz_demo_state :: "((ledger, treasury_view) treasury, market_view) fuzz_state" where
  "fuzz_demo_state = \<lparr>fz_time = fuzz_start,
     fz_chain = \<lparr>ext = (fresh_treasury ((\<lambda>_ _. 0)(Contract 30 := (\<lambda>_. 0)(Account 20 := user_funds))) fresh_view)
         \<lparr>tkey_storage_version := Some treasury_storage_version, tkey_admin := Some (Account 22),
          tkey_authorized_markets := Some [Contract 10]\<rparr>, events = [],
       store = empty_view\<lparr>v_markets := (\<lambda>_. None)(1 := Some fuzz_demo_market), v_fee_rate := 50,
         v_treasury := Some (Contract 40)\<rparr>\<rparr>,
     fz_model = fresh_model\<rparr>"

lemma fuzz_demo_ready:
  "fuzz_inv (\<lambda>r. r) ext treasury_collected (treasury_accepts (Contract 40)) fuzz_demo 0 fuzz_demo_state"
  by (simp add: fresh_model_def fuzz_inv_def fuzz_config_def position_agrees_def money_agrees_def bounds_hold_def
      fuzz_demo_def fuzz_demo_state_def fuzz_demo_market_def empty_view_def position_in_def new_empty_def
      treasury_collected_def treasury_accepts_def fresh_treasury_def fresh_view_def trs_has_admin_def
      trs_get_authorized_markets_def user_funds_def)


text \<open>
  C35. The boundary tests pass for every deposit they can draw: after one deposit the largest withdrawal
  that fits succeeds and leaves exactly the rest, one unit more is refused, a waived user withdraws
  everything free of charge and nothing after it, and five round trips at the maximal fee always
  pay something, leave no negative deposit and book every fee.
\<close>

theorem the_boundary_tests_pass:
  assumes "fuzz_world A view T balance F collected accepts trade"
    and "fuzz_inv view balance collected accepts h 0 z" and "fz_model z = fresh_model"
  shows "(1 \<le> n \<and> n \<le> 1000000000 \<longrightarrow>
      fst (prop_fee_on_top_boundary_is_exact h A T F n z) = Ok ()
      \<and> (fh_waived h \<longrightarrow>
          fst (prop_waived_user_withdraws_full_available_fee_free h A T F balance n z) = Ok ()))
    \<and> (fh_treasury h \<noteq> None \<longrightarrow>
      fst (repeated_round_trips_at_max_fee_stay_non_negative h A T F balance z) = Ok ())"
  using fuzz_world.boundary_go[OF assms] fuzz_world.waived_user_go[OF assms]
    fuzz_world.max_fee_rounds_go[OF assms] by auto

lemma the_boundary_tests_pass_witness:
  "fst (prop_fee_on_top_boundary_is_exact fuzz_demo direct_market (beside_treasury ledger_client)
     (treasury_sink (Contract 40) (fuzz_env fuzz_demo 0) direct_accessors) 1005 fuzz_demo_state) = Ok ()
   \<and> fst (repeated_round_trips_at_max_fee_stay_non_negative fuzz_demo direct_market (beside_treasury ledger_client)
     (treasury_sink (Contract 40) (fuzz_env fuzz_demo 0) direct_accessors) ext fuzz_demo_state) = Ok ()"
proof -
  have m: "fz_model fuzz_demo_state = fresh_model" and t: "fh_treasury fuzz_demo \<noteq> None"
    by (simp_all add: fuzz_demo_state_def fresh_model_def fuzz_demo_def)
  show ?thesis
    using the_boundary_tests_pass[OF treasury_world.fuzz_world_axioms fuzz_demo_ready m, of 1005] t by simp
qed

text \<open>
  C34. The harness's search for the largest withdrawal is decided for every fee rate from 0 to 100%
  and every available amount: nothing available gives zero; an amount that times 10000 leaves
  \<open>i128\<close> panics; for every other amount no step overflows, both loops end, and the result is exact, since it
  costs no more than what is available and everything above it costs more.
\<close>

theorem the_largest_withdrawal_is_found:
  assumes "0 \<le> fh_fee_bps h" and "fh_fee_bps h \<le> 10000"
  shows "if n \<le> 0 then largest_fitting h n = Some (Some 0)
    else if i128_max < n * 10000 then largest_fitting h n = Some None
    else \<exists>a fee. largest_fitting h n = Some (Some a) \<and> fuzz_fee h a = Some fee \<and> 0 \<le> a \<and> a + fee \<le> n
      \<and> (\<forall>b. a < b \<longrightarrow> n < b + fee_at h b)"
proof (cases "0 < n \<and> n * 10000 \<le> i128_max")
  case True
  then obtain a where a: "largest_fitting h n = Some (Some a)" "0 \<le> a" "cost h a \<le> n" "\<forall>b. a < b \<longrightarrow> n < cost h b"
    using largest_fitting_spec[OF assms, of n] by blast
  have "a \<le> n" using a(2,3) fee_at_nonneg[OF assms(1) a(2)] by (simp add: cost_def)
  then have "a * fh_fee_bps h \<le> n * 10000" using a(2) assms by (intro mult_mono) auto
  with True have "fuzz_fee h a = Some (fee_at h a)" using fuzz_fee_run[OF assms(1) a(2)] by simp
  with True a show ?thesis by (auto simp: cost_def)
next
  case False
  then show ?thesis using largest_fitting_nothing[of n h] largest_fitting_overflow[of n h] by auto
qed

lemma the_largest_withdrawal_is_found_witness:
  "largest_fitting fuzz_demo 1005 = Some (Some 1000) \<and> largest_fitting fuzz_demo i128_max = Some None"
proof -
  have b: "0 \<le> fh_fee_bps fuzz_demo" "fh_fee_bps fuzz_demo \<le> 10000" by (simp_all add: fuzz_demo_def)
  have "\<not> i128_max < 1005 * 10000" by (simp add: i128_numerals)
  with the_largest_withdrawal_is_found[OF b, of 1005] obtain a fee where
    a: "largest_fitting fuzz_demo 1005 = Some (Some a)" "fuzz_fee fuzz_demo a = Some fee" "0 \<le> a" "a + fee \<le> 1005"
      "\<forall>b. a < b \<longrightarrow> 1005 < b + fee_at fuzz_demo b" by auto
  have f: "fee = fee_at fuzz_demo a"
    using a(2,3) by (auto simp: fuzz_fee_def fee_at_def fuzz_demo_def bind_eq_Some_conv checked_mul_def checked_div_def
        sdiv_nonneg split: if_splits)
  have "\<not> a < 1000" using a(5) by (auto simp: fee_at_def fuzz_demo_def)
  moreover have "\<not> 1000 < a"
    using a(4) fee_at_mono[OF b(1), of 1001 a] by (auto simp: f fee_at_def fuzz_demo_def)
  ultimately have "largest_fitting fuzz_demo 1005 = Some (Some 1000)" using a(1) by simp
  moreover have "0 < i128_max" "i128_max < i128_max * 10000" by (simp_all add: i128_numerals)
  then have "largest_fitting fuzz_demo i128_max = Some None"
    using the_largest_withdrawal_is_found[OF b, of i128_max] by simp
  ultimately show ?thesis by simp
qed

text \<open>
  C14. A withdrawal is decided by the state it finds: the first guard that fails names the error and
  leaves storage and tokens alone; if none fails, the protocol balance covers the debit and the
  tokens pay, it succeeds, and storage changes by exactly the amount and the fee.
\<close>

theorem withdrawals_are_decided:
  assumes "market_ledger A view" and "authorized E a"
    and "0 \<le> pos_locked_collateral (position_in (view (store s)) m a)"
    and "in_i128 (pos_total_deposited (position_in (view (store s)) m a))"
  shows "case withdrawal_refusal E (view (store s)) a m n of
      Some e \<Rightarrow> \<exists>s'. withdraw_unused_collateral E A T F a m n s = (Err e, s') \<and> store s' = store s
        \<and> ext s' = ext s
    | None \<Rightarrow> \<forall>mk x y. v_markets (view (store s)) m = Some mk
        \<and> n + fee_due (view (store s)) a n \<le> v_balance (view (store s)) a
        \<and> fee_routed E T F mk m (fee_due (view (store s)) a n) (v_treasury (view (store s))) (ext s) x
        \<and> tok_transfer T (mkt_collateral_token mk) (current_contract_address E) a n x = Some ((), y) \<longrightarrow>
        (\<exists>s'. withdraw_unused_collateral E A T F a m n s = (Ok (), s') \<and> ext s' = y
          \<and> view (store s') = withdrawn_view (view (store s)) m a (n + fee_due (view (store s)) a n))"
  using market_storage.withdrawal_refused[OF market_ledger.axioms(1)[OF assms(1)] assms(2)]
    market_ledger.withdraw_go[OF assms(1,2) _ assms(3,4)]
  by (auto split: option.split)

lemma withdrawals_are_decided_witness:
  "\<exists>s'. withdraw_unused_collateral (fuzz_env fuzz_demo fuzz_start) direct_market (beside_treasury ledger_client)
     (\<lambda>_ _ _ _ _ _. None) (Account 20) 1 5 (fz_chain fuzz_demo_state) = (Err InsufficientCollateral, s')"
proof -
  let ?s = "fz_chain fuzz_demo_state" and ?E = "fuzz_env fuzz_demo fuzz_start"
  have r: "withdrawal_refusal ?E (store ?s) (Account 20) 1 5 = Some InsufficientCollateral"
    by (simp add: withdrawal_refusal_def Let_def fuzz_demo_state_def fuzz_demo_market_def empty_view_def
        in_cooldown_def position_in_def new_empty_def max_reasonable_amount_value)
  have "authorized ?E (Account 20)" "0 \<le> pos_locked_collateral (position_in (store ?s) 1 (Account 20))"
    "in_i128 (pos_total_deposited (position_in (store ?s) 1 (Account 20)))"
    by (simp_all add: fuzz_env_def fuzz_demo_state_def empty_view_def position_in_def new_empty_def
        in_i128_def i128_numerals)
  from withdrawals_are_decided[OF ledger_direct.market_ledger_axioms this, of 5] r show ?thesis by auto
qed

text \<open>
  The fee tests pass on their whole ranges: the fee is the floor of its share with less than one
  unit of dust, never exceeds the amount, is the whole amount at 100% and nothing at 0%, and near
  the largest amounts it is exact or refused as \<open>ArithmeticOverflow\<close>, never wrapped.
\<close>

theorem the_fee_tests_pass:
  "(1 \<le> a \<and> a \<le> 10000000000 \<and> 0 \<le> r \<and> r \<le> 10000 \<longrightarrow>
      prop_fee_rounding_never_overflows_or_exceeds_amount a r)
   \<and> (1 \<le> a \<and> a \<le> 1000 \<and> 0 \<le> r \<and> r \<le> 10000 \<longrightarrow> prop_fee_rounding_near_zero_amount a r)
   \<and> (max_reasonable_amount - 10000000000 \<le> a \<and> a \<le> max_reasonable_amount \<and> 0 \<le> r \<and> r \<le> 10000 \<longrightarrow>
      prop_fee_rounding_near_max_amount a r)
   \<and> (1 \<le> a \<and> a \<le> 10000000000 \<longrightarrow> prop_fee_rounding_max_bps_equals_amount a)
   \<and> (1 \<le> a \<and> a \<le> max_reasonable_amount \<longrightarrow> prop_fee_rounding_zero_bps_is_always_zero a)"
proof (intro conjI impI; elim conjE)
  assume a: "1 \<le> a" "a \<le> 10000000000" "0 \<le> r" "r \<le> 10000"
  have "a * r \<le> 10000000000 * 10000" using a by (intro mult_mono) auto
  then have m: "a * r \<le> i128_max" by (simp add: i128_numerals)
  have "a \<le> max_reasonable_amount" using a by (simp add: max_reasonable_amount_value)
  with a m fee_value[of a r] fee_in_range[of a r] fee_sum_fits[of a "a * r div 10000"] fee_dust[of "a * r"]
  show "prop_fee_rounding_never_overflows_or_exceeds_amount a r"
    by (simp add: prop_fee_rounding_never_overflows_or_exceeds_amount_def Let_def)
next
  assume a: "1 \<le> a" "a \<le> 1000" "0 \<le> r" "r \<le> 10000"
  have "a * r \<le> 1000 * 10000" using a by (intro mult_mono) auto
  then have m: "a * r \<le> i128_max" by (simp add: i128_numerals)
  with a fee_value[of a r] tiny_fee_is_zero[of a r] show "prop_fee_rounding_near_zero_amount a r"
    by (auto simp: prop_fee_rounding_near_zero_amount_def)
next
  assume a: "max_reasonable_amount - 10000000000 \<le> a" "a \<le> max_reasonable_amount" "0 \<le> r" "r \<le> 10000"
  then have p: "0 < a" by (simp add: max_reasonable_amount_value)
  then have ok: "validate_collateral_amount a = Inr ()" using a
    by (simp add: validate_collateral_amount_def validate_amount_positive_def validate_amount_reasonable_def
        check_def try_then_def)
  have nn: "0 \<le> a * r" using p a by simp
  show "prop_fee_rounding_near_max_amount a r"
  proof (cases "a * r \<le> i128_max")
    case True
    with p a nn fee_value[of a r] fee_in_range[of a r] fee_sum_fits[of a "a * r div 10000"] ok
    show ?thesis by (simp add: prop_fee_rounding_near_max_amount_def sdiv_nonneg)
  next
    case False
    then have "checked_mul a r = None" by (simp add: checked_mul_def in_i128_def)
    with False p a fee_value[of a r] ok show ?thesis by (simp add: prop_fee_rounding_near_max_amount_def)
  qed
next
  assume "1 \<le> a" "a \<le> 10000000000"
  then show "prop_fee_rounding_max_bps_equals_amount a"
    using fee_value[of a 10000] by (simp add: prop_fee_rounding_max_bps_equals_amount_def i128_numerals)
next
  assume "1 \<le> a" "a \<le> max_reasonable_amount"
  then show "prop_fee_rounding_zero_bps_is_always_zero a"
    using fee_value[of a 0] by (simp add: prop_fee_rounding_zero_bps_is_always_zero_def i128_numerals)
qed

lemma the_fee_tests_pass_witness:
  "prop_fee_rounding_near_max_amount max_reasonable_amount 10000 \<and> prop_fee_rounding_near_zero_amount 7 30"
  using the_fee_tests_pass[of max_reasonable_amount 10000] the_fee_tests_pass[of 7 30]
  by (simp add: max_reasonable_amount_value)

section \<open>A test that can fail\<close>

text \<open>
  \<open>prop_deposit_preserves_locked_invariant\<close> gives a new user shares through \<open>update_position\<close> and
  deposits afterwards. Nothing makes the update look at the deposit, so a small deposit leaves the
  lock above it, and the assertion fails.
\<close>

lemma a_lock_needs_no_deposit:
  "\<exists>p s1 s2. update_position_persist E direct_market shown 1 (Account 20) 1000 500 5000 (fz_chain fuzz_demo_state) = (Ok p, s1)
    \<and> deposit_collateral (fuzz_env fuzz_demo fuzz_start) direct_market (beside_treasury ledger_client) (Account 20) 1 1 s1
      = (Ok (), s2)
    \<and> pos_total_deposited (position_in (store s2) 1 (Account 20)) = 1
    \<and> pos_locked_collateral (position_in (store s2) 1 (Account 20)) = 250"
proof -
  let ?s = "fz_chain fuzz_demo_state" and ?E = "fuzz_env fuzz_demo fuzz_start" and ?a = "Account 20"
  have calc: "calculate_locked_collateral 1000 500 5000 = Some 250"
    by (simp add: locked_collateral_value scale_by_bps_value i128_numerals)
  obtain p s1 where u: "update_position_persist E direct_market shown 1 ?a 1000 500 5000 ?s = (Ok p, s1)"
    "store s1 = (store ?s)\<lparr>v_positions := (v_positions (store ?s))((1, ?a) \<mapsto> p)\<rparr>" "ext s1 = ext ?s"
    "pos_total_deposited p = 0" "pos_locked_collateral p = 250"
    by (simp add: update_position_persist_def announce_update_run require_price_def validate_market_price_def check_def run_simps
        peek_position_def poke_position_def position_limit_exceeded_side_def validate_position_change_def
        relock_def calc direct_market_def fuzz_demo_state_def empty_view_def new_empty_def in_i128_def i128_numerals)
  have pos: "position_in (store s1) 1 ?a = p" by (simp add: u(2) position_in_def)
  have auth: "authorized ?E ?a" by (simp add: fuzz_env_def)
  have ref: "deposit_refusal ?E (store s1) 1 1 = None"
    by (simp add: u(2) deposit_refusal_def fuzz_demo_state_def fuzz_demo_market_def empty_view_def fuzz_env_def
        fuzz_end_def max_reasonable_amount_value)
  have mk: "v_markets (store s1) 1 = Some fuzz_demo_market" by (simp add: u(2) fuzz_demo_state_def)
  have fits: "in_i128 (v_balance (store s1) ?a + 1)" "in_i128 (pos_total_deposited (position_in (store s1) 1 ?a) + 1)"
    unfolding pos u(4) by (simp_all add: u(2) fuzz_demo_state_def empty_view_def in_i128_def i128_numerals)
  obtain y where pay: "tok_transfer (beside_treasury ledger_client) (mkt_collateral_token fuzz_demo_market) ?a
      (current_contract_address ?E) 1 (ext s1) = Some ((), y)"
    by (simp add: u(3) beside_treasury_def ledger_client_def ledger_transfer_def Let_def fuzz_demo_state_def
        fresh_treasury_def user_funds_def fuzz_demo_market_def)
  from market_direct.deposit_go[OF auth ref mk fits pay] obtain s2 where
    "deposit_collateral ?E direct_market (beside_treasury ledger_client) ?a 1 1 s1 = (Ok (), s2)"
    "store s2 = deposited_view ?E (store s1) 1 ?a 1" by blast
  with u show ?thesis by (auto simp: deposited_view_def position_in_def)
qed

end
