(* ===== verification/Market_Vectors.thy ===== *)
theory Market_Vectors
  imports Interfaces
begin

text \<open>
  The fee fixture of \<^verbatim>\<open>contracts/market/src/tests_vectors.rs\<close>: its validation and the FNV-1a
  correlation id by which indexers recognise a replayed fill. The module uses a type
  \<^verbatim>\<open>PositionId\<close> that no file declares; a position is a number of \<open>k\<close> bytes here, for every \<open>k\<close>.
\<close>

unbundle bit_operations_syntax

section \<open>The fixture\<close>

datatype fixture_error = InvalidFeeAmount | InvalidAsset | InvalidCorrelationId

record fee_collected_fixture =
  ff_position_id :: nat
  ff_payer :: u64
  ff_fee_stroops :: i128
  ff_asset :: bytes
  ff_ledger_seq :: u32
  ff_correlation_id :: "64 word"

definition fixture_validate :: "fee_collected_fixture \<Rightarrow> fixture_error + unit" where
  "fixture_validate f =
     try_then (check (\<not> ff_fee_stroops f < 0) InvalidFeeAmount) (\<lambda>_.
     try_then (check (\<not> ff_asset f = [0, 0, 0, 0]) InvalidAsset) (\<lambda>_.
     check (\<not> ff_correlation_id f = 0) InvalidCorrelationId))"

section \<open>The correlation id\<close>

text \<open>\<open>n.to_le_bytes()\<close> of a \<open>k\<close>-byte integer.\<close>

definition le_bytes :: "nat \<Rightarrow> nat \<Rightarrow> bytes" where
  "le_bytes k n = map (\<lambda>i. word_of_nat (n div 256 ^ i)) [0..<k]"

definition fnv_step :: "64 word \<Rightarrow> 8 word \<Rightarrow> 64 word" where
  "fnv_step hash byte = (hash XOR ucast byte) * 0x00000100000001b3"

definition fnv1a :: "bytes \<Rightarrow> 64 word" where
  "fnv1a bs = foldl fnv_step 0xcbf29ce484222325 bs"

definition correlation_id_for :: "nat \<Rightarrow> nat \<Rightarrow> u32 \<Rightarrow> 64 word" where
  "correlation_id_for k position_id ledger_seq =
     (let hash = fnv1a (le_bytes k position_id @ le_bytes 4 ledger_seq)
      in if hash = 0 then 1 else hash)"

definition fee_collected_golden :: "nat \<Rightarrow> fee_collected_fixture" where
  "fee_collected_golden k = \<lparr>ff_position_id = 42, ff_payer = 7, ff_fee_stroops = 1250,
     ff_asset = [0x55, 0x53, 0x44, 0x43], ff_ledger_seq = 1000000,
     ff_correlation_id = correlation_id_for k 42 1000000\<rparr>"

section \<open>FNV-1a is injective in every single byte\<close>

text \<open>The FNV prime is odd, hence has an inverse modulo \<open>2 ^ 64\<close>.\<close>

lemma fnv_prime_cancel:
  fixes a b :: "64 word"
  assumes "a * 0x00000100000001b3 = b * 0x00000100000001b3"
  shows "a = b"
proof -
  have one: "0x00000100000001b3 * 14886173955864302971 = (1 :: 64 word)" by simp
  from assms have "a * 0x00000100000001b3 * 14886173955864302971
      = b * 0x00000100000001b3 * 14886173955864302971" by simp
  then show ?thesis by (simp only: mult.assoc one mult_1_right)
qed

lemma fnv_step_hash: "fnv_step h b = fnv_step h' b \<longleftrightarrow> h = h'"
proof
  assume "fnv_step h b = fnv_step h' b"
  then have "h XOR ucast b = h' XOR ucast b" unfolding fnv_step_def by (rule fnv_prime_cancel)
  then have "(h XOR ucast b) XOR ucast b = (h' XOR ucast b) XOR ucast b" by simp
  then show "h = h'" by (simp add: xor.assoc)
qed simp

lemma fnv_step_byte: "fnv_step h b = fnv_step h b' \<longleftrightarrow> b = b'"
proof
  assume "fnv_step h b = fnv_step h b'"
  then have "h XOR ucast b = h XOR ucast b'" unfolding fnv_step_def by (rule fnv_prime_cancel)
  then have "h XOR (h XOR ucast b) = h XOR (h XOR ucast b')" by simp
  then have "(ucast b :: 64 word) = ucast b'" by (simp flip: xor.assoc)
  then have "unat (ucast b :: 64 word) = unat (ucast b' :: 64 word)" by simp
  moreover have "take_bit 64 (unat x) = unat x" for x :: "8 word"
    using unsigned_less[of x, where 'a = nat] by (simp add: take_bit_nat_eq_self_iff)
  ultimately show "b = b'" by (simp add: unsigned_ucast_eq word_unat_eq_iff)
qed simp

lemma fnv_fold_hash: "foldl fnv_step h bs = foldl fnv_step h' bs \<longleftrightarrow> h = h'"
  by (induction bs arbitrary: h h') (simp_all add: fnv_step_hash)

lemma fnv1a_byte: "fnv1a (xs @ b # ys) = fnv1a (xs @ b' # ys) \<longleftrightarrow> b = b'"
  by (simp add: fnv1a_def fnv_fold_hash fnv_step_byte)

lemma le_bytes_low: "le_bytes (Suc k) n = word_of_nat n # le_bytes k (n div 256)"
  by (simp add: le_bytes_def upt_conv_Cons map_Suc_upt[symmetric] div_mult2_eq del: upt_Suc)

lemma low_bytes_differ: "n div 256 = n' div 256 \<Longrightarrow> (word_of_nat n :: 8 word) = word_of_nat n' \<longleftrightarrow> n = n'"
  by (auto simp: word_of_nat_eq_iff take_bit_eq_mod) (metis div_mult_mod_eq)

section \<open>Properties\<close>

text \<open>
  The correlation id of a fill is never the unset value 0, and two fills that differ in one
  number, the position or the ledger sequence, within one block of 256 consecutive values have
  different FNV hashes; their ids coincide only if one of the hashes is 0 and the other 1.
\<close>

theorem neighbouring_fills_have_distinct_ids:
  assumes "p div 256 = p' div 256" and "l div 256 = l' div 256"
    and "p = p' \<and> l \<noteq> l' \<or> p \<noteq> p' \<and> l = l'" and "0 < k"
  shows "correlation_id_for k p l \<noteq> 0
    \<and> fnv1a (le_bytes k p @ le_bytes 4 l) \<noteq> fnv1a (le_bytes k p' @ le_bytes 4 l')
    \<and> (correlation_id_for k p l = correlation_id_for k p' l' \<longrightarrow>
        {fnv1a (le_bytes k p @ le_bytes 4 l), fnv1a (le_bytes k p' @ le_bytes 4 l')} = {0, 1})"
proof -
  obtain j where k: "k = Suc j" using assms(4) by (cases k) auto
  have four: "le_bytes 4 n = word_of_nat n # le_bytes 3 (n div 256)" for n
    using le_bytes_low[of 3 n] by simp
  have "fnv1a (le_bytes k p @ le_bytes 4 l) \<noteq> fnv1a (le_bytes k p' @ le_bytes 4 l')"
  proof (cases "p = p'")
    case True
    with assms have "(word_of_nat l :: 8 word) \<noteq> word_of_nat l'" by (simp add: low_bytes_differ)
    with fnv1a_byte[of "le_bytes k p" "word_of_nat l" "le_bytes 3 (l div 256)" "word_of_nat l'"]
    show ?thesis using True assms(2) by (simp add: four)
  next
    case False
    with assms have "(word_of_nat p :: 8 word) \<noteq> word_of_nat p'" "l = l'" by (auto simp: low_bytes_differ)
    with fnv1a_byte[of "[]" "word_of_nat p" "le_bytes j (p div 256) @ le_bytes 4 l" "word_of_nat p'"]
    show ?thesis using assms(1) by (simp add: k le_bytes_low)
  qed
  then show ?thesis by (auto simp: correlation_id_for_def Let_def split: if_splits)
qed

lemma neighbouring_fills_have_distinct_ids_witness:
  "fnv1a (le_bytes 8 42 @ le_bytes 4 1000000) \<noteq> fnv1a (le_bytes 8 43 @ le_bytes 4 1000000)
   \<and> fixture_validate (fee_collected_golden 8) = Inr ()"
  using neighbouring_fills_have_distinct_ids[of 42 43 1000000 1000000 8]
  by (simp add: fixture_validate_def fee_collected_golden_def check_def try_then_def)

text \<open>
  A fixture that passes validation has a fee of at least zero, names an asset and carries a set
  id, and the first of these that fails is the error.
\<close>

lemma fixture_validate_spec:
  "fixture_validate f =
     (if ff_fee_stroops f < 0 then Inl InvalidFeeAmount
      else if ff_asset f = [0, 0, 0, 0] then Inl InvalidAsset
      else if ff_correlation_id f = 0 then Inl InvalidCorrelationId else Inr ())"
  by (simp add: fixture_validate_def check_def try_then_def)

end
