(* ===== verification/Treasury_Distribution.thy ===== *)
theory Treasury_Distribution
  imports Treasury_Books
begin

text \<open>
  The reference arithmetic of \<^verbatim>\<open>contracts/treasury/src/distribute_proptest.rs\<close>: a total divided
  over weights in \<open>u128\<close>, the last recipient taking what is left, and a state machine with replay
  protection around it. It is compared with the payouts of the contract's own
  \<open>distribute_fees\<close>.
\<close>

section \<open>Unsigned 128-bit integers\<close>

type_synonym u128 = nat

definition u128_max :: u128 where "u128_max = 2 ^ 128 - 1"

definition checked_add_u128 :: "u128 \<Rightarrow> u128 \<Rightarrow> u128 option" where
  "checked_add_u128 a b = (if a + b \<le> u128_max then Some (a + b) else None)"

definition checked_sub_u128 :: "u128 \<Rightarrow> u128 \<Rightarrow> u128 option" where
  "checked_sub_u128 a b = (if b \<le> a then Some (a - b) else None)"

definition checked_mul_u128 :: "u128 \<Rightarrow> u128 \<Rightarrow> u128 option" where
  "checked_mul_u128 a b = (if a * b \<le> u128_max then Some (a * b) else None)"

text \<open>\<open>x as i128\<close>: the two's complement reading of the same bits.\<close>

definition as_i128 :: "u128 \<Rightarrow> i128" where
  "as_i128 x = (if int x \<le> i128_max then int x else int x - 2 ^ 128)"

lemma u128_numeral: "u128_max = 340282366920938463463374607431768211455"
  by (simp add: u128_max_def)

lemma as_i128_small [simp]: "int x \<le> i128_max \<Longrightarrow> as_i128 x = int x"
  by (simp add: as_i128_def)

section \<open>distribute_proptest.rs: the distribution\<close>

datatype distribute_error = Unauthorized | WrongRole | InvalidWeights | ArithmeticOverflow | Replay

datatype role = Admin | Treasurer | Public

record distribution =
  dist_amounts :: "i128 list"
  dist_total :: i128

definition authorize :: "role \<Rightarrow> distribute_error + unit" where
  "authorize role = (case role of Admin \<Rightarrow> Inr () | Treasurer \<Rightarrow> Inr () | Public \<Rightarrow> Inl Unauthorized)"

primrec try_fold_weights :: "u128 list \<Rightarrow> u128 \<Rightarrow> u128 option" where
  "try_fold_weights [] acc = Some acc"
| "try_fold_weights (w # ws) acc = Option.bind (checked_add_u128 acc w) (try_fold_weights ws)"

text \<open>The loop over the weights; the last one is the one with none behind it.\<close>

fun share_loop :: "u128 \<Rightarrow> u128 \<Rightarrow> u128 list \<Rightarrow> u128 \<Rightarrow> i128 list
    \<Rightarrow> distribute_error + i128 list \<times> u128" where
  "share_loop total_u weight_sum [] distributed amounts = Inr (amounts, distributed)"
| "share_loop total_u weight_sum (w # ws) distributed amounts =
     try_then (if ws = []
         then opt_ok_or (checked_sub_u128 total_u distributed) ArithmeticOverflow
         else opt_ok_or (map_option (\<lambda>p. p div weight_sum) (checked_mul_u128 total_u w))
           ArithmeticOverflow) (\<lambda>share.
     try_then (opt_ok_or (checked_add_u128 distributed share) ArithmeticOverflow) (\<lambda>distributed'.
     share_loop total_u weight_sum ws distributed' (amounts @ [as_i128 share])))"

definition compute_distribution :: "i128 \<Rightarrow> u128 list \<Rightarrow> distribute_error + distribution" where
  "compute_distribution amount weights =
     try_then (check (\<not> weights = []) InvalidWeights) (\<lambda>_.
     try_then (check (\<not> amount < 0) ArithmeticOverflow) (\<lambda>_.
     try_then (opt_ok_or (try_fold_weights weights 0) ArithmeticOverflow) (\<lambda>weight_sum.
     try_then (check (\<not> weight_sum = 0) InvalidWeights) (\<lambda>_.
     try_then (share_loop (nat amount) weight_sum weights 0 []) (\<lambda>(amounts, distributed).
     try_then (check (\<not> distributed \<noteq> nat amount) ArithmeticOverflow) (\<lambda>_.
     Inr \<lparr>dist_amounts = amounts, dist_total = as_i128 distributed\<rparr>))))))"

section \<open>distribute_proptest.rs: the state around it\<close>

record distribute_state =
  ds_distributed_total :: i128
  ds_invocations :: u32
  ds_processed :: "u64 list"

definition apply_distribute :: "role \<Rightarrow> u64 \<Rightarrow> i128 \<Rightarrow> u128 list
    \<Rightarrow> (distribute_error, distribute_state, distribution) contract" where
  "apply_distribute role request_id amount weights =
     andthen (try_result (authorize role))
     (bind (gets ds_processed) (\<lambda>processed.
     andthen (ensure (\<not> request_id \<in> set processed) Replay)
     (bind (try_result (compute_distribution amount weights)) (\<lambda>distribution.
     andthen (modify (\<lambda>s. s\<lparr>ds_processed := ds_processed s @ [request_id]\<rparr>))
     (bind (gets ds_distributed_total) (\<lambda>so_far.
     bind (ok_or (checked_add so_far (dist_total distribution)) ArithmeticOverflow) (\<lambda>sum.
     andthen (modify (\<lambda>s. s\<lparr>ds_distributed_total := sum\<rparr>))
     (bind (gets ds_invocations) (\<lambda>n.
     bind (add_u32 n 1) (\<lambda>n'.
     andthen (modify (\<lambda>s. s\<lparr>ds_invocations := n'\<rparr>))
     (return distribution)))))))))))"

section \<open>What the loop computes\<close>

lemma try_fold_weights_value:
  "try_fold_weights ws acc =
     (if ws = [] \<or> acc + sum_list ws \<le> u128_max then Some (acc + sum_list ws) else None)"
proof (induction ws arbitrary: acc)
  case (Cons w ws)
  show ?case
    by (cases "ws = []") (auto simp: checked_add_u128_def Cons.IH add.assoc)
qed simp

definition floor_share :: "u128 \<Rightarrow> u128 \<Rightarrow> u128 \<Rightarrow> u128" where
  "floor_share total_u weight_sum w = total_u * w div weight_sum"

lemma floor_shares_le:
  assumes "0 < S"
  shows "S * sum_list (map (floor_share n S) ws) \<le> n * sum_list ws"
proof (induction ws)
  case (Cons w ws)
  have "S * floor_share n S w \<le> n * w" by (simp add: floor_share_def)
  with Cons show ?case by (simp add: distrib_left)
qed simp

text \<open>The weights before the last receive their floors, the last one the rest.\<close>

lemma share_loop_value:
  assumes "ws \<noteq> []" and "d + sum_list (map (floor_share n S) (butlast ws)) \<le> n"
    and "int n \<le> i128_max"
  shows "share_loop n S ws d as =
    (if \<forall>w\<in>set (butlast ws). n * w \<le> u128_max
     then Inr (as @ map (int \<circ> floor_share n S) (butlast ws)
        @ [int n - int d - int (sum_list (map (floor_share n S) (butlast ws)))], n)
     else Inl ArithmeticOverflow)"
  using assms(1,2)
proof (induction ws arbitrary: d "as")
  case (Cons w ws)
  have n: "n \<le> u128_max" using assms(3) by (simp add: u128_numeral i128_numerals)
  show ?case
  proof (cases "ws = []")
    case True
    with Cons.prems have "d \<le> n" by simp
    with n True show ?thesis
      using assms(3) by (simp add: checked_sub_u128_def checked_add_u128_def try_then_def opt_ok_or_def
          of_nat_diff)
  next
    case False
    let ?f = "floor_share n S w"
    from Cons.prems False have le: "d + ?f + sum_list (map (floor_share n S) (butlast ws)) \<le> n" by simp
    then have f: "d + ?f \<le> u128_max" "int ?f \<le> i128_max" using n assms(3) by linarith+
    note IH = Cons.IH[OF False le, of "as @ [int ?f]"]
    show ?thesis
      using False f by (auto simp: checked_mul_u128_def checked_add_u128_def try_then_def opt_ok_or_def IH
          floor_share_def[symmetric] simp del: of_nat_add)
  qed
qed simp

section \<open>The distribution, decided\<close>

text \<open>
  The distribution as a specification: the refusals in their order, and the amounts otherwise.
\<close>

definition distribution_of :: "i128 \<Rightarrow> u128 list \<Rightarrow> distribution" where
  "distribution_of amount ws =
     (let shares = map (\<lambda>w. amount * int w div int (sum_list ws)) (butlast ws)
      in \<lparr>dist_amounts = shares @ [amount - sum_list shares], dist_total = amount\<rparr>)"

lemma butlast_floors_le:
  assumes "0 < sum_list ws"
  shows "sum_list (map (floor_share n (sum_list ws)) (butlast ws)) \<le> n"
proof -
  have "ws = butlast ws @ [last ws]" using assms by (cases ws rule: rev_cases) auto
  then have "sum_list ws = sum_list (butlast ws) + last ws"
    by (metis sum_list.append sum_list_simps(2) add.right_neutral sum_list.Nil)
  then have "n * sum_list (butlast ws) \<le> sum_list ws * n" by (simp add: mult.commute)
  then have "sum_list ws * sum_list (map (floor_share n (sum_list ws)) (butlast ws)) \<le> sum_list ws * n"
    using floor_shares_le[OF assms, of n "butlast ws"] by (rule order_trans[rotated])
  with assms show ?thesis by simp
qed

lemma floor_share_int: "0 \<le> amount \<Longrightarrow>
    int (floor_share (nat amount) S w) = amount * int w div int S"
  by (simp add: floor_share_def zdiv_int)

lemma compute_distribution_value:
  assumes "amount \<le> i128_max"
  shows "compute_distribution amount ws =
    (if ws = [] then Inl InvalidWeights
     else if amount < 0 \<or> u128_max < sum_list ws then Inl ArithmeticOverflow
     else if sum_list ws = 0 then Inl InvalidWeights
     else if \<exists>w\<in>set (butlast ws). u128_max < nat amount * w then Inl ArithmeticOverflow
     else Inr (distribution_of amount ws))"
proof (cases "ws = [] \<or> amount < 0 \<or> u128_max < sum_list ws \<or> sum_list ws = 0")
  case True
  then show ?thesis
    by (auto simp: compute_distribution_def try_fold_weights_value check_def try_then_def opt_ok_or_def
        simp del: sum_list_eq_0_iff)
next
  case False
  then have ws: "ws \<noteq> []" "sum_list ws \<noteq> 0" "0 < sum_list ws" "sum_list ws \<le> u128_max"
    and t: "0 \<le> amount" by (auto simp: neq0_conv simp del: sum_list_eq_0_iff)
  let ?S = "sum_list ws"
  have loop: "share_loop (nat amount) ?S ws 0 [] =
    (if \<forall>w\<in>set (butlast ws). nat amount * w \<le> u128_max
     then Inr (map (int \<circ> floor_share (nat amount) ?S) (butlast ws)
        @ [int (nat amount) - int (sum_list (map (floor_share (nat amount) ?S) (butlast ws)))], nat amount)
     else Inl ArithmeticOverflow)"
    using share_loop_value[OF ws(1), of 0 "nat amount" ?S "[]"] butlast_floors_le[OF ws(3), of "nat amount"]
      assms t by simp
  have "int (sum_list (map (floor_share (nat amount) ?S) l)) =
      sum_list (map (\<lambda>w. amount * int w div int ?S) l)" for l
    by (induction l) (simp_all add: floor_share_int[OF t])
  moreover have "map (int \<circ> floor_share (nat amount) ?S) (butlast ws) =
      map (\<lambda>w. amount * int w div int ?S) (butlast ws)"
    by (simp add: floor_share_int[OF t])
  ultimately have loop': "share_loop (nat amount) ?S ws 0 [] =
    (if \<exists>w\<in>set (butlast ws). u128_max < nat amount * w then Inl ArithmeticOverflow
     else Inr (dist_amounts (distribution_of amount ws), nat amount))"
    using t by (simp add: loop distribution_of_def Let_def not_less[symmetric])
  have "try_fold_weights ws 0 = Some ?S" using ws by (simp add: try_fold_weights_value)
  then show ?thesis
    using ws t assms
    by (simp add: compute_distribution_def check_def try_then_def opt_ok_or_def loop' del: sum_list_eq_0_iff)
      (simp add: distribution_of_def Let_def)
qed

lemma distribution_of_amounts:
  assumes "0 \<le> amount" and "0 < sum_list ws"
  shows "sum_list (dist_amounts (distribution_of amount ws)) = amount"
    and "length (dist_amounts (distribution_of amount ws)) = length ws"
    and "\<forall>k\<in>set (dist_amounts (distribution_of amount ws)). 0 \<le> k"
proof -
  have "int (sum_list (map (floor_share (nat amount) (sum_list ws)) l)) =
      sum_list (map (\<lambda>w. amount * int w div int (sum_list ws)) l)" for l
    by (induction l) (simp_all add: floor_share_int[OF assms(1)])
  with butlast_floors_le[OF assms(2), of "nat amount"] assms(1)
  have "sum_list (map (\<lambda>w. amount * int w div int (sum_list ws)) (butlast ws)) \<le> amount"
    by (metis int_nat_eq of_nat_le_iff)
  then show "\<forall>k\<in>set (dist_amounts (distribution_of amount ws)). 0 \<le> k"
    using assms by (auto simp: distribution_of_def Let_def pos_imp_zdiv_nonneg_iff)
  have "ws \<noteq> []" using assms(2) by auto
  then show "length (dist_amounts (distribution_of amount ws)) = length ws"
    by (cases ws) (simp_all add: distribution_of_def Let_def)
  show "sum_list (dist_amounts (distribution_of amount ws)) = amount"
    by (simp add: distribution_of_def Let_def)
qed

section \<open>The contract's own payouts\<close>

text \<open>
  The contract pays every stakeholder the floor of its share and keeps the rest; the reference
  gives the rest to the last recipient.
\<close>

lemma shares_total_sum: "shares_total l = int (sum_list (map snd l))"
  by (induction l) auto

lemma distribution_of_shares:
  assumes "shares_total l = 10000" and "l \<noteq> []"
  shows "dist_amounts (distribution_of n (map snd l)) =
    map (\<lambda>(a, b). share_of n b) (butlast l)
      @ [share_of n (snd (last l)) + (n - paid_total n l)]"
proof -
  obtain l' p where l: "l = l' @ [p]" using assms(2) by (cases l rule: rev_cases) auto
  have S: "int (sum_list (map snd (l' @ [p]))) = 10000" using assms(1) by (simp only: l shares_total_sum)
  have A: "map (\<lambda>w. n * int w div 10000) (map snd l') = map (\<lambda>(a, b). share_of n b) l'"
    by (auto simp: share_of_def)
  have "paid_total n (l' @ [p]) = sum_list (map (\<lambda>(a, b). share_of n b) l') + share_of n (snd p)"
    by (cases p) (simp add: paid_total_def)
  then show ?thesis
    unfolding l distribution_of_def Let_def S by (simp add: butlast_append A del: map_map)
qed

section \<open>Replay\<close>

lemma apply_distribute_ok:
  assumes "apply_distribute role i n ws s = (Ok d, s')"
  shows "role \<noteq> Public" "i \<notin> set (ds_processed s)" "compute_distribution n ws = Inr d"
    "s' = s\<lparr>ds_processed := ds_processed s @ [i],
       ds_distributed_total := ds_distributed_total s + dist_total d,
       ds_invocations := ds_invocations s + 1\<rparr>"
  using assms by (auto simp: apply_distribute_def ok_iff checked_arith_Some authorize_def
      split: role.splits)

text \<open>
  What a call does, whatever its result: only a success adds to the total, and a call that fails
  after the arithmetic leaves its request id behind.
\<close>

lemma apply_distribute_cases:
  assumes "ds_invocations s < u32_max"
  shows "(\<exists>d. apply_distribute role i n ws s = (Ok d, s\<lparr>ds_processed := ds_processed s @ [i],
      ds_distributed_total := ds_distributed_total s + dist_total d,
      ds_invocations := ds_invocations s + 1\<rparr>) \<and> i \<notin> set (ds_processed s))
    \<or> (\<exists>e. apply_distribute role i n ws s = (Err e, s))
    \<or> apply_distribute role i n ws s
       = (Err ArithmeticOverflow, s\<lparr>ds_processed := ds_processed s @ [i]\<rparr>) \<and> i \<notin> set (ds_processed s)"
  using assms
  by (cases "compute_distribution n ws"; cases role)
    (auto simp: apply_distribute_def run_simps authorize_def)

text \<open>
  A sequence of calls on one state, as the tests make them: an error is returned to the caller
  and the state it left is used on. The successes are collected.
\<close>

type_synonym distribute_call = "role \<times> u64 \<times> i128 \<times> u128 list"

primrec distribute_run :: "distribute_call list \<Rightarrow> distribute_state
    \<Rightarrow> (u64 \<times> distribution) list \<times> distribute_state" where
  "distribute_run [] s = ([], s)"
| "distribute_run (c # cs) s =
     (let (role, i, n, ws) = c in
      case apply_distribute role i n ws s of
        (Ok d, t) \<Rightarrow> (let (out, u) = distribute_run cs t in ((i, d) # out, u))
      | (Err e, t) \<Rightarrow> distribute_run cs t
      | (Panic, t) \<Rightarrow> ([], t))"

lemma distribute_run_once:
  assumes "distribute_run cs s = (out, s')" and "ds_invocations s + length cs \<le> u32_max"
  shows "distinct (map fst out) \<and> set (map fst out) \<inter> set (ds_processed s) = {}
    \<and> set (ds_processed s) \<union> set (map fst out) \<subseteq> set (ds_processed s')
    \<and> ds_distributed_total s' = ds_distributed_total s + (\<Sum>(i, d)\<leftarrow>out. dist_total d)
    \<and> ds_invocations s' = ds_invocations s + length out"
  using assms
proof (induction cs arbitrary: s out)
  case Nil
  then show ?case by simp
next
  case (Cons c cs)
  obtain role i n ws where c: "c = (role, i, n, ws)" by (cases c)
  from Cons.prems(2) have "ds_invocations s < u32_max" by simp
  from apply_distribute_cases[OF this, of role i n ws] show ?case
  proof (elim disjE exE conjE)
    fix d :: distribution
    let ?t = "s\<lparr>ds_processed := ds_processed s @ [i],
      ds_distributed_total := ds_distributed_total s + dist_total d,
      ds_invocations := ds_invocations s + 1\<rparr>"
    assume a: "apply_distribute role i n ws s = (Ok d, ?t)" and new: "i \<notin> set (ds_processed s)"
    obtain rest u where r: "distribute_run cs ?t = (rest, u)" by fastforce
    with Cons.prems a have out: "out = (i, d) # rest" "s' = u" by (auto simp: c)
    from Cons.IH[of ?t rest] r Cons.prems(2) out new show ?thesis by auto
  next
    fix e
    assume "apply_distribute role i n ws s = (Err e, s)"
    with Cons.prems Cons.IH[of s out] show ?thesis by (auto simp: c)
  next
    let ?t = "s\<lparr>ds_processed := ds_processed s @ [i]\<rparr>"
    assume "apply_distribute role i n ws s = (Err ArithmeticOverflow, ?t)"
    with Cons.prems Cons.IH[of ?t out] show ?thesis by (auto simp: c)
  qed
qed

section \<open>Properties\<close>

text \<open>
  C31. The reference distribution is decided by its inputs: it refuses an empty list, a negative total,
  weights whose sum leaves \<open>u128\<close> or is zero, and a total that multiplied by one of the weights
  before the last leaves \<open>u128\<close>; otherwise every recipient before the last receives the floor of
  its proportional share and the last one the rest, so that the amounts are non-negative, one per
  weight, and sum up to the total exactly.
\<close>

theorem distribution_is_decided:
  assumes "amount \<le> i128_max"
  shows "compute_distribution amount ws =
    (if ws = [] then Inl InvalidWeights
     else if amount < 0 \<or> u128_max < sum_list ws then Inl ArithmeticOverflow
     else if sum_list ws = 0 then Inl InvalidWeights
     else if \<exists>w\<in>set (butlast ws). u128_max < nat amount * w then Inl ArithmeticOverflow
     else Inr (distribution_of amount ws))
   \<and> (compute_distribution amount ws = Inr d \<longrightarrow> dist_total d = amount
       \<and> sum_list (dist_amounts d) = amount \<and> length (dist_amounts d) = length ws
       \<and> (\<forall>k\<in>set (dist_amounts d). 0 \<le> k))"
proof -
  note v = compute_distribution_value[OF assms, of ws]
  have "dist_total d = amount \<and> sum_list (dist_amounts d) = amount \<and> length (dist_amounts d) = length ws
      \<and> (\<forall>k\<in>set (dist_amounts d). 0 \<le> k)" if "compute_distribution amount ws = Inr d"
  proof -
    from that v have d: "d = distribution_of amount ws" "0 \<le> amount" "sum_list ws \<noteq> 0"
      by (auto split: if_splits)
    then have "0 < sum_list ws" by (simp only: neq0_conv)
    note a = distribution_of_amounts[OF d(2) this]
    have "dist_total d = amount" by (simp add: d(1) distribution_of_def Let_def)
    with a show ?thesis unfolding d(1) by blast
  qed
  with v show ?thesis by blast
qed

lemma distribution_is_decided_witness:
  "\<exists>d. compute_distribution 100 [1, 1, 1] = Inr d \<and> dist_amounts d = [33, 33, 34]
     \<and> sum_list (dist_amounts d) = 100"
proof -
  let ?d = "distribution_of 100 [1, 1, 1]"
  have "compute_distribution 100 [1, 1, 1] = Inr ?d"
    by (simp add: compute_distribution_value i128_numerals u128_numeral)
  with distribution_is_decided[of 100 "[1, 1, 1]" ?d]
  have "compute_distribution 100 [1, 1, 1] = Inr ?d" "sum_list (dist_amounts ?d) = 100"
    by (simp_all add: i128_numerals)
  moreover have "dist_amounts ?d = [33, 33, 34]" by (simp add: distribution_of_def Let_def)
  ultimately show ?thesis by blast
qed

text \<open>
  The test's own claim, that every total up to half of \<open>i128::MAX\<close> can be distributed over weights
  up to a million, fails: two weights of a million already overflow the product.
\<close>

lemma large_totals_are_refused:
  "compute_distribution (i128_max div 2) [1000000, 1000000] = Inl ArithmeticOverflow"
  by (simp add: compute_distribution_value i128_numerals u128_numeral)

text \<open>
  C21. The reference and the contract's \<open>distribute_fees\<close> agree on everyone but the last stakeholder:
  for stakeholder weights that sum up to 100% both give the floor of the share, and what the
  contract leaves on its books as dust the reference adds to the last recipient.
\<close>

theorem the_reference_pays_out_the_dust:
  assumes "payouts_of n l [] 0 = Inr (payouts, distributed)" and "0 \<le> n" and "n \<le> i128_max"
    and "shares_total l = 10000"
    and "compute_distribution n (map snd l) = Inr d"
  shows "payouts = payout_list n l \<and> l \<noteq> []
    \<and> dist_amounts d = map (\<lambda>(a, b). share_of n b) (butlast l)
        @ [share_of n (snd (last l)) + (n - distributed)]
    \<and> 0 \<le> n - distributed \<and> n - distributed < int (length l)"
proof -
  have l: "l \<noteq> []" using assms(4) by auto
  from payouts_of_ok[OF assms(1,2)] have p: "payouts = payout_list n l" "distributed = paid_total n l"
    by (simp_all add: payout_list_def)
  have "d = distribution_of n (map snd l)"
    using compute_distribution_value[OF assms(3)] assms(5) by (auto split: if_splits)
  with p l distribution_of_shares[OF assms(4) l] dust_bounds[OF assms(4) l, of n] show ?thesis by simp
qed

lemma the_reference_pays_out_the_dust_witness:
  "\<exists>d. compute_distribution 103 [5000, 5000] = Inr d \<and> dist_amounts d = [51, 52]"
proof -
  let ?l = "[(Account 1, 5000), (Account 2, 5000)] :: (address \<times> u32) list"
  have d: "compute_distribution 103 (map snd ?l) = Inr (distribution_of 103 (map snd ?l))"
    by (simp add: compute_distribution_value i128_numerals u128_numeral)
  have p: "payouts_of 103 ?l [] 0 = Inr ([(Account 1, 51), (Account 2, 51)], 102)"
    by (simp add: checked_mul_def checked_add_def in_i128_def i128_numerals treasury_bps_denominator_def
        sdiv_nonneg)
  from the_reference_pays_out_the_dust[OF p _ _ _ d] d show ?thesis
    by (simp add: share_of_def i128_numerals)
qed

text \<open>
  C32. A request is distributed once: in any sequence of calls the ids of the successful ones are
  distinct and were not processed before, and the distributed total grows by exactly their totals.
\<close>

theorem a_request_is_distributed_once:
  assumes "distribute_run cs s = (out, s')" and "ds_invocations s + length cs \<le> u32_max"
  shows "distinct (map fst out) \<and> set (map fst out) \<inter> set (ds_processed s) = {}
    \<and> ds_distributed_total s' = ds_distributed_total s + (\<Sum>(i, d)\<leftarrow>out. dist_total d)
    \<and> ds_invocations s' = ds_invocations s + length out"
  using distribute_run_once[OF assms] by blast

lemma a_request_is_distributed_once_witness:
  "ds_distributed_total (snd (distribute_run [(Admin, 7, 10, [1]), (Treasurer, 7, 10, [1]), (Public, 8, 5, [1])]
     \<lparr>ds_distributed_total = 0, ds_invocations = 0, ds_processed = []\<rparr>)) = 10"
proof -
  let ?cs = "[(Admin, 7, 10, [1]), (Treasurer, 7, 10, [1]), (Public, 8, 5, [1])] :: distribute_call list"
  let ?s = "\<lparr>ds_distributed_total = 0, ds_invocations = 0, ds_processed = []\<rparr>"
  let ?d = "distribution_of 10 [1]"
  have c: "compute_distribution 10 [1] = Inr ?d"
    by (simp add: compute_distribution_value i128_numerals u128_numeral)
  have a: "apply_distribute Admin 7 10 [1] ?s = (Ok ?d,
      \<lparr>ds_distributed_total = 10, ds_invocations = 1, ds_processed = [7]\<rparr>)" (is "_ = (_, ?t)")
    by (simp only: apply_distribute_def c)
      (simp add: run_simps authorize_def in_i128_def i128_numerals u32_max_def distribution_of_def Let_def)
  have "apply_distribute Treasurer 7 10 [1] ?t = (Err Replay, ?t)"
    "apply_distribute Public 8 5 [1] ?t = (Err Unauthorized, ?t)"
    by (simp_all add: apply_distribute_def run_simps authorize_def)
  with a have r: "distribute_run ?cs ?s = ([(7, ?d)], ?t)" by simp
  from a_request_is_distributed_once[OF r] show ?thesis
    unfolding r by (simp add: u32_max_def distribution_of_def)
qed

text \<open>
  An error is not always without effect, against the comment of \<open>apply_distribute\<close>: a total that
  overflows the running sum is refused, and its request id is kept as processed.
\<close>

lemma an_overflowing_request_is_consumed:
  "apply_distribute Admin 7 10 [1] \<lparr>ds_distributed_total = i128_max, ds_invocations = 0, ds_processed = []\<rparr>
     = (Err ArithmeticOverflow,
        \<lparr>ds_distributed_total = i128_max, ds_invocations = 0, ds_processed = [7]\<rparr>)"
  by (simp add: apply_distribute_def run_simps authorize_def compute_distribution_value distribution_of_def
      in_i128_def i128_numerals u128_numeral)

end
