(* ===== verification/Outcome_Storage.thy ===== *)
theory Outcome_Storage
  imports Market_Reconciliation
begin

text \<open>
  The storage layer beside the outcome-token contract,
  \<^verbatim>\<open>contracts/outcome-token/src/{error,types,storage}.rs\<close>: a versioned layout with balances and
  supplies per market and side. \<^verbatim>\<open>lib.rs\<close> declares none of these modules, so no entrypoint uses
  them; the laws below are what an entrypoint could rely on.
\<close>

section \<open>error.rs and types.rs\<close>

datatype outcome_contract_error =
    AlreadyInitialized
  | NotInitialized
  | Unauthorized
  | InsufficientBalance
  | InvalidAmount
  | Overflow
  | MarketNotResolved
  | UpgradeRequired
  | NoPendingMarketContractChange
  | TimelockNotElapsed
  | TransferBlockedAfterResolve
  | ContractPaused
  | EmptyMetadata
  | InvalidDecimals
  | MetadataTooLong
  | NotAdmin
  | SymbolTooLong
  | NameTooLong

record outcome_token_config =
  oconf_admin :: address
  oconf_market_contract :: address
  oconf_name :: string
  oconf_symbol :: string

section \<open>storage.rs\<close>

text \<open>One field per \<open>StorageKey\<close>.\<close>

record outcome_store =
  skey_storage_version :: "u32 option"
  skey_config :: "outcome_token_config option"
  skey_balance :: "u32 \<times> address \<times> token_kind \<Rightarrow> i128 option"
  skey_total_supply :: "u32 \<times> token_kind \<Rightarrow> i128 option"
  skey_pending_market_contract :: "pending_address_change option"
  skey_paused :: "bool option"

type_synonym 'a oscontract = "(outcome_contract_error, outcome_store, 'a) contract"

definition fresh_outcome_store :: outcome_store where
  "fresh_outcome_store = \<lparr>skey_storage_version = None, skey_config = None, skey_balance = (\<lambda>_. None),
     skey_total_supply = (\<lambda>_. None), skey_pending_market_contract = None, skey_paused = None\<rparr>"

definition ots_storage_version :: u32 where "ots_storage_version = 1"

definition ots_set_version :: "unit oscontract" where
  "ots_set_version = modify (\<lambda>s. s\<lparr>skey_storage_version := Some ots_storage_version\<rparr>)"

definition ots_get_version :: "outcome_store \<Rightarrow> u32 option" where
  "ots_get_version s = skey_storage_version s"

definition ots_assert_version :: "unit oscontract" where
  "ots_assert_version = bind (gets ots_get_version) (\<lambda>v.
     ensure (\<not> v \<noteq> Some ots_storage_version) UpgradeRequired)"

definition ots_has_config :: "outcome_store \<Rightarrow> bool" where
  "ots_has_config s \<longleftrightarrow> skey_config s \<noteq> None"

definition ots_get_config :: "outcome_token_config oscontract" where
  "ots_get_config = bind (gets skey_config) expect"

definition ots_set_config :: "outcome_token_config \<Rightarrow> unit oscontract" where
  "ots_set_config c = modify (\<lambda>s. s\<lparr>skey_config := Some c\<rparr>)"

definition ots_get_pending_market_contract :: "outcome_store \<Rightarrow> pending_address_change option" where
  "ots_get_pending_market_contract s = skey_pending_market_contract s"

definition ots_set_pending_market_contract :: "pending_address_change \<Rightarrow> unit oscontract" where
  "ots_set_pending_market_contract p = modify (\<lambda>s. s\<lparr>skey_pending_market_contract := Some p\<rparr>)"

definition ots_clear_pending_market_contract :: "unit oscontract" where
  "ots_clear_pending_market_contract = modify (\<lambda>s. s\<lparr>skey_pending_market_contract := None\<rparr>)"

definition ots_get_balance :: "u32 \<Rightarrow> address \<Rightarrow> token_kind \<Rightarrow> outcome_store \<Rightarrow> i128" where
  "ots_get_balance m user k s = (case skey_balance s (m, user, k) of None \<Rightarrow> 0 | Some n \<Rightarrow> n)"

definition ots_set_balance :: "u32 \<Rightarrow> address \<Rightarrow> token_kind \<Rightarrow> i128 \<Rightarrow> unit oscontract" where
  "ots_set_balance m user k amount =
     modify (\<lambda>s. s\<lparr>skey_balance := (skey_balance s)((m, user, k) \<mapsto> amount)\<rparr>)"

definition ots_get_total_supply :: "u32 \<Rightarrow> token_kind \<Rightarrow> outcome_store \<Rightarrow> i128" where
  "ots_get_total_supply m k s = (case skey_total_supply s (m, k) of None \<Rightarrow> 0 | Some n \<Rightarrow> n)"

definition ots_set_total_supply :: "u32 \<Rightarrow> token_kind \<Rightarrow> i128 \<Rightarrow> unit oscontract" where
  "ots_set_total_supply m k supply =
     modify (\<lambda>s. s\<lparr>skey_total_supply := (skey_total_supply s)((m, k) \<mapsto> supply)\<rparr>)"

definition ots_is_paused :: "outcome_store \<Rightarrow> bool" where
  "ots_is_paused s = (case skey_paused s of None \<Rightarrow> False | Some b \<Rightarrow> b)"

definition ots_set_paused :: "bool \<Rightarrow> unit oscontract" where
  "ots_set_paused paused = modify (\<lambda>s. s\<lparr>skey_paused := Some paused\<rparr>)"

section \<open>Laws\<close>

lemmas ots_reads = ots_get_version_def ots_has_config_def ots_get_pending_market_contract_def
  ots_get_balance_def ots_get_total_supply_def ots_is_paused_def

lemmas ots_writes = ots_set_version_def ots_set_config_def ots_set_pending_market_contract_def
  ots_clear_pending_market_contract_def ots_set_balance_def ots_set_total_supply_def ots_set_paused_def

text \<open>The version guard passes exactly on a store that \<open>ots_set_version\<close> has stamped.\<close>

lemma ots_assert_version_run:
  "ots_assert_version s = (if skey_storage_version s = Some 1 then (Ok (), s) else (Err UpgradeRequired, s))"
  by (simp add: ots_assert_version_def run_simps ots_get_version_def ots_storage_version_def)

lemma stamped_stores_pass: "andthen ots_set_version ots_assert_version s = (Ok (), s\<lparr>skey_storage_version := Some 1\<rparr>)"
  by (simp add: ots_set_version_def run_simps ots_assert_version_run ots_storage_version_def)

lemma fresh_stores_fail_closed: "fst (ots_assert_version fresh_outcome_store) = Err UpgradeRequired"
  by (simp add: ots_assert_version_run fresh_outcome_store_def)

text \<open>A configuration is read only after it was stored; without one the read traps.\<close>

lemma ots_get_config_run:
  "ots_get_config s = (case skey_config s of None \<Rightarrow> (Panic, s) | Some c \<Rightarrow> (Ok c, s))"
  by (simp add: ots_get_config_def run_simps split: option.splits)

text \<open>Setting a balance changes the sum over any set of holders by the change of that balance.\<close>

definition side_total :: "u32 \<Rightarrow> token_kind \<Rightarrow> address set \<Rightarrow> outcome_store \<Rightarrow> int" where
  "side_total m k holders s = (\<Sum>a\<in>holders. ots_get_balance m a k s)"

lemma ots_set_balance_total:
  assumes "finite holders" and "a \<in> holders" and "ots_set_balance m a k n s = (Ok u, s')"
  shows "side_total m k holders s' = side_total m k holders s - ots_get_balance m a k s + n"
proof -
  have s': "ots_get_balance m b k s' = (if b = a then n else ots_get_balance m b k s)" for b
    using assms(3) by (auto simp: ots_set_balance_def ok_iff ots_get_balance_def)
  have "side_total m k holders s' = n + (\<Sum>b\<in>holders - {a}. ots_get_balance m b k s)"
    unfolding side_total_def by (subst sum.remove[OF assms(1,2)]) (simp add: s')
  moreover have "side_total m k holders s = ots_get_balance m a k s + (\<Sum>b\<in>holders - {a}. ots_get_balance m b k s)"
    unfolding side_total_def by (rule sum.remove[OF assms(1,2)])
  ultimately show ?thesis by simp
qed

text \<open>
  A write is read back under its own key and changes nothing under another: market, holder and
  side keep balances apart, market and side keep supplies apart.
\<close>

theorem stored_values_are_read_back:
  assumes "ots_set_balance m a k n s = (Ok (), s')" and "ots_set_total_supply m' k' t s' = (Ok (), s'')"
  shows "ots_get_balance m2 a2 k2 s'' = (if (m2, a2, k2) = (m, a, k) then n else ots_get_balance m2 a2 k2 s)
    \<and> ots_get_total_supply m2 k2 s'' = (if (m2, k2) = (m', k') then t else ots_get_total_supply m2 k2 s)
    \<and> ots_get_version s'' = ots_get_version s \<and> ots_is_paused s'' = ots_is_paused s
    \<and> ots_get_config s'' = (fst (ots_get_config s), s'')
    \<and> ots_get_pending_market_contract s'' = ots_get_pending_market_contract s"
  using assms by (auto simp: ots_writes ots_reads ok_iff ots_get_config_run split: option.splits)

lemma stored_values_are_read_back_witness:
  "\<exists>s. ots_get_balance 5 (Account 20) TokenYes s = 40 \<and> ots_get_balance 5 (Account 20) TokenNo s = 0
     \<and> ots_get_total_supply 5 TokenYes s = 40"
proof -
  let ?s = "fresh_outcome_store\<lparr>skey_balance := (\<lambda>_. None)((5, Account 20, TokenYes) \<mapsto> 40)\<rparr>"
  let ?t = "?s\<lparr>skey_total_supply := (\<lambda>_. None)((5, TokenYes) \<mapsto> 40)\<rparr>"
  have "ots_set_balance 5 (Account 20) TokenYes 40 fresh_outcome_store = (Ok (), ?s)"
    "ots_set_total_supply 5 TokenYes 40 ?s = (Ok (), ?t)"
    by (simp_all add: ots_writes run_simps fresh_outcome_store_def)
  from stored_values_are_read_back[OF this] show ?thesis
    by (intro exI[of _ ?t]) (simp add: ots_get_balance_def fresh_outcome_store_def)
qed

end
