(* ===== verification/Resolution_Bond_Split.thy ===== *)
theory Resolution_Bond_Split
  imports Resolution_Solvency
begin

text \<open>
  The property tests of \<^verbatim>\<open>contracts/resolution/src/bond_split_proptest.rs\<close> on the model of
  \<open>split_bond\<close>: what they check of the arithmetic holds on their whole ranges, and the replay they
  expect to be a no-op is not one. A test is a predicate of the forfeited amount and the addresses
  the harness generates; a call that traps fails it. The authorization test is about the host and
  is not modelled.
\<close>

section \<open>The harness\<close>

text \<open>A fresh contract that holds \<open>funded\<close> of the token, with no treasury registered.\<close>

definition bond_split_setup :: "env \<Rightarrow> address \<Rightarrow> i128 \<Rightarrow> ledger resolution" where
  "bond_split_setup E token funded =
     fresh_resolution ((\<lambda>_ _. 0)(token := (\<lambda>_. 0)(current_contract_address E := funded)))"

definition prop_split_bond_sums_to_total :: "env \<Rightarrow> address \<Rightarrow> address \<Rightarrow> address \<Rightarrow> i128 \<Rightarrow> bool" where
  "prop_split_bond_sums_to_total E token loser winner n =
     (case split_bond E ledger_client 1 1 token loser winner n (bond_split_setup E token n) of
        (Ok _, s) \<Rightarrow>
          (let reward = n * 5000 sdiv 10000; burned = n * 2500 sdiv 10000;
               treasury_cut = n - reward - burned
           in reward \<ge> 0 \<and> burned \<ge> 0 \<and> treasury_cut \<ge> 0 \<and> reward + burned + treasury_cut = n)
      | _ \<Rightarrow> False)"

definition prop_split_bond_no_treasury_retains_remainder :: "env \<Rightarrow> address \<Rightarrow> address \<Rightarrow> address
    \<Rightarrow> i128 \<Rightarrow> bool" where
  "prop_split_bond_no_treasury_retains_remainder E token loser winner n =
     (res_get_treasury (bond_split_setup E token n) = None
     \<and> (case split_bond E ledger_client 1 1 token loser winner n (bond_split_setup E token n) of
        (Ok _, s) \<Rightarrow>
          (let reward = n * 5000 sdiv 10000; burned = n * 2500 sdiv 10000;
               expected_remaining = n - reward - burned
           in ext s token (current_contract_address E) = expected_remaining \<and> ext s token winner = reward)
      | _ \<Rightarrow> False))"

definition prop_split_bond_dust_amounts_never_panic :: "env \<Rightarrow> address \<Rightarrow> address \<Rightarrow> address
    \<Rightarrow> i128 \<Rightarrow> bool" where
  "prop_split_bond_dust_amounts_never_panic E token loser winner n =
     (case split_bond E ledger_client 1 1 token loser winner n (bond_split_setup E token n) of
        (Ok _, s) \<Rightarrow> ext s token winner + ext s token (current_contract_address E) \<le> n
      | _ \<Rightarrow> False)"

definition prop_split_bond_zero_total_is_noop :: "env \<Rightarrow> address \<Rightarrow> address \<Rightarrow> address \<Rightarrow> bool" where
  "prop_split_bond_zero_total_is_noop E token loser winner =
     (case split_bond E ledger_client 1 1 token loser winner 0 (bond_split_setup E token 0) of
        (Ok _, s) \<Rightarrow> ext s token winner = 0 \<and> ext s token (current_contract_address E) = 0
      | _ \<Rightarrow> False)"

definition prop_split_bond_replay_is_idempotent :: "env \<Rightarrow> address \<Rightarrow> address \<Rightarrow> address
    \<Rightarrow> u32 \<Rightarrow> u32 \<Rightarrow> i128 \<Rightarrow> bool" where
  "prop_split_bond_replay_is_idempotent E token loser winner market_id round n =
     (case split_bond E ledger_client market_id round token loser winner n (bond_split_setup E token n) of
        (Ok _, s) \<Rightarrow>
          (case split_bond E ledger_client market_id round token loser winner n s of
             (Ok _, s') \<Rightarrow> ext s' token winner = ext s token winner
               \<and> ext s' token (current_contract_address E) = ext s token (current_contract_address E)
           | _ \<Rightarrow> False)
      | _ \<Rightarrow> False)"

section \<open>What one split does on the reference ledger\<close>

lemma split_bond_ledger:
  fixes s :: "ledger resolution"
  assumes n: "0 < n" "n * reward_bps \<le> i128_max" and w: "winner \<noteq> current_contract_address E"
    and tr: "res_get_treasury s = None"
    and bal: "n div 2 + n div 4 \<le> ext s token (current_contract_address E)"
  shows "\<exists>s'. split_bond E ledger_client cid mid token loser winner n s = (Ok (), s')
    \<and> ext s' token winner = ext s token winner + n div 2
    \<and> ext s' token (current_contract_address E) = ext s token (current_contract_address E) - n div 2 - n div 4
    \<and> res_get_treasury s' = None"
proof -
  have "0 \<le> n" using n(1) by simp
  note parts = split_parts_value[OF this n(2), of s]
  have "0 \<le> n div 2" "0 \<le> n div 4" using n(1) by simp_all
  with assms show ?thesis
    by (auto simp: split_bond_def bind_def parts andthen_def when_do_def token_transfer_def token_burn_def
        invoke_contract_def ledger_client_def ledger_transfer_def ledger_burn_def Let_def return_def gets_def
        emit_bond_slashed_def emit_def modify_def res_get_treasury_def)
qed

text \<open>A contract that cannot pay the reward and burn its part traps.\<close>

lemma split_bond_unfunded:
  fixes s :: "ledger resolution"
  assumes n: "0 < n" "n * reward_bps \<le> i128_max"
    and w: "winner \<noteq> current_contract_address E"
    and bal: "ext s token (current_contract_address E) < n div 2 + n div 4" and pays: "0 < n div 2"
  shows "fst (split_bond E ledger_client cid mid token loser winner n s) = Panic"
proof -
  have "0 \<le> n" using n(1) by simp
  note parts = split_parts_value[OF this n(2), of s]
  show ?thesis using n(1) bal pays w
    by (auto simp: split_bond_def bind_def parts andthen_def when_do_def token_transfer_def token_burn_def
        invoke_contract_def ledger_client_def ledger_transfer_def ledger_burn_def Let_def return_def)
qed

lemma bond_split_setup_reads [simp]:
  "ext (bond_split_setup E token n) token a = (if a = current_contract_address E then n else 0)"
  "res_get_treasury (bond_split_setup E token n) = None"
  by (simp_all add: bond_split_setup_def fresh_resolution_def res_get_treasury_def)

lemma in_test_range: "n \<le> 1000000000000 \<Longrightarrow> n * reward_bps \<le> i128_max"
  by (simp add: reward_bps_def i128_numerals)

lemma parts_in_test: "0 \<le> n \<Longrightarrow> n * 5000 sdiv 10000 = n div 2" "0 \<le> n \<Longrightarrow> n * 2500 sdiv 10000 = (n :: int) div 4"
  by (simp_all add: sdiv_nonneg)

section \<open>Properties\<close>

text \<open>
  The arithmetic tests pass for every amount they can draw: the three parts are non-negative and
  sum up to the forfeited bond, the winner has the reward, the contract keeps the treasury's part
  when no treasury is registered, dust never traps, and nothing is paid for a zero bond.
\<close>

theorem the_bond_split_tests_pass:
  assumes "1 \<le> n" "n \<le> 1000000000000" and "winner \<noteq> current_contract_address E"
  shows "prop_split_bond_sums_to_total E token loser winner n
    \<and> prop_split_bond_no_treasury_retains_remainder E token loser winner n
    \<and> prop_split_bond_dust_amounts_never_panic E token loser winner n
    \<and> prop_split_bond_zero_total_is_noop E token loser winner"
proof -
  have "n div 2 + n div 4 \<le> n" using assms(1) by linarith
  with split_bond_ledger[of n winner E "bond_split_setup E token n" token 1 1 loser] assms in_test_range
  obtain s where "split_bond E ledger_client 1 1 token loser winner n (bond_split_setup E token n) = (Ok (), s)"
    "ext s token winner = n div 2" "ext s token (current_contract_address E) = n - n div 2 - n div 4"
    by auto
  moreover have "n div 2 + n div 4 \<le> n" "0 \<le> n div 2" "0 \<le> n div 4" using assms(1) by linarith+
  moreover have "split_bond E ledger_client 1 1 token loser winner 0 (bond_split_setup E token 0)
      = (Ok (), bond_split_setup E token 0)" by (simp add: split_bond_def return_def)
  ultimately show ?thesis
    using assms(1)
    by (simp add: prop_split_bond_sums_to_total_def prop_split_bond_no_treasury_retains_remainder_def
        prop_split_bond_dust_amounts_never_panic_def prop_split_bond_zero_total_is_noop_def Let_def parts_in_test)
qed

definition split_demo_env :: env where
  "split_demo_env = \<lparr>ledger_timestamp = 0, current_contract_address = Contract 10, network_id = [],
     authorized = (\<lambda>_. True), has_executable = (\<lambda>_. False)\<rparr>"

lemma the_bond_split_tests_pass_witness:
  "prop_split_bond_no_treasury_retains_remainder split_demo_env (Contract 11) (Account 1) (Account 2) 10003"
  using the_bond_split_tests_pass[of 10003 "Account 2" split_demo_env "Contract 11" "Account 1"]
  by (simp add: split_demo_env_def)

text \<open>
  The replay test fails for every amount but a single unit: the contract has nothing that remembers
  a split, so a second call pays again or, when the balance no longer covers it, traps. With enough
  balance the winner is rewarded twice.
\<close>

theorem a_replayed_split_is_no_noop:
  assumes "1 \<le> n" "n \<le> 1000000000000" and "winner \<noteq> current_contract_address E"
  shows "(prop_split_bond_replay_is_idempotent E token loser winner market_id round n \<longleftrightarrow> n = 1)
    \<and> (\<exists>s s'. split_bond E ledger_client market_id round token loser winner n (bond_split_setup E token (2 * n)) = (Ok (), s)
      \<and> split_bond E ledger_client market_id round token loser winner n s = (Ok (), s')
      \<and> ext s' token winner = 2 * (n div 2))"
proof
  let ?split = "split_bond E ledger_client market_id round token loser winner n"
  have c: "n div 2 + n div 4 \<le> n" "0 < n" using assms(1) by linarith+
  note go = split_bond_ledger[OF c(2) in_test_range[OF assms(2)] assms(3)]
  from go[of "bond_split_setup E token n" token market_id round loser] c assms(3)
  obtain s where s: "?split (bond_split_setup E token n) = (Ok (), s)" "ext s token winner = n div 2"
    "ext s token (current_contract_address E) = n - n div 2 - n div 4" "res_get_treasury s = None" by auto
  show "prop_split_bond_replay_is_idempotent E token loser winner market_id round n \<longleftrightarrow> n = 1"
  proof (cases "n = 1")
    case True
    with go[of s token market_id round loser] s show ?thesis
      by (auto simp: prop_split_bond_replay_is_idempotent_def)
  next
    case False
    show ?thesis
    proof (cases "n div 2 + n div 4 \<le> ext s token (current_contract_address E)")
      case True
      from go[OF s(4) this] obtain s' where "?split s = (Ok (), s')"
        "ext s' token winner = ext s token winner + n div 2" by blast
      moreover have "0 < n div 2" using assms(1) False by linarith
      ultimately show ?thesis using False by (simp add: prop_split_bond_replay_is_idempotent_def s)
    next
      case nope: False
      have p: "ext s token (current_contract_address E) < n div 2 + n div 4" "0 < n div 2"
        using assms(1) False nope by linarith+
      from split_bond_unfunded[OF c(2) in_test_range[OF assms(2)] assms(3) p]
      have "fst (?split s) = Panic" .
      then show ?thesis using False
        by (auto simp: prop_split_bond_replay_is_idempotent_def s split: prod.split result.split)
    qed
  qed
next
  let ?split = "split_bond E ledger_client market_id round token loser winner n"
  have c: "n div 2 + n div 4 \<le> n" "0 < n" using assms(1) by linarith+
  note go = split_bond_ledger[OF c(2) in_test_range[OF assms(2)] assms(3)]
  from go[of "bond_split_setup E token (2 * n)" token market_id round loser] c assms(3)
  obtain s where s: "?split (bond_split_setup E token (2 * n)) = (Ok (), s)" "ext s token winner = n div 2"
    "ext s token (current_contract_address E) = 2 * n - n div 2 - n div 4" "res_get_treasury s = None" by auto
  have "n div 2 + n div 4 \<le> ext s token (current_contract_address E)" using s(3) c by linarith
  from go[OF s(4) this, of market_id round loser] s show "\<exists>s s'. ?split (bond_split_setup E token (2 * n)) = (Ok (), s)
      \<and> ?split s = (Ok (), s') \<and> ext s' token winner = 2 * (n div 2)" by auto
qed

lemma a_replayed_split_is_no_noop_witness:
  "\<not> prop_split_bond_replay_is_idempotent split_demo_env (Contract 11) (Account 1) (Account 2) 7 1 10003"
  using a_replayed_split_is_no_noop[of 10003 "Account 2" split_demo_env "Contract 11" "Account 1" 7 1]
  by (simp add: split_demo_env_def)

end
