(* ===== verification/Market_Locks.thy ===== *)
theory Market_Locks
  imports Market_Decisions Market_Positions
begin

text \<open>
  Share updates decided, and the tests of \<^verbatim>\<open>withdraw_fuzz.rs\<close> on locks: what
  \<open>update_position\<close> of \<^verbatim>\<open>contracts/market/src/positions.rs\<close> returns and stores on every input, and
  the properties of the lock it recomputes.
\<close>

section \<open>A share update decided\<close>

text \<open>The position after an accepted update.\<close>

definition updated_position :: "position \<Rightarrow> i128 \<Rightarrow> i128 \<Rightarrow> i128 \<Rightarrow> position" where
  "updated_position p dy dn price =
     (let yes = pos_yes_shares p + dy; no = pos_no_shares p + dn
      in p\<lparr>pos_yes_shares := yes, pos_no_shares := no,
        pos_locked_collateral := scale_by_bps \<bar>yes - no\<bar> (if no \<le> yes then price else 10000 - price)\<rparr>)"

lemma position_run_steps:
  "require_price price s = (if 0 \<le> price \<and> price \<le> 10000 then (Ok (), s) else (Err InvalidMarketPrice, s))"
  "position_limit_exceeded_side p dy dn s =
     (if in_i128 (pos_yes_shares p + dy) \<and> in_i128 (pos_no_shares p + dn)
      then (Ok (pos_yes_shares p + dy < 0 \<or> (pos_no_shares p + dn < 0 \<and> pos_yes_shares p + dy \<ge> 0)), s)
      else (Panic, s))"
  "in_i128 (pos_yes_shares p + dy) \<Longrightarrow> in_i128 (pos_no_shares p + dn) \<Longrightarrow>
     validate_position_change p dy dn s =
       (if pos_yes_shares p + dy < 0 \<or> pos_no_shares p + dn < 0 then (Err ShareBalanceBelowZero, s)
        else (Ok (), s))"
  by (auto simp: require_price_def validate_market_price_def check_def run_simps
      position_limit_exceeded_side_def validate_position_change_def)

text \<open>
  The position an update starts from: a store of another schema version refuses to be read, and the
  code takes that for a user without a position.
\<close>

definition found_position :: "market_view \<Rightarrow> u32 \<Rightarrow> address \<Rightarrow> position" where
  "found_position v m a = (if v_ready v then position_in v m a else new_empty m a)"

text \<open>What an accepted update leaves in storage: there nothing is written, and the error is dropped.\<close>

definition updated_store :: "('r \<Rightarrow> market_view) \<Rightarrow> u32 \<Rightarrow> address \<Rightarrow> position \<Rightarrow> 'r \<Rightarrow> 'r \<Rightarrow> bool" where
  "updated_store view m a q r r' \<longleftrightarrow> (if v_ready (view r)
     then view r' = (view r)\<lparr>v_positions := (v_positions (view r))((m, a) \<mapsto> q)\<rparr> else r' = r)"

context market_storage
begin

lemma peek_position_run:
  fixes s :: "('x, 'r) market_state"
  shows "\<exists>stored. peek_position A m a s = (Ok stored :: (position_error, _) result, s)
    \<and> (case stored of None \<Rightarrow> new_empty m a | Some p \<Rightarrow> p) = found_position (V s) m a"
  by (auto simp: peek_position_def run_simps checked found_position_def position_in_def split: option.splits)

lemma poke_position_run:
  fixes s :: "('x, 'r) market_state"
  shows "\<exists>r. poke_position A m a q s = (Ok () :: (position_error, unit) result, s\<lparr>store := r\<rparr>)
    \<and> updated_store view m a q (store s) r"
proof (cases "ms_set_position A m a q (store s)")
  case (Inl e)
  with checked(4)[of "store s" m a q] have "\<not> v_ready (V s)" by auto
  with Inl show ?thesis by (auto simp: poke_position_def run_simps updated_store_def intro: exI[of _ "store s"])
next
  case (Inr r)
  with checked(3)[OF Inr] show ?thesis by (auto simp: poke_position_def run_simps updated_store_def)
qed

lemma update_decided:
  fixes s :: "('x, 'r) market_state"
  assumes p: "p = found_position (V s) m a" and q: "q = updated_position p dy dn price"
  shows "\<exists>r. update_position_persist E A shown m a dy dn price s =
    (if \<not> (0 \<le> price \<and> price \<le> 10000) then (Err InvalidMarketPrice, s)
     else if \<not> (in_i128 (pos_yes_shares p + dy) \<and> in_i128 (pos_no_shares p + dn)) then (Panic, s)
     else if pos_yes_shares p + dy < 0 \<or> pos_no_shares p + dn < 0
       then (Err ShareBalanceBelowZero, s\<lparr>events := events s @ [PositionLimitExceededEvent event_version m a True]\<rparr>)
     else (Ok q, s\<lparr>store := r, events := events s @ [update_event m a (shown q)]\<rparr>))
    \<and> updated_store view m a q (store s) r"
proof -
  let ?yes = "pos_yes_shares p + dy" and ?no = "pos_no_shares p + dn"
  obtain stored where peek: "peek_position A m a s = (Ok stored :: (position_error, _) result, s)"
    and stored: "(case stored of None \<Rightarrow> new_empty m a | Some p \<Rightarrow> p) = p"
    using peek_position_run[of m a s] p by blast
  obtain r where poke: "poke_position A m a q s = (Ok () :: (position_error, unit) result, s\<lparr>store := r\<rparr>)"
    and r: "updated_store view m a q (store s) r" using poke_position_run[of m a q s] by blast
  note steps = update_position_persist_def andthen_def bind_def position_run_steps peek stored Let_def
  have "update_position_persist E A shown m a dy dn price s =
    (if \<not> (0 \<le> price \<and> price \<le> 10000) then (Err InvalidMarketPrice, s)
     else if \<not> (in_i128 ?yes \<and> in_i128 ?no) then (Panic, s)
     else if ?yes < 0 \<or> ?no < 0
       then (Err ShareBalanceBelowZero, s\<lparr>events := events s @ [PositionLimitExceededEvent event_version m a True]\<rparr>)
     else (Ok q, s\<lparr>store := r, events := events s @ [update_event m a (shown q)]\<rparr>))"
  proof (cases "0 \<le> price \<and> price \<le> 10000 \<and> in_i128 ?yes \<and> in_i128 ?no")
    case False
    then show ?thesis by (auto simp: steps)
  next
    case ok: True
    show ?thesis
    proof (cases "?yes < 0 \<or> ?no < 0")
      case True
      then have side: "?yes < 0 \<or> (?no < 0 \<and> 0 \<le> ?yes)" by auto
      from ok True show ?thesis
        by (simp add: steps side on_err_def mkt_emit_position_limit_exceeded_def emit_def modify_def throw_def)
    next
      case False
      then have "calculate_locked_collateral ?yes ?no price
          = Some (scale_by_bps \<bar>?yes - ?no\<bar> (if ?no \<le> ?yes then price else 10000 - price))"
        using ok by (intro locked_collateral_value) (auto simp: in_i128_def)
      with ok False poke[unfolded q updated_position_def Let_def] show ?thesis
        by (simp add: steps on_err_def relock_def add_i128_def checked_add_def expect_def return_def
            announce_update_run q updated_position_def)
    qed
  qed
  with r show ?thesis by blast
qed

end

section \<open>The lock tests\<close>

text \<open>The positions \<open>arb_valid_position\<close> can draw: the deposit is the lock plus some slack.\<close>

definition arb_valid_position :: "i128 \<Rightarrow> i128 \<Rightarrow> i128 \<Rightarrow> i128 \<Rightarrow> (i128 \<times> i128 \<times> i128 \<times> i128) option" where
  "arb_valid_position yes no price slack =
     map_option (\<lambda>locked. (yes, no, price, locked + slack)) (calculate_locked_collateral yes no price)"

definition prop_locked_never_exceeds_deposited :: "i128 \<times> i128 \<times> i128 \<times> i128 \<Rightarrow> bool" where
  "prop_locked_never_exceeds_deposited drawn =
     (case drawn of (yes_shares, no_shares, price, deposited) \<Rightarrow>
      case calculate_locked_collateral yes_shares no_shares price of None \<Rightarrow> False
      | Some locked \<Rightarrow> locked \<le> deposited)"

definition prop_available_non_negative :: "i128 \<times> i128 \<times> i128 \<times> i128 \<Rightarrow> bool" where
  "prop_available_non_negative drawn =
     (case drawn of (yes_shares, no_shares, price, deposited) \<Rightarrow>
      case calculate_locked_collateral yes_shares no_shares price of None \<Rightarrow> False
      | Some locked \<Rightarrow> saturating_sub deposited locked \<ge> 0)"

definition prop_position_update_recalculates_locked :: "env \<Rightarrow> 'r market_accessors
    \<Rightarrow> (position \<Rightarrow> i128 \<times> i128 \<times> i128) \<Rightarrow> address \<Rightarrow> i128 \<Rightarrow> i128
    \<Rightarrow> i128 \<Rightarrow> ('x, 'r) market_state \<Rightarrow> bool" where
  "prop_position_update_recalculates_locked E A shown user yes_delta no_delta price s =
     (case update_position_persist E A shown 1 user yes_delta no_delta price s of
        (Ok p, _) \<Rightarrow> (case calculate_locked_collateral (pos_yes_shares p) (pos_no_shares p) price of
            None \<Rightarrow> False | Some expected_locked \<Rightarrow> pos_locked_collateral p = expected_locked)
      | (Err _, _) \<Rightarrow> True
      | (Panic, _) \<Rightarrow> False)"

section \<open>Properties\<close>

definition lock_demo_env :: env where
  "lock_demo_env = \<lparr>ledger_timestamp = 0, current_contract_address = Contract 10,
     network_id = [7], authorized = (\<lambda>_. True), has_executable = (\<lambda>_. True)\<rparr>"

text \<open>
  C16. A share update is decided on every store: a price out of range and shares that would become
  negative are refused, a share count that leaves \<open>i128\<close> traps, and otherwise the position with
  the new shares and the lock recomputed from them is returned and stored, the update's event is
  published for the market and the user (\<open>shown\<close> stands for its three numbers, which the source breaks
  off before), and nothing else changes. On a store of another schema version the same is returned
  and published for an empty position, and nothing is stored. The event of a refusal names the YES
  side, whichever side would have become negative.
\<close>

theorem share_updates_are_decided:
  fixes s :: "('x, 'r) market_state"
  assumes "market_storage A view"
    and "p = found_position (view (store s)) m a" and "q = updated_position p dy dn price"
  shows "if \<not> (0 \<le> price \<and> price \<le> 10000)
      then update_position_persist E A shown m a dy dn price s = (Err InvalidMarketPrice, s)
    else if \<not> (in_i128 (pos_yes_shares p + dy) \<and> in_i128 (pos_no_shares p + dn))
      then update_position_persist E A shown m a dy dn price s = (Panic, s)
    else if pos_yes_shares p + dy < 0 \<or> pos_no_shares p + dn < 0
      then update_position_persist E A shown m a dy dn price s = (Err ShareBalanceBelowZero,
        s\<lparr>events := events s @ [PositionLimitExceededEvent event_version m a True]\<rparr>)
    else \<exists>s'. update_position_persist E A shown m a dy dn price s = (Ok q, s')
        \<and> (if v_ready (view (store s))
           then view (store s') = (view (store s))\<lparr>v_positions := (v_positions (view (store s)))((m, a) \<mapsto> q)\<rparr>
           else store s' = store s)
        \<and> ext s' = ext s \<and> events s' = events s @ [update_event m a (shown q)]"
  using market_storage.update_decided[OF assms, of E shown]
  by (auto simp: updated_store_def)

lemma share_updates_are_decided_witness:
  "\<exists>s'. update_position_persist lock_demo_env direct_market (\<lambda>_. (0, 0, 0)) 1 (Account 20) 5 (- 3) 5000
      \<lparr>ext = (), events = [], store = empty_view\<rparr> = (Err ShareBalanceBelowZero, s')
    \<and> events s' = [PositionLimitExceededEvent 1 1 (Account 20) True]"
  using share_updates_are_decided[OF market_direct.market_storage_axioms refl refl,
      where s = "\<lparr>ext = (), events = [], store = empty_view\<rparr>" and m = 1 and a = "Account 20" and dy = 5
        and dn = "- 3" and price = 5000 and E = lock_demo_env and shown = "\<lambda>_. (0, 0, 0)"]
  by (simp add: found_position_def position_in_def empty_view_def new_empty_def in_i128_def i128_numerals
      event_version_def)

text \<open>The lock tests pass on their whole ranges.\<close>

theorem the_lock_tests_pass:
  assumes "market_storage A view" and "v_ready (view (store s))" and "v_positions (view (store s)) = (\<lambda>_. None)"
    and "0 \<le> yes" "yes \<le> 1000000" "0 \<le> no" "no \<le> 1000000" "0 \<le> price" "price \<le> 10000"
    and "0 \<le> slack" "slack \<le> 10000000" and "\<bar>dy\<bar> \<le> 5000" "\<bar>dn\<bar> \<le> 5000"
  shows "(\<exists>drawn. arb_valid_position yes no price slack = Some drawn
      \<and> prop_locked_never_exceeds_deposited drawn \<and> prop_available_non_negative drawn)
    \<and> prop_position_update_recalculates_locked E A shown user dy dn price s"
proof
  let ?l = "scale_by_bps \<bar>yes - no\<bar> (if no \<le> yes then price else 10000 - price)"
  have l: "calculate_locked_collateral yes no price = Some ?l"
    using assms by (intro locked_collateral_value) (auto simp: i128_numerals)
  have "0 \<le> ?l" "?l \<le> \<bar>yes - no\<bar>" using assms scale_by_bps_bounds[of "\<bar>yes - no\<bar>"] by auto
  then show "\<exists>drawn. arb_valid_position yes no price slack = Some drawn
      \<and> prop_locked_never_exceeds_deposited drawn \<and> prop_available_non_negative drawn"
    using assms by (simp add: arb_valid_position_def l prop_locked_never_exceeds_deposited_def
        prop_available_non_negative_def saturating_sub_def in_i128_def i128_numerals)
next
  have p: "new_empty 1 user = found_position (view (store s)) 1 user"
    by (simp add: found_position_def position_in_def assms(3))
  have l: "calculate_locked_collateral dy dn price
      = Some (scale_by_bps \<bar>dy - dn\<bar> (if dn \<le> dy then price else 10000 - price))" if "0 \<le> dy" "0 \<le> dn"
    using assms that by (intro locked_collateral_value) (auto simp: i128_numerals)
  obtain r where d: "update_position_persist E A shown 1 user dy dn price s =
    (if \<not> (0 \<le> price \<and> price \<le> 10000) then (Err InvalidMarketPrice, s)
     else if \<not> (in_i128 (pos_yes_shares (new_empty 1 user) + dy) \<and> in_i128 (pos_no_shares (new_empty 1 user) + dn))
       then (Panic, s)
     else if pos_yes_shares (new_empty 1 user) + dy < 0 \<or> pos_no_shares (new_empty 1 user) + dn < 0
       then (Err ShareBalanceBelowZero, s\<lparr>events := events s @ [PositionLimitExceededEvent event_version 1 user True]\<rparr>)
     else (Ok (updated_position (new_empty 1 user) dy dn price), s\<lparr>store := r, events := events s @
       [update_event 1 user (shown (updated_position (new_empty 1 user) dy dn price))]\<rparr>))"
    using market_storage.update_decided[OF assms(1) p refl, of E shown dy dn price] by blast
  show "prop_position_update_recalculates_locked E A shown user dy dn price s"
    unfolding prop_position_update_recalculates_locked_def d
    using assms(8,9,12,13) l
    by (auto simp: new_empty_def in_i128_def i128_numerals updated_position_def Let_def)
qed

lemma the_lock_tests_pass_witness:
  "prop_position_update_recalculates_locked lock_demo_env direct_market (\<lambda>_. (0, 0, 0)) (Account 20) 40 10 5000
     \<lparr>ext = (), events = [], store = empty_view\<rparr>"
  using the_lock_tests_pass[OF market_direct.market_storage_axioms,
    of "\<lparr>ext = (), events = [], store = empty_view\<rparr>" 0 0 5000 0 40 10 lock_demo_env "\<lambda>_. (0, 0, 0)" "Account 20"]
  by (simp add: empty_view_def)

end
