(* ===== verification/Market_Fixtures.thy ===== *)
theory Market_Fixtures
  imports "HOL-Library.Multiset" Market_Events
begin

text \<open>
  The published shape of the market's events and the indexer fixtures that pin it,
  \<^verbatim>\<open>contracts/market/src/tests_event_fixtures.rs\<close> with \<^verbatim>\<open>test-vectors/market-events.json\<close>. An
  event is published under its snake-case name, its \<^verbatim>\<open>#[topic]\<close> fields as topics and the other
  fields as a data map. The fixture \<^verbatim>\<open>fee_collected\<close> that the test wires names an emitter no file
  declares, and the corpus has no such fixture; it is left out.
\<close>

section \<open>Published shapes\<close>

text \<open>Name, topic fields and data fields, in the order of the struct.\<close>

primrec published :: "market_event \<Rightarrow> string \<times> string list \<times> string list" where
  "published (ContractInitialized x1 x2 x3) =
     (''contract_initialized'', [''version'', ''admin''], [''initialized_at''])"
| "published (EmergencyPauseToggled x1 x2 x3) =
     (''emergency_pause_toggled'', [''version'', ''paused''], [''timestamp''])"
| "published (EmergencyModeChanged x1 x2 x3 x4) =
     (''emergency_mode_changed'', [''version'', ''new_mode''], [''admin'', ''changed_at''])"
| "published (MarketCreated x1 x2 x3 x4 x5 x6) =
     (''market_created'', [''version'', ''market_id''],
       [''creator'', ''question'', ''end_time'', ''metadata_uri''])"
| "published (CollateralDeposited x1 x2 x3 x4 x5) =
     (''collateral_deposited'', [''version'', ''user'', ''market_id''],
       [''amount'', ''new_total''])"
| "published (CollateralWithdrawn x1 x2 x3 x4 x5) =
     (''collateral_withdrawn'', [''version'', ''user'', ''market_id''],
       [''amount'', ''new_total''])"
| "published (LargeWithdraw x1 x2 x3 x4 x5) =
     (''large_withdraw'', [''version'', ''user'', ''market_id''], [''amount'', ''timestamp''])"
| "published (WithdrawEdgeCase x1 x2 x3 x4) =
     (''withdraw_edge_case'', [''version'', ''user'', ''market_id''], [''amount''])"
| "published (MarketClosedToDeposits x1 x2 x3 x4) =
     (''market_closed_to_deposits'', [''version'', ''market_id''], [''admin'', ''closed_at''])"
| "published (MarketResolved x1 x2 x3 x4 x5 x6) =
     (''market_resolved'', [''version'', ''market_id''],
       [''oracle_pubkey'', ''resolver'', ''outcome'', ''resolved_at''])"
| "published (OracleAdaptersEnabledEvent x1) =
     (''oracle_adapters_enabled_event'', [], [''enabled_at''])"
| "published (MarketCanceled x1 x2 x3 x4) =
     (''market_canceled'', [''version'', ''market_id''], [''canceler'', ''canceled_at''])"
| "published (MarketVoided x1 x2 x3 x4) =
     (''market_voided'', [''version'', ''market_id''], [''voided_by'', ''voided_at''])"
| "published (MarketReopened x1 x2 x3 x4) =
     (''market_reopened'', [''version'', ''market_id''], [''admin'', ''reopened_at''])"
| "published (PositionLimitExceededEvent x1 x2 x3 x4) =
     (''position_limit_exceeded_event'', [''version'', ''market_id'', ''user''], [''side_yes''])"
| "published (PositionUpdated x1 x2 x3 x4 x5 x6) =
     (''position_updated'', [''version'', ''market_id'', ''user''],
       [''yes_shares'', ''no_shares'', ''locked_collateral''])"
| "published (TradeExecuted x1 x2 x3 x4 x5 x6 x7) =
     (''trade_executed'', [''version'', ''market_id'', ''user''],
       [''quantity'', ''price_bps'', ''side_yes'', ''executed_at''])"
| "published (ValidationFailed x1 x2 x3) =
     (''validation_failed'', [''version'', ''context''], [''error_code''])"
| "published (PositionSettled x1 x2 x3 x4 x5) =
     (''position_settled'', [''version'', ''market_id'', ''user''], [''payout'', ''settled_at''])"
| "published (PositionsBatchSettled x1 x2 x3 x4 x5) =
     (''positions_batch_settled'', [''version'', ''market_id''],
       [''users'', ''payouts'', ''settled_at''])"
| "published (OracleSignatureVerified x1 x2 x3 x4) =
     (''oracle_signature_verified'', [''version'', ''market_id''],
       [''outcome'', ''verified_at''])"
| "published (FeeCalculated x1 x2 x3 x4 x5) =
     (''fee_calculated'', [''version'', ''market_id'', ''user''],
       [''fee_amount'', ''available_after_fee''])"
| "published (FeeRetainedNoTreasury x1 x2 x3 x4) =
     (''fee_retained_no_treasury'', [''version'', ''market_id'', ''user''], [''fee_amount''])"
| "published (AdminTransferProposed x1 x2 x3 x4) =
     (''admin_transfer_proposed'', [''version'', ''current_admin'', ''pending_admin''],
       [''proposed_at''])"
| "published (AdminTransferAccepted x1 x2 x3 x4) =
     (''admin_transfer_accepted'', [''version'', ''old_admin'', ''new_admin''],
       [''accepted_at''])"
| "published (AdminTransferCanceled x1 x2 x3 x4) =
     (''admin_transfer_canceled'', [''version'', ''current_admin'', ''canceled_pending_admin''],
       [''canceled_at''])"
| "published (MarketOracleUpdated x1 x2 x3 x4 x5) =
     (''market_oracle_updated'', [''market_id''],
       [''admin'', ''old_oracle_pubkey'', ''new_oracle_pubkey'', ''updated_at''])"
| "published (TreasurySet x1 x2 x3) = (''treasury_set'', [''version'', ''treasury''], [''set_at''])"
| "published (FeeRateChangeProposed x1 x2 x3) =
     (''fee_rate_change_proposed'', [''version''], [''new_rate_bps'', ''effective_at''])"
| "published (FeeRateChangeExecuted x1 x2 x3) =
     (''fee_rate_change_executed'', [''version''], [''new_rate_bps'', ''executed_at''])"
| "published (AdminRenounceProposed x1 x2 x3) =
     (''admin_renounce_proposed'', [''version'', ''admin''], [''proposed_at''])"
| "published (AdminRenounced x1 x2 x3) =
     (''admin_renounced'', [''version'', ''former_admin''], [''renounced_at''])"
| "published (OracleAdapterConfigured x1 x2 x3) =
     (''oracle_adapter_configured'', [''adapter_type''], [''enabled'', ''configured_at''])"
| "published (FeeWaiverAdded x1 x2 x3) =
     (''fee_waiver_added'', [''account''], [''admin'', ''added_at''])"
| "published (FeeWaiverRemoved x1 x2 x3) =
     (''fee_waiver_removed'', [''account''], [''admin'', ''removed_at''])"
| "published (TreasuryProposed x1 x2 x3) =
     (''treasury_proposed'', [''version''], [''treasury'', ''effective_at''])"
| "published (OutcomeTokenProposed x1 x2 x3) =
     (''outcome_token_proposed'', [''version''], [''outcome_token'', ''effective_at''])"
| "published (OutcomeTokenSet x1 x2 x3) =
     (''outcome_token_set'', [''version''], [''outcome_token'', ''set_at''])"
| "published (ResolutionProposed x1 x2 x3) =
     (''resolution_proposed'', [''version''], [''resolution'', ''effective_at''])"
| "published (ResolutionSet x1 x2 x3) =
     (''resolution_set'', [''version''], [''resolution'', ''set_at''])"
| "published (MarketOracleProposed x1 x2 x3 x4 x5) =
     (''market_oracle_proposed'', [''market_id''],
       [''admin'', ''old_oracle_pubkey'', ''new_oracle_pubkey'', ''effective_at''])"
| "published (PositionTokenMismatchDetected x1 x2 x3 x4 x5 x6 x7) =
     (''position_token_mismatch_detected'', [''version'', ''market_id'', ''user''],
       [''yes_shares'', ''no_shares'', ''yes_token_balance'', ''no_token_balance''])"
| "published (PositionTokensReconciled x1 x2 x3 x4 x5 x6 x7) =
     (''position_tokens_reconciled'', [''version'', ''market_id'', ''user''],
       [''admin'', ''yes_delta_applied'', ''no_delta_applied'', ''reconciled_at''])"

section \<open>Published values\<close>

text \<open>The value of a topic or of a field of the data map.\<close>

datatype event_val =
    SymbolVal string
  | U32Val u32
  | U64Val u64
  | I128Val i128
  | BoolVal bool
  | AddressVal address
  | StringVal string
  | OptStringVal "string option"
  | BytesVal bytes
  | AddressesVal "address list"
  | AmountsVal "i128 list"
  | ModeVal emergency_mode
  | AdapterVal adapter_type

text \<open>The fields of the struct, by name.\<close>

primrec event_fields :: "market_event \<Rightarrow> (string \<times> event_val) list" where
  "event_fields (ContractInitialized x1 x2 x3) =
     [(''version'', U32Val x1), (''admin'', AddressVal x2), (''initialized_at'', U64Val x3)]"
| "event_fields (EmergencyPauseToggled x1 x2 x3) =
     [(''version'', U32Val x1), (''paused'', BoolVal x2), (''timestamp'', U64Val x3)]"
| "event_fields (EmergencyModeChanged x1 x2 x3 x4) =
     [(''version'', U32Val x1), (''new_mode'', ModeVal x2), (''admin'', AddressVal x3),
      (''changed_at'', U64Val x4)]"
| "event_fields (MarketCreated x1 x2 x3 x4 x5 x6) =
     [(''version'', U32Val x1), (''market_id'', U32Val x2), (''creator'', AddressVal x3),
      (''question'', StringVal x4), (''end_time'', U64Val x5), (''metadata_uri'', OptStringVal x6)]"
| "event_fields (CollateralDeposited x1 x2 x3 x4 x5) =
     [(''version'', U32Val x1), (''user'', AddressVal x2), (''market_id'', U32Val x3),
      (''amount'', I128Val x4), (''new_total'', I128Val x5)]"
| "event_fields (CollateralWithdrawn x1 x2 x3 x4 x5) =
     [(''version'', U32Val x1), (''user'', AddressVal x2), (''market_id'', U32Val x3),
      (''amount'', I128Val x4), (''new_total'', I128Val x5)]"
| "event_fields (LargeWithdraw x1 x2 x3 x4 x5) =
     [(''version'', U32Val x1), (''user'', AddressVal x2), (''market_id'', U32Val x3),
      (''amount'', I128Val x4), (''timestamp'', U64Val x5)]"
| "event_fields (WithdrawEdgeCase x1 x2 x3 x4) =
     [(''version'', U32Val x1), (''user'', AddressVal x2), (''market_id'', U32Val x3),
      (''amount'', I128Val x4)]"
| "event_fields (MarketClosedToDeposits x1 x2 x3 x4) =
     [(''version'', U32Val x1), (''market_id'', U32Val x2), (''admin'', AddressVal x3),
      (''closed_at'', U64Val x4)]"
| "event_fields (MarketResolved x1 x2 x3 x4 x5 x6) =
     [(''version'', U32Val x1), (''market_id'', U32Val x2), (''oracle_pubkey'', BytesVal x3),
      (''resolver'', AddressVal x4), (''outcome'', BoolVal x5), (''resolved_at'', U64Val x6)]"
| "event_fields (OracleAdaptersEnabledEvent x1) =
     [(''enabled_at'', U64Val x1)]"
| "event_fields (MarketCanceled x1 x2 x3 x4) =
     [(''version'', U32Val x1), (''market_id'', U32Val x2), (''canceler'', AddressVal x3),
      (''canceled_at'', U64Val x4)]"
| "event_fields (MarketVoided x1 x2 x3 x4) =
     [(''version'', U32Val x1), (''market_id'', U32Val x2), (''voided_by'', AddressVal x3),
      (''voided_at'', U64Val x4)]"
| "event_fields (MarketReopened x1 x2 x3 x4) =
     [(''version'', U32Val x1), (''market_id'', U32Val x2), (''admin'', AddressVal x3),
      (''reopened_at'', U64Val x4)]"
| "event_fields (PositionLimitExceededEvent x1 x2 x3 x4) =
     [(''version'', U32Val x1), (''market_id'', U32Val x2), (''user'', AddressVal x3),
      (''side_yes'', BoolVal x4)]"
| "event_fields (PositionUpdated x1 x2 x3 x4 x5 x6) =
     [(''version'', U32Val x1), (''market_id'', U32Val x2), (''user'', AddressVal x3),
      (''yes_shares'', I128Val x4), (''no_shares'', I128Val x5), (''locked_collateral'', I128Val x6)]"
| "event_fields (TradeExecuted x1 x2 x3 x4 x5 x6 x7) =
     [(''version'', U32Val x1), (''market_id'', U32Val x2), (''user'', AddressVal x3),
      (''quantity'', I128Val x4), (''price_bps'', I128Val x5), (''side_yes'', BoolVal x6),
      (''executed_at'', U64Val x7)]"
| "event_fields (ValidationFailed x1 x2 x3) =
     [(''version'', U32Val x1), (''context'', SymbolVal x2), (''error_code'', U32Val x3)]"
| "event_fields (PositionSettled x1 x2 x3 x4 x5) =
     [(''version'', U32Val x1), (''market_id'', U32Val x2), (''user'', AddressVal x3),
      (''payout'', I128Val x4), (''settled_at'', U64Val x5)]"
| "event_fields (PositionsBatchSettled x1 x2 x3 x4 x5) =
     [(''version'', U32Val x1), (''market_id'', U32Val x2), (''users'', AddressesVal x3),
      (''payouts'', AmountsVal x4), (''settled_at'', U64Val x5)]"
| "event_fields (OracleSignatureVerified x1 x2 x3 x4) =
     [(''version'', U32Val x1), (''market_id'', U32Val x2), (''outcome'', BoolVal x3),
      (''verified_at'', U64Val x4)]"
| "event_fields (FeeCalculated x1 x2 x3 x4 x5) =
     [(''version'', U32Val x1), (''market_id'', U32Val x2), (''user'', AddressVal x3),
      (''fee_amount'', I128Val x4), (''available_after_fee'', I128Val x5)]"
| "event_fields (FeeRetainedNoTreasury x1 x2 x3 x4) =
     [(''version'', U32Val x1), (''market_id'', U32Val x2), (''user'', AddressVal x3),
      (''fee_amount'', I128Val x4)]"
| "event_fields (AdminTransferProposed x1 x2 x3 x4) =
     [(''version'', U32Val x1), (''current_admin'', AddressVal x2), (''pending_admin'', AddressVal x3),
      (''proposed_at'', U64Val x4)]"
| "event_fields (AdminTransferAccepted x1 x2 x3 x4) =
     [(''version'', U32Val x1), (''old_admin'', AddressVal x2), (''new_admin'', AddressVal x3),
      (''accepted_at'', U64Val x4)]"
| "event_fields (AdminTransferCanceled x1 x2 x3 x4) =
     [(''version'', U32Val x1), (''current_admin'', AddressVal x2),
      (''canceled_pending_admin'', AddressVal x3), (''canceled_at'', U64Val x4)]"
| "event_fields (MarketOracleUpdated x1 x2 x3 x4 x5) =
     [(''market_id'', U32Val x1), (''admin'', AddressVal x2), (''old_oracle_pubkey'', BytesVal x3),
      (''new_oracle_pubkey'', BytesVal x4), (''updated_at'', U64Val x5)]"
| "event_fields (TreasurySet x1 x2 x3) =
     [(''version'', U32Val x1), (''treasury'', AddressVal x2), (''set_at'', U64Val x3)]"
| "event_fields (FeeRateChangeProposed x1 x2 x3) =
     [(''version'', U32Val x1), (''new_rate_bps'', I128Val x2), (''effective_at'', U64Val x3)]"
| "event_fields (FeeRateChangeExecuted x1 x2 x3) =
     [(''version'', U32Val x1), (''new_rate_bps'', I128Val x2), (''executed_at'', U64Val x3)]"
| "event_fields (AdminRenounceProposed x1 x2 x3) =
     [(''version'', U32Val x1), (''admin'', AddressVal x2), (''proposed_at'', U64Val x3)]"
| "event_fields (AdminRenounced x1 x2 x3) =
     [(''version'', U32Val x1), (''former_admin'', AddressVal x2), (''renounced_at'', U64Val x3)]"
| "event_fields (OracleAdapterConfigured x1 x2 x3) =
     [(''adapter_type'', AdapterVal x1), (''enabled'', BoolVal x2), (''configured_at'', U64Val x3)]"
| "event_fields (FeeWaiverAdded x1 x2 x3) =
     [(''account'', AddressVal x1), (''admin'', AddressVal x2), (''added_at'', U64Val x3)]"
| "event_fields (FeeWaiverRemoved x1 x2 x3) =
     [(''account'', AddressVal x1), (''admin'', AddressVal x2), (''removed_at'', U64Val x3)]"
| "event_fields (TreasuryProposed x1 x2 x3) =
     [(''version'', U32Val x1), (''treasury'', AddressVal x2), (''effective_at'', U64Val x3)]"
| "event_fields (OutcomeTokenProposed x1 x2 x3) =
     [(''version'', U32Val x1), (''outcome_token'', AddressVal x2), (''effective_at'', U64Val x3)]"
| "event_fields (OutcomeTokenSet x1 x2 x3) =
     [(''version'', U32Val x1), (''outcome_token'', AddressVal x2), (''set_at'', U64Val x3)]"
| "event_fields (ResolutionProposed x1 x2 x3) =
     [(''version'', U32Val x1), (''resolution'', AddressVal x2), (''effective_at'', U64Val x3)]"
| "event_fields (ResolutionSet x1 x2 x3) =
     [(''version'', U32Val x1), (''resolution'', AddressVal x2), (''set_at'', U64Val x3)]"
| "event_fields (MarketOracleProposed x1 x2 x3 x4 x5) =
     [(''market_id'', U32Val x1), (''admin'', AddressVal x2), (''old_oracle_pubkey'', BytesVal x3),
      (''new_oracle_pubkey'', BytesVal x4), (''effective_at'', U64Val x5)]"
| "event_fields (PositionTokenMismatchDetected x1 x2 x3 x4 x5 x6 x7) =
     [(''version'', U32Val x1), (''market_id'', U32Val x2), (''user'', AddressVal x3),
      (''yes_shares'', I128Val x4), (''no_shares'', I128Val x5), (''yes_token_balance'', I128Val x6),
      (''no_token_balance'', I128Val x7)]"
| "event_fields (PositionTokensReconciled x1 x2 x3 x4 x5 x6 x7) =
     [(''version'', U32Val x1), (''market_id'', U32Val x2), (''user'', AddressVal x3),
      (''admin'', AddressVal x4), (''yes_delta_applied'', I128Val x5),
      (''no_delta_applied'', I128Val x6), (''reconciled_at'', U64Val x7)]"

definition field_val :: "market_event \<Rightarrow> string \<Rightarrow> event_val option" where
  "field_val ev name = map_of (event_fields ev) name"

text \<open>The topics, with the event's name first, and the data map.\<close>

definition event_topics :: "market_event \<Rightarrow> event_val list" where
  "event_topics ev = SymbolVal (fst (published ev)) # List.map_filter (field_val ev) (fst (snd (published ev)))"

definition topic :: "market_event \<Rightarrow> nat \<Rightarrow> event_val option" where
  "topic ev i = (if i < length (event_topics ev) then Some (event_topics ev ! i) else None)"

definition event_data :: "market_event \<Rightarrow> string \<Rightarrow> event_val option" where
  "event_data ev name = (if name \<in> set (snd (snd (published ev))) then field_val ev name else None)"

text \<open>Every field of a struct is published once, as a topic or in the data map.\<close>

lemma every_field_is_published:
  "mset (map fst (event_fields ev)) = mset (fst (snd (published ev)) @ snd (snd (published ev)))
   \<and> distinct (map fst (event_fields ev))"
  by (cases ev) simp_all

lemmas event_reads = field_val_def event_topics_def topic_def event_data_def map_filter_simps

section \<open>The corpus\<close>

record event_fixture =
  fx_id :: string
  fx_name :: string
  fx_topics :: "string list"
  fx_data :: "string list"

record event_corpus =
  ec_event_version :: u32
  ec_fixtures :: "event_fixture list"

definition market_events_json :: event_corpus where
  "market_events_json = \<lparr>ec_event_version = 1, ec_fixtures = [
     \<lparr>fx_id = ''contract-initialized'', fx_name = ''contract_initialized'',
       fx_topics = [''version:u32'', ''admin:address''], fx_data = [''initialized_at:u64'']\<rparr>,
     \<lparr>fx_id = ''market-created'', fx_name = ''market_created'',
       fx_topics = [''version:u32'', ''market_id:u32''],
       fx_data = [''creator:address'', ''end_time:u64'', ''metadata_uri:option<string>'', ''question:string'']\<rparr>,
     \<lparr>fx_id = ''collateral-deposited'', fx_name = ''collateral_deposited'',
       fx_topics = [''version:u32'', ''user:address'', ''market_id:u32''],
       fx_data = [''amount:i128'', ''new_total:i128'']\<rparr>,
     \<lparr>fx_id = ''collateral-withdrawn'', fx_name = ''collateral_withdrawn'',
       fx_topics = [''version:u32'', ''user:address'', ''market_id:u32''],
       fx_data = [''amount:i128'', ''new_total:i128'']\<rparr>,
     \<lparr>fx_id = ''market-resolved'', fx_name = ''market_resolved'',
       fx_topics = [''version:u32'', ''market_id:u32''],
       fx_data = [''oracle_pubkey:bytesn<32>'', ''outcome:bool'', ''resolved_at:u64'', ''resolver:address'']\<rparr>,
     \<lparr>fx_id = ''position-updated'', fx_name = ''position_updated'',
       fx_topics = [''version:u32'', ''market_id:u32'', ''user:address''],
       fx_data = [''locked_collateral:i128'', ''no_shares:i128'', ''yes_shares:i128'']\<rparr>]\<rparr>"

section \<open>The test\<close>

definition wired_emitter :: "env \<Rightarrow> address \<Rightarrow> string
    \<Rightarrow> ('e, ('x, market_event, 'more) host_scheme, unit) contract option" where
  "wired_emitter E user name =
     (if name = ''contract_initialized'' then Some (mkt_emit_contract_initialized E user)
      else if name = ''market_created'' then Some (mkt_emit_market_created E 1 user ''q'' 100 None)
      else if name = ''collateral_deposited'' then Some (mkt_emit_collateral_deposited E user 1 5 5)
      else if name = ''collateral_withdrawn'' then Some (mkt_emit_collateral_withdrawn E user 1 5 0)
      else if name = ''market_resolved'' then
        Some (mkt_emit_market_resolved E 1 (replicate 32 0) user True 100)
      else if name = ''position_updated'' then Some (mkt_emit_position_updated E 1 user 10 0 6)
      else None)"

definition field_key :: "string \<Rightarrow> string" where
  "field_key field = takeWhile (\<lambda>c. c \<noteq> CHR '':'') field"

definition shape_matches :: "event_fixture \<Rightarrow> market_event \<Rightarrow> bool" where
  "shape_matches f ev = (case published ev of (name, topics, data) \<Rightarrow>
     name = fx_name f \<and> length topics = length (fx_topics f)
     \<and> schema_version ev = Some event_version
     \<and> length data = length (fx_data f) \<and> list_all (\<lambda>field. field_key field \<in> set data) (fx_data f))"

definition market_event_fixtures :: "env \<Rightarrow> address \<Rightarrow> event_corpus
    \<Rightarrow> ('x, market_event, 'more) host_scheme \<Rightarrow> bool" where
  "market_event_fixtures E user corpus s =
     (ec_event_version corpus = event_version \<and> ec_fixtures corpus \<noteq> []
      \<and> list_all (\<lambda>f. case wired_emitter E user (fx_name f) of
            None \<Rightarrow> False
          | Some m \<Rightarrow> (case m s of
              (Ok _, s') \<Rightarrow> events s' \<noteq> [] \<and> shape_matches f (last (events s'))
            | (Err (_ :: unit), _) \<Rightarrow> False
            | (Panic, _) \<Rightarrow> False)) (ec_fixtures corpus))"

section \<open>The fixtures hold\<close>

text \<open>
  Every emitter publishes the shape its fixture pins, whoever the user is and whatever has been
  published before.
\<close>

theorem the_event_fixtures_hold: "market_event_fixtures E user market_events_json s"
  by (simp add: market_event_fixtures_def market_events_json_def wired_emitter_def shape_matches_def
      field_key_def market_emits run_simps event_version_def)

text \<open>The first topic is the schema version exactly for the events that carry one.\<close>

lemma versioned_events_lead_with_it:
  "schema_version ev \<noteq> None \<longleftrightarrow> (\<exists>rest. fst (snd (published ev)) = ''version'' # rest)"
  by (cases ev) simp_all

end
