(* ===== verification/Market_Tests.thy ===== *)
theory Market_Tests
  imports Market_Fixtures Market_Funds
begin

text \<open>
  What the unit tests of the market modules run on: the test host, the storage they prepare and
  the token they mint. Addresses the host generates are accounts \<open>Account 1\<close>, \<open>Account 2\<close>, ... in
  the order of the calls, registered contracts are \<open>Contract 1\<close> (the market) and \<open>Contract 2\<close>,
  \<open>Contract 3\<close>, ...; storage is the direct store of theory Market_Storage, the collateral tokens are
  the reference ledger. A test is a boolean: every assertion in it holds and nothing in it panics.
\<close>

named_theorems test_defs "definitions to evaluate a test by simp"

section \<open>The host\<close>

text \<open>\<open>Env::default()\<close> with \<open>mock_all_auths()\<close>, inside the market contract at a given time.\<close>

definition test_env :: "u64 \<Rightarrow> env" where
  "test_env now = \<lparr>ledger_timestamp = now, current_contract_address = Contract 1,
     network_id = replicate 32 0, authorized = (\<lambda>_. True),
     has_executable = (\<lambda>a. case a of Contract _ \<Rightarrow> True | Account _ \<Rightarrow> False)\<rparr>"

text \<open>No test looks at the event of a share update, so any arguments do for the unreadable ones.\<close>

definition unread_arguments :: "position \<Rightarrow> i128 \<times> i128 \<times> i128" where
  "unread_arguments = (\<lambda>_. (0, 0, 0))"

type_synonym test_state = "(ledger, market_view) market_state"

text \<open>A fresh contract has no schema version and the default fee of 50 basis points.\<close>

definition fresh_test_state :: test_state where
  "fresh_test_state = \<lparr>ext = (\<lambda>_ _. 0), events = [], store = empty_view\<lparr>v_ready := False, v_fee_rate := 50\<rparr>\<rparr>"

section \<open>storage::set_version, set_market, set_position and the token's mint\<close>

definition with_store :: "(market_view \<Rightarrow> market_view) \<Rightarrow> ('x, market_view) market_state
    \<Rightarrow> ('x, market_view) market_state" where
  "with_store f s = s\<lparr>store := f (store s)\<rparr>"

definition set_version :: "('x, market_view) market_state \<Rightarrow> ('x, market_view) market_state" where
  "set_version = with_store (v_ready_update (\<lambda>_. True))"

definition set_market :: "u32 \<Rightarrow> market \<Rightarrow> ('x, market_view) market_state
    \<Rightarrow> ('x, market_view) market_state" where
  "set_market market_id m = with_store (v_markets_update (\<lambda>ms. ms(market_id \<mapsto> m)))"

definition set_position :: "u32 \<Rightarrow> address \<Rightarrow> position \<Rightarrow> ('x, market_view) market_state
    \<Rightarrow> ('x, market_view) market_state" where
  "set_position market_id user p = with_store (v_positions_update (\<lambda>ps. ps((market_id, user) \<mapsto> p)))"

definition mint_to :: "address \<Rightarrow> address \<Rightarrow> i128 \<Rightarrow> test_state \<Rightarrow> test_state" where
  "mint_to token user n s = s\<lparr>ext := (ext s)(token := (ext s token)(user := ext s token user + n))\<rparr>"

section \<open>Assertions\<close>

definition is_ok :: "('e, 'a) result \<times> 's \<Rightarrow> bool" where
  "is_ok r \<longleftrightarrow> (case fst r of Ok _ \<Rightarrow> True | Err _ \<Rightarrow> False | Panic \<Rightarrow> False)"

definition is_err :: "'e \<Rightarrow> ('e, 'a) result \<times> 's \<Rightarrow> bool" where
  "is_err e r \<longleftrightarrow> (case fst r of Ok _ \<Rightarrow> False | Err e' \<Rightarrow> e' = e | Panic \<Rightarrow> False)"

definition stored_position :: "u32 \<Rightarrow> address \<Rightarrow> ('x, market_view) market_state \<Rightarrow> position option" where
  "stored_position market_id user s = v_positions (store s) (market_id, user)"

definition position_satisfies :: "u32 \<Rightarrow> address \<Rightarrow> (position \<Rightarrow> bool) \<Rightarrow> ('x, market_view) market_state
    \<Rightarrow> bool" where
  "position_satisfies market_id user P s \<longleftrightarrow>
     (case stored_position market_id user s of None \<Rightarrow> False | Some p \<Rightarrow> P p)"

text \<open>The market most suites start from: \<open>create_test_market\<close>.\<close>

definition test_market :: "u32 \<Rightarrow> string \<Rightarrow> address \<Rightarrow> address \<Rightarrow> market" where
  "test_market market_id question creator collateral_token = \<lparr>mkt_id = market_id, mkt_question = question,
     mkt_end_time = 1000, mkt_oracle_pubkey = replicate 32 0, mkt_status = MarketActive, mkt_result = None,
     mkt_creator = creator, mkt_created_at = 0, mkt_collateral_token = collateral_token,
     mkt_price_bps = 5000, mkt_resolver = None, mkt_resolved_at = None, mkt_adapter_type = Ed25519,
     mkt_outcome_count = 2, mkt_closed_to_deposits = False\<rparr>"

text \<open>Test code calls entrypoints inside the contract with \<open>as_contract\<close>, at time 0 unless set.\<close>

definition run_deposit :: "address \<Rightarrow> u32 \<Rightarrow> i128 \<Rightarrow> test_state
    \<Rightarrow> (market_error, unit) result \<times> test_state" where
  "run_deposit = deposit_collateral (test_env 0) direct_market ledger_client"

section \<open>Evaluation\<close>

text \<open>The definitions a deposit runs through; each suite adds those of its own module.\<close>

lemmas deposit_eval [test_defs] = test_env_def fresh_test_state_def with_store_def set_version_def
  set_market_def set_position_def mint_to_def is_ok_def is_err_def stored_position_def
  position_satisfies_def test_market_def empty_view_def direct_market_def ledger_client_def
  ledger_transfer_def new_empty_def run_deposit_def deposit_collateral_def deposit_body_def
  deposit_guard_acquire_def deposit_guard_drop_def require_mode_def validate_collateral_amount_def
  validate_amount_positive_def validate_amount_reasonable_def check_def try_then_def checked_add_def
  in_i128_def i128_numerals max_reasonable_amount_value mkt_emit_collateral_deposited_def
  token_transfer_def Let_def

end
