(* ===== verification/Market_Tests_Deposit.thy ===== *)
theory Market_Tests_Deposit
  imports Market_Tests
begin

text \<open>
  The unit tests of \<^verbatim>\<open>contracts/market/src/deposit.rs\<close>, on the host of theory Market_Tests. In
  all of them the user is \<open>Account 1\<close> and the collateral token \<open>Contract 2\<close>.
\<close>

section \<open>Setup\<close>

definition deposit_test_market :: market where
  "deposit_test_market = test_market 1 ''Will it rain tomorrow?'' (Account 3) (Contract 2)"

definition deposit_setup :: "market \<Rightarrow> test_state" where
  "deposit_setup market = set_market 1 market (set_version fresh_test_state)"

definition funded_setup :: "market \<Rightarrow> i128 \<Rightarrow> test_state" where
  "funded_setup market n = mint_to (Contract 2) (Account 1) n (deposit_setup market)"

abbreviation deposit_user :: address where "deposit_user \<equiv> Account 1"

section \<open>Refusals\<close>

definition test_deposit_validates_zero_amount :: bool where
  "test_deposit_validates_zero_amount =
     is_err InvalidQuantity (run_deposit deposit_user 1 0 (deposit_setup deposit_test_market))"

definition test_deposit_validates_negative_amount :: bool where
  "test_deposit_validates_negative_amount =
     is_err InvalidQuantity (run_deposit deposit_user 1 (- 100) (deposit_setup deposit_test_market))"

definition test_deposit_validates_market_not_found :: bool where
  "test_deposit_validates_market_not_found =
     is_err MarketNotFound (run_deposit deposit_user 999 1000 (set_version fresh_test_state))"

definition test_deposit_validates_resolved_market :: bool where
  "test_deposit_validates_resolved_market =
     is_err MarketNotActive (run_deposit deposit_user 1 1000 (deposit_setup
       (deposit_test_market\<lparr>mkt_status := market_status.MarketResolved, mkt_result := Some True\<rparr>)))"

definition test_deposit_validates_canceled_market :: bool where
  "test_deposit_validates_canceled_market =
     is_err MarketNotActive (run_deposit deposit_user 1 1000
       (deposit_setup (deposit_test_market\<lparr>mkt_status := market_status.MarketCanceled\<rparr>)))"

definition test_deposit_validates_excessive_amount :: bool where
  "test_deposit_validates_excessive_amount =
     is_err InvalidQuantity (run_deposit deposit_user 1 i128_max (deposit_setup deposit_test_market))"

definition test_deposit_rejected_after_market_expiry :: bool where
  "test_deposit_rejected_after_market_expiry =
     is_err MarketExpired (run_deposit deposit_user 1 5000
       (funded_setup (deposit_test_market\<lparr>mkt_end_time := 0\<rparr>) 20000))"

definition test_deposit_i128_max_rejected_no_panic :: bool where
  "test_deposit_i128_max_rejected_no_panic =
     is_err InvalidQuantity (run_deposit deposit_user 1 i128_max (deposit_setup deposit_test_market))"

definition test_deposit_just_above_reasonable_cap_rejected :: bool where
  "test_deposit_just_above_reasonable_cap_rejected =
     (let above_cap = i128_max sdiv 2 + 1
      in is_err InvalidQuantity (run_deposit deposit_user 1 above_cap (deposit_setup deposit_test_market)))"

definition test_deposit_second_deposit_accumulation_overflow_caught :: bool where
  "test_deposit_second_deposit_accumulation_overflow_caught =
     (let large = i128_max - 1000;
          position = \<lparr>pos_user = deposit_user, pos_yes_shares = 0, pos_no_shares = 0,
            pos_locked_collateral = 0, pos_total_deposited = large, pos_market_id = 1, pos_is_settled = False\<rparr>;
          s = mint_to (Contract 2) deposit_user 2000
            (set_position 1 deposit_user position (deposit_setup deposit_test_market))
      in is_err ArithmeticOverflow (run_deposit deposit_user 1 2000 s))"

definition test_deposit_rejected_while_reentrancy_lock_held :: bool where
  "test_deposit_rejected_while_reentrancy_lock_held =
     is_err ReentrantCall (run_deposit deposit_user 1 5000
       (with_store (ms_set_deposit_locked direct_market True) (deposit_setup deposit_test_market)))"

section \<open>Accepted deposits\<close>

definition test_deposit_updates_position_collateral :: bool where
  "test_deposit_updates_position_collateral =
     (let deposit_amount = 5000; (result, s) = run_deposit deposit_user 1 deposit_amount
        (funded_setup deposit_test_market 10000)
      in is_ok (result, s) \<and> position_satisfies 1 deposit_user
        (\<lambda>p. pos_total_deposited p = deposit_amount \<and> pos_locked_collateral p = 0) s)"

definition test_deposit_with_zero_shares_keeps_locked_collateral_zero :: bool where
  "test_deposit_with_zero_shares_keeps_locked_collateral_zero =
     (let deposit_amount = 5000; second_deposit = 1000;
          (result1, s1) = run_deposit deposit_user 1 deposit_amount (funded_setup deposit_test_market 10000);
          (result2, s2) = run_deposit deposit_user 1 second_deposit s1
      in is_ok (result1, s1)
        \<and> position_satisfies 1 deposit_user (\<lambda>p. pos_yes_shares p = 0 \<and> pos_no_shares p = 0
            \<and> pos_total_deposited p = deposit_amount \<and> pos_locked_collateral p = 0) s1
        \<and> is_ok (result2, s2)
        \<and> position_satisfies 1 deposit_user (\<lambda>p. pos_total_deposited p = deposit_amount + second_deposit
            \<and> pos_locked_collateral p = 0) s2)"

text \<open>The loop over the deposits, with the running total it compares.\<close>

fun deposits_accumulate :: "i128 list \<Rightarrow> i128 \<Rightarrow> test_state \<Rightarrow> i128 option" where
  "deposits_accumulate [] running s = Some running"
| "deposits_accumulate (amount # rest) running s =
     (let (result, s') = run_deposit deposit_user 1 amount s; running' = running + amount
      in if is_ok (result, s') \<and> position_satisfies 1 deposit_user (\<lambda>p. pos_total_deposited p = running') s'
         then deposits_accumulate rest running' s' else None)"

definition test_total_deposited_accumulates_across_multiple_deposits :: bool where
  "test_total_deposited_accumulates_across_multiple_deposits =
     (let deposits = [10000, 5000, 15000, 20000]
      in deposits_accumulate deposits 0 (funded_setup deposit_test_market 100000) = Some (sum_list deposits))"

definition test_deposit_lock_released_after_successful_deposit :: bool where
  "test_deposit_lock_released_after_successful_deposit =
     (let (result1, s1) = run_deposit deposit_user 1 5000 (funded_setup deposit_test_market 20000);
          (result2, s2) = run_deposit deposit_user 1 1000 s1
      in is_ok (result1, s1) \<and> \<not> ms_is_deposit_locked direct_market (store s1) \<and> is_ok (result2, s2))"

section \<open>The two tests the code fails\<close>

text \<open>Nobody holds this many tokens, so the transfer traps and the call does not return.\<close>

definition test_deposit_at_reasonable_cap_boundary :: bool where
  "test_deposit_at_reasonable_cap_boundary =
     (let at_cap = i128_max sdiv 2
      in case fst (run_deposit deposit_user 1 at_cap (deposit_setup deposit_test_market)) of
           Ok _ \<Rightarrow> True | Err e \<Rightarrow> e \<noteq> ArithmeticOverflow | Panic \<Rightarrow> False)"

text \<open>What the test reads of the last event; topics are counted from the event's name.\<close>

definition deposit_event_parts :: "test_state \<Rightarrow> ((nat \<Rightarrow> event_val option) \<times> (string \<Rightarrow> event_val option)) option" where
  "deposit_event_parts s = (if events s = [] then None
     else Some (topic (last (events s)), event_data (last (events s))))"

definition test_deposit_event_contains_amount_and_new_total :: bool where
  "test_deposit_event_contains_amount_and_new_total =
     (let fst_amount = 7000; second = 3000;
          (result1, s1) = run_deposit deposit_user 1 fst_amount (funded_setup deposit_test_market 20000);
          (result2, s2) = run_deposit deposit_user 1 second s1
      in is_ok (result1, s1)
        \<and> (case deposit_event_parts s1 of None \<Rightarrow> False
           | Some (topics, data) \<Rightarrow>
               topics 0 = Some (SymbolVal ''collateral_deposited'')
               \<and> topics 1 = Some (AddressVal deposit_user) \<and> topics 2 = Some (U32Val 1)
               \<and> data ''amount'' = Some (I128Val fst_amount) \<and> data ''new_total'' = Some (I128Val fst_amount))
        \<and> is_ok (result2, s2)
        \<and> (case deposit_event_parts s2 of None \<Rightarrow> False
           | Some (topics, data) \<Rightarrow> data ''amount'' = Some (I128Val second)
               \<and> data ''new_total'' = Some (I128Val (fst_amount + second))))"

section \<open>Properties\<close>

lemma refused_deposit_tests_pass:
  "test_deposit_validates_zero_amount" "test_deposit_validates_negative_amount"
  "test_deposit_validates_market_not_found" "test_deposit_validates_resolved_market"
  "test_deposit_validates_canceled_market" "test_deposit_validates_excessive_amount"
  "test_deposit_rejected_after_market_expiry" "test_deposit_i128_max_rejected_no_panic"
  "test_deposit_just_above_reasonable_cap_rejected"
  "test_deposit_second_deposit_accumulation_overflow_caught"
  "test_deposit_rejected_while_reentrancy_lock_held"
  by code_simp+

lemma accepted_deposit_tests_pass:
  "test_deposit_updates_position_collateral"
  "test_deposit_with_zero_shares_keeps_locked_collateral_zero"
  "test_deposit_lock_released_after_successful_deposit"
  by code_simp+

lemma accumulation_test_passes: "test_total_deposited_accumulates_across_multiple_deposits"
  by (simp add: test_total_deposited_accumulates_across_multiple_deposits_def funded_setup_def
      deposit_setup_def deposit_test_market_def test_defs run_simps)

text \<open>
  Two of the seventeen tests fail: one expects a deposit without tokens to return, and one reads
  the user where the event publishes the schema version.
\<close>

theorem two_deposit_tests_fail:
  "\<not> test_deposit_at_reasonable_cap_boundary" "\<not> test_deposit_event_contains_amount_and_new_total"
  by code_simp+

end
