(* ===== verification/Market_Tests_Withdraw.thy ===== *)
theory Market_Tests_Withdraw
  imports Market_Tests Market_Treasury
begin

text \<open>
  The unit tests of \<^verbatim>\<open>contracts/market/src/withdraw.rs\<close>, on the host of theory Market_Tests; the
  user is \<open>Account 1\<close>, the collateral token \<open>Contract 2\<close>, the treasury \<open>Contract 4\<close>. The tests store a
  position without crediting the user's protocol-wide balance; what \<open>debit_collateral_balance\<close> does
  then is not in the repository, so the accessors are an argument of the tests that succeed.
\<close>

section \<open>Setup\<close>

abbreviation withdraw_user :: address where "withdraw_user \<equiv> Account 1"

definition withdraw_test_market :: market where
  "withdraw_test_market = test_market 1 ''Will it rain tomorrow?'' (Account 3) (Contract 2)"

definition withdraw_position :: "i128 \<Rightarrow> i128 \<Rightarrow> i128 \<Rightarrow> position" where
  "withdraw_position yes locked deposited = \<lparr>pos_user = withdraw_user, pos_yes_shares = yes,
     pos_no_shares = 0, pos_locked_collateral = locked, pos_total_deposited = deposited,
     pos_market_id = 1, pos_is_settled = False\<rparr>"

definition set_fee_rate :: "i128 \<Rightarrow> ('x, market_view) market_state \<Rightarrow> ('x, market_view) market_state" where
  "set_fee_rate bps = with_store (v_fee_rate_update (\<lambda>_. bps))"

definition seeded :: "market \<Rightarrow> position option \<Rightarrow> ('x, market_view) market_state
    \<Rightarrow> ('x, market_view) market_state" where
  "seeded market p s = (case p of None \<Rightarrow> id | Some q \<Rightarrow> set_position 1 withdraw_user q)
     (set_market 1 market (set_version s))"

definition run_withdraw :: "u64 \<Rightarrow> market_view market_accessors \<Rightarrow> i128 \<Rightarrow> test_state
    \<Rightarrow> (market_error, unit) result \<times> test_state" where
  "run_withdraw now A amount =
     withdraw_unused_collateral (test_env now) A ledger_client (\<lambda>_ _ _ _ _ _. None) withdraw_user 1 amount"

text \<open>An accessor that debits what there is, and stops at zero.\<close>

definition lenient_market :: "market_view market_accessors" where
  "lenient_market = direct_market\<lparr>ms_debit_collateral_balance :=
     (\<lambda>a n r. Some (r\<lparr>v_balance := (v_balance r)(a := max 0 (v_balance r a - n))\<rparr>))\<rparr>"

interpretation market_lenient: market_storage lenient_market "\<lambda>r. r"
  by unfold_locales (auto simp: lenient_market_def direct_market_def split: if_splits)

definition has_large_withdraw_event :: "('x, market_view) market_state \<Rightarrow> bool" where
  "has_large_withdraw_event s = list_ex (\<lambda>ev. fst (published ev) = ''large_withdraw'') (events s)"

definition has_retained_event :: "('x, market_view) market_state \<Rightarrow> bool" where
  "has_retained_event s = list_ex (\<lambda>ev. fst (published ev) = ''fee_retained_no_treasury'') (events s)"

section \<open>Refusals\<close>

definition test_withdraw_validates_zero_amount :: bool where
  "test_withdraw_validates_zero_amount =
     is_err InvalidQuantity (run_withdraw 0 direct_market 0 (seeded withdraw_test_market None fresh_test_state))"

definition test_withdraw_validates_negative_amount :: bool where
  "test_withdraw_validates_negative_amount = is_err InvalidQuantity
     (run_withdraw 0 direct_market (- 100) (seeded withdraw_test_market None fresh_test_state))"

definition test_withdraw_validates_market_not_found :: bool where
  "test_withdraw_validates_market_not_found =
     is_err MarketNotFound (withdraw_unused_collateral (test_env 0) direct_market ledger_client
       (\<lambda>_ _ _ _ _ _. None) withdraw_user 999 1000 (set_version fresh_test_state))"

definition test_withdraw_validates_market_not_active_resolved :: bool where
  "test_withdraw_validates_market_not_active_resolved =
     is_err MarketNotActive (run_withdraw 0 direct_market 100 (seeded (withdraw_test_market
       \<lparr>mkt_status := market_status.MarketResolved, mkt_result := Some True\<rparr>) None fresh_test_state))"

definition test_withdraw_locked_collateral_enforced :: bool where
  "test_withdraw_locked_collateral_enforced = is_err InsufficientCollateral (run_withdraw 0 direct_market 41
     (seeded withdraw_test_market (Some (withdraw_position 120 60 100)) fresh_test_state))"

definition test_withdraw_fully_locked_rejected :: bool where
  "test_withdraw_fully_locked_rejected = is_err InsufficientCollateral (run_withdraw 0 direct_market 1
     (seeded withdraw_test_market (Some (withdraw_position 100 100 100)) fresh_test_state))"

definition test_withdraw_fee_causes_insufficient_collateral :: bool where
  "test_withdraw_fee_causes_insufficient_collateral = is_err InsufficientCollateral
     (run_withdraw 0 direct_market 48 (set_fee_rate 1000
       (seeded withdraw_test_market (Some (withdraw_position 0 50 100)) fresh_test_state)))"

definition test_withdraw_zero_deposited_rejected :: bool where
  "test_withdraw_zero_deposited_rejected = is_err InsufficientCollateral
     (run_withdraw 0 direct_market 1 (set_fee_rate 1000
       (seeded withdraw_test_market (Some (withdraw_position 0 0 0)) fresh_test_state)))"

definition test_withdraw_blocked_within_cooldown :: bool where
  "test_withdraw_blocked_within_cooldown = is_err WithdrawCooldownActive
     (run_withdraw 0 direct_market 500 (with_store (ms_set_last_deposit_time direct_market 1 withdraw_user 0)
       (seeded withdraw_test_market (Some (withdraw_position 0 0 1000)) fresh_test_state)))"

definition test_withdraw_no_deposit_record_bypasses_cooldown :: bool where
  "test_withdraw_no_deposit_record_bypasses_cooldown =
     (case fst (run_withdraw 0 direct_market 500 (seeded withdraw_test_market None fresh_test_state)) of
        Ok _ \<Rightarrow> True | Err e \<Rightarrow> e \<noteq> WithdrawCooldownActive | Panic \<Rightarrow> False)"

section \<open>Accepted withdrawals\<close>

definition test_withdraw_exactly_available_succeeds :: "market_view market_accessors \<Rightarrow> bool" where
  "test_withdraw_exactly_available_succeeds A =
     (let (result, s) = run_withdraw 0 A 40 (mint_to (Contract 2) (Contract 1) 200
        (seeded withdraw_test_market (Some (withdraw_position 120 60 100)) fresh_test_state))
      in is_ok (result, s) \<and> position_satisfies 1 withdraw_user
        (\<lambda>p. pos_total_deposited p = 60 \<and> pos_locked_collateral p = 60) s)"

text \<open>Withdrawing 40 of an unlocked deposit of 100, the contract holding 200.\<close>

definition withdraw_40 :: "i128 \<Rightarrow> market_view market_accessors \<Rightarrow> (market_error, unit) result \<times> test_state" where
  "withdraw_40 bps A = run_withdraw 0 A 40 (mint_to (Contract 2) (Contract 1) 200 (set_fee_rate bps
     (seeded withdraw_test_market (Some (withdraw_position 0 0 100)) fresh_test_state)))"

definition test_withdraw_fee_deducted_on_top :: "market_view market_accessors \<Rightarrow> bool" where
  "test_withdraw_fee_deducted_on_top A =
     (let (result, s) = withdraw_40 1000 A
      in is_ok (result, s) \<and> ext s (Contract 2) withdraw_user = 40
        \<and> position_satisfies 1 withdraw_user (\<lambda>p. pos_total_deposited p = 56) s)"

primrec fee_calculated_field :: "market_event list \<Rightarrow> i128 option" where
  "fee_calculated_field [] = None"
| "fee_calculated_field (ev # evs) = (case ev of
     FeeCalculated version market_id user fee_amount available \<Rightarrow> Some fee_amount
   | _ \<Rightarrow> fee_calculated_field evs)"

primrec collateral_withdrawn_fields :: "market_event list \<Rightarrow> (i128 \<times> i128) option" where
  "collateral_withdrawn_fields [] = None"
| "collateral_withdrawn_fields (ev # evs) = (case ev of
     CollateralWithdrawn version user market_id amount new_total \<Rightarrow> Some (amount, new_total)
   | _ \<Rightarrow> collateral_withdrawn_fields evs)"

definition test_withdraw_events_reconcile_for_indexer :: "market_view market_accessors \<Rightarrow> bool" where
  "test_withdraw_events_reconcile_for_indexer A =
     (let (result, s) = withdraw_40 1000 A
      in is_ok (result, s) \<and> (case (fee_calculated_field (events s), collateral_withdrawn_fields (events s)) of
           (Some fee_amount, Some (amount, new_total)) \<Rightarrow>
             fee_amount = 4 \<and> amount = 40 \<and> new_total = 56 \<and> 100 - amount - fee_amount = new_total
             \<and> position_satisfies 1 withdraw_user (\<lambda>p. pos_total_deposited p = new_total) s
         | _ \<Rightarrow> False))"

definition test_withdraw_zero_fee_rate_no_deduction :: "market_view market_accessors \<Rightarrow> bool" where
  "test_withdraw_zero_fee_rate_no_deduction A =
     (let (result, s) = withdraw_40 0 A
      in is_ok (result, s) \<and> position_satisfies 1 withdraw_user (\<lambda>p. pos_total_deposited p = 60) s)"

definition test_withdraw_fee_retained_when_treasury_unset :: "market_view market_accessors \<Rightarrow> bool" where
  "test_withdraw_fee_retained_when_treasury_unset A =
     (let (result, s) = withdraw_40 1000 A
      in is_ok (result, s) \<and> ext s (Contract 2) withdraw_user = 40 \<and> ext s (Contract 2) (Contract 1) = 160
        \<and> position_satisfies 1 withdraw_user (\<lambda>p. pos_total_deposited p = 56) s \<and> has_retained_event s)"

text \<open>Withdrawing the whole of an unlocked deposit without a fee.\<close>

definition withdraw_whole :: "i128 \<Rightarrow> market_view market_accessors \<Rightarrow> (market_error, unit) result \<times> test_state" where
  "withdraw_whole amount A = run_withdraw 0 A amount (mint_to (Contract 2) (Contract 1) amount (set_fee_rate 0
     (seeded withdraw_test_market (Some (withdraw_position 0 0 amount)) fresh_test_state)))"

definition test_withdraw_below_threshold_no_audit_event :: "market_view market_accessors \<Rightarrow> bool" where
  "test_withdraw_below_threshold_no_audit_event A =
     (let (result, s) = withdraw_whole (large_withdraw_threshold - 1) A
      in is_ok (result, s) \<and> \<not> has_large_withdraw_event s)"

definition test_withdraw_above_threshold_emits_audit_event :: "market_view market_accessors \<Rightarrow> bool" where
  "test_withdraw_above_threshold_emits_audit_event A =
     (let (result, s) = withdraw_whole large_withdraw_threshold A
      in is_ok (result, s) \<and> has_large_withdraw_event s)"

definition test_withdraw_allowed_after_cooldown :: "market_view market_accessors \<Rightarrow> bool" where
  "test_withdraw_allowed_after_cooldown A =
     (let now = withdraw_cooldown_seconds * 2; past = now - withdraw_cooldown_seconds
      in is_ok (run_withdraw now A 500 (mint_to (Contract 2) (Contract 1) 1000
        (with_store (ms_set_last_deposit_time A 1 withdraw_user past)
          (seeded withdraw_test_market (Some (withdraw_position 0 0 1000)) fresh_test_state)))))"

section \<open>With a treasury\<close>

type_synonym treasury_test_state = "((ledger, treasury_view) treasury, market_view) market_state"

text \<open>The treasury at \<open>Contract 4\<close>, initialized by \<open>Account 5\<close> for the market.\<close>

definition treasury_test_world :: "(ledger, treasury_view) treasury" where
  "treasury_test_world = snd (treasury_initialize (called_by (Account 5) (Contract 4) (test_env 0)) (Account 5)
     (Contract 1) (fresh_treasury ((\<lambda>_ _. 0)(Contract 2 := (\<lambda>_. 0)(Contract 1 := 200))) fresh_view))"

definition withdraw_40_with_treasury :: "i128 \<Rightarrow> market_view market_accessors
    \<Rightarrow> (market_error, unit) result \<times> treasury_test_state" where
  "withdraw_40_with_treasury bps A =
     withdraw_unused_collateral (test_env 0) A (beside_treasury ledger_client)
       (treasury_sink (Contract 4) (test_env 0) direct_accessors) withdraw_user 1 40
       (with_store (v_treasury_update (\<lambda>_. Some (Contract 4))) (set_fee_rate bps
         (seeded withdraw_test_market (Some (withdraw_position 0 0 100))
           \<lparr>ext = treasury_test_world, events = [], store = store fresh_test_state\<rparr>)))"

primrec fee_collected_fields :: "treasury_event list \<Rightarrow> (u32 \<times> i128) option" where
  "fee_collected_fields [] = None"
| "fee_collected_fields (ev # evs) = (case ev of
     FeeCollected market_id token fee_amount balance cumulative \<Rightarrow> Some (market_id, fee_amount)
   | _ \<Rightarrow> fee_collected_fields evs)"

definition test_withdraw_fee_routed_when_treasury_set_no_retained_event :: "market_view market_accessors \<Rightarrow> bool" where
  "test_withdraw_fee_routed_when_treasury_set_no_retained_event A =
     (let (result, s) = withdraw_40_with_treasury 1000 A
      in is_ok (result, s) \<and> ext (ext s) (Contract 2) withdraw_user = 40
        \<and> ext (ext s) (Contract 2) (Contract 4) = 4 \<and> \<not> has_retained_event s)"

definition test_withdraw_emits_fee_collected_from_treasury_path :: "market_view market_accessors \<Rightarrow> bool" where
  "test_withdraw_emits_fee_collected_from_treasury_path A =
     (let (result, s) = withdraw_40_with_treasury 1000 A
      in is_ok (result, s) \<and> fee_collected_fields (events (ext s)) = Some (1, 4))"

definition test_withdraw_zero_fee_emits_no_fee_collected :: "market_view market_accessors \<Rightarrow> bool" where
  "test_withdraw_zero_fee_emits_no_fee_collected A =
     (let (result, s) = withdraw_40_with_treasury 0 A
      in is_ok (result, s) \<and> fee_collected_fields (events (ext s)) = None)"

section \<open>Properties\<close>

lemma refused_withdrawal_tests_pass:
  "test_withdraw_validates_zero_amount" "test_withdraw_validates_negative_amount"
  "test_withdraw_validates_market_not_found" "test_withdraw_validates_market_not_active_resolved"
  "test_withdraw_locked_collateral_enforced" "test_withdraw_fully_locked_rejected"
  "test_withdraw_fee_causes_insufficient_collateral" "test_withdraw_zero_deposited_rejected"
  "test_withdraw_blocked_within_cooldown" "test_withdraw_no_deposit_record_bypasses_cooldown"
  by code_simp+

text \<open>
  The tests of accepted withdrawals pass when a debit stops at zero, and fail when it traps on a
  position that no balance covers.
\<close>

definition accepted_withdrawal_tests :: "(market_view market_accessors \<Rightarrow> bool) list" where
  "accepted_withdrawal_tests = [test_withdraw_exactly_available_succeeds, test_withdraw_fee_deducted_on_top,
     test_withdraw_events_reconcile_for_indexer, test_withdraw_zero_fee_rate_no_deduction,
     test_withdraw_fee_retained_when_treasury_unset,
     test_withdraw_below_threshold_no_audit_event, test_withdraw_above_threshold_emits_audit_event,
     test_withdraw_allowed_after_cooldown, test_withdraw_fee_routed_when_treasury_set_no_retained_event,
     test_withdraw_emits_fee_collected_from_treasury_path, test_withdraw_zero_fee_emits_no_fee_collected]"

lemma accepted_withdrawal_tests_pass: "list_all (\<lambda>test. test lenient_market) accepted_withdrawal_tests"
  by code_simp

lemma accepted_withdrawal_tests_fail: "list_all (\<lambda>test. \<not> test direct_market) accepted_withdrawal_tests"
  by code_simp

end
