(* ===== verification/Market_Tests_Settlement.thy ===== *)
theory Market_Tests_Settlement
  imports Market_Tests Market_Settlement Market_Positions
begin

text \<open>
  The unit tests of \<^verbatim>\<open>contracts/market/src/settlement.rs\<close> and \<^verbatim>\<open>reconciliation.rs\<close>, on the
  host of theory Market_Tests. The end-to-end tests create and resolve their market through
  entrypoints that are not in the repository; here the market they ask for and its outcome are
  stored directly, and the calls in between are those of the modules. No outcome-token contract is
  registered; the two tests that mint and burn outcome tokens are not modelled.
\<close>

section \<open>Setup\<close>

definition no_outcome_tokens :: "'x outcome_client" where
  "no_outcome_tokens = \<lparr>oc_balance = (\<lambda>_ _ _ _ _. None), oc_mint = (\<lambda>_ _ _ _ _ _. None),
     oc_burn = (\<lambda>_ _ _ _ _ _. None)\<rparr>"

definition create_test_market :: "market_status \<Rightarrow> bool option \<Rightarrow> market" where
  "create_test_market status outcome =
     (test_market 1 ''Test?'' (Account 7) (Account 8))\<lparr>mkt_status := status, mkt_result := outcome\<rparr>"

definition create_test_position :: "i128 \<Rightarrow> i128 \<Rightarrow> bool \<Rightarrow> position" where
  "create_test_position yes no settled = \<lparr>pos_user = Account 1, pos_yes_shares = yes,
     pos_no_shares = no, pos_locked_collateral = yes + no, pos_total_deposited = yes + no,
     pos_market_id = 1, pos_is_settled = settled\<rparr>"

section \<open>Payouts\<close>

definition test_calculate_payout_yes_wins :: bool where
  "test_calculate_payout_yes_wins = (calculate_payout (create_test_position 100 30 False) True = 100)"

definition test_losing_shares_pay_zero :: bool where
  "test_losing_shares_pay_zero = (calculate_payout (create_test_position 0 75 False) True = 0
     \<and> calculate_payout (create_test_position 75 0 False) False = 0)"

definition test_calculate_payout_no_wins :: bool where
  "test_calculate_payout_no_wins = (calculate_payout (create_test_position 100 30 False) False = 30)"

definition test_calculate_payout_hedged_position :: bool where
  "test_calculate_payout_hedged_position = (let pos = create_test_position 50 50 False
     in calculate_payout pos True = 50 \<and> calculate_payout pos False = 50)"

definition test_calculate_payout_is_exact_collateral_share :: bool where
  "test_calculate_payout_is_exact_collateral_share =
     (let pos = create_test_position 1234567891 7 False; big = i128_max sdiv 2
      in calculate_payout pos True = 1234567891 \<and> calculate_payout pos False = 7
        \<and> calculate_payout (create_test_position big 1 False) True = big)"

definition test_calculate_payout_zero_shares :: bool where
  "test_calculate_payout_zero_shares = (calculate_payout (create_test_position 0 0 False) True = 0)"

definition test_validate_settlement_not_resolved :: bool where
  "test_validate_settlement_not_resolved = (validate_settlement_eligibility
     (create_test_position 100 0 False) (create_test_market MarketActive None) = Inl MarketNotResolved)"

definition test_validate_settlement_already_settled :: bool where
  "test_validate_settlement_already_settled = (validate_settlement_eligibility
     (create_test_position 100 0 True) (create_test_market market_status.MarketResolved (Some True))
     = Inl PositionAlreadySettled)"

definition test_validate_settlement_rejects_canceled_market :: bool where
  "test_validate_settlement_rejects_canceled_market = (validate_settlement_eligibility
     (create_test_position 100 0 False) (create_test_market market_status.MarketCanceled None)
     = Inl MarketNotResolved)"

definition test_potential_payout_unresolved_market :: bool where
  "test_potential_payout_unresolved_market =
     (calculate_potential_payout (create_test_position 100 0 False) (create_test_market MarketActive None) = None)"

definition test_potential_payout_resolved_market :: bool where
  "test_potential_payout_resolved_market = (calculate_potential_payout (create_test_position 100 30 False)
     (create_test_market market_status.MarketResolved (Some True)) = Some 100)"

definition test_market_settlement_stats :: bool where
  "test_market_settlement_stats = (calculate_market_settlement_stats 1000 500 True = (1000, 500, 1000)
     \<and> calculate_market_settlement_stats 1000 500 False = (500, 1000, 500))"

definition test_validate_payout_valid :: bool where
  "test_validate_payout_valid = (validate_payout 0 = Inr () \<and> validate_payout 100 = Inr ()
     \<and> validate_payout i128_max = Inr ())"

definition test_validate_payout_invalid :: bool where
  "test_validate_payout_invalid = (validate_payout (- 1) = Inl InvalidQuantity
     \<and> validate_payout (- 100) = Inl InvalidQuantity)"

section \<open>execute_settlement\<close>

text \<open>The tests run it in a fresh contract, without a stored schema version; \<open>.unwrap()\<close> panics on an error.\<close>

definition run_execute :: "test_state \<Rightarrow> position \<Rightarrow> market
    \<Rightarrow> (market_error, i128 \<times> position) result \<times> test_state" where
  "run_execute s pos market = execute_settlement (test_env 0) direct_market no_outcome_tokens pos market s"

definition execute_satisfies :: "(i128 \<Rightarrow> position \<Rightarrow> market_event list \<Rightarrow> bool) \<Rightarrow> test_state \<Rightarrow> position
    \<Rightarrow> market \<Rightarrow> bool" where
  "execute_satisfies P s pos market = (case run_execute s pos market of
     (Ok (payout, pos'), s') \<Rightarrow> P payout pos' (events s') | (Err e, s') \<Rightarrow> False | (Panic, s') \<Rightarrow> False)"

definition test_execute_settlement_marks_as_settled :: "test_state \<Rightarrow> bool" where
  "test_execute_settlement_marks_as_settled s =
     execute_satisfies (\<lambda>payout pos evs. payout = 100 \<and> pos_is_settled pos) s
       (create_test_position 100 0 False) (create_test_market market_status.MarketResolved (Some True))"

definition test_execute_settlement_returns_correct_amount :: "test_state \<Rightarrow> bool" where
  "test_execute_settlement_returns_correct_amount s =
     execute_satisfies (\<lambda>payout pos evs. payout = 30) s
       (create_test_position 100 30 False) (create_test_market market_status.MarketResolved (Some False))"

definition test_execute_settlement_emits_event :: "test_state \<Rightarrow> bool" where
  "test_execute_settlement_emits_event s =
     execute_satisfies (\<lambda>payout pos evs. length evs > 0) s
       (create_test_position 100 0 False) (create_test_market market_status.MarketResolved (Some True))"

definition test_execute_settlement_no_winner_refunds_deposited :: "test_state \<Rightarrow> bool" where
  "test_execute_settlement_no_winner_refunds_deposited s =
     execute_satisfies (\<lambda>payout pos evs. payout = pos_total_deposited pos \<and> pos_is_settled pos) s
       (create_test_position 100 30 False) (create_test_market market_status.MarketResolved None)"

section \<open>Batches and pages without positions\<close>

definition run_batch :: "u32 \<Rightarrow> address list \<Rightarrow> test_state \<Rightarrow> (market_error, i128) result \<times> test_state" where
  "run_batch = batch_settle_positions (test_env 0) direct_market no_outcome_tokens ledger_client"

definition run_page :: "u32 \<Rightarrow> u32 \<Rightarrow> u32 \<Rightarrow> test_state
    \<Rightarrow> (market_error, i128 \<times> u32 \<times> bool) result \<times> test_state" where
  "run_page = settle_positions_page (test_env 0) direct_market no_outcome_tokens ledger_client"

definition test_batch_settle_returns_market_not_found_for_missing_market :: bool where
  "test_batch_settle_returns_market_not_found_for_missing_market =
     is_err MarketNotFound (run_batch 999 [Account 1] (set_version fresh_test_state))"

definition test_batch_settle_rejects_canceled_market :: bool where
  "test_batch_settle_rejects_canceled_market = is_err MarketNotResolved (run_batch 1 [Account 1]
     (set_market 1 (create_test_market market_status.MarketCanceled None) (set_version fresh_test_state)))"

definition test_settle_positions_page_rejects_active_market :: bool where
  "test_settle_positions_page_rejects_active_market = is_err MarketNotResolved (run_page 1 0 10
     (set_market 1 (create_test_market MarketActive None) (set_version fresh_test_state)))"

definition test_settle_positions_page_rejects_canceled_market :: bool where
  "test_settle_positions_page_rejects_canceled_market = is_err MarketNotResolved (run_page 1 0 10
     (set_market 1 (create_test_market market_status.MarketCanceled None) (set_version fresh_test_state)))"

definition ghosts :: "nat \<Rightarrow> address list" where "ghosts n = map (\<lambda>k. Account (100 + k)) [0..<n]"

definition test_batch_settle_size_guards_precede_market_load :: bool where
  "test_batch_settle_size_guards_precede_market_load = (let s = set_version fresh_test_state
     in is_err BatchTooLarge (run_batch 12345 [] s)
       \<and> is_err BatchTooLarge (run_batch 12345 (ghosts (ms_max_batch_settle_size direct_market + 1)) s))"

definition test_max_batch_settle_size_constant_is_100 :: bool where
  "test_max_batch_settle_size_constant_is_100 = (ms_max_batch_settle_size direct_market = 100)"

section \<open>Parity\<close>

definition run_parity :: "test_state \<Rightarrow> (market_error, position_token_parity) result \<times> test_state" where
  "run_parity = get_position_token_parity direct_market no_outcome_tokens 1 (Account 1)"

definition test_parity_matches_when_no_outcome_token_contract_registered :: bool where
  "test_parity_matches_when_no_outcome_token_contract_registered =
     (case fst (run_parity (set_version fresh_test_state)) of
        Ok parity \<Rightarrow> par_is_matched parity \<and> par_yes_shares parity = 0 \<and> par_no_shares parity = 0
      | Err e \<Rightarrow> False | Panic \<Rightarrow> False)"

definition test_parity_matches_for_settled_position :: bool where
  "test_parity_matches_for_settled_position =
     (let position = (new_empty 1 (Account 1))\<lparr>pos_yes_shares := 100, pos_no_shares := 50, pos_is_settled := True\<rparr>
      in case fst (run_parity (set_position 1 (Account 1) position (set_version fresh_test_state))) of
        Ok parity \<Rightarrow> par_is_matched parity \<and> par_yes_shares parity = 100 \<and> par_no_shares parity = 50
      | Err e \<Rightarrow> False | Panic \<Rightarrow> False)"

definition test_reconcile_rejects_replayed_correlation_id :: bool where
  "test_reconcile_rejects_replayed_correlation_id =
     (let correlation_id = replicate 32 7;
          s = with_store (ms_set_reconciliation_record direct_market correlation_id 1 (Account 1))
            (set_version fresh_test_state)
      in is_err ReconciliationAlreadyApplied (reconcile_position_tokens (test_env 0) direct_market
           no_outcome_tokens (Account 9) 1 (Account 1) correlation_id s))"

section \<open>What passes without a position\<close>

lemma payout_tests_pass:
  "test_calculate_payout_yes_wins" "test_losing_shares_pay_zero" "test_calculate_payout_no_wins"
  "test_calculate_payout_hedged_position" "test_calculate_payout_is_exact_collateral_share"
  "test_calculate_payout_zero_shares" "test_validate_settlement_not_resolved"
  "test_validate_settlement_already_settled" "test_validate_settlement_rejects_canceled_market"
  "test_potential_payout_unresolved_market" "test_potential_payout_resolved_market"
  "test_market_settlement_stats" "test_validate_payout_valid" "test_validate_payout_invalid"
  by code_simp+

lemma batch_guard_tests_pass:
  "test_batch_settle_returns_market_not_found_for_missing_market"
  "test_batch_settle_rejects_canceled_market" "test_settle_positions_page_rejects_active_market"
  "test_settle_positions_page_rejects_canceled_market" "test_max_batch_settle_size_constant_is_100"
  by code_simp+

lemma parity_tests_pass:
  "test_parity_matches_when_no_outcome_token_contract_registered"
  "test_parity_matches_for_settled_position"
  by code_simp+

text \<open>Without a schema version every read of a position is refused; the four tests panic on \<open>unwrap\<close>.\<close>

lemma execute_settlement_tests_need_a_version:
  "\<not> test_execute_settlement_marks_as_settled fresh_test_state"
  "\<not> test_execute_settlement_returns_correct_amount fresh_test_state"
  "\<not> test_execute_settlement_emits_event fresh_test_state"
  "\<not> test_execute_settlement_no_winner_refunds_deposited fresh_test_state"
  "test_execute_settlement_marks_as_settled (set_version fresh_test_state)"
  "test_execute_settlement_returns_correct_amount (set_version fresh_test_state)"
  "test_execute_settlement_emits_event (set_version fresh_test_state)"
  "test_execute_settlement_no_winner_refunds_deposited (set_version fresh_test_state)"
  by code_simp+

text \<open>A replayed repair of a position that matches is answered with the parity, not with an error.\<close>

lemma reconcile_replay_test_fails: "\<not> test_reconcile_rejects_replayed_correlation_id"
  by code_simp

text \<open>Batches of any size that is refused, whatever the market.\<close>

lemma batch_size_guard: "users = [] \<or> length users > 100 \<Longrightarrow> v_mode (store s) = Normal
    \<Longrightarrow> is_err BatchTooLarge (run_batch m users s)"
  by (auto simp: run_batch_def batch_settle_positions_def run_simps require_mode_def is_err_def
      direct_market_def)

lemma size_guard_test_passes: "test_batch_settle_size_guards_precede_market_load"
  unfolding test_batch_settle_size_guards_precede_market_load_def Let_def
  by (intro conjI batch_size_guard)
    (simp_all add: ghosts_def direct_market_def set_version_def with_store_def fresh_test_state_def empty_view_def)

section \<open>End-to-end tests\<close>

text \<open>The market \<open>initialize_market\<close> is asked for, by the admin \<open>Account 9\<close> at time 0.\<close>

definition flow_market :: "string \<Rightarrow> market" where
  "flow_market question = (test_market 1 question (Account 9) (Contract 2))\<lparr>mkt_end_time := 86400\<rparr>"

definition flow_start :: "string \<Rightarrow> test_state" where
  "flow_start question = set_market 1 (flow_market question)
     (set_version (with_store (v_admin_update (\<lambda>_. Some (Account 9))) fresh_test_state))"

text \<open>Mint, deposit and buy YES shares; any error panics.\<close>

definition deposit_and_buy :: "address \<Rightarrow> i128 \<Rightarrow> i128 \<Rightarrow> test_state \<Rightarrow> test_state option" where
  "deposit_and_buy user deposit shares s =
     (case run_deposit user 1 deposit (mint_to (Contract 2) user deposit s) of
        (Ok _, s1) \<Rightarrow>
          (case update_position_persist (test_env 0) direct_market unread_arguments 1 user shares 0 5000 s1 of
             (Ok _, s2) \<Rightarrow> Some s2 | (Err e, s2) \<Rightarrow> None | (Panic, s2) \<Rightarrow> None)
      | (Err e, s1) \<Rightarrow> None | (Panic, s1) \<Rightarrow> None)"

definition store_outcome :: "string \<Rightarrow> bool option \<Rightarrow> test_state \<Rightarrow> test_state" where
  "store_outcome question outcome = set_market 1
     ((flow_market question)\<lparr>mkt_status := market_status.MarketResolved, mkt_result := outcome\<rparr>)"

definition run_settle :: "address \<Rightarrow> test_state \<Rightarrow> (market_error, i128) result \<times> test_state" where
  "run_settle user = settle_position (test_env 0) direct_market no_outcome_tokens ledger_client user 1"

definition test_settle_position_refunds_collateral_for_no_winner :: bool where
  "test_settle_position_refunds_collateral_for_no_winner =
     (let question = ''No winner refund path''; user = Account 1; deposit = 100 * stroops_per_usdc
      in case deposit_and_buy user deposit deposit (flow_start question) of
           None \<Rightarrow> False
         | Some s \<Rightarrow> (case run_settle user (store_outcome question None s) of
             (Ok payout, s') \<Rightarrow> payout = deposit \<and> ext s' (Contract 2) user = deposit
               \<and> ext s' (Contract 2) (Contract 1) = 0
           | (Err e, s') \<Rightarrow> False | (Panic, s') \<Rightarrow> False))"

definition test_settle_position_transfers_payout_full_flow :: bool where
  "test_settle_position_transfers_payout_full_flow =
     (let question = ''Will the payout land?''; user = Account 1; deposit = 100 * stroops_per_usdc;
          yes_shares = 100 * stroops_per_usdc
      in case deposit_and_buy user deposit yes_shares (flow_start question) of
           None \<Rightarrow> False
         | Some s0 \<Rightarrow> (let s = store_outcome question (Some True) s0
             in ext s (Contract 2) user = 0 \<and> ext s (Contract 2) (Contract 1) = deposit
               \<and> (case run_settle user s of
                   (Ok payout, s') \<Rightarrow> payout = yes_shares \<and> ext s' (Contract 2) user = payout
                     \<and> ext s' (Contract 2) (Contract 1) = deposit - payout
                     \<and> position_satisfies 1 user pos_is_settled s' \<and> \<not> is_ok (run_settle user s')
                 | (Err e, s') \<Rightarrow> False | (Panic, s') \<Rightarrow> False)))"

definition test_settle_position_rejects_unresolved_market :: bool where
  "test_settle_position_rejects_unresolved_market =
     (let user = Account 1; deposit = 50 * stroops_per_usdc;
          s = mint_to (Contract 2) user deposit (flow_start ''Still active?'')
      in case run_deposit user 1 deposit s of
           (Ok _, s') \<Rightarrow> is_err MarketNotResolved (run_settle user s')
         | (Err e, s') \<Rightarrow> False | (Panic, s') \<Rightarrow> False)"

text \<open>The loop of repeated attempts: each is refused and moves no tokens.\<close>

primrec repeats_refused :: "nat \<Rightarrow> address \<Rightarrow> i128 \<Rightarrow> i128 \<Rightarrow> test_state \<Rightarrow> test_state option" where
  "repeats_refused 0 user user_balance contract_balance s = Some s"
| "repeats_refused (Suc k) user user_balance contract_balance s =
     (let (result, s') = run_settle user s
      in if is_err PositionAlreadySettled (result, s') \<and> ext s' (Contract 2) user = user_balance
           \<and> ext s' (Contract 2) (Contract 1) = contract_balance
         then repeats_refused k user user_balance contract_balance s' else None)"

definition test_second_settle_position_cannot_double_pay :: bool where
  "test_second_settle_position_cannot_double_pay =
     (let question = ''Can settle drain funds twice?''; user = Account 1; deposit = 100 * stroops_per_usdc;
          yes_shares = 100 * stroops_per_usdc
      in case deposit_and_buy user deposit yes_shares (flow_start question) of
           None \<Rightarrow> False
         | Some s \<Rightarrow> (case run_settle user (store_outcome question (Some True) s) of
             (Ok first_payout, s1) \<Rightarrow> first_payout = yes_shares
               \<and> position_satisfies 1 user pos_is_settled s1
               \<and> (case repeats_refused 3 user (ext s1 (Contract 2) user) (ext s1 (Contract 2) (Contract 1)) s1 of
                   None \<Rightarrow> False
                 | Some s2 \<Rightarrow> stored_position 1 user s2 = stored_position 1 user s1)
           | (Err e, s1) \<Rightarrow> False | (Panic, s1) \<Rightarrow> False))"

section \<open>Batches over two traders\<close>

text \<open>A market resolved YES, in which \<open>Account 4\<close> and \<open>Account 5\<close> have bought YES shares.\<close>

definition setup_resolved_market :: "test_state option" where
  "setup_resolved_market = Option.bind (deposit_and_buy (Account 4) 100000000 100000000
       (flow_start ''Batch settle test?'')) (\<lambda>s.
     map_option (store_outcome ''Batch settle test?'' (Some True))
       (deposit_and_buy (Account 5) 100000000 100000000 s))"

definition on_resolved_market :: "(test_state \<Rightarrow> bool) \<Rightarrow> bool" where
  "on_resolved_market P = (case setup_resolved_market of None \<Rightarrow> False | Some s \<Rightarrow> P s)"

definition test_batch_settle_rejects_unresolved_market :: bool where
  "test_batch_settle_rejects_unresolved_market =
     is_err MarketNotResolved (run_batch 1 [Account 4] (flow_start ''Still active?''))"

definition test_batch_settle_skips_missing_positions :: bool where
  "test_batch_settle_skips_missing_positions =
     on_resolved_market (\<lambda>s. fst (run_batch 1 [Account 6] s) = Ok 0)"

definition test_batch_settle_settles_multiple_users :: bool where
  "test_batch_settle_settles_multiple_users =
     (let question = ''Batch settle multi user?''; shares = 100000000
      in case Option.bind (deposit_and_buy (Account 4) 100000000 shares (flow_start question))
           (deposit_and_buy (Account 5) 100000000 shares) of
         None \<Rightarrow> False
       | Some s \<Rightarrow> (case run_batch 1 [Account 4, Account 5] (store_outcome question (Some True) s) of
           (Ok total_payout, s') \<Rightarrow> total_payout = shares * 2 \<and> ext s' (Contract 2) (Account 4) = shares
             \<and> ext s' (Contract 2) (Account 5) = shares \<and> position_satisfies 1 (Account 4) pos_is_settled s'
             \<and> position_satisfies 1 (Account 5) pos_is_settled s'
         | (Err e, s') \<Rightarrow> False | (Panic, s') \<Rightarrow> False))"

definition test_batch_settle_skips_already_settled :: bool where
  "test_batch_settle_skips_already_settled =
     (let question = ''Skip settled?''; user = Account 4
      in case deposit_and_buy user 50000000 50000000 (flow_start question) of
           None \<Rightarrow> False
         | Some s \<Rightarrow> (case run_settle user (store_outcome question (Some True) s) of
             (Ok payout, s') \<Rightarrow> fst (run_batch 1 [user] s') = Ok 0
           | (Err e, s') \<Rightarrow> False | (Panic, s') \<Rightarrow> False))"

definition test_settle_positions_page_pays_out_resolved_market :: bool where
  "test_settle_positions_page_pays_out_resolved_market =
     on_resolved_market (\<lambda>s. case run_page 1 0 10 (mint_to (Contract 2) (Contract 1) 1000000000 s) of
         (Ok (total_payout, next_index, is_complete), s') \<Rightarrow> total_payout > 0 \<and> is_complete \<and> next_index = 2
       | (Err e, s') \<Rightarrow> False | (Panic, s') \<Rightarrow> False)"

definition test_batch_settle_rejects_empty_batch :: bool where
  "test_batch_settle_rejects_empty_batch = on_resolved_market (\<lambda>s. is_err BatchTooLarge (run_batch 1 [] s))"

definition test_batch_settle_rejects_oversized_batch :: bool where
  "test_batch_settle_rejects_oversized_batch = on_resolved_market (\<lambda>s.
     is_err BatchTooLarge (run_batch 1 (ghosts (ms_max_batch_settle_size direct_market + 1)) s))"

definition test_batch_settle_accepts_batch_at_max_size :: bool where
  "test_batch_settle_accepts_batch_at_max_size = on_resolved_market (\<lambda>s.
     fst (run_batch 1 (ghosts (ms_max_batch_settle_size direct_market)) s) = Ok 0)"

section \<open>The end-to-end tests pass\<close>

text \<open>Users without a position are skipped, however many there are.\<close>

lemma settle_ghosts:
  "list_all (\<lambda>u. v_positions (store s) (m, u) = None) users \<Longrightarrow> v_ready (store s) \<Longrightarrow>
     settle_users E direct_market C T mk m users acc s = (Ok acc, s)"
  by (induction users) (auto simp: run_simps settle_one_def direct_market_def)

lemmas settle_eval [test_defs] = no_outcome_tokens_def flow_market_def flow_start_def
  deposit_and_buy_def store_outcome_def run_settle_def stroops_per_usdc_def settle_position_def
  execute_settlement_def compute_settlement_def validate_settlement_eligibility_def
  assert_position_token_parity_def get_position_token_parity_def load_token_balances_def
  validate_payout_def calculate_payout_def burn_settled_outcome_tokens_def pay_settled_def
  mkt_emit_position_updated_def mkt_emit_position_settled_def
  run_batch_def run_page_def batch_settle_positions_def settle_positions_page_def settle_listed_def
  settle_one_def add_settled_def saturating_add_def mkt_emit_positions_batch_settled_def
  setup_resolved_market_def on_resolved_market_def
  update_position_persist_def announce_update_run require_price_def validate_market_price_def peek_position_def
  position_limit_exceeded_side_def validate_position_change_def add_i128_def relock_def
  calculate_locked_collateral_def scale_by_bps_def poke_position_def

lemma flow_tests_pass:
  "test_settle_position_refunds_collateral_for_no_winner"
  "test_settle_position_transfers_payout_full_flow"
  "test_second_settle_position_cannot_double_pay"
  "test_settle_position_rejects_unresolved_market"
  by (simp_all add: test_settle_position_refunds_collateral_for_no_winner_def
      test_settle_position_transfers_payout_full_flow_def test_second_settle_position_cannot_double_pay_def
      test_settle_position_rejects_unresolved_market_def numeral_3_eq_3 test_defs run_simps)

lemma batch_tests_pass:
  "test_batch_settle_rejects_unresolved_market" "test_batch_settle_skips_missing_positions"
  "test_batch_settle_settles_multiple_users" "test_batch_settle_skips_already_settled"
  "test_settle_positions_page_pays_out_resolved_market" "test_batch_settle_rejects_empty_batch"
  by (simp_all add: test_batch_settle_rejects_unresolved_market_def test_batch_settle_skips_missing_positions_def
      test_batch_settle_settles_multiple_users_def test_batch_settle_skips_already_settled_def
      test_settle_positions_page_pays_out_resolved_market_def test_batch_settle_rejects_empty_batch_def
      test_defs run_simps)

text \<open>What matters for batches of strangers: none of them has a position.\<close>

definition strangers_hold_nothing :: "test_state \<Rightarrow> bool" where
  "strangers_hold_nothing s \<longleftrightarrow> v_ready (store s) \<and> v_mode (store s) = Normal
    \<and> v_markets (store s) 1 = Some ((flow_market ''Batch settle test?'')
        \<lparr>mkt_status := market_status.MarketResolved, mkt_result := Some True\<rparr>)
    \<and> (\<forall>k. v_positions (store s) (1, Account (100 + k)) = None)"

lemma resolved_market_has_strangers: "on_resolved_market strangers_hold_nothing"
  by (simp add: strangers_hold_nothing_def test_defs run_simps)

lemma on_resolved_marketI:
  assumes "\<And>s. strangers_hold_nothing s \<Longrightarrow> P s"
  shows "on_resolved_market P"
proof (cases setup_resolved_market)
  case None
  then show ?thesis using resolved_market_has_strangers by (simp add: on_resolved_market_def)
next
  case (Some a)
  have "strangers_hold_nothing a"
    using resolved_market_has_strangers unfolding on_resolved_market_def Some by simp
  then have "P a" by (rule assms)
  then show ?thesis unfolding on_resolved_market_def Some by simp
qed

lemma batch_of_strangers:
  assumes "strangers_hold_nothing s" and "0 < n" "n \<le> 100"
  shows "run_batch 1 (ghosts n) s = (Ok 0, s)"
proof -
  have "list_all (\<lambda>u. v_positions (store s) (1, u) = None) (ghosts n)" "length (ghosts n) = n" "ghosts n \<noteq> []"
    using assms by (auto simp: strangers_hold_nothing_def ghosts_def list_all_iff)
  with assms show ?thesis
    by (simp add: run_batch_def batch_settle_positions_def require_mode_def run_simps strangers_hold_nothing_def
        direct_market_def settle_listed_def settle_ghosts[unfolded direct_market_def])
qed

lemma stranger_tests_pass:
  "test_batch_settle_rejects_oversized_batch" "test_batch_settle_accepts_batch_at_max_size"
  unfolding test_batch_settle_rejects_oversized_batch_def test_batch_settle_accepts_batch_at_max_size_def
proof -
  show "on_resolved_market (\<lambda>s. is_err BatchTooLarge
      (run_batch 1 (ghosts (ms_max_batch_settle_size direct_market + 1)) s))"
    by (intro on_resolved_marketI batch_size_guard)
      (simp_all add: ghosts_def direct_market_def strangers_hold_nothing_def)
  show "on_resolved_market (\<lambda>s. fst (run_batch 1 (ghosts (ms_max_batch_settle_size direct_market)) s) = Ok 0)"
    by (intro on_resolved_marketI) (simp add: batch_of_strangers[simplified] direct_market_def)
qed

end
