(* ===== verification/Market_Tests_Rules.thy ===== *)
theory Market_Tests_Rules
  imports Market_Tests Market_Waivers
begin

text \<open>
  The unit tests of \<^verbatim>\<open>contracts/market/src/validation.rs\<close> and \<^verbatim>\<open>fee_waiver.rs\<close>, on the host of
  theory Market_Tests. A string is the bytes of its UTF-8 encoding; whether an admin is stored and
  the pause flag are read where the validators take them as arguments.
\<close>

section \<open>Market creation\<close>

definition test_valid_market_creation :: bool where
  "test_valid_market_creation = (let current_time = 1000; end_time = current_time + 86400
     in validate_market_creation ''Will it rain tomorrow?'' end_time current_time = Inr ())"

definition test_empty_question_fails :: bool where
  "test_empty_question_fails = (let current_time = 1000; end_time = current_time + 86400
     in validate_market_creation '''' end_time current_time = Inl InvalidQuestion)"

definition test_long_question_fails :: bool where
  "test_long_question_fails = (let current_time = 1000; end_time = current_time + 86400
     in validate_market_creation (replicate 500 CHR ''a'') end_time current_time = Inl InvalidQuestion)"

definition test_past_end_time_fails :: bool where
  "test_past_end_time_fails = (let current_time = 1000; end_time = current_time - 1
     in validate_market_creation ''Valid question?'' end_time current_time = Inl InvalidTimestamp)"

definition test_far_future_end_time_fails :: bool where
  "test_far_future_end_time_fails = (let current_time = 1000; end_time = current_time + 31536001
     in validate_market_creation ''Valid question?'' end_time current_time = Inl InvalidTimestamp)"

section \<open>Amounts and shares\<close>

definition test_valid_collateral_amount :: bool where
  "test_valid_collateral_amount = (validate_collateral_amount 100 = Inr () \<and> validate_collateral_amount 1 = Inr ())"

definition test_zero_collateral_fails :: bool where
  "test_zero_collateral_fails = (validate_collateral_amount 0 = Inl InvalidQuantity)"

definition test_negative_collateral_fails :: bool where
  "test_negative_collateral_fails = (validate_collateral_amount (- 1) = Inl InvalidQuantity)"

definition test_excessive_collateral_fails :: bool where
  "test_excessive_collateral_fails = (validate_collateral_amount i128_max = Inl InvalidQuantity)"

definition test_valid_shares :: bool where
  "test_valid_shares = (validate_shares 100 0 = Inr () \<and> validate_shares 0 100 = Inr () \<and> validate_shares 50 50 = Inr ())"

definition test_both_zero_shares_fails :: bool where
  "test_both_zero_shares_fails = (validate_shares 0 0 = Inl InvalidShareAmount)"

definition test_negative_shares_fail :: bool where
  "test_negative_shares_fail = (validate_shares (- 1) 100 = Inl InvalidShareAmount \<and> validate_shares 100 (- 1) = Inl InvalidShareAmount)"

definition test_valid_outcome :: bool where
  "test_valid_outcome = (validate_outcome True = Inr () \<and> validate_outcome False = Inr ())"

section \<open>Ids, prices and fees\<close>

definition test_parse_market_id_valid :: bool where
  "test_parse_market_id_valid = (parse_market_id ''1'' = Inr 1 \<and> parse_market_id ''42'' = Inr 42 \<and> parse_market_id ''999'' = Inr 999)"

definition test_parse_market_id_invalid :: bool where
  "test_parse_market_id_invalid = (parse_market_id '''' = Inl InvalidQuantity \<and> parse_market_id ''abc'' = Inl InvalidQuantity
     \<and> parse_market_id ''12a'' = Inl InvalidQuantity)"

definition test_validate_market_price_valid :: bool where
  "test_validate_market_price_valid = (validate_market_price 0 = Inr () \<and> validate_market_price 5000 = Inr () \<and> validate_market_price 10000 = Inr ())"

definition test_validate_market_price_invalid :: bool where
  "test_validate_market_price_invalid = (validate_market_price (- 1) = Inl InvalidPrice \<and> validate_market_price 10001 = Inl InvalidPrice)"

definition test_validate_input_guard_valid :: bool where
  "test_validate_input_guard_valid = (validate_input_guard 1 = Inr () \<and> validate_input_guard 100 = Inr ()
     \<and> validate_input_guard (i128_max sdiv 2) = Inr ())"

definition test_validate_input_guard_invalid :: bool where
  "test_validate_input_guard_invalid = (validate_input_guard 0 = Inl InvalidQuantity \<and> validate_input_guard (- 1) = Inl InvalidQuantity
     \<and> validate_input_guard (- 100) = Inl InvalidQuantity)"

definition test_calculate_fee_valid :: bool where
  "test_calculate_fee_valid = (calculate_fee 1000 100 = Inr 10 \<and> calculate_fee 10000 500 = Inr 500 \<and> calculate_fee 100 0 = Inr 0)"

definition test_calculate_fee_invalid_amount :: bool where
  "test_calculate_fee_invalid_amount = (calculate_fee 0 100 = Inl InvalidQuantity \<and> calculate_fee (- 100) 100 = Inl InvalidQuantity)"

definition test_calculate_fee_invalid_rate :: bool where
  "test_calculate_fee_invalid_rate = (calculate_fee 1000 (- 1) = Inl InvalidPrice \<and> calculate_fee 1000 10001 = Inl InvalidPrice)"

definition test_calculate_fee_overflow :: bool where
  "test_calculate_fee_overflow = (calculate_fee i128_max 10000 = Inl ArithmeticOverflow)"

section \<open>Bounds\<close>

definition test_shares_overflow_bound_rejected :: bool where
  "test_shares_overflow_bound_rejected = (validate_shares max_reasonable_amount max_reasonable_amount = Inr ()
     \<and> validate_shares i128_max 0 = Inl InvalidShareAmount
     \<and> validate_shares 0 (max_reasonable_amount + 1) = Inl InvalidShareAmount)"

definition test_collateral_amount_boundaries :: bool where
  "test_collateral_amount_boundaries = (validate_collateral_amount max_reasonable_amount = Inr ()
     \<and> validate_collateral_amount (max_reasonable_amount + 1) = Inl InvalidQuantity
     \<and> validate_deposit_amount 0 = Inl InvalidQuantity)"

definition test_end_time_no_overflow_near_u64_max :: bool where
  "test_end_time_no_overflow_near_u64_max = (validate_end_time u64_max (u64_max - 1) = Inr ())"

definition test_validate_cancelable_active_ok :: bool where
  "test_validate_cancelable_active_ok = (validate_cancelable MarketActive = Inr ())"

definition test_validate_cancelable_resolved_fails :: bool where
  "test_validate_cancelable_resolved_fails = (validate_cancelable market_status.MarketResolved = Inl MarketAlreadyResolved)"

definition test_validate_cancelable_already_canceled_fails :: bool where
  "test_validate_cancelable_already_canceled_fails = (validate_cancelable market_status.MarketCanceled = Inl MarketNotActive)"

section \<open>Addresses, initialization and the pause flag\<close>

definition test_validate_admin_address_account_ok :: bool where
  "test_validate_admin_address_account_ok = (validate_admin_address (test_env 0) (Account 1) = Inr ())"

definition test_validate_admin_address_contract_fails :: bool where
  "test_validate_admin_address_contract_fails = (validate_admin_address (test_env 0) (Contract 1) = Inl InvalidAdmin)"

definition test_validate_fee_waiver_account_user_ok :: bool where
  "test_validate_fee_waiver_account_user_ok = (validate_fee_waiver_account (test_env 0) (Account 2) (Account 1) = Inr ())"

definition test_validate_fee_waiver_account_contract_fails :: bool where
  "test_validate_fee_waiver_account_contract_fails = (validate_fee_waiver_account (test_env 0) (Contract 1) (Account 1) = Inl InvalidFeeWaiverAccount)"

definition test_validate_fee_waiver_account_self_waiver_fails :: bool where
  "test_validate_fee_waiver_account_self_waiver_fails = (validate_fee_waiver_account (test_env 0) (Account 1) (Account 1) = Inl InvalidFeeWaiverAccount)"

definition test_require_initialized_when_has_admin :: bool where
  "test_require_initialized_when_has_admin = (let s = with_store (v_admin_update (\<lambda>_. Some (Account 1))) fresh_test_state
     in market_require_initialized (ms_get_admin direct_market (store s) \<noteq> None) = Inr ())"

definition test_require_initialized_returns_not_initialized :: bool where
  "test_require_initialized_returns_not_initialized = (market_require_initialized (ms_get_admin direct_market (store fresh_test_state) \<noteq> None)
     = Inl NotInitialized)"

definition test_require_not_paused_returns_ok_when_not_paused :: bool where
  "test_require_not_paused_returns_ok_when_not_paused = (market_require_not_paused False = Inr ())"

definition test_require_not_paused_returns_contract_paused_when_paused :: bool where
  "test_require_not_paused_returns_contract_paused_when_paused = (market_require_not_paused True = Inl ContractPaused)"

section \<open>Metadata links\<close>

definition test_validate_metadata_uri_none_passes :: bool where
  "test_validate_metadata_uri_none_passes = (validate_metadata_uri None = Inr ())"

definition test_validate_metadata_uri_valid_passes :: bool where
  "test_validate_metadata_uri_valid_passes = (validate_metadata_uri (Some ''ipfs://QmXxx'') = Inr ())"

definition test_validate_metadata_uri_empty_fails :: bool where
  "test_validate_metadata_uri_empty_fails = (validate_metadata_uri (Some '''') = Inl InvalidMetadataUri)"

definition test_validate_metadata_uri_overlong_fails :: bool where
  "test_validate_metadata_uri_overlong_fails = (validate_metadata_uri (Some (replicate (max_metadata_uri_length + 1) CHR ''a'')) = Inl InvalidMetadataUri)"

definition test_validate_metadata_uri_exactly_max_length_passes :: bool where
  "test_validate_metadata_uri_exactly_max_length_passes = (validate_metadata_uri (Some (replicate max_metadata_uri_length CHR ''a'')) = Inr ())"

definition test_validate_metadata_uri_rejects_whitespace_control_and_non_ascii :: bool where
  "test_validate_metadata_uri_rejects_whitespace_control_and_non_ascii = (list_all (\<lambda>bad. validate_metadata_uri (Some bad) = Inl InvalidMetadataUri)
     [''ipfs://Qm Xxx'', ''ipfs://Qm'' @ [CHR 0x0A] @ ''Xxx'', ''ipfs://Qm'' @ [CHR 0x00] @ ''Xxx'',
      ''ipfs://Qm'' @ [CHR 0xE2, CHR 0x80, CHR 0xAE] @ ''Xxx''])"

section \<open>The validation tests pass\<close>

lemma creation_tests_pass:
  "test_valid_market_creation"
  "test_empty_question_fails"
  "test_long_question_fails"
  "test_past_end_time_fails"
  "test_far_future_end_time_fails"
  by (simp_all add: test_valid_market_creation_def test_empty_question_fails_def test_long_question_fails_def
      test_past_end_time_fails_def test_far_future_end_time_fails_def
      validate_market_creation_def validate_question_format_def validate_end_time_def
      saturating_add_u64_def one_year_seconds_def check_def try_then_def u64_max_def)

lemma amount_tests_pass:
  "test_valid_collateral_amount"
  "test_zero_collateral_fails"
  "test_negative_collateral_fails"
  "test_excessive_collateral_fails"
  "test_valid_shares"
  "test_both_zero_shares_fails"
  "test_negative_shares_fail"
  "test_valid_outcome"
  by code_simp+

lemma fee_tests_pass:
  "test_validate_market_price_valid"
  "test_validate_market_price_invalid"
  "test_validate_input_guard_valid"
  "test_validate_input_guard_invalid"
  "test_calculate_fee_valid"
  "test_calculate_fee_invalid_amount"
  "test_calculate_fee_invalid_rate"
  "test_calculate_fee_overflow"
  by code_simp+

lemma bound_tests_pass:
  "test_shares_overflow_bound_rejected"
  "test_collateral_amount_boundaries"
  "test_validate_cancelable_active_ok"
  "test_validate_cancelable_resolved_fails"
  "test_validate_cancelable_already_canceled_fails"
  by code_simp+

lemma address_tests_pass:
  "test_validate_admin_address_account_ok"
  "test_validate_admin_address_contract_fails"
  "test_validate_fee_waiver_account_user_ok"
  "test_validate_fee_waiver_account_contract_fails"
  "test_validate_fee_waiver_account_self_waiver_fails"
  "test_require_initialized_when_has_admin"
  "test_require_initialized_returns_not_initialized"
  "test_require_not_paused_returns_ok_when_not_paused"
  "test_require_not_paused_returns_contract_paused_when_paused"
  by code_simp+

lemma metadata_tests_pass:
  "test_validate_metadata_uri_none_passes"
  "test_validate_metadata_uri_valid_passes"
  "test_validate_metadata_uri_empty_fails"
  "test_validate_metadata_uri_rejects_whitespace_control_and_non_ascii"
  by code_simp+

lemma parse_id_tests_pass: "test_parse_market_id_valid" "test_parse_market_id_invalid"
  by (simp_all add: test_parse_market_id_valid_def test_parse_market_id_invalid_def parse_market_id_def
      checked_mul_u32_def checked_add_u32_def opt_ok_or_def check_def try_then_def u32_max_def)

lemma length_limit_tests_pass:
  "test_end_time_no_overflow_near_u64_max" "test_validate_metadata_uri_overlong_fails"
  "test_validate_metadata_uri_exactly_max_length_passes"
  by (simp_all add: test_end_time_no_overflow_near_u64_max_def test_validate_metadata_uri_overlong_fails_def
      test_validate_metadata_uri_exactly_max_length_passes_def validate_end_time_def saturating_add_u64_def
      one_year_seconds_def validate_metadata_uri_def max_metadata_uri_length_def list_all_iff
      is_ascii_graphic_def check_def try_then_def u64_max_def)

section \<open>fee_waiver.rs\<close>

text \<open>
  The admin is \<open>Account 1\<close>; \<open>cap\<close> is \<open>MAX_FEE_WAIVERS\<close> and \<open>note\<close> what the missing event functions
  publish.
\<close>

definition waiver_market :: "u32 \<Rightarrow> market_view market_accessors" where
  "waiver_market cap = direct_market\<lparr>ms_max_fee_waivers := cap\<rparr>"

definition waiver_setup :: test_state where
  "waiver_setup = with_store (v_admin_update (\<lambda>_. Some (Account 1))) fresh_test_state"

type_synonym waiver_note = "address \<Rightarrow> address \<Rightarrow> u32 \<Rightarrow> market_event"

definition run_add :: "waiver_note \<Rightarrow> u32 \<Rightarrow> address \<Rightarrow> address \<Rightarrow> test_state
    \<Rightarrow> (market_error, unit) result \<times> test_state" where
  "run_add note cap = add_fee_waiver note (test_env 0) (waiver_market cap)"

definition run_remove :: "waiver_note \<Rightarrow> u32 \<Rightarrow> address \<Rightarrow> address \<Rightarrow> test_state
    \<Rightarrow> (market_error, unit) result \<times> test_state" where
  "run_remove note cap = remove_fee_waiver note (test_env 0) (waiver_market cap)"

definition present :: "address \<Rightarrow> test_state \<Rightarrow> bool" where
  "present a s = has_fee_waiver direct_market a (store s)"

text \<open>The loop that fills the list with fresh addresses.\<close>

primrec fill_waivers :: "waiver_note \<Rightarrow> u32 \<Rightarrow> nat \<Rightarrow> test_state \<Rightarrow> test_state option" where
  "fill_waivers note cap 0 s = Some s"
| "fill_waivers note cap (Suc k) s =
     (case run_add note cap (Account 1) (Account (100 + k)) s of
        (Ok _, s') \<Rightarrow> fill_waivers note cap k s' | (Err e, s') \<Rightarrow> None | (Panic, s') \<Rightarrow> None)"

definition regression_fee_waiver_cap_prevents_unbounded_growth :: "waiver_note \<Rightarrow> u32 \<Rightarrow> bool" where
  "regression_fee_waiver_cap_prevents_unbounded_growth note cap =
     (case fill_waivers note cap cap waiver_setup of
        None \<Rightarrow> False
      | Some s \<Rightarrow> (let (result, s') = run_add note cap (Account 1) (Account 2) s
          in is_err FeeWaiverCapReached (result, s') \<and> length (v_fee_waivers (store s')) = cap))"

definition test_add_remove_fee_waiver_lifecycle :: "waiver_note \<Rightarrow> u32 \<Rightarrow> bool" where
  "test_add_remove_fee_waiver_lifecycle note cap =
     (let waiver = Account 2;
          (r1, s1) = run_add note cap (Account 1) waiver waiver_setup;
          (r2, s2) = run_add note cap (Account 1) waiver s1;
          (r3, s3) = run_remove note cap (Account 1) waiver s2;
          (r4, s4) = run_remove note cap (Account 1) waiver s3
      in \<not> present waiver waiver_setup \<and> is_ok (r1, s1) \<and> present waiver s1
        \<and> is_ok (r2, s2) \<and> length (v_fee_waivers (store s2)) = 1
        \<and> is_ok (r3, s3) \<and> \<not> present waiver s3 \<and> is_ok (r4, s4))"

definition test_non_admin_cannot_add_fee_waiver :: "waiver_note \<Rightarrow> u32 \<Rightarrow> bool" where
  "test_non_admin_cannot_add_fee_waiver note cap =
     (let (result, s) = run_add note cap (Account 2) (Account 3) waiver_setup
      in is_err NotAdmin (result, s) \<and> \<not> present (Account 3) s)"

text \<open>\<open>should_panic\<close>: without \<open>mock_all_auths\<close> nobody has authorized the call.\<close>

definition test_spoofed_admin_caller_without_auth_is_rejected :: "waiver_note \<Rightarrow> u32 \<Rightarrow> bool" where
  "test_spoofed_admin_caller_without_auth_is_rejected note cap =
     (case fst (add_fee_waiver note ((test_env 0)\<lparr>authorized := (\<lambda>_. False)\<rparr>) (waiver_market cap)
        (Account 1) (Account 2) waiver_setup) of Ok _ \<Rightarrow> False | Err e \<Rightarrow> False | Panic \<Rightarrow> True)"

definition test_non_admin_cannot_remove_fee_waiver :: "waiver_note \<Rightarrow> u32 \<Rightarrow> bool" where
  "test_non_admin_cannot_remove_fee_waiver note cap =
     (let (r1, s1) = run_add note cap (Account 1) (Account 3) waiver_setup;
          (result, s2) = run_remove note cap (Account 2) (Account 3) s1
      in is_ok (r1, s1) \<and> is_err NotAdmin (result, s2) \<and> present (Account 3) s2)"

text \<open>The stored rate is \<open>rate\<close>; \<^verbatim>\<open>fee_rate.rs\<close>, which would store it, is empty.\<close>

definition test_effective_fee_rate_waived_account_is_zero :: "waiver_note \<Rightarrow> u32 \<Rightarrow> bool" where
  "test_effective_fee_rate_waived_account_is_zero note cap =
     (let (r, s) = run_add note cap (Account 1) (Account 2) waiver_setup
      in is_ok (r, s) \<and> effective_fee_rate_bps (\<lambda>_. 250) direct_market (Account 2) (store s) = 0)"

definition test_effective_fee_rate_non_waived_uses_stored_rate :: bool where
  "test_effective_fee_rate_non_waived_uses_stored_rate =
     (effective_fee_rate_bps (\<lambda>_. 250) direct_market (Account 2) (store waiver_setup) = 250)"

section \<open>The waiver tests pass for every positive cap\<close>

lemmas waiver_eval = waiver_market_def waiver_setup_def run_add_def run_remove_def present_def
  has_fee_waiver_def add_fee_waiver_def remove_fee_waiver_def waiver_admin_def
  effective_fee_rate_bps_def

lemma waivers_filled:
  "v_admin (store s) = Some (Account 1) \<Longrightarrow> k + length (v_fee_waivers (store s)) \<le> cap \<Longrightarrow>
     \<forall>j < k. Account (100 + j) \<notin> set (v_fee_waivers (store s)) \<Longrightarrow> Account 2 \<notin> set (v_fee_waivers (store s)) \<Longrightarrow>
     \<exists>s'. fill_waivers note cap k s = Some s' \<and> v_admin (store s') = Some (Account 1)
       \<and> length (v_fee_waivers (store s')) = length (v_fee_waivers (store s)) + k
       \<and> Account 2 \<notin> set (v_fee_waivers (store s'))"
proof (induction k arbitrary: s)
  case (Suc k)
  obtain s' where s': "run_add note cap (Account 1) (Account (100 + k)) s = (Ok (), s')"
    "store s' = (store s)\<lparr>v_fee_waivers := v_fee_waivers (store s) @ [Account (100 + k)]\<rparr>"
    using Suc.prems by (auto simp: waiver_eval test_env_def direct_market_def run_simps Let_def)
  with Suc.prems show ?case using Suc.IH[of s'] by auto
qed simp

lemma waiver_cap_test_passes: "regression_fee_waiver_cap_prevents_unbounded_growth note cap"
proof -
  have s: "v_admin (store waiver_setup) = Some (Account 1)" "v_fee_waivers (store waiver_setup) = []"
    by (simp_all add: waiver_setup_def with_store_def fresh_test_state_def empty_view_def)
  obtain s' where s': "fill_waivers note cap cap waiver_setup = Some s'" "v_admin (store s') = Some (Account 1)"
    "length (v_fee_waivers (store s')) = cap" "Account 2 \<notin> set (v_fee_waivers (store s'))"
    using waivers_filled[of waiver_setup cap cap "note"] s by auto
  have "run_add note cap (Account 1) (Account 2) s' = (Err FeeWaiverCapReached, s')"
    using s' by (simp add: waiver_eval test_env_def direct_market_def run_simps)
  with s' show ?thesis
    by (simp add: regression_fee_waiver_cap_prevents_unbounded_growth_def is_err_def)
qed

lemma waiver_tests_pass:
  assumes "0 < cap"
  shows "test_add_remove_fee_waiver_lifecycle note cap" "test_non_admin_cannot_add_fee_waiver note cap"
    "test_spoofed_admin_caller_without_auth_is_rejected note cap"
    "test_non_admin_cannot_remove_fee_waiver note cap"
    "test_effective_fee_rate_waived_account_is_zero note cap"
    "test_effective_fee_rate_non_waived_uses_stored_rate"
  using assms by (simp_all add: test_add_remove_fee_waiver_lifecycle_def
      test_non_admin_cannot_add_fee_waiver_def test_spoofed_admin_caller_without_auth_is_rejected_def
      test_non_admin_cannot_remove_fee_waiver_def test_effective_fee_rate_waived_account_is_zero_def
      test_effective_fee_rate_non_waived_uses_stored_rate_def waiver_eval test_defs run_simps)

end
