(* ===== verification/Market_Tests_Oracle.thy ===== *)
theory Market_Tests_Oracle
  imports Market_Tests Market_Oracle
begin

text \<open>
  The unit tests of \<^verbatim>\<open>contracts/market/src/oracle.rs\<close> and \<^verbatim>\<open>oracle_adapter.rs\<close>, on the host of
  theory Market_Tests. The tests sign with random keys: here the keys, \<open>pub\<close> (the public key) and
  \<open>sign\<close> are parameters, and the locale \<open>test_signers\<close> states what a test relies on; the mock price
  contracts of \<^verbatim>\<open>oracle_adapter.rs\<close> are modelled.
\<close>

section \<open>Messages\<close>

type_synonym test_world = "ledger oracle_world"

definition oracle_test_market :: "bytes \<Rightarrow> adapter_type \<Rightarrow> market" where
  "oracle_test_market oracle_pubkey ty = (test_market 1 ''Test market'' (Account 7) (Account 8))
     \<lparr>mkt_oracle_pubkey := oracle_pubkey, mkt_adapter_type := ty\<rparr>"

definition test_construct_oracle_message_yes :: "test_world \<Rightarrow> bool" where
  "test_construct_oracle_message_yes W = (length (construct_oracle_message W 1 True) = 32)"

definition test_construct_oracle_message_no :: "test_world \<Rightarrow> bool" where
  "test_construct_oracle_message_no W = (length (construct_oracle_message W 1 False) = 32)"

definition test_different_outcomes_different_messages :: "test_world \<Rightarrow> bool" where
  "test_different_outcomes_different_messages W =
     (construct_oracle_message W 1 True \<noteq> construct_oracle_message W 1 False)"

definition test_different_market_ids_different_messages :: "test_world \<Rightarrow> bool" where
  "test_different_market_ids_different_messages W =
     (construct_oracle_message W 1 True \<noteq> construct_oracle_message W 2 True)"

definition test_construct_oracle_message_zero_id :: "test_world \<Rightarrow> bool" where
  "test_construct_oracle_message_zero_id W = (length (construct_oracle_message W 0 True) = 32)"

definition test_construct_oracle_message_large_id :: "test_world \<Rightarrow> bool" where
  "test_construct_oracle_message_large_id W = (length (construct_oracle_message W u32_max False) = 32)"

definition test_construct_oracle_message_various_ids :: "test_world \<Rightarrow> bool" where
  "test_construct_oracle_message_various_ids W =
     (let msg1 = construct_oracle_message W 100 True; msg2 = construct_oracle_message W 1000 True;
          msg3 = construct_oracle_message W 10000 True
      in msg1 \<noteq> msg2 \<and> msg2 \<noteq> msg3 \<and> msg1 \<noteq> msg3 \<and> length msg1 = 32)"

section \<open>Preimages\<close>

definition test_preimage_has_domain_separator_and_exact_length :: bool where
  "test_preimage_has_domain_separator_and_exact_length =
     (length (build_oracle_preimage 1 True) = oracle_preimage_len
      \<and> build_oracle_preimage 1 True = oracle_domain_separator @ be_bytes 4 1 @ [1])"

definition test_validate_oracle_preimage_len_accepts_exact_width :: bool where
  "test_validate_oracle_preimage_len_accepts_exact_width =
     (validate_oracle_preimage_len (build_oracle_preimage 42 False) = Inr ())"

definition test_validate_oracle_preimage_len_rejects_truncated :: bool where
  "test_validate_oracle_preimage_len_rejects_truncated =
     (validate_oracle_preimage_len (replicate (oracle_preimage_len - 1) 0) = Inl InvalidSignature)"

definition test_validate_oracle_preimage_len_rejects_oversized :: bool where
  "test_validate_oracle_preimage_len_rejects_oversized =
     (validate_oracle_preimage_len (replicate (oracle_preimage_len + 1) 0) = Inl InvalidSignature)"

definition test_validate_oracle_preimage_len_rejects_empty :: bool where
  "test_validate_oracle_preimage_len_rejects_empty = (validate_oracle_preimage_len [] = Inl InvalidSignature)"

definition test_hash_oracle_preimage_checked_never_panics_on_malformed_input :: "test_world \<Rightarrow> bool" where
  "test_hash_oracle_preimage_checked_never_panics_on_malformed_input W =
     (hash_oracle_preimage_checked W (replicate 4096 0xAA) = Inl InvalidSignature
      \<and> hash_oracle_preimage_checked W (replicate 1 0xBB) = Inl InvalidSignature)"

definition test_hash_oracle_preimage_checked_matches_construct_oracle_message :: "test_world \<Rightarrow> bool" where
  "test_hash_oracle_preimage_checked_matches_construct_oracle_message W =
     (hash_oracle_preimage_checked W (build_oracle_preimage 7 True) = Inr (construct_oracle_message W 7 True))"

definition test_validate_oracle_authorized :: bool where
  "test_validate_oracle_authorized = (let oracle_pubkey = replicate 32 1
     in validate_oracle_authorization (oracle_test_market oracle_pubkey Ed25519) oracle_pubkey = Inr ())"

definition test_validate_oracle_authorization_zero_pubkey :: bool where
  "test_validate_oracle_authorization_zero_pubkey =
     (validate_oracle_authorization (oracle_test_market (replicate 32 1) Ed25519) (replicate 32 0)
      = Inl UnauthorizedOracle)"

definition test_validate_oracle_unauthorized :: bool where
  "test_validate_oracle_unauthorized =
     (validate_oracle_authorization (oracle_test_market (replicate 32 1) Ed25519) (replicate 32 2)
      = Inl UnauthorizedOracle)"

section \<open>Single signatures\<close>

definition run_verify :: "test_world \<Rightarrow> u32 \<Rightarrow> bool \<Rightarrow> bytes \<Rightarrow> bytes
    \<Rightarrow> (market_error, unit) result \<times> test_state" where
  "run_verify W market_id outcome signature pubkey =
     verify_oracle_signature W direct_market market_id outcome signature pubkey fresh_test_state"

definition test_verify_signature_rejects_zero_pubkey :: "test_world \<Rightarrow> bool" where
  "test_verify_signature_rejects_zero_pubkey W =
     is_err UnauthorizedOracle (run_verify W 1 True (replicate 64 0) (replicate 32 0))"

text \<open>The signature and the key of this test are random bytes.\<close>

definition test_verify_invalid_signature :: "bytes \<Rightarrow> bytes \<Rightarrow> test_world \<Rightarrow> bool" where
  "test_verify_invalid_signature random_signature random_key W =
     is_err InvalidSignature (run_verify W 123 True random_signature random_key)"

definition generate_keypair_and_sign :: "test_world \<Rightarrow> ('k \<Rightarrow> bytes) \<Rightarrow> ('k \<Rightarrow> bytes \<Rightarrow> bytes) \<Rightarrow> 'k
    \<Rightarrow> u32 \<Rightarrow> bool \<Rightarrow> bytes \<times> bytes" where
  "generate_keypair_and_sign W pub sign key market_id outcome =
     (pub key, sign key (construct_oracle_message W market_id outcome))"

definition test_verify_valid_signature_succeeds :: "test_world \<Rightarrow> ('k \<Rightarrow> bytes) \<Rightarrow> ('k \<Rightarrow> bytes \<Rightarrow> bytes)
    \<Rightarrow> 'k \<Rightarrow> bool" where
  "test_verify_valid_signature_succeeds W pub sign key =
     (let (pubkey, signature) = generate_keypair_and_sign W pub sign key 1 True
      in is_ok (run_verify W 1 True signature pubkey))"

definition test_verify_signature_wrong_outcome_fails :: "test_world \<Rightarrow> ('k \<Rightarrow> bytes) \<Rightarrow> ('k \<Rightarrow> bytes \<Rightarrow> bytes)
    \<Rightarrow> 'k \<Rightarrow> bool" where
  "test_verify_signature_wrong_outcome_fails W pub sign key =
     (let (pubkey, signature) = generate_keypair_and_sign W pub sign key 1 True
      in is_err InvalidSignature (run_verify W 1 False signature pubkey))"

definition test_verify_signature_wrong_market_id_fails :: "test_world \<Rightarrow> ('k \<Rightarrow> bytes)
    \<Rightarrow> ('k \<Rightarrow> bytes \<Rightarrow> bytes) \<Rightarrow> 'k \<Rightarrow> bool" where
  "test_verify_signature_wrong_market_id_fails W pub sign key =
     (let (pubkey, signature) = generate_keypair_and_sign W pub sign key 1 True
      in is_err InvalidSignature (run_verify W 2 True signature pubkey))"

definition test_verify_signature_from_different_keypair_fails :: "test_world \<Rightarrow> ('k \<Rightarrow> bytes)
    \<Rightarrow> ('k \<Rightarrow> bytes \<Rightarrow> bytes) \<Rightarrow> 'k \<Rightarrow> 'k \<Rightarrow> bool" where
  "test_verify_signature_from_different_keypair_fails W pub sign key other =
     (let (pubkey, signature) = generate_keypair_and_sign W pub sign key 1 True;
          (other_pubkey, other_signature) = generate_keypair_and_sign W pub sign other 1 True
      in is_err InvalidSignature (run_verify W 1 True signature other_pubkey))"

definition legacy_preimage :: "u32 \<Rightarrow> bool \<Rightarrow> bytes" where
  "legacy_preimage market_id outcome = be_bytes 4 market_id @ outcome_byte outcome"

definition test_legacy_preimage_without_domain_separator_does_not_verify :: "test_world \<Rightarrow> ('k \<Rightarrow> bytes)
    \<Rightarrow> ('k \<Rightarrow> bytes \<Rightarrow> bytes) \<Rightarrow> 'k \<Rightarrow> bool" where
  "test_legacy_preimage_without_domain_separator_does_not_verify W pub sign key =
     (let legacy_message = ow_keccak256 W (legacy_preimage 9 True); signature = sign key legacy_message
      in is_err InvalidSignature (run_verify W 9 True signature (pub key)))"

definition test_verify_fails_closed_when_adapters_enabled :: "test_world \<Rightarrow> bool" where
  "test_verify_fails_closed_when_adapters_enabled W =
     is_err UnauthorizedOracle (verify_oracle_signature W direct_market 1 True (replicate 64 0) (replicate 32 1)
       (with_store (v_adapters_update (\<lambda>_. True)) fresh_test_state))"

definition test_upgrade_order_safety_adapters_must_be_enabled_first :: "test_world \<Rightarrow> bool" where
  "test_upgrade_order_safety_adapters_must_be_enabled_first W =
     (let s = with_store (v_adapters_update (\<lambda>_. True)) fresh_test_state
      in \<not> ms_has_oracle_adapters direct_market (store fresh_test_state)
        \<and> ms_has_oracle_adapters direct_market (store s)
        \<and> is_err UnauthorizedOracle
            (verify_oracle_signature W direct_market 1 True (replicate 64 0) (replicate 32 1) s))"

section \<open>V2 signatures\<close>

definition run_verify_v2 :: "u64 \<Rightarrow> test_world \<Rightarrow> bytes \<Rightarrow> u32 \<Rightarrow> bool \<Rightarrow> u64 \<Rightarrow> u32 \<Rightarrow> bytes \<Rightarrow> bytes
    \<Rightarrow> (market_error, unit) result \<times> test_state" where
  "run_verify_v2 now W passphrase_hash market_id outcome valid_until epoch signature pubkey =
     verify_oracle_signature_v2 (test_env now) W direct_market passphrase_hash market_id outcome valid_until
       epoch signature pubkey fresh_test_state"

definition generate_keypair_and_sign_v2 :: "test_world \<Rightarrow> ('k \<Rightarrow> bytes) \<Rightarrow> ('k \<Rightarrow> bytes \<Rightarrow> bytes) \<Rightarrow> 'k
    \<Rightarrow> bytes \<Rightarrow> u32 \<Rightarrow> bool \<Rightarrow> u64 \<Rightarrow> u32 \<Rightarrow> bytes \<times> bytes" where
  "generate_keypair_and_sign_v2 W pub sign key passphrase_hash market_id outcome valid_until epoch =
     (pub key, sign key (construct_oracle_message_v2 W passphrase_hash market_id outcome valid_until epoch))"

definition test_v2_signature_verification_success :: "test_world \<Rightarrow> ('k \<Rightarrow> bytes) \<Rightarrow> ('k \<Rightarrow> bytes \<Rightarrow> bytes)
    \<Rightarrow> 'k \<Rightarrow> bool" where
  "test_v2_signature_verification_success W pub sign key =
     (let hash = replicate 32 100;
          (pubkey, signature) = generate_keypair_and_sign_v2 W pub sign key hash 10 True 1000 1
      in is_ok (run_verify_v2 0 W hash 10 True 1000 1 signature pubkey))"

definition test_v2_signature_cross_network_rejection :: "test_world \<Rightarrow> ('k \<Rightarrow> bytes) \<Rightarrow> ('k \<Rightarrow> bytes \<Rightarrow> bytes)
    \<Rightarrow> 'k \<Rightarrow> bool" where
  "test_v2_signature_cross_network_rejection W pub sign key =
     (let mainnet = replicate 32 1; testnet = replicate 32 2;
          (pubkey, signature) = generate_keypair_and_sign_v2 W pub sign key testnet 10 True 1000 1
      in is_err InvalidSignature (run_verify_v2 0 W mainnet 10 True 1000 1 signature pubkey))"

definition test_v2_signature_expired_valid_until_rejection :: "test_world \<Rightarrow> ('k \<Rightarrow> bytes)
    \<Rightarrow> ('k \<Rightarrow> bytes \<Rightarrow> bytes) \<Rightarrow> 'k \<Rightarrow> bool" where
  "test_v2_signature_expired_valid_until_rejection W pub sign key =
     (let hash = replicate 32 1;
          (pubkey, signature) = generate_keypair_and_sign_v2 W pub sign key hash 10 True 400 1
      in is_err InvalidSignature (run_verify_v2 500 W hash 10 True 400 1 signature pubkey))"

definition test_v2_signature_epoch_mismatch_rejection :: "test_world \<Rightarrow> ('k \<Rightarrow> bytes)
    \<Rightarrow> ('k \<Rightarrow> bytes \<Rightarrow> bytes) \<Rightarrow> 'k \<Rightarrow> bool" where
  "test_v2_signature_epoch_mismatch_rejection W pub sign key =
     (let hash = replicate 32 1;
          (pubkey, signature) = generate_keypair_and_sign_v2 W pub sign key hash 10 True 1000 1
      in is_err InvalidSignature (run_verify_v2 0 W hash 10 True 1000 2 signature pubkey))"

section \<open>Thresholds\<close>

definition run_threshold :: "test_world \<Rightarrow> u32 \<Rightarrow> bool \<Rightarrow> bytes list \<Rightarrow> bytes list \<Rightarrow> u32
    \<Rightarrow> (market_error, unit) result \<times> test_state" where
  "run_threshold W market_id outcome signers sigs quorum =
     verify_threshold_signatures W direct_market market_id outcome signers sigs quorum fresh_test_state"

definition bad_sig :: bytes where "bad_sig = replicate 64 0"

definition threshold_2_of_3_meets_quorum :: "test_world \<Rightarrow> ('k \<Rightarrow> bytes) \<Rightarrow> ('k \<Rightarrow> bytes \<Rightarrow> bytes)
    \<Rightarrow> 'k \<Rightarrow> 'k \<Rightarrow> 'k \<Rightarrow> bool" where
  "threshold_2_of_3_meets_quorum W pub sign k1 k2 k3 =
     (let (pk1, sig1) = generate_keypair_and_sign W pub sign k1 1 True;
          (pk2, sig2) = generate_keypair_and_sign W pub sign k2 1 True
      in is_ok (run_threshold W 1 True [pk1, pk2, pub k3] [sig1, sig2, bad_sig] 2))"

definition threshold_only_1_of_3_valid_below_quorum :: "test_world \<Rightarrow> ('k \<Rightarrow> bytes)
    \<Rightarrow> ('k \<Rightarrow> bytes \<Rightarrow> bytes) \<Rightarrow> 'k \<Rightarrow> 'k \<Rightarrow> 'k \<Rightarrow> bool" where
  "threshold_only_1_of_3_valid_below_quorum W pub sign k1 k2 k3 =
     (let (pk1, sig1) = generate_keypair_and_sign W pub sign k1 1 True
      in is_err InvalidSignature (run_threshold W 1 True [pk1, pub k2, pub k3] [sig1, bad_sig, bad_sig] 2))"

definition threshold_empty_signers_returns_unauthorized :: "test_world \<Rightarrow> bool" where
  "threshold_empty_signers_returns_unauthorized W =
     is_err UnauthorizedOracle (run_threshold W 1 True [] [] 2)"

definition threshold_quorum_zero_returns_unauthorized :: "test_world \<Rightarrow> ('k \<Rightarrow> bytes)
    \<Rightarrow> ('k \<Rightarrow> bytes \<Rightarrow> bytes) \<Rightarrow> 'k \<Rightarrow> bool" where
  "threshold_quorum_zero_returns_unauthorized W pub sign k1 =
     (let (pk1, sig1) = generate_keypair_and_sign W pub sign k1 1 True
      in is_err UnauthorizedOracle (run_threshold W 1 True [pk1] [sig1] 0))"

definition threshold_wrong_outcome_sigs_do_not_count :: "test_world \<Rightarrow> ('k \<Rightarrow> bytes)
    \<Rightarrow> ('k \<Rightarrow> bytes \<Rightarrow> bytes) \<Rightarrow> 'k \<Rightarrow> 'k \<Rightarrow> bool" where
  "threshold_wrong_outcome_sigs_do_not_count W pub sign k1 k2 =
     (let (pk1, sig1_wrong) = generate_keypair_and_sign W pub sign k1 1 False;
          (pk2, sig2_wrong) = generate_keypair_and_sign W pub sign k2 1 False
      in is_err InvalidSignature (run_threshold W 1 True [pk1, pk2] [sig1_wrong, sig2_wrong] 1))"

definition threshold_1_of_1_succeeds :: "test_world \<Rightarrow> ('k \<Rightarrow> bytes) \<Rightarrow> ('k \<Rightarrow> bytes \<Rightarrow> bytes) \<Rightarrow> 'k \<Rightarrow> bool" where
  "threshold_1_of_1_succeeds W pub sign k1 =
     (let (pk, sig) = generate_keypair_and_sign W pub sign k1 42 False
      in is_ok (run_threshold W 42 False [pk] [sig] 1))"

definition threshold_rejects_duplicate_signers :: "test_world \<Rightarrow> ('k \<Rightarrow> bytes) \<Rightarrow> ('k \<Rightarrow> bytes \<Rightarrow> bytes)
    \<Rightarrow> 'k \<Rightarrow> bool" where
  "threshold_rejects_duplicate_signers W pub sign k1 =
     (let (pk1, sig1) = generate_keypair_and_sign W pub sign k1 1 True
      in is_err InvalidSignature (run_threshold W 1 True [pk1, pk1] [sig1, sig1] 2))"

definition threshold_rejects_quorum_exceeding_signers_count :: "test_world \<Rightarrow> ('k \<Rightarrow> bytes)
    \<Rightarrow> ('k \<Rightarrow> bytes \<Rightarrow> bytes) \<Rightarrow> 'k \<Rightarrow> bool" where
  "threshold_rejects_quorum_exceeding_signers_count W pub sign k1 =
     (let (pk1, sig1) = generate_keypair_and_sign W pub sign k1 1 True
      in is_err UnauthorizedOracle (run_threshold W 1 True [pk1] [sig1] 2))"

definition threshold_rejects_equivocating_signer_signing_opposite_outcome :: "test_world \<Rightarrow> ('k \<Rightarrow> bytes)
    \<Rightarrow> ('k \<Rightarrow> bytes \<Rightarrow> bytes) \<Rightarrow> 'k \<Rightarrow> bool" where
  "threshold_rejects_equivocating_signer_signing_opposite_outcome W pub sign k1 =
     (let opposite_msg = construct_oracle_message W 10 False; sig_opposite = sign k1 opposite_msg
      in is_err InvalidSignature (run_threshold W 10 True [pub k1] [sig_opposite] 1))"

section \<open>The fallback to Ed25519\<close>

definition run_outcome :: "bool \<Rightarrow> test_world \<Rightarrow> u32 \<Rightarrow> market \<Rightarrow> adapter_type \<Rightarrow> bool \<Rightarrow> bytes \<Rightarrow> test_state
    \<Rightarrow> (market_error, unit) result \<times> test_state" where
  "run_outcome feature W = verify_market_outcome feature (test_env 0) W direct_market"

definition adapter_enabled :: "adapter_type \<Rightarrow> test_state" where
  "adapter_enabled ty = with_store (v_adapter_enabled_update (\<lambda>f. f(ty := True))) fresh_test_state"

definition reflector_disabled_by_default_falls_back_to_ed25519 :: "bool \<Rightarrow> test_world \<Rightarrow> ('k \<Rightarrow> bytes)
    \<Rightarrow> ('k \<Rightarrow> bytes \<Rightarrow> bytes) \<Rightarrow> 'k \<Rightarrow> bool" where
  "reflector_disabled_by_default_falls_back_to_ed25519 feature W pub sign key =
     (let (pubkey, sig) = generate_keypair_and_sign W pub sign key 1 True
      in is_ok (run_outcome feature W 1 (oracle_test_market pubkey Reflector) Reflector True sig fresh_test_state))"

definition reflector_fallback_rejects_invalid_signature :: "bool \<Rightarrow> test_world \<Rightarrow> bool" where
  "reflector_fallback_rejects_invalid_signature feature W = is_err InvalidSignature
     (run_outcome feature W 1 (oracle_test_market (replicate 32 1) Reflector) Reflector True bad_sig
       fresh_test_state)"

definition reflector_enabled_still_rejects_since_adapter_not_wired :: "bool \<Rightarrow> test_world \<Rightarrow> bool" where
  "reflector_enabled_still_rejects_since_adapter_not_wired feature W = is_err UnauthorizedOracle
     (run_outcome feature W 1 (oracle_test_market (replicate 32 1) Reflector) Reflector True bad_sig
       (adapter_enabled Reflector))"

definition pyth_disabled_falls_back_to_ed25519 :: "bool \<Rightarrow> test_world \<Rightarrow> ('k \<Rightarrow> bytes)
    \<Rightarrow> ('k \<Rightarrow> bytes \<Rightarrow> bytes) \<Rightarrow> 'k \<Rightarrow> bool" where
  "pyth_disabled_falls_back_to_ed25519 feature W pub sign key =
     (let (pubkey, sig) = generate_keypair_and_sign W pub sign key 1 False
      in is_ok (run_outcome feature W 1 (oracle_test_market pubkey Pyth) Pyth False sig fresh_test_state))"

definition pyth_enabled_returns_unauthorized_oracle :: "bool \<Rightarrow> test_world \<Rightarrow> bool" where
  "pyth_enabled_returns_unauthorized_oracle feature W = is_err UnauthorizedOracle
     (run_outcome feature W 2 ((oracle_test_market (replicate 32 1) Pyth)\<lparr>mkt_id := 2\<rparr>) Pyth True bad_sig
       (adapter_enabled Pyth))"

section \<open>What the tests rely on\<close>

lemma ones_key: "replicate 32 1 \<noteq> zero_key"
  by (simp add: zero_key_def)

text \<open>
  A signature verifies exactly under the key and the message it was made for, all zeros verify
  under no key of a test, public keys and digests have 32 bytes, and the digests of the preimages a
  test compares differ.
\<close>

definition tested_preimages :: "bytes set" where
  "tested_preimages = {build_oracle_preimage m b |m b. m \<le> u32_max} \<union> {legacy_preimage 9 True}
     \<union> {build_oracle_preimage_v2 (replicate 32 h) 10 True t e |h t e. t \<le> 1000 \<and> e \<le> 2}"

definition test_signers :: "test_world \<Rightarrow> ('k \<Rightarrow> bytes) \<Rightarrow> ('k \<Rightarrow> bytes \<Rightarrow> bytes) \<Rightarrow> bool" where
  "test_signers W pub sign \<longleftrightarrow>
     (\<forall>x. length (ow_keccak256 W x) = 32) \<and> inj_on (ow_keccak256 W) tested_preimages
     \<and> (\<forall>k. ow_key_decodes W (pub k))
     \<and> (\<forall>k k' x y. length x = 32 \<longrightarrow> length y = 32 \<longrightarrow>
          ow_key_verifies W (pub k) x (sign k' y) = (k = k' \<and> x = y))
     \<and> (\<forall>k x. \<not> ow_key_verifies W (pub k) x (replicate 64 0))
     \<and> (\<forall>x. \<not> ow_key_verifies W (replicate 32 1) x (replicate 64 0))
     \<and> inj pub \<and> (\<forall>k. pub k \<noteq> zero_key)"

lemma test_signersD:
  assumes "test_signers W pub sign"
  shows "length (ow_keccak256 W x) = 32" "inj_on (ow_keccak256 W) tested_preimages"
    "ow_key_decodes W (pub k)"
    "length x = 32 \<Longrightarrow> length y = 32 \<Longrightarrow> ow_key_verifies W (pub k) x (sign k' y) \<longleftrightarrow> k = k' \<and> x = y"
    "\<not> ow_key_verifies W (pub k) x (replicate 64 0)"
    "\<not> ow_key_verifies W (replicate 32 1) x (replicate 64 0)"
    "pub k = pub k' \<longleftrightarrow> k = k'" "pub k \<noteq> zero_key"
  using assms by (simp_all add: test_signers_def inj_eq)

lemma length_message:
  assumes S: "test_signers W pub sign"
  shows "length (construct_oracle_message W m b) = 32"
  "length (construct_oracle_message_v2 W h m b t e) = 32"
  by (simp_all add: construct_oracle_message_def construct_oracle_message_v2_def test_signersD(1)[OF S])

lemma message_eq:
  assumes S: "test_signers W pub sign"
  shows "m \<le> u32_max \<Longrightarrow> m' \<le> u32_max \<Longrightarrow>
    construct_oracle_message W m b = construct_oracle_message W m' b' \<longleftrightarrow> m = m' \<and> b = b'"
  unfolding construct_oracle_message_def
  using preimage_inject[of m m' b b'] by (subst inj_on_eq_iff[OF test_signersD(2)[OF S]]) (auto simp: tested_preimages_def)

lemma message_v2_eq:
  assumes S: "test_signers W pub sign"
  shows "t \<le> 1000 \<Longrightarrow> t' \<le> 1000 \<Longrightarrow> e \<le> 2 \<Longrightarrow> e' \<le> 2 \<Longrightarrow>
    construct_oracle_message_v2 W (replicate 32 h) 10 True t e
      = construct_oracle_message_v2 W (replicate 32 h') 10 True t' e' \<longleftrightarrow> h = h' \<and> t = t' \<and> e = e'"
  unfolding construct_oracle_message_v2_def
  using preimage_v2_inject[of "replicate 32 h" "replicate 32 h'" 10 10 t t' e e' True True]
  by (subst inj_on_eq_iff[OF test_signersD(2)[OF S]])
    (fastforce simp: tested_preimages_def u32_max_def u64_max_def dest: replicate_eq_replicate[THEN iffD1])+

lemma legacy_differs:
  assumes S: "test_signers W pub sign"
  shows "construct_oracle_message W 9 True \<noteq> ow_keccak256 W (legacy_preimage 9 True)"
proof -
  have "length (build_oracle_preimage 9 True) \<noteq> length (legacy_preimage 9 True)"
    by (simp add: length_preimages preimage_lens legacy_preimage_def)
  then have "build_oracle_preimage 9 True \<noteq> legacy_preimage 9 True" by metis
  then show ?thesis unfolding construct_oracle_message_def
    by (subst inj_on_eq_iff[OF test_signersD(2)[OF S]]) (auto simp: tested_preimages_def u32_max_def)
qed

lemma signed:
  assumes S: "test_signers W pub sign"
  shows "verify_ed25519_safe W (pub k) (construct_oracle_message W m b)
      (sign k' (construct_oracle_message W m' b')) \<longleftrightarrow> k = k'
      \<and> construct_oracle_message W m b = construct_oracle_message W m' b'"
  "verify_ed25519_safe W (pub k) (construct_oracle_message_v2 W h m b t e)
      (sign k' (construct_oracle_message_v2 W h' m' b' t' e')) \<longleftrightarrow> k = k'
      \<and> construct_oracle_message_v2 W h m b t e = construct_oracle_message_v2 W h' m' b' t' e'"
  "verify_ed25519_safe W (pub k) (construct_oracle_message W m b) (sign k' (ow_keccak256 W x)) \<longleftrightarrow> k = k'
      \<and> construct_oracle_message W m b = ow_keccak256 W x"
  "\<not> verify_ed25519_safe W (pub k) x (replicate 64 0)"
  "\<not> verify_ed25519_safe W (replicate 32 1) x (replicate 64 0)"
  by (simp_all add: verify_ed25519_safe_def test_signersD[OF S] length_message[OF S])

lemmas signer_facts = length_message message_eq message_v2_eq legacy_differs signed test_signersD(7,8)

lemma message_tests_pass:
  assumes S: "test_signers W pub sign"
  shows "test_construct_oracle_message_yes W" "test_construct_oracle_message_no W"
  "test_different_outcomes_different_messages W" "test_different_market_ids_different_messages W"
  "test_construct_oracle_message_zero_id W" "test_construct_oracle_message_large_id W"
  "test_construct_oracle_message_various_ids W"
  by (simp_all add: test_construct_oracle_message_yes_def test_construct_oracle_message_no_def
      test_different_outcomes_different_messages_def test_different_market_ids_different_messages_def
      test_construct_oracle_message_zero_id_def test_construct_oracle_message_large_id_def
      test_construct_oracle_message_various_ids_def Let_def signer_facts[OF S] u32_max_def)

lemmas verify_eval = run_verify_def run_verify_v2_def verify_oracle_signature_def
  verify_oracle_signature_v2_def require_ed25519_path_open_def generate_keypair_and_sign_def
  generate_keypair_and_sign_v2_def is_ok_def is_err_def fresh_test_state_def empty_view_def
  direct_market_def run_simps Let_def test_env_def

lemma signature_tests_pass:
  assumes S: "test_signers W pub sign"
  shows "test_verify_valid_signature_succeeds W pub sign key"
  "test_verify_signature_wrong_outcome_fails W pub sign key"
  "test_verify_signature_wrong_market_id_fails W pub sign key"
  "key \<noteq> other \<Longrightarrow> test_verify_signature_from_different_keypair_fails W pub sign key other"
  "test_legacy_preimage_without_domain_separator_does_not_verify W pub sign key"
  "test_v2_signature_verification_success W pub sign key"
  "test_v2_signature_cross_network_rejection W pub sign key"
  "test_v2_signature_expired_valid_until_rejection W pub sign key"
  "test_v2_signature_epoch_mismatch_rejection W pub sign key"
  by (simp_all add: test_verify_valid_signature_succeeds_def test_verify_signature_wrong_outcome_fails_def
      test_verify_signature_wrong_market_id_fails_def test_verify_signature_from_different_keypair_fails_def
      test_legacy_preimage_without_domain_separator_does_not_verify_def
      test_v2_signature_verification_success_def test_v2_signature_cross_network_rejection_def
      test_v2_signature_expired_valid_until_rejection_def test_v2_signature_epoch_mismatch_rejection_def
      verify_eval signer_facts[OF S] u32_max_def)

lemmas threshold_eval = run_threshold_def verify_threshold_signatures_def bad_sig_def verify_eval

lemma threshold_tests_pass:
  assumes S: "test_signers W pub sign"
  shows "k1 \<noteq> k2 \<Longrightarrow> k2 \<noteq> k3 \<Longrightarrow> k1 \<noteq> k3 \<Longrightarrow> threshold_2_of_3_meets_quorum W pub sign k1 k2 k3"
  "k1 \<noteq> k2 \<Longrightarrow> k2 \<noteq> k3 \<Longrightarrow> k1 \<noteq> k3 \<Longrightarrow> threshold_only_1_of_3_valid_below_quorum W pub sign k1 k2 k3"
  "threshold_quorum_zero_returns_unauthorized W pub sign k1"
  "k1 \<noteq> k2 \<Longrightarrow> threshold_wrong_outcome_sigs_do_not_count W pub sign k1 k2"
  "threshold_1_of_1_succeeds W pub sign k1"
  "threshold_rejects_duplicate_signers W pub sign k1"
  "threshold_rejects_quorum_exceeding_signers_count W pub sign k1"
  "threshold_rejects_equivocating_signer_signing_opposite_outcome W pub sign k1"
  by (simp_all add: threshold_2_of_3_meets_quorum_def threshold_only_1_of_3_valid_below_quorum_def
      threshold_quorum_zero_returns_unauthorized_def threshold_wrong_outcome_sigs_do_not_count_def
      threshold_1_of_1_succeeds_def threshold_rejects_duplicate_signers_def
      threshold_rejects_quorum_exceeding_signers_count_def
      threshold_rejects_equivocating_signer_signing_opposite_outcome_def threshold_eval signer_facts[OF S] u32_max_def)

lemma fallback_tests_pass:
  assumes S: "test_signers W pub sign"
  shows "reflector_disabled_by_default_falls_back_to_ed25519 feature W pub sign key"
  "reflector_fallback_rejects_invalid_signature feature W"
  "pyth_disabled_falls_back_to_ed25519 feature W pub sign key"
  by (simp_all add: reflector_disabled_by_default_falls_back_to_ed25519_def
      reflector_fallback_rejects_invalid_signature_def pyth_disabled_falls_back_to_ed25519_def
      run_outcome_def verify_market_outcome_def verify_via_reflector_def oracle_test_market_def
      test_market_def ones_key threshold_eval signer_facts[OF S] u32_max_def)

section \<open>Tests without a key\<close>

lemma keyless_tests_pass:
  "test_preimage_has_domain_separator_and_exact_length"
  "test_validate_oracle_preimage_len_accepts_exact_width"
  "test_validate_oracle_preimage_len_rejects_truncated"
  "test_validate_oracle_preimage_len_rejects_oversized"
  "test_validate_oracle_preimage_len_rejects_empty"
  "test_hash_oracle_preimage_checked_never_panics_on_malformed_input W"
  "test_hash_oracle_preimage_checked_matches_construct_oracle_message W"
  "test_validate_oracle_authorized" "test_validate_oracle_authorization_zero_pubkey"
  "test_validate_oracle_unauthorized"
  by (simp_all add: test_preimage_has_domain_separator_and_exact_length_def
      test_validate_oracle_preimage_len_accepts_exact_width_def
      test_validate_oracle_preimage_len_rejects_truncated_def
      test_validate_oracle_preimage_len_rejects_oversized_def
      test_validate_oracle_preimage_len_rejects_empty_def
      test_hash_oracle_preimage_checked_never_panics_on_malformed_input_def
      test_hash_oracle_preimage_checked_matches_construct_oracle_message_def
      test_validate_oracle_authorized_def test_validate_oracle_authorization_zero_pubkey_def
      test_validate_oracle_unauthorized_def validate_oracle_preimage_len_def
      hash_oracle_preimage_checked_def construct_oracle_message_def validate_oracle_authorization_def
      oracle_test_market_def test_market_def check_def try_then_def preimage_lens
      build_oracle_preimage_def outcome_byte_def)

lemma locked_path_tests_pass:
  "test_verify_signature_rejects_zero_pubkey W" "threshold_empty_signers_returns_unauthorized W"
  "test_verify_fails_closed_when_adapters_enabled W"
  "test_upgrade_order_safety_adapters_must_be_enabled_first W"
  "pyth_enabled_returns_unauthorized_oracle feature W"
  by (simp_all add: test_verify_signature_rejects_zero_pubkey_def threshold_empty_signers_returns_unauthorized_def
      test_verify_fails_closed_when_adapters_enabled_def
      test_upgrade_order_safety_adapters_must_be_enabled_first_def pyth_enabled_returns_unauthorized_oracle_def
      run_verify_def run_threshold_def run_outcome_def adapter_enabled_def verify_oracle_signature_def
      verify_threshold_signatures_def verify_market_outcome_def require_ed25519_path_open_def zero_key_def
      test_defs run_simps)

text \<open>
  The random bytes of \<open>test_verify_invalid_signature\<close> have to be a key other than zero under which they
  do not verify.
\<close>

lemma random_signature_test_passes:
  "key \<noteq> zero_key \<Longrightarrow> \<not> verify_ed25519_safe W key (construct_oracle_message W 123 True) sig \<Longrightarrow>
     test_verify_invalid_signature sig key W"
  by (simp add: test_verify_invalid_signature_def run_verify_def verify_oracle_signature_def
      require_ed25519_path_open_def test_defs run_simps)

text \<open>
  The test that expects an enabled Reflector adapter to be unwired holds exactly without the Cargo
  feature; with it, the missing configuration is an unavailable price.
\<close>

lemma reflector_wiring_test:
  "reflector_enabled_still_rejects_since_adapter_not_wired feature W \<longleftrightarrow> \<not> feature"
  by (simp add: reflector_enabled_still_rejects_since_adapter_not_wired_def run_outcome_def
      adapter_enabled_def verify_market_outcome_def verify_via_reflector_def configured_reflector_def
      test_defs run_simps)

section \<open>A signer for the tests\<close>

text \<open>
  A toy instance: a digest that keeps what distinguishes the tested preimages, and signatures that
  carry their key and message. It shows that the hypotheses can hold together.
\<close>

definition pad :: "nat \<Rightarrow> bytes \<Rightarrow> bytes" where
  "pad n xs = take n (xs @ replicate n 0)"

definition toy_digest :: "bytes \<Rightarrow> bytes" where
  "toy_digest x = (if length x = 20 then pad 32 (1 # x) else if length x = 5 then pad 32 (2 # x)
     else if length x = 64 then pad 32 (3 # x ! 15 # drop 52 x) else replicate 32 0)"

definition toy_pub :: "8 word \<Rightarrow> bytes" where "toy_pub k = 2 # replicate 31 k"

definition toy_sign :: "8 word \<Rightarrow> bytes \<Rightarrow> bytes" where "toy_sign k x = pad 64 (1 # k # x)"

definition toy_world :: test_world where
  "toy_world = \<lparr>ow_keccak256 = toy_digest, ow_key_decodes = (\<lambda>_. True),
     ow_key_verifies = (\<lambda>pk x sig. pk = toy_pub (pk ! 1) \<and> sig = toy_sign (pk ! 1) x),
     ow_lastprice = (\<lambda>_ _ _. None), ow_update_price_feeds = (\<lambda>_ _ _. None), ow_get_price = (\<lambda>_ _ _. None)\<rparr>"

lemma length_pad [simp]: "length (pad n xs) = n"
  by (simp add: pad_def)

lemma pad_inject: "length xs = length ys \<Longrightarrow> length xs \<le> n \<Longrightarrow> pad n xs = pad n ys \<Longrightarrow> xs = ys"
  by (simp add: pad_def)

lemma toy_pub_inject [simp]: "toy_pub k = toy_pub k' \<longleftrightarrow> k = k'"
  by (auto simp: toy_pub_def)

lemma toy_sign_inject:
  assumes "length x = 32" "length y = 32" shows "toy_sign k x = toy_sign k' y \<longleftrightarrow> k = k' \<and> x = y"
proof
  assume "toy_sign k x = toy_sign k' y"
  from pad_inject[OF _ _ this[unfolded toy_sign_def]] assms show "k = k' \<and> x = y" by simp
qed simp

lemma toy_sign_starts: "toy_sign k x ! 0 = 1"
  by (simp add: toy_sign_def pad_def)

lemma v2_parts:
  "build_oracle_preimage_v2 (replicate 32 h) 10 True t e ! 15 = h"
  "drop 52 (build_oracle_preimage_v2 (replicate 32 h) 10 True t e) = be_bytes 8 t @ be_bytes 4 e"
  by (simp_all add: build_oracle_preimage_v2_def nth_append)

lemma toy_digest_values:
  "toy_digest (build_oracle_preimage m b) = pad 32 (1 # build_oracle_preimage m b)"
  "toy_digest (legacy_preimage m b) = pad 32 (2 # legacy_preimage m b)"
  "toy_digest (build_oracle_preimage_v2 (replicate 32 h) 10 True t e)
     = pad 32 (3 # h # be_bytes 8 t @ be_bytes 4 e)"
  by (simp_all add: toy_digest_def length_preimages preimage_lens legacy_preimage_def v2_parts)

lemma pad_Cons: "pad 32 (a # xs) = a # take 31 (xs @ replicate 32 0)"
  by (simp add: pad_def take_Cons')

lemma toy_digest_inj: "inj_on toy_digest tested_preimages"
proof (rule inj_onI)
  fix x y assume "x \<in> tested_preimages" "y \<in> tested_preimages" and eq: "toy_digest x = toy_digest y"
  then consider (v1) m b m' b' where "x = build_oracle_preimage m b" "y = build_oracle_preimage m' b'"
    | (old) "x = legacy_preimage 9 True" "y = legacy_preimage 9 True"
    | (v2) h t e h' t' e' where "x = build_oracle_preimage_v2 (replicate 32 h) 10 True t e"
        "y = build_oracle_preimage_v2 (replicate 32 h') 10 True t' e'"
    by (auto simp: tested_preimages_def toy_digest_values pad_Cons)
  then show "x = y"
  proof cases
    case v1
    with eq have "pad 32 (1 # x) = pad 32 (1 # y)" by (simp add: toy_digest_values)
    from pad_inject[OF _ _ this] v1 show ?thesis by (simp add: length_preimages preimage_lens)
  next
    case old then show ?thesis by simp
  next
    case v2
    with eq have "pad 32 (3 # h # be_bytes 8 t @ be_bytes 4 e) = pad 32 (3 # h' # be_bytes 8 t' @ be_bytes 4 e')"
      by (simp add: toy_digest_values)
    from pad_inject[OF _ _ this] v2 show ?thesis by (simp add: build_oracle_preimage_v2_def)
  qed
qed

lemma toy_signers: "test_signers toy_world toy_pub toy_sign"
  unfolding test_signers_def
proof (intro conjI allI impI)
  show "length (ow_keccak256 toy_world x) = 32" for x by (simp add: toy_world_def toy_digest_def)
  show "inj_on (ow_keccak256 toy_world) tested_preimages" by (simp add: toy_world_def toy_digest_inj)
  show "ow_key_decodes toy_world (toy_pub k)" for k by (simp add: toy_world_def)
  show "ow_key_verifies toy_world (toy_pub k) x (toy_sign k' y) \<longleftrightarrow> k = k' \<and> x = y"
    if "length x = 32" "length y = 32" for k k' x y
    using that toy_sign_inject[of y x k' k] by (auto simp: toy_world_def) (simp_all add: toy_pub_def)
  have "replicate 64 0 \<noteq> toy_sign k x" for k x
  proof
    assume "replicate 64 0 = toy_sign k x"
    then have "replicate 64 0 ! 0 = toy_sign k x ! 0" by (rule arg_cong)
    then show False by (simp add: toy_sign_starts)
  qed
  then show "\<not> ow_key_verifies toy_world (toy_pub k) x (replicate 64 0)"
    "\<not> ow_key_verifies toy_world (replicate 32 1) x (replicate 64 0)" for k x
    by (simp_all add: toy_world_def)
  show "inj toy_pub" by (simp add: inj_def)
  show "toy_pub k \<noteq> zero_key" for k by (simp add: toy_pub_def zero_key_def numeral_eq_Suc)
qed

section \<open>The mock price contracts\<close>

text \<open>What the mocks store: a price and whether the feeds were updated, or a price that may be missing.\<close>

record mock_pyth =
  mock_price :: "int option"
  mock_updated :: bool

record mock_reflector =
  mock_last :: "i128 option"
  mock_has :: bool

definition mock_pyth_world :: "mock_pyth oracle_world" where
  "mock_pyth_world = \<lparr>ow_keccak256 = (\<lambda>_. []), ow_key_decodes = (\<lambda>_. False),
     ow_key_verifies = (\<lambda>_ _ _. False), ow_lastprice = (\<lambda>_ _ _. None),
     ow_update_price_feeds = (\<lambda>contract_id data x. Some ((), x\<lparr>mock_updated := True\<rparr>)),
     ow_get_price = (\<lambda>contract_id feed_id x. if \<not> mock_updated x then None
       else Some (\<lparr>pp_price = (case mock_price x of None \<Rightarrow> 0 | Some p \<Rightarrow> p), pp_conf = 0, pp_exp = - 8,
         pp_publish_time = 1000000\<rparr>, x))\<rparr>"

definition mock_reflector_world :: "mock_reflector oracle_world" where
  "mock_reflector_world = \<lparr>ow_keccak256 = (\<lambda>_. []), ow_key_decodes = (\<lambda>_. False),
     ow_key_verifies = (\<lambda>_ _ _. False),
     ow_lastprice = (\<lambda>contract_id asset x. Some (if \<not> mock_has x then None
       else Some \<lparr>rp_price = (case mock_last x of None \<Rightarrow> 0 | Some p \<Rightarrow> p), rp_timestamp = 1000000\<rparr>, x)),
     ow_update_price_feeds = (\<lambda>_ _ _. None), ow_get_price = (\<lambda>_ _ _. None)\<rparr>"

definition around_mock :: "'x \<Rightarrow> ('x, market_view) market_state" where
  "around_mock x = \<lparr>ext = x, events = [], store = empty_view\<rparr>"

definition setup_mock_pyth :: "int option \<Rightarrow> (mock_pyth, market_view) market_state" where
  "setup_mock_pyth price = around_mock \<lparr>mock_price = price, mock_updated = False\<rparr>"

definition setup_mock_reflector :: "i128 option \<Rightarrow> (mock_reflector, market_view) market_state" where
  "setup_mock_reflector price = around_mock \<lparr>mock_last = price, mock_has = (price \<noteq> None)\<rparr>"

definition vaa_bytes :: bytes where "vaa_bytes = [0xde, 0xad, 0xbe, 0xef]"
definition dummy_asset :: asset where "dummy_asset = Other ''BTC''"

definition run_pyth :: "int option \<Rightarrow> pyth_adapter \<Rightarrow> bool \<Rightarrow> bytes
    \<Rightarrow> (market_error, unit) result \<times> (mock_pyth, market_view) market_state" where
  "run_pyth price adapter outcome proof_bytes =
     pyth_verify_outcome (test_env 0) mock_pyth_world adapter outcome proof_bytes (setup_mock_pyth price)"

definition mock_pyth_adapter :: "int \<Rightarrow> pyth_adapter" where
  "mock_pyth_adapter threshold = \<lparr>pa_contract_id = Contract 2, pa_price_feed_id = replicate 32 0,
     pa_resolution_price = threshold\<rparr>"

definition pyth_returns_ok_when_price_meets_threshold_yes :: bool where
  "pyth_returns_ok_when_price_meets_threshold_yes =
     is_ok (run_pyth (Some 1000) (mock_pyth_adapter 1000) True vaa_bytes)"

definition pyth_returns_ok_when_price_below_threshold_no :: bool where
  "pyth_returns_ok_when_price_below_threshold_no =
     is_ok (run_pyth (Some 999) (mock_pyth_adapter 1000) False vaa_bytes)"

definition pyth_returns_invalid_signature_on_outcome_mismatch :: bool where
  "pyth_returns_invalid_signature_on_outcome_mismatch = is_err InvalidSignature
     (run_pyth (Some 2000) ((mock_pyth_adapter 1000)\<lparr>pa_price_feed_id := replicate 32 1\<rparr>) False vaa_bytes)"

definition pyth_returns_invalid_signature_when_proof_is_empty :: bool where
  "pyth_returns_invalid_signature_when_proof_is_empty =
     is_err InvalidSignature (run_pyth None (mock_pyth_adapter 500) True [])"

definition pyth_any_adapter_resolves_correctly :: bool where
  "pyth_any_adapter_resolves_correctly =
     is_ok (any_verify_outcome (test_env 0) mock_pyth_world direct_market
       (AnyPyth ((mock_pyth_adapter 500)\<lparr>pa_price_feed_id := replicate 32 2\<rparr>)) 5 False vaa_bytes
       (setup_mock_pyth (Some 300)))"

definition run_reflector :: "i128 option \<Rightarrow> i128 \<Rightarrow> bool
    \<Rightarrow> (market_error, unit) result \<times> (mock_reflector, market_view) market_state" where
  "run_reflector price threshold outcome =
     reflector_verify_outcome (test_env 0) mock_reflector_world \<lparr>ra_contract_id = Contract 2,
       ra_asset = dummy_asset, ra_resolution_price = threshold\<rparr> outcome (setup_mock_reflector price)"

definition reflector_resolves_yes_when_price_meets_threshold :: bool where
  "reflector_resolves_yes_when_price_meets_threshold = is_ok (run_reflector (Some 1000000) 1000000 True)"

definition reflector_resolves_no_when_price_below_threshold :: bool where
  "reflector_resolves_no_when_price_below_threshold = is_ok (run_reflector (Some 999999) 1000000 False)"

definition reflector_returns_invalid_signature_on_outcome_mismatch :: bool where
  "reflector_returns_invalid_signature_on_outcome_mismatch =
     is_err InvalidSignature (run_reflector (Some 2000000) 1000000 False)"

definition reflector_returns_price_unavailable_when_oracle_returns_none :: bool where
  "reflector_returns_price_unavailable_when_oracle_returns_none =
     is_err OraclePriceUnavailable (run_reflector None 1000000 True)"

definition reflector_any_adapter_dispatch_works :: bool where
  "reflector_any_adapter_dispatch_works =
     is_ok (any_verify_outcome (test_env 0) mock_reflector_world direct_market
       (AnyReflector \<lparr>ra_contract_id = Contract 2, ra_asset = dummy_asset, ra_resolution_price = 1000\<rparr>) 7 False []
       (setup_mock_reflector (Some 500)))"

lemmas mock_eval = run_pyth_def pyth_verify_outcome_def mock_pyth_world_def setup_mock_pyth_def
  mock_pyth_adapter_def vaa_bytes_def any_verify_outcome_def run_reflector_def
  reflector_verify_outcome_def mock_reflector_world_def setup_mock_reflector_def around_mock_def
  test_env_def is_ok_def is_err_def

lemma price_tests_pass:
  "pyth_returns_ok_when_price_meets_threshold_yes" "pyth_returns_ok_when_price_below_threshold_no"
  "pyth_returns_invalid_signature_on_outcome_mismatch"
  "pyth_returns_invalid_signature_when_proof_is_empty" "pyth_any_adapter_resolves_correctly"
  "reflector_resolves_yes_when_price_meets_threshold" "reflector_resolves_no_when_price_below_threshold"
  "reflector_returns_invalid_signature_on_outcome_mismatch"
  "reflector_returns_price_unavailable_when_oracle_returns_none" "reflector_any_adapter_dispatch_works"
  by (simp_all add: pyth_returns_ok_when_price_meets_threshold_yes_def
      pyth_returns_ok_when_price_below_threshold_no_def
      pyth_returns_invalid_signature_on_outcome_mismatch_def
      pyth_returns_invalid_signature_when_proof_is_empty_def pyth_any_adapter_resolves_correctly_def
      reflector_resolves_yes_when_price_meets_threshold_def
      reflector_resolves_no_when_price_below_threshold_def
      reflector_returns_invalid_signature_on_outcome_mismatch_def
      reflector_returns_price_unavailable_when_oracle_returns_none_def
      reflector_any_adapter_dispatch_works_def mock_eval Let_def run_simps)

end
