(* ===== verification/Market_Tests_Events.thy ===== *)
theory Market_Tests_Events
  imports Market_Tests
begin

text \<open>
  The unit tests of \<^verbatim>\<open>contracts/market/src/events.rs\<close>: each emitter publishes one event with the
  topics and the data an indexer reads. The ledger time and the generated addresses are arguments,
  so a test that passes does so for all of them. A topic or field that is missing, or is read at
  another type, fails the test.
\<close>

section \<open>Reading back one event\<close>

definition emitted_once :: "(unit, ledger, market_view, unit) mod_contract
    \<Rightarrow> (market_event \<Rightarrow> bool) \<Rightarrow> bool" where
  "emitted_once m P = (case m fresh_test_state of
     (Ok _, s) \<Rightarrow> (case events s of [ev] \<Rightarrow> P ev | _ \<Rightarrow> False)
   | (Err _, s) \<Rightarrow> False
   | (Panic, s) \<Rightarrow> False)"

definition named_topics :: "string \<Rightarrow> event_val list \<Rightarrow> market_event \<Rightarrow> bool" where
  "named_topics name vals ev =
     (topic ev 0 = Some (SymbolVal name)
      \<and> list_all (\<lambda>i. topic ev (Suc i) = Some (vals ! i)) [0..<length vals])"

definition carries :: "(string \<times> event_val) list \<Rightarrow> market_event \<Rightarrow> bool" where
  "carries entries ev = list_all (\<lambda>(name, v). event_data ev name = Some v) entries"

section \<open>The tests\<close>

definition test_emit_contract_initialized :: "u64 \<Rightarrow> address \<Rightarrow> bool" where
  "test_emit_contract_initialized now admin =
     emitted_once (mkt_emit_contract_initialized (test_env now) admin) (\<lambda>ev.
       named_topics ''contract_initialized'' [U32Val event_version, AddressVal admin] ev
       \<and> carries [(''initialized_at'', U64Val now)] ev)"

definition test_emit_market_created :: "u64 \<Rightarrow> address \<Rightarrow> bool" where
  "test_emit_market_created now creator =
     emitted_once (mkt_emit_market_created (test_env now) 1 creator ''Will BTC hit $100k?'' 1234567890 None) (\<lambda>ev.
       length (event_topics ev) = 3 \<and>
       named_topics ''market_created'' [U32Val event_version, U32Val 1] ev
       \<and> carries [(''creator'', AddressVal creator),
         (''question'', StringVal ''Will BTC hit $100k?''),
         (''end_time'', U64Val 1234567890)] ev)"

definition test_emit_market_resolved :: "u64 \<Rightarrow> address \<Rightarrow> bool" where
  "test_emit_market_resolved now resolver =
     emitted_once (mkt_emit_market_resolved (test_env now) 1 (replicate 32 1) resolver True 1234567890) (\<lambda>ev.
       named_topics ''market_resolved'' [U32Val event_version, U32Val 1] ev
       \<and> carries [(''resolver'', AddressVal resolver),
         (''outcome'', BoolVal True),
         (''resolved_at'', U64Val 1234567890)] ev)"

definition test_emit_market_canceled :: "u64 \<Rightarrow> address \<Rightarrow> bool" where
  "test_emit_market_canceled now canceler =
     emitted_once (mkt_emit_market_canceled (test_env now) 1 canceler 1234567890) (\<lambda>ev.
       named_topics ''market_canceled'' [U32Val event_version, U32Val 1] ev
       \<and> carries [(''canceler'', AddressVal canceler), (''canceled_at'', U64Val 1234567890)] ev)"

definition test_emit_market_voided :: "u64 \<Rightarrow> address \<Rightarrow> bool" where
  "test_emit_market_voided now voided_by =
     emitted_once (mkt_emit_market_voided (test_env now) 7 voided_by 1700000000) (\<lambda>ev.
       named_topics ''market_voided'' [U32Val event_version, U32Val 7] ev
       \<and> carries [(''voided_by'', AddressVal voided_by), (''voided_at'', U64Val 1700000000)] ev)"

definition test_emit_position_updated :: "u64 \<Rightarrow> address \<Rightarrow> bool" where
  "test_emit_position_updated now user =
     emitted_once (mkt_emit_position_updated (test_env now) 1 user 100 50 150) (\<lambda>ev.
       named_topics ''position_updated'' [U32Val event_version, U32Val 1, AddressVal user] ev
       \<and> carries [(''yes_shares'', I128Val 100),
         (''no_shares'', I128Val 50),
         (''locked_collateral'', I128Val 150)] ev)"

definition test_emit_position_settled :: "u64 \<Rightarrow> address \<Rightarrow> bool" where
  "test_emit_position_settled now user =
     emitted_once (mkt_emit_position_settled (test_env now) 1 user 100 1234567890) (\<lambda>ev.
       named_topics ''position_settled'' [U32Val event_version, AddressVal user, AddressVal user] ev
       \<and> carries [(''payout'', I128Val 100), (''settled_at'', U64Val 1234567890)] ev)"

definition test_emit_collateral_deposited :: "u64 \<Rightarrow> address \<Rightarrow> bool" where
  "test_emit_collateral_deposited now user =
     emitted_once (mkt_emit_collateral_deposited (test_env now) user 1 1000 1000) (\<lambda>ev.
       named_topics ''collateral_deposited'' [U32Val event_version, AddressVal user, U32Val 1] ev
       \<and> carries [(''amount'', I128Val 1000), (''new_total'', I128Val 1000)] ev)"

definition test_emit_validation_failed :: "u64 \<Rightarrow> bool" where
  "test_emit_validation_failed now =
     emitted_once (mkt_emit_validation_failed (test_env now) ''validate_collateral'' 31) (\<lambda>ev.
       named_topics ''validation_failed'' [U32Val event_version, SymbolVal ''validate_collateral''] ev
       \<and> carries [(''error_code'', U32Val 31)] ev)"

definition test_emit_collateral_withdrawn :: "u64 \<Rightarrow> address \<Rightarrow> bool" where
  "test_emit_collateral_withdrawn now user =
     emitted_once (mkt_emit_collateral_withdrawn (test_env now) user 1 500 500) (\<lambda>ev.
       named_topics ''collateral_withdrawn'' [U32Val event_version, AddressVal user, U32Val 1] ev
       \<and> carries [(''amount'', I128Val 500), (''new_total'', I128Val 500)] ev)"

definition test_emit_oracle_signature_verified :: "u64 \<Rightarrow> bool" where
  "test_emit_oracle_signature_verified now =
     emitted_once (mkt_emit_oracle_signature_verified (test_env now) 1 True 1234567890) (\<lambda>ev.
       named_topics ''oracle_signature_verified'' [U32Val event_version, U32Val 1] ev
       \<and> carries [(''outcome'', BoolVal True), (''verified_at'', U64Val 1234567890)] ev)"

definition test_emit_fee_calculated :: "u64 \<Rightarrow> address \<Rightarrow> bool" where
  "test_emit_fee_calculated now user =
     emitted_once (mkt_emit_fee_calculated (test_env now) 1 user 500 5000) (\<lambda>ev.
       named_topics ''fee_calculated'' [U32Val event_version, U32Val 1] ev
       \<and> carries [(''fee_amount'', I128Val 500), (''available_after_fee'', I128Val 5000)] ev)"

definition test_emit_market_closed_to_deposits :: "u64 \<Rightarrow> address \<Rightarrow> bool" where
  "test_emit_market_closed_to_deposits now admin =
     emitted_once (mkt_emit_market_closed_to_deposits (test_env now) 42 admin 1700000123) (\<lambda>ev.
       length (event_topics ev) = 3 \<and>
       named_topics ''market_closed_to_deposits'' [U32Val event_version, U32Val 42] ev
       \<and> carries [(''admin'', AddressVal admin), (''closed_at'', U64Val 1700000123)] ev)"

section \<open>Twelve pass, one fails\<close>

lemmas emitted_eval = emitted_once_def named_topics_def carries_def event_reads fresh_test_state_def
  run_simps market_emits test_env_def upt_rec

lemma event_tests_pass:
  "test_emit_contract_initialized now admin"
  "test_emit_market_created now creator"
  "test_emit_market_resolved now resolver"
  "test_emit_market_canceled now canceler"
  "test_emit_market_voided now voided_by"
  "test_emit_position_updated now user"
  "test_emit_collateral_deposited now user"
  "test_emit_validation_failed now"
  "test_emit_collateral_withdrawn now user"
  "test_emit_oracle_signature_verified now"
  "test_emit_fee_calculated now user"
  "test_emit_market_closed_to_deposits now admin"
  by (simp_all add: test_emit_contract_initialized_def test_emit_market_created_def test_emit_market_resolved_def
      test_emit_market_canceled_def test_emit_market_voided_def test_emit_position_updated_def
      test_emit_collateral_deposited_def test_emit_validation_failed_def test_emit_collateral_withdrawn_def
      test_emit_oracle_signature_verified_def test_emit_fee_calculated_def test_emit_market_closed_to_deposits_def
      emitted_eval)

text \<open>
  The settlement event has the market id where the test reads the user, so the test fails for every
  user.
\<close>

lemma position_settled_test_fails: "\<not> test_emit_position_settled now user"
  by (simp add: test_emit_position_settled_def emitted_eval)

lemma position_settled_topics:
  "emitted_once (mkt_emit_position_settled (test_env now) 1 user 100 1234567890) (\<lambda>ev.
     named_topics ''position_settled'' [U32Val event_version, U32Val 1, AddressVal user] ev)"
  by (simp add: emitted_eval)

end
