(* ===== verification/Market_Tests_Fuzz.thy ===== *)
theory Market_Tests_Fuzz
  imports Market_Tests_Withdraw Market_Locks Market_Decisions
begin

text \<open>
  The single-call properties of \<^verbatim>\<open>contracts/market/src/withdraw_fuzz.rs\<close>, on the host of theory
  Market_Tests: one withdrawal, or one trade and one deposit, on a stored position. The inputs a
  strategy draws are a predicate; each property is proved for, or refuted on, all of them. As in the
  unit tests, positions are stored without a protocol-wide balance.
\<close>

section \<open>Inputs\<close>

definition arb_withdraw_state :: "i128 \<times> i128 \<times> i128 \<times> i128 \<times> i128 \<Rightarrow> bool" where
  "arb_withdraw_state drawn = (case drawn of (yes_shares, no_shares, price, deposited, amount) \<Rightarrow>
     0 \<le> deposited \<and> deposited \<le> 10000000 \<and> 0 \<le> yes_shares \<and> yes_shares \<le> 1000000
     \<and> 0 \<le> no_shares \<and> no_shares \<le> 1000000 \<and> 0 \<le> price \<and> price \<le> 10000
     \<and> 1 \<le> amount \<and> amount \<le> deposited + 1)"

definition make_market :: market where
  "make_market = (test_market 1 ''fuzz?'' (Account 3) (Contract 2))\<lparr>mkt_end_time := 1000000\<rparr>"

definition fuzz_seeded :: "position \<Rightarrow> i128 \<Rightarrow> test_state" where
  "fuzz_seeded p minted =
     mint_to (Contract 2) (Contract 1) minted (seeded make_market (Some p) fresh_test_state)"

section \<open>One withdrawal\<close>

definition prop_withdraw_never_exceeds_available :: "market_view market_accessors
    \<Rightarrow> i128 \<times> i128 \<times> i128 \<times> i128 \<times> i128 \<Rightarrow> bool" where
  "prop_withdraw_never_exceeds_available A drawn = (case drawn of (yes_shares, no_shares, price, deposited, amount) \<Rightarrow>
     case calculate_locked_collateral yes_shares no_shares price of
       None \<Rightarrow> False
     | Some lock \<Rightarrow>
         (let locked = if lock > deposited then deposited else lock;
              position = (withdraw_position yes_shares locked deposited)\<lparr>pos_no_shares := no_shares\<rparr>;
              available = saturating_sub deposited locked;
              result = run_withdraw 0 A amount (fuzz_seeded position (deposited + amount))
          in amount > available \<longrightarrow> (case fst result of Ok _ \<Rightarrow> False | Err _ \<Rightarrow> True | Panic \<Rightarrow> False)))"

definition prop_successful_withdraw_decrements_deposited :: "market_view market_accessors \<Rightarrow> i128 \<Rightarrow> i128 \<Rightarrow> bool" where
  "prop_successful_withdraw_decrements_deposited A deposited amount =
     (let (result, s) = run_withdraw 0 A amount
        (set_fee_rate 0 (fuzz_seeded (withdraw_position 0 0 deposited) deposited))
      in is_ok (result, s) \<and> position_satisfies 1 withdraw_user (\<lambda>p. pos_total_deposited p = deposited - amount) s)"

definition prop_withdraw_preserves_locked_invariant :: "market_view market_accessors \<Rightarrow> i128 \<Rightarrow> i128 \<Rightarrow> bool" where
  "prop_withdraw_preserves_locked_invariant A deposited withdraw_amount =
     (case run_withdraw 0 A withdraw_amount (fuzz_seeded (withdraw_position 0 0 deposited) deposited) of
        (Ok _, s) \<Rightarrow> position_satisfies 1 withdraw_user
           (\<lambda>updated. pos_locked_collateral updated \<le> pos_total_deposited updated) s
      | (Err _, s) \<Rightarrow> True
      | (Panic, s) \<Rightarrow> False)"

section \<open>A trade and a deposit\<close>

definition prop_deposit_preserves_locked_invariant :: "i128 \<Rightarrow> i128 \<Rightarrow> bool" where
  "prop_deposit_preserves_locked_invariant existing_deposited new_deposit =
     (let s0 = set_market 1 make_market (set_version fresh_test_state);
          (traded, s1) = update_position_persist (test_env 0) direct_market unread_arguments 1 withdraw_user 1000 500 5000 s0
      in stored_position 1 withdraw_user s1 \<noteq> None
        \<and> (let (result, s2) = run_deposit withdraw_user 1 new_deposit
               (mint_to (Contract 2) withdraw_user (existing_deposited + new_deposit) s1)
           in is_ok (result, s2) \<and> position_satisfies 1 withdraw_user
                (\<lambda>p. pos_locked_collateral p \<le> pos_total_deposited p) s2))"

section \<open>Properties\<close>

lemma seeded_view:
  "v_ready (store (fuzz_seeded p n)) = True" "v_mode (store (fuzz_seeded p n)) = Normal"
  "v_markets (store (fuzz_seeded p n)) 1 = Some make_market"
  "position_in (store (fuzz_seeded p n)) 1 withdraw_user = p"
  "v_fee_rate (store (fuzz_seeded p n)) = 50" "v_fee_waivers (store (fuzz_seeded p n)) = []"
  "v_last_deposit (store (fuzz_seeded p n)) (1, withdraw_user) = None"
  by (simp_all add: fuzz_seeded_def seeded_def mint_to_def set_position_def set_market_def set_version_def
      with_store_def fresh_test_state_def empty_view_def position_in_def)

text \<open>A request above the unlocked part is refused, whatever the shares and the price are.\<close>

lemma overdrafts_are_refused:
  assumes "arb_withdraw_state drawn"
  shows "prop_withdraw_never_exceeds_available direct_market drawn"
proof -
  obtain y n price d a where drawn: "drawn = (y, n, price, d, a)" by (cases drawn) auto
  have in_range: "0 \<le> d" "d \<le> 10000000" "0 \<le> y" "y \<le> 1000000" "0 \<le> n" "n \<le> 1000000" "0 \<le> price" "price \<le> 10000"
    "1 \<le> a" "a \<le> d + 1"
    using assms by (simp_all add: drawn arb_withdraw_state_def)
  then have l: "calculate_locked_collateral y n price
      = Some (scale_by_bps \<bar>y - n\<bar> (if n \<le> y then price else 10000 - price))"
    by (intro locked_collateral_value) (simp_all add: i128_numerals)
  let ?l = "scale_by_bps \<bar>y - n\<bar> (if n \<le> y then price else 10000 - price)"
  have "0 \<le> ?l" using in_range by (simp add: scale_by_bps_bounds(1))
  define lock where "lock = (if ?l > d then d else ?l)"
  have lock: "0 \<le> lock" "lock \<le> d" using \<open>0 \<le> ?l\<close> in_range(1) by (auto simp: lock_def)
  let ?p = "(withdraw_position y lock d)\<lparr>pos_no_shares := n\<rparr>"
  let ?s = "fuzz_seeded ?p (d + a)"
  have sub: "saturating_sub d lock = d - lock"
    using lock in_range by (simp add: saturating_sub_def in_i128_def i128_numerals)
  have small: "0 \<le> a div 200" "a div 200 \<le> a" using in_range by linarith+
  have "withdrawal_refusal (test_env 0) (store ?s) withdraw_user 1 a = Some InsufficientCollateral" if "d - lock < a"
    using that in_range lock small
    unfolding withdrawal_refusal_def Let_def fee_due_def in_cooldown_def seeded_view
    by (simp add: make_market_def test_market_def withdraw_position_def sub i128_numerals
        max_reasonable_amount_value)
  then have "\<exists>s'. run_withdraw 0 direct_market a ?s = (Err InsufficientCollateral, s')" if "d - lock < a"
    using that market_direct.withdrawal_refused[of "test_env 0" withdraw_user ?s 1 a InsufficientCollateral
        ledger_client "\<lambda>_ _ _ _ _ _. None"]
    by (auto simp: run_withdraw_def test_env_def)
  then show ?thesis
    unfolding prop_withdraw_never_exceeds_available_def drawn
    using lock l sub by (auto simp: Let_def lock_def[symmetric])
qed

text \<open>
  With a debit that stops at zero, an accepted withdrawal takes exactly the amount off the deposit,
  and every withdrawal leaves the lock covered; with one that traps, the first test fails.
\<close>

lemmas withdraw_eval = run_withdraw_def withdraw_unused_collateral_def withdraw_fee_def withdraw_payout_def
  cooldown_check_def route_fee_def market_emits large_withdraw_threshold_def validate_fee_rate_bps_def
  validate_market_price_def calculate_fee_def checked_mul_def checked_sub_def saturating_sub_def
  checked_div_def fuzz_seeded_def seeded_def lenient_market_def make_market_def withdraw_position_def
  set_fee_rate_def opt_ok_or_def sdiv_nonneg

lemma lenient_withdrawals_decrement:
  assumes "0 < amount" "amount \<le> deposited" "deposited \<le> 10000000"
  shows "prop_successful_withdraw_decrements_deposited lenient_market deposited amount"
  using assms
  by (simp add: prop_successful_withdraw_decrements_deposited_def withdraw_eval test_defs run_simps)

lemma trapping_withdrawals_fail:
  assumes "0 < amount" "amount \<le> deposited" "deposited \<le> 10000000"
  shows "\<not> prop_successful_withdraw_decrements_deposited direct_market deposited amount"
  using assms
  by (simp add: prop_successful_withdraw_decrements_deposited_def withdraw_eval test_defs run_simps)

lemma lenient_withdrawals_cover_the_lock:
  assumes "100 \<le> deposited" "deposited \<le> 1000000" "1 \<le> amount" "amount \<le> 100000" "amount \<le> deposited"
  shows "prop_withdraw_preserves_locked_invariant lenient_market deposited amount"
proof -
  have fee: "0 \<le> amount div 200" "amount div 200 \<le> amount" using assms by linarith+
  consider "amount div 200 = 0" | "0 < amount div 200" "amount + amount div 200 \<le> deposited"
    | "0 < amount div 200" "deposited < amount + amount div 200" using fee by linarith
  then show ?thesis
    by cases (use assms fee in \<open>simp_all add: prop_withdraw_preserves_locked_invariant_def
      withdraw_eval test_defs run_simps\<close>)
qed

text \<open>
  A trade on an empty position locks 250 without any deposit; so the property for deposits holds
  exactly when the deposit drawn covers that lock.
\<close>

lemma small_deposits_break_the_lock:
  assumes "0 \<le> existing_deposited" "existing_deposited \<le> 5000000" "0 < new_deposit" "new_deposit \<le> 5000000"
  shows "prop_deposit_preserves_locked_invariant existing_deposited new_deposit \<longleftrightarrow> 250 \<le> new_deposit"
  using assms
  by (simp add: prop_deposit_preserves_locked_invariant_def update_position_persist_def announce_update_run require_price_def
      peek_position_def poke_position_def position_limit_exceeded_side_def validate_position_change_def
      relock_def calculate_locked_collateral_def scale_by_bps_def basis_points_def on_err_def
      saturating_mul_def clamp_i128_def withdraw_eval test_defs run_simps)

end
