(* ===== verification/Contract_Tests.thy ===== *)
theory Contract_Tests
  imports Outcome_Storage Outcome_Token Market_Vectors Treasury_Distribution Resolution_State Market_Entry
begin

text \<open>
  The tests beside the other contracts: the outcome token's, the schema-version tests of two storage
  layers, the golden vectors of the market's events, the reviewer checklist of the market entry
  contract and the property tests of the treasury's reference distribution. Each test is a boolean
  over the model it tests; a call that may fail is one transaction.
\<close>

section \<open>contracts/outcome-token/src/lib.rs\<close>

definition mock_all_auths :: env where
  "mock_all_auths = \<lparr>ledger_timestamp = 0, current_contract_address = Contract 1, network_id = [],
     authorized = (\<lambda>_. True), has_executable = (\<lambda>_. False)\<rparr>"

definition symbol_of :: "nat \<Rightarrow> string" where "symbol_of len = replicate len CHR ''s''"
definition name_of :: "nat \<Rightarrow> string" where "name_of len = replicate len CHR ''n''"

definition try_initialize :: "string \<Rightarrow> string \<Rightarrow> outcome_token
    \<Rightarrow> (outcome_token_error, unit) result \<times> outcome_token" where
  "try_initialize symbol nm = invoke (outcome_initialize mock_all_auths (Account 1) symbol nm)"

definition accepts_symbol_and_name_at_cap :: bool where
  "accepts_symbol_and_name_at_cap =
     (let symbol = symbol_of max_symbol_len; nm = name_of max_name_len
      in case try_initialize symbol nm fresh_outcome_token of
           (Ok _, s) \<Rightarrow> fst (outcome_get_symbol s) = Ok symbol \<and> fst (outcome_get_name s) = Ok nm
         | (Err e, s) \<Rightarrow> False | (Panic, s) \<Rightarrow> False)"

definition rejects_symbol_over_cap :: bool where
  "rejects_symbol_over_cap =
     (fst (try_initialize (symbol_of (max_symbol_len + 1)) (name_of 4) fresh_outcome_token) = Err SymbolTooLong)"

definition rejects_name_over_cap :: bool where
  "rejects_name_over_cap =
     (fst (try_initialize (symbol_of 4) (name_of (max_name_len + 1)) fresh_outcome_token) = Err NameTooLong)"

definition rejects_empty_symbol_and_name :: bool where
  "rejects_empty_symbol_and_name =
     (let (r1, s1) = try_initialize [] (name_of 4) fresh_outcome_token
      in r1 = Err EmptySymbol \<and> fst (try_initialize (symbol_of 4) [] s1) = Err EmptyName)"

definition set_metadata_enforces_caps :: bool where
  "set_metadata_enforces_caps =
     (case try_initialize (symbol_of 4) (name_of 4) fresh_outcome_token of
        (Ok _, s) \<Rightarrow> (let (res, s') = invoke (outcome_set_metadata mock_all_auths (Account 1)
             (symbol_of (max_symbol_len + 1)) (name_of 4)) s
           in res = Err SymbolTooLong \<and> fst (outcome_get_symbol s') = Ok (symbol_of 4))
      | (Err e, s) \<Rightarrow> False | (Panic, s) \<Rightarrow> False)"

definition set_metadata_rejects_non_admin :: bool where
  "set_metadata_rejects_non_admin =
     (case try_initialize (symbol_of 4) (name_of 4) fresh_outcome_token of
        (Ok _, s) \<Rightarrow> fst (invoke (outcome_set_metadata mock_all_auths (Account 2) (symbol_of 4) (name_of 4)) s)
           = Err NotAuthorized
      | (Err e, s) \<Rightarrow> False | (Panic, s) \<Rightarrow> False)"

lemma outcome_token_tests_pass:
  "accepts_symbol_and_name_at_cap" "rejects_symbol_over_cap" "rejects_name_over_cap"
  "rejects_empty_symbol_and_name" "set_metadata_enforces_caps" "set_metadata_rejects_non_admin"
  by code_simp+

section \<open>The schema version\<close>

definition ots_version_passes_when_current :: bool where
  "ots_version_passes_when_current =
     (case ots_set_version fresh_outcome_store of
        (Ok _, s) \<Rightarrow> fst (ots_assert_version s) = Ok () | (Err e, s) \<Rightarrow> False | (Panic, s) \<Rightarrow> False)"

definition ots_version_fails_when_stale :: bool where
  "ots_version_fails_when_stale =
     (fst (ots_assert_version (fresh_outcome_store\<lparr>skey_storage_version := Some 0\<rparr>))
      = Err outcome_contract_error.UpgradeRequired)"

definition ots_version_fails_when_missing :: bool where
  "ots_version_fails_when_missing =
     (fst (ots_assert_version fresh_outcome_store) = Err outcome_contract_error.UpgradeRequired)"

definition res_version_passes_when_current :: "'x \<Rightarrow> bool" where
  "res_version_passes_when_current x =
     (case res_set_version (fresh_resolution x) of
        (Ok _, s) \<Rightarrow> fst (res_assert_version s) = Ok () | (Err e, s) \<Rightarrow> False | (Panic, s) \<Rightarrow> False)"

definition res_version_fails_when_stale :: "'x \<Rightarrow> bool" where
  "res_version_fails_when_stale x =
     (fst (res_assert_version ((fresh_resolution x)\<lparr>key_storage_version := Some 0\<rparr>))
      = Err resolution_error.UpgradeRequired)"

definition res_version_fails_when_missing :: "'x \<Rightarrow> bool" where
  "res_version_fails_when_missing x =
     (fst (res_assert_version (fresh_resolution x)) = Err resolution_error.UpgradeRequired)"

definition test_treasury_storage_round_trip :: "address \<Rightarrow> 'x \<Rightarrow> bool" where
  "test_treasury_storage_round_trip treasury x =
     (res_get_treasury (fresh_resolution x) = None
      \<and> (case res_set_treasury treasury (fresh_resolution x) of
          (Ok _, s) \<Rightarrow> res_get_treasury s = Some treasury | (Err e, s) \<Rightarrow> False | (Panic, s) \<Rightarrow> False))"

lemma version_tests_pass:
  "ots_version_passes_when_current" "ots_version_fails_when_stale" "ots_version_fails_when_missing"
  "res_version_passes_when_current x" "res_version_fails_when_stale x" "res_version_fails_when_missing x"
  "test_treasury_storage_round_trip treasury x"
  by (simp_all add: ots_version_passes_when_current_def ots_version_fails_when_stale_def
      ots_version_fails_when_missing_def res_version_passes_when_current_def
      res_version_fails_when_stale_def res_version_fails_when_missing_def
      test_treasury_storage_round_trip_def ots_set_version_def ots_assert_version_def
      ots_get_version_def ots_storage_version_def fresh_outcome_store_def res_set_version_def
      res_assert_version_def res_get_version_def resolution_storage_version_def fresh_resolution_def
      res_get_treasury_def res_set_treasury_def run_simps)

section \<open>The reviewer checklist of the market entry contract\<close>

text \<open>\<open>guide\<close> is the text of \<^verbatim>\<open>STORAGE_MIGRATION_GUIDE.md\<close> the test includes.\<close>

primrec contains :: "string \<Rightarrow> string \<Rightarrow> bool" where
  "contains word [] \<longleftrightarrow> word = []"
| "contains word (c # cs) \<longleftrightarrow> take (length word) (c # cs) = word \<or> contains word cs"

definition all_storage_keys_are_documented_and_unique :: "string \<Rightarrow> bool" where
  "all_storage_keys_are_documented_and_unique guide =
     (distinct (map key_symbol all_storage_keys)
      \<and> list_all (\<lambda>key. contains (key_name key) guide) all_storage_keys)"

definition money_path_keys_are_flagged :: bool where
  "money_path_keys_are_flagged = list_all (\<lambda>key.
     key \<in> {KLiquidityPool, KPosition, KSettlement, KFeeAccrued, KMintOnTradeSeen} \<longrightarrow> is_money_path key)
     all_storage_keys"

lemma checklist_unique: "all_storage_keys_are_documented_and_unique guide \<longleftrightarrow>
    list_all (\<lambda>key. contains (key_name key) guide) all_storage_keys"
  by (simp add: all_storage_keys_are_documented_and_unique_def all_storage_keys_def)

lemma checklist_money_path: "money_path_keys_are_flagged"
  by (simp add: money_path_keys_are_flagged_def is_money_path_def list_all_iff)

section \<open>contracts/market/src/tests_vectors.rs\<close>

definition fee_collected_topic :: string where "fee_collected_topic = ''fee_collected''"

definition golden_vector_is_valid :: "nat \<Rightarrow> bool" where
  "golden_vector_is_valid k = (let fixture = fee_collected_golden k
     in fixture_validate fixture = Inr () \<and> ff_fee_stroops fixture = 1250
       \<and> ff_asset fixture = map of_char ''USDC'')"

definition correlation_id_is_deterministic_and_replay_safe :: "nat \<Rightarrow> bool" where
  "correlation_id_is_deterministic_and_replay_safe k =
     (let a = correlation_id_for k 42 1000000; other = correlation_id_for k 43 1000000
      in a \<noteq> 0 \<and> a \<noteq> other)"

definition negative_fee_is_rejected_fail_closed :: "nat \<Rightarrow> bool" where
  "negative_fee_is_rejected_fail_closed k =
     (fixture_validate ((fee_collected_golden k)\<lparr>ff_fee_stroops := - 1\<rparr>) = Inl InvalidFeeAmount)"

definition empty_asset_is_rejected :: "nat \<Rightarrow> bool" where
  "empty_asset_is_rejected k =
     (fixture_validate ((fee_collected_golden k)\<lparr>ff_asset := [0, 0, 0, 0]\<rparr>) = Inl InvalidAsset)"

definition zero_correlation_id_is_rejected :: "nat \<Rightarrow> bool" where
  "zero_correlation_id_is_rejected k =
     (fixture_validate ((fee_collected_golden k)\<lparr>ff_correlation_id := 0\<rparr>) = Inl InvalidCorrelationId)"

text \<open>With position ids of four or of eight bytes, the FNV hashes are computed.\<close>

lemma correlation_test_passes:
  "correlation_id_is_deterministic_and_replay_safe 4" "correlation_id_is_deterministic_and_replay_safe 8"
  by (simp_all add: correlation_id_is_deterministic_and_replay_safe_def correlation_id_for_def Let_def
      fnv1a_def fnv_step_def le_bytes_def upt_rec)

text \<open>Whatever the width of a position id.\<close>

lemma vector_tests_pass:
  "golden_vector_is_valid k" "negative_fee_is_rejected_fail_closed k" "empty_asset_is_rejected k"
  "zero_correlation_id_is_rejected k"
  by (simp_all add: golden_vector_is_valid_def negative_fee_is_rejected_fail_closed_def
      empty_asset_is_rejected_def zero_correlation_id_is_rejected_def fee_collected_golden_def
      fixture_validate_def correlation_id_for_def check_def try_then_def Let_def)

section \<open>contracts/treasury/src/distribute_proptest.rs\<close>

definition max_recipients :: nat where "max_recipients = 16"

definition weights_strategy :: "u128 list \<Rightarrow> bool" where
  "weights_strategy ws \<longleftrightarrow> list_all (\<lambda>w. 1 \<le> w \<and> w \<le> 1000000) ws \<and> 1 \<le> length ws \<and> length ws \<le> max_recipients"

definition fresh_distribute_state :: distribute_state where
  "fresh_distribute_state = \<lparr>ds_distributed_total = 0, ds_invocations = 0, ds_processed = []\<rparr>"

definition distribute_conserves_total :: "i128 \<Rightarrow> u128 list \<Rightarrow> bool" where
  "distribute_conserves_total amount weights = (case compute_distribution amount weights of
     Inl e \<Rightarrow> False
   | Inr dist \<Rightarrow> sum_list (dist_amounts dist) = amount \<and> dist_total dist = amount
       \<and> length (dist_amounts dist) = length weights)"

definition distribute_never_overflows :: "i128 \<Rightarrow> u128 list \<Rightarrow> bool" where
  "distribute_never_overflows amount weights = (case compute_distribution amount weights of
     Inl e \<Rightarrow> False
   | Inr dist \<Rightarrow> list_all (\<lambda>a. a \<ge> 0) (dist_amounts dist) \<and> dist_total dist \<ge> 0)"

definition distribute_replay_does_not_double_spend :: "i128 \<Rightarrow> u128 list \<Rightarrow> u64 \<Rightarrow> bool" where
  "distribute_replay_does_not_double_spend amount weights request_id =
     (case apply_distribute Treasurer request_id amount weights fresh_distribute_state of
        (Ok fst_dist, after_first) \<Rightarrow>
          (let (replay, state) = apply_distribute Treasurer request_id amount weights after_first
           in replay = Err Replay \<and> state = after_first \<and> ds_distributed_total state = dist_total fst_dist
             \<and> ds_invocations state = 1)
      | (Err e, s) \<Rightarrow> False | (Panic, s) \<Rightarrow> False)"

definition distribute_rejects_unauthorized :: "i128 \<Rightarrow> u128 list \<Rightarrow> u64 \<Rightarrow> bool" where
  "distribute_rejects_unauthorized amount weights request_id =
     (apply_distribute Public request_id amount weights fresh_distribute_state
      = (Err distribute_error.Unauthorized, fresh_distribute_state))"

definition distribute_rejects_empty_weights :: "i128 \<Rightarrow> u64 \<Rightarrow> bool" where
  "distribute_rejects_empty_weights amount request_id =
     (apply_distribute Admin request_id amount [] fresh_distribute_state
      = (Err InvalidWeights, fresh_distribute_state))"

text \<open>
  The property tests hold for every list of weights as long as no product overflows: for totals up
  to \<open>(2^128 - 1) div 10^6\<close>.
\<close>

lemma sum_list_le_length:
  "list_all (\<lambda>w. 1 \<le> w \<and> w \<le> n) ws \<Longrightarrow> length ws \<le> sum_list ws \<and> sum_list ws \<le> length ws * (n :: nat)"
  by (induction ws) auto

lemma weights_strategy_sum:
  "weights_strategy ws \<Longrightarrow> 0 < sum_list ws \<and> sum_list ws \<le> length ws * 1000000"
  using sum_list_le_length[of 1000000 ws] by (simp add: weights_strategy_def)

lemma distribution_tests_pass:
  assumes ws: "weights_strategy ws" and n: "0 \<le> n" "n \<le> 340282366920938463463374607431768"
  shows "distribute_conserves_total n ws" "distribute_never_overflows n ws"
    "distribute_replay_does_not_double_spend n ws request_id"
proof -
  have pos: "0 < sum_list ws" and le: "sum_list ws \<le> length ws * 1000000"
    using weights_strategy_sum[OF ws] by simp_all
  have small: "nat n * w \<le> u128_max" if "w \<in> set (butlast ws)" for w
  proof -
    have "w \<le> 1000000" using ws in_set_butlastD[OF that] by (simp add: weights_strategy_def list_all_iff)
    then have "nat n * w \<le> 340282366920938463463374607431768 * 1000000" using n by (intro mult_le_mono) auto
    then show ?thesis by (simp add: u128_numeral)
  qed
  have d: "compute_distribution n ws = Inr (distribution_of n ws)"
    using n pos le small ws by (subst compute_distribution_value)
      (auto simp: i128_numerals u128_numeral weights_strategy_def max_recipients_def not_less[symmetric]
        simp del: sum_list_eq_0_iff)
  note a = distribution_of_amounts[OF n(1) pos]
  have t: "dist_total (distribution_of n ws) = n" by (simp add: distribution_of_def Let_def)
  show "distribute_conserves_total n ws" "distribute_never_overflows n ws"
    using a t n by (simp_all add: distribute_conserves_total_def distribute_never_overflows_def d list_all_iff)
  show "distribute_replay_does_not_double_spend n ws request_id"
    using n t by (simp add: distribute_replay_does_not_double_spend_def apply_distribute_def authorize_def
        fresh_distribute_state_def d in_i128_def i128_numerals u32_max_def run_simps)
qed

lemma compute_distribution_empty [simp]: "compute_distribution n [] = Inl InvalidWeights"
  by (simp add: compute_distribution_def check_def try_then_def)

lemma refused_distribution_tests_pass:
  "distribute_rejects_unauthorized n ws request_id" "distribute_rejects_empty_weights n request_id"
  by (simp_all add: distribute_rejects_unauthorized_def distribute_rejects_empty_weights_def
      apply_distribute_def authorize_def fresh_distribute_state_def run_simps)

end
