(* ===== verification/Error_Codes.thy ===== *)
theory Error_Codes
  imports Market_Types Resolution_State Treasury_State Outcome_Storage Outcome_Token Market_Entry
begin

text \<open>
  The numbers of the contracts' errors: the \<^verbatim>\<open>repr(u32)\<close> discriminants of the four files
  \<^verbatim>\<open>error.rs\<close> and of the enums of \<^verbatim>\<open>market/src/lib.rs\<close> and \<^verbatim>\<open>outcome-token/src/lib.rs\<close>, against the
  table \<^verbatim>\<open>docs/error-codes.md\<close> that clients decode them by. \<open>None\<close> is the number of a market error
  that the modules return and the enum does not declare.
\<close>

section \<open>\<^verbatim>\<open>contracts/market/src/error.rs\<close>\<close>

primrec market_error_code :: "market_error \<Rightarrow> u32 option" where
  "market_error_code market_error.MarketNotFound = Some 1"
| "market_error_code market_error.MarketAlreadyResolved = Some 2"
| "market_error_code market_error.MarketNotResolved = Some 3"
| "market_error_code market_error.MarketExpired = Some 4"
| "market_error_code market_error.MarketNotActive = Some 5"
| "market_error_code market_error.MarketClosedToDeposits = Some 6"
| "market_error_code market_error.WithdrawCooldownActive = Some 7"
| "market_error_code market_error.InsufficientCollateral = Some 10"
| "market_error_code market_error.PositionAlreadySettled = Some 11"
| "market_error_code market_error.NoPositionFound = Some 12"
| "market_error_code market_error.InvalidShareAmount = Some 13"
| "market_error_code market_error.BatchTooLarge = Some 14"
| "market_error_code market_error.InvalidSignature = Some 20"
| "market_error_code market_error.UnauthorizedOracle = Some 21"
| "market_error_code market_error.InvalidOutcome = Some 22"
| "market_error_code market_error.OraclePriceUnavailable = Some 23"
| "market_error_code market_error.OracleMessageExpired = Some 24"
| "market_error_code market_error.InvalidThresholdQuorum = Some 25"
| "market_error_code market_error.StalePrice = Some 26"
| "market_error_code market_error.InvalidPrice = Some 30"
| "market_error_code market_error.InvalidQuantity = Some 31"
| "market_error_code market_error.InvalidTimestamp = Some 32"
| "market_error_code market_error.InvalidQuestion = Some 33"
| "market_error_code market_error.InvalidOutcomeCount = Some 34"
| "market_error_code market_error.InvalidAdmin = Some 35"
| "market_error_code market_error.BelowMinDeposit = Some 36"
| "market_error_code market_error.InvalidMetadataUri = Some 37"
| "market_error_code market_error.InvalidFeeRate = Some 38"
| "market_error_code market_error.InvalidFeeWaiverAccount = Some 39"
| "market_error_code market_error.Unauthorized = Some 40"
| "market_error_code market_error.WrongRole = Some 41"
| "market_error_code market_error.AuthExpired = Some 42"
| "market_error_code market_error.ReplayedAction = Some 43"
| "market_error_code market_error.TokenTransferFailed = Some 50"
| "market_error_code market_error.InvalidToken = Some 51"
| "market_error_code market_error.ArithmeticOverflow = Some 60"
| "market_error_code market_error.ArithmeticUnderflow = Some 61"
| "market_error_code market_error.DivisionByZero = Some 62"
| "market_error_code market_error.TreasuryOperationFailed = Some 70"
| "market_error_code market_error.InsufficientTreasuryBalance = Some 71"
| "market_error_code market_error.ReconciliationFailed = Some 80"
| "market_error_code market_error.ConservationViolation = Some 90"
| "market_error_code market_error.UpgradeRequired = None"
| "market_error_code market_error.NotInitialized = None"
| "market_error_code market_error.ContractPaused = None"
| "market_error_code market_error.EmergencyModeActive = None"
| "market_error_code market_error.ReentrantCall = None"
| "market_error_code market_error.NotAdmin = None"
| "market_error_code market_error.FeeWaiverCapReached = None"
| "market_error_code market_error.PositionTokenMismatch = None"
| "market_error_code market_error.ReconciliationAlreadyApplied = None"

definition declared_market_errors :: "market_error list" where
  "declared_market_errors = [market_error.MarketNotFound, market_error.MarketAlreadyResolved,
     market_error.MarketNotResolved, market_error.MarketExpired, market_error.MarketNotActive,
     market_error.MarketClosedToDeposits, market_error.WithdrawCooldownActive,
     market_error.InsufficientCollateral, market_error.PositionAlreadySettled,
     market_error.NoPositionFound, market_error.InvalidShareAmount, market_error.BatchTooLarge,
     market_error.InvalidSignature, market_error.UnauthorizedOracle, market_error.InvalidOutcome,
     market_error.OraclePriceUnavailable, market_error.OracleMessageExpired,
     market_error.InvalidThresholdQuorum, market_error.StalePrice, market_error.InvalidPrice,
     market_error.InvalidQuantity, market_error.InvalidTimestamp, market_error.InvalidQuestion,
     market_error.InvalidOutcomeCount, market_error.InvalidAdmin, market_error.BelowMinDeposit,
     market_error.InvalidMetadataUri, market_error.InvalidFeeRate,
     market_error.InvalidFeeWaiverAccount, market_error.Unauthorized, market_error.WrongRole,
     market_error.AuthExpired, market_error.ReplayedAction, market_error.TokenTransferFailed,
     market_error.InvalidToken, market_error.ArithmeticOverflow, market_error.ArithmeticUnderflow,
     market_error.DivisionByZero, market_error.TreasuryOperationFailed,
     market_error.InsufficientTreasuryBalance, market_error.ReconciliationFailed,
     market_error.ConservationViolation]"

text \<open>The number the documentation gives the variant, if it lists it.\<close>

primrec documented_market_error_code :: "market_error \<Rightarrow> u32 option" where
  "documented_market_error_code market_error.MarketNotFound = Some 1"
| "documented_market_error_code market_error.MarketAlreadyResolved = Some 2"
| "documented_market_error_code market_error.MarketNotResolved = Some 3"
| "documented_market_error_code market_error.MarketExpired = Some 4"
| "documented_market_error_code market_error.MarketNotActive = Some 5"
| "documented_market_error_code market_error.MarketClosedToDeposits = Some 6"
| "documented_market_error_code market_error.WithdrawCooldownActive = Some 7"
| "documented_market_error_code market_error.InsufficientCollateral = Some 10"
| "documented_market_error_code market_error.PositionAlreadySettled = Some 11"
| "documented_market_error_code market_error.NoPositionFound = Some 12"
| "documented_market_error_code market_error.InvalidShareAmount = Some 13"
| "documented_market_error_code market_error.BatchTooLarge = Some 14"
| "documented_market_error_code market_error.InvalidSignature = Some 20"
| "documented_market_error_code market_error.UnauthorizedOracle = Some 21"
| "documented_market_error_code market_error.InvalidOutcome = Some 22"
| "documented_market_error_code market_error.OraclePriceUnavailable = Some 23"
| "documented_market_error_code market_error.OracleMessageExpired = Some 24"
| "documented_market_error_code market_error.InvalidThresholdQuorum = Some 25"
| "documented_market_error_code market_error.StalePrice = Some 26"
| "documented_market_error_code market_error.InvalidPrice = Some 30"
| "documented_market_error_code market_error.InvalidQuantity = Some 31"
| "documented_market_error_code market_error.InvalidTimestamp = Some 32"
| "documented_market_error_code market_error.InvalidQuestion = Some 33"
| "documented_market_error_code market_error.InvalidOutcomeCount = Some 34"
| "documented_market_error_code market_error.InvalidAdmin = Some 35"
| "documented_market_error_code market_error.BelowMinDeposit = Some 36"
| "documented_market_error_code market_error.InvalidMetadataUri = Some 37"
| "documented_market_error_code market_error.InvalidFeeRate = Some 38"
| "documented_market_error_code market_error.InvalidFeeWaiverAccount = Some 39"
| "documented_market_error_code market_error.Unauthorized = Some 41"
| "documented_market_error_code market_error.WrongRole = None"
| "documented_market_error_code market_error.AuthExpired = None"
| "documented_market_error_code market_error.ReplayedAction = None"
| "documented_market_error_code market_error.TokenTransferFailed = None"
| "documented_market_error_code market_error.InvalidToken = None"
| "documented_market_error_code market_error.ArithmeticOverflow = None"
| "documented_market_error_code market_error.ArithmeticUnderflow = None"
| "documented_market_error_code market_error.DivisionByZero = None"
| "documented_market_error_code market_error.TreasuryOperationFailed = None"
| "documented_market_error_code market_error.InsufficientTreasuryBalance = None"
| "documented_market_error_code market_error.ReconciliationFailed = None"
| "documented_market_error_code market_error.ConservationViolation = None"
| "documented_market_error_code market_error.UpgradeRequired = None"
| "documented_market_error_code market_error.NotInitialized = None"
| "documented_market_error_code market_error.ContractPaused = None"
| "documented_market_error_code market_error.EmergencyModeActive = None"
| "documented_market_error_code market_error.ReentrantCall = None"
| "documented_market_error_code market_error.NotAdmin = None"
| "documented_market_error_code market_error.FeeWaiverCapReached = None"
| "documented_market_error_code market_error.PositionTokenMismatch = None"
| "documented_market_error_code market_error.ReconciliationAlreadyApplied = None"

section \<open>\<^verbatim>\<open>contracts/resolution/src/error.rs\<close>\<close>

primrec resolution_error_code :: "resolution_error \<Rightarrow> u32" where
  "resolution_error_code resolution_error.CandidateNotFound = 1"
| "resolution_error_code resolution_error.CandidateAlreadyExists = 2"
| "resolution_error_code resolution_error.CandidateAlreadyChallenged = 3"
| "resolution_error_code resolution_error.CandidateAlreadyFinalized = 4"
| "resolution_error_code resolution_error.ChallengeWindowOpen = 5"
| "resolution_error_code resolution_error.ChallengeWindowClosed = 6"
| "resolution_error_code resolution_error.InvalidChallengeWindow = 7"
| "resolution_error_code resolution_error.InvalidEvidenceUri = 8"
| "resolution_error_code resolution_error.SignatureExpired = 9"
| "resolution_error_code resolution_error.InvalidSignatureExpiry = 10"
| "resolution_error_code resolution_error.MarketAlreadyResolved = 11"
| "resolution_error_code resolution_error.CandidateNotChallenged = 12"
| "resolution_error_code resolution_error.AppealLimitExceeded = 13"
| "resolution_error_code resolution_error.InsufficientBond = 14"
| "resolution_error_code resolution_error.InsufficientCollateral = 15"
| "resolution_error_code resolution_error.InvalidCollateral = 16"
| "resolution_error_code resolution_error.InsufficientChallengeBond = 17"
| "resolution_error_code resolution_error.NotArbitrable = 18"
| "resolution_error_code resolution_error.ArbitrationTimelockNotElapsed = 19"
| "resolution_error_code resolution_error.Unauthorized = 40"
| "resolution_error_code resolution_error.NotAdmin = 41"
| "resolution_error_code resolution_error.AlreadyInitialized = 42"
| "resolution_error_code resolution_error.InvalidAdmin = 43"
| "resolution_error_code resolution_error.EmergencyModeActive = 50"
| "resolution_error_code resolution_error.ContractPaused = 52"
| "resolution_error_code resolution_error.UpgradeRequired = 51"

definition declared_resolution_errors :: "resolution_error list" where
  "declared_resolution_errors = [resolution_error.CandidateNotFound,
     resolution_error.CandidateAlreadyExists, resolution_error.CandidateAlreadyChallenged,
     resolution_error.CandidateAlreadyFinalized, resolution_error.ChallengeWindowOpen,
     resolution_error.ChallengeWindowClosed, resolution_error.InvalidChallengeWindow,
     resolution_error.InvalidEvidenceUri, resolution_error.SignatureExpired,
     resolution_error.InvalidSignatureExpiry, resolution_error.MarketAlreadyResolved,
     resolution_error.CandidateNotChallenged, resolution_error.AppealLimitExceeded,
     resolution_error.InsufficientBond, resolution_error.InsufficientCollateral,
     resolution_error.InvalidCollateral, resolution_error.InsufficientChallengeBond,
     resolution_error.NotArbitrable, resolution_error.ArbitrationTimelockNotElapsed,
     resolution_error.Unauthorized, resolution_error.NotAdmin, resolution_error.AlreadyInitialized,
     resolution_error.InvalidAdmin, resolution_error.EmergencyModeActive,
     resolution_error.ContractPaused, resolution_error.UpgradeRequired]"

text \<open>The number the documentation gives the variant, if it lists it.\<close>

primrec documented_resolution_error_code :: "resolution_error \<Rightarrow> u32 option" where
  "documented_resolution_error_code resolution_error.CandidateNotFound = Some 1"
| "documented_resolution_error_code resolution_error.CandidateAlreadyExists = Some 2"
| "documented_resolution_error_code resolution_error.CandidateAlreadyChallenged = Some 3"
| "documented_resolution_error_code resolution_error.CandidateAlreadyFinalized = Some 4"
| "documented_resolution_error_code resolution_error.ChallengeWindowOpen = Some 5"
| "documented_resolution_error_code resolution_error.ChallengeWindowClosed = Some 6"
| "documented_resolution_error_code resolution_error.InvalidChallengeWindow = Some 7"
| "documented_resolution_error_code resolution_error.InvalidEvidenceUri = Some 8"
| "documented_resolution_error_code resolution_error.SignatureExpired = Some 9"
| "documented_resolution_error_code resolution_error.InvalidSignatureExpiry = Some 10"
| "documented_resolution_error_code resolution_error.MarketAlreadyResolved = Some 11"
| "documented_resolution_error_code resolution_error.CandidateNotChallenged = Some 12"
| "documented_resolution_error_code resolution_error.AppealLimitExceeded = Some 13"
| "documented_resolution_error_code resolution_error.InsufficientBond = Some 14"
| "documented_resolution_error_code resolution_error.InsufficientCollateral = Some 15"
| "documented_resolution_error_code resolution_error.InvalidCollateral = Some 16"
| "documented_resolution_error_code resolution_error.InsufficientChallengeBond = Some 17"
| "documented_resolution_error_code resolution_error.NotArbitrable = Some 18"
| "documented_resolution_error_code resolution_error.ArbitrationTimelockNotElapsed = Some 19"
| "documented_resolution_error_code resolution_error.Unauthorized = Some 40"
| "documented_resolution_error_code resolution_error.NotAdmin = Some 41"
| "documented_resolution_error_code resolution_error.AlreadyInitialized = Some 42"
| "documented_resolution_error_code resolution_error.InvalidAdmin = Some 43"
| "documented_resolution_error_code resolution_error.EmergencyModeActive = Some 50"
| "documented_resolution_error_code resolution_error.ContractPaused = Some 52"
| "documented_resolution_error_code resolution_error.UpgradeRequired = Some 51"

section \<open>\<^verbatim>\<open>contracts/treasury/src/error.rs\<close>\<close>

primrec treasury_error_code :: "treasury_error \<Rightarrow> u32" where
  "treasury_error_code treasury_error.UpgradeRequired = 10"
| "treasury_error_code treasury_error.InsufficientBalance = 21"
| "treasury_error_code treasury_error.InvalidAmount = 31"
| "treasury_error_code treasury_error.InvalidStakeholderWeights = 32"
| "treasury_error_code treasury_error.NotInitialized = 33"
| "treasury_error_code treasury_error.NoStakeholdersConfigured = 34"
| "treasury_error_code treasury_error.NoPendingStakeholderChange = 35"
| "treasury_error_code treasury_error.CallerNotMarket = 40"
| "treasury_error_code treasury_error.Unauthorized = 41"
| "treasury_error_code treasury_error.InvalidAdmin = 43"
| "treasury_error_code treasury_error.AlreadyInitialized = 42"
| "treasury_error_code treasury_error.ContractPaused = 50"
| "treasury_error_code treasury_error.EmergencyModeActive = 51"
| "treasury_error_code treasury_error.DepositsPaused = 52"
| "treasury_error_code treasury_error.ArithmeticOverflow = 60"
| "treasury_error_code treasury_error.TimelockNotElapsed = 70"

definition declared_treasury_errors :: "treasury_error list" where
  "declared_treasury_errors = [treasury_error.UpgradeRequired, treasury_error.InsufficientBalance,
     treasury_error.InvalidAmount, treasury_error.InvalidStakeholderWeights,
     treasury_error.NotInitialized, treasury_error.NoStakeholdersConfigured,
     treasury_error.NoPendingStakeholderChange, treasury_error.CallerNotMarket,
     treasury_error.Unauthorized, treasury_error.InvalidAdmin, treasury_error.AlreadyInitialized,
     treasury_error.ContractPaused, treasury_error.EmergencyModeActive, treasury_error.DepositsPaused,
     treasury_error.ArithmeticOverflow, treasury_error.TimelockNotElapsed]"

text \<open>The number the documentation gives the variant, if it lists it.\<close>

primrec documented_treasury_error_code :: "treasury_error \<Rightarrow> u32 option" where
  "documented_treasury_error_code treasury_error.UpgradeRequired = None"
| "documented_treasury_error_code treasury_error.InsufficientBalance = Some 23"
| "documented_treasury_error_code treasury_error.InvalidAmount = Some 22"
| "documented_treasury_error_code treasury_error.InvalidStakeholderWeights = None"
| "documented_treasury_error_code treasury_error.NotInitialized = Some 2"
| "documented_treasury_error_code treasury_error.NoStakeholdersConfigured = None"
| "documented_treasury_error_code treasury_error.NoPendingStakeholderChange = None"
| "documented_treasury_error_code treasury_error.CallerNotMarket = None"
| "documented_treasury_error_code treasury_error.Unauthorized = Some 10"
| "documented_treasury_error_code treasury_error.InvalidAdmin = None"
| "documented_treasury_error_code treasury_error.AlreadyInitialized = Some 1"
| "documented_treasury_error_code treasury_error.ContractPaused = None"
| "documented_treasury_error_code treasury_error.EmergencyModeActive = None"
| "documented_treasury_error_code treasury_error.DepositsPaused = None"
| "documented_treasury_error_code treasury_error.ArithmeticOverflow = None"
| "documented_treasury_error_code treasury_error.TimelockNotElapsed = None"

section \<open>\<^verbatim>\<open>contracts/outcome-token/src/error.rs\<close>\<close>

primrec outcome_contract_error_code :: "outcome_contract_error \<Rightarrow> u32" where
  "outcome_contract_error_code outcome_contract_error.AlreadyInitialized = 1"
| "outcome_contract_error_code outcome_contract_error.NotInitialized = 2"
| "outcome_contract_error_code outcome_contract_error.Unauthorized = 3"
| "outcome_contract_error_code outcome_contract_error.InsufficientBalance = 4"
| "outcome_contract_error_code outcome_contract_error.InvalidAmount = 5"
| "outcome_contract_error_code outcome_contract_error.Overflow = 6"
| "outcome_contract_error_code outcome_contract_error.MarketNotResolved = 7"
| "outcome_contract_error_code outcome_contract_error.UpgradeRequired = 8"
| "outcome_contract_error_code outcome_contract_error.NoPendingMarketContractChange = 9"
| "outcome_contract_error_code outcome_contract_error.TimelockNotElapsed = 10"
| "outcome_contract_error_code outcome_contract_error.TransferBlockedAfterResolve = 11"
| "outcome_contract_error_code outcome_contract_error.ContractPaused = 12"
| "outcome_contract_error_code outcome_contract_error.EmptyMetadata = 13"
| "outcome_contract_error_code outcome_contract_error.InvalidDecimals = 14"
| "outcome_contract_error_code outcome_contract_error.MetadataTooLong = 15"
| "outcome_contract_error_code outcome_contract_error.NotAdmin = 16"
| "outcome_contract_error_code outcome_contract_error.SymbolTooLong = 17"
| "outcome_contract_error_code outcome_contract_error.NameTooLong = 18"

definition declared_outcome_contract_errors :: "outcome_contract_error list" where
  "declared_outcome_contract_errors = [outcome_contract_error.AlreadyInitialized,
     outcome_contract_error.NotInitialized, outcome_contract_error.Unauthorized,
     outcome_contract_error.InsufficientBalance, outcome_contract_error.InvalidAmount,
     outcome_contract_error.Overflow, outcome_contract_error.MarketNotResolved,
     outcome_contract_error.UpgradeRequired, outcome_contract_error.NoPendingMarketContractChange,
     outcome_contract_error.TimelockNotElapsed, outcome_contract_error.TransferBlockedAfterResolve,
     outcome_contract_error.ContractPaused, outcome_contract_error.EmptyMetadata,
     outcome_contract_error.InvalidDecimals, outcome_contract_error.MetadataTooLong,
     outcome_contract_error.NotAdmin, outcome_contract_error.SymbolTooLong,
     outcome_contract_error.NameTooLong]"

text \<open>The number the documentation gives the variant, if it lists it.\<close>

primrec documented_outcome_contract_error_code :: "outcome_contract_error \<Rightarrow> u32 option" where
  "documented_outcome_contract_error_code outcome_contract_error.AlreadyInitialized = Some 1"
| "documented_outcome_contract_error_code outcome_contract_error.NotInitialized = Some 2"
| "documented_outcome_contract_error_code outcome_contract_error.Unauthorized = Some 3"
| "documented_outcome_contract_error_code outcome_contract_error.InsufficientBalance = Some 4"
| "documented_outcome_contract_error_code outcome_contract_error.InvalidAmount = Some 5"
| "documented_outcome_contract_error_code outcome_contract_error.Overflow = Some 6"
| "documented_outcome_contract_error_code outcome_contract_error.MarketNotResolved = Some 7"
| "documented_outcome_contract_error_code outcome_contract_error.UpgradeRequired = Some 8"
| "documented_outcome_contract_error_code outcome_contract_error.NoPendingMarketContractChange = Some 9"
| "documented_outcome_contract_error_code outcome_contract_error.TimelockNotElapsed = Some 10"
| "documented_outcome_contract_error_code outcome_contract_error.TransferBlockedAfterResolve = Some 11"
| "documented_outcome_contract_error_code outcome_contract_error.ContractPaused = Some 12"
| "documented_outcome_contract_error_code outcome_contract_error.EmptyMetadata = Some 13"
| "documented_outcome_contract_error_code outcome_contract_error.InvalidDecimals = Some 14"
| "documented_outcome_contract_error_code outcome_contract_error.MetadataTooLong = Some 15"
| "documented_outcome_contract_error_code outcome_contract_error.NotAdmin = Some 16"
| "documented_outcome_contract_error_code outcome_contract_error.SymbolTooLong = None"
| "documented_outcome_contract_error_code outcome_contract_error.NameTooLong = None"

section \<open>The enums of two entry files\<close>

primrec storage_error_code :: "storage_error \<Rightarrow> u32" where
  "storage_error_code StorageUnauthorized = 1"
| "storage_error_code UnknownKey = 2"
| "storage_error_code KeyMismatch = 3"
| "storage_error_code StoragePaused = 4"

primrec mint_on_trade_error_code :: "mint_on_trade_error \<Rightarrow> u32" where
  "mint_on_trade_error_code MintUnauthorized = 1"
| "mint_on_trade_error_code MintPaused = 2"
| "mint_on_trade_error_code OutcomeTokenNotConfigured = 3"
| "mint_on_trade_error_code DuplicateCorrelationId = 4"
| "mint_on_trade_error_code MintInvalidAmount = 5"

primrec outcome_token_error_code :: "outcome_token_error \<Rightarrow> u32" where
  "outcome_token_error_code NotAuthorized = 1"
| "outcome_token_error_code EmptySymbol = 2"
| "outcome_token_error_code outcome_token_error.SymbolTooLong = 3"
| "outcome_token_error_code EmptyName = 4"
| "outcome_token_error_code outcome_token_error.NameTooLong = 5"

section \<open>\<^verbatim>\<open>contracts/treasury/src/error.rs\<close>: its test\<close>

definition discriminants_are_stable :: bool where
  "discriminants_are_stable =
     (treasury_error_code treasury_error.UpgradeRequired = 10
      \<and> treasury_error_code treasury_error.InsufficientBalance = 21
      \<and> treasury_error_code treasury_error.InvalidAmount = 31
      \<and> treasury_error_code InvalidStakeholderWeights = 32
      \<and> treasury_error_code treasury_error.NotInitialized = 33
      \<and> treasury_error_code NoStakeholdersConfigured = 34
      \<and> treasury_error_code CallerNotMarket = 40
      \<and> treasury_error_code treasury_error.Unauthorized = 41
      \<and> treasury_error_code treasury_error.AlreadyInitialized = 42
      \<and> treasury_error_code treasury_error.ContractPaused = 50
      \<and> treasury_error_code treasury_error.EmergencyModeActive = 51
      \<and> treasury_error_code DepositsPaused = 52
      \<and> treasury_error_code treasury_error.ArithmeticOverflow = 60)"

section \<open>Numbers identify errors\<close>

lemma treasury_discriminant_test_passes: "discriminants_are_stable"
  by (simp add: discriminants_are_stable_def)

text \<open>The declared market errors are those with a number, and no number is used twice.\<close>

lemma market_error_declared: "market_error_code e \<noteq> None \<longleftrightarrow> e \<in> set declared_market_errors"
  by (cases e) (simp_all add: declared_market_errors_def)

lemma declared_codes_distinct:
  "distinct (map market_error_code declared_market_errors)"
  "distinct (map resolution_error_code declared_resolution_errors)"
  "distinct (map treasury_error_code declared_treasury_errors)"
  "distinct (map outcome_contract_error_code declared_outcome_contract_errors)"
  by (simp_all add: declared_market_errors_def declared_resolution_errors_def
      declared_treasury_errors_def declared_outcome_contract_errors_def)

lemma every_error_is_declared:
  "e1 \<in> set declared_resolution_errors" "e2 \<in> set declared_treasury_errors"
  "e3 \<in> set declared_outcome_contract_errors"
proof -
  show "e1 \<in> set declared_resolution_errors" by (cases e1) (simp_all add: declared_resolution_errors_def)
  show "e2 \<in> set declared_treasury_errors" by (cases e2) (simp_all add: declared_treasury_errors_def)
  show "e3 \<in> set declared_outcome_contract_errors"
    by (cases e3) (simp_all add: declared_outcome_contract_errors_def)
qed

lemma code_inject:
  "distinct (map f xs) \<Longrightarrow> x \<in> set xs \<Longrightarrow> y \<in> set xs \<Longrightarrow> f x = f y \<longleftrightarrow> x = y"
  by (auto simp: distinct_map inj_on_def)

theorem error_codes_identify_errors:
  "market_error_code e = Some c \<Longrightarrow> market_error_code e' = Some c \<Longrightarrow> e = e'"
  "resolution_error_code r = resolution_error_code r' \<longleftrightarrow> r = r'"
  "treasury_error_code t = treasury_error_code t' \<longleftrightarrow> t = t'"
  "outcome_contract_error_code k = outcome_contract_error_code k' \<longleftrightarrow> k = k'"
proof -
  show "e = e'" if "market_error_code e = Some c" "market_error_code e' = Some c"
    using that market_error_declared[of e] market_error_declared[of e']
      code_inject[OF declared_codes_distinct(1), of e e'] by simp
qed (simp_all add: code_inject[OF declared_codes_distinct(2)] code_inject[OF declared_codes_distinct(3)]
    code_inject[OF declared_codes_distinct(4)] every_error_is_declared)

section \<open>The documented numbers\<close>

text \<open>
  The table of Resolution is the code's. That of the outcome token lacks two variants; that of the
  market gives \<open>Unauthorized\<close> the number of \<open>WrongRole\<close> and lacks the twelve after it; that of the
  Treasury has no number right.
\<close>

lemma documented_numbers:
  "documented_resolution_error_code r = Some (resolution_error_code r)"
  "filter (\<lambda>k. documented_outcome_contract_error_code k \<noteq> Some (outcome_contract_error_code k))
     declared_outcome_contract_errors = [outcome_contract_error.SymbolTooLong, outcome_contract_error.NameTooLong]"
  "filter (\<lambda>e. documented_market_error_code e \<noteq> market_error_code e) declared_market_errors
     = drop 29 declared_market_errors"
  "documented_market_error_code market_error.Unauthorized = market_error_code market_error.WrongRole"
  "list_all (\<lambda>t. documented_treasury_error_code t \<noteq> Some (treasury_error_code t)) declared_treasury_errors"
proof -
  show "documented_resolution_error_code r = Some (resolution_error_code r)" by (cases r) simp_all
qed (simp_all add: declared_market_errors_def declared_treasury_errors_def
    declared_outcome_contract_errors_def)

end
