(* ===== verification/Spec2Isabelle.thy ===== *)
theory Spec2Isabelle
  imports Resolution_Properties Treasury_Properties Outcome_Token Market_Entry Market_Keys Market_Ids
    Market_Properties Market_Trading_Properties Market_Oracle_Properties Market_Custody
    Market_Fuzz_Properties Market_Vectors Treasury_Distribution Outcome_Storage Resolution_Bond_Split
    Market_Locks Market_Tests_Deposit Market_Tests_Withdraw Market_Tests_Settlement Market_Tests_Rules
    Market_Tests_Oracle Market_Tests_Events Market_Tests_Fuzz Contract_Tests
    Error_Codes
begin

text \<open>
  The Vatix prediction-market contracts (Soroban, Rust), modelled and verified.

  \<^bold>\<open>The program.\<close> Four contracts under \<^verbatim>\<open>contracts/\<close>. The market contract takes deposits in a
  SEP-41 token, keeps one position per market and user, and pays the winning side once a market is
  resolved. The Resolution contract decides outcomes: a bonded proposal, challenges, appeals, and
  finalization, slashing or refund. The Treasury contract keeps the fees and distributes them to
  weighted stakeholders. The outcome-token contract describes the tokens that stand for a side.
  The contracts meet at \<^verbatim>\<open>resolve_v2\<close> and \<^verbatim>\<open>void_market\<close> (Resolution calls the market, theories
  \<open>Resolution_Disputes\<close> and \<open>Market_Ids\<close>), at \<^verbatim>\<open>collect_fee\<close> (the market calls the Treasury,
  theory \<open>Market_Treasury\<close>) and at the outcome tokens' mint and burn (\<open>Market_Reconciliation\<close>).

  \<^bold>\<open>How code becomes a definition.\<close> \<open>Prelude\<close> has the integers (\<open>u32\<close>, \<open>u64\<close>, \<open>i128\<close> as \<open>nat\<close>
  and \<open>int\<close> with the overflow trap, the checked and the saturating operations written out; the
  crates are built with overflow checks and abort on panic), the invocation environment \<open>env\<close>
  (contract address, ledger time, who authorized) and the contract monad: a call maps a state
  (storage, the world outside, the event log) to \<open>Ok v\<close>, \<open>Err e\<close> or a trap, and a new state. An entrypoint
  is one definition, its statements in the code's order: \<open>ensure\<close> for an early error return,
  \<open>write_store\<close> for a storage write, \<open>invoke_contract\<close> for a call to another contract,
  \<open>publish\<close> for an event. The step relations keep the results that are \<open>Ok\<close>, since the host rolls a
  failed call back. \<open>run_relation\<close> in \<open>Prelude\<close> is the frame rule shared by the components: a
  relation between states that every primitive keeps is kept by every call.

  \<^bold>\<open>Interfaces.\<close> \<open>Interfaces\<close> states the laws of SEP-41 tokens (\<open>sep41\<close>, interpreted on a
  reference ledger) and of a propose/execute timelock (\<open>timelock\<close>, interpreted on the factory and
  the slash treasury of Resolution and the stakeholder list of Treasury). Storage accessors that the
  contracts call and the repository lacks are the parameters \<open>treasury_accessors\<close> and
  \<open>market_accessors\<close>, with their documented laws in the locales \<open>treasury_storage\<close> and
  \<open>market_storage\<close> (each a view of the stored maps, and what each setter does to it), both
  interpreted on accessors of the documented shape. \<open>outcome_ledger\<close> has the laws of the
  outcome-token client; \<open>market_tokens\<close> extends the market's storage by it; \<open>market_over_treasury\<close>
  joins the market's storage, the tokens and a whole treasury.

  \<^bold>\<open>Resolution\<close> (\<^verbatim>\<open>contracts/resolution/src\<close>). \<open>Resolution_State\<close>: the record of its storage, its
  candidates, errors and events. \<open>Resolution\<close> and \<open>Resolution_Disputes\<close>: every entrypoint of
  \<^verbatim>\<open>lib.rs\<close>. \<open>Resolution_Lifecycle\<close>: an abstract machine over candidates and the refinement of the
  contract to it. \<open>Resolution_Invariants\<close>: the reachable states and their invariants. \<open>Resolution_Timelock\<close>,
  \<open>Resolution_Solvency\<close> (the balance covers the bonds of open disputes, in every token) and
  \<open>Resolution_Payouts\<close> (what terminal calls pay). \<open>Resolution_Examples\<close> is a deployment run call by
  call, and \<open>Resolution_Properties\<close> the properties with their instances on it.

  \<^bold>\<open>Treasury\<close> (\<^verbatim>\<open>contracts/treasury/src\<close>). \<open>Treasury_State\<close>: storage, errors, events. \<open>Treasury\<close>:
  every entrypoint. \<open>Treasury_Books\<close>: recorded balances against real balances, and the payout
  arithmetic of \<^verbatim>\<open>distribute_fees\<close>. \<open>Treasury_Invariants\<close>: the invariant of reachable states.
  \<open>Treasury_Properties\<close>: the properties.

  \<^bold>\<open>Market, as its crate builds it\<close> (\<^verbatim>\<open>contracts/market/src/lib.rs\<close>, \<^verbatim>\<open>storage.rs\<close>). \<open>Market_Entry\<close>: the
  entrypoints. \<open>Market_Keys\<close>: the typed storage keys and their encoding. \<open>Market_Ids\<close>: market ids
  across contracts.

  \<^bold>\<open>Market modules\<close> (the other files of \<^verbatim>\<open>contracts/market/src\<close>). \<open>Market_Types\<close> and
  \<open>Market_Events\<close>: \<^verbatim>\<open>types.rs\<close>, \<^verbatim>\<open>error.rs\<close>, \<^verbatim>\<open>events.rs\<close>. \<open>Market_Validation\<close>: \<^verbatim>\<open>validation.rs\<close>.
  \<open>Market_Storage\<close>: the interface to their storage. \<open>Market_Funds\<close>: \<^verbatim>\<open>deposit.rs\<close> and
  \<^verbatim>\<open>withdraw.rs\<close>. \<open>Market_Positions\<close>: \<^verbatim>\<open>positions.rs\<close>, with the lock arithmetic.
  \<open>Market_Reconciliation\<close>: \<^verbatim>\<open>reconciliation.rs\<close>. \<open>Market_Settlement\<close>: \<^verbatim>\<open>settlement.rs\<close>, single,
  batch and page. \<open>Market_Waivers\<close>: \<^verbatim>\<open>fee_waiver.rs\<close>. \<open>Market_Oracle\<close>: \<^verbatim>\<open>oracle.rs\<close> and
  \<^verbatim>\<open>oracle_adapter.rs\<close>. For every operation there is one lemma \<open>..._ok\<close> that says what a
  successful call found, wrote, paid and published; the composed theories use only those.
  \<open>Market_Lifecycle\<close> makes the operations one step relation and proves that positions stay well
  formed and payments are reported at most once. \<open>Market_Paging\<close> compares paging with one
  settlement of all participants. \<open>Market_Treasury\<close> runs withdrawals against the Treasury model.
  \<open>Market_Examples\<close> holds the concrete market of the witnesses; the properties are in
  \<open>Market_Properties\<close>, \<open>Market_Trading_Properties\<close> and \<open>Market_Oracle_Properties\<close>.
  \<open>Market_Decisions\<close> decides deposits and withdrawals: the error of the first failing guard, or the
  run that follows when none fails. \<open>Market_Custody\<close> relates the market's balance to the deposits it
  records while it trades, and shows that settlements, in any sequence, pay winning shares and nothing
  else. \<open>Market_Locks\<close> decides share updates and the lock, \<open>Market_Vectors\<close> has the event vectors
  of \<^verbatim>\<open>tests_vectors.rs\<close> and their FNV-1a ids, and \<open>Error_Codes\<close> the numbers of all errors against
  \<^verbatim>\<open>docs/error-codes.md\<close>.

  \<^bold>\<open>Outcome token\<close> (\<^verbatim>\<open>contracts/outcome-token/src\<close>): \<open>Outcome_Token\<close> is its \<^verbatim>\<open>lib.rs\<close>,
  \<open>Outcome_Storage\<close> the files \<^verbatim>\<open>storage.rs\<close>, \<^verbatim>\<open>types.rs\<close> and \<^verbatim>\<open>error.rs\<close> that its crate does not
  include.

  \<^bold>\<open>Reference models of the tests.\<close> \<open>Treasury_Distribution\<close> is the reference distribution of
  \<^verbatim>\<open>distribute_proptest.rs\<close>, compared with \<^verbatim>\<open>distribute_fees\<close>; \<open>Resolution_Bond_Split\<close> the properties of
  \<^verbatim>\<open>bond_split_proptest.rs\<close>. \<open>Market_Fuzz\<close> is the independent model and the harness of
  \<^verbatim>\<open>withdraw_fuzz.rs\<close>, with its \<open>i128\<close> overflows; \<open>Market_Fuzz_World\<close> proves, in a locale over the world
  around the market, that the contract keeps in step with that model. The trading entrypoint the test
  calls is in no file; its law in that locale says what the documents of the repository say of it, and no
  more: which functions of \<^verbatim>\<open>positions.rs\<close> it calls, and what it leaves alone.
  \<open>Market_Fuzz_Boundary\<close> does its boundary tests, and
  \<open>Market_Fuzz_Properties\<close> interprets the locale on the Treasury model and the reference ledger, so that
  no assertion of the random test can fail. Its operations are bounded by a thousand per sequence, as
  more could exhaust the funds and the time the harness starts with. \<open>Market_Tests_Fuzz\<close> has the
  single-call properties of the file.

  \<^bold>\<open>Unit tests.\<close> The tests beside the code are booleans over the model, evaluated by the kernel.
  \<open>Market_Tests\<close> is their host: environment, stored state and token. \<open>Market_Fixtures\<close> has the published
  form of every event and the indexer fixtures; \<open>Market_Tests_Events\<close>, \<open>Market_Tests_Deposit\<close>,
  \<open>Market_Tests_Withdraw\<close>, \<open>Market_Tests_Settlement\<close> (with \<^verbatim>\<open>reconciliation.rs\<close>), \<open>Market_Tests_Rules\<close>
  (\<^verbatim>\<open>validation.rs\<close>, \<^verbatim>\<open>fee_waiver.rs\<close>) and \<open>Market_Tests_Oracle\<close> (with \<^verbatim>\<open>oracle_adapter.rs\<close>) are
  the suites of the market modules, \<open>Contract_Tests\<close> those of the other files. They show that the model
  answers as the tests expect, and, where it does not, why: a lemma \<open>..._fail\<close> names each test that the
  code as written does not pass. Tests with a random key assume a hash and a signature scheme with
  the laws of \<open>test_signers\<close>, which a concrete scheme satisfies (\<open>toy_signers\<close>).

  \<^bold>\<open>Bounds and fuel.\<close> Loops of the code run over stored lists and are structural recursion here. The
  one loop without a bound is the caller's, who pages through a settlement: \<open>settle_pages\<close> has the
  number of calls as its fuel, and running out is the visible value \<open>(index, False)\<close>. Fuel times
  page size at least the number of participants is enough (\<open>paging_ends\<close>); a page of size 0 is
  never enough (\<open>a_zero_page_never_ends\<close>). The search for the largest withdrawal in
  \<^verbatim>\<open>withdraw_fuzz.rs\<close> is two loops that can panic (\<open>while_checked\<close>, over \<open>while_option\<close>). Where the scaled amount
  fits into \<open>i128\<close> they are proved to end without an overflow; where it does not, the search panics before
  them (\<open>the_largest_withdrawal_is_found\<close>).
  Participant lists are at most \<open>u32_max\<close> long, the length of a Soroban vector.

  \<^bold>\<open>Not modelled.\<close> Rent (\<^verbatim>\<open>extend_ttl\<close>), logging and the serialization of events. The bodies of
  token contracts, of price oracles, of keccak256 and of the signature primitives, which are parameters. The market
  modules do not compile as they stand (\<^verbatim>\<open>positions.rs\<close> is cut off inside its last call, \<^verbatim>\<open>fee_rate.rs\<close>
  is empty, several calls of emit helpers have another number of arguments, \<^verbatim>\<open>lib.rs\<close> does not
  declare the modules): each is modelled up to the point where its text ends, with the missing value
  as an argument (of the event that ends \<open>update_position\<close>, the three numbers it shows). Entrypoints that tests call and no file declares (\<^verbatim>\<open>initialize_market\<close>,
  \<^verbatim>\<open>resolve_market\<close> and \<^verbatim>\<open>update_position\<close> of the market) are not made up: the end-to-end
  tests of \<^verbatim>\<open>settlement.rs\<close> start from the stored market instead, and the constructor of the fuzz
  harness, \<^verbatim>\<open>withdrawn_collateral_cannot_back_new_trades\<close> and the two tests that burn outcome tokens are
  left out. So are tests about the host or the file system: the authorization test of
  \<^verbatim>\<open>bond_split_proptest.rs\<close>, \<^verbatim>\<open>export_oracle_test_vector\<close>, and tests that a pure function gives the same
  result twice. The crate-level tests under \<^verbatim>\<open>tests/\<close> and the \<^verbatim>\<open>test.rs\<close> files, the web application,
  scripts and bindings are client code.
\<close>

end
